(* ===== verification/Prelude.thy ===== *)
theory Prelude
  imports
    Complex_Main
    "HOL-Library.AList"
    "HOL-Library.Sublist"
    "HOL-Library.Char_ord"
    "HOL-Library.List_Lexorder"
    "HOL-Library.Product_Lexorder"
begin

text \<open>
  The part of Python that every component uses: exceptions as values, effectful code as
  state-passing computations, dictionaries as association lists in insertion order, JSON-like
  values, and the few string functions the sources call. A string is the list of the bytes of its
  UTF-8 encoding, so that comparison, concatenation, files, JSON and digests agree with those of
  the text; lengths count bytes, and the blanks and letters of \<open>strip\<close>, \<open>lower\<close>, \<open>upper\<close> and of
  the regular expressions are those of ASCII. \<open>float\<close> is modelled by the rational numbers (no rounding of the last binary digit, no
  infinities), \<open>int\<close> by the unbounded integers.
\<close>

section \<open>Exceptions\<close>

text \<open>
  The exception classes the sources raise or catch. \<open>exn_bases\<close> lists a class and its
  ancestors, so that an \<open>except\<close> clause naming a class also catches its subclasses.
\<close>

datatype exn_class =
    Exception_class | ValueError | TypeError | KeyError | IndexError | AttributeError
  | RuntimeError | OverflowError | OSError | FileExistsError | FileNotFoundError
  | CaseNotFound | ConcurrentCaseUpdate | ProductRecordNotFound | DuplicateProductRecord
  | FindingNotFound | DuplicateFinding | UsageAnalysisError | ActionPlaneError
  | PreApprovalError | PathEscape | AgentRunStopped | IntegrityError | UnicodeDecodeError
  | RemediationPlanningError | TerraformChecksFailed | TerraformLinkError | TerraformLinkNotFound
  | AmbiguousTerraformLink

datatype exn = Raise (exn_cls: exn_class) (exn_msg: string)

fun exn_bases :: "exn_class \<Rightarrow> exn_class list" where
  "exn_bases Exception_class = [Exception_class]"
| "exn_bases FileExistsError = [FileExistsError, OSError, Exception_class]"
| "exn_bases FileNotFoundError = [FileNotFoundError, OSError, Exception_class]"
| "exn_bases CaseNotFound = [CaseNotFound, KeyError, Exception_class]"
| "exn_bases ProductRecordNotFound = [ProductRecordNotFound, KeyError, Exception_class]"
| "exn_bases FindingNotFound = [FindingNotFound, KeyError, Exception_class]"
| "exn_bases ConcurrentCaseUpdate = [ConcurrentCaseUpdate, RuntimeError, Exception_class]"
| "exn_bases DuplicateProductRecord = [DuplicateProductRecord, RuntimeError, Exception_class]"
| "exn_bases DuplicateFinding = [DuplicateFinding, RuntimeError, Exception_class]"
| "exn_bases ActionPlaneError = [ActionPlaneError, RuntimeError, Exception_class]"
| "exn_bases PreApprovalError = [PreApprovalError, RuntimeError, Exception_class]"
| "exn_bases AgentRunStopped = [AgentRunStopped, RuntimeError, Exception_class]"
| "exn_bases RemediationPlanningError = [RemediationPlanningError, RuntimeError, Exception_class]"
| "exn_bases TerraformChecksFailed =
     [TerraformChecksFailed, RemediationPlanningError, RuntimeError, Exception_class]"
| "exn_bases TerraformLinkError = [TerraformLinkError, ValueError, Exception_class]"
| "exn_bases TerraformLinkNotFound =
     [TerraformLinkNotFound, TerraformLinkError, ValueError, Exception_class]"
| "exn_bases AmbiguousTerraformLink =
     [AmbiguousTerraformLink, TerraformLinkError, ValueError, Exception_class]"
| "exn_bases UnicodeDecodeError = [UnicodeDecodeError, ValueError, Exception_class]"
| "exn_bases UsageAnalysisError = [UsageAnalysisError, ValueError, Exception_class]"
| "exn_bases c = [c, Exception_class]"

definition exn_isa :: "exn \<Rightarrow> exn_class list \<Rightarrow> bool" where
  "exn_isa e cs = list_ex (\<lambda>c. c \<in> set (exn_bases (exn_cls e))) cs"

section \<open>Pure computations that may raise\<close>

type_synonym 'a res = "exn + 'a"

fun bindE :: "'a res \<Rightarrow> ('a \<Rightarrow> 'b res) \<Rightarrow> 'b res" where
  "bindE (Inl e) f = Inl e"
| "bindE (Inr x) f = f x"

definition guardE :: "bool \<Rightarrow> exn_class \<Rightarrow> string \<Rightarrow> unit res" where
  "guardE b c msg = (if b then Inr () else Inl (Raise c msg))"

fun mapE :: "('a \<Rightarrow> 'b res) \<Rightarrow> 'a list \<Rightarrow> 'b list res" where
  "mapE f [] = Inr []"
| "mapE f (x # xs) = bindE (f x) (\<lambda>y. bindE (mapE f xs) (\<lambda>ys. Inr (y # ys)))"

fun foldE :: "('a \<Rightarrow> 's \<Rightarrow> 's res) \<Rightarrow> 'a list \<Rightarrow> 's \<Rightarrow> 's res" where
  "foldE f [] s = Inr s"
| "foldE f (x # xs) s = bindE (f x s) (\<lambda>s'. foldE f xs s')"

fun is_ok :: "'a res \<Rightarrow> bool" where
  "is_ok (Inl e) = False"
| "is_ok (Inr x) = True"

named_theorems res_simps \<open>a successful run of a sequence is a successful run of each part\<close>

lemma bindE_Inr [res_simps]: "bindE m f = Inr y \<longleftrightarrow> (\<exists>x. m = Inr x \<and> f x = Inr y)"
  by (cases m) auto

lemma bindE_Inl: "bindE m f = Inl e \<longleftrightarrow> m = Inl e \<or> (\<exists>x. m = Inr x \<and> f x = Inl e)"
  by (cases m) auto

lemma guardE_Inr [res_simps]: "guardE b c msg = Inr u \<longleftrightarrow> b"
  by (simp add: guardE_def)

lemma guardE_Inl: "guardE b c msg = Inl e \<longleftrightarrow> \<not> b \<and> e = Raise c msg"
  by (auto simp: guardE_def)

lemma guardE_True [simp]: "guardE True c msg = Inr ()"
  by (simp add: guardE_def)

lemma guardE_False [simp]: "guardE False c msg = Inl (Raise c msg)"
  by (simp add: guardE_def)

lemma bindE_cong [fundef_cong]:
  assumes "m = m'" and "\<And>x. m' = Inr x \<Longrightarrow> f x = g x"
  shows "bindE m f = bindE m' g"
  using assms by (cases m') simp_all

lemma is_ok_iff: "is_ok m \<longleftrightarrow> (\<exists>x. m = Inr x)"
  by (cases m) auto

lemma bindE_assoc: "bindE (bindE m f) g = bindE m (\<lambda>x. bindE (f x) g)"
  by (cases m) simp_all

lemma mapE_nth:
  "mapE f xs = Inr ys \<Longrightarrow> length ys = length xs \<and> (\<forall>i < length xs. f (xs ! i) = Inr (ys ! i))"
proof (induction xs arbitrary: ys)
  case (Cons x xs)
  then obtain y zs where "f x = Inr y" "mapE f xs = Inr zs" "ys = y # zs" by (auto simp: res_simps)
  with Cons.IH [of zs] show ?case by (auto simp: nth_Cons split: nat.splits)
qed simp

section \<open>Computations over a state that may raise\<close>

text \<open>
  A method that reads and writes stores, files, the clock and the id factory is a function
  from the state to a result and the state it leaves behind. An exception keeps the effects
  performed before it, as in the program.
\<close>

type_synonym ('s, 'a) prog = "'s \<Rightarrow> 'a res \<times> 's"

definition ret :: "'a \<Rightarrow> ('s, 'a) prog" where
  "ret x s = (Inr x, s)"

definition raise :: "exn_class \<Rightarrow> string \<Rightarrow> ('s, 'a) prog" where
  "raise c msg s = (Inl (Raise c msg), s)"

definition bindM :: "('s, 'a) prog \<Rightarrow> ('a \<Rightarrow> ('s, 'b) prog) \<Rightarrow> ('s, 'b) prog" where
  "bindM m f s = (case m s of (Inl e, s') \<Rightarrow> (Inl e, s') | (Inr x, s') \<Rightarrow> f x s')"

definition guardM :: "bool \<Rightarrow> exn_class \<Rightarrow> string \<Rightarrow> ('s, unit) prog" where
  "guardM b c msg s = (guardE b c msg, s)"

definition liftE :: "'a res \<Rightarrow> ('s, 'a) prog" where
  "liftE r s = (r, s)"

definition tryM :: "('s, 'a) prog \<Rightarrow> exn_class list \<Rightarrow> (exn \<Rightarrow> ('s, 'a) prog) \<Rightarrow> ('s, 'a) prog" where
  "tryM m cs h s = (case m s of
       (Inl e, s') \<Rightarrow> if exn_isa e cs then h e s' else (Inl e, s')
     | (Inr x, s') \<Rightarrow> (Inr x, s'))"

definition getsM :: "('s \<Rightarrow> 'a) \<Rightarrow> ('s, 'a) prog" where
  "getsM f s = (Inr (f s), s)"

definition modifyM :: "('s \<Rightarrow> 's) \<Rightarrow> ('s, unit) prog" where
  "modifyM f s = (Inr (), f s)"

fun mapM :: "('a \<Rightarrow> ('s, 'b) prog) \<Rightarrow> 'a list \<Rightarrow> ('s, 'b list) prog" where
  "mapM f [] = ret []"
| "mapM f (x # xs) = bindM (f x) (\<lambda>y. bindM (mapM f xs) (\<lambda>ys. ret (y # ys)))"

named_theorems run_simps \<open>what a run of a computation that returned, or raised, did\<close>

lemma bindM_Inr [run_simps]:
  "bindM m f s = (Inr y, s'') \<longleftrightarrow> (\<exists>x s'. m s = (Inr x, s') \<and> f x s' = (Inr y, s''))"
  by (auto simp: bindM_def split: prod.splits sum.splits)

lemma bindM_Inl:
  "bindM m f s = (Inl e, s'') \<longleftrightarrow>
     m s = (Inl e, s'') \<or> (\<exists>x s'. m s = (Inr x, s') \<and> f x s' = (Inl e, s''))"
  by (auto simp: bindM_def split: prod.splits sum.splits)

lemma ret_Inr [run_simps]: "ret x s = (Inr y, s') \<longleftrightarrow> y = x \<and> s' = s"
  by (auto simp: ret_def)

lemma ret_Inl [run_simps]: "ret x s = (Inl e, s') \<longleftrightarrow> False"
  by (simp add: ret_def)

lemma raise_Inr [run_simps]: "raise c msg s = (Inr y, s') \<longleftrightarrow> False"
  by (simp add: raise_def)

lemma raise_Inl [run_simps]: "raise c msg s = (Inl e, s') \<longleftrightarrow> e = Raise c msg \<and> s' = s"
  by (auto simp: raise_def)

lemma guardM_Inr [run_simps]: "guardM b c msg s = (Inr u, s') \<longleftrightarrow> b \<and> s' = s"
  by (auto simp: guardM_def guardE_def)

lemma guardM_Inl [run_simps]:
  "guardM b c msg s = (Inl e, s') \<longleftrightarrow> \<not> b \<and> e = Raise c msg \<and> s' = s"
  by (auto simp: guardM_def guardE_def)

lemma liftE_run [run_simps]: "liftE r s = (r', s') \<longleftrightarrow> r = r' \<and> s' = s"
  by (auto simp: liftE_def)

lemma getsM_run [run_simps]: "getsM f s = (r, s') \<longleftrightarrow> r = Inr (f s) \<and> s' = s"
  by (auto simp: getsM_def)

lemma modifyM_run [run_simps]: "modifyM f s = (r, s') \<longleftrightarrow> r = Inr () \<and> s' = f s"
  by (auto simp: modifyM_def)

lemma tryM_Inr [run_simps]:
  "tryM m cs h s = (Inr y, s'') \<longleftrightarrow>
     m s = (Inr y, s'') \<or>
     (\<exists>e s'. m s = (Inl e, s') \<and> exn_isa e cs \<and> h e s' = (Inr y, s''))"
  by (auto simp: tryM_def split: prod.splits sum.splits if_splits)

lemmas run_defs = bindM_def ret_def raise_def guardM_def liftE_def tryM_def getsM_def modifyM_def

lemma bindM_assoc: "bindM (bindM m f) g = bindM m (\<lambda>x. bindM (f x) g)"
  by (rule ext) (auto simp: bindM_def split: prod.splits sum.splits)

text \<open>An invariant that a computation keeps, whether it returns or raises.\<close>

definition keeps :: "('s \<Rightarrow> bool) \<Rightarrow> ('s, 'a) prog \<Rightarrow> bool" where
  "keeps I m = (\<forall>s. I s \<longrightarrow> I (snd (m s)))"

named_theorems keeps_intros \<open>preservation rules, one per way of building a computation\<close>

lemma keepsD: "keeps I m \<Longrightarrow> I s \<Longrightarrow> m s = (r, s') \<Longrightarrow> I s'"
  by (metis keeps_def snd_conv)

lemma keeps_bindM [keeps_intros]:
  assumes "keeps I m" and "\<And>x. keeps I (f x)"
  shows "keeps I (bindM m f)"
  using assms unfolding keeps_def bindM_def
  by (fastforce split: prod.splits sum.splits)

lemma keeps_tryM [keeps_intros]:
  assumes "keeps I m" and "\<And>e. keeps I (h e)"
  shows "keeps I (tryM m cs h)"
  using assms unfolding keeps_def tryM_def
  by (fastforce split: prod.splits sum.splits)

lemma keeps_pure [keeps_intros]:
  "keeps I (ret x)" "keeps I (raise c msg)" "keeps I (guardM b c msg)"
  "keeps I (liftE r)" "keeps I (getsM f)"
  by (simp_all add: keeps_def run_defs)

lemma keeps_mapM [keeps_intros]:
  assumes "\<And>x. keeps I (f x)"
  shows "keeps I (mapM f xs)"
  by (induction xs) (auto intro!: keeps_intros assms)

lemma keeps_if [keeps_intros]:
  "(b \<Longrightarrow> keeps I m) \<Longrightarrow> (\<not> b \<Longrightarrow> keeps I n) \<Longrightarrow> keeps I (if b then m else n)"
  by simp

lemma keeps_case_option [keeps_intros]:
  "(x = None \<Longrightarrow> keeps I m) \<Longrightarrow> (\<And>y. x = Some y \<Longrightarrow> keeps I (f y)) \<Longrightarrow>
     keeps I (case x of None \<Rightarrow> m | Some y \<Rightarrow> f y)"
  by (cases x) auto

lemma keeps_let [keeps_intros]: "keeps I (f x) \<Longrightarrow> keeps I (let y = x in f y)"
  by simp

section \<open>Dictionaries and ordered sets\<close>

text \<open>
  A Python dictionary keeps insertion order: an update of a present key keeps its place, a new
  key goes to the end. That is an association list under \<open>AList.update\<close> and
  \<open>AList.delete\<close>.
\<close>

type_synonym ('k, 'v) dict = "('k \<times> 'v) list"

definition dict_get :: "('k, 'v) dict \<Rightarrow> 'k \<Rightarrow> 'v option" where
  "dict_get d k = map_of d k"

definition dict_has :: "('k, 'v) dict \<Rightarrow> 'k \<Rightarrow> bool" where
  "dict_has d k = (map_of d k \<noteq> None)"

definition dict_set :: "'k \<Rightarrow> 'v \<Rightarrow> ('k, 'v) dict \<Rightarrow> ('k, 'v) dict" where
  "dict_set k v d = AList.update k v d"

definition dict_pop :: "'k \<Rightarrow> ('k, 'v) dict \<Rightarrow> ('k, 'v) dict" where
  "dict_pop k d = AList.delete k d"

definition dict_update :: "('k, 'v) dict \<Rightarrow> ('k, 'v) dict \<Rightarrow> ('k, 'v) dict" where
  "dict_update d e = fold (\<lambda>(k, v). dict_set k v) e d"

lemma dict_get_set [simp]: "dict_get (dict_set k v d) k' = (if k' = k then Some v else dict_get d k')"
  by (simp add: dict_get_def dict_set_def update_conv)

lemma dict_get_pop [simp]: "dict_get (dict_pop k d) k' = (if k' = k then None else dict_get d k')"
  by (simp add: dict_get_def dict_pop_def delete_conv)

lemma dict_update_Cons: "dict_update d ((k, v) # e) = dict_update (dict_set k v d) e"
  by (simp add: dict_update_def)

lemma dict_get_update:
  "dict_get (dict_update d e) k = (case dict_get (rev e) k of None \<Rightarrow> dict_get d k | Some v \<Rightarrow> Some v)"
proof (induction e arbitrary: d)
  case Nil
  then show ?case by (simp add: dict_update_def dict_get_def)
next
  case (Cons kv e)
  obtain k' v' where kv: "kv = (k', v')" by (cases kv)
  have "dict_get (rev (kv # e)) k = (case dict_get (rev e) k of
          None \<Rightarrow> (if k = k' then Some v' else None) | Some v \<Rightarrow> Some v)"
    by (simp add: kv dict_get_def map_add_def split: option.splits)
  moreover have "dict_get (dict_update d (kv # e)) k = (case dict_get (rev e) k of
          None \<Rightarrow> (if k = k' then Some v' else dict_get d k) | Some v \<Rightarrow> Some v)"
    unfolding kv dict_update_Cons Cons.IH by (simp split: option.splits)
  ultimately show ?case by (simp split: option.splits)
qed

lemma dict_has_update:
  assumes "dict_get d k \<noteq> None \<or> k \<in> fst ` set e"
  shows "dict_get (dict_update d e) k \<noteq> None"
proof (cases "dict_get (rev e) k")
  case None
  then have "k \<notin> fst ` set e" by (simp add: dict_get_def map_of_eq_None_iff)
  with assms None show ?thesis by (simp add: dict_get_update)
next
  case (Some v)
  then show ?thesis by (simp add: dict_get_update)
qed

lemma dict_pop_fold_get:
  "dict_get (fold dict_pop ks d) k = (if k \<in> set ks then None else dict_get d k)"
  by (induction ks arbitrary: d) auto

text \<open>\<open>tuple(dict.fromkeys(xs))\<close>: the distinct elements in order of first occurrence.\<close>

fun dedup :: "'a list \<Rightarrow> 'a list" where
  "dedup [] = []"
| "dedup (x # xs) = x # filter (\<lambda>y. y \<noteq> x) (dedup xs)"

lemma set_dedup [simp]: "set (dedup xs) = set xs"
  by (induction xs) auto

lemma distinct_dedup [simp]: "distinct (dedup xs)"
  by (induction xs) auto

end
