(* ===== verification/Pyvalue.thy ===== *)
theory Pyvalue
  imports Prelude
begin

text \<open>
  Python values as they come out of \<open>json.loads\<close> (\<open>None\<close>, booleans, integers, floats, strings,
  lists, dictionaries with string keys), the string operations the sources use on them, and
  \<open>str\<close> and \<open>repr\<close>. A Python \<open>bool\<close> is an \<open>int\<close> for \<open>isinstance\<close>; the two constructors stay
  apart here and each test in the sources is written out.
\<close>

section \<open>Strings\<close>

definition upper_letters :: string where
  "upper_letters = ''ABCDEFGHIJKLMNOPQRSTUVWXYZ''"

definition lower_letters :: string where
  "lower_letters = ''abcdefghijklmnopqrstuvwxyz''"

definition char_lower :: "char \<Rightarrow> char" where
  "char_lower c = (case map_of (zip upper_letters lower_letters) c of None \<Rightarrow> c | Some d \<Rightarrow> d)"

definition str_lower :: "string \<Rightarrow> string" where
  "str_lower s = map char_lower s"

definition char_upper :: "char \<Rightarrow> char" where
  "char_upper c = (case map_of (zip lower_letters upper_letters) c of None \<Rightarrow> c | Some d \<Rightarrow> d)"

definition str_upper :: "string \<Rightarrow> string" where
  "str_upper s = map char_upper s"

definition is_space :: "char \<Rightarrow> bool" where
  "is_space c = (c \<in> set [CHR '' '', CHR 0x09, CHR 0x0A, CHR 0x0B, CHR 0x0C, CHR 0x0D,
                          CHR 0x1C, CHR 0x1D, CHR 0x1E, CHR 0x1F])"

definition str_strip :: "string \<Rightarrow> string" where
  "str_strip s = rev (dropWhile is_space (rev (dropWhile is_space s)))"

fun str_join :: "string \<Rightarrow> string list \<Rightarrow> string" where
  "str_join sep [] = ''''"
| "str_join sep [x] = x"
| "str_join sep (x # y # ys) = x @ sep @ str_join sep (y # ys)"

definition digit_char :: "int \<Rightarrow> char" where
  "digit_char d = ''0123456789'' ! nat (d mod 10)"

text \<open>The decimal digits of a number that is not negative.\<close>

function show_digits :: "int \<Rightarrow> string" where
  "show_digits n = (if n < 10 then [digit_char n] else show_digits (n div 10) @ [digit_char n])"
  by pat_completeness auto
termination
  by (relation "measure nat") auto

declare show_digits.simps [simp del]

definition show_int :: "int \<Rightarrow> string" where
  "show_int i = (if i < 0 then CHR ''-'' # show_digits (- i) else show_digits i)"

definition show_nat :: "nat \<Rightarrow> string" where
  "show_nat n = show_digits (int n)"

text \<open>\<open>str.zfill\<close>-style padding, as in the format \<open>018d\<close> of a non-negative number.\<close>

definition pad_left :: "nat \<Rightarrow> string \<Rightarrow> string" where
  "pad_left w s = replicate (w - length s) (CHR ''0'') @ s"

section \<open>Numbers\<close>

text \<open>\<open>round(x, n)\<close>: to \<open>n\<close> decimal places, ties to the even neighbour.\<close>

definition round_half_even :: "rat \<Rightarrow> int" where
  "round_half_even x =
     (let f = \<lfloor>x\<rfloor>; r = x - of_int f
      in if r < 1/2 then f else if 1/2 < r then f + 1 else if even f then f else f + 1)"

definition py_round :: "nat \<Rightarrow> rat \<Rightarrow> rat" where
  "py_round n x = of_int (round_half_even (x * 10 ^ n)) / 10 ^ n"

text \<open>The format \<open>.nf\<close> with \<open>n\<close> decimal places.\<close>

definition fmt_fixed :: "nat \<Rightarrow> rat \<Rightarrow> string" where
  "fmt_fixed n x =
     (let k = round_half_even (x * 10 ^ n); m = \<bar>k\<bar>
      in (if k < 0 then ''-'' else '''') @ show_digits (m div 10 ^ n) @ ''.''
         @ pad_left n (show_digits (m mod 10 ^ n)))"

lemma round_half_even_mono:
  assumes "x \<le> y"
  shows "round_half_even x \<le> round_half_even y"
proof (cases "\<lfloor>x\<rfloor> = \<lfloor>y\<rfloor>")
  case True
  with assms show ?thesis by (auto simp: round_half_even_def Let_def)
next
  case False
  have "\<lfloor>x\<rfloor> \<le> \<lfloor>y\<rfloor>" using assms by (rule floor_mono)
  with False have "\<lfloor>x\<rfloor> + 1 \<le> \<lfloor>y\<rfloor>" by simp
  moreover have "round_half_even x \<le> \<lfloor>x\<rfloor> + 1" "\<lfloor>y\<rfloor> \<le> round_half_even y"
    by (auto simp: round_half_even_def Let_def)
  ultimately show ?thesis by linarith
qed

lemma py_round_mono: "x \<le> y \<Longrightarrow> py_round n x \<le> py_round n y"
  by (simp add: py_round_def divide_right_mono round_half_even_mono)

section \<open>Values\<close>

datatype pyval =
    PNone
  | PBool bool
  | PInt int
  | PFloat rat
  | PStr string
  | PList "pyval list"
  | PDict "(string \<times> pyval) list"

fun truthy :: "pyval \<Rightarrow> bool" where
  "truthy PNone = False"
| "truthy (PBool b) = b"
| "truthy (PInt i) = (i \<noteq> 0)"
| "truthy (PFloat r) = (r \<noteq> 0)"
| "truthy (PStr s) = (s \<noteq> [])"
| "truthy (PList xs) = (xs \<noteq> [])"
| "truthy (PDict d) = (d \<noteq> [])"

fun is_str :: "pyval \<Rightarrow> bool" where
  "is_str (PStr s) = True"
| "is_str v = False"

fun is_bool :: "pyval \<Rightarrow> bool" where
  "is_bool (PBool b) = True"
| "is_bool v = False"

fun is_list :: "pyval \<Rightarrow> bool" where
  "is_list (PList xs) = True"
| "is_list v = False"

fun is_dict :: "pyval \<Rightarrow> bool" where
  "is_dict (PDict d) = True"
| "is_dict v = False"

text \<open>A string that is not empty: \<open>isinstance(v, str) and v\<close>.\<close>

definition is_name :: "pyval \<Rightarrow> bool" where
  "is_name v = (is_str v \<and> truthy v)"

text \<open>Lists and dictionaries are unhashable: looking one up in a set raises \<open>TypeError\<close>.\<close>

definition hashable :: "pyval \<Rightarrow> bool" where
  "hashable v = (\<not> is_list v \<and> \<not> is_dict v)"

definition in_str_set :: "pyval \<Rightarrow> string list \<Rightarrow> bool res" where
  "in_str_set v xs = bindE (guardE (hashable v) TypeError ''unhashable type'')
     (\<lambda>_. Inr (v \<in> PStr ` set xs))"

definition dict_items :: "pyval \<Rightarrow> (string, pyval) dict" where
  "dict_items v = (case v of PDict d \<Rightarrow> d | _ \<Rightarrow> [])"

definition list_items :: "pyval \<Rightarrow> pyval list" where
  "list_items v = (case v of PList xs \<Rightarrow> xs | _ \<Rightarrow> [])"

text \<open>\<open>d.get(k)\<close> and \<open>d.get(k, default)\<close> on a dictionary.\<close>

definition get_or :: "(string, pyval) dict \<Rightarrow> string \<Rightarrow> pyval \<Rightarrow> pyval" where
  "get_or d k v = (case dict_get d k of None \<Rightarrow> v | Some x \<Rightarrow> x)"

definition pget :: "(string, pyval) dict \<Rightarrow> string \<Rightarrow> pyval" where
  "pget d k = get_or d k PNone"

definition as_str :: "pyval \<Rightarrow> string" where
  "as_str v = (case v of PStr s \<Rightarrow> s | _ \<Rightarrow> [])"

definition str_list :: "string list \<Rightarrow> pyval" where
  "str_list xs = PList (map PStr xs)"

text \<open>What a \<open>for\<close> loop over a value visits, and \<open>list(v)\<close>.\<close>

fun iterate_value :: "pyval \<Rightarrow> pyval list res" where
  "iterate_value (PList xs) = Inr xs"
| "iterate_value (PStr s) = Inr (map (\<lambda>c. PStr [c]) s)"
| "iterate_value (PDict d) = Inr (map (\<lambda>kv. PStr (fst kv)) d)"
| "iterate_value v = Inl (Raise TypeError ''object is not iterable'')"

definition list_of :: "pyval \<Rightarrow> pyval res" where
  "list_of v = bindE (iterate_value v) (\<lambda>xs. Inr (PList xs))"

definition hex_digit :: "nat \<Rightarrow> char" where
  "hex_digit d = ''0123456789abcdef'' ! (d mod 16)"

definition repr_char :: "char \<Rightarrow> char \<Rightarrow> string" where
  "repr_char q c =
     (let n = of_char c :: nat
      in if c = q \<or> c = CHR 0x5C then [CHR 0x5C, c]
         else if c = CHR 0x09 then [CHR 0x5C, CHR ''t'']
         else if c = CHR 0x0A then [CHR 0x5C, CHR ''n'']
         else if c = CHR 0x0D then [CHR 0x5C, CHR ''r'']
         else if n < 32 \<or> n = 127
           then [CHR 0x5C, CHR ''x'', hex_digit (n div 16), hex_digit n]
         else [c])"

text \<open>An evaluation compares characters, not their numbers.\<close>

lemma of_char_less: "(of_char c :: nat) < of_char d \<longleftrightarrow> c < d"
  by (simp add: less_char_def)

lemma repr_char_code [code]:
  "repr_char q c =
     (if c = q \<or> c = CHR 0x5C then [CHR 0x5C, c]
      else if CHR 0x1F < c \<and> c < CHR 0x7F then [c]
      else let n = of_char c :: nat in
        if c = CHR 0x09 then [CHR 0x5C, CHR ''t'']
        else if c = CHR 0x0A then [CHR 0x5C, CHR ''n'']
        else if c = CHR 0x0D then [CHR 0x5C, CHR ''r'']
        else if n < 32 \<or> n = 127
          then [CHR 0x5C, CHR ''x'', hex_digit (n div 16), hex_digit n]
        else [c])"
  using of_char_less [of "CHR 0x1F" c] of_char_less [of c "CHR 0x7F"]
  unfolding repr_char_def Let_def by (auto simp del: less_char_simp)

definition repr_str :: "string \<Rightarrow> string" where
  "repr_str s =
     (let q = (if CHR 0x27 \<in> set s \<and> CHR 0x22 \<notin> set s then CHR 0x22 else CHR 0x27)
      in q # concat (map (repr_char q) s) @ [q])"

text \<open>\<open>d.get(k, default)\<close> of a value that need not be a dictionary.\<close>

definition dict_get_attr :: "pyval \<Rightarrow> string \<Rightarrow> pyval \<Rightarrow> pyval res" where
  "dict_get_attr v k dflt =
     bindE (guardE (is_dict v) AttributeError (''object has no attribute '' @ repr_str ''get'')) (\<lambda>_.
     Inr (get_or (dict_items v) k dflt))"

text \<open>\<open>v or {}\<close>.\<close>

definition or_dict :: "pyval \<Rightarrow> pyval" where
  "or_dict v = (if truthy v then v else PDict [])"

text \<open>
  \<open>repr\<close> of a float: the decimal expansion of the rational, cut after seventeen places, at least
  one place. (Exponent notation, for magnitudes outside \<open>1e-4\<close> to \<open>1e16\<close>, is not reproduced.)
\<close>

definition repr_float :: "rat \<Rightarrow> string" where
  "repr_float x =
     (let t = fmt_fixed 17 x; u = rev (dropWhile (\<lambda>c. c = CHR ''0'') (rev t))
      in if u \<noteq> [] \<and> last u = CHR ''.'' then u @ ''0'' else u)"

fun py_repr :: "pyval \<Rightarrow> string" where
  "py_repr PNone = ''None''"
| "py_repr (PBool b) = (if b then ''True'' else ''False'')"
| "py_repr (PInt i) = show_int i"
| "py_repr (PFloat r) = repr_float r"
| "py_repr (PStr s) = repr_str s"
| "py_repr (PList xs) = ''['' @ str_join '', '' (map py_repr xs) @ '']''"
| "py_repr (PDict d) =
     ''{'' @ str_join '', '' (map (\<lambda>kv. repr_str (fst kv) @ '': '' @ py_repr (snd kv)) d) @ ''}''"

definition py_str :: "pyval \<Rightarrow> string" where
  "py_str v = (case v of PStr s \<Rightarrow> s | _ \<Rightarrow> py_repr v)"

lemma get_or_Some [simp]: "dict_get d k = Some v \<Longrightarrow> get_or d k w = v"
  by (simp add: get_or_def)

lemma dict_get_Nil [simp]: "dict_get [] k = None"
  by (simp add: dict_get_def)

lemma dict_get_Cons [simp]: "dict_get ((k, v) # d) k' = (if k' = k then Some v else dict_get d k')"
  by (simp add: dict_get_def)

lemma in_str_set_Inl:
  "in_str_set v xs = Inl e \<longleftrightarrow> \<not> hashable v \<and> e = Raise TypeError ''unhashable type''"
  by (auto simp: in_str_set_def bindE_Inl guardE_Inl)

lemma in_str_set_Inr [res_simps]:
  "in_str_set v xs = Inr b \<longleftrightarrow> hashable v \<and> b = (v \<in> PStr ` set xs)"
  by (auto simp: in_str_set_def res_simps)

end
