(* ===== verification/Cases.thy ===== *)
theory Cases
  imports Pyvalue
begin

text \<open>
  \<open>src/elcapitan/cases.py\<close>: the remediation case, its events and the one function that changes
  it, \<open>transition_case\<close>, with the dictionary form of every record and back. A dataclass is a
  record, its \<open>__post_init__\<close> the validating constructor \<open>mk_\<dots>\<close>.
\<close>

section \<open>States and transitions\<close>

datatype case_state =
    OPEN | PRIORITIZED | VALIDATED | PLAN_READY | SRE_APPROVED | WINDOW_SELECTED
  | ROLLBACK_READY | AWAITING_APPROVAL | APPROVED | EXECUTING | VERIFYING | REMEDIATED
  | ROLLING_BACK | ROLLED_BACK | CLOSED_NO_ACTION | REJECTED | BLOCKED

fun case_state_value :: "case_state \<Rightarrow> string" where
  "case_state_value OPEN = ''open''"
| "case_state_value PRIORITIZED = ''prioritized''"
| "case_state_value VALIDATED = ''validated''"
| "case_state_value PLAN_READY = ''plan_ready''"
| "case_state_value SRE_APPROVED = ''sre_approved''"
| "case_state_value WINDOW_SELECTED = ''window_selected''"
| "case_state_value ROLLBACK_READY = ''rollback_ready''"
| "case_state_value AWAITING_APPROVAL = ''awaiting_approval''"
| "case_state_value APPROVED = ''approved''"
| "case_state_value EXECUTING = ''executing''"
| "case_state_value VERIFYING = ''verifying''"
| "case_state_value REMEDIATED = ''remediated''"
| "case_state_value ROLLING_BACK = ''rolling_back''"
| "case_state_value ROLLED_BACK = ''rolled_back''"
| "case_state_value CLOSED_NO_ACTION = ''closed_no_action''"
| "case_state_value REJECTED = ''rejected''"
| "case_state_value BLOCKED = ''blocked''"

definition all_case_states :: "case_state list" where
  "all_case_states =
     [OPEN, PRIORITIZED, VALIDATED, PLAN_READY, SRE_APPROVED, WINDOW_SELECTED, ROLLBACK_READY,
      AWAITING_APPROVAL, APPROVED, EXECUTING, VERIFYING, REMEDIATED, ROLLING_BACK, ROLLED_BACK,
      CLOSED_NO_ACTION, REJECTED, BLOCKED]"

text \<open>\<open>CaseState(text)\<close>.\<close>

definition case_state_of :: "string \<Rightarrow> case_state res" where
  "case_state_of v = (case find (\<lambda>s. case_state_value s = v) all_case_states of
       None \<Rightarrow> Inl (Raise ValueError (repr_str v @ '' is not a valid CaseState''))
     | Some s \<Rightarrow> Inr s)"

definition terminal_case_states :: "case_state list" where
  "terminal_case_states = [REMEDIATED, ROLLED_BACK, CLOSED_NO_ACTION, REJECTED]"

datatype case_transition =
    ADD_FINDING | PRIORITIZE | REPRIORITIZE | VALIDATE | PREPARE_PLAN | APPROVE_SRE | RETRY_SRE
  | SELECT_WINDOW | REVIEW_ROLLBACK | RESELECT_WINDOW | REQUEST_REWORK | REQUEST_APPROVAL
  | APPROVE_CHANGE | SCHEDULE_EXECUTION | START_EXECUTION | START_VERIFICATION
  | COMPLETE_REMEDIATION | START_ROLLBACK | COMPLETE_ROLLBACK | CLOSE_NO_ACTION | REJECT
  | BLOCK | RESUME

fun case_transition_value :: "case_transition \<Rightarrow> string" where
  "case_transition_value ADD_FINDING = ''add_finding''"
| "case_transition_value PRIORITIZE = ''prioritize''"
| "case_transition_value REPRIORITIZE = ''reprioritize''"
| "case_transition_value VALIDATE = ''validate''"
| "case_transition_value PREPARE_PLAN = ''prepare_plan''"
| "case_transition_value APPROVE_SRE = ''approve_sre''"
| "case_transition_value RETRY_SRE = ''retry_sre''"
| "case_transition_value SELECT_WINDOW = ''select_window''"
| "case_transition_value REVIEW_ROLLBACK = ''review_rollback''"
| "case_transition_value RESELECT_WINDOW = ''reselect_window''"
| "case_transition_value REQUEST_REWORK = ''request_rework''"
| "case_transition_value REQUEST_APPROVAL = ''request_approval''"
| "case_transition_value APPROVE_CHANGE = ''approve_change''"
| "case_transition_value SCHEDULE_EXECUTION = ''schedule_execution''"
| "case_transition_value START_EXECUTION = ''start_execution''"
| "case_transition_value START_VERIFICATION = ''start_verification''"
| "case_transition_value COMPLETE_REMEDIATION = ''complete_remediation''"
| "case_transition_value START_ROLLBACK = ''start_rollback''"
| "case_transition_value COMPLETE_ROLLBACK = ''complete_rollback''"
| "case_transition_value CLOSE_NO_ACTION = ''close_no_action''"
| "case_transition_value REJECT = ''reject''"
| "case_transition_value BLOCK = ''block''"
| "case_transition_value RESUME = ''resume''"

definition all_case_transitions :: "case_transition list" where
  "all_case_transitions =
     [ADD_FINDING, PRIORITIZE, REPRIORITIZE, VALIDATE, PREPARE_PLAN, APPROVE_SRE, RETRY_SRE,
      SELECT_WINDOW, REVIEW_ROLLBACK, RESELECT_WINDOW, REQUEST_REWORK, REQUEST_APPROVAL,
      APPROVE_CHANGE, SCHEDULE_EXECUTION, START_EXECUTION, START_VERIFICATION,
      COMPLETE_REMEDIATION, START_ROLLBACK, COMPLETE_ROLLBACK, CLOSE_NO_ACTION, REJECT, BLOCK,
      RESUME]"

definition case_transition_of :: "string \<Rightarrow> case_transition res" where
  "case_transition_of v = (case find (\<lambda>t. case_transition_value t = v) all_case_transitions of
       None \<Rightarrow> Inl (Raise ValueError (repr_str v @ '' is not a valid CaseTransition''))
     | Some t \<Rightarrow> Inr t)"

definition linear_transitions :: "((case_state \<times> case_transition) \<times> case_state) list" where
  "linear_transitions =
     [((OPEN, PRIORITIZE), PRIORITIZED),
      ((PRIORITIZED, VALIDATE), VALIDATED),
      ((VALIDATED, PREPARE_PLAN), PLAN_READY),
      ((PLAN_READY, APPROVE_SRE), SRE_APPROVED),
      ((SRE_APPROVED, SELECT_WINDOW), WINDOW_SELECTED),
      ((WINDOW_SELECTED, REVIEW_ROLLBACK), ROLLBACK_READY),
      ((ROLLBACK_READY, REQUEST_APPROVAL), AWAITING_APPROVAL),
      ((AWAITING_APPROVAL, APPROVE_CHANGE), APPROVED),
      ((APPROVED, START_EXECUTION), EXECUTING),
      ((EXECUTING, START_VERIFICATION), VERIFYING),
      ((VERIFYING, COMPLETE_REMEDIATION), REMEDIATED),
      ((EXECUTING, START_ROLLBACK), ROLLING_BACK),
      ((VERIFYING, START_ROLLBACK), ROLLING_BACK),
      ((ROLLING_BACK, COMPLETE_ROLLBACK), ROLLED_BACK)]"

definition linear_transition :: "case_state \<Rightarrow> case_transition \<Rightarrow> case_state option" where
  "linear_transition s t = map_of linear_transitions (s, t)"

fun required_record :: "case_transition \<Rightarrow> string option" where
  "required_record ADD_FINDING = Some ''finding_id''"
| "required_record PRIORITIZE = Some ''risk_assessment_id''"
| "required_record REPRIORITIZE = Some ''risk_assessment_id''"
| "required_record VALIDATE = Some ''validation_result_id''"
| "required_record PREPARE_PLAN = Some ''change_plan_id''"
| "required_record APPROVE_SRE = Some ''sre_review_id''"
| "required_record RETRY_SRE = Some ''review_feedback_id''"
| "required_record SELECT_WINDOW = Some ''change_window_id''"
| "required_record REVIEW_ROLLBACK = Some ''rollback_review_id''"
| "required_record REQUEST_REWORK = Some ''review_feedback_id''"
| "required_record REQUEST_APPROVAL = Some ''policy_decision_id''"
| "required_record APPROVE_CHANGE = Some ''approval_id''"
| "required_record SCHEDULE_EXECUTION = Some ''schedule_id''"
| "required_record START_EXECUTION = Some ''execution_id''"
| "required_record START_VERIFICATION = Some ''execution_result_id''"
| "required_record COMPLETE_REMEDIATION = Some ''verification_result_id''"
| "required_record START_ROLLBACK = Some ''rollback_execution_id''"
| "required_record COMPLETE_ROLLBACK = Some ''verification_result_id''"
| "required_record _ = None"

section \<open>The records\<close>

record risk_assessment =
  ra_assessment_id :: string
  ra_score :: rat
  ra_urgency :: string
  ra_factors :: "string list"
  ra_confidence :: rat
  ra_evidence_ids :: "string list"

definition mk_risk_assessment :: "risk_assessment \<Rightarrow> risk_assessment res" where
  "mk_risk_assessment r =
     bindE (guardE (0 \<le> ra_score r \<and> ra_score r \<le> 100) ValueError
              ''risk score must be between 0 and 100'') (\<lambda>_.
     bindE (guardE (0 \<le> ra_confidence r \<and> ra_confidence r \<le> 1) ValueError
              ''risk confidence must be between 0 and 1'') (\<lambda>_.
     bindE (guardE (ra_assessment_id r \<noteq> [] \<and> ra_urgency r \<noteq> [] \<and> ra_factors r \<noteq> []) ValueError
              ''risk assessment requires an id, urgency, and factors'') (\<lambda>_.
     Inr r)))"

record change_window =
  cw_window_id :: string
  cw_starts_at :: string
  cw_ends_at :: string
  cw_timezone :: string
  cw_rationale :: "string list"
  cw_evidence_ids :: "string list"
  cw_confidence :: rat

definition mk_change_window :: "change_window \<Rightarrow> change_window res" where
  "mk_change_window w =
     bindE (guardE (cw_window_id w \<noteq> [] \<and> cw_starts_at w \<noteq> [] \<and> cw_ends_at w \<noteq> [] \<and>
                    cw_timezone w \<noteq> []) ValueError
              ''change window requires id, bounds, and timezone'') (\<lambda>_.
     bindE (guardE (0 \<le> cw_confidence w \<and> cw_confidence w \<le> 1) ValueError
              ''change-window confidence must be between 0 and 1'') (\<lambda>_.
     Inr w))"

record change_plan =
  cp_plan_id :: string
  cp_objective :: string
  cp_change_ref :: string
  cp_prerequisites :: "string list"
  cp_steps :: "string list"
  cp_rollout_steps :: "string list"
  cp_verification_steps :: "string list"
  cp_rollback_steps :: "string list"
  cp_rollback_triggers :: "string list"
  cp_blast_radius :: "string list"
  cp_evidence_ids :: "string list"

definition mk_change_plan :: "change_plan \<Rightarrow> change_plan res" where
  "mk_change_plan p =
     (let missing = map fst (filter (\<lambda>nv. snd nv = [])
            [(''plan_id'', cp_plan_id p), (''objective'', cp_objective p),
             (''change_ref'', cp_change_ref p)])
      in bindE (guardE (missing = []) ValueError
                  (''change plan requires '' @ str_join '', '' missing)) (\<lambda>_.
         bindE (foldE (\<lambda>(name, value) _.
                   guardE (value \<noteq> []) ValueError
                     (''change plan requires at least one '' @ name))
                 [(''steps'', cp_steps p), (''rollout_steps'', cp_rollout_steps p),
                  (''verification_steps'', cp_verification_steps p),
                  (''rollback_steps'', cp_rollback_steps p),
                  (''rollback_triggers'', cp_rollback_triggers p)] ()) (\<lambda>_.
         Inr p)))"

record case_event =
  ev_event_id :: string
  ev_case_id :: string
  ev_sequence :: int
  ev_transition :: case_transition
  ev_from_state :: case_state
  ev_to_state :: case_state
  ev_occurred_at :: string
  ev_actor :: string
  ev_record_ids :: "(string, string) dict"
  ev_evidence_ids :: "string list"
  ev_detail :: string

definition mk_case_event :: "case_event \<Rightarrow> case_event res" where
  "mk_case_event e =
     bindE (guardE (ev_event_id e \<noteq> [] \<and> ev_case_id e \<noteq> [] \<and> ev_actor e \<noteq> [] \<and>
                    ev_occurred_at e \<noteq> []) ValueError
              ''case event requires ids, actor, and timestamp'') (\<lambda>_.
     bindE (guardE (1 \<le> ev_sequence e) ValueError
              ''case event sequence must be positive'') (\<lambda>_.
     Inr e))"

record remediation_case =
  rc_case_id :: string
  rc_tenant_id :: string
  rc_finding_ids :: "string list"
  rc_asset_ids :: "string list"
  rc_service_ids :: "string list"
  rc_state :: case_state
  rc_version :: int
  rc_created_at :: string
  rc_updated_at :: string
  rc_priority :: "risk_assessment option"
  rc_change_plan :: "change_plan option"
  rc_change_window :: "change_window option"
  rc_record_ids :: "(string, string) dict"
  rc_blocked_from :: "case_state option"

definition mk_remediation_case :: "remediation_case \<Rightarrow> remediation_case res" where
  "mk_remediation_case c =
     bindE (guardE (rc_case_id c \<noteq> [] \<and> rc_tenant_id c \<noteq> [] \<and> rc_finding_ids c \<noteq> []) ValueError
              ''remediation case requires case, tenant, and finding ids'') (\<lambda>_.
     bindE (guardE (0 \<le> rc_version c) ValueError ''case version cannot be negative'') (\<lambda>_.
     Inr c))"

definition rc_terminal :: "remediation_case \<Rightarrow> bool" where
  "rc_terminal c = (rc_state c \<in> set terminal_case_states)"

definition open_case ::
  "string \<Rightarrow> string \<Rightarrow> string list \<Rightarrow> string list \<Rightarrow> string list \<Rightarrow> string \<Rightarrow> remediation_case res" where
  "open_case case_id tenant_id finding_ids asset_ids service_ids now =
     mk_remediation_case
       \<lparr> rc_case_id = case_id, rc_tenant_id = tenant_id, rc_finding_ids = finding_ids,
         rc_asset_ids = asset_ids, rc_service_ids = service_ids, rc_state = OPEN,
         rc_version = 0, rc_created_at = now, rc_updated_at = now, rc_priority = None,
         rc_change_plan = None, rc_change_window = None, rc_record_ids = [],
         rc_blocked_from = None \<rparr>"

end
