(* ===== verification/Case_Transitions.thy ===== *)
theory Case_Transitions
  imports Cases
begin

text \<open>
  \<open>transition_case\<close> of \<open>src/elcapitan/cases.py\<close>: the only code that changes a remediation case.
  The keyword arguments of the call are a record; \<open>transition_target\<close> is its if/elif chain,
  \<open>merged_records\<close> its treatment of the record ids, and the rest follows the function line by line.
\<close>

record transition_args =
  ta_event_id :: string
  ta_occurred_at :: string
  ta_actor :: string
  ta_record_ids :: "(string, string) dict"
  ta_evidence_ids :: "string list"
  ta_detail :: string
  ta_priority :: "risk_assessment option"
  ta_change_plan :: "change_plan option"
  ta_change_window :: "change_window option"
  ta_new_finding_ids :: "string list"

text \<open>The call with its defaults: event id, time, actor, record ids and evidence ids given.\<close>

definition basic_args ::
  "string \<Rightarrow> string \<Rightarrow> string \<Rightarrow> (string, string) dict \<Rightarrow> string list \<Rightarrow> transition_args" where
  "basic_args event_id occurred_at actor record_ids evidence_ids =
     \<lparr> ta_event_id = event_id, ta_occurred_at = occurred_at, ta_actor = actor,
       ta_record_ids = record_ids, ta_evidence_ids = evidence_ids, ta_detail = '''',
       ta_priority = None, ta_change_plan = None, ta_change_window = None,
       ta_new_finding_ids = [] \<rparr>"

definition reopening_states :: "case_state list" where
  "reopening_states =
     [VALIDATED, PLAN_READY, SRE_APPROVED, WINDOW_SELECTED, ROLLBACK_READY, AWAITING_APPROVAL,
      APPROVED]"

text \<open>\<open>reopened_for_validation\<close>: a new finding sends a planned case back to validation.\<close>

definition reopened :: "remediation_case \<Rightarrow> case_transition \<Rightarrow> bool" where
  "reopened c t = (t = ADD_FINDING \<and> rc_state c \<in> set reopening_states)"

definition additions :: "remediation_case \<Rightarrow> transition_args \<Rightarrow> string list" where
  "additions c a = filter (\<lambda>f. f \<notin> set (rc_finding_ids c)) (ta_new_finding_ids a)"

text \<open>The new state and the new \<open>blocked_from\<close>.\<close>

fun transition_target ::
  "remediation_case \<Rightarrow> case_transition \<Rightarrow> transition_args \<Rightarrow> (case_state \<times> case_state option) res" where
  "transition_target c ADD_FINDING a =
     bindE (guardE (additions c a \<noteq> []) ValueError
              ''add_finding requires at least one new finding id'') (\<lambda>_.
     Inr (if reopened c ADD_FINDING then (PRIORITIZED, None)
          else (rc_state c, rc_blocked_from c)))"
| "transition_target c REPRIORITIZE a =
     bindE (guardE (ta_priority a \<noteq> None) ValueError ''reprioritize requires a RiskAssessment'') (\<lambda>_.
     Inr (rc_state c, rc_blocked_from c))"
| "transition_target c SCHEDULE_EXECUTION a =
     bindE (guardE (rc_state c = APPROVED) ValueError
              ''only an approved case can be scheduled for execution'') (\<lambda>_.
     Inr (rc_state c, rc_blocked_from c))"
| "transition_target c RETRY_SRE a =
     bindE (guardE (rc_state c \<in> {SRE_APPROVED, WINDOW_SELECTED}) ValueError
              ''SRE retry is allowed only after SRE approval and before rollback review'') (\<lambda>_.
     bindE (guardE (ta_detail a \<noteq> []) ValueError
              ''SRE retry requires a concrete semantic failure'') (\<lambda>_.
     Inr (PLAN_READY, None)))"
| "transition_target c REQUEST_REWORK a =
     bindE (guardE (rc_state c = WINDOW_SELECTED) ValueError
              ''review rework is allowed only after change-window selection'') (\<lambda>_.
     bindE (guardE (ta_detail a \<noteq> []) ValueError
              ''review rework requires concrete reviewer feedback'') (\<lambda>_.
     Inr (VALIDATED, None)))"
| "transition_target c RESELECT_WINDOW a =
     bindE (guardE (rc_state c = ROLLBACK_READY) ValueError
              ''window reselection is allowed only after rollback review'') (\<lambda>_.
     bindE (guardE (ta_detail a \<noteq> []) ValueError
              ''window reselection requires a concrete timing reason'') (\<lambda>_.
     Inr (SRE_APPROVED, None)))"
| "transition_target c BLOCK a =
     bindE (guardE (rc_state c \<noteq> BLOCKED) ValueError
              ''an already blocked case cannot be blocked again'') (\<lambda>_.
     bindE (guardE (ta_detail a \<noteq> []) ValueError ''blocking a case requires a reason'') (\<lambda>_.
     Inr (BLOCKED, Some (rc_state c))))"
| "transition_target c RESUME a =
     (case rc_blocked_from c of
        Some s \<Rightarrow> bindE (guardE (rc_state c = BLOCKED) ValueError ''only a blocked case can resume'')
                    (\<lambda>_. Inr (s, None))
      | None \<Rightarrow> Inl (Raise ValueError ''only a blocked case can resume''))"
| "transition_target c CLOSE_NO_ACTION a =
     bindE (guardE (rc_state c \<in> {PRIORITIZED, VALIDATED}) ValueError
              ''a case may close without action only after triage or validation'') (\<lambda>_.
     bindE (guardE (ta_detail a \<noteq> []) ValueError ''closing without action requires a reason'') (\<lambda>_.
     Inr (CLOSED_NO_ACTION, None)))"
| "transition_target c REJECT a =
     bindE (guardE (rc_state c \<in> {PLAN_READY, SRE_APPROVED, WINDOW_SELECTED, ROLLBACK_READY,
                                 AWAITING_APPROVAL}) ValueError
              (''a case cannot be rejected from '' @ case_state_value (rc_state c))) (\<lambda>_.
     bindE (guardE (ta_detail a \<noteq> []) ValueError ''rejecting a case requires a reason'') (\<lambda>_.
     Inr (REJECTED, None)))"
| "transition_target c t a =
     (case linear_transition (rc_state c) t of
        Some s \<Rightarrow> Inr (s, None)
      | None \<Rightarrow> Inl (Raise ValueError (''transition '' @ case_transition_value t
                      @ '' is not allowed from '' @ case_state_value (rc_state c))))"

text \<open>The checks on the records that accompany a transition.\<close>

definition check_attachments :: "case_transition \<Rightarrow> transition_args \<Rightarrow> unit res" where
  "check_attachments t a =
     bindE (guardE (t = PRIORITIZE \<longrightarrow> ta_priority a \<noteq> None) ValueError
              ''prioritize requires a RiskAssessment'') (\<lambda>_.
     bindE (guardE (t = PREPARE_PLAN \<longrightarrow> ta_change_plan a \<noteq> None) ValueError
              ''prepare_plan requires a ChangePlan'') (\<lambda>_.
     bindE (guardE (t = SELECT_WINDOW \<longrightarrow> ta_change_window a \<noteq> None) ValueError
              ''select_window requires a ChangeWindow'') (\<lambda>_.
     bindE (guardE (ta_priority a = None \<or> t \<in> {PRIORITIZE, REPRIORITIZE}) ValueError
              ''priority may be attached only during prioritize, reprioritize'') (\<lambda>_.
     bindE (guardE (ta_change_plan a = None \<or> t = PREPARE_PLAN) ValueError
              ''change_plan may be attached only during prepare_plan'') (\<lambda>_.
     bindE (guardE (ta_change_window a = None \<or> t = SELECT_WINDOW) ValueError
              ''change_window may be attached only during select_window'') (\<lambda>_.
     guardE (t = ADD_FINDING \<or> ta_new_finding_ids a = []) ValueError
       ''new_finding_ids may be attached only during add_finding''))))))"

text \<open>The record ids a transition removes before it adds its own.\<close>

definition dropped_records :: "remediation_case \<Rightarrow> case_transition \<Rightarrow> string list" where
  "dropped_records c t =
     (if reopened c t then
        [''validation_result_id'', ''iac_link_id'', ''change_plan_id'', ''sre_review_id'',
         ''change_window_id'', ''rollback_review_id'', ''review_feedback_id'',
         ''policy_decision_id'', ''human_review_package_id'', ''approval_id'', ''schedule_id'']
      else if t = RETRY_SRE then [''sre_review_id'', ''change_window_id'']
      else if t = REQUEST_REWORK then
        [''iac_link_id'', ''change_plan_id'', ''sre_review_id'', ''change_window_id'',
         ''rollback_review_id'', ''policy_decision_id'', ''human_review_package_id'']
      else if t = RESELECT_WINDOW then
        [''change_window_id'', ''rollback_review_id'', ''policy_decision_id'',
         ''human_review_package_id'']
      else [])"

definition merged_records ::
  "remediation_case \<Rightarrow> case_transition \<Rightarrow> transition_args \<Rightarrow> (string, string) dict" where
  "merged_records c t a =
     dict_update (fold dict_pop (dropped_records c t) (rc_record_ids c)) (ta_record_ids a)"

definition or_else :: "'a option \<Rightarrow> 'a option \<Rightarrow> 'a option" where
  "or_else x y = (case x of None \<Rightarrow> y | Some v \<Rightarrow> Some v)"

definition required_present :: "case_transition \<Rightarrow> transition_args \<Rightarrow> unit res" where
  "required_present t a =
     (case required_record t of
        None \<Rightarrow> Inr ()
      | Some k \<Rightarrow> guardE (\<exists>v \<in> set_option (dict_get (ta_record_ids a) k). v \<noteq> []) ValueError
                    (case_transition_value t @ '' requires record '' @ k))"

definition transition_case ::
  "remediation_case \<Rightarrow> case_transition \<Rightarrow> transition_args \<Rightarrow> (remediation_case \<times> case_event) res" where
  "transition_case c t a =
     bindE (guardE (\<not> rc_terminal c) ValueError
              (''case '' @ rc_case_id c @ '' is terminal in state ''
               @ case_state_value (rc_state c))) (\<lambda>_.
     bindE (required_present t a) (\<lambda>_.
     bindE (transition_target c t a) (\<lambda>(to_state, blocked_from).
     bindE (check_attachments t a) (\<lambda>_.
     bindE (mk_case_event
              \<lparr> ev_event_id = ta_event_id a, ev_case_id = rc_case_id c,
                ev_sequence = rc_version c + 1, ev_transition = t,
                ev_from_state = rc_state c, ev_to_state = to_state,
                ev_occurred_at = ta_occurred_at a, ev_actor = ta_actor a,
                ev_record_ids = ta_record_ids a, ev_evidence_ids = ta_evidence_ids a,
                ev_detail = ta_detail a \<rparr>) (\<lambda>event.
     bindE (mk_remediation_case (c\<lparr>
              rc_finding_ids := (if t = ADD_FINDING then rc_finding_ids c @ additions c a
                                 else rc_finding_ids c),
              rc_state := to_state,
              rc_version := ev_sequence event,
              rc_updated_at := ta_occurred_at a,
              rc_priority := or_else (ta_priority a) (rc_priority c),
              rc_change_plan := (if t = REQUEST_REWORK \<or> reopened c t then None
                                 else or_else (ta_change_plan a) (rc_change_plan c)),
              rc_change_window := (if reopened c t \<or> t \<in> {RETRY_SRE, RESELECT_WINDOW, REQUEST_REWORK}
                                   then None
                                   else or_else (ta_change_window a) (rc_change_window c)),
              rc_record_ids := merged_records c t a,
              rc_blocked_from := blocked_from\<rparr>)) (\<lambda>projection.
     Inr (projection, event)))))))"

end
