(* ===== verification/Case_Lifecycle.thy ===== *)
theory Case_Lifecycle
  imports Case_Transitions
begin

text \<open>
  What \<open>transition_case\<close> guarantees: the facts of one successful transition, the well-formedness
  invariant of a case (which records each state has bound), and what the event log of a case
  says about the stages it has passed.
\<close>

section \<open>One transition\<close>

lemmas mk_case_simps = mk_remediation_case_def mk_case_event_def

lemma transition_caseD:
  assumes "transition_case c t a = Inr (c', e)"
  shows "\<not> rc_terminal c" "required_present t a = Inr ()" "check_attachments t a = Inr ()"
    "transition_target c t a = Inr (rc_state c', rc_blocked_from c')"
    "rc_case_id c' = rc_case_id c" "rc_tenant_id c' = rc_tenant_id c"
    "rc_asset_ids c' = rc_asset_ids c" "rc_service_ids c' = rc_service_ids c"
    "rc_created_at c' = rc_created_at c" "rc_updated_at c' = ta_occurred_at a"
    "rc_version c' = rc_version c + 1" "0 \<le> rc_version c"
    "rc_finding_ids c' = (if t = ADD_FINDING then rc_finding_ids c @ additions c a
                          else rc_finding_ids c)"
    "rc_priority c' = or_else (ta_priority a) (rc_priority c)"
    "rc_change_plan c' = (if t = REQUEST_REWORK \<or> reopened c t then None
                          else or_else (ta_change_plan a) (rc_change_plan c))"
    "rc_change_window c' = (if reopened c t \<or> t \<in> {RETRY_SRE, RESELECT_WINDOW, REQUEST_REWORK}
                            then None else or_else (ta_change_window a) (rc_change_window c))"
    "rc_record_ids c' = merged_records c t a"
    "ev_case_id e = rc_case_id c" "ev_sequence e = rc_version c + 1" "ev_transition e = t"
    "ev_from_state e = rc_state c" "ev_to_state e = rc_state c'"
    "ev_event_id e = ta_event_id a" "ev_detail e = ta_detail a" "ev_actor e = ta_actor a"
    "ev_record_ids e = ta_record_ids a" "ev_evidence_ids e = ta_evidence_ids a"
    "ev_occurred_at e = ta_occurred_at a"
    "rc_case_id c \<noteq> []" "rc_tenant_id c \<noteq> []" "is_ok (mk_case_event e)"
    "is_ok (mk_remediation_case c')"
  using assms unfolding transition_case_def
  by (auto simp: res_simps mk_case_simps split: prod.splits)

lemma transition_target_linear:
  assumes "t \<notin> {ADD_FINDING, REPRIORITIZE, SCHEDULE_EXECUTION, RETRY_SRE, REQUEST_REWORK,
                 RESELECT_WINDOW, BLOCK, RESUME, CLOSE_NO_ACTION, REJECT}"
  shows "transition_target c t a = Inr (s, b) \<longleftrightarrow> linear_transition (rc_state c) t = Some s \<and> b = None"
  using assms by (cases t) (auto split: option.splits)

lemma linear_transitionD:
  "linear_transition s t = Some s' \<Longrightarrow> ((s, t), s') \<in> set linear_transitions"
  unfolding linear_transition_def by (rule map_of_SomeD)

section \<open>Where a case stands\<close>

text \<open>The state that counts: a blocked case stands where it was blocked.\<close>

definition effective_state :: "remediation_case \<Rightarrow> case_state" where
  "effective_state c = (case rc_blocked_from c of None \<Rightarrow> rc_state c | Some s \<Rightarrow> s)"

text \<open>The records each state has bound.\<close>

fun stage_records :: "case_state \<Rightarrow> string list" where
  "stage_records OPEN = []"
| "stage_records PRIORITIZED = [''risk_assessment_id'']"
| "stage_records VALIDATED = [''risk_assessment_id'', ''validation_result_id'']"
| "stage_records PLAN_READY = [''risk_assessment_id'', ''validation_result_id'', ''change_plan_id'']"
| "stage_records SRE_APPROVED =
     [''risk_assessment_id'', ''validation_result_id'', ''change_plan_id'', ''sre_review_id'']"
| "stage_records WINDOW_SELECTED =
     [''risk_assessment_id'', ''validation_result_id'', ''change_plan_id'', ''sre_review_id'',
      ''change_window_id'']"
| "stage_records ROLLBACK_READY =
     [''risk_assessment_id'', ''validation_result_id'', ''change_plan_id'', ''sre_review_id'',
      ''change_window_id'', ''rollback_review_id'']"
| "stage_records AWAITING_APPROVAL =
     [''risk_assessment_id'', ''validation_result_id'', ''change_plan_id'', ''sre_review_id'',
      ''change_window_id'', ''rollback_review_id'', ''policy_decision_id'']"
| "stage_records CLOSED_NO_ACTION = [''risk_assessment_id'']"
| "stage_records REJECTED = [''risk_assessment_id'', ''validation_result_id'', ''change_plan_id'']"
| "stage_records BLOCKED = []"
| "stage_records s =
     [''risk_assessment_id'', ''validation_result_id'', ''change_plan_id'', ''sre_review_id'',
      ''change_window_id'', ''rollback_review_id'', ''policy_decision_id'', ''approval_id'']
     @ (if s = APPROVED then [] else [''execution_id''])
     @ (if s \<in> {VERIFYING, REMEDIATED} then [''execution_result_id''] else [])
     @ (if s \<in> {ROLLING_BACK, ROLLED_BACK} then [''rollback_execution_id''] else [])
     @ (if s \<in> {REMEDIATED, ROLLED_BACK} then [''verification_result_id''] else [])"

definition case_inv :: "remediation_case \<Rightarrow> bool" where
  "case_inv c =
     ((rc_state c = BLOCKED \<longleftrightarrow> rc_blocked_from c \<noteq> None) \<and>
      effective_state c \<noteq> BLOCKED \<and>
      (rc_state c = BLOCKED \<longrightarrow> effective_state c \<notin> set terminal_case_states) \<and>
      list_all (\<lambda>k. dict_has (rc_record_ids c) k) (stage_records (effective_state c)) \<and>
      (''risk_assessment_id'' \<in> set (stage_records (effective_state c)) \<longrightarrow> rc_priority c \<noteq> None) \<and>
      (''change_plan_id'' \<in> set (stage_records (effective_state c)) \<longrightarrow> rc_change_plan c \<noteq> None) \<and>
      (''change_window_id'' \<in> set (stage_records (effective_state c)) \<longrightarrow> rc_change_window c \<noteq> None) \<and>
      0 \<le> rc_version c)"

lemma open_case_inv: "open_case i t fs as ss now = Inr c \<Longrightarrow> case_inv c"
  by (auto simp: open_case_def mk_case_simps res_simps case_inv_def effective_state_def)

lemma dict_has_get: "dict_has d k \<longleftrightarrow> dict_get d k \<noteq> None"
  by (simp add: dict_has_def dict_get_def)

lemma dict_get_in_keys: "dict_get d k = Some v \<Longrightarrow> k \<in> fst ` set d"
  by (auto simp: dict_get_def image_iff dest!: map_of_SomeD intro!: bexI)

lemma dict_has_merged:
  "dict_has (merged_records c t a) k \<longleftrightarrow>
     k \<in> fst ` set (ta_record_ids a) \<or> (dict_has (rc_record_ids c) k \<and> k \<notin> set (dropped_records c t))"
proof (cases "k \<in> fst ` set (ta_record_ids a)")
  case True
  then show ?thesis by (simp add: dict_has_get merged_records_def dict_has_update)
next
  case False
  then have "dict_get (rev (ta_record_ids a)) k = None"
    by (simp add: dict_get_def map_of_eq_None_iff)
  with False show ?thesis
    by (simp add: dict_has_get merged_records_def dict_get_update dict_pop_fold_get)
qed

lemma required_present_has:
  "required_present t a = Inr () \<Longrightarrow> required_record t = Some k \<Longrightarrow> k \<in> fst ` set (ta_record_ids a)"
  by (auto simp: required_present_def res_simps dest!: dict_get_in_keys)

definition settled :: "case_state \<Rightarrow> case_state option \<Rightarrow> case_state" where
  "settled s b = (case b of None \<Rightarrow> s | Some s' \<Rightarrow> s')"

lemma effective_state_settled: "effective_state c = settled (rc_state c) (rc_blocked_from c)"
  by (simp add: effective_state_def settled_def)

lemma case_inv_blocked:
  "case_inv c \<Longrightarrow> rc_state c \<noteq> BLOCKED \<Longrightarrow> rc_blocked_from c = None \<and> effective_state c = rc_state c"
  by (auto simp: case_inv_def effective_state_def)

lemma linear_step_records:
  assumes "((s, t), s') \<in> set linear_transitions" "k \<in> set (stage_records s')"
  shows "required_record t = Some k \<or> k \<in> set (stage_records s)"
proof -
  have "\<forall>((s, t), s') \<in> set linear_transitions. \<forall>k \<in> set (stage_records s').
          required_record t = Some k \<or> k \<in> set (stage_records s)"
    by (simp add: linear_transitions_def)
  then show ?thesis using assms by blast
qed

lemma reopening_records:
  assumes "s \<in> set reopening_states" shows "''risk_assessment_id'' \<in> set (stage_records s)"
proof -
  have "\<forall>s \<in> set reopening_states. ''risk_assessment_id'' \<in> set (stage_records s)"
    by (simp add: reopening_states_def)
  then show ?thesis using assms by blast
qed

text \<open>The way a transition moves a case, by the kind of the transition.\<close>

lemma transition_target_cases:
  assumes "transition_target c t a = Inr (s', b')"
  obtains
    (linear) "((rc_state c, t), s') \<in> set linear_transitions" "b' = None"
      "dropped_records c t = []"
  | (stay) "t \<in> {ADD_FINDING, REPRIORITIZE, SCHEDULE_EXECUTION}" "\<not> reopened c t"
      "s' = rc_state c" "b' = rc_blocked_from c" "dropped_records c t = []"
  | (reopen) "t = ADD_FINDING" "rc_state c \<in> set reopening_states" "s' = PRIORITIZED" "b' = None"
  | (sent_back) "(t, rc_state c, s') \<in> set [(RETRY_SRE, SRE_APPROVED, PLAN_READY),
      (RETRY_SRE, WINDOW_SELECTED, PLAN_READY), (REQUEST_REWORK, WINDOW_SELECTED, VALIDATED),
      (RESELECT_WINDOW, ROLLBACK_READY, SRE_APPROVED)]" "b' = None"
  | (block) "t = BLOCK" "rc_state c \<noteq> BLOCKED" "s' = BLOCKED" "b' = Some (rc_state c)"
      "dropped_records c t = []"
  | (resume) "t = RESUME" "rc_state c = BLOCKED" "rc_blocked_from c = Some s'" "b' = None"
      "dropped_records c t = []"
  | (close) "t = CLOSE_NO_ACTION" "rc_state c \<in> {PRIORITIZED, VALIDATED}" "s' = CLOSED_NO_ACTION"
      "b' = None" "dropped_records c t = []"
  | (reject) "t = REJECT" "rc_state c \<in> {PLAN_READY, SRE_APPROVED, WINDOW_SELECTED,
      ROLLBACK_READY, AWAITING_APPROVAL}" "s' = REJECTED" "b' = None" "dropped_records c t = []"
proof -
  let ?special = "{ADD_FINDING, REPRIORITIZE, SCHEDULE_EXECUTION, RETRY_SRE, REQUEST_REWORK,
                   RESELECT_WINDOW, BLOCK, RESUME, CLOSE_NO_ACTION, REJECT}"
  show thesis
  proof (cases "t \<in> ?special")
    case False
    then have "linear_transition (rc_state c) t = Some s'" "b' = None"
      using assms by (simp_all add: transition_target_linear)
    with False show thesis
      by (intro linear) (auto simp: dropped_records_def reopened_def linear_transitionD)
  next
    case True
    then consider (add) "t = ADD_FINDING" | (keep) "t \<in> {REPRIORITIZE, SCHEDULE_EXECUTION}"
      | (undo) "t \<in> {RETRY_SRE, REQUEST_REWORK, RESELECT_WINDOW}" | (blk) "t = BLOCK"
      | (res) "t = RESUME" | (cl) "t = CLOSE_NO_ACTION" | (rej) "t = REJECT" by blast
    then show thesis
    proof cases
      case add
      show thesis
      proof (cases "reopened c t")
        case True
        with add assms show thesis by (intro reopen) (auto simp: res_simps reopened_def)
      next
        case False
        with add assms show thesis by (intro stay) (auto simp: res_simps dropped_records_def)
      qed
    next
      case keep
      then show thesis using assms
        by (intro stay) (auto simp: res_simps reopened_def dropped_records_def)
    next
      case undo
      then show thesis using assms by (intro sent_back) (auto simp: res_simps)
    next
      case blk
      then show thesis using assms
        by (intro block) (auto simp: res_simps reopened_def dropped_records_def)
    next
      case res
      then show thesis using assms
        by (intro resume) (auto simp: res_simps reopened_def dropped_records_def split: option.splits)
    next
      case cl
      then show thesis using assms
        by (intro close) (auto simp: res_simps reopened_def dropped_records_def)
    next
      case rej
      then show thesis using assms
        by (intro reject) (auto simp: res_simps reopened_def dropped_records_def)
    qed
  qed
qed

lemma sent_back_records:
  assumes "(t, s, s') \<in> set [(RETRY_SRE, SRE_APPROVED, PLAN_READY),
      (RETRY_SRE, WINDOW_SELECTED, PLAN_READY), (REQUEST_REWORK, WINDOW_SELECTED, VALIDATED),
      (RESELECT_WINDOW, ROLLBACK_READY, SRE_APPROVED)]"
    and "rc_state c = s" "k \<in> set (stage_records s')"
  shows "k \<in> set (stage_records s) \<and> k \<notin> set (dropped_records c t) \<and> s \<noteq> BLOCKED"
  using assms by (auto simp: dropped_records_def reopened_def)

lemma closing_records:
  "s \<in> {PRIORITIZED, VALIDATED} \<Longrightarrow> k \<in> set (stage_records CLOSED_NO_ACTION) \<Longrightarrow>
     k \<in> set (stage_records s) \<and> s \<noteq> BLOCKED"
  "s \<in> {PLAN_READY, SRE_APPROVED, WINDOW_SELECTED, ROLLBACK_READY, AWAITING_APPROVAL} \<Longrightarrow>
     k \<in> set (stage_records REJECTED) \<Longrightarrow> k \<in> set (stage_records s) \<and> s \<noteq> BLOCKED"
  by auto

lemma stage_step:
  assumes "transition_target c t a = Inr (s', b')" "case_inv c" "k \<in> set (stage_records (settled s' b'))"
  shows "required_record t = Some k \<or>
    (k \<in> set (stage_records (effective_state c)) \<and> k \<notin> set (dropped_records c t))"
proof -
  have eff: "effective_state c = rc_state c" if "rc_state c \<noteq> BLOCKED"
    using case_inv_blocked [OF assms(2) that] by simp
  show ?thesis using assms(1)
  proof (cases rule: transition_target_cases)
    case linear
    then have "rc_state c \<noteq> BLOCKED" by (auto simp: linear_transitions_def)
    with linear assms(3) show ?thesis
      using linear_step_records [OF linear(1), of k] by (simp add: eff settled_def)
  next
    case stay
    with assms(3) show ?thesis by (simp add: effective_state_settled)
  next
    case reopen
    then have "rc_state c \<noteq> BLOCKED" "k = ''risk_assessment_id''"
      using assms(3) by (auto simp: reopening_states_def settled_def)
    with reopen reopening_records [OF reopen(2)] show ?thesis
      by (simp add: eff dropped_records_def reopened_def)
  next
    case sent_back
    with assms(3) sent_back_records [OF sent_back(1) refl, of k] show ?thesis
      by (simp add: eff settled_def)
  next
    case block
    with assms(3) show ?thesis by (simp add: eff settled_def)
  next
    case resume
    with assms(3) show ?thesis by (simp add: settled_def effective_state_def)
  next
    case close
    with assms(3) closing_records(1) [OF close(2), of k] show ?thesis by (simp add: eff settled_def)
  next
    case reject
    with assms(3) closing_records(2) [OF reject(2), of k] show ?thesis by (simp add: eff settled_def)
  qed
qed

lemma risk_record_transitions:
  "required_record t = Some ''risk_assessment_id'' \<longleftrightarrow> t \<in> {PRIORITIZE, REPRIORITIZE}"
  "required_record t = Some ''change_plan_id'' \<longleftrightarrow> t = PREPARE_PLAN"
  "required_record t = Some ''change_window_id'' \<longleftrightarrow> t = SELECT_WINDOW"
  by (cases t; simp)+

lemma check_attachmentsD:
  assumes "check_attachments t a = Inr ()"
  shows "t = PRIORITIZE \<Longrightarrow> ta_priority a \<noteq> None" "t = PREPARE_PLAN \<Longrightarrow> ta_change_plan a \<noteq> None"
    "t = SELECT_WINDOW \<Longrightarrow> ta_change_window a \<noteq> None"
    "ta_priority a \<noteq> None \<Longrightarrow> t \<in> {PRIORITIZE, REPRIORITIZE}"
    "ta_change_plan a \<noteq> None \<Longrightarrow> t = PREPARE_PLAN"
    "ta_change_window a \<noteq> None \<Longrightarrow> t = SELECT_WINDOW"
  using assms unfolding check_attachments_def by (auto simp: res_simps)

lemma or_else_None [simp]: "or_else x y = None \<longleftrightarrow> x = None \<and> y = None"
  by (simp add: or_else_def split: option.splits)

lemma dropped_plan:
  "''change_plan_id'' \<in> set (dropped_records c t) \<longleftrightarrow> t = REQUEST_REWORK \<or> reopened c t"
  "''change_window_id'' \<in> set (dropped_records c t) \<longleftrightarrow>
     reopened c t \<or> t \<in> {RETRY_SRE, RESELECT_WINDOW, REQUEST_REWORK}"
  by (auto simp: dropped_records_def)

lemma settled_target:
  assumes "transition_target c t a = Inr (s', b')" "case_inv c"
  shows "(s' = BLOCKED \<longleftrightarrow> b' \<noteq> None) \<and> settled s' b' \<noteq> BLOCKED \<and>
    (s' = BLOCKED \<longrightarrow> rc_terminal c \<or> settled s' b' \<notin> set terminal_case_states)"
  using assms(1)
proof (cases rule: transition_target_cases)
  case linear
  then show ?thesis by (auto simp: settled_def linear_transitions_def)
next
  case stay
  with assms(2) show ?thesis unfolding case_inv_def effective_state_settled by simp metis
next
  case resume
  with assms(2) show ?thesis by (simp add: case_inv_def effective_state_def settled_def)
qed (auto simp: settled_def rc_terminal_def)

text \<open>The invariant is kept.\<close>

lemma transition_case_inv:
  assumes "transition_case c t a = Inr (c', e)" "case_inv c"
  shows "case_inv c'"
proof -
  note D = transition_caseD [OF assms(1)]
  note step = stage_step [OF D(4) assms(2), folded effective_state_settled]
  note att = check_attachmentsD [OF D(3)]
  note inv = assms(2) [unfolded case_inv_def]
  have recs: "dict_has (rc_record_ids c') k" if "k \<in> set (stage_records (effective_state c'))" for k
    using step [OF that] inv required_present_has [OF D(2), of k]
    unfolding D(17) dict_has_merged by (metis list_all_iff)
  have prio: "rc_priority c' \<noteq> None" if "''risk_assessment_id'' \<in> set (stage_records (effective_state c'))"
  proof -
    have "ta_priority a \<noteq> None" if "t = REPRIORITIZE" using D(4) that by (simp add: res_simps)
    moreover have "''risk_assessment_id'' \<in> set (stage_records (effective_state c)) \<Longrightarrow> rc_priority c \<noteq> None"
      using inv by blast
    ultimately show ?thesis using step [OF that] att(1) unfolding D(14) risk_record_transitions
      by (simp del: not_None_eq) blast
  qed
  have plan: "rc_change_plan c' \<noteq> None" if "''change_plan_id'' \<in> set (stage_records (effective_state c'))"
  proof -
    have "''change_plan_id'' \<in> set (stage_records (effective_state c)) \<Longrightarrow> rc_change_plan c \<noteq> None"
      using inv by blast
    then show ?thesis using step [OF that] att(2) unfolding D(15) risk_record_transitions dropped_plan
      by (auto simp: reopened_def simp del: not_None_eq)
  qed
  have window: "rc_change_window c' \<noteq> None"
    if "''change_window_id'' \<in> set (stage_records (effective_state c'))"
  proof -
    have "''change_window_id'' \<in> set (stage_records (effective_state c)) \<Longrightarrow> rc_change_window c \<noteq> None"
      using inv by blast
    then show ?thesis using step [OF that] att(3) unfolding D(16) risk_record_transitions dropped_plan
      by (auto simp: reopened_def simp del: not_None_eq)
  qed
  have "(rc_state c' = BLOCKED \<longleftrightarrow> rc_blocked_from c' \<noteq> None) \<and> effective_state c' \<noteq> BLOCKED \<and>
    (rc_state c' = BLOCKED \<longrightarrow> effective_state c' \<notin> set terminal_case_states)"
    using settled_target [OF D(4) assms(2)] D(1) unfolding effective_state_settled by blast
  moreover have "0 \<le> rc_version c'" using D(11,12) by simp
  ultimately show ?thesis
    using recs prio plan window unfolding case_inv_def list_all_iff by blast
qed

section \<open>A transition as a store records it\<close>

text \<open>
  A store that keeps a case as JSON text returns its record ids in another order. Two cases, or
  events, are the same up to that order, which Python's equality ignores too.
\<close>

definition same_case :: "remediation_case \<Rightarrow> remediation_case \<Rightarrow> bool" where
  "same_case c d = (d = c\<lparr>rc_record_ids := rc_record_ids d\<rparr> \<and>
                    dict_get (rc_record_ids d) = dict_get (rc_record_ids c))"

definition same_event :: "case_event \<Rightarrow> case_event \<Rightarrow> bool" where
  "same_event e f = (f = e\<lparr>ev_record_ids := ev_record_ids f\<rparr> \<and>
                     dict_get (ev_record_ids f) = dict_get (ev_record_ids e))"

definition recorded ::
  "remediation_case \<Rightarrow> case_transition \<Rightarrow> transition_args \<Rightarrow> remediation_case \<Rightarrow> case_event \<Rightarrow> bool" where
  "recorded c t a d f =
     (\<exists>c' e. transition_case c t a = Inr (c', e) \<and> same_case c' d \<and> same_event e f)"

lemma same_refl [simp]: "same_case c c" "same_event e e"
  by (simp_all add: same_case_def same_event_def)

lemma recorded_itself: "transition_case c t a = Inr (c', e) \<Longrightarrow> recorded c t a c' e"
  unfolding recorded_def using same_refl by blast

lemma same_case_fields:
  assumes "same_case c d"
  shows "rc_case_id d = rc_case_id c" "rc_tenant_id d = rc_tenant_id c"
    "rc_finding_ids d = rc_finding_ids c" "rc_asset_ids d = rc_asset_ids c"
    "rc_service_ids d = rc_service_ids c" "rc_state d = rc_state c" "rc_version d = rc_version c"
    "rc_created_at d = rc_created_at c" "rc_updated_at d = rc_updated_at c"
    "rc_priority d = rc_priority c" "rc_change_plan d = rc_change_plan c"
    "rc_change_window d = rc_change_window c" "rc_blocked_from d = rc_blocked_from c"
    "dict_has (rc_record_ids d) k = dict_has (rc_record_ids c) k"
    "effective_state d = effective_state c" "rc_terminal d = rc_terminal c"
proof -
  have f: "d = c\<lparr>rc_record_ids := rc_record_ids d\<rparr>"
    and r: "dict_get (rc_record_ids d) = dict_get (rc_record_ids c)"
    using assms by (simp_all add: same_case_def)
  show s: "rc_state d = rc_state c" and b: "rc_blocked_from d = rc_blocked_from c"
    and "rc_case_id d = rc_case_id c" "rc_tenant_id d = rc_tenant_id c"
    "rc_finding_ids d = rc_finding_ids c" "rc_asset_ids d = rc_asset_ids c"
    "rc_service_ids d = rc_service_ids c" "rc_version d = rc_version c"
    "rc_created_at d = rc_created_at c" "rc_updated_at d = rc_updated_at c"
    "rc_priority d = rc_priority c" "rc_change_plan d = rc_change_plan c"
    "rc_change_window d = rc_change_window c"
    by (subst f, simp)+
  show "effective_state d = effective_state c" "rc_terminal d = rc_terminal c"
    unfolding effective_state_def rc_terminal_def s b by (rule refl)+
  show "dict_has (rc_record_ids d) k = dict_has (rc_record_ids c) k"
    by (simp add: dict_has_get r)
qed

lemma same_event_fields:
  assumes "same_event e f"
  shows "ev_event_id f = ev_event_id e" "ev_case_id f = ev_case_id e" "ev_sequence f = ev_sequence e"
    "ev_transition f = ev_transition e" "ev_from_state f = ev_from_state e"
    "ev_to_state f = ev_to_state e" "ev_occurred_at f = ev_occurred_at e" "ev_actor f = ev_actor e"
    "ev_evidence_ids f = ev_evidence_ids e" "ev_detail f = ev_detail e"
proof -
  have r: "f = e\<lparr>ev_record_ids := ev_record_ids f\<rparr>" using assms by (simp add: same_event_def)
  show "ev_event_id f = ev_event_id e" "ev_case_id f = ev_case_id e" "ev_sequence f = ev_sequence e"
    "ev_transition f = ev_transition e" "ev_from_state f = ev_from_state e"
    "ev_to_state f = ev_to_state e" "ev_occurred_at f = ev_occurred_at e" "ev_actor f = ev_actor e"
    "ev_evidence_ids f = ev_evidence_ids e" "ev_detail f = ev_detail e"
    by (subst r, simp)+
qed

lemma same_case_inv: "case_inv c \<Longrightarrow> same_case c d \<Longrightarrow> case_inv d"
  unfolding case_inv_def list_all_iff by (simp add: same_case_fields)

lemma recordedD:
  assumes "recorded c t a d f"
  shows "\<not> rc_terminal c" "transition_target c t a = Inr (rc_state d, rc_blocked_from d)"
    "rc_case_id d = rc_case_id c" "rc_tenant_id d = rc_tenant_id c"
    "rc_asset_ids d = rc_asset_ids c" "rc_created_at d = rc_created_at c"
    "rc_updated_at d = ta_occurred_at a" "rc_version d = rc_version c + 1" "0 \<le> rc_version c"
    "ev_case_id f = rc_case_id c" "ev_sequence f = rc_version c + 1" "ev_transition f = t"
    "ev_from_state f = rc_state c" "ev_to_state f = rc_state d"
    "ev_event_id f = ta_event_id a" "ev_occurred_at f = ta_occurred_at a"
    "case_inv c \<Longrightarrow> case_inv d"
proof -
  obtain c' e where t: "transition_case c t a = Inr (c', e)" and s: "same_case c' d" "same_event e f"
    using assms unfolding recorded_def by blast
  note fields = same_case_fields [OF s(1)] same_event_fields [OF s(2)]
  show "\<not> rc_terminal c" "transition_target c t a = Inr (rc_state d, rc_blocked_from d)"
    "rc_case_id d = rc_case_id c" "rc_tenant_id d = rc_tenant_id c"
    "rc_asset_ids d = rc_asset_ids c" "rc_created_at d = rc_created_at c"
    "rc_updated_at d = ta_occurred_at a" "rc_version d = rc_version c + 1" "0 \<le> rc_version c"
    "ev_case_id f = rc_case_id c" "ev_sequence f = rc_version c + 1" "ev_transition f = t"
    "ev_from_state f = rc_state c" "ev_to_state f = rc_state d"
    "ev_event_id f = ta_event_id a" "ev_occurred_at f = ta_occurred_at a"
    using transition_caseD [OF t] by (simp_all add: fields)
  show "case_inv c \<Longrightarrow> case_inv d"
    using transition_case_inv [OF t] same_case_inv [OF _ s(1)] by blast
qed

section \<open>Histories\<close>

text \<open>The cases that a sequence of transitions leads to, with the events they recorded.\<close>

inductive case_steps :: "remediation_case \<Rightarrow> case_event list \<Rightarrow> remediation_case \<Rightarrow> bool" where
  none: "case_steps c [] c"
| step: "case_steps c es c' \<Longrightarrow> recorded c' t a c'' e \<Longrightarrow> case_steps c (es @ [e]) c''"

inductive_simps case_steps_Nil: "case_steps c [] c'"
inductive_cases case_steps_snocE: "case_steps c (es @ [e]) c'"

definition history :: "remediation_case \<Rightarrow> case_event list \<Rightarrow> bool" where
  "history c es = (\<exists>c0. open_case (rc_case_id c0) (rc_tenant_id c0) (rc_finding_ids c0) (rc_asset_ids c0)
                         (rc_service_ids c0) (rc_created_at c0) = Inr c0 \<and> case_steps c0 es c)"

lemma case_steps_trans:
  assumes "case_steps c' fs c''" "case_steps c es c'" shows "case_steps c (es @ fs) c''"
  using assms by (induction rule: case_steps.induct)
    (auto simp flip: append_assoc intro: case_steps.intros)

lemma case_steps_split:
  "case_steps c (es @ fs) c'' \<Longrightarrow> \<exists>c'. case_steps c es c' \<and> case_steps c' fs c''"
proof (induction fs arbitrary: c'' rule: rev_induct)
  case Nil
  then show ?case by (auto intro: case_steps.none)
next
  case (snoc e fs)
  from snoc.prems have "case_steps c ((es @ fs) @ [e]) c''" by simp
  then show ?case by (rule case_steps_snocE) (use snoc.IH in \<open>fastforce intro: case_steps.step\<close>)
qed

lemma case_steps_inv: "case_steps c es c' \<Longrightarrow> case_inv c \<Longrightarrow> case_inv c'"
  by (induction rule: case_steps.induct) (auto intro: recordedD(17))

lemma openedD:
  "open_case i t fs as ss now = Inr c \<Longrightarrow>
     rc_state c = OPEN \<and> rc_version c = 0 \<and> rc_blocked_from c = None \<and> rc_case_id c = i \<and>
     rc_tenant_id c = t \<and> rc_finding_ids c = fs \<and> rc_record_ids c = [] \<and>
     rc_created_at c = now \<and> rc_updated_at c = now"
  by (auto simp: open_case_def mk_case_simps res_simps)

lemma history_inv: "history c es \<Longrightarrow> case_inv c"
  unfolding history_def by (blast intro: case_steps_inv open_case_inv)

section \<open>Stages\<close>

text \<open>
  The eleven transitions that lead from a finding to a verified remediation, in order, and how
  many of them a case in a given state has behind it.
\<close>

definition lifecycle_stages :: "case_transition list" where
  "lifecycle_stages =
     [PRIORITIZE, VALIDATE, PREPARE_PLAN, APPROVE_SRE, SELECT_WINDOW, REVIEW_ROLLBACK,
      REQUEST_APPROVAL, APPROVE_CHANGE, START_EXECUTION, START_VERIFICATION,
      COMPLETE_REMEDIATION]"

fun stage_rank :: "case_state \<Rightarrow> nat" where
  "stage_rank OPEN = 0"
| "stage_rank PRIORITIZED = 1"
| "stage_rank VALIDATED = 2"
| "stage_rank PLAN_READY = 3"
| "stage_rank SRE_APPROVED = 4"
| "stage_rank WINDOW_SELECTED = 5"
| "stage_rank ROLLBACK_READY = 6"
| "stage_rank AWAITING_APPROVAL = 7"
| "stage_rank APPROVED = 8"
| "stage_rank EXECUTING = 9"
| "stage_rank VERIFYING = 10"
| "stage_rank REMEDIATED = 11"
| "stage_rank ROLLING_BACK = 9"
| "stage_rank ROLLED_BACK = 9"
| "stage_rank CLOSED_NO_ACTION = 1"
| "stage_rank REJECTED = 3"
| "stage_rank BLOCKED = 0"

lemma stage_rank_le: "stage_rank s \<le> length lifecycle_stages"
  by (cases s) (simp_all add: lifecycle_stages_def)

lemma rank_step:
  assumes "transition_target c t a = Inr (s', b')" "case_inv c"
  shows "stage_rank (settled s' b') \<le> stage_rank (effective_state c) \<or>
    (stage_rank (settled s' b') = Suc (stage_rank (effective_state c)) \<and>
     stage_rank (effective_state c) < length lifecycle_stages \<and>
     t = lifecycle_stages ! stage_rank (effective_state c))"
proof -
  have eff: "effective_state c = rc_state c" if "rc_state c \<noteq> BLOCKED"
    using case_inv_blocked [OF assms(2) that] by simp
  show ?thesis using assms(1)
  proof (cases rule: transition_target_cases)
    case linear
    then have "rc_state c \<noteq> BLOCKED" by (auto simp: linear_transitions_def)
    with linear show ?thesis by (auto simp: eff settled_def linear_transitions_def lifecycle_stages_def)
  next
    case stay
    then show ?thesis by (simp add: effective_state_settled)
  next
    case reopen
    then show ?thesis by (auto simp: eff settled_def reopening_states_def)
  next
    case resume
    then show ?thesis by (simp add: settled_def effective_state_def)
  qed (auto simp: eff settled_def)
qed

lemma stages_grow:
  assumes "m \<le> n \<or> (m = Suc n \<and> n < length xs \<and> x = xs ! n)"
    and "subseq (drop r (take n xs)) ys"
  shows "subseq (drop r (take m xs)) (ys @ [x])"
proof (cases "m \<le> n")
  case True
  then have "take n xs = take m xs @ drop m (take n xs)"
    by (metis append_take_drop_id min.absorb1 take_take)
  then obtain zs where "drop r (take n xs) = drop r (take m xs) @ zs" by (metis drop_append)
  then have "subseq (drop r (take m xs)) (drop r (take n xs))" by auto
  with assms(2) show ?thesis by (blast intro: list_emb_prefix subseq_order.order_trans)
next
  case False
  with assms show ?thesis
    by (cases "r \<le> n") (auto simp: take_Suc_conv_app_nth list_emb_append_mono)
qed

lemma case_steps_stages:
  assumes "case_steps c es c'" "case_inv c"
  shows "subseq (drop (stage_rank (effective_state c))
                  (take (stage_rank (effective_state c')) lifecycle_stages)) (map ev_transition es)"
  using assms
proof (induction rule: case_steps.induct)
  case (none c)
  then show ?case by simp
next
  case (step c es c' t a c'' e)
  note D = recordedD [OF step.hyps(2)]
  have "case_inv c'" using step.hyps(1) step.prems by (rule case_steps_inv)
  from stages_grow [OF rank_step [OF D(2) this] step.IH [OF step.prems]]
  show ?case by (simp add: effective_state_settled D(12))
qed

lemma history_steps:
  "history c es \<Longrightarrow> case_steps c fs c' \<Longrightarrow> history c' (es @ fs)"
  unfolding history_def by (blast intro: case_steps_trans)

lemma history_split:
  "history c (es @ fs) \<Longrightarrow> \<exists>c'. history c' es \<and> case_steps c' fs c"
  unfolding history_def by (blast dest: case_steps_split)

lemma history_Nil: "history c [] \<Longrightarrow> rc_state c = OPEN \<and> rc_version c = 0 \<and> rc_record_ids c = [] \<and>
    rc_updated_at c = rc_created_at c"
  unfolding history_def case_steps_Nil by (auto dest: openedD)

lemma history_snoc:
  assumes "history c (es @ [e])"
  obtains c' t a where "history c' es" "recorded c' t a c e"
  using assms unfolding history_def by (blast elim: case_steps_snocE)

lemma history_induct [consumes 1, case_names opened transition]:
  assumes "history c es"
    and "\<And>c. history c [] \<Longrightarrow> P c []"
    and "\<And>c es t a c' e. history c es \<Longrightarrow> P c es \<Longrightarrow> recorded c t a c' e \<Longrightarrow> P c' (es @ [e])"
  shows "P c es"
  using assms(1)
proof (induction es arbitrary: c rule: rev_induct)
  case (snoc e es)
  then show ?case by (blast elim: history_snoc intro: assms(3))
qed (rule assms(2))

text \<open>Running a list of transitions, for concrete histories.\<close>

fun run_case :: "remediation_case \<Rightarrow> (case_transition \<times> transition_args) list \<Rightarrow>
    (remediation_case \<times> case_event list) res" where
  "run_case c [] = Inr (c, [])"
| "run_case c ((t, a) # xs) =
     bindE (transition_case c t a) (\<lambda>(c', e). bindE (run_case c' xs) (\<lambda>(c'', es). Inr (c'', e # es)))"

lemma run_case_steps: "run_case c xs = Inr (c', es) \<Longrightarrow> case_steps c es c'"
proof (induction xs arbitrary: c es)
  case Nil
  then show ?case by (auto intro: case_steps.none)
next
  case (Cons x xs)
  obtain t a where x: "x = (t, a)" by (cases x)
  with Cons.prems obtain c1 e fs where "transition_case c t a = Inr (c1, e)"
    "run_case c1 xs = Inr (c', fs)" "es = e # fs" by (auto simp: res_simps)
  moreover from this have "case_steps c1 fs c'" using Cons.IH by blast
  moreover have "case_steps c [e] c1"
    using case_steps.step [OF case_steps.none recorded_itself [OF calculation(1)]] by simp
  ultimately show ?case using case_steps_trans by fastforce
qed

lemma run_case_history:
  assumes "open_case i t fs as ss now = Inr c0" "run_case c0 xs = Inr (c, es)"
  shows "history c es"
proof -
  have "open_case (rc_case_id c0) (rc_tenant_id c0) (rc_finding_ids c0) (rc_asset_ids c0)
          (rc_service_ids c0) (rc_created_at c0) = Inr c0"
    using assms(1) by (auto simp: open_case_def mk_case_simps res_simps)
  then show ?thesis using run_case_steps [OF assms(2)] unfolding history_def by blast
qed

end
