(* ===== verification/Case_Documents.thy ===== *)
theory Case_Documents
  imports Cases
begin

text \<open>
  The dictionary form of cases and events (\<open>case_to_dict\<close>, \<open>case_from_dict\<close>, \<open>event_to_dict\<close>,
  \<open>event_from_dict\<close> of \<open>src/elcapitan/cases.py\<close>), which is what the stores write as JSON text.
  Reading checks the shape of each field (a field of another type than the dataclass declares
  raises \<open>TypeError\<close> here) and runs the constructor's checks again.
\<close>

section \<open>Reading fields\<close>

definition fld :: "(string, pyval) dict \<Rightarrow> string \<Rightarrow> pyval res" where
  "fld d k = (case dict_get d k of None \<Rightarrow> Inl (Raise KeyError k) | Some v \<Rightarrow> Inr v)"

fun need_str :: "pyval \<Rightarrow> string res" where
  "need_str (PStr s) = Inr s"
| "need_str v = Inl (Raise TypeError ''expected a string'')"

fun need_int :: "pyval \<Rightarrow> int res" where
  "need_int (PInt i) = Inr i"
| "need_int v = Inl (Raise TypeError ''expected an integer'')"

fun need_num :: "pyval \<Rightarrow> rat res" where
  "need_num (PFloat r) = Inr r"
| "need_num (PInt i) = Inr (of_int i)"
| "need_num v = Inl (Raise TypeError ''expected a number'')"

fun need_strs :: "pyval \<Rightarrow> string list res" where
  "need_strs (PList vs) = mapE need_str vs"
| "need_strs v = Inl (Raise TypeError ''expected a list of strings'')"

fun need_dict :: "pyval \<Rightarrow> (string, pyval) dict res" where
  "need_dict (PDict d) = Inr d"
| "need_dict v = Inl (Raise TypeError ''expected a mapping'')"

definition need_str_dict :: "pyval \<Rightarrow> (string, string) dict res" where
  "need_str_dict v = bindE (need_dict v)
     (mapE (\<lambda>(k, w). bindE (need_str w) (\<lambda>s. Inr (k, s))))"

definition fld_str :: "(string, pyval) dict \<Rightarrow> string \<Rightarrow> string res" where
  "fld_str d k = bindE (fld d k) need_str"

definition fld_strs :: "(string, pyval) dict \<Rightarrow> string \<Rightarrow> string list res" where
  "fld_strs d k = bindE (fld d k) need_strs"

definition fld_num :: "(string, pyval) dict \<Rightarrow> string \<Rightarrow> rat res" where
  "fld_num d k = bindE (fld d k) need_num"

definition fld_int :: "(string, pyval) dict \<Rightarrow> string \<Rightarrow> int res" where
  "fld_int d k = bindE (fld d k) need_int"

text \<open>A call \<open>C(**d)\<close> accepts exactly the constructor's arguments.\<close>

definition exact_keys :: "string list \<Rightarrow> (string, pyval) dict \<Rightarrow> unit res" where
  "exact_keys names d = guardE (set (map fst d) = set names) TypeError
     ''missing or unexpected keyword arguments''"

definition str_dict :: "(string, string) dict \<Rightarrow> pyval" where
  "str_dict d = PDict (map (\<lambda>(k, v). (k, PStr v)) d)"

lemma fld_Cons [simp]: "fld ((k, v) # d) k' = (if k' = k then Inr v else fld d k')"
  by (simp add: fld_def)

lemma mapE_map: "mapE f (map g xs) = mapE (\<lambda>x. f (g x)) xs"
  by (induction xs) simp_all

lemma mapE_Inr [simp]: "mapE Inr xs = Inr xs"
  by (induction xs) simp_all

lemma need_strs_str_list [simp]: "need_strs (str_list xs) = Inr xs"
  by (simp add: str_list_def mapE_map)

lemma need_str_dict_str_dict [simp]: "need_str_dict (str_dict d) = Inr d"
proof -
  have "(\<lambda>x. case case x of (k, v) \<Rightarrow> (k, PStr v) of (k, w) \<Rightarrow> bindE (need_str w) (\<lambda>s. Inr (k, s)))
          = (Inr :: _ \<Rightarrow> (string \<times> string) res)"
    by (rule ext) auto
  then show ?thesis
    by (simp add: need_str_dict_def str_dict_def mapE_map)
qed

section \<open>Risk assessments, plans and windows\<close>

definition risk_to_dict :: "risk_assessment option \<Rightarrow> pyval" where
  "risk_to_dict value = (case value of None \<Rightarrow> PNone | Some r \<Rightarrow> PDict
     [(''assessment_id'', PStr (ra_assessment_id r)),
      (''score'', PFloat (ra_score r)),
      (''urgency'', PStr (ra_urgency r)),
      (''factors'', str_list (ra_factors r)),
      (''confidence'', PFloat (ra_confidence r)),
      (''evidence_ids'', str_list (ra_evidence_ids r))])"

definition risk_from_dict :: "pyval \<Rightarrow> risk_assessment option res" where
  "risk_from_dict value =
     (if value = PNone then Inr None
      else bindE (need_dict value) (\<lambda>d.
       bindE (exact_keys [''assessment_id'', ''score'', ''urgency'', ''factors'', ''confidence'',
                          ''evidence_ids''] d) (\<lambda>_.
       bindE (fld_str d ''assessment_id'') (\<lambda>aid.
       bindE (fld_num d ''score'') (\<lambda>score.
       bindE (fld_str d ''urgency'') (\<lambda>urgency.
       bindE (fld_strs d ''factors'') (\<lambda>factors.
       bindE (fld_num d ''confidence'') (\<lambda>confidence.
       bindE (fld_strs d ''evidence_ids'') (\<lambda>evidence.
       bindE (mk_risk_assessment
         \<lparr> ra_assessment_id = aid, ra_score = score, ra_urgency = urgency, ra_factors = factors,
           ra_confidence = confidence, ra_evidence_ids = evidence \<rparr>) (\<lambda>r.
       Inr (Some r)))))))))))"

definition plan_to_dict :: "change_plan option \<Rightarrow> pyval" where
  "plan_to_dict value = (case value of None \<Rightarrow> PNone | Some p \<Rightarrow> PDict
     [(''plan_id'', PStr (cp_plan_id p)),
      (''objective'', PStr (cp_objective p)),
      (''change_ref'', PStr (cp_change_ref p)),
      (''prerequisites'', str_list (cp_prerequisites p)),
      (''steps'', str_list (cp_steps p)),
      (''rollout_steps'', str_list (cp_rollout_steps p)),
      (''verification_steps'', str_list (cp_verification_steps p)),
      (''rollback_steps'', str_list (cp_rollback_steps p)),
      (''rollback_triggers'', str_list (cp_rollback_triggers p)),
      (''blast_radius'', str_list (cp_blast_radius p)),
      (''evidence_ids'', str_list (cp_evidence_ids p))])"

definition plan_from_dict :: "pyval \<Rightarrow> change_plan option res" where
  "plan_from_dict value =
     (if value = PNone then Inr None
      else bindE (need_dict value) (\<lambda>d.
       bindE (exact_keys [''plan_id'', ''objective'', ''change_ref'', ''prerequisites'', ''steps'',
                          ''rollout_steps'', ''verification_steps'', ''rollback_steps'',
                          ''rollback_triggers'', ''blast_radius'', ''evidence_ids''] d) (\<lambda>_.
       bindE (fld_str d ''plan_id'') (\<lambda>pid.
       bindE (fld_str d ''objective'') (\<lambda>objective.
       bindE (fld_str d ''change_ref'') (\<lambda>change_ref.
       bindE (fld_strs d ''prerequisites'') (\<lambda>prerequisites.
       bindE (fld_strs d ''steps'') (\<lambda>steps.
       bindE (fld_strs d ''rollout_steps'') (\<lambda>rollout.
       bindE (fld_strs d ''verification_steps'') (\<lambda>verification.
       bindE (fld_strs d ''rollback_steps'') (\<lambda>rollback.
       bindE (fld_strs d ''rollback_triggers'') (\<lambda>triggers.
       bindE (fld_strs d ''blast_radius'') (\<lambda>radius.
       bindE (fld_strs d ''evidence_ids'') (\<lambda>evidence.
       bindE (mk_change_plan
         \<lparr> cp_plan_id = pid, cp_objective = objective, cp_change_ref = change_ref,
           cp_prerequisites = prerequisites, cp_steps = steps, cp_rollout_steps = rollout,
           cp_verification_steps = verification, cp_rollback_steps = rollback,
           cp_rollback_triggers = triggers, cp_blast_radius = radius,
           cp_evidence_ids = evidence \<rparr>) (\<lambda>p.
       Inr (Some p))))))))))))))))"

definition window_to_dict :: "change_window option \<Rightarrow> pyval" where
  "window_to_dict value = (case value of None \<Rightarrow> PNone | Some w \<Rightarrow> PDict
     [(''window_id'', PStr (cw_window_id w)),
      (''starts_at'', PStr (cw_starts_at w)),
      (''ends_at'', PStr (cw_ends_at w)),
      (''timezone'', PStr (cw_timezone w)),
      (''rationale'', str_list (cw_rationale w)),
      (''evidence_ids'', str_list (cw_evidence_ids w)),
      (''confidence'', PFloat (cw_confidence w))])"

definition window_from_dict :: "pyval \<Rightarrow> change_window option res" where
  "window_from_dict value =
     (if value = PNone then Inr None
      else bindE (need_dict value) (\<lambda>d.
       bindE (exact_keys [''window_id'', ''starts_at'', ''ends_at'', ''timezone'', ''rationale'',
                          ''evidence_ids'', ''confidence''] d) (\<lambda>_.
       bindE (fld_str d ''window_id'') (\<lambda>wid.
       bindE (fld_str d ''starts_at'') (\<lambda>starts_at.
       bindE (fld_str d ''ends_at'') (\<lambda>ends_at.
       bindE (fld_str d ''timezone'') (\<lambda>tz.
       bindE (fld_strs d ''rationale'') (\<lambda>rationale.
       bindE (fld_strs d ''evidence_ids'') (\<lambda>evidence.
       bindE (fld_num d ''confidence'') (\<lambda>confidence.
       bindE (mk_change_window
         \<lparr> cw_window_id = wid, cw_starts_at = starts_at, cw_ends_at = ends_at,
           cw_timezone = tz, cw_rationale = rationale, cw_evidence_ids = evidence,
           cw_confidence = confidence \<rparr>) (\<lambda>w.
       Inr (Some w))))))))))))"

section \<open>Cases and events\<close>

definition case_to_dict :: "remediation_case \<Rightarrow> pyval" where
  "case_to_dict c = PDict
     [(''case_id'', PStr (rc_case_id c)),
      (''tenant_id'', PStr (rc_tenant_id c)),
      (''finding_ids'', str_list (rc_finding_ids c)),
      (''asset_ids'', str_list (rc_asset_ids c)),
      (''service_ids'', str_list (rc_service_ids c)),
      (''state'', PStr (case_state_value (rc_state c))),
      (''version'', PInt (rc_version c)),
      (''created_at'', PStr (rc_created_at c)),
      (''updated_at'', PStr (rc_updated_at c)),
      (''priority'', risk_to_dict (rc_priority c)),
      (''change_plan'', plan_to_dict (rc_change_plan c)),
      (''change_window'', window_to_dict (rc_change_window c)),
      (''record_ids'', str_dict (rc_record_ids c)),
      (''blocked_from'', (case rc_blocked_from c of None \<Rightarrow> PNone
                          | Some s \<Rightarrow> PStr (case_state_value s)))]"

definition blocked_from_value :: "pyval \<Rightarrow> case_state option res" where
  "blocked_from_value v =
     (if truthy v then bindE (bindE (need_str v) case_state_of) (\<lambda>s. Inr (Some s)) else Inr None)"

definition case_from_dict :: "pyval \<Rightarrow> remediation_case res" where
  "case_from_dict document =
     bindE (need_dict document) (\<lambda>d.
     bindE (fld_str d ''case_id'') (\<lambda>case_id.
     bindE (fld_str d ''tenant_id'') (\<lambda>tenant_id.
     bindE (fld_strs d ''finding_ids'') (\<lambda>finding_ids.
     bindE (fld_strs d ''asset_ids'') (\<lambda>asset_ids.
     bindE (fld_strs d ''service_ids'') (\<lambda>service_ids.
     bindE (bindE (fld_str d ''state'') case_state_of) (\<lambda>state.
     bindE (fld_int d ''version'') (\<lambda>version.
     bindE (fld_str d ''created_at'') (\<lambda>created_at.
     bindE (fld_str d ''updated_at'') (\<lambda>updated_at.
     bindE (risk_from_dict (pget d ''priority'')) (\<lambda>priority.
     bindE (plan_from_dict (pget d ''change_plan'')) (\<lambda>plan.
     bindE (window_from_dict (pget d ''change_window'')) (\<lambda>window.
     bindE (need_str_dict (get_or d ''record_ids'' (PDict []))) (\<lambda>record_ids.
     bindE (blocked_from_value (pget d ''blocked_from'')) (\<lambda>blocked_from.
     mk_remediation_case
       \<lparr> rc_case_id = case_id, rc_tenant_id = tenant_id, rc_finding_ids = finding_ids,
         rc_asset_ids = asset_ids, rc_service_ids = service_ids, rc_state = state,
         rc_version = version, rc_created_at = created_at, rc_updated_at = updated_at,
         rc_priority = priority, rc_change_plan = plan, rc_change_window = window,
         rc_record_ids = record_ids, rc_blocked_from = blocked_from \<rparr>)))))))))))))))"

definition event_to_dict :: "case_event \<Rightarrow> pyval" where
  "event_to_dict e = PDict
     [(''event_id'', PStr (ev_event_id e)),
      (''case_id'', PStr (ev_case_id e)),
      (''sequence'', PInt (ev_sequence e)),
      (''transition'', PStr (case_transition_value (ev_transition e))),
      (''from_state'', PStr (case_state_value (ev_from_state e))),
      (''to_state'', PStr (case_state_value (ev_to_state e))),
      (''occurred_at'', PStr (ev_occurred_at e)),
      (''actor'', PStr (ev_actor e)),
      (''record_ids'', str_dict (ev_record_ids e)),
      (''evidence_ids'', str_list (ev_evidence_ids e)),
      (''detail'', PStr (ev_detail e))]"

definition event_from_dict :: "pyval \<Rightarrow> case_event res" where
  "event_from_dict document =
     bindE (need_dict document) (\<lambda>d.
     bindE (fld_str d ''event_id'') (\<lambda>event_id.
     bindE (fld_str d ''case_id'') (\<lambda>case_id.
     bindE (fld_int d ''sequence'') (\<lambda>sequence.
     bindE (bindE (fld_str d ''transition'') case_transition_of) (\<lambda>transition.
     bindE (bindE (fld_str d ''from_state'') case_state_of) (\<lambda>from_state.
     bindE (bindE (fld_str d ''to_state'') case_state_of) (\<lambda>to_state.
     bindE (fld_str d ''occurred_at'') (\<lambda>occurred_at.
     bindE (fld_str d ''actor'') (\<lambda>actor.
     bindE (need_str_dict (get_or d ''record_ids'' (PDict []))) (\<lambda>record_ids.
     bindE (need_strs (get_or d ''evidence_ids'' (PList []))) (\<lambda>evidence_ids.
     bindE (need_str (get_or d ''detail'' (PStr ''''))) (\<lambda>detail.
     mk_case_event
       \<lparr> ev_event_id = event_id, ev_case_id = case_id, ev_sequence = sequence,
         ev_transition = transition, ev_from_state = from_state, ev_to_state = to_state,
         ev_occurred_at = occurred_at, ev_actor = actor, ev_record_ids = record_ids,
         ev_evidence_ids = evidence_ids, ev_detail = detail \<rparr>))))))))))))"

section \<open>Round trips\<close>

lemma case_state_of_value [simp]: "case_state_of (case_state_value s) = Inr s"
  by (cases s) (simp_all add: case_state_of_def all_case_states_def)

lemma case_transition_of_value [simp]: "case_transition_of (case_transition_value t) = Inr t"
  by (cases t) (simp_all add: case_transition_of_def all_case_transitions_def)

lemma case_state_value_nonempty [simp]: "case_state_value s \<noteq> []"
  by (cases s) simp_all

text \<open>A case that satisfies the constructors' checks, its parts too.\<close>

definition case_ok :: "remediation_case \<Rightarrow> bool" where
  "case_ok c =
     (is_ok (mk_remediation_case c) \<and>
      pred_option (\<lambda>r. is_ok (mk_risk_assessment r)) (rc_priority c) \<and>
      pred_option (\<lambda>p. is_ok (mk_change_plan p)) (rc_change_plan c) \<and>
      pred_option (\<lambda>w. is_ok (mk_change_window w)) (rc_change_window c))"

lemmas fld_defs = fld_str_def fld_strs_def fld_num_def fld_int_def exact_keys_def

lemma mk_ok:
  "is_ok (mk_risk_assessment r) \<longleftrightarrow> mk_risk_assessment r = Inr r"
  "is_ok (mk_change_plan p) \<longleftrightarrow> mk_change_plan p = Inr p"
  "is_ok (mk_change_window w) \<longleftrightarrow> mk_change_window w = Inr w"
  "is_ok (mk_remediation_case c) \<longleftrightarrow> mk_remediation_case c = Inr c"
  "is_ok (mk_case_event e) \<longleftrightarrow> mk_case_event e = Inr e"
proof -
  have ok: "is_ok m \<longleftrightarrow> (\<exists>x. m = Inr x)" for m :: "'a res" by (cases m) auto
  show
    "is_ok (mk_risk_assessment r) \<longleftrightarrow> mk_risk_assessment r = Inr r"
    "is_ok (mk_change_plan p) \<longleftrightarrow> mk_change_plan p = Inr p"
    "is_ok (mk_change_window w) \<longleftrightarrow> mk_change_window w = Inr w"
    "is_ok (mk_remediation_case c) \<longleftrightarrow> mk_remediation_case c = Inr c"
    "is_ok (mk_case_event e) \<longleftrightarrow> mk_case_event e = Inr e"
    unfolding ok mk_risk_assessment_def mk_change_plan_def mk_change_window_def
      mk_remediation_case_def mk_case_event_def Let_def
    by (auto simp: res_simps)
qed

text \<open>A record rebuilt from its own fields.\<close>

lemma risk_assessment_eta [simp]:
  "\<lparr> ra_assessment_id = ra_assessment_id r,
     ra_score = ra_score r,
     ra_urgency = ra_urgency r,
     ra_factors = ra_factors r,
     ra_confidence = ra_confidence r,
     ra_evidence_ids = ra_evidence_ids r \<rparr> = r"
  by (cases r) simp

lemma change_plan_eta [simp]:
  "\<lparr> cp_plan_id = cp_plan_id p,
     cp_objective = cp_objective p,
     cp_change_ref = cp_change_ref p,
     cp_prerequisites = cp_prerequisites p,
     cp_steps = cp_steps p,
     cp_rollout_steps = cp_rollout_steps p,
     cp_verification_steps = cp_verification_steps p,
     cp_rollback_steps = cp_rollback_steps p,
     cp_rollback_triggers = cp_rollback_triggers p,
     cp_blast_radius = cp_blast_radius p,
     cp_evidence_ids = cp_evidence_ids p \<rparr> = p"
  by (cases p) simp

lemma change_window_eta [simp]:
  "\<lparr> cw_window_id = cw_window_id w,
     cw_starts_at = cw_starts_at w,
     cw_ends_at = cw_ends_at w,
     cw_timezone = cw_timezone w,
     cw_rationale = cw_rationale w,
     cw_evidence_ids = cw_evidence_ids w,
     cw_confidence = cw_confidence w \<rparr> = w"
  by (cases w) simp

lemma remediation_case_eta [simp]:
  "\<lparr> rc_case_id = rc_case_id c,
     rc_tenant_id = rc_tenant_id c,
     rc_finding_ids = rc_finding_ids c,
     rc_asset_ids = rc_asset_ids c,
     rc_service_ids = rc_service_ids c,
     rc_state = rc_state c,
     rc_version = rc_version c,
     rc_created_at = rc_created_at c,
     rc_updated_at = rc_updated_at c,
     rc_priority = rc_priority c,
     rc_change_plan = rc_change_plan c,
     rc_change_window = rc_change_window c,
     rc_record_ids = rc_record_ids c,
     rc_blocked_from = rc_blocked_from c \<rparr> = c"
  by (cases c) simp

lemma case_event_eta [simp]:
  "\<lparr> ev_event_id = ev_event_id e,
     ev_case_id = ev_case_id e,
     ev_sequence = ev_sequence e,
     ev_transition = ev_transition e,
     ev_from_state = ev_from_state e,
     ev_to_state = ev_to_state e,
     ev_occurred_at = ev_occurred_at e,
     ev_actor = ev_actor e,
     ev_record_ids = ev_record_ids e,
     ev_evidence_ids = ev_evidence_ids e,
     ev_detail = ev_detail e \<rparr> = e"
  by (cases e) simp

lemma risk_roundtrip:
  "pred_option (\<lambda>r. is_ok (mk_risk_assessment r)) x \<Longrightarrow> risk_from_dict (risk_to_dict x) = Inr x"
  by (cases x) (simp_all add: risk_from_dict_def risk_to_dict_def fld_defs mk_ok)

lemma plan_roundtrip:
  "pred_option (\<lambda>p. is_ok (mk_change_plan p)) x \<Longrightarrow> plan_from_dict (plan_to_dict x) = Inr x"
  by (cases x) (simp_all add: plan_from_dict_def plan_to_dict_def fld_defs mk_ok)

lemma window_roundtrip:
  "pred_option (\<lambda>w. is_ok (mk_change_window w)) x \<Longrightarrow> window_from_dict (window_to_dict x) = Inr x"
  by (cases x) (simp_all add: window_from_dict_def window_to_dict_def fld_defs mk_ok)

lemma blocked_roundtrip:
  "blocked_from_value (case b of None \<Rightarrow> PNone | Some s \<Rightarrow> PStr (case_state_value s)) = Inr b"
  by (cases b) (simp_all add: blocked_from_value_def)

lemma case_roundtrip: "case_ok c \<Longrightarrow> case_from_dict (case_to_dict c) = Inr c"
  by (simp add: case_from_dict_def case_to_dict_def fld_defs pget_def get_or_def case_ok_def
        risk_roundtrip plan_roundtrip window_roundtrip mk_ok(4) blocked_roundtrip)

lemma event_roundtrip:
  "is_ok (mk_case_event e) \<Longrightarrow> event_from_dict (event_to_dict e) = Inr e"
  by (simp add: event_from_dict_def event_to_dict_def fld_defs get_or_def mk_ok)

end
