(* ===== verification/Json.thy ===== *)
theory Json
  imports Case_Documents
begin

text \<open>
  \<open>src/elcapitan/hashing.py\<close>: \<open>canonical_json\<close> writes a value with sorted keys, no spaces and no
  ASCII escapes. The stores keep its text and read it back with \<open>json.loads\<close>; \<open>canon\<close> is what
  comes back, the same value with the keys of every object in order.
\<close>

section \<open>The text\<close>

definition json_char :: "char \<Rightarrow> string" where
  "json_char c =
     (let n = of_char c :: nat
      in if c = CHR 0x22 \<or> c = CHR 0x5C then [CHR 0x5C, c]
         else if n = 8 then [CHR 0x5C, CHR ''b'']
         else if n = 9 then [CHR 0x5C, CHR ''t'']
         else if n = 10 then [CHR 0x5C, CHR ''n'']
         else if n = 12 then [CHR 0x5C, CHR ''f'']
         else if n = 13 then [CHR 0x5C, CHR ''r'']
         else if n < 32 then [CHR 0x5C, CHR ''u'', CHR ''0'', CHR ''0'', hex_digit (n div 16), hex_digit n]
         else [c])"

lemma json_char_code [code]:
  "json_char c =
     (if c = CHR 0x22 \<or> c = CHR 0x5C then [CHR 0x5C, c]
      else if CHR 0x1F < c then [c]
      else let n = of_char c :: nat in
        if n = 8 then [CHR 0x5C, CHR ''b'']
        else if n = 9 then [CHR 0x5C, CHR ''t'']
        else if n = 10 then [CHR 0x5C, CHR ''n'']
        else if n = 12 then [CHR 0x5C, CHR ''f'']
        else if n = 13 then [CHR 0x5C, CHR ''r'']
        else [CHR 0x5C, CHR ''u'', CHR ''0'', CHR ''0'', hex_digit (n div 16), hex_digit n])"
proof -
  have "(of_char c :: nat) < 32 \<longleftrightarrow> \<not> CHR 0x1F < c"
    using of_char_less [of "CHR 0x1F" c] by (simp del: less_char_simp) linarith
  then show ?thesis
    unfolding json_char_def Let_def by (cases "CHR 0x1F < c") (auto simp del: less_char_simp)
qed

definition json_string :: "string \<Rightarrow> string" where
  "json_string s = CHR 0x22 # concat (map json_char s) @ [CHR 0x22]"

fun canonical_json :: "pyval \<Rightarrow> string" where
  "canonical_json PNone = ''null''"
| "canonical_json (PBool b) = (if b then ''true'' else ''false'')"
| "canonical_json (PInt i) = show_int i"
| "canonical_json (PFloat r) = repr_float r"
| "canonical_json (PStr s) = json_string s"
| "canonical_json (PList xs) = ''['' @ str_join '','' (map canonical_json xs) @ '']''"
| "canonical_json (PDict d) =
     ''{'' @ str_join '','' (map (\<lambda>(k, t). json_string k @ '':'' @ t)
               (sort_key fst (map (\<lambda>kv. (fst kv, canonical_json (snd kv))) d))) @ ''}''"

section \<open>The value read back\<close>

fun canon :: "pyval \<Rightarrow> pyval" where
  "canon (PList xs) = PList (map canon xs)"
| "canon (PDict d) = PDict (sort_key fst (map (\<lambda>kv. (fst kv, canon (snd kv))) d))"
| "canon v = v"

definition json_dict :: "(string, pyval) dict \<Rightarrow> (string, pyval) dict" where
  "json_dict d = sort_key fst (map (\<lambda>kv. (fst kv, canon (snd kv))) d)"

definition sort_dict :: "(string, 'v) dict \<Rightarrow> (string, 'v) dict" where
  "sort_dict d = sort_key fst d"

lemma map_of_insort: "map_of (insort_key fst x xs) = map_of (x # xs)"
  by (induction xs) (auto simp: fun_eq_iff)

lemma map_of_sort_key: "map_of (sort_key fst xs) = map_of xs"
  by (induction xs) (auto simp: map_of_insort)

lemma dict_get_sort [simp]: "dict_get (sort_dict d) k = dict_get d k"
  by (simp add: dict_get_def sort_dict_def map_of_sort_key)

lemma set_sort_dict [simp]: "set (sort_dict d) = set d"
  by (simp add: sort_dict_def)

lemma sort_dict_idem [simp]: "sort_dict (sort_dict d) = sort_dict d"
  by (simp add: sort_dict_def sort_key_id_if_sorted)

lemma insort_key_map: "insort_key f (g x) (map g xs) = map g (insort_key (\<lambda>x. f (g x)) x xs)"
  by (induction xs) auto

lemma sort_key_map: "sort_key f (map g xs) = map g (sort_key (\<lambda>x. f (g x)) xs)"
  by (induction xs) (auto simp: insort_key_map)

lemma canon_dict: "canon (PDict d) = PDict (json_dict d)"
  by (simp add: json_dict_def)

lemma dict_get_map_snd: "dict_get (map (\<lambda>kv. (fst kv, f (snd kv))) d) k = map_option f (dict_get d k)"
  unfolding dict_get_def by (induction d) auto

lemma dict_get_json: "dict_get (json_dict d) k = map_option canon (dict_get d k)"
  using dict_get_sort [of "map (\<lambda>kv. (fst kv, canon (snd kv))) d" k]
  by (simp add: json_dict_def sort_dict_def dict_get_map_snd)

lemma keys_json: "set (map fst (json_dict d)) = set (map fst d)"
  by (auto simp: json_dict_def image_image)

lemma need_canon [simp]:
  "need_str (canon v) = need_str v" "need_int (canon v) = need_int v" "need_num (canon v) = need_num v"
  by (cases v; simp)+

lemma need_strs_canon [simp]: "need_strs (canon v) = need_strs v"
  by (cases v) (simp_all add: mapE_map)

lemma need_dict_canon: "need_dict (canon v) = bindE (need_dict v) (\<lambda>d. Inr (json_dict d))"
  by (cases v) (simp_all add: json_dict_def)

lemma truthy_canon [simp]: "truthy (canon v) = truthy v"
proof (cases v)
  case (PDict d)
  have "json_dict d = [] \<longleftrightarrow> d = []" by (metis keys_json set_empty map_is_Nil_conv)
  with PDict show ?thesis by (simp add: json_dict_def)
qed auto

lemma canon_PNone [simp]: "canon v = PNone \<longleftrightarrow> v = PNone"
  by (cases v) auto

lemma canon_str_list [simp]: "canon (str_list xs) = str_list xs"
  by (simp add: str_list_def)

lemma canon_str_dict [simp]: "canon (str_dict d) = str_dict (sort_dict d)"
proof -
  have "sort_key fst (map (\<lambda>kv. (fst kv, PStr (snd kv))) d) = map (\<lambda>kv. (fst kv, PStr (snd kv))) (sort_key fst d)"
    by (simp add: sort_key_map)
  then show ?thesis by (simp add: str_dict_def sort_dict_def case_prod_unfold comp_def)
qed

lemma fld_json: "bindE (fld (json_dict d) k) f = bindE (fld d k) (\<lambda>v. f (canon v))"
  by (cases "dict_get d k") (simp_all add: fld_def dict_get_json)

lemma fld_types_json [simp]:
  "fld_str (json_dict d) k = fld_str d k" "fld_strs (json_dict d) k = fld_strs d k"
  "fld_num (json_dict d) k = fld_num d k" "fld_int (json_dict d) k = fld_int d k"
  "exact_keys ks (json_dict d) = exact_keys ks d"
  by (simp_all add: fld_defs fld_json keys_json [simplified])

lemma get_or_json: "canon v = v \<Longrightarrow> get_or (json_dict d) k v = canon (get_or d k v)"
  by (simp add: get_or_def dict_get_json split: option.splits)

lemma get_or_json_leaf:
  "get_or (json_dict d) k (PStr s) = canon (get_or d k (PStr s))"
  "get_or (json_dict d) k (PList []) = canon (get_or d k (PList []))"
  "get_or (json_dict d) k (PDict []) = canon (get_or d k (PDict []))"
  by (simp_all add: get_or_json)

lemma pget_json: "pget (json_dict d) k = canon (pget d k)"
  by (simp add: pget_def get_or_json)

section \<open>Cases and events read back\<close>

lemma parts_canon [simp]:
  "risk_from_dict (canon v) = risk_from_dict v" "plan_from_dict (canon v) = plan_from_dict v"
  "window_from_dict (canon v) = window_from_dict v"
  unfolding risk_from_dict_def plan_from_dict_def window_from_dict_def
  by (simp_all add: need_dict_canon bindE_assoc)

lemma blocked_canon [simp]: "blocked_from_value (canon v) = blocked_from_value v"
  by (simp add: blocked_from_value_def)

definition json_case :: "remediation_case \<Rightarrow> remediation_case" where
  "json_case c = c\<lparr>rc_record_ids := sort_dict (rc_record_ids c)\<rparr>"

definition json_event :: "case_event \<Rightarrow> case_event" where
  "json_event e = e\<lparr>ev_record_ids := sort_dict (ev_record_ids e)\<rparr>"

lemma mk_case_ok_iff:
  "is_ok (mk_remediation_case c) \<longleftrightarrow>
     rc_case_id c \<noteq> [] \<and> rc_tenant_id c \<noteq> [] \<and> rc_finding_ids c \<noteq> [] \<and> 0 \<le> rc_version c"
  "is_ok (mk_case_event e) \<longleftrightarrow>
     ev_event_id e \<noteq> [] \<and> ev_case_id e \<noteq> [] \<and> ev_actor e \<noteq> [] \<and> ev_occurred_at e \<noteq> [] \<and> 1 \<le> ev_sequence e"
  by (auto simp: is_ok_iff mk_remediation_case_def mk_case_event_def res_simps)

lemma json_case_ok: "case_ok c \<Longrightarrow> case_ok (json_case c)"
  by (simp add: case_ok_def json_case_def mk_case_ok_iff)

lemma json_case_fields:
  "\<lparr> rc_case_id = rc_case_id c, rc_tenant_id = rc_tenant_id c, rc_finding_ids = rc_finding_ids c,
     rc_asset_ids = rc_asset_ids c, rc_service_ids = rc_service_ids c, rc_state = rc_state c,
     rc_version = rc_version c, rc_created_at = rc_created_at c, rc_updated_at = rc_updated_at c,
     rc_priority = rc_priority c, rc_change_plan = rc_change_plan c,
     rc_change_window = rc_change_window c, rc_record_ids = sort_dict (rc_record_ids c),
     rc_blocked_from = rc_blocked_from c \<rparr> = json_case c"
  by (cases c) (simp add: json_case_def)

lemma json_event_fields:
  "\<lparr> ev_event_id = ev_event_id e, ev_case_id = ev_case_id e, ev_sequence = ev_sequence e,
     ev_transition = ev_transition e, ev_from_state = ev_from_state e, ev_to_state = ev_to_state e,
     ev_occurred_at = ev_occurred_at e, ev_actor = ev_actor e,
     ev_record_ids = sort_dict (ev_record_ids e), ev_evidence_ids = ev_evidence_ids e,
     ev_detail = ev_detail e \<rparr> = json_event e"
  by (cases e) (simp add: json_event_def)

lemma case_read_back:
  assumes "case_ok c"
  shows "case_from_dict (canon (case_to_dict c)) = Inr (json_case c)"
proof -
  have "mk_remediation_case (json_case c) = Inr (json_case c)"
    using json_case_ok [OF assms] by (simp add: case_ok_def mk_ok)
  then show ?thesis using assms
    by (simp add: case_from_dict_def case_to_dict_def canon_dict pget_json get_or_json_leaf
        del: canon.simps)
      (simp add: fld_defs pget_def get_or_def case_ok_def risk_roundtrip plan_roundtrip
        window_roundtrip blocked_roundtrip json_case_fields)
qed

lemma event_read_back:
  assumes "is_ok (mk_case_event e)"
  shows "event_from_dict (canon (event_to_dict e)) = Inr (json_event e)"
proof -
  have "is_ok (mk_case_event (json_event e))"
    using assms by (simp add: mk_case_ok_iff json_event_def)
  then have "mk_case_event (json_event e) = Inr (json_event e)" by (simp add: mk_ok)
  then show ?thesis
    by (simp add: event_from_dict_def event_to_dict_def canon_dict get_or_json_leaf
        del: canon.simps)
      (simp add: fld_defs get_or_def json_event_fields)
qed

end
