(* ===== verification/Workflow.thy ===== *)
theory Workflow
  imports Case_Lifecycle Json
begin

text \<open>
  \<open>src/elcapitan/workflow.py\<close>: the contract of a case store, the in-memory store that implements
  it, and the coordinator that opens cases and advances them. The protocol \<open>CaseStore\<close> is the
  record of its operations; its contract is the locale \<open>case_store_contract\<close>, in which the
  coordinator is verified once for every store, interleaved coordinators included.
\<close>

section \<open>The protocol\<close>

record 's case_store_ops =
  cs_create :: "remediation_case \<Rightarrow> ('s, unit) prog"
  cs_get :: "string \<Rightarrow> ('s, remediation_case) prog"
  cs_append :: "remediation_case \<Rightarrow> case_event \<Rightarrow> int \<Rightarrow> ('s, unit) prog"
  cs_events :: "string \<Rightarrow> ('s, case_event list) prog"
  cs_find_active :: "string \<Rightarrow> string \<Rightarrow> ('s, remediation_case option) prog"
  cs_list :: "string option \<Rightarrow> ('s, remediation_case list) prog"

section \<open>The in-memory store\<close>

record mem_cases =
  mc_cases :: "(string, remediation_case) dict"
  mc_events :: "(string, case_event list) dict"

definition share_asset :: "remediation_case \<Rightarrow> remediation_case \<Rightarrow> bool" where
  "share_asset c d = (set (rc_asset_ids c) \<inter> set (rc_asset_ids d) \<noteq> {})"

definition mem_create :: "remediation_case \<Rightarrow> (mem_cases, unit) prog" where
  "mem_create c =
     bindM (getsM mc_cases) (\<lambda>cases.
     bindM (guardM (\<not> dict_has cases (rc_case_id c)) ConcurrentCaseUpdate
              (''case '' @ rc_case_id c @ '' already exists'')) (\<lambda>_.
     let conflicts = map rc_case_id (filter (\<lambda>d. rc_tenant_id d = rc_tenant_id c \<and>
                       \<not> rc_terminal d \<and> share_asset d c) (map snd cases))
     in bindM (guardM (conflicts = []) ConcurrentCaseUpdate
                (''tenant '' @ rc_tenant_id c @ '' already has an active case for this asset: ''
                 @ str_join '', '' (sort conflicts))) (\<lambda>_.
        modifyM (\<lambda>s. s\<lparr>mc_cases := dict_set (rc_case_id c) c (mc_cases s),
                       mc_events := dict_set (rc_case_id c) [] (mc_events s)\<rparr>))))"

definition mem_get :: "string \<Rightarrow> (mem_cases, remediation_case) prog" where
  "mem_get i =
     bindM (getsM (\<lambda>s. dict_get (mc_cases s) i)) (\<lambda>found.
     case found of None \<Rightarrow> raise CaseNotFound i | Some c \<Rightarrow> ret c)"

definition mem_append :: "remediation_case \<Rightarrow> case_event \<Rightarrow> int \<Rightarrow> (mem_cases, unit) prog" where
  "mem_append c e expected =
     bindM (mem_get (rc_case_id c)) (\<lambda>current.
     bindM (guardM (rc_version current = expected) ConcurrentCaseUpdate
              (''case '' @ rc_case_id c @ '' is version '' @ show_int (rc_version current)
               @ '', expected '' @ show_int expected)) (\<lambda>_.
     bindM (guardM (ev_sequence e = expected + 1 \<and> rc_version c = ev_sequence e) ValueError
              ''event and projection versions are not contiguous'') (\<lambda>_.
     modifyM (\<lambda>s. s\<lparr>mc_events := dict_set (rc_case_id c)
                        ((case dict_get (mc_events s) (rc_case_id c) of None \<Rightarrow> [] | Some es \<Rightarrow> es) @ [e])
                        (mc_events s),
                    mc_cases := dict_set (rc_case_id c) c (mc_cases s)\<rparr>))))"

definition mem_events :: "string \<Rightarrow> (mem_cases, case_event list) prog" where
  "mem_events i =
     bindM (mem_get i) (\<lambda>_.
     getsM (\<lambda>s. case dict_get (mc_events s) i of None \<Rightarrow> [] | Some es \<Rightarrow> es))"

text \<open>\<open>max(matches, key=...)\<close>: the first element with the greatest key.\<close>

definition max_by :: "('a \<Rightarrow> 'k :: linorder) \<Rightarrow> 'a \<Rightarrow> 'a list \<Rightarrow> 'a" where
  "max_by f x xs = foldl (\<lambda>m y. if f m < f y then y else m) x xs"

definition mem_find_active :: "string \<Rightarrow> string \<Rightarrow> (mem_cases, remediation_case option) prog" where
  "mem_find_active tenant asset =
     getsM (\<lambda>s. case filter (\<lambda>c. rc_tenant_id c = tenant \<and> asset \<in> set (rc_asset_ids c) \<and>
                                  \<not> rc_terminal c) (map snd (mc_cases s)) of
                  [] \<Rightarrow> None
                | c # cs \<Rightarrow> Some (max_by (\<lambda>c. (rc_updated_at c, rc_case_id c)) c cs))"

definition mem_list :: "string option \<Rightarrow> (mem_cases, remediation_case list) prog" where
  "mem_list tenant =
     getsM (\<lambda>s. sort_key (\<lambda>c. (rc_created_at c, rc_case_id c))
                  (filter (\<lambda>c. case tenant of None \<Rightarrow> True | Some t \<Rightarrow> rc_tenant_id c = t)
                    (map snd (mc_cases s))))"

definition mem_ops :: "mem_cases case_store_ops" where
  "mem_ops = \<lparr> cs_create = mem_create, cs_get = mem_get, cs_append = mem_append,
               cs_events = mem_events, cs_find_active = mem_find_active, cs_list = mem_list \<rparr>"

definition mem_empty :: mem_cases where
  "mem_empty = \<lparr> mc_cases = [], mc_events = [] \<rparr>"

section \<open>The coordinator\<close>

record open_args =
  oa_case_id :: string
  oa_tenant_id :: string
  oa_finding_ids :: "string list"
  oa_asset_ids :: "string list"
  oa_service_ids :: "string list"
  oa_now :: string

definition open_from :: "open_args \<Rightarrow> remediation_case res" where
  "open_from a = open_case (oa_case_id a) (oa_tenant_id a) (oa_finding_ids a) (oa_asset_ids a)
                   (oa_service_ids a) (oa_now a)"

definition workflow_open :: "'s case_store_ops \<Rightarrow> open_args \<Rightarrow> ('s, remediation_case) prog" where
  "workflow_open ops a =
     bindM (liftE (open_from a)) (\<lambda>c.
     bindM (cs_create ops c) (\<lambda>_. ret c))"

definition workflow_advance ::
  "'s case_store_ops \<Rightarrow> string \<Rightarrow> case_transition \<Rightarrow> transition_args \<Rightarrow> ('s, remediation_case) prog" where
  "workflow_advance ops i t a =
     bindM (cs_get ops i) (\<lambda>current.
     bindM (liftE (transition_case current t a)) (\<lambda>(projection, event).
     bindM (cs_append ops projection event (rc_version current)) (\<lambda>_.
     ret projection)))"

section \<open>Interleaved coordinators\<close>

text \<open>
  \<open>advance\<close> reads, computes and writes in separate calls, so that any number of coordinators
  sharing a store interleave. A call that has computed its projection and not yet written it is
  pending; a pending call may write at any time, or never.
\<close>

type_synonym pending = "remediation_case \<times> case_event \<times> int"

text \<open>Attached records are instances, so they have passed their constructors' checks.\<close>

definition args_ok :: "transition_args \<Rightarrow> bool" where
  "args_ok a =
     (pred_option (\<lambda>r. is_ok (mk_risk_assessment r)) (ta_priority a) \<and>
      pred_option (\<lambda>p. is_ok (mk_change_plan p)) (ta_change_plan a) \<and>
      pred_option (\<lambda>w. is_ok (mk_change_window w)) (ta_change_window a))"

inductive interleaved :: "'s case_store_ops \<Rightarrow> 's \<Rightarrow> 's \<Rightarrow> pending list \<Rightarrow> bool" for ops s0 where
  start: "interleaved ops s0 s0 []"
| opened: "interleaved ops s0 s ps \<Longrightarrow> workflow_open ops a s = (r, s') \<Longrightarrow> interleaved ops s0 s' ps"
| read: "interleaved ops s0 s ps \<Longrightarrow> cs_get ops i s = (Inr c, s') \<Longrightarrow> args_ok a \<Longrightarrow>
     transition_case c t a = Inr (p, e) \<Longrightarrow> interleaved ops s0 s' ((p, e, rc_version c) # ps)"
| written: "interleaved ops s0 s ps \<Longrightarrow> (p, e, v) \<in> set ps \<Longrightarrow>
     cs_append ops p e v s = (r, s') \<Longrightarrow> interleaved ops s0 s' (remove1 (p, e, v) ps)"

text \<open>An uninterrupted \<open>advance\<close> is a read and a write.\<close>

lemma advance_interleaved:
  assumes "interleaved ops s0 s ps" "args_ok a" "workflow_advance ops i t a s = (Inr c, s')"
  shows "interleaved ops s0 s' ps"
proof -
  from assms(3) obtain d s1 e where
    g: "cs_get ops i s = (Inr d, s1)" and t: "transition_case d t a = Inr (c, e)"
    and p: "cs_append ops c e (rc_version d) s1 = (Inr (), s')"
    unfolding workflow_advance_def by (auto simp: run_simps)
  have "interleaved ops s0 s1 ((c, e, rc_version d) # ps)"
    by (rule interleaved.read [OF assms(1) g assms(2) t])
  from interleaved.written [OF this _ p] show ?thesis by simp
qed

section \<open>The contract\<close>

locale case_store_contract =
  fixes ops :: "'s case_store_ops"
    and view :: "'s \<Rightarrow> string \<Rightarrow> (remediation_case \<times> case_event list) option"
    and ok :: "'s \<Rightarrow> bool"
  assumes get_law: "ok s \<Longrightarrow> cs_get ops i s =
      ((case view s i of None \<Rightarrow> Inl (Raise CaseNotFound i) | Some (c, es) \<Rightarrow> Inr c), s)"
    and events_law: "ok s \<Longrightarrow> cs_events ops i s =
      ((case view s i of None \<Rightarrow> Inl (Raise CaseNotFound i) | Some (c, es) \<Rightarrow> Inr es), s)"
    and create_law: "ok s \<Longrightarrow> case_ok c \<Longrightarrow> cs_create ops c s = (Inr (), s') \<Longrightarrow>
      ok s' \<and> view s (rc_case_id c) = None \<and>
      (\<exists>d. same_case c d \<and> view s' = (view s)(rc_case_id c \<mapsto> (d, []))) \<and>
      (\<forall>i d es. view s i = Some (d, es) \<longrightarrow> rc_tenant_id d = rc_tenant_id c \<longrightarrow>
         rc_terminal d \<or> rc_terminal c \<or> \<not> share_asset d c)"
    and create_fails: "ok s \<Longrightarrow> cs_create ops c s = (Inl x, s') \<Longrightarrow> s' = s"
    and append_law: "ok s \<Longrightarrow> cs_append ops c e v s = (Inr (), s') \<Longrightarrow>
      case_ok c \<Longrightarrow> is_ok (mk_case_event e) \<Longrightarrow> ev_case_id e = rc_case_id c \<Longrightarrow>
      (\<And>d es. view s (rc_case_id c) = Some (d, es) \<Longrightarrow> rc_version d = v \<Longrightarrow>
         rc_asset_ids c = rc_asset_ids d \<and> rc_tenant_id c = rc_tenant_id d \<and> \<not> rc_terminal d) \<Longrightarrow>
      ok s' \<and> (\<exists>d es d' e'. view s (rc_case_id c) = Some (d, es) \<and> rc_version d = v \<and>
        same_case c d' \<and> same_event e e' \<and>
        view s' = (view s)(rc_case_id c \<mapsto> (d', es @ [e'])))"
    and append_fails: "ok s \<Longrightarrow> cs_append ops c e v s = (Inl x, s') \<Longrightarrow> s' = s"
    and append_version: "ok s \<Longrightarrow> cs_append ops c e v s = (Inr (), s') \<Longrightarrow>
      \<exists>d es. view s (rc_case_id c) = Some (d, es) \<and> rc_version d = v"

text \<open>What the coordinators keep true of the store and of the calls that are pending.\<close>

definition logged :: "(string \<Rightarrow> (remediation_case \<times> case_event list) option) \<Rightarrow> bool" where
  "logged v = (\<forall>i c es. v i = Some (c, es) \<longrightarrow> history c es \<and> rc_case_id c = i \<and> case_ok c)"

definition one_active :: "(string \<Rightarrow> (remediation_case \<times> case_event list) option) \<Rightarrow> bool" where
  "one_active v = (\<forall>i j c d es fs. v i = Some (c, es) \<longrightarrow> v j = Some (d, fs) \<longrightarrow>
     rc_tenant_id c = rc_tenant_id d \<longrightarrow> \<not> rc_terminal c \<longrightarrow> \<not> rc_terminal d \<longrightarrow>
     share_asset c d \<longrightarrow> i = j)"

definition pending_ok ::
  "(string \<Rightarrow> (remediation_case \<times> case_event list) option) \<Rightarrow> pending \<Rightarrow> bool" where
  "pending_ok v p = (\<exists>c t a. transition_case c t a = Inr (fst p, fst (snd p)) \<and> args_ok a \<and>
     case_ok c \<and> rc_version c = snd (snd p) \<and>
     (\<exists>d es. v (rc_case_id c) = Some (d, es) \<and> rc_version c \<le> rc_version d \<and>
             (rc_version d = rc_version c \<longrightarrow> d = c)))"

lemma transition_case_ok:
  assumes "transition_case c t a = Inr (c', e)" "args_ok a" "case_ok c"
  shows "case_ok c'"
proof -
  note D = transition_caseD [OF assms(1)]
  have merge: "pred_option P x \<Longrightarrow> pred_option P y \<Longrightarrow> pred_option P (or_else x y)"
    for P :: "'a \<Rightarrow> bool" and x y by (cases x) (simp_all add: or_else_def)
  show ?thesis
    using assms(2,3) D(32) unfolding case_ok_def args_ok_def D(14,15,16)
    by (simp add: merge)
qed

lemma open_case_ok:
  assumes *: "open_from a = Inr c"
  shows "case_ok c \<and> history c [] \<and> rc_state c = OPEN \<and> rc_record_ids c = []"
proof -
  from * have "case_ok c"
    by (auto simp: open_from_def open_case_def case_ok_def mk_remediation_case_def res_simps is_ok_iff)
  moreover have "history c []"
    using run_case_history [of _ _ _ _ _ _ c "[]"] * unfolding open_from_def by simp
  ultimately show ?thesis using * openedD unfolding open_from_def by blast
qed

lemma same_case_empty:
  assumes "same_case c d" "rc_record_ids c = []"
  shows "d = c"
proof -
  have "rc_record_ids d = []"
    using assms unfolding same_case_def dict_get_def by simp
  then have "d = c\<lparr>rc_record_ids := rc_record_ids c\<rparr>" using assms unfolding same_case_def by simp
  then show ?thesis by simp
qed

lemma one_active_update:
  assumes "one_active v"
    and "\<And>j d es. v j = Some (d, es) \<Longrightarrow> j \<noteq> i \<Longrightarrow> rc_tenant_id d = rc_tenant_id c \<Longrightarrow>
           rc_terminal d \<or> rc_terminal c \<or> \<not> share_asset d c"
  shows "one_active (v(i \<mapsto> (c, es)))"
proof -
  have sym: "share_asset c d = share_asset d c" for c d by (auto simp: share_asset_def)
  show ?thesis unfolding one_active_def
  proof (intro allI impI)
    fix k j a b fs gs
    assume k: "(v(i \<mapsto> (c, es))) k = Some (a, fs)" and j: "(v(i \<mapsto> (c, es))) j = Some (b, gs)"
      and t: "rc_tenant_id a = rc_tenant_id b" and n: "\<not> rc_terminal a" "\<not> rc_terminal b"
      and s: "share_asset a b"
    consider "k = i" "j = i" | "k = i" "j \<noteq> i" | "k \<noteq> i" "j = i" | "k \<noteq> i" "j \<noteq> i" by blast
    then show "k = j"
    proof cases
      case 2
      then show ?thesis using k j t n s assms(2) [of j b gs] sym by auto
    next
      case 3
      then show ?thesis using k j t n s assms(2) [of k a fs] by auto
    next
      case 4
      then show ?thesis using k j t n s assms(1) unfolding one_active_def by (metis fun_upd_apply)
    qed simp
  qed
qed

context case_store_contract
begin

lemma open_keeps:
  assumes "ok s" "logged (view s)" "one_active (view s)" "workflow_open ops a s = (r, s')"
  shows "ok s' \<and> logged (view s') \<and> one_active (view s') \<and>
    (\<forall>i c es. view s i = Some (c, es) \<longrightarrow> view s' i = Some (c, es))"
proof (cases r)
  case (Inl x)
  have "s' = s" using assms(1,4) create_fails unfolding workflow_open_def Inl
    by (auto simp: bindM_Inl run_simps)
  with assms show ?thesis by simp
next
  case (Inr c)
  then have o: "open_from a = Inr c" and cr: "cs_create ops c s = (Inr (), s')"
    using assms(4) unfolding workflow_open_def by (auto simp: run_simps)
  note ok = open_case_ok [OF o]
  from create_law [OF assms(1) _ cr] ok obtain d where new: "ok s'" "view s (rc_case_id c) = None"
    "same_case c d" "view s' = (view s)(rc_case_id c \<mapsto> (d, []))"
    and act: "\<And>i d es. view s i = Some (d, es) \<Longrightarrow> rc_tenant_id d = rc_tenant_id c \<Longrightarrow>
         rc_terminal d \<or> rc_terminal c \<or> \<not> share_asset d c" by blast
  have d: "d = c" using same_case_empty new(3) ok by blast
  have "logged (view s')" using assms(2) ok unfolding logged_def new(4) d by auto
  moreover have "one_active (view s')" unfolding new(4) d
    by (rule one_active_update [OF assms(3)]) (use act in blast)
  ultimately show ?thesis using new(1,2,4) by auto
qed

lemma written_keeps:
  assumes "ok s" "logged (view s)" "one_active (view s)"
    and pend: "pending_ok (view s) (p, e, v)" and w: "cs_append ops p e v s = (r, s')"
  shows "ok s' \<and> logged (view s') \<and> one_active (view s') \<and>
    (\<forall>i c es. view s i = Some (c, es) \<longrightarrow> (\<exists>d fs. view s' i = Some (d, fs) \<and>
       rc_version c \<le> rc_version d \<and> (rc_version d = rc_version c \<longrightarrow> d = c)))"
proof (cases r)
  case (Inl x)
  have "s' = s" using append_fails [OF assms(1)] w Inl by simp
  with assms show ?thesis by simp
next
  case (Inr u)
  with w have w: "cs_append ops p e v s = (Inr (), s')" by simp
  from pend obtain c t a d0 es0 where tr: "transition_case c t a = Inr (p, e)" and a: "args_ok a"
    and c: "case_ok c" "rc_version c = v"
    and cur: "view s (rc_case_id c) = Some (d0, es0)" "rc_version d0 = rc_version c \<Longrightarrow> d0 = c"
    unfolding pending_ok_def by auto
  note D = transition_caseD [OF tr]
  from append_version [OF assms(1) w] have d0: "d0 = c" using cur D(5) c(2) by auto
  have pok: "case_ok p" by (rule transition_case_ok [OF tr a c(1)])
  from append_law [OF assms(1) w pok D(31)] D(5,6,7,18) D(1) cur(1) d0
  obtain d' e' where new: "ok s'" "same_case p d'" "same_event e e'"
    "view s' = (view s)(rc_case_id c \<mapsto> (d', es0 @ [e']))" by auto
  have rec: "recorded c t a d' e'" using tr new(2,3) unfolding recorded_def by blast
  have hist: "history c es0" using assms(2) cur(1) d0 unfolding logged_def by blast
  have "history d' (es0 @ [e'])"
    using history_steps [OF hist] case_steps.step [OF case_steps.none rec] by simp
  moreover have "case_ok d'" using pok new(2) unfolding case_ok_def mk_case_ok_iff
    by (simp add: same_case_fields)
  ultimately have "logged (view s')"
    using assms(2) recordedD(3) [OF rec] unfolding logged_def new(4) by auto
  moreover have "one_active (view s')" unfolding new(4)
  proof (rule one_active_update [OF assms(3)])
    fix j d es
    assume "view s j = Some (d, es)" "j \<noteq> rc_case_id c" "rc_tenant_id d = rc_tenant_id d'"
    then have "rc_terminal d \<or> rc_terminal c \<or> \<not> share_asset d c"
      using assms(3) cur(1) d0 recordedD(4) [OF rec] unfolding one_active_def by metis
    then show "rc_terminal d \<or> rc_terminal d' \<or> \<not> share_asset d d'"
      using recordedD(1,5) [OF rec] by (auto simp: share_asset_def)
  qed
  moreover have "rc_version d' = rc_version c + 1" using recordedD(8) [OF rec] .
  ultimately show ?thesis using new(1,4) cur(1) d0 by auto
qed

text \<open>Coordinators, interleaved in any way, keep every log a history of its case and every
  tenant's asset in at most one active case.\<close>

lemma interleaved_keeps:
  assumes "interleaved ops s0 s ps" "ok s0" "view s0 = Map.empty"
  shows "ok s \<and> logged (view s) \<and> one_active (view s) \<and> list_all (pending_ok (view s)) ps"
  using assms
proof (induction rule: interleaved.induct)
  case start
  then show ?case by (simp add: logged_def one_active_def)
next
  case (opened s ps a r s')
  note I = opened.IH [OF opened.prems]
  with open_keeps opened.hyps(2) have K: "ok s' \<and> logged (view s') \<and> one_active (view s') \<and>
    (\<forall>i c es. view s i = Some (c, es) \<longrightarrow> view s' i = Some (c, es))" by blast
  then have "pending_ok (view s) p \<Longrightarrow> pending_ok (view s') p" for p
    unfolding pending_ok_def by metis
  with I K show ?case by (auto simp: list_all_iff)
next
  case (read s ps i c s' a t p e)
  note I = read.IH [OF read.prems]
  from get_law I read.hyps(2) obtain es where s: "s' = s" "view s i = Some (c, es)"
    by (auto split: option.splits)
  then have "rc_case_id c = i" "case_ok c" using I unfolding logged_def by blast+
  with read.hyps(3,4) s have "pending_ok (view s) (p, e, rc_version c)"
    unfolding pending_ok_def fst_conv snd_conv by blast
  with I s show ?case by simp
next
  case (written s ps p e v r s')
  note I = written.IH [OF written.prems]
  then have "pending_ok (view s) (p, e, v)" using written.hyps(2) by (simp add: list_all_iff)
  with I written_keeps [OF _ _ _ _ written.hyps(3)] have K: "ok s'" "logged (view s')"
    "one_active (view s')" and M: "\<And>i c es. view s i = Some (c, es) \<Longrightarrow> \<exists>d fs. view s' i = Some (d, fs) \<and>
       rc_version c \<le> rc_version d \<and> (rc_version d = rc_version c \<longrightarrow> d = c)" by blast+
  have "pending_ok (view s') q" if q: "pending_ok (view s) q" for q
  proof -
    from q obtain c t a d es where *: "transition_case c t a = Inr (fst q, fst (snd q))" "args_ok a"
      "case_ok c" "rc_version c = snd (snd q)" "view s (rc_case_id c) = Some (d, es)"
      "rc_version c \<le> rc_version d" "rc_version d = rc_version c \<longrightarrow> d = c"
      unfolding pending_ok_def by blast
    from M [OF *(5)] *(6,7) obtain d' fs where "view s' (rc_case_id c) = Some (d', fs)"
      "rc_version c \<le> rc_version d'" "rc_version d' = rc_version c \<longrightarrow> d' = c"
      by (metis order.antisym order.trans)
    with *(1-4) show ?thesis unfolding pending_ok_def by blast
  qed
  then have "list_all (pending_ok (view s')) ps" using I by (simp add: list_all_iff)
  then have "list_all (pending_ok (view s')) (remove1 (p, e, v) ps)"
    using notin_set_remove1 [of _ ps] by (auto simp: list_all_iff)
  with K show ?case by simp
qed

text \<open>A write that was computed from a version the case no longer has changes nothing.\<close>

lemma stale_write_refused:
  assumes "ok s" "view s (rc_case_id c) = Some (d, es)" "rc_version d \<noteq> v"
    and "cs_append ops c e v s = (r, s')"
  shows "s' = s \<and> \<not> is_ok r"
proof (cases r)
  case (Inl x)
  then show ?thesis using append_fails [OF assms(1)] assms(4) by simp
next
  case (Inr u)
  then show ?thesis using append_version [OF assms(1)] assms by fastforce
qed

end

section \<open>The in-memory store keeps the contract\<close>

definition mem_view :: "mem_cases \<Rightarrow> string \<Rightarrow> (remediation_case \<times> case_event list) option" where
  "mem_view s i = (case dict_get (mc_cases s) i of None \<Rightarrow> None
     | Some c \<Rightarrow> Some (c, case dict_get (mc_events s) i of None \<Rightarrow> [] | Some es \<Rightarrow> es))"

definition mem_ok :: "mem_cases \<Rightarrow> bool" where
  "mem_ok s = distinct (map fst (mc_cases s))"

lemma dict_set_distinct: "distinct (map fst d) \<Longrightarrow> distinct (map fst (dict_set k v d))"
  by (simp add: dict_set_def distinct_update)

lemma mem_get_run: "mem_get i s =
    ((case mem_view s i of None \<Rightarrow> Inl (Raise CaseNotFound i) | Some (c, es) \<Rightarrow> Inr c), s)"
  by (auto simp: mem_get_def mem_view_def run_defs split: option.splits)

interpretation mem: case_store_contract mem_ops mem_view mem_ok
proof
  fix s i
  show "cs_get mem_ops i s =
      ((case mem_view s i of None \<Rightarrow> Inl (Raise CaseNotFound i) | Some (c, es) \<Rightarrow> Inr c), s)"
    by (simp add: mem_ops_def mem_get_run)
  show "cs_events mem_ops i s =
      ((case mem_view s i of None \<Rightarrow> Inl (Raise CaseNotFound i) | Some (c, es) \<Rightarrow> Inr es), s)"
    by (simp add: mem_ops_def mem_events_def bindM_def mem_get_run)
      (simp add: mem_view_def getsM_def split: option.splits)
next
  fix s c s' assume ok: "mem_ok s" and "cs_create mem_ops c s = (Inr (), s')"
  then have cr: "\<not> dict_has (mc_cases s) (rc_case_id c)"
    "filter (\<lambda>d. rc_tenant_id d = rc_tenant_id c \<and> \<not> rc_terminal d \<and> share_asset d c)
       (map snd (mc_cases s)) = []"
    "s' = s\<lparr>mc_cases := dict_set (rc_case_id c) c (mc_cases s),
            mc_events := dict_set (rc_case_id c) [] (mc_events s)\<rparr>"
    by (auto simp: mem_ops_def mem_create_def run_simps Let_def)
  have "mem_view s' = (mem_view s)(rc_case_id c \<mapsto> (c, []))"
    by (rule ext) (auto simp: cr(3) mem_view_def split: option.splits)
  moreover have "d \<in> set (map snd (mc_cases s))" if "mem_view s i = Some (d, es)" for i d es
  proof -
    have "dict_get (mc_cases s) i = Some d" using that by (simp add: mem_view_def split: option.splits)
    then have "(i, d) \<in> set (mc_cases s)" unfolding dict_get_def by (rule map_of_SomeD)
    then show ?thesis by force
  qed
  ultimately show "mem_ok s' \<and> mem_view s (rc_case_id c) = None \<and>
      (\<exists>d. same_case c d \<and> mem_view s' = (mem_view s)(rc_case_id c \<mapsto> (d, []))) \<and>
      (\<forall>i d es. mem_view s i = Some (d, es) \<longrightarrow> rc_tenant_id d = rc_tenant_id c \<longrightarrow>
         rc_terminal d \<or> rc_terminal c \<or> \<not> share_asset d c)"
    using cr ok same_refl(1) [of c]
    by (auto simp: mem_ok_def dict_set_distinct mem_view_def dict_has_get filter_empty_conv simp del: same_refl)
next
  fix s c x s' assume "cs_create mem_ops c s = (Inl x, s')"
  then show "s' = s" by (auto simp: mem_ops_def mem_create_def run_simps bindM_Inl Let_def)
next
  fix s c e v x s' assume "cs_append mem_ops c e v s = (Inl x, s')"
  then show "s' = s"
    by (auto simp: mem_ops_def mem_append_def run_simps bindM_Inl mem_get_run split: option.splits)
next
  fix s c e v s' assume ok: "mem_ok s" and "cs_append mem_ops c e v s = (Inr (), s')"
  then have ap: "\<exists>d es. mem_view s (rc_case_id c) = Some (d, es) \<and> rc_version d = v"
    "s' = s\<lparr>mc_events := dict_set (rc_case_id c)
                        ((case dict_get (mc_events s) (rc_case_id c) of None \<Rightarrow> [] | Some es \<Rightarrow> es) @ [e])
                        (mc_events s),
            mc_cases := dict_set (rc_case_id c) c (mc_cases s)\<rparr>"
    by (auto simp: mem_ops_def mem_append_def run_simps mem_get_run split: option.splits)
  show "\<exists>d es. mem_view s (rc_case_id c) = Some (d, es) \<and> rc_version d = v" by (rule ap)
  obtain d es where v: "mem_view s (rc_case_id c) = Some (d, es)" "rc_version d = v" using ap(1) by blast
  have "mem_view s' = (mem_view s)(rc_case_id c \<mapsto> (c, es @ [e]))"
    using v(1) by (intro ext) (auto simp: ap(2) mem_view_def split: option.splits)
  moreover have "mem_ok s'" using ok by (simp add: ap(2) mem_ok_def dict_set_distinct)
  ultimately show "mem_ok s' \<and> (\<exists>d es d' e'. mem_view s (rc_case_id c) = Some (d, es) \<and>
      rc_version d = v \<and> same_case c d' \<and> same_event e e' \<and>
      mem_view s' = (mem_view s)(rc_case_id c \<mapsto> (d', es @ [e'])))"
    using v by (intro conjI exI) auto
qed

end
