(* ===== verification/Sql.thy ===== *)
theory Sql
  imports Prelude
begin

text \<open>
  What the stores use of SQL: a table is the list of its rows, an insertion that meets a row with
  the same key raises \<open>IntegrityError\<close>, and a transaction that raises leaves the tables as they
  were.
\<close>

text \<open>\<open>INSERT\<close>: \<open>clash\<close> says which rows violate a key.\<close>

definition sql_insert :: "('r \<Rightarrow> 'r \<Rightarrow> bool) \<Rightarrow> 'r \<Rightarrow> 'r list \<Rightarrow> 'r list res" where
  "sql_insert clash row rows =
     bindE (guardE (\<not> list_ex (clash row) rows) IntegrityError ''UNIQUE constraint failed'')
       (\<lambda>_. Inr (rows @ [row]))"

text \<open>A transaction commits what it returns and undoes what it raised in.\<close>

definition transaction :: "('s \<Rightarrow> 's res) \<Rightarrow> ('s, unit) prog" where
  "transaction f s = (case f s of Inl e \<Rightarrow> (Inl e, s) | Inr s' \<Rightarrow> (Inr (), s'))"

lemma sql_insert_Inr [res_simps]:
  "sql_insert clash r rows = Inr rows' \<longleftrightarrow> \<not> list_ex (clash r) rows \<and> rows' = rows @ [r]"
  by (auto simp: sql_insert_def res_simps)

lemma transaction_run:
  "transaction f s = (Inr u, s') \<longleftrightarrow> f s = Inr s'" "transaction f s = (Inl x, s') \<longleftrightarrow> f s = Inl x \<and> s' = s"
  by (auto simp: transaction_def split: sum.splits)

lemma find_append: "find P (xs @ ys) = (case find P xs of None \<Rightarrow> find P ys | Some x \<Rightarrow> Some x)"
  by (induction xs) auto

definition sql_update :: "('r \<Rightarrow> bool) \<Rightarrow> ('r \<Rightarrow> 'r) \<Rightarrow> 'r list \<Rightarrow> 'r list" where
  "sql_update hit f rows = map (\<lambda>r. if hit r then f r else r) rows"

lemma find_distinct:
  assumes "distinct (map f rows)" "r \<in> set rows"
  shows "find (\<lambda>x. f x = f r) rows = Some r"
  using assms by (induction rows) (auto simp: image_iff)

lemma find_Some_in: "find P xs = Some x \<Longrightarrow> x \<in> set xs \<and> P x"
  by (auto simp: find_Some_iff)

end
