(* ===== verification/Case_Store.thy ===== *)
theory Case_Store
  imports Workflow Sql
begin

text \<open>
  \<open>src/elcapitan/case_store.py\<close>: the SQLite case store. A table is the list of its rows; an
  insertion that meets a row with the same key raises \<open>IntegrityError\<close>; a statement that raises
  undoes its transaction. A document column holds JSON text, here the value the text reads back
  to. The last section shows that the tables keep the contract of \<open>Workflow\<close>. (The PostgreSQL
  store of \<open>src/elcapitan/postgres_store.py\<close> runs the same statements on the same tables.)
\<close>

section \<open>Tables\<close>

record case_row =
  cr_case_id :: string
  cr_tenant_id :: string
  cr_state :: string
  cr_version :: int
  cr_projection :: pyval

record event_row =
  er_case_id :: string
  er_sequence :: int
  er_event_id :: string
  er_event :: pyval

text \<open>\<open>remediation_cases\<close>, \<open>case_assets (case, tenant, asset)\<close>, \<open>active_case_assets (tenant,
  asset, case)\<close> and \<open>case_events\<close>.\<close>

record sql_cases =
  sc_cases :: "case_row list"
  sc_assets :: "(string \<times> string \<times> string) list"
  sc_active :: "(string \<times> string \<times> string) list"
  sc_events :: "event_row list"

definition sql_empty :: sql_cases where
  "sql_empty = \<lparr> sc_cases = [], sc_assets = [], sc_active = [], sc_events = [] \<rparr>"

definition insert_case_row :: "remediation_case \<Rightarrow> case_row list \<Rightarrow> case_row list res" where
  "insert_case_row c = sql_insert (\<lambda>r r'. cr_case_id r = cr_case_id r')
     \<lparr> cr_case_id = rc_case_id c, cr_tenant_id = rc_tenant_id c,
       cr_state = case_state_value (rc_state c), cr_version = rc_version c,
       cr_projection = canon (case_to_dict c) \<rparr>"

definition insert_assets ::
  "remediation_case \<Rightarrow> (string \<times> string \<times> string) list \<Rightarrow> (string \<times> string \<times> string) list res" where
  "insert_assets c = foldE (\<lambda>a. sql_insert (\<lambda>(i, t, a) (i', t', a'). i = i' \<and> a = a')
                                (rc_case_id c, rc_tenant_id c, a)) (rc_asset_ids c)"

definition insert_active ::
  "remediation_case \<Rightarrow> (string \<times> string \<times> string) list \<Rightarrow> (string \<times> string \<times> string) list res" where
  "insert_active c = foldE (\<lambda>a. sql_insert (\<lambda>(t, a, i) (t', a', i'). t = t' \<and> a = a')
                                (rc_tenant_id c, a, rc_case_id c)) (rc_asset_ids c)"

text \<open>The transaction of \<open>create\<close>.\<close>

definition create_rows :: "remediation_case \<Rightarrow> sql_cases \<Rightarrow> sql_cases res" where
  "create_rows c db =
     bindE (insert_case_row c (sc_cases db)) (\<lambda>cases.
     bindE (insert_assets c (sc_assets db)) (\<lambda>assets.
     bindE (if rc_terminal c then Inr (sc_active db) else insert_active c (sc_active db)) (\<lambda>active.
     Inr (db\<lparr>sc_cases := cases, sc_assets := assets, sc_active := active\<rparr>))))"

section \<open>The operations\<close>

definition sql_get :: "string \<Rightarrow> (sql_cases, remediation_case) prog" where
  "sql_get i =
     bindM (getsM (\<lambda>db. find (\<lambda>r. cr_case_id r = i) (sc_cases db))) (\<lambda>row.
     case row of None \<Rightarrow> raise CaseNotFound i | Some r \<Rightarrow> liftE (case_from_dict (cr_projection r)))"

definition sql_find_active :: "string \<Rightarrow> string \<Rightarrow> (sql_cases, remediation_case option) prog" where
  "sql_find_active tenant asset =
     bindM (getsM (\<lambda>db. [r. r \<leftarrow> sc_cases db, (t, a, i) \<leftarrow> sc_active db,
                          i = cr_case_id r, t = tenant, a = asset])) (\<lambda>rows.
     case rows of [] \<Rightarrow> ret None
     | r # _ \<Rightarrow> bindM (liftE (case_from_dict (cr_projection r))) (\<lambda>c. ret (Some c)))"

fun first_active :: "string \<Rightarrow> string list \<Rightarrow> (sql_cases, remediation_case option) prog" where
  "first_active tenant [] = ret None"
| "first_active tenant (a # as) =
     bindM (sql_find_active tenant a) (\<lambda>found.
     case found of Some c \<Rightarrow> ret (Some c) | None \<Rightarrow> first_active tenant as)"

definition sql_create :: "remediation_case \<Rightarrow> (sql_cases, unit) prog" where
  "sql_create c =
     tryM (transaction (create_rows c)) [IntegrityError] (\<lambda>_.
       bindM (first_active (rc_tenant_id c) (rc_asset_ids c)) (\<lambda>active.
       case active of
         Some d \<Rightarrow> raise ConcurrentCaseUpdate (''tenant '' @ rc_tenant_id c
                     @ '' already has active case '' @ rc_case_id d @ '' for this asset'')
       | None \<Rightarrow> raise ConcurrentCaseUpdate (''case '' @ rc_case_id c @ '' already exists'')))"

text \<open>The transaction of \<open>append\<close>: \<open>UPDATE ... WHERE case_id = ? AND version = ?\<close> first.\<close>

definition append_rows :: "remediation_case \<Rightarrow> case_event \<Rightarrow> int \<Rightarrow> sql_cases \<Rightarrow> sql_cases res" where
  "append_rows c e expected db =
     (let hit = (\<lambda>r. cr_case_id r = rc_case_id c \<and> cr_version r = expected);
          updated = map (\<lambda>r. if hit r then r\<lparr>cr_state := case_state_value (rc_state c),
                                            cr_version := rc_version c,
                                            cr_projection := canon (case_to_dict c)\<rparr> else r)
                        (sc_cases db)
      in bindE (if length (filter hit (sc_cases db)) = 1 then Inr ()
                else case find (\<lambda>r. cr_case_id r = rc_case_id c) updated of
                       None \<Rightarrow> Inl (Raise CaseNotFound (rc_case_id c))
                     | Some r \<Rightarrow> Inl (Raise ConcurrentCaseUpdate
                         (''case '' @ rc_case_id c @ '' is version '' @ show_int (cr_version r)
                          @ '', expected '' @ show_int expected))) (\<lambda>_.
         bindE (sql_insert (\<lambda>r r'. er_event_id r = er_event_id r' \<or>
                              (er_case_id r = er_case_id r' \<and> er_sequence r = er_sequence r'))
                  \<lparr> er_case_id = ev_case_id e, er_sequence = ev_sequence e,
                    er_event_id = ev_event_id e, er_event = canon (event_to_dict e) \<rparr>
                  (sc_events db)) (\<lambda>events.
         Inr (db\<lparr>sc_cases := updated, sc_events := events,
                 sc_active := (if rc_terminal c
                               then filter (\<lambda>(t, a, i). i \<noteq> rc_case_id c) (sc_active db)
                               else sc_active db)\<rparr>))))"

definition sql_append :: "remediation_case \<Rightarrow> case_event \<Rightarrow> int \<Rightarrow> (sql_cases, unit) prog" where
  "sql_append c e expected =
     bindM (guardM (ev_case_id e = rc_case_id c) ValueError
              ''event and projection belong to different cases'') (\<lambda>_.
     bindM (guardM (ev_sequence e = expected + 1 \<and> rc_version c = ev_sequence e) ValueError
              ''event and projection versions are not contiguous'') (\<lambda>_.
     transaction (append_rows c e expected)))"

definition sql_events :: "string \<Rightarrow> (sql_cases, case_event list) prog" where
  "sql_events i =
     bindM (sql_get i) (\<lambda>_.
     bindM (getsM (\<lambda>db. sort_key er_sequence (filter (\<lambda>r. er_case_id r = i) (sc_events db)))) (\<lambda>rows.
     liftE (mapE (\<lambda>r. event_from_dict (er_event r)) rows)))"

definition sql_list :: "string option \<Rightarrow> (sql_cases, remediation_case list) prog" where
  "sql_list tenant =
     bindM (getsM (\<lambda>db. sort_key (\<lambda>r. (cr_tenant_id r, cr_case_id r))
                          (filter (\<lambda>r. case tenant of None \<Rightarrow> True | Some t \<Rightarrow> cr_tenant_id r = t)
                            (sc_cases db)))) (\<lambda>rows.
     liftE (mapE (\<lambda>r. case_from_dict (cr_projection r)) rows))"

definition sql_ops :: "sql_cases case_store_ops" where
  "sql_ops = \<lparr> cs_create = sql_create, cs_get = sql_get, cs_append = sql_append,
               cs_events = sql_events, cs_find_active = sql_find_active, cs_list = sql_list \<rparr>"

section \<open>What the tables mean\<close>

text \<open>The projections that can be read, and the events of each case in order.\<close>

definition row_case :: "case_row \<Rightarrow> remediation_case option" where
  "row_case r = (case case_from_dict (cr_projection r) of Inl _ \<Rightarrow> None | Inr c \<Rightarrow> Some c)"

definition row_event :: "event_row \<Rightarrow> case_event option" where
  "row_event r = (case event_from_dict (er_event r) of Inl _ \<Rightarrow> None | Inr e \<Rightarrow> Some e)"

definition case_event_rows :: "sql_cases \<Rightarrow> string \<Rightarrow> event_row list" where
  "case_event_rows db i = filter (\<lambda>r. er_case_id r = i) (sc_events db)"

definition sql_view :: "sql_cases \<Rightarrow> string \<Rightarrow> (remediation_case \<times> case_event list) option" where
  "sql_view db i =
     (case find (\<lambda>r. cr_case_id r = i) (sc_cases db) of None \<Rightarrow> None
      | Some r \<Rightarrow> map_option (\<lambda>c. (c, map (the \<circ> row_event) (case_event_rows db i))) (row_case r))"

text \<open>The tables are consistent: rows agree with their documents, events are in sequence, and
  the active assets are those of the cases that are not terminal.\<close>

definition row_ok :: "case_row \<Rightarrow> bool" where
  "row_ok r = (case row_case r of None \<Rightarrow> False
     | Some c \<Rightarrow> rc_case_id c = cr_case_id r \<and> rc_tenant_id c = cr_tenant_id r \<and>
                 rc_version c = cr_version r)"

definition sql_ok :: "sql_cases \<Rightarrow> bool" where
  "sql_ok db =
     (distinct (map cr_case_id (sc_cases db)) \<and>
      (\<forall>r \<in> set (sc_cases db). row_ok r) \<and>
      (\<forall>r \<in> set (sc_events db). row_event r \<noteq> None) \<and>
      (\<forall>i. sorted (map er_sequence (case_event_rows db i))) \<and>
      (\<forall>r \<in> set (sc_events db). \<exists>c es. sql_view db (er_case_id r) = Some (c, es) \<and>
         er_sequence r \<le> rc_version c) \<and>
      (\<forall>i c es. sql_view db i = Some (c, es) \<longrightarrow> \<not> rc_terminal c \<longrightarrow>
         (\<forall>a \<in> set (rc_asset_ids c). (rc_tenant_id c, a, i) \<in> set (sc_active db))))"

section \<open>Statements\<close>

lemma json_case_same: "same_case c (json_case c)"
  by (simp add: same_case_def json_case_def fun_eq_iff)

lemma json_event_same: "same_event e (json_event e)"
  by (simp add: same_event_def json_event_def fun_eq_iff)

lemma insert_active_Inr:
  assumes "insert_active c rows = Inr rows'"
  shows "set rows' = set rows \<union> (\<lambda>a. (rc_tenant_id c, a, rc_case_id c)) ` set (rc_asset_ids c) \<and>
    (\<forall>a \<in> set (rc_asset_ids c). \<forall>i. (rc_tenant_id c, a, i) \<notin> set rows)"
proof -
  have "foldE (\<lambda>a. sql_insert (\<lambda>(t, a, i) (t', a', i'). t = t' \<and> a = a') (rc_tenant_id c, a, rc_case_id c))
          as rows = Inr rows' \<Longrightarrow>
        set rows' = set rows \<union> (\<lambda>a. (rc_tenant_id c, a, rc_case_id c)) ` set as \<and>
        (\<forall>a \<in> set as. \<forall>i. (rc_tenant_id c, a, i) \<notin> set rows)" for "as"
  proof (induction "as" arbitrary: rows)
    case (Cons a "as")
    let ?row = "(rc_tenant_id c, a, rc_case_id c)"
    from Cons.prems have new: "\<not> list_ex (\<lambda>(t', a', i'). rc_tenant_id c = t' \<and> a = a') rows"
      and rest: "foldE (\<lambda>a. sql_insert (\<lambda>(t, a, i) (t', a', i'). t = t' \<and> a = a')
          (rc_tenant_id c, a, rc_case_id c)) as (rows @ [?row]) = Inr rows'"
      by (auto simp: res_simps)
    note Cons.IH [OF rest]
    moreover from new have "(rc_tenant_id c, a, i) \<notin> set rows" for i by (auto simp: list_ex_iff)
    ultimately show ?case by auto
  qed simp
  from this [OF assms [unfolded insert_active_def]] show ?thesis .
qed

lemma sql_view_find:
  assumes ok: "sql_ok db" and f: "find (\<lambda>r. cr_case_id r = i) (sc_cases db) = Some r"
  shows "\<exists>c. row_case r = Some c \<and> rc_case_id c = i \<and> rc_tenant_id c = cr_tenant_id r \<and>
         rc_version c = cr_version r \<and>
         sql_view db i = Some (c, map (the \<circ> row_event) (case_event_rows db i))"
proof -
  from f have r: "r \<in> set (sc_cases db)" "cr_case_id r = i" by (auto simp: find_Some_iff)
  have "row_ok r" using ok r(1) unfolding sql_ok_def by blast
  then obtain c where "row_case r = Some c" "rc_case_id c = i" "rc_tenant_id c = cr_tenant_id r"
    "rc_version c = cr_version r" using r(2) by (auto simp: row_ok_def split: option.splits)
  then show ?thesis using f by (simp add: sql_view_def)
qed

lemma sql_view_None:
  "sql_ok db \<Longrightarrow> sql_view db i = None \<longleftrightarrow> find (\<lambda>r. cr_case_id r = i) (sc_cases db) = None"
  using sql_view_find by (fastforce simp: sql_view_def split: option.splits)

lemma row_case_from: "row_case r = Some c \<longleftrightarrow> case_from_dict (cr_projection r) = Inr c"
  by (simp add: row_case_def split: sum.splits)

lemma row_event_from: "row_event r = Some e \<longleftrightarrow> event_from_dict (er_event r) = Inr e"
  by (simp add: row_event_def split: sum.splits)

lemma sql_get_run:
  assumes "sql_ok db"
  shows "sql_get i db =
    ((case sql_view db i of None \<Rightarrow> Inl (Raise CaseNotFound i) | Some (c, es) \<Rightarrow> Inr c), db)"
proof (cases "find (\<lambda>r. cr_case_id r = i) (sc_cases db)")
  case None
  with sql_view_None [OF assms, of i] show ?thesis by (simp add: sql_get_def run_defs)
next
  case (Some r)
  from sql_view_find [OF assms Some] show ?thesis
    by (auto simp: sql_get_def run_defs Some row_case_from)
qed

lemma read_events:
  assumes "sql_ok db"
  shows "mapE (\<lambda>r. event_from_dict (er_event r)) (case_event_rows db i) =
    Inr (map (the \<circ> row_event) (case_event_rows db i))"
proof -
  have "\<forall>r \<in> set rows. row_event r \<noteq> None \<Longrightarrow>
      mapE (\<lambda>r. event_from_dict (er_event r)) rows = Inr (map (the \<circ> row_event) rows)" for rows
    by (induction rows) (auto simp: row_event_def split: sum.splits)
  then show ?thesis using assms by (simp add: sql_ok_def case_event_rows_def)
qed

lemma sql_events_run:
  assumes "sql_ok db"
  shows "sql_events i db =
    ((case sql_view db i of None \<Rightarrow> Inl (Raise CaseNotFound i) | Some (c, es) \<Rightarrow> Inr es), db)"
proof -
  have "sort_key er_sequence (case_event_rows db i) = case_event_rows db i"
    using assms by (intro sort_key_id_if_sorted) (simp add: sql_ok_def)
  then show ?thesis using sql_get_run [OF assms, of i] read_events [OF assms, of i]
    by (auto simp: sql_events_def run_defs simp flip: case_event_rows_def split: option.splits)
      (auto simp: sql_view_def split: option.splits)
qed

section \<open>Creating a case\<close>

lemma create_rows_keeps:
  assumes ok: "sql_ok db" and c: "case_ok c" and run: "create_rows c db = Inr db'"
  shows "sql_ok db' \<and> sql_view db (rc_case_id c) = None \<and>
    sql_view db' = (sql_view db)(rc_case_id c \<mapsto> (json_case c, [])) \<and>
    (\<forall>i d es. sql_view db i = Some (d, es) \<longrightarrow> rc_tenant_id d = rc_tenant_id c \<longrightarrow>
       rc_terminal d \<or> rc_terminal c \<or> \<not> share_asset d c)"
proof -
  let ?r = "\<lparr> cr_case_id = rc_case_id c, cr_tenant_id = rc_tenant_id c,
       cr_state = case_state_value (rc_state c), cr_version = rc_version c,
       cr_projection = canon (case_to_dict c) \<rparr>"
  from run obtain active where nodup: "\<forall>r \<in> set (sc_cases db). rc_case_id c \<noteq> cr_case_id r"
    and act: "(if rc_terminal c then Inr (sc_active db) else insert_active c (sc_active db)) = Inr active"
    and db': "sc_cases db' = sc_cases db @ [?r]" "sc_active db' = active" "sc_events db' = sc_events db"
    by (auto simp: create_rows_def insert_case_row_def res_simps list_ex_iff)
  have fresh: "find (\<lambda>r. cr_case_id r = rc_case_id c) (sc_cases db) = None"
    using nodup by (auto simp: find_None_iff)
  then have none: "sql_view db (rc_case_id c) = None" using sql_view_None [OF ok, of "rc_case_id c"] by simp
  have row: "row_case ?r = Some (json_case c)"
    using case_read_back [OF c] by (simp add: row_case_from)
  have noev: "case_event_rows db (rc_case_id c) = []"
    using ok none unfolding sql_ok_def case_event_rows_def by (fastforce simp: filter_empty_conv)
  have rows: "case_event_rows db' i = case_event_rows db i" for i
    by (simp add: case_event_rows_def db')
  have view: "sql_view db' = (sql_view db)(rc_case_id c \<mapsto> (json_case c, []))"
  proof
    fix i
    show "sql_view db' i = ((sql_view db)(rc_case_id c \<mapsto> (json_case c, []))) i"
      using fresh row noev
      by (auto simp: sql_view_def db' rows find_append split: option.splits)
  qed
  have terminal: "rc_terminal (json_case c) = rc_terminal c" "rc_asset_ids (json_case c) = rc_asset_ids c"
    "rc_tenant_id (json_case c) = rc_tenant_id c" "rc_version (json_case c) = rc_version c"
    "rc_case_id (json_case c) = rc_case_id c"
    by (simp_all add: json_case_def rc_terminal_def)
  have active: "set (sc_active db) \<subseteq> set active"
    "\<not> rc_terminal c \<Longrightarrow> \<forall>a \<in> set (rc_asset_ids c). (rc_tenant_id c, a, rc_case_id c) \<in> set active"
    "\<not> rc_terminal c \<Longrightarrow> \<forall>a \<in> set (rc_asset_ids c). \<forall>i. (rc_tenant_id c, a, i) \<notin> set (sc_active db)"
    using act insert_active_Inr by (auto split: if_splits)
  have "sql_ok db'"
    unfolding sql_ok_def view rows
  proof (intro conjI)
    show "distinct (map cr_case_id (sc_cases db'))" using ok nodup unfolding sql_ok_def db' by auto
    show "\<forall>r \<in> set (sc_cases db'). row_ok r"
      using ok row unfolding sql_ok_def db' by (auto simp: row_ok_def terminal)
    show "\<forall>r \<in> set (sc_events db'). row_event r \<noteq> None" using ok unfolding sql_ok_def db' by blast
    show "\<forall>i. sorted (map er_sequence (case_event_rows db i))" using ok unfolding sql_ok_def by blast
    show "\<forall>r \<in> set (sc_events db'). \<exists>d es. ((sql_view db)(rc_case_id c \<mapsto> (json_case c, []))) (er_case_id r)
            = Some (d, es) \<and> er_sequence r \<le> rc_version d"
      using ok none unfolding sql_ok_def db' by fastforce
    show "\<forall>i d es. ((sql_view db)(rc_case_id c \<mapsto> (json_case c, []))) i = Some (d, es) \<longrightarrow> \<not> rc_terminal d \<longrightarrow>
         (\<forall>a \<in> set (rc_asset_ids d). (rc_tenant_id d, a, i) \<in> set (sc_active db'))"
      using ok active(1,2) unfolding sql_ok_def db' by (auto simp: terminal)
  qed
  moreover have "rc_terminal d \<or> rc_terminal c \<or> \<not> share_asset d c"
    if "sql_view db i = Some (d, es)" "rc_tenant_id d = rc_tenant_id c" for i d es
    using ok that active(3) unfolding sql_ok_def share_asset_def by fastforce
  ultimately show ?thesis using none view by blast
qed

section \<open>Appending an event\<close>

lemma find_map_id:
  assumes "\<And>r. cr_case_id (f r) = cr_case_id r"
  shows "find (\<lambda>r. cr_case_id r = i) (map f rows) = map_option f (find (\<lambda>r. cr_case_id r = i) rows)"
  by (induction rows) (simp_all add: assms)

lemma hit_row:
  assumes "filter (\<lambda>r. cr_case_id r = i \<and> cr_version r = v) rows = [r]" "distinct (map cr_case_id rows)"
  shows "find (\<lambda>r. cr_case_id r = i) rows = Some r \<and> cr_version r = v"
proof -
  have r: "r \<in> set rows" "cr_case_id r = i" "cr_version r = v"
    using assms(1) by (metis (mono_tags, lifting) list.set_intros(1) mem_Collect_eq set_filter)+
  then obtain r' where r': "find (\<lambda>r. cr_case_id r = i) rows = Some r'"
    by (metis (mono_tags) find_None_iff not_Some_eq)
  then have "r' \<in> set rows" "cr_case_id r' = i" by (auto simp: find_Some_iff)
  then have "r' = r" using r assms(2) by (metis distinct_map inj_onD)
  then show ?thesis using r r' by simp
qed

lemma single_hit:
  assumes "length (filter (\<lambda>r. cr_case_id r = i \<and> cr_version r = v) rows) = 1"
    and "distinct (map cr_case_id rows)"
  shows "\<exists>r. find (\<lambda>r. cr_case_id r = i) rows = Some r \<and> cr_version r = v"
proof -
  from assms(1) obtain r where "filter (\<lambda>r. cr_case_id r = i \<and> cr_version r = v) rows = [r]"
    by (auto simp: length_Suc_conv)
  from hit_row [OF this assms(2)] show ?thesis by blast
qed

lemma append_rows_keeps:
  assumes ok: "sql_ok db" and c: "case_ok c" and e: "is_ok (mk_case_event e)"
    and ids: "ev_case_id e = rc_case_id c" "ev_sequence e = v + 1" "rc_version c = v + 1"
    and run: "append_rows c e v db = Inr db'"
    and same: "\<And>d es. sql_view db (rc_case_id c) = Some (d, es) \<Longrightarrow> rc_version d = v \<Longrightarrow>
      rc_asset_ids c = rc_asset_ids d \<and> rc_tenant_id c = rc_tenant_id d \<and> \<not> rc_terminal d"
  shows "sql_ok db' \<and> (\<exists>d es. sql_view db (rc_case_id c) = Some (d, es) \<and> rc_version d = v \<and>
    sql_view db' = (sql_view db)(rc_case_id c \<mapsto> (json_case c, es @ [json_event e])))"
proof -
  define hit where "hit = (\<lambda>r :: case_row. cr_case_id r = rc_case_id c \<and> cr_version r = v)"
  define f where "f = (\<lambda>r :: case_row. if hit r then r\<lparr>cr_state := case_state_value (rc_state c),
                     cr_version := rc_version c, cr_projection := canon (case_to_dict c)\<rparr> else r)"
  define er where "er = \<lparr> er_case_id = ev_case_id e, er_sequence = ev_sequence e,
                    er_event_id = ev_event_id e, er_event = canon (event_to_dict e) \<rparr>"
  from run have one: "length (filter hit (sc_cases db)) = 1"
    and db': "sc_cases db' = map f (sc_cases db)" "sc_events db' = sc_events db @ [er]"
      "sc_active db' = (if rc_terminal c then filter (\<lambda>(t, a, i). i \<noteq> rc_case_id c) (sc_active db)
                        else sc_active db)"
    unfolding append_rows_def Let_def hit_def f_def er_def
    by (auto simp: res_simps split: if_splits option.splits)
  have dist: "distinct (map cr_case_id (sc_cases db))" using ok by (simp add: sql_ok_def)
  obtain r where r: "find (\<lambda>r. cr_case_id r = rc_case_id c) (sc_cases db) = Some r" "cr_version r = v"
    using single_hit [OF _ dist] one unfolding hit_def by blast
  from sql_view_find [OF ok r(1)] r(2) obtain d where
    d: "rc_version d = v" "sql_view db (rc_case_id c) = Some (d, map (the \<circ> row_event) (case_event_rows db (rc_case_id c)))"
    by auto
  let ?es = "map (the \<circ> row_event) (case_event_rows db (rc_case_id c))"
  have hr: "hit r" using r by (auto simp: hit_def find_Some_iff)
  have fid: "cr_case_id (f r) = cr_case_id r" for r by (simp add: f_def)
  have f_other: "f r = r" if "cr_case_id r \<noteq> rc_case_id c" for r using that by (simp add: f_def hit_def)
  have row: "row_case (f r) = Some (json_case c)"
    using case_read_back [OF c] hr by (simp add: row_case_from f_def)
  have rev: "row_event er = Some (json_event e)"
    using event_read_back [OF e] by (simp add: row_event_from er_def)
  have rows: "case_event_rows db' i = case_event_rows db i @ (if i = rc_case_id c then [er] else [])" for i
    by (simp add: case_event_rows_def db' er_def ids)
  have view: "sql_view db' = (sql_view db)(rc_case_id c \<mapsto> (json_case c, ?es @ [json_event e]))"
  proof
    fix i
    show "sql_view db' i = ((sql_view db)(rc_case_id c \<mapsto> (json_case c, ?es @ [json_event e]))) i"
    proof (cases "i = rc_case_id c")
      case True
      then show ?thesis
        unfolding sql_view_def db' find_map_id [of f, OF fid] rows by (simp add: r row rev)
    next
      case False
      have "map_option f (find (\<lambda>r. cr_case_id r = i) (sc_cases db)) = find (\<lambda>r. cr_case_id r = i) (sc_cases db)"
        using f_other False by (auto simp: find_Some_iff intro!: option.map_ident_strong)
      with False show ?thesis unfolding sql_view_def db' find_map_id [of f, OF fid] rows
        by (simp cong: option.case_cong)
    qed
  qed
  have jc: "rc_terminal (json_case c) = rc_terminal c" "rc_asset_ids (json_case c) = rc_asset_ids c"
    "rc_tenant_id (json_case c) = rc_tenant_id c" "rc_version (json_case c) = rc_version c"
    "rc_case_id (json_case c) = rc_case_id c"
    by (simp_all add: json_case_def rc_terminal_def)
  have le: "er_sequence r \<le> v" if "r \<in> set (case_event_rows db (rc_case_id c))" for r
    using that ok d unfolding sql_ok_def case_event_rows_def by fastforce
  have "sql_ok db'"
    unfolding sql_ok_def view rows
  proof (intro conjI)
    show "distinct (map cr_case_id (sc_cases db'))"
      using dist by (simp add: db' comp_def fid)
    show "\<forall>r \<in> set (sc_cases db'). row_ok r"
    proof
      fix x assume "x \<in> set (sc_cases db')"
      then obtain y where y: "y \<in> set (sc_cases db)" "x = f y" by (auto simp: db')
      show "row_ok x"
      proof (cases "hit y")
        case True
        then have "y = r" using y(1) r hr dist
          by (metis (no_types, lifting) distinct_map find_Some_iff hit_def inj_onD nth_mem)
        moreover have "cr_tenant_id r = rc_tenant_id c" using same [OF d(2,1)] sql_view_find [OF ok r(1)] d by auto
        ultimately show ?thesis using row y hr by (simp add: row_ok_def jc) (simp add: f_def hit_def)
      next
        case False
        then show ?thesis using ok y unfolding sql_ok_def f_def by simp
      qed
    qed
    show "\<forall>r \<in> set (sc_events db'). row_event r \<noteq> None"
      using ok rev unfolding sql_ok_def db' by auto
    show "\<forall>i. sorted (map er_sequence (case_event_rows db i @ (if i = rc_case_id c then [er] else [])))"
      using ok le unfolding sql_ok_def by (fastforce simp: sorted_append er_def ids)
    show "\<forall>r \<in> set (sc_events db'). \<exists>d es. ((sql_view db)(rc_case_id c \<mapsto> (json_case c, ?es @ [json_event e])))
            (er_case_id r) = Some (d, es) \<and> er_sequence r \<le> rc_version d"
      using ok le unfolding sql_ok_def db' by (fastforce simp: jc er_def ids case_event_rows_def)
    show "\<forall>i d es. ((sql_view db)(rc_case_id c \<mapsto> (json_case c, ?es @ [json_event e]))) i = Some (d, es) \<longrightarrow>
         \<not> rc_terminal d \<longrightarrow> (\<forall>a \<in> set (rc_asset_ids d). (rc_tenant_id d, a, i) \<in> set (sc_active db'))"
    proof (intro allI impI ballI)
      fix i d' es a
      assume v: "((sql_view db)(rc_case_id c \<mapsto> (json_case c, ?es @ [json_event e]))) i = Some (d', es)"
        and t: "\<not> rc_terminal d'" and a: "a \<in> set (rc_asset_ids d')"
      show "(rc_tenant_id d', a, i) \<in> set (sc_active db')"
      proof (cases "i = rc_case_id c")
        case True
        then have "d' = json_case c" using v by simp
        then show ?thesis using True t a same [OF d(2,1)] d(2) ok unfolding sql_ok_def db' by (auto simp: jc)
      next
        case False
        then have "(rc_tenant_id d', a, i) \<in> set (sc_active db)" using v t a ok unfolding sql_ok_def by auto
        then show ?thesis using False by (auto simp: db')
      qed
    qed
  qed
  then show ?thesis using d view by blast
qed

section \<open>The tables keep the contract\<close>

lemma first_active_state: "first_active t as db = (r, db') \<Longrightarrow> db' = db"
proof (induction "as" arbitrary: r)
  case (Cons a "as")
  then show ?case
    by (auto simp: sql_find_active_def run_defs split: prod.splits sum.splits option.splits list.splits)
qed (simp add: run_defs)

lemma sql_create_run:
  "sql_create c db = (Inr u, db') \<longleftrightarrow> create_rows c db = Inr db'"
  "sql_create c db = (Inl x, db') \<Longrightarrow> db' = db"
  unfolding sql_create_def
  by (auto simp: run_simps transaction_run tryM_def dest!: first_active_state
      split: option.splits prod.splits sum.splits if_splits)
    (auto simp: bindM_def raise_def transaction_run dest!: first_active_state
      split: option.splits prod.splits sum.splits)

lemma sql_append_Inr:
  "sql_append c e v db = (Inr (), db') \<longleftrightarrow>
     ev_case_id e = rc_case_id c \<and> ev_sequence e = v + 1 \<and> rc_version c = v + 1 \<and>
     append_rows c e v db = Inr db'"
  by (auto simp: sql_append_def run_simps transaction_run)

lemma append_rows_version:
  assumes "sql_ok db" "append_rows c e v db = Inr db'"
  shows "\<exists>d es. sql_view db (rc_case_id c) = Some (d, es) \<and> rc_version d = v"
proof -
  have "length (filter (\<lambda>r. cr_case_id r = rc_case_id c \<and> cr_version r = v) (sc_cases db)) = 1"
    using assms(2) by (auto simp: append_rows_def Let_def res_simps split: if_splits option.splits)
  then obtain r where r: "find (\<lambda>r. cr_case_id r = rc_case_id c) (sc_cases db) = Some r"
    and v: "cr_version r = v"
    using single_hit assms(1) unfolding sql_ok_def by blast
  from sql_view_find [OF assms(1) r] v show ?thesis by auto
qed

interpretation sql: case_store_contract sql_ops sql_view sql_ok
proof
  fix db i assume ok: "sql_ok db"
  show "cs_get sql_ops i db =
      ((case sql_view db i of None \<Rightarrow> Inl (Raise CaseNotFound i) | Some (c, es) \<Rightarrow> Inr c), db)"
    by (simp add: sql_ops_def sql_get_run [OF ok])
  show "cs_events sql_ops i db =
      ((case sql_view db i of None \<Rightarrow> Inl (Raise CaseNotFound i) | Some (c, es) \<Rightarrow> Inr es), db)"
    by (simp add: sql_ops_def sql_events_run [OF ok])
next
  fix db c db' assume "sql_ok db" "case_ok c" "cs_create sql_ops c db = (Inr (), db')"
  then show "sql_ok db' \<and> sql_view db (rc_case_id c) = None \<and>
      (\<exists>d. same_case c d \<and> sql_view db' = (sql_view db)(rc_case_id c \<mapsto> (d, []))) \<and>
      (\<forall>i d es. sql_view db i = Some (d, es) \<longrightarrow> rc_tenant_id d = rc_tenant_id c \<longrightarrow>
         rc_terminal d \<or> rc_terminal c \<or> \<not> share_asset d c)"
    using create_rows_keeps [of db c db'] json_case_same [of c]
    by (auto simp: sql_ops_def sql_create_run)
next
  fix db c x db' assume "cs_create sql_ops c db = (Inl x, db')"
  then show "db' = db" using sql_create_run(2) by (simp add: sql_ops_def)
next
  fix db c e v x db' assume "cs_append sql_ops c e v db = (Inl x, db')"
  then show "db' = db"
    by (auto simp: sql_ops_def sql_append_def bindM_Inl run_simps transaction_run)
next
  fix db c e v db' assume ok: "sql_ok db" and "cs_append sql_ops c e v db = (Inr (), db')"
  then have run: "sql_append c e v db = (Inr (), db')" by (simp add: sql_ops_def)
  then show "\<exists>d es. sql_view db (rc_case_id c) = Some (d, es) \<and> rc_version d = v"
    using append_rows_version [OF ok] unfolding sql_append_Inr by blast
  assume c: "case_ok c" and e: "is_ok (mk_case_event e)" and
    same: "\<And>d es. sql_view db (rc_case_id c) = Some (d, es) \<Longrightarrow> rc_version d = v \<Longrightarrow>
         rc_asset_ids c = rc_asset_ids d \<and> rc_tenant_id c = rc_tenant_id d \<and> \<not> rc_terminal d"
  from run have r: "ev_case_id e = rc_case_id c" "ev_sequence e = v + 1" "rc_version c = v + 1"
    "append_rows c e v db = Inr db'" unfolding sql_append_Inr by blast+
  have "sql_ok db' \<and> (\<exists>d es. sql_view db (rc_case_id c) = Some (d, es) \<and> rc_version d = v \<and>
    sql_view db' = (sql_view db)(rc_case_id c \<mapsto> (json_case c, es @ [json_event e])))"
    by (rule append_rows_keeps [OF ok c e r]) (rule same)
  then show "sql_ok db' \<and> (\<exists>d es d' e'. sql_view db (rc_case_id c) = Some (d, es) \<and> rc_version d = v \<and>
        same_case c d' \<and> same_event e e' \<and>
        sql_view db' = (sql_view db)(rc_case_id c \<mapsto> (d', es @ [e'])))"
    using json_case_same [of c] json_event_same [of e] by blast
qed

end
