(* ===== verification/Case_Properties.thy ===== *)
theory Case_Properties
  imports Case_Lifecycle Case_Documents
begin

text \<open>
  The properties of the case state machine: its event log, the order of its stages, its
  terminal states, the records a stage rests on, and what reopening guarantees.
\<close>

section \<open>A concrete history\<close>

definition sample_plan :: change_plan where
  "sample_plan = \<lparr> cp_plan_id = ''p'', cp_objective = ''o'', cp_change_ref = ''r'',
     cp_prerequisites = [], cp_steps = [''s''], cp_rollout_steps = [''s''],
     cp_verification_steps = [''v''], cp_rollback_steps = [''b''],
     cp_rollback_triggers = [''t''], cp_blast_radius = [], cp_evidence_ids = [] \<rparr>"

definition sample_window :: change_window where
  "sample_window = \<lparr> cw_window_id = ''w'', cw_starts_at = ''2026-01-01T00:00:00Z'',
     cw_ends_at = ''2026-01-01T02:00:00Z'', cw_timezone = ''UTC'', cw_rationale = [],
     cw_evidence_ids = [], cw_confidence = 1 / 2 \<rparr>"

definition sample_risk :: risk_assessment where
  "sample_risk = \<lparr> ra_assessment_id = ''a'', ra_score = 70, ra_urgency = ''high'',
     ra_factors = [''f''], ra_confidence = 1, ra_evidence_ids = [] \<rparr>"

definition sample_case :: remediation_case where
  "sample_case = \<lparr> rc_case_id = ''c'', rc_tenant_id = ''t'', rc_finding_ids = [''f1''],
     rc_asset_ids = [''i''], rc_service_ids = [], rc_state = OPEN, rc_version = 0,
     rc_created_at = ''2026-01-01T00:00:00Z'', rc_updated_at = ''2026-01-01T00:00:00Z'',
     rc_priority = None, rc_change_plan = None, rc_change_window = None, rc_record_ids = [],
     rc_blocked_from = None \<rparr>"

definition sample_args :: "string \<Rightarrow> transition_args" where
  "sample_args k = basic_args (''e-'' @ k) ''2026-01-01T00:00:00Z'' ''me'' [(k, ''r-'' @ k)] []"

definition sample_stages :: "(case_transition \<times> transition_args) list" where
  "sample_stages =
     [(PRIORITIZE, (sample_args ''risk_assessment_id'')\<lparr>ta_priority := Some sample_risk\<rparr>),
      (VALIDATE, sample_args ''validation_result_id''),
      (PREPARE_PLAN, (sample_args ''change_plan_id'')\<lparr>ta_change_plan := Some sample_plan\<rparr>),
      (APPROVE_SRE, sample_args ''sre_review_id''),
      (SELECT_WINDOW, (sample_args ''change_window_id'')\<lparr>ta_change_window := Some sample_window\<rparr>),
      (REVIEW_ROLLBACK, sample_args ''rollback_review_id''),
      (REQUEST_APPROVAL, sample_args ''policy_decision_id''),
      (APPROVE_CHANGE, sample_args ''approval_id'')]"

definition sample_finish :: "(case_transition \<times> transition_args) list" where
  "sample_finish =
     [(START_EXECUTION, sample_args ''execution_id''),
      (START_VERIFICATION, sample_args ''execution_result_id''),
      (COMPLETE_REMEDIATION, sample_args ''verification_result_id'')]"

definition sample_addition :: "case_transition \<times> transition_args" where
  "sample_addition =
     (ADD_FINDING, (sample_args ''finding_id'')\<lparr>ta_new_finding_ids := [''f2'']\<rparr>)"

definition sample_early :: "(case_transition \<times> transition_args) list" where
  "sample_early = take 1 sample_stages @ sample_addition # drop 1 sample_stages"

definition sample_blocked :: "(case_transition \<times> transition_args) list" where
  "sample_blocked =
     [(BLOCK, (sample_args ''incident_id'')\<lparr>ta_detail := ''incident''\<rparr>), sample_addition,
      (RESUME, sample_args ''incident_id'')]"

lemmas sample_defs = sample_plan_def sample_window_def sample_risk_def sample_case_def
  sample_args_def sample_stages_def sample_finish_def sample_addition_def sample_early_def
  sample_blocked_def

lemma sample_opened:
  "open_case ''c'' ''t'' [''f1''] [''i''] [] ''2026-01-01T00:00:00Z'' = Inr sample_case"
  by code_simp

text \<open>The final case and the log of a run that raises nothing.\<close>

definition run_result :: "(case_transition \<times> transition_args) list \<Rightarrow>
    remediation_case \<times> case_event list" where
  "run_result xs = (case run_case sample_case xs of Inr r \<Rightarrow> r | Inl e \<Rightarrow> (sample_case, []))"

lemma run_result_history:
  assumes "is_ok (run_case sample_case xs)"
  shows "history (fst (run_result xs)) (snd (run_result xs))"
proof -
  from assms obtain c es where "run_case sample_case xs = Inr (c, es)"
    by (cases "run_case sample_case xs") auto
  then show ?thesis using run_case_history [OF sample_opened] by (simp add: run_result_def)
qed

lemma run_result_log:
  assumes "is_ok (run_case sample_case xs)"
  shows "map ev_transition (snd (run_result xs)) = map fst xs"
proof -
  have "run_case c xs = Inr (c', es) \<Longrightarrow> map ev_transition es = map fst xs" for c c' es
    by (induction c xs arbitrary: c' es rule: run_case.induct)
      (auto simp: res_simps dest: transition_caseD(20))
  then show ?thesis using assms unfolding run_result_def
    by (cases "run_case sample_case xs") auto
qed

section \<open>The event log\<close>

text \<open>C1: The log of a case explains its projection: the events are numbered from 1 to the
  version of the case, each starts in the state the previous one ended in, the first one in
  \<open>open\<close> and the last one ends in the state of the case, all carry the case's id, and the time
  of the last one is the time of the last update.\<close>

theorem event_log_explains_case:
  assumes "history c es"
  shows "map ev_sequence es = [1 .. rc_version c] \<and>
    map ev_from_state es @ [rc_state c] = OPEN # map ev_to_state es \<and>
    list_all (\<lambda>e. ev_case_id e = rc_case_id c) es \<and>
    rc_updated_at c = last (rc_created_at c # map ev_occurred_at es)"
  using assms
proof (induction rule: history_induct)
  case (opened c)
  then show ?case using history_Nil by simp
next
  case (transition c es t a c' e)
  note D = recordedD [OF transition(2)]
  have "[1 .. rc_version c'] = [1 .. rc_version c] @ [rc_version c + 1]"
    using D(8,9) by (simp add: upto_rec2)
  then show ?case using transition(3) by (simp add: D(3,6,7,10,11,13,14,16))
qed

lemma sample_runs:
  "is_ok (run_case sample_case sample_stages)"
  "is_ok (run_case sample_case (sample_stages @ sample_finish))"
  "is_ok (run_case sample_case (sample_stages @ sample_blocked))"
  "is_ok (run_case sample_case sample_early)"
  by code_simp+

theorem event_log_explains_case_witness:
  "map ev_sequence (snd (run_result sample_stages)) = [1 .. rc_version (fst (run_result sample_stages))]"
  using event_log_explains_case [OF run_result_history [OF sample_runs(1)]] by simp

section \<open>Stages\<close>

text \<open>C2: No stage of the lifecycle is skipped. Whatever happens between two points of a case's
  history, the stages that the second point has ahead of the first were all taken in between,
  in order: a case that was reopened, sent back or blocked passes every stage again before it
  reaches the state it had lost, and no case is executed that was not prioritised, validated,
  planned, reviewed, scheduled and approved in this order.\<close>

theorem no_stage_skipped:
  assumes "history c es" "case_steps c fs c'"
  shows "subseq (drop (stage_rank (effective_state c))
                  (take (stage_rank (effective_state c')) lifecycle_stages)) (map ev_transition fs)"
  using case_steps_stages [OF assms(2) history_inv [OF assms(1)]] .

theorem no_stage_skipped_witness:
  "subseq lifecycle_stages (map ev_transition (snd (run_result (sample_stages @ sample_finish))))"
proof -
  let ?r = "run_result (sample_stages @ sample_finish)"
  have o: "history sample_case []"
    using run_case_history [OF sample_opened, of "[]"] by simp
  have s: "case_steps sample_case (snd ?r) (fst ?r)"
    using run_case_steps [of sample_case "sample_stages @ sample_finish"] sample_runs(2)
    unfolding run_result_def by (cases "run_case sample_case (sample_stages @ sample_finish)") auto
  have e: "effective_state (fst ?r) = REMEDIATED" by code_simp
  have e0: "effective_state sample_case = OPEN" by code_simp
  show ?thesis
    using no_stage_skipped [OF o s] unfolding e e0 by (simp add: lifecycle_stages_def)
qed

text \<open>A case in a terminal state never changes again: an event that reaches
  \<open>remediated\<close>, \<open>rolled_back\<close>, \<open>closed_no_action\<close> or \<open>rejected\<close> is the last of its log.\<close>

theorem terminal_event_is_last:
  assumes "history c (es @ e # fs)" "ev_to_state e \<in> set terminal_case_states"
  shows "fs = []"
proof (cases fs)
  case (Cons f gs)
  obtain c1 where "history c1 ((es @ [e]) @ [f])"
    using history_split [of c "(es @ [e]) @ [f]" gs] assms(1) Cons by auto
  then obtain c0 t a where h: "history c0 (es @ [e])" and s: "recorded c0 t a c1 f"
    by (rule history_snoc)
  from h obtain c2 t2 a2 where "recorded c2 t2 a2 c0 e" by (rule history_snoc)
  from recordedD(14) [OF this] recordedD(1) [OF s] assms(2) show ?thesis
    by (simp add: rc_terminal_def)
qed

theorem terminal_event_is_last_witness:
  "drop 11 (snd (run_result (sample_stages @ sample_finish))) = []"
proof -
  let ?es = "snd (run_result (sample_stages @ sample_finish))"
  have l: "10 < length ?es" and e: "ev_to_state (?es ! 10) \<in> set terminal_case_states"
    by code_simp+
  have "history (fst (run_result (sample_stages @ sample_finish)))
          (take 10 ?es @ ?es ! 10 # drop 11 ?es)"
    using run_result_history [OF sample_runs(2)] id_take_nth_drop [OF l] by simp
  from terminal_event_is_last [OF this e] show ?thesis .
qed

section \<open>Records\<close>

text \<open>C3: Every stage a case stands in rests on the records that were bound to reach it: a case
  (or the state a blocked case will resume to) that is validated has a risk assessment and a
  validation result, an approved one also a plan, a reliability review, a window, a rollback
  review, a policy decision and an approval, and so on; its priority, plan and window are
  attached, and only a blocked case remembers a state to resume, which is never blocked or
  terminal.\<close>

theorem stages_rest_on_records:
  assumes "history c es"
  shows "(\<forall>k \<in> set (stage_records (effective_state c)). dict_has (rc_record_ids c) k) \<and>
    (stage_rank (effective_state c) \<ge> 1 \<longrightarrow> rc_priority c \<noteq> None) \<and>
    (stage_rank (effective_state c) \<ge> 3 \<longrightarrow> rc_change_plan c \<noteq> None) \<and>
    (stage_rank (effective_state c) \<ge> 5 \<longrightarrow> rc_change_window c \<noteq> None) \<and>
    (rc_state c = BLOCKED \<longleftrightarrow> rc_blocked_from c \<noteq> None) \<and>
    effective_state c \<noteq> BLOCKED \<and>
    (rc_state c = BLOCKED \<longrightarrow> effective_state c \<notin> set terminal_case_states)"
proof -
  have r: "stage_rank s \<ge> 1 \<Longrightarrow> ''risk_assessment_id'' \<in> set (stage_records s)"
    "stage_rank s \<ge> 3 \<Longrightarrow> ''change_plan_id'' \<in> set (stage_records s)"
    "stage_rank s \<ge> 5 \<Longrightarrow> ''change_window_id'' \<in> set (stage_records s)" for s
    by (cases s; simp)+
  show ?thesis
    using history_inv [OF assms] r [of "effective_state c"]
    unfolding case_inv_def list_all_iff by blast
qed

theorem stages_rest_on_records_witness:
  "dict_has (rc_record_ids (fst (run_result sample_stages))) ''approval_id'' \<and>
   rc_change_plan (fst (run_result sample_stages)) \<noteq> None"
proof -
  let ?c = "fst (run_result sample_stages)"
  have e: "effective_state ?c = APPROVED" by code_simp
  from stages_rest_on_records [OF run_result_history [OF sample_runs(1)]]
  show ?thesis unfolding e by (simp del: not_None_eq)
qed

section \<open>Findings\<close>

lemma executing_step:
  assumes "transition_target c t a = Inr (s', b')" "case_inv c" "9 \<le> stage_rank (effective_state c)"
  shows "9 \<le> stage_rank (settled s' b')"
proof -
  have eff: "effective_state c = rc_state c" if "rc_state c \<noteq> BLOCKED"
    using case_inv_blocked [OF assms(2) that] by simp
  show ?thesis using assms(1)
  proof (cases rule: transition_target_cases)
    case linear
    then have "rc_state c \<noteq> BLOCKED" by (auto simp: linear_transitions_def)
    with linear assms(3) show ?thesis by (auto simp: eff settled_def linear_transitions_def)
  next
    case reopen
    with assms(3) show ?thesis by (auto simp: eff reopening_states_def)
  next
    case resume
    with assms(3) show ?thesis by (simp add: settled_def effective_state_def)
  next
    case stay
    with assms(3) show ?thesis by (simp add: effective_state_settled)
  qed (use assms(3) in \<open>auto simp: eff settled_def\<close>)
qed

lemma executing_steps:
  assumes "case_steps c es c'" "case_inv c" "9 \<le> stage_rank (effective_state c)"
  shows "9 \<le> stage_rank (effective_state c')"
  using assms
proof (induction rule: case_steps.induct)
  case (step c es c' t a c'' e)
  show ?case
    using executing_step [OF recordedD(2) [OF step.hyps(2)] case_steps_inv [OF step.hyps(1) step.prems(1)]]
      step.IH step.prems by (simp add: effective_state_settled)
qed

text \<open>C4: A case that was never blocked and stands between \<open>validated\<close> and \<open>approved\<close> has
  validated every finding it holds: an \<open>add_finding\<close> of its log is followed by a
  \<open>validate\<close>.\<close>

theorem findings_validated_before_approval:
  assumes "history c (es @ e # fs)" "ev_transition e = ADD_FINDING"
    and "BLOCK \<notin> set (map ev_transition (es @ e # fs))" "rc_state c \<in> set reopening_states"
  shows "VALIDATE \<in> set (map ev_transition fs)"
proof -
  obtain c1 where h1: "history c1 (es @ [e])" and s: "case_steps c1 fs c"
    using history_split [of c "es @ [e]" fs] assms(1) by auto
  obtain c0 t a where h0: "history c0 es" and tr: "recorded c0 t a c1 e"
    using h1 by (rule history_snoc)
  have never: "\<not> (rc_state c' = BLOCKED)" if "history c' xs" "BLOCK \<notin> set (map ev_transition xs)" for c' xs
    using that
  proof (induction rule: history_induct)
    case (opened c)
    then show ?case using history_Nil by simp
  next
    case (transition c xs t a c' e)
    note D = recordedD [OF transition(2)]
    from D(2) show ?case
      using transition.prems transition(3) D(12) by (cases rule: transition_target_cases)
        (auto simp: linear_transitions_def reopening_states_def)
  qed
  have nb: "rc_state c0 \<noteq> BLOCKED" using never [OF h0] assms(3) by simp
  have t: "t = ADD_FINDING" using recordedD(12) [OF tr] assms(2) by simp
  have inv0: "case_inv c0" and inv1: "case_inv c1" using h0 h1 history_inv by blast+
  have eff: "effective_state c0 = rc_state c0" using case_inv_blocked [OF inv0 nb] by simp
  have effc: "effective_state c = rc_state c"
    using case_inv_blocked [OF history_inv [OF assms(1)]] assms(4) by (auto simp: reopening_states_def)
  have low: "stage_rank (rc_state c) < 9" "2 \<le> stage_rank (rc_state c)"
    using assms(4) by (auto simp: reopening_states_def)
  from recordedD(2) [OF tr]
  have "stage_rank (effective_state c1) < 2 \<or> 9 \<le> stage_rank (effective_state c1)"
    unfolding effective_state_settled t
  proof (cases rule: transition_target_cases)
    case stay
    with nb recordedD(1) [OF tr] show
      "stage_rank (settled (rc_state c1) (rc_blocked_from c1)) < 2 \<or>
       9 \<le> stage_rank (settled (rc_state c1) (rc_blocked_from c1))"
      using eff unfolding effective_state_settled
      by (cases "rc_state c0") (auto simp: reopened_def reopening_states_def rc_terminal_def terminal_case_states_def)
  qed (auto simp: settled_def linear_transitions_def)
  then show ?thesis
  proof
    assume "9 \<le> stage_rank (effective_state c1)"
    with executing_steps [OF s inv1] effc low show ?thesis by simp
  next
    assume r: "stage_rank (effective_state c1) < 2"
    have "VALIDATE \<in> set (drop (stage_rank (effective_state c1))
                            (take (stage_rank (effective_state c)) lifecycle_stages))"
    proof -
      obtain m where "stage_rank (effective_state c) = Suc (Suc m)"
        using low effc by (metis add_2_eq_Suc le_Suc_ex)
      with r show ?thesis by (auto simp: lifecycle_stages_def less_2_cases_iff)
    qed
    then show ?thesis using case_steps_stages [OF s inv1] by (auto dest: list_emb_set)
  qed
qed

theorem findings_validated_before_approval_witness:
  "VALIDATE \<in> set (map ev_transition (drop 2 (snd (run_result sample_early))))"
proof -
  let ?es = "snd (run_result sample_early)"
  have l: "1 < length ?es" and t: "ev_transition (?es ! 1) = ADD_FINDING"
    and b: "BLOCK \<notin> set (map ev_transition ?es)"
    and r: "rc_state (fst (run_result sample_early)) \<in> set reopening_states"
    by code_simp+
  note es = id_take_nth_drop [OF l]
  have "history (fst (run_result sample_early)) (take 1 ?es @ ?es ! 1 # drop (Suc 1) ?es)"
    using run_result_history [OF sample_runs(4)] es by simp
  moreover have "BLOCK \<notin> set (map ev_transition (take 1 ?es @ ?es ! 1 # drop (Suc 1) ?es))"
    using b es by simp
  ultimately show ?thesis using findings_validated_before_approval [OF _ t _ r]
    by (simp only: numeral_2_eq_2 One_nat_def)
qed

text \<open>C23: The gap in reopening. An \<open>add_finding\<close> that is accepted in one of the states from
  \<open>validated\<close> to \<open>approved\<close> sends the case back to \<open>prioritized\<close>, without its plan and window and
  without the validation, review, policy and approval records that the call does not bring along.
  Accepted for a case that was blocked in such a state, it does not: the next \<open>resume\<close> puts the case
  into that same state, with the added findings, and every record it was bound to is still there,
  so that an approved case is approved again with findings that no validation has seen.\<close>

theorem resumed_case_skips_validation:
  assumes b: "rc_state c = BLOCKED" "rc_blocked_from c = Some s" and s: "s \<in> set reopening_states"
    and add: "transition_case c ADD_FINDING a = Inr (c1, e1)"
    and resume: "transition_case c1 RESUME b = Inr (c2, e2)"
  shows "additions c a \<noteq> [] \<and> rc_finding_ids c2 = rc_finding_ids c @ additions c a \<and>
    rc_state c2 = s \<and> rc_blocked_from c2 = None \<and>
    (rc_change_plan c \<noteq> None \<longrightarrow> rc_change_plan c2 = rc_change_plan c) \<and>
    (\<forall>k. dict_has (rc_record_ids c) k \<longrightarrow> dict_has (rc_record_ids c2) k) \<and>
    (\<exists>d e. transition_case (c\<lparr>rc_state := s, rc_blocked_from := None\<rparr>) ADD_FINDING a = Inr (d, e) \<and>
       rc_state d = PRIORITIZED \<and> rc_change_plan d = None \<and> rc_change_window d = None \<and>
       rc_finding_ids d = rc_finding_ids c2 \<and>
       (\<forall>k \<in> {''validation_result_id'', ''change_plan_id'', ''policy_decision_id'', ''approval_id''}.
          dict_has (rc_record_ids d) k \<longrightarrow> k \<in> fst ` set (ta_record_ids a)))"
proof -
  let ?c = "c\<lparr>rc_state := s, rc_blocked_from := None\<rparr>"
  note A = transition_caseD [OF add] and R = transition_caseD [OF resume]
  have new: "additions c a \<noteq> []" and nr: "\<not> reopened c ADD_FINDING"
    and c1: "rc_state c1 = BLOCKED" "rc_blocked_from c1 = Some s"
    using A(4) b by (auto simp: reopened_def reopening_states_def res_simps)
  have c2: "rc_state c2 = s" "rc_blocked_from c2 = None" using R(4) c1 by (auto simp: res_simps)
  have re: "reopened ?c ADD_FINDING" and open_c: "\<not> rc_terminal ?c"
    using s by (auto simp: reopened_def reopening_states_def rc_terminal_def terminal_case_states_def)
  have "additions ?c a = additions c a" by (simp add: additions_def)
  moreover have "rc_tenant_id c \<noteq> []" "rc_finding_ids c @ additions c a \<noteq> []" using A(30) new by simp_all
  ultimately obtain d e where d: "transition_case ?c ADD_FINDING a = Inr (d, e)"
    using A(2,3,12,29,31) new re open_c
    by (auto simp: transition_case_def mk_case_event_def mk_remediation_case_def guardE_def is_ok_iff
        res_simps A(18,19,23,25,28) split: if_splits)
  note D = transition_caseD [OF d]
  have "dict_has (rc_record_ids d) k \<longrightarrow> k \<in> fst ` set (ta_record_ids a)"
    if "k \<in> {''validation_result_id'', ''change_plan_id'', ''policy_decision_id'', ''approval_id''}" for k
    using that re unfolding D(17) dict_has_merged by (auto simp: dropped_records_def)
  moreover have "rc_state d = PRIORITIZED" "rc_change_plan d = None" "rc_change_window d = None"
    using D(4,15,16) re by (auto simp: res_simps)
  moreover have "rc_finding_ids d = rc_finding_ids c2" "rc_finding_ids c2 = rc_finding_ids c @ additions c a"
    using A(13) R(13) D(13) \<open>additions ?c a = additions c a\<close> by simp_all
  moreover have "dict_has (rc_record_ids c2) k" if "dict_has (rc_record_ids c) k" for k
    using that nr unfolding A(17) R(17) dict_has_merged
    by (simp add: dropped_records_def reopened_def A(17) dict_has_merged)
  moreover have "rc_change_plan c \<noteq> None \<longrightarrow> rc_change_plan c2 = rc_change_plan c"
    using A(3,15) R(3,15) nr by (auto simp: check_attachments_def or_else_def reopened_def guardE_def split: if_splits)
  ultimately show ?thesis using new c2 d by blast
qed

text \<open>A case that was blocked when it had been approved.\<close>

theorem resumed_case_skips_validation_witness:
  "\<exists>c1 e1 c2 e2. transition_case (fst (run_result (sample_stages @ take 1 sample_blocked))) ADD_FINDING
       (snd sample_addition) = Inr (c1, e1) \<and>
     transition_case c1 RESUME (sample_args ''incident_id'') = Inr (c2, e2) \<and>
     rc_state c2 = APPROVED \<and> ''f2'' \<in> set (rc_finding_ids c2) \<and>
     dict_has (rc_record_ids c2) ''approval_id''"
proof -
  let ?c = "fst (run_result (sample_stages @ take 1 sample_blocked))"
  have c: "rc_state ?c = BLOCKED" "rc_blocked_from ?c = Some APPROVED" "APPROVED \<in> set reopening_states"
    "dict_has (rc_record_ids ?c) ''approval_id''" "''f2'' \<in> set (additions ?c (snd sample_addition))"
    by code_simp+
  have "case transition_case ?c ADD_FINDING (snd sample_addition) of Inl _ \<Rightarrow> False
    | Inr (c1, _) \<Rightarrow> is_ok (transition_case c1 RESUME (sample_args ''incident_id''))" by code_simp
  then obtain c1 e1 c2 e2 where t: "transition_case ?c ADD_FINDING (snd sample_addition) = Inr (c1, e1)"
    "transition_case c1 RESUME (sample_args ''incident_id'') = Inr (c2, e2)"
    by (auto simp: is_ok_iff split: sum.splits)
  from resumed_case_skips_validation [OF c(1-3) t] c(4,5) t show ?thesis by auto
qed

end
