(* ===== verification/Store_Properties.thy ===== *)
theory Store_Properties
  imports Case_Store Case_Properties
begin

text \<open>
  The properties of the case stores and of the coordinators that share them.
\<close>

section \<open>Interleaved coordinators\<close>

text \<open>C14: Whatever coordinators do with a durable case store, interleaved in any way between
  their reads and their writes, every case it holds satisfies its checks, is filed under its
  own id, and comes with a log that is a history of exactly this case: no update is lost, and
  none is applied to another version than the one it was computed from.\<close>

theorem sqlite_log_is_history:
  assumes "interleaved sql_ops sql_empty db ps"
    and "sql_view db i = Some (c, es)"
  shows "history c es \<and> rc_case_id c = i \<and> case_ok c"
proof -
  have "sql_view sql_empty = Map.empty" "sql_ok sql_empty"
    by (auto simp: fun_eq_iff sql_view_def sql_empty_def sql_ok_def case_event_rows_def)
  from sql.interleaved_keeps [OF assms(1) this(2,1)] assms(2) show ?thesis
    unfolding logged_def by blast
qed

text \<open>C15: At any time at most one case of a tenant that is not terminal covers an asset, with any
  number of coordinators opening and advancing cases at once.\<close>

theorem sqlite_one_active_case:
  assumes "interleaved sql_ops sql_empty db ps"
    and "sql_view db i = Some (c, es)" "sql_view db j = Some (d, fs)"
    and "rc_tenant_id c = rc_tenant_id d" "\<not> rc_terminal c" "\<not> rc_terminal d" "share_asset c d"
  shows "i = j"
proof -
  have "sql_view sql_empty = Map.empty" "sql_ok sql_empty"
    by (auto simp: fun_eq_iff sql_view_def sql_empty_def sql_ok_def case_event_rows_def)
  from sql.interleaved_keeps [OF assms(1) this(2,1)] assms(2-) show ?thesis
    unfolding one_active_def by blast
qed

text \<open>A write to the durable store that was computed from another version of the case than the
  stored one raises and leaves the tables as they were.\<close>

theorem sqlite_stale_write_refused:
  assumes "sql_ok db" "sql_view db (rc_case_id c) = Some (d, es)" "rc_version d \<noteq> v"
  shows "snd (sql_append c e v db) = db \<and> \<not> is_ok (fst (sql_append c e v db))"
  using sql.stale_write_refused [OF assms, of e "fst (sql_append c e v db)" "snd (sql_append c e v db)"]
  by (simp add: sql_ops_def)

section \<open>A concrete store\<close>

definition sample_open :: "string \<Rightarrow> open_args" where
  "sample_open i = \<lparr> oa_case_id = i, oa_tenant_id = ''t'', oa_finding_ids = [''f''],
     oa_asset_ids = [''a''], oa_service_ids = [], oa_now = ''2026-01-01T00:00:00Z'' \<rparr>"

definition sample_prioritize :: transition_args where
  "sample_prioritize = (sample_args ''risk_assessment_id'')\<lparr>ta_priority := Some sample_risk\<rparr>"

definition sample_db :: sql_cases where
  "sample_db = snd (workflow_advance sql_ops ''c1'' PRIORITIZE sample_prioritize
                     (snd (workflow_open sql_ops (sample_open ''c1'') sql_empty)))"

lemma sample_db_reached: "interleaved sql_ops sql_empty sample_db []"
proof -
  let ?db = "snd (workflow_open sql_ops (sample_open ''c1'') sql_empty)"
  have o: "interleaved sql_ops sql_empty ?db []"
    by (rule interleaved.opened [OF interleaved.start]) (rule surjective_pairing)
  have "is_ok (fst (workflow_advance sql_ops ''c1'' PRIORITIZE sample_prioritize ?db))"
    by code_simp
  then obtain c where "workflow_advance sql_ops ''c1'' PRIORITIZE sample_prioritize ?db = (Inr c, sample_db)"
    unfolding sample_db_def is_ok_iff by (metis prod.collapse)
  moreover have "args_ok sample_prioritize"
    by (simp add: args_ok_def sample_prioritize_def sample_args_def basic_args_def sample_risk_def
        mk_risk_assessment_def)
  ultimately show ?thesis using advance_interleaved [OF o] by blast
qed

theorem sqlite_log_is_history_witness:
  "\<exists>c es. sql_view sample_db ''c1'' = Some (c, es) \<and> history c es \<and> length es = 1"
proof -
  have "length (snd (the (sql_view sample_db ''c1''))) = 1" "sql_view sample_db ''c1'' \<noteq> None"
    by code_simp+
  then obtain c es where v: "sql_view sample_db ''c1'' = Some (c, es)" "length es = 1" by auto
  with sqlite_log_is_history [OF sample_db_reached v(1)] show ?thesis by blast
qed

theorem sqlite_one_active_case_witness:
  "\<exists>c es. sql_view sample_db ''c1'' = Some (c, es) \<and> (\<forall>j d fs. sql_view sample_db j = Some (d, fs) \<longrightarrow>
     rc_tenant_id d = ''t'' \<longrightarrow> \<not> rc_terminal d \<longrightarrow> ''a'' \<in> set (rc_asset_ids d) \<longrightarrow> ''c1'' = j)"
proof -
  have "\<not> rc_terminal (fst (the (sql_view sample_db ''c1'')))"
    "rc_tenant_id (fst (the (sql_view sample_db ''c1''))) = ''t''"
    "rc_asset_ids (fst (the (sql_view sample_db ''c1''))) = [''a'']"
    "sql_view sample_db ''c1'' \<noteq> None"
    by code_simp+
  then obtain c es where v: "sql_view sample_db ''c1'' = Some (c, es)" "\<not> rc_terminal c"
    "rc_tenant_id c = ''t''" "rc_asset_ids c = [''a'']" by auto
  have "''c1'' = j" if "sql_view sample_db j = Some (d, fs)" "rc_tenant_id d = ''t''" "\<not> rc_terminal d"
    "''a'' \<in> set (rc_asset_ids d)" for j d fs
    by (rule sqlite_one_active_case [OF sample_db_reached v(1) that(1)])
      (use that v in \<open>simp_all add: share_asset_def\<close>)
  with v show ?thesis by blast
qed

theorem sqlite_stale_write_refused_witness:
  "\<forall>e. snd (sql_append (sample_case\<lparr>rc_case_id := ''c1''\<rparr>) e 0 sample_db) = sample_db"
proof -
  have "sql_ok sample_db"
    using sql.interleaved_keeps [OF sample_db_reached]
    by (auto simp: fun_eq_iff sql_view_def sql_empty_def sql_ok_def case_event_rows_def)
  moreover have "rc_version (fst (the (sql_view sample_db ''c1''))) \<noteq> 0" "sql_view sample_db ''c1'' \<noteq> None"
    by code_simp+
  then obtain d es where "sql_view sample_db ''c1'' = Some (d, es)" "rc_version d \<noteq> 0" by auto
  ultimately show ?thesis
    using sqlite_stale_write_refused [of sample_db "sample_case\<lparr>rc_case_id := ''c1''\<rparr>" d es 0] by simp
qed

end
