(* ===== verification/Records.thy ===== *)
theory Records
  imports Json Sql
begin

text \<open>
  \<open>src/elcapitan/product_records.py\<close>: the immutable typed records that the stages of the workflow
  emit, and their SQLite store. Freezing turns lists into tuples and dictionaries into read-only
  views and thawing turns them back; \<open>PList\<close> and \<open>PDict\<close> stand for both forms. The protocol
  \<open>ProductRecordStore\<close> is the record of its operations and its contract a locale.
\<close>

section \<open>Records\<close>

record product_record =
  pr_record_id :: string
  pr_case_id :: string
  pr_record_type :: string
  pr_schema_version :: int
  pr_created_at :: string
  pr_body :: pyval
  pr_evidence_ids :: "string list"

definition mk_product_record :: "product_record \<Rightarrow> product_record res" where
  "mk_product_record r =
     bindE (guardE (pr_record_id r \<noteq> [] \<and> pr_case_id r \<noteq> [] \<and> pr_record_type r \<noteq> []) ValueError
              ''product record requires record, case, and type ids'') (\<lambda>_.
     bindE (guardE (1 \<le> pr_schema_version r) ValueError
              ''product record schema version must be positive'') (\<lambda>_.
     Inr r))"

definition product_record_to_dict :: "product_record \<Rightarrow> pyval" where
  "product_record_to_dict r = PDict
     [(''record_id'', PStr (pr_record_id r)), (''case_id'', PStr (pr_case_id r)),
      (''record_type'', PStr (pr_record_type r)),
      (''schema_version'', PInt (pr_schema_version r)),
      (''created_at'', PStr (pr_created_at r)), (''body'', pr_body r),
      (''evidence_ids'', str_list (pr_evidence_ids r))]"

section \<open>The store\<close>

record 's record_store_ops =
  rs_put :: "product_record \<Rightarrow> ('s, unit) prog"
  rs_get :: "string \<Rightarrow> ('s, product_record) prog"
  rs_list :: "string \<Rightarrow> string option \<Rightarrow> ('s, product_record list) prog"

text \<open>A row keeps the columns; \<open>body\<close> and \<open>evidence_ids\<close> are JSON text.\<close>

record product_row =
  pw_record_id :: string
  pw_case_id :: string
  pw_record_type :: string
  pw_schema_version :: int
  pw_created_at :: string
  pw_body :: pyval
  pw_evidence_ids :: pyval

definition record_row :: "product_record \<Rightarrow> product_row" where
  "record_row r = \<lparr> pw_record_id = pr_record_id r, pw_case_id = pr_case_id r,
     pw_record_type = pr_record_type r, pw_schema_version = pr_schema_version r,
     pw_created_at = pr_created_at r, pw_body = canon (pr_body r),
     pw_evidence_ids = canon (str_list (pr_evidence_ids r)) \<rparr>"

definition record_from_row :: "product_row \<Rightarrow> product_record res" where
  "record_from_row w =
     bindE (need_strs (pw_evidence_ids w)) (\<lambda>evidence_ids.
     mk_product_record
       \<lparr> pr_record_id = pw_record_id w, pr_case_id = pw_case_id w,
         pr_record_type = pw_record_type w, pr_schema_version = pw_schema_version w,
         pr_created_at = pw_created_at w, pr_body = pw_body w,
         pr_evidence_ids = evidence_ids \<rparr>)"

definition sql_record_put :: "product_record \<Rightarrow> (product_row list, unit) prog" where
  "sql_record_put r =
     tryM (transaction (sql_insert (\<lambda>w w'. pw_record_id w = pw_record_id w') (record_row r)))
       [IntegrityError] (\<lambda>_. raise DuplicateProductRecord (pr_record_id r))"

definition sql_record_get :: "string \<Rightarrow> (product_row list, product_record) prog" where
  "sql_record_get i =
     bindM (getsM (find (\<lambda>w. pw_record_id w = i))) (\<lambda>row.
     case row of None \<Rightarrow> raise ProductRecordNotFound i | Some w \<Rightarrow> liftE (record_from_row w))"

definition sql_record_list ::
  "string \<Rightarrow> string option \<Rightarrow> (product_row list, product_record list) prog" where
  "sql_record_list case_id record_type =
     bindM (getsM (\<lambda>rows. sort_key (\<lambda>w. (pw_created_at w, pw_record_id w))
              (filter (\<lambda>w. pw_case_id w = case_id \<and>
                           (case record_type of None \<Rightarrow> True | Some t \<Rightarrow> pw_record_type w = t)) rows)))
       (\<lambda>rows. liftE (mapE record_from_row rows))"

definition sql_record_ops :: "product_row list record_store_ops" where
  "sql_record_ops =
     \<lparr> rs_put = sql_record_put, rs_get = sql_record_get, rs_list = sql_record_list \<rparr>"

section \<open>The contract\<close>

text \<open>A record as it is read back: the keys of its body in order.\<close>

definition json_record :: "product_record \<Rightarrow> product_record" where
  "json_record r = r\<lparr>pr_body := canon (pr_body r)\<rparr>"

locale record_store_contract =
  fixes ops :: "'s record_store_ops"
    and view :: "'s \<Rightarrow> string \<Rightarrow> product_record option"
    and ok :: "'s \<Rightarrow> bool"
  assumes get_law: "ok s \<Longrightarrow> rs_get ops i s =
      ((case view s i of None \<Rightarrow> Inl (Raise ProductRecordNotFound i) | Some r \<Rightarrow> Inr r), s)"
    and put_law: "ok s \<Longrightarrow> is_ok (mk_product_record r) \<Longrightarrow> rs_put ops r s =
      (if view s (pr_record_id r) = None then (Inr (), snd (rs_put ops r s))
       else (Inl (Raise DuplicateProductRecord (pr_record_id r)), s))"
    and put_view: "ok s \<Longrightarrow> is_ok (mk_product_record r) \<Longrightarrow> view s (pr_record_id r) = None \<Longrightarrow>
      ok (snd (rs_put ops r s)) \<and>
      view (snd (rs_put ops r s)) = (view s)(pr_record_id r \<mapsto> json_record r)"
    and list_law: "ok s \<Longrightarrow> \<exists>rs. rs_list ops i t s = (Inr rs, s) \<and>
      set rs = {r. view s (pr_record_id r) = Some r \<and> pr_case_id r = i \<and>
                   (t \<noteq> None \<longrightarrow> pr_record_type r = the t)}"

text \<open>Records are immutable: nothing that happens to the store changes or removes one.\<close>

inductive records_reach :: "'s record_store_ops \<Rightarrow> 's \<Rightarrow> 's \<Rightarrow> bool" for ops where
  refl: "records_reach ops s s"
| put: "records_reach ops s s' \<Longrightarrow> is_ok (mk_product_record r) \<Longrightarrow>
     records_reach ops s (snd (rs_put ops r s'))"

context record_store_contract
begin

lemma put_keeps:
  assumes "ok s" "is_ok (mk_product_record r)"
  shows "ok (snd (rs_put ops r s)) \<and> view s \<subseteq>\<^sub>m view (snd (rs_put ops r s))"
proof (cases "view s (pr_record_id r)")
  case None
  then show ?thesis using put_view [OF assms None] by (auto simp: map_le_def dom_def)
next
  case (Some x)
  then have "rs_put ops r s = (Inl (Raise DuplicateProductRecord (pr_record_id r)), s)"
    using put_law [OF assms] by simp
  then show ?thesis using assms(1) by simp
qed

lemma records_immutable:
  "records_reach ops s s' \<Longrightarrow> ok s \<Longrightarrow> ok s' \<and> view s \<subseteq>\<^sub>m view s'"
  by (induction rule: records_reach.induct) (auto dest: put_keeps intro: map_le_trans)

end

section \<open>The SQLite store keeps the contract\<close>

definition sql_record_ok :: "product_row list \<Rightarrow> bool" where
  "sql_record_ok rows =
     (distinct (map pw_record_id rows) \<and> (\<forall>w \<in> set rows. is_ok (record_from_row w)))"

definition sql_record_view :: "product_row list \<Rightarrow> string \<Rightarrow> product_record option" where
  "sql_record_view rows i =
     (case find (\<lambda>w. pw_record_id w = i) rows of None \<Rightarrow> None
      | Some w \<Rightarrow> (case record_from_row w of Inl _ \<Rightarrow> None | Inr r \<Rightarrow> Some r))"

lemma record_from_own_row:
  "is_ok (mk_product_record r) \<Longrightarrow> record_from_row (record_row r) = Inr (json_record r)"
  by (auto simp: record_from_row_def record_row_def mk_product_record_def json_record_def is_ok_iff
      res_simps)

lemma record_from_row_fields:
  "record_from_row w = Inr r \<Longrightarrow> pr_record_id r = pw_record_id w \<and> pr_case_id r = pw_case_id w \<and>
     pr_record_type r = pw_record_type w \<and> pr_created_at r = pw_created_at w"
  by (auto simp: record_from_row_def mk_product_record_def res_simps)

lemma sql_record_find:
  assumes "sql_record_ok rows" "find (\<lambda>w. pw_record_id w = i) rows = Some w"
  obtains r where "record_from_row w = Inr r" "sql_record_view rows i = Some r"
  using assms find_Some_in [OF assms(2)]
  by (auto simp: sql_record_ok_def sql_record_view_def is_ok_iff)

lemma sql_record_view_row:
  assumes "sql_record_ok rows"
  shows "sql_record_view rows i = Some r \<longleftrightarrow>
    (\<exists>w \<in> set rows. record_from_row w = Inr r \<and> pw_record_id w = i)"
proof
  assume "sql_record_view rows i = Some r"
  then show "\<exists>w \<in> set rows. record_from_row w = Inr r \<and> pw_record_id w = i"
    by (auto simp: sql_record_view_def dest!: find_Some_in split: option.splits sum.splits)
next
  assume "\<exists>w \<in> set rows. record_from_row w = Inr r \<and> pw_record_id w = i"
  then obtain w where w: "w \<in> set rows" "record_from_row w = Inr r" "pw_record_id w = i" by blast
  have "find (\<lambda>x. pw_record_id x = i) rows = Some w"
    using find_distinct [of pw_record_id rows w] assms w by (simp add: sql_record_ok_def)
  then show "sql_record_view rows i = Some r" using w by (simp add: sql_record_view_def)
qed

lemma sql_record_view_None:
  assumes "sql_record_ok rows"
  shows "sql_record_view rows i = None \<longleftrightarrow> (\<forall>w \<in> set rows. pw_record_id w \<noteq> i)"
proof (cases "find (\<lambda>w. pw_record_id w = i) rows")
  case None
  then show ?thesis by (simp add: sql_record_view_def) (auto simp: find_None_iff)
next
  case (Some w)
  then obtain r where "sql_record_view rows i = Some r" by (rule sql_record_find [OF assms])
  then show ?thesis using find_Some_in [OF Some] by auto
qed

lemma sql_record_put_run:
  "sql_record_put r rows =
     (if list_ex (\<lambda>w. pr_record_id r = pw_record_id w) rows
      then (Inl (Raise DuplicateProductRecord (pr_record_id r)), rows)
      else (Inr (), rows @ [record_row r]))"
  by (simp add: sql_record_put_def transaction_def sql_insert_def tryM_def raise_def record_row_def
      exn_isa_def)

lemma mapE_all: "list_all (\<lambda>x. is_ok (f x)) xs \<Longrightarrow> \<exists>ys. mapE f xs = Inr ys \<and> set ys = {y. \<exists>x \<in> set xs. f x = Inr y}"
proof (induction xs)
  case (Cons x xs)
  then show ?case by (cases "f x") auto
qed simp

interpretation sql_record: record_store_contract sql_record_ops sql_record_view sql_record_ok
proof
  fix s i assume ok: "sql_record_ok s"
  show "rs_get sql_record_ops i s =
      ((case sql_record_view s i of None \<Rightarrow> Inl (Raise ProductRecordNotFound i) | Some r \<Rightarrow> Inr r), s)"
  proof (cases "find (\<lambda>w. pw_record_id w = i) s")
    case None
    then show ?thesis by (simp add: sql_record_ops_def sql_record_get_def sql_record_view_def run_defs)
  next
    case (Some w)
    then obtain r where "record_from_row w = Inr r" "sql_record_view s i = Some r"
      by (rule sql_record_find [OF ok])
    with Some show ?thesis by (simp add: sql_record_ops_def sql_record_get_def run_defs)
  qed
next
  fix s r assume ok: "sql_record_ok s" and r: "is_ok (mk_product_record r)"
  have ex: "list_ex (\<lambda>w. pr_record_id r = pw_record_id w) s \<longleftrightarrow> sql_record_view s (pr_record_id r) \<noteq> None"
    using sql_record_view_None [OF ok, of "pr_record_id r"] by (simp add: list_ex_iff) metis
  show "rs_put sql_record_ops r s =
      (if sql_record_view s (pr_record_id r) = None then (Inr (), snd (rs_put sql_record_ops r s))
       else (Inl (Raise DuplicateProductRecord (pr_record_id r)), s))"
    using ex by (simp add: sql_record_ops_def sql_record_put_run)
  assume none: "sql_record_view s (pr_record_id r) = None"
  have put: "snd (rs_put sql_record_ops r s) = s @ [record_row r]"
    using ex none by (simp add: sql_record_ops_def sql_record_put_run)
  have id: "pw_record_id (record_row r) = pr_record_id r" by (simp add: record_row_def)
  have "sql_record_ok (s @ [record_row r])"
    using ok sql_record_view_None [OF ok, of "pr_record_id r"] none record_from_own_row [OF r] id
    by (auto simp: sql_record_ok_def)
  moreover have "find (\<lambda>w. pw_record_id w = pr_record_id r) s = None"
    using sql_record_view_None [OF ok] none by (auto simp: find_None_iff)
  then have "sql_record_view (s @ [record_row r]) i =
      ((sql_record_view s)(pr_record_id r \<mapsto> json_record r)) i" for i
    using record_from_own_row [OF r] id
    by (auto simp: sql_record_view_def find_append split: option.splits)
  ultimately show "sql_record_ok (snd (rs_put sql_record_ops r s)) \<and>
      sql_record_view (snd (rs_put sql_record_ops r s)) =
      (sql_record_view s)(pr_record_id r \<mapsto> json_record r)"
    unfolding put by (auto intro: ext)
next
  fix s i t assume ok: "sql_record_ok s"
  let ?P = "\<lambda>w. pw_case_id w = i \<and> (case t of None \<Rightarrow> True | Some t \<Rightarrow> pw_record_type w = t)"
  let ?rows = "sort_key (\<lambda>w. (pw_created_at w, pw_record_id w)) (filter ?P s)"
  have "list_all (\<lambda>w. is_ok (record_from_row w)) ?rows"
    using ok by (auto simp: sql_record_ok_def list_all_iff)
  from mapE_all [OF this] obtain rs where rs: "mapE record_from_row ?rows = Inr rs"
    "set rs = {r. \<exists>w \<in> set ?rows. record_from_row w = Inr r}" by blast
  have "(\<exists>w \<in> set ?rows. record_from_row w = Inr r) \<longleftrightarrow>
      sql_record_view s (pr_record_id r) = Some r \<and> pr_case_id r = i \<and> (t \<noteq> None \<longrightarrow> pr_record_type r = the t)" for r
    unfolding sql_record_view_row [OF ok]
    using record_from_row_fields [of _ r] by (fastforce split: option.splits)
  with rs show "\<exists>rs. rs_list sql_record_ops i t s = (Inr rs, s) \<and>
      set rs = {r. sql_record_view s (pr_record_id r) = Some r \<and> pr_case_id r = i \<and>
                   (t \<noteq> None \<longrightarrow> pr_record_type r = the t)}"
    by (simp add: sql_record_ops_def sql_record_list_def run_defs)
qed

section \<open>Properties\<close>

text \<open>A product record is immutable: once the store holds it, it reads back the same after any
  number of further writes, a write that reuses its id raises \<open>DuplicateProductRecord\<close>, and
  the record that reads back is the one that was written, with the keys of its body in order.\<close>

theorem product_records_immutable:
  assumes "is_ok (mk_product_record r)" "records_reach sql_record_ops [] s"
    and "fst (sql_record_put r s) = Inr ()"
    and "records_reach sql_record_ops (snd (sql_record_put r s)) s'"
  shows "fst (sql_record_get (pr_record_id r) s') = Inr (json_record r) \<and>
    sql_record_put r s' = (Inl (Raise DuplicateProductRecord (pr_record_id r)), s')"
proof -
  have put: "rs_put sql_record_ops = sql_record_put" and get: "rs_get sql_record_ops = sql_record_get"
    by (simp_all add: sql_record_ops_def)
  have "sql_record_ok []" by (simp add: sql_record_ok_def)
  with sql_record.records_immutable [OF assms(2)] have ok: "sql_record_ok s" by blast
  have none: "sql_record_view s (pr_record_id r) = None"
    using sql_record.put_law [OF ok assms(1)] assms(3) unfolding put by (auto split: if_splits)
  note v = sql_record.put_view [OF ok assms(1) none, unfolded put]
  with sql_record.records_immutable [OF assms(4)] have ok': "sql_record_ok s'"
    and le: "sql_record_view (snd (sql_record_put r s)) \<subseteq>\<^sub>m sql_record_view s'" by blast+
  then have "sql_record_view s' (pr_record_id r) = Some (json_record r)"
    using v by (auto simp: map_le_def)
  with sql_record.get_law [OF ok'] sql_record.put_law [OF ok' assms(1)] show ?thesis
    unfolding put get by simp
qed

definition sample_record :: product_record where
  "sample_record = \<lparr> pr_record_id = ''r1'', pr_case_id = ''c'', pr_record_type = ''T.v1'',
     pr_schema_version = 1, pr_created_at = ''2026-01-01T00:00:00Z'',
     pr_body = PDict [(''b'', PInt 1), (''a'', PBool True)], pr_evidence_ids = [] \<rparr>"

theorem product_records_immutable_witness:
  "fst (sql_record_get ''r1'' (snd (sql_record_put sample_record []))) = Inr (json_record sample_record)"
proof -
  have "is_ok (mk_product_record sample_record)" "fst (sql_record_put sample_record []) = Inr ()"
    by (simp_all add: mk_product_record_def sample_record_def sql_record_put_run)
  from product_records_immutable [OF this(1) records_reach.refl this(2) records_reach.refl]
  show ?thesis by (simp add: sample_record_def)
qed

end
