(* ===== verification/Priority.thy ===== *)
theory Priority
  imports Case_Documents
begin

text \<open>
  \<open>src/elcapitan/priority.py\<close>: the deterministic first-pass priority of a case.
\<close>

section \<open>Signals and policy\<close>

record priority_signals =
  ps_severity :: string
  ps_asset_criticality :: rat
  ps_exploit_probability :: rat
  ps_internet_exposed :: bool
  ps_reachable :: bool
  ps_known_exploited :: bool
  ps_active_exploitation :: bool
  ps_runtime_dependency :: bool
  ps_compensating_control_strength :: rat
  ps_evidence_ids :: "string list"

definition unit_interval :: "rat \<Rightarrow> bool" where
  "unit_interval x = (0 \<le> x \<and> x \<le> 1)"

definition mk_priority_signals :: "priority_signals \<Rightarrow> priority_signals res" where
  "mk_priority_signals s =
     bindE (foldE (\<lambda>(name, value) _. guardE (unit_interval value) ValueError
                     (name @ '' must be between 0 and 1''))
              [(''asset_criticality'', ps_asset_criticality s),
               (''exploit_probability'', ps_exploit_probability s),
               (''compensating_control_strength'', ps_compensating_control_strength s)] ())
       (\<lambda>_. Inr s)"

record priority_policy =
  pp_severity_weights :: "(string, rat) dict"
  pp_asset_criticality_weight :: rat
  pp_exploit_probability_weight :: rat
  pp_internet_exposed_weight :: rat
  pp_reachable_weight :: rat
  pp_known_exploited_weight :: rat
  pp_active_exploitation_weight :: rat
  pp_runtime_dependency_weight :: rat
  pp_compensating_control_weight :: rat
  pp_urgent_threshold :: rat
  pp_high_threshold :: rat
  pp_normal_threshold :: rat

definition mk_priority_policy :: "priority_policy \<Rightarrow> priority_policy res" where
  "mk_priority_policy p =
     bindE (guardE (0 \<le> pp_normal_threshold p \<and> pp_normal_threshold p \<le> pp_high_threshold p \<and>
                    pp_high_threshold p \<le> pp_urgent_threshold p \<and> pp_urgent_threshold p \<le> 100)
              ValueError ''priority thresholds must be ordered between 0 and 100'')
       (\<lambda>_. Inr (p\<lparr>pp_severity_weights :=
                      dict_update [] (map (\<lambda>(k, v). (str_lower k, v)) (pp_severity_weights p))\<rparr>))"

definition default_priority_policy :: priority_policy where
  "default_priority_policy = \<lparr>
     pp_severity_weights = [(''critical'', 40), (''high'', 30), (''medium'', 15), (''low'', 5),
                            (''informational'', 0), (''unknown'', 10)],
     pp_asset_criticality_weight = 20, pp_exploit_probability_weight = 20,
     pp_internet_exposed_weight = 10, pp_reachable_weight = 10, pp_known_exploited_weight = 20,
     pp_active_exploitation_weight = 25, pp_runtime_dependency_weight = 10,
     pp_compensating_control_weight = 20, pp_urgent_threshold = 80, pp_high_threshold = 60,
     pp_normal_threshold = 30 \<rparr>"

section \<open>Signals as documents\<close>

definition signals_to_dict :: "priority_signals \<Rightarrow> pyval" where
  "signals_to_dict s = PDict
     [(''severity'', PStr (ps_severity s)),
      (''asset_criticality'', PFloat (ps_asset_criticality s)),
      (''exploit_probability'', PFloat (ps_exploit_probability s)),
      (''internet_exposed'', PBool (ps_internet_exposed s)),
      (''reachable'', PBool (ps_reachable s)),
      (''known_exploited'', PBool (ps_known_exploited s)),
      (''active_exploitation'', PBool (ps_active_exploitation s)),
      (''runtime_dependency'', PBool (ps_runtime_dependency s)),
      (''compensating_control_strength'', PFloat (ps_compensating_control_strength s)),
      (''evidence_ids'', str_list (ps_evidence_ids s))]"

fun need_bool :: "pyval \<Rightarrow> bool res" where
  "need_bool (PBool b) = Inr b"
| "need_bool v = Inl (Raise TypeError ''expected a boolean'')"

definition fld_bool :: "(string, pyval) dict \<Rightarrow> string \<Rightarrow> bool res" where
  "fld_bool d k = bindE (fld d k) need_bool"

definition signals_from_dict :: "pyval \<Rightarrow> priority_signals res" where
  "signals_from_dict document =
     bindE (need_dict document) (\<lambda>d.
     bindE (exact_keys [''severity'', ''asset_criticality'', ''exploit_probability'',
              ''internet_exposed'', ''reachable'', ''known_exploited'', ''active_exploitation'',
              ''runtime_dependency'', ''compensating_control_strength'', ''evidence_ids''] d) (\<lambda>_.
     bindE (fld_str d ''severity'') (\<lambda>severity.
     bindE (fld_num d ''asset_criticality'') (\<lambda>criticality.
     bindE (fld_num d ''exploit_probability'') (\<lambda>probability.
     bindE (fld_bool d ''internet_exposed'') (\<lambda>exposed.
     bindE (fld_bool d ''reachable'') (\<lambda>reachable.
     bindE (fld_bool d ''known_exploited'') (\<lambda>known.
     bindE (fld_bool d ''active_exploitation'') (\<lambda>active.
     bindE (fld_bool d ''runtime_dependency'') (\<lambda>runtime.
     bindE (fld_num d ''compensating_control_strength'') (\<lambda>control.
     bindE (fld_strs d ''evidence_ids'') (\<lambda>evidence.
     mk_priority_signals
       \<lparr> ps_severity = severity, ps_asset_criticality = criticality,
         ps_exploit_probability = probability, ps_internet_exposed = exposed,
         ps_reachable = reachable, ps_known_exploited = known, ps_active_exploitation = active,
         ps_runtime_dependency = runtime, ps_compensating_control_strength = control,
         ps_evidence_ids = evidence \<rparr>))))))))))))"

section \<open>The assessment\<close>

definition severity_score :: "priority_policy \<Rightarrow> string \<Rightarrow> rat" where
  "severity_score p severity =
     (case dict_get (pp_severity_weights p) severity of
        Some w \<Rightarrow> w
      | None \<Rightarrow> (case dict_get (pp_severity_weights p) ''unknown'' of None \<Rightarrow> 0 | Some w \<Rightarrow> w))"

definition contributions :: "priority_signals \<Rightarrow> priority_policy \<Rightarrow> (rat \<times> string) list" where
  "contributions s p =
     [(severity_score p (str_lower (ps_severity s)), ''severity is '' @ str_lower (ps_severity s)),
      (ps_asset_criticality s * pp_asset_criticality_weight p,
       ''asset criticality is '' @ fmt_fixed 2 (ps_asset_criticality s)),
      (ps_exploit_probability s * pp_exploit_probability_weight p,
       ''exploit probability is '' @ fmt_fixed 2 (ps_exploit_probability s)),
      (if ps_internet_exposed s then pp_internet_exposed_weight p else 0,
       ''asset is internet exposed''),
      (if ps_reachable s then pp_reachable_weight p else 0, ''vulnerable path is reachable''),
      (if ps_known_exploited s then pp_known_exploited_weight p else 0,
       ''vulnerability is known to be exploited''),
      (if ps_active_exploitation s then pp_active_exploitation_weight p else 0,
       ''active exploitation is observed''),
      (if ps_runtime_dependency s then pp_runtime_dependency_weight p else 0,
       ''asset has a supplied runtime dependency''),
      (- ps_compensating_control_strength s * pp_compensating_control_weight p,
       ''compensating-control strength is '' @ fmt_fixed 2 (ps_compensating_control_strength s))]"

definition priority_score :: "priority_signals \<Rightarrow> priority_policy \<Rightarrow> rat" where
  "priority_score s p =
     max 0 (min 100 (py_round 2 (sum_list (map fst (contributions s p)))))"

definition urgency_of :: "priority_policy \<Rightarrow> rat \<Rightarrow> string" where
  "urgency_of p score =
     (if pp_urgent_threshold p \<le> score then ''urgent''
      else if pp_high_threshold p \<le> score then ''high''
      else if pp_normal_threshold p \<le> score then ''normal''
      else ''low'')"

definition py_startswith :: "string \<Rightarrow> string \<Rightarrow> bool" where
  "py_startswith pre s = (take (length pre) s = pre)"

definition observables :: "priority_signals \<Rightarrow> bool list" where
  "observables s =
     [str_lower (ps_severity s) \<noteq> ''unknown'', ps_evidence_ids s \<noteq> [],
      0 < ps_exploit_probability s \<or> ps_known_exploited s, 0 < ps_asset_criticality s]"

definition assess_priority ::
  "string \<Rightarrow> priority_signals \<Rightarrow> priority_policy \<Rightarrow> risk_assessment res" where
  "assess_priority assessment_id s p =
     (let score = priority_score s p;
          material = map snd (filter (\<lambda>(value, detail). value \<noteq> 0 \<or>
                       py_startswith ''compensating-control'' detail) (contributions s p));
          obs = observables s;
          confidence = py_round 2 (of_nat (length (filter id obs)) / of_nat (length obs))
      in mk_risk_assessment
           \<lparr> ra_assessment_id = assessment_id, ra_score = score, ra_urgency = urgency_of p score,
             ra_factors = material, ra_confidence = confidence,
             ra_evidence_ids = ps_evidence_ids s \<rparr>)"

section \<open>Facts\<close>

lemma priority_score_bounds: "0 \<le> priority_score s p" "priority_score s p \<le> 100"
  by (simp_all add: priority_score_def)

lemma control_prefix:
  "py_startswith ''compensating-control'' (''compensating-control strength is '' @ x)"
  by (simp add: py_startswith_def)

lemma control_is_material:
  "''compensating-control strength is '' @ fmt_fixed 2 (ps_compensating_control_strength s) \<in>
     set (map snd (filter (\<lambda>(value, detail). value \<noteq> 0 \<or>
       py_startswith ''compensating-control'' detail) (contributions s p)))"
proof -
  have "(- ps_compensating_control_strength s * pp_compensating_control_weight p,
         ''compensating-control strength is '' @ fmt_fixed 2 (ps_compensating_control_strength s))
        \<in> set (contributions s p)"
    unfolding contributions_def by (intro list.set_intros)
  then show ?thesis using control_prefix by force
qed

lemma py_round_quarters:
  "n \<le> 4 \<Longrightarrow> py_round 2 (of_nat n / 4) = of_nat n / 4"
proof -
  assume "n \<le> 4"
  then have "n = 0 \<or> n = 1 \<or> n = 2 \<or> n = 3 \<or> n = 4" by linarith
  then show ?thesis by (elim disjE) (simp_all add: py_round_def round_half_even_def)
qed

text \<open>Signals that are at least as dangerous in every respect.\<close>

definition at_least_as_dangerous :: "priority_policy \<Rightarrow> priority_signals \<Rightarrow> priority_signals \<Rightarrow> bool" where
  "at_least_as_dangerous p s s' =
     (severity_score p (str_lower (ps_severity s)) \<le> severity_score p (str_lower (ps_severity s')) \<and>
      ps_asset_criticality s \<le> ps_asset_criticality s' \<and>
      ps_exploit_probability s \<le> ps_exploit_probability s' \<and>
      (ps_internet_exposed s \<longrightarrow> ps_internet_exposed s') \<and>
      (ps_reachable s \<longrightarrow> ps_reachable s') \<and>
      (ps_known_exploited s \<longrightarrow> ps_known_exploited s') \<and>
      (ps_active_exploitation s \<longrightarrow> ps_active_exploitation s') \<and>
      (ps_runtime_dependency s \<longrightarrow> ps_runtime_dependency s') \<and>
      ps_compensating_control_strength s' \<le> ps_compensating_control_strength s)"

definition weights_nonneg :: "priority_policy \<Rightarrow> bool" where
  "weights_nonneg p =
     (0 \<le> pp_asset_criticality_weight p \<and> 0 \<le> pp_exploit_probability_weight p \<and>
      0 \<le> pp_internet_exposed_weight p \<and> 0 \<le> pp_reachable_weight p \<and>
      0 \<le> pp_known_exploited_weight p \<and> 0 \<le> pp_active_exploitation_weight p \<and>
      0 \<le> pp_runtime_dependency_weight p \<and> 0 \<le> pp_compensating_control_weight p)"

lemma priority_score_mono:
  assumes "weights_nonneg p" "at_least_as_dangerous p s s'"
  shows "priority_score s p \<le> priority_score s' p"
proof -
  have "sum_list (map fst (contributions s p)) \<le> sum_list (map fst (contributions s' p))"
    using assms unfolding contributions_def weights_nonneg_def at_least_as_dangerous_def
      list.map fst_conv sum_list.Cons sum_list.Nil
    by (intro add_mono) (auto intro!: mult_right_mono)
  then show ?thesis unfolding priority_score_def by (intro max.mono min.mono py_round_mono) auto
qed

fun urgency_rank :: "string \<Rightarrow> nat" where
  "urgency_rank u = (if u = ''urgent'' then 3 else if u = ''high'' then 2 else if u = ''normal'' then 1 else 0)"

lemma urgency_mono:
  assumes "is_ok (mk_priority_policy p)" "x \<le> y"
  shows "urgency_rank (urgency_of p x) \<le> urgency_rank (urgency_of p y)"
  using assms by (auto simp: mk_priority_policy_def is_ok_iff res_simps urgency_of_def)

section \<open>Properties\<close>

text \<open>An assessment of any signals under any policy with an id never fails: its score lies
  between 0 and 100, its urgency is the one of its score, its confidence is the share of the
  four observables that were seen, and it always states the strength of the compensating
  controls among its factors.\<close>

theorem assessment_total:
  assumes "assessment_id \<noteq> []"
  shows "\<exists>r. assess_priority assessment_id s p = Inr r \<and> 0 \<le> ra_score r \<and> ra_score r \<le> 100 \<and>
    ra_urgency r = urgency_of p (ra_score r) \<and>
    ra_confidence r = of_nat (length (filter id (observables s))) / 4 \<and>
    ''compensating-control strength is '' @ fmt_fixed 2 (ps_compensating_control_strength s)
      \<in> set (ra_factors r)"
proof -
  have len: "length (observables s) = 4" by (simp add: observables_def)
  have le: "length (filter id (observables s)) \<le> 4" using length_filter_le [of id "observables s"] len by simp
  have conf: "py_round 2 (of_nat (length (filter id (observables s))) / of_nat (length (observables s)))
      = of_nat (length (filter id (observables s))) / 4"
    using py_round_quarters [OF le] by (simp add: len)
  have u: "urgency_of p x \<noteq> []" for x by (simp add: urgency_of_def)
  have b: "(of_nat (length (filter id (observables s))) :: rat) / 4 \<le> 1"
    using le by (simp add: divide_le_eq)
  have b0: "0 \<le> (of_nat (length (filter id (observables s))) :: rat) / 4" by simp
  note m = control_is_material [of s p]
  have ok: "mk_risk_assessment r = Inr r"
    if "0 \<le> ra_score r" "ra_score r \<le> 100" "0 \<le> ra_confidence r" "ra_confidence r \<le> 1"
      "ra_assessment_id r \<noteq> []" "ra_urgency r \<noteq> []" "x \<in> set (ra_factors r)" for r x
  proof -
    have "ra_factors r \<noteq> []" using that(7) by auto
    with that show ?thesis by (simp add: mk_risk_assessment_def)
  qed
  let ?r = "\<lparr> ra_assessment_id = assessment_id, ra_score = priority_score s p,
    ra_urgency = urgency_of p (priority_score s p),
    ra_factors = map snd (filter (\<lambda>(value, detail). value \<noteq> 0 \<or>
      py_startswith ''compensating-control'' detail) (contributions s p)),
    ra_confidence = of_nat (length (filter id (observables s))) / 4,
    ra_evidence_ids = ps_evidence_ids s \<rparr>"
  have "assess_priority assessment_id s p = mk_risk_assessment ?r"
    unfolding assess_priority_def Let_def conf ..
  also have "\<dots> = Inr ?r"
    by (rule ok [of ?r "''compensating-control strength is '' @ fmt_fixed 2 (ps_compensating_control_strength s)"])
      (use assms priority_score_bounds b b0 u m in \<open>simp_all only: risk_assessment.simps simp_thms\<close>)
  finally have "assess_priority assessment_id s p = Inr ?r" .
  then show ?thesis
    by (rule exI [where x = ?r, OF conjI])
      (use priority_score_bounds m in \<open>simp only: risk_assessment.simps simp_thms\<close>)
qed

theorem assessment_total_witness:
  "\<exists>r. assess_priority ''a'' \<lparr> ps_severity = ''High'', ps_asset_criticality = 1,
     ps_exploit_probability = 0, ps_internet_exposed = True, ps_reachable = False,
     ps_known_exploited = False, ps_active_exploitation = False, ps_runtime_dependency = False,
     ps_compensating_control_strength = 0, ps_evidence_ids = [] \<rparr> default_priority_policy = Inr r \<and>
     ra_urgency r = urgency_of default_priority_policy (ra_score r)"
  using assessment_total [of "''a''"] by fast

text \<open>The priority is monotone. Under a policy whose weights are not negative, signals that are
  at least as dangerous in every respect get at least the score, and at least the urgency.\<close>

theorem priority_monotone:
  assumes "is_ok (mk_priority_policy p)" "weights_nonneg p" "at_least_as_dangerous p s s'"
    and "assess_priority i s p = Inr r" "assess_priority i s' p = Inr r'"
  shows "ra_score r \<le> ra_score r' \<and> urgency_rank (ra_urgency r) \<le> urgency_rank (ra_urgency r')"
proof -
  have "ra_score r = priority_score s p" "ra_urgency r = urgency_of p (priority_score s p)"
    "ra_score r' = priority_score s' p" "ra_urgency r' = urgency_of p (priority_score s' p)"
    using assms(4,5) by (auto simp: assess_priority_def Let_def mk_risk_assessment_def res_simps)
  then show ?thesis
    using priority_score_mono [OF assms(2,3)] urgency_mono [OF assms(1)] by simp
qed

definition sample_signals :: "bool \<Rightarrow> priority_signals" where
  "sample_signals exposed = \<lparr> ps_severity = ''High'', ps_asset_criticality = 1 / 2,
     ps_exploit_probability = 1 / 4, ps_internet_exposed = exposed, ps_reachable = exposed,
     ps_known_exploited = False, ps_active_exploitation = False, ps_runtime_dependency = False,
     ps_compensating_control_strength = 0, ps_evidence_ids = [''e''] \<rparr>"

theorem priority_monotone_witness:
  "\<exists>r r'. assess_priority ''a'' (sample_signals False) default_priority_policy = Inr r \<and>
     assess_priority ''a'' (sample_signals True) default_priority_policy = Inr r' \<and>
     ra_score r \<le> ra_score r' \<and> urgency_rank (ra_urgency r) \<le> urgency_rank (ra_urgency r')"
proof -
  have p: "is_ok (mk_priority_policy default_priority_policy)" by code_simp
  have w: "weights_nonneg default_priority_policy"
    by (simp add: weights_nonneg_def default_priority_policy_def)
  have d: "at_least_as_dangerous default_priority_policy (sample_signals False) (sample_signals True)"
    by (simp add: at_least_as_dangerous_def sample_signals_def)
  have "is_ok (assess_priority ''a'' (sample_signals False) default_priority_policy)"
    "is_ok (assess_priority ''a'' (sample_signals True) default_priority_policy)"
    by code_simp+
  then show ?thesis
    unfolding is_ok_iff using priority_monotone [OF p w d] by fast
qed

lemma priority_signals_eta [simp]:
  "\<lparr> ps_severity = ps_severity s, ps_asset_criticality = ps_asset_criticality s,
     ps_exploit_probability = ps_exploit_probability s,
     ps_internet_exposed = ps_internet_exposed s, ps_reachable = ps_reachable s,
     ps_known_exploited = ps_known_exploited s,
     ps_active_exploitation = ps_active_exploitation s,
     ps_runtime_dependency = ps_runtime_dependency s,
     ps_compensating_control_strength = ps_compensating_control_strength s,
     ps_evidence_ids = ps_evidence_ids s \<rparr> = s"
  by (cases s) simp

lemma signals_roundtrip:
  "is_ok (mk_priority_signals s) \<Longrightarrow> signals_from_dict (signals_to_dict s) = Inr s"
  by (simp add: signals_from_dict_def signals_to_dict_def fld_defs fld_bool_def)
    (auto simp: mk_priority_signals_def is_ok_iff res_simps)

end
