(* ===== verification/Findings.thy ===== *)
theory Findings
  imports Priority Json Sql
begin

text \<open>
  \<open>src/elcapitan/finding_store.py\<close>: the durable store of normalised findings, with its source
  index (a scanner's finding is ingested once) and the assignment of findings to cases.
\<close>

section \<open>Findings\<close>

record stored_finding =
  sf_tenant_id :: string
  sf_finding_id :: string
  sf_provider :: string
  sf_account :: string
  sf_original_uid :: string
  sf_resource_uid :: string
  sf_record :: pyval
  sf_priority_signals :: priority_signals
  sf_artifact_namespace :: string
  sf_case_id :: "string option"

text \<open>A row of \<open>finding_records\<close>: its two documents are JSON text.\<close>

record finding_row =
  fr_finding_id :: string
  fr_tenant_id :: string
  fr_provider :: string
  fr_account :: string
  fr_original_uid :: string
  fr_resource_uid :: string
  fr_record :: pyval
  fr_priority_signals :: pyval
  fr_artifact_namespace :: string
  fr_case_id :: "string option"

definition finding_row :: "stored_finding \<Rightarrow> finding_row" where
  "finding_row f = \<lparr> fr_finding_id = sf_finding_id f, fr_tenant_id = sf_tenant_id f,
     fr_provider = sf_provider f, fr_account = sf_account f, fr_original_uid = sf_original_uid f,
     fr_resource_uid = sf_resource_uid f, fr_record = canon (sf_record f),
     fr_priority_signals = canon (signals_to_dict (sf_priority_signals f)),
     fr_artifact_namespace = sf_artifact_namespace f, fr_case_id = sf_case_id f \<rparr>"

definition finding_from_row :: "finding_row \<Rightarrow> stored_finding res" where
  "finding_from_row w =
     bindE (signals_from_dict (fr_priority_signals w)) (\<lambda>signals.
     Inr \<lparr> sf_tenant_id = fr_tenant_id w, sf_finding_id = fr_finding_id w,
           sf_provider = fr_provider w, sf_account = fr_account w,
           sf_original_uid = fr_original_uid w, sf_resource_uid = fr_resource_uid w,
           sf_record = fr_record w, sf_priority_signals = signals,
           sf_artifact_namespace = fr_artifact_namespace w, sf_case_id = fr_case_id w \<rparr>)"

section \<open>The store\<close>

record 's finding_store_ops =
  fs_put :: "stored_finding \<Rightarrow> ('s, unit) prog"
  fs_get :: "string \<Rightarrow> ('s, stored_finding) prog"
  fs_get_by_source :: "string \<Rightarrow> string \<Rightarrow> string \<Rightarrow> string \<Rightarrow> ('s, stored_finding option) prog"
  fs_assign_case :: "string \<Rightarrow> string \<Rightarrow> ('s, stored_finding) prog"
  fs_list :: "string \<Rightarrow> ('s, stored_finding list) prog"

definition source_of :: "finding_row \<Rightarrow> string \<times> string \<times> string \<times> string" where
  "source_of w = (fr_tenant_id w, fr_provider w, fr_account w, fr_original_uid w)"

definition sql_finding_put :: "stored_finding \<Rightarrow> (finding_row list, unit) prog" where
  "sql_finding_put f =
     tryM (transaction (sql_insert (\<lambda>w w'. fr_finding_id w = fr_finding_id w' \<or> source_of w = source_of w')
                          (finding_row f)))
       [IntegrityError]
       (\<lambda>_. raise DuplicateFinding (''finding '' @ sf_original_uid f @ '' was already ingested''))"

definition sql_finding_get :: "string \<Rightarrow> (finding_row list, stored_finding) prog" where
  "sql_finding_get i =
     bindM (getsM (find (\<lambda>w. fr_finding_id w = i))) (\<lambda>row.
     case row of None \<Rightarrow> raise FindingNotFound i | Some w \<Rightarrow> liftE (finding_from_row w))"

definition sql_finding_by_source ::
  "string \<Rightarrow> string \<Rightarrow> string \<Rightarrow> string \<Rightarrow> (finding_row list, stored_finding option) prog" where
  "sql_finding_by_source tenant_id provider account original_uid =
     bindM (getsM (find (\<lambda>w. source_of w = (tenant_id, provider, account, original_uid)))) (\<lambda>row.
     case row of None \<Rightarrow> ret None
     | Some w \<Rightarrow> bindM (liftE (finding_from_row w)) (\<lambda>f. ret (Some f)))"

definition sql_finding_assign :: "string \<Rightarrow> string \<Rightarrow> (finding_row list, stored_finding) prog" where
  "sql_finding_assign finding_id case_id =
     (let hit = (\<lambda>w. fr_finding_id w = finding_id \<and>
                     (fr_case_id w = None \<or> fr_case_id w = Some case_id))
      in bindM (transaction (\<lambda>rows.
           if length (filter hit rows) = 1
           then Inr (sql_update hit (\<lambda>w. w\<lparr>fr_case_id := Some case_id\<rparr>) rows)
           else case find (\<lambda>w. fr_finding_id w = finding_id) rows of
                  None \<Rightarrow> Inl (Raise FindingNotFound finding_id)
                | Some w \<Rightarrow> Inl (Raise DuplicateFinding
                    (''finding '' @ finding_id @ '' is already assigned to case ''
                     @ (case fr_case_id w of None \<Rightarrow> ''None'' | Some c \<Rightarrow> c))))) (\<lambda>_.
         sql_finding_get finding_id))"

definition sql_finding_list :: "string \<Rightarrow> (finding_row list, stored_finding list) prog" where
  "sql_finding_list case_id =
     bindM (getsM (\<lambda>rows. sort_key fr_finding_id (filter (\<lambda>w. fr_case_id w = Some case_id) rows)))
       (\<lambda>rows. liftE (mapE finding_from_row rows))"

definition sql_finding_ops :: "finding_row list finding_store_ops" where
  "sql_finding_ops = \<lparr> fs_put = sql_finding_put, fs_get = sql_finding_get,
     fs_get_by_source = sql_finding_by_source, fs_assign_case = sql_finding_assign,
     fs_list = sql_finding_list \<rparr>"

section \<open>What the tables guarantee\<close>

inductive findings_reach :: "finding_row list \<Rightarrow> finding_row list \<Rightarrow> bool" where
  refl: "findings_reach s s"
| put: "findings_reach s s' \<Longrightarrow> is_ok (mk_priority_signals (sf_priority_signals f)) \<Longrightarrow>
     sql_finding_put f s' = (r, s'') \<Longrightarrow> findings_reach s s''"
| assign: "findings_reach s s' \<Longrightarrow> sql_finding_assign i c s' = (r, s'') \<Longrightarrow> findings_reach s s''"

definition findings_ok :: "finding_row list \<Rightarrow> bool" where
  "findings_ok rows =
     (distinct (map fr_finding_id rows) \<and> distinct (map source_of rows) \<and>
      (\<forall>w \<in> set rows. is_ok (finding_from_row w)))"

text \<open>Everything but the case stays, and the case stays once it is set.\<close>

definition row_extends :: "finding_row \<Rightarrow> finding_row \<Rightarrow> bool" where
  "row_extends w w' = (w' = w\<lparr>fr_case_id := fr_case_id w'\<rparr> \<and>
                       (fr_case_id w \<noteq> None \<longrightarrow> fr_case_id w' = fr_case_id w))"

definition rows_extend :: "finding_row list \<Rightarrow> finding_row list \<Rightarrow> bool" where
  "rows_extend s s' = (\<forall>w \<in> set s. \<exists>w' \<in> set s'. row_extends w w')"

lemma row_extends_refl [simp]: "row_extends w w"
  by (simp add: row_extends_def)

lemma row_extends_trans: "row_extends a b \<Longrightarrow> row_extends b c \<Longrightarrow> row_extends a c"
  unfolding row_extends_def by (metis finding_row.update_convs(10) finding_row.surjective
      finding_row.select_convs(10))

lemma rows_extend_refl [simp]: "rows_extend s s"
  unfolding rows_extend_def by (meson row_extends_refl)

lemma rows_extend_trans: "rows_extend a b \<Longrightarrow> rows_extend b c \<Longrightarrow> rows_extend a c"
  unfolding rows_extend_def by (meson row_extends_trans)

lemma signals_read_back:
  "is_ok (mk_priority_signals s) \<Longrightarrow> signals_from_dict (canon (signals_to_dict s)) = Inr s"
proof -
  have "fld_bool (json_dict d) k = fld_bool d k" for d k
  proof -
    have "need_bool (canon v) = need_bool v" for v by (cases v) simp_all
    then show ?thesis by (simp add: fld_bool_def fld_json)
  qed
  then have "signals_from_dict (canon v) = signals_from_dict v" for v
    by (simp add: signals_from_dict_def need_dict_canon bindE_assoc)
  then show "is_ok (mk_priority_signals s) \<Longrightarrow> signals_from_dict (canon (signals_to_dict s)) = Inr s"
    using signals_roundtrip by simp
qed

lemma put_keeps_findings:
  assumes "findings_ok s" "is_ok (mk_priority_signals (sf_priority_signals f))" "sql_finding_put f s = (r, s')"
  shows "findings_ok s' \<and> rows_extend s s'"
proof (cases "s' = s")
  case False
  then have s': "s' = s @ [finding_row f]"
    and new: "\<forall>w \<in> set s. fr_finding_id (finding_row f) \<noteq> fr_finding_id w \<and> source_of (finding_row f) \<noteq> source_of w"
    using assms(3)
    by (auto simp: sql_finding_put_def tryM_def transaction_def sql_insert_def raise_def list_ex_iff guardE_def
        split: if_splits)
  have "is_ok (finding_from_row (finding_row f))"
    using signals_read_back [OF assms(2)] by (simp add: finding_from_row_def finding_row_def)
  then have "findings_ok s'"
    using assms(1) new unfolding findings_ok_def s' by (fastforce)
  moreover have "rows_extend s s'" unfolding rows_extend_def s' by (auto intro: row_extends_refl)
  ultimately show ?thesis by blast
qed (use assms in simp)

lemma sql_finding_get_state: "snd (sql_finding_get i s) = s"
  by (simp add: sql_finding_get_def run_defs split: option.splits)

lemma sql_finding_assign_state:
  "snd (sql_finding_assign i c s) =
     (let hit = (\<lambda>w. fr_finding_id w = i \<and> (fr_case_id w = None \<or> fr_case_id w = Some c))
      in if length (filter hit s) = 1 then sql_update hit (\<lambda>w. w\<lparr>fr_case_id := Some c\<rparr>) s else s)"
  by (simp add: sql_finding_assign_def bindM_def transaction_def Let_def sql_finding_get_state
      split: option.splits)

lemma assign_keeps_findings:
  assumes "findings_ok s" "sql_finding_assign i c s = (r, s')"
  shows "findings_ok s' \<and> rows_extend s s'"
proof (cases "s' = s")
  case False
  define hit where "hit = (\<lambda>w :: finding_row. fr_finding_id w = i \<and> (fr_case_id w = None \<or> fr_case_id w = Some c))"
  have s': "s' = sql_update hit (\<lambda>w. w\<lparr>fr_case_id := Some c\<rparr>) s"
    using assms(2) False sql_finding_assign_state [of i c s] unfolding hit_def Let_def
    by (simp split: if_splits)
  let ?f = "\<lambda>w. if hit w then w\<lparr>fr_case_id := Some c\<rparr> else w"
  have keep: "fr_finding_id (?f w) = fr_finding_id w" "source_of (?f w) = source_of w"
    "is_ok (finding_from_row (?f w)) = is_ok (finding_from_row w)" for w
    by (auto simp: source_of_def finding_from_row_def is_ok_iff res_simps)
  have "map fr_finding_id s' = map fr_finding_id s" "map source_of s' = map source_of s"
    unfolding s' sql_update_def map_map comp_def keep by simp_all
  moreover have "is_ok (finding_from_row w)" if "w \<in> set s'" for w
  proof -
    from that obtain v where "v \<in> set s" "w = ?f v" unfolding s' sql_update_def set_map by (rule imageE)
    then show ?thesis using assms(1) keep(3) [of v] unfolding findings_ok_def by blast
  qed
  ultimately have "findings_ok s'" using assms(1) unfolding findings_ok_def by simp
  moreover have "row_extends w (?f w)" for w by (auto simp: row_extends_def hit_def)
  then have "rows_extend s s'" unfolding rows_extend_def s' sql_update_def set_map bex_simps by blast
  ultimately show ?thesis by blast
qed (use assms in simp)

lemma findings_reach_keeps:
  "findings_reach s s' \<Longrightarrow> findings_ok s \<Longrightarrow> findings_ok s' \<and> rows_extend s s'"
  by (induction rule: findings_reach.induct)
    (auto dest: put_keeps_findings assign_keeps_findings intro: rows_extend_trans)

lemma sql_finding_get_row:
  assumes "findings_ok s" "w \<in> set s"
  shows "sql_finding_get (fr_finding_id w) s = (finding_from_row w, s)"
  using find_distinct [of fr_finding_id s w] assms
  by (simp add: findings_ok_def sql_finding_get_def run_defs)

section \<open>Properties\<close>

text \<open>A finding belongs to one case for good. In any state the store reaches, a finding that was
  assigned to a case stays assigned to it, everything else about it stays too, and assigning it
  to another case raises \<open>DuplicateFinding\<close> and changes nothing.\<close>

theorem finding_assignment_permanent:
  assumes "findings_reach [] s" "fst (sql_finding_get i s) = Inr f" "sf_case_id f = Some c"
    and "findings_reach s s'"
  shows "fst (sql_finding_get i s') = Inr f \<and>
    (d \<noteq> c \<longrightarrow> sql_finding_assign i d s' =
       (Inl (Raise DuplicateFinding (''finding '' @ i @ '' is already assigned to case '' @ c)), s'))"
proof -
  have "findings_ok []" by (simp add: findings_ok_def)
  with findings_reach_keeps [OF assms(1)] have ok: "findings_ok s" by blast
  with findings_reach_keeps [OF assms(4)] have ok': "findings_ok s'" and ext: "rows_extend s s'" by blast+
  obtain w where w: "w \<in> set s" "fr_finding_id w = i" "finding_from_row w = Inr f"
    using assms(2) by (auto simp: sql_finding_get_def run_defs split: option.splits dest: find_Some_in)
  then have c: "fr_case_id w = Some c" using assms(3) by (auto simp: finding_from_row_def res_simps)
  obtain w' where w': "w' \<in> set s'" "row_extends w w'" using ext w(1) unfolding rows_extend_def by blast
  obtain x where x: "w' = w\<lparr>fr_case_id := x\<rparr>" "fr_case_id w' = fr_case_id w"
    using w'(2) c unfolding row_extends_def by blast
  then have "x = fr_case_id w" by simp
  with x(1) have same: "w' = w" by simp
  note g = sql_finding_get_row [OF ok' w'(1), unfolded same w(2,3)]
  have found: "find (\<lambda>w. fr_finding_id w = i) s' = Some w"
    using find_distinct [of fr_finding_id s' w] ok' w' w(2) same by (simp add: findings_ok_def)
  have "sql_finding_assign i d s' =
      (Inl (Raise DuplicateFinding (''finding '' @ i @ '' is already assigned to case '' @ c)), s')" if "d \<noteq> c"
  proof -
    have "filter (\<lambda>w. fr_finding_id w = i \<and> (fr_case_id w = None \<or> fr_case_id w = Some d)) s' = []"
    proof (rule filter_False, rule ballI)
      fix x assume "x \<in> set s'"
      then show "\<not> (fr_finding_id x = i \<and> (fr_case_id x = None \<or> fr_case_id x = Some d))"
        using ok' w'(1) same w(2) c that unfolding findings_ok_def distinct_map inj_on_def by fastforce
    qed
    then show ?thesis
      by (simp add: sql_finding_assign_def Let_def bindM_def transaction_def found c)
  qed
  with g show ?thesis by simp
qed

text \<open>A scanner's finding is ingested once: putting a finding whose tenant, provider, account
  and original id are those of a stored one raises \<open>DuplicateFinding\<close>, whatever its finding
  id, and looking the source up returns the stored one.\<close>

theorem source_ingested_once:
  assumes "findings_reach [] s" "fst (sql_finding_get i s) = Inr f"
    and "sf_tenant_id g = sf_tenant_id f" "sf_provider g = sf_provider f"
    "sf_account g = sf_account f" "sf_original_uid g = sf_original_uid f"
  shows "sql_finding_put g s =
      (Inl (Raise DuplicateFinding (''finding '' @ sf_original_uid g @ '' was already ingested'')), s) \<and>
    sql_finding_by_source (sf_tenant_id f) (sf_provider f) (sf_account f) (sf_original_uid f) s =
      (Inr (Some f), s)"
proof -
  have "findings_ok []" by (simp add: findings_ok_def)
  with findings_reach_keeps [OF assms(1)] have ok: "findings_ok s" by blast
  obtain w where w: "w \<in> set s" "finding_from_row w = Inr f"
    using assms(2) by (auto simp: sql_finding_get_def run_defs split: option.splits dest: find_Some_in)
  have src: "source_of w = (sf_tenant_id f, sf_provider f, sf_account f, sf_original_uid f)"
    using w(2) by (auto simp: finding_from_row_def res_simps source_of_def)
  then have "source_of (finding_row g) = source_of w"
    using assms(3-) by (simp add: source_of_def finding_row_def)
  with w(1) have "list_ex (\<lambda>w'. fr_finding_id (finding_row g) = fr_finding_id w' \<or>
      source_of (finding_row g) = source_of w') s" by (auto simp: list_ex_iff)
  then have put: "sql_finding_put g s =
      (Inl (Raise DuplicateFinding (''finding '' @ sf_original_uid g @ '' was already ingested'')), s)"
    by (simp add: sql_finding_put_def tryM_def transaction_def sql_insert_def raise_def exn_isa_def)
  have "find (\<lambda>x. source_of x = source_of w) s = Some w"
    using find_distinct [of source_of s w] ok w(1) by (simp add: findings_ok_def)
  with w(2) put show ?thesis by (simp add: sql_finding_by_source_def run_defs src)
qed

definition sample_finding :: "string \<Rightarrow> stored_finding" where
  "sample_finding i = \<lparr> sf_tenant_id = ''t'', sf_finding_id = i, sf_provider = ''azure'',
     sf_account = ''a'', sf_original_uid = ''u'', sf_resource_uid = ''r'', sf_record = PDict [],
     sf_priority_signals = sample_signals True, sf_artifact_namespace = ''n'', sf_case_id = None \<rparr>"

definition sample_findings :: "finding_row list" where
  "sample_findings = snd (sql_finding_assign ''f1'' ''c1'' (snd (sql_finding_put (sample_finding ''f1'') [])))"

lemma sample_findings_reached: "findings_reach [] sample_findings"
proof -
  have "is_ok (mk_priority_signals (sf_priority_signals (sample_finding ''f1'')))" by code_simp
  from findings_reach.put [OF findings_reach.refl this surjective_pairing]
  have "findings_reach [] (snd (sql_finding_put (sample_finding ''f1'') []))" by simp
  from findings_reach.assign [OF this surjective_pairing] show ?thesis
    unfolding sample_findings_def .
qed

lemma sample_findings_get:
  "\<exists>f. fst (sql_finding_get ''f1'' sample_findings) = Inr f \<and> sf_case_id f = Some ''c1'' \<and>
     sf_tenant_id f = ''t'' \<and> sf_provider f = ''azure'' \<and> sf_account f = ''a'' \<and> sf_original_uid f = ''u''"
proof -
  have "case fst (sql_finding_get ''f1'' sample_findings) of Inl _ \<Rightarrow> False
    | Inr f \<Rightarrow> sf_case_id f = Some ''c1'' \<and> sf_tenant_id f = ''t'' \<and> sf_provider f = ''azure'' \<and>
        sf_account f = ''a'' \<and> sf_original_uid f = ''u''"
    by code_simp
  then show ?thesis by (auto split: sum.splits)
qed

theorem finding_assignment_permanent_witness:
  "\<not> is_ok (fst (sql_finding_assign ''f1'' ''c2'' sample_findings))"
proof -
  obtain f where "fst (sql_finding_get ''f1'' sample_findings) = Inr f" "sf_case_id f = Some ''c1''"
    using sample_findings_get by blast
  from finding_assignment_permanent [OF sample_findings_reached this findings_reach.refl, of "''c2''"]
  show ?thesis by simp
qed

theorem source_ingested_once_witness:
  "\<not> is_ok (fst (sql_finding_put (sample_finding ''f2'') sample_findings))"
proof -
  obtain f where f: "fst (sql_finding_get ''f1'' sample_findings) = Inr f" "sf_tenant_id f = ''t''"
    "sf_provider f = ''azure''" "sf_account f = ''a''" "sf_original_uid f = ''u''"
    using sample_findings_get by blast
  have "sql_finding_put (sample_finding ''f2'') sample_findings =
      (Inl (Raise DuplicateFinding (''finding '' @ sf_original_uid (sample_finding ''f2'') @ '' was already ingested'')),
       sample_findings)"
    using source_ingested_once [OF sample_findings_reached f(1), of "sample_finding ''f2''"]
    by (simp add: sample_finding_def f)
  then show ?thesis by simp
qed

end
