(* ===== verification/Timestamps.thy ===== *)
theory Timestamps
  imports Pyvalue
begin

text \<open>
  Time as the sources use it: \<open>parse_timestamp\<close> and \<open>utc_text\<close> of
  \<open>src/elcapitan/observability.py\<close> over a model of \<open>datetime.fromisoformat\<close>. An aware
  \<open>datetime\<close> is the number of microseconds since 0001-01-01T00:00:00 UTC, which is what its
  comparisons and its arithmetic use. Of the forms \<open>fromisoformat\<close> reads, the extended calendar
  form (the RFC 3339 text the sources ask for) is modelled; the basic form without separators and
  the ISO week dates are rejected here.
\<close>

section \<open>The calendar\<close>

definition leap_year :: "int \<Rightarrow> bool" where
  "leap_year y = (y mod 4 = 0 \<and> (y mod 100 \<noteq> 0 \<or> y mod 400 = 0))"

definition days_in_month :: "int \<Rightarrow> int \<Rightarrow> int" where
  "days_in_month y m =
     (if m = 2 then (if leap_year y then 29 else 28)
      else if m \<in> {4, 6, 9, 11} then 30 else 31)"

definition days_before_month :: "int \<Rightarrow> int \<Rightarrow> int" where
  "days_before_month y m =
     [0, 0, 31, 59, 90, 120, 151, 181, 212, 243, 273, 304, 334] ! nat m
     + (if 2 < m \<and> leap_year y then 1 else 0)"

definition days_before_year :: "int \<Rightarrow> int" where
  "days_before_year y = (let z = y - 1 in z * 365 + z div 4 - z div 100 + z div 400)"

definition ymd_days :: "int \<Rightarrow> int \<Rightarrow> int \<Rightarrow> int" where
  "ymd_days y m d = days_before_year y + days_before_month y m + (d - 1)"

definition valid_date :: "int \<Rightarrow> int \<Rightarrow> int \<Rightarrow> bool" where
  "valid_date y m d = (1 \<le> y \<and> y \<le> 9999 \<and> 1 \<le> m \<and> m \<le> 12 \<and> 1 \<le> d \<and> d \<le> days_in_month y m)"

text \<open>The proleptic Gregorian date of a day number, by the cycles of 400, 100, 4 and 1 years.\<close>

definition days_ymd :: "int \<Rightarrow> int \<times> int \<times> int" where
  "days_ymd n0 =
     (let n400 = n0 div 146097; n = n0 mod 146097;
          n100 = n div 36524; n = n mod 36524;
          n4 = n div 1461; n = n mod 1461;
          n1 = n div 365; n = n mod 365;
          y = n400 * 400 + n100 * 100 + n4 * 4 + n1 + 1
      in if n1 = 4 \<or> n100 = 4 then (y - 1, 12, 31)
         else let m = (n + 50) div 32;
                  m = (if days_before_month y m > n then m - 1 else m)
              in (y, m, n - days_before_month y m + 1))"

section \<open>Reading a timestamp\<close>

definition is_digit :: "char \<Rightarrow> bool" where
  "is_digit c = (c \<in> set ''0123456789'')"

definition digit_val :: "char \<Rightarrow> int" where
  "digit_val c = int (length (takeWhile (\<lambda>d. d \<noteq> c) ''0123456789''))"

fun digits_val :: "int \<Rightarrow> string \<Rightarrow> int res" where
  "digits_val acc [] = Inr acc"
| "digits_val acc (c # cs) =
     (if is_digit c then digits_val (acc * 10 + digit_val c) cs
      else Inl (Raise ValueError ''Invalid isoformat string''))"

definition num_field :: "nat \<Rightarrow> string \<Rightarrow> int res" where
  "num_field n s =
     bindE (guardE (length (take n s) = n) ValueError ''Invalid isoformat string'')
       (\<lambda>_. digits_val 0 (take n s))"

definition expect_char :: "char \<Rightarrow> string \<Rightarrow> unit res" where
  "expect_char c s = guardE (take 1 s = [c]) ValueError ''Invalid isoformat string''"

text \<open>\<open>HH[:MM[:SS[.f\<dots>]]]\<close>: hour, minute, second, microsecond; digits after the sixth are dropped.\<close>

definition parse_fraction :: "string \<Rightarrow> int res" where
  "parse_fraction s =
     (let k = min 6 (length s)
      in bindE (guardE (s \<noteq> [] \<and> list_all is_digit s) ValueError ''Invalid isoformat string'')
           (\<lambda>_. bindE (digits_val 0 (take k s)) (\<lambda>v. Inr (v * 10 ^ (6 - k)))))"

definition parse_hms :: "string \<Rightarrow> (int \<times> int \<times> int \<times> int) res" where
  "parse_hms s =
     bindE (num_field 2 s) (\<lambda>h. let s = drop 2 s in
       if s = [] then Inr (h, 0, 0, 0)
       else bindE (expect_char (CHR '':'') s) (\<lambda>_. let s = drop 1 s in
         bindE (num_field 2 s) (\<lambda>mi. let s = drop 2 s in
           if s = [] then Inr (h, mi, 0, 0)
           else bindE (expect_char (CHR '':'') s) (\<lambda>_. let s = drop 1 s in
             bindE (num_field 2 s) (\<lambda>sec. let s = drop 2 s in
               if s = [] then Inr (h, mi, sec, 0)
               else bindE (guardE (hd s \<in> set ''.,'') ValueError ''Invalid isoformat string'')
                 (\<lambda>_. bindE (parse_fraction (drop 1 s)) (\<lambda>f. Inr (h, mi, sec, f))))))))"

definition micros :: "int \<Rightarrow> int \<Rightarrow> int \<Rightarrow> int \<Rightarrow> int" where
  "micros h mi sec f = ((h * 60 + mi) * 60 + sec) * 1000000 + f"

text \<open>The time and the offset from UTC, \<open>None\<close> where the text has no offset.\<close>

definition parse_time_tz :: "string \<Rightarrow> (int \<times> int option) res" where
  "parse_time_tz s =
     (let t = takeWhile (\<lambda>c. c \<notin> set ''+-Z'') s; z = drop (length t) s
      in bindE (parse_hms t) (\<lambda>(h, mi, sec, f).
         bindE (guardE (h < 24 \<and> mi < 60 \<and> sec < 60) ValueError ''time out of range'') (\<lambda>_.
         if z = [] then Inr (micros h mi sec f, None)
         else if hd z = CHR ''Z'' then
           bindE (guardE (tl z = []) ValueError ''Invalid isoformat string'')
             (\<lambda>_. Inr (micros h mi sec f, Some 0))
         else bindE (parse_hms (tl z)) (\<lambda>(zh, zm, zs, zf).
           let off = (if hd z = CHR ''-'' then -1 else 1) * micros zh zm zs zf
           in bindE (guardE (\<bar>off\<bar> < 86400 * 1000000) ValueError ''offset out of range'')
                (\<lambda>_. Inr (micros h mi sec f, Some off))))))"

text \<open>
  \<open>datetime.fromisoformat\<close> on the extended calendar form: the local time in microseconds and the
  offset.
\<close>

definition fromisoformat :: "string \<Rightarrow> (int \<times> int option) res" where
  "fromisoformat s =
     bindE (num_field 4 s) (\<lambda>y.
     bindE (expect_char (CHR ''-'') (drop 4 s)) (\<lambda>_.
     bindE (num_field 2 (drop 5 s)) (\<lambda>m.
     bindE (expect_char (CHR ''-'') (drop 7 s)) (\<lambda>_.
     bindE (num_field 2 (drop 8 s)) (\<lambda>d.
     bindE (guardE (valid_date y m d) ValueError ''date out of range'') (\<lambda>_.
     let day = ymd_days y m d * (86400 * 1000000) in
     if drop 10 s = [] then Inr (day, None)
     else bindE (parse_time_tz (drop 11 s)) (\<lambda>(t, off). Inr (day + t, off))))))))"

fun replace_Z :: "string \<Rightarrow> string" where
  "replace_Z [] = []"
| "replace_Z (c # cs) = (if c = CHR ''Z'' then ''+00:00'' @ replace_Z cs else c # replace_Z cs)"

definition parse_timestamp :: "string \<Rightarrow> int res" where
  "parse_timestamp value =
     bindE (guardE (value \<noteq> []) UsageAnalysisError ''timestamp must be non-empty RFC3339 text'') (\<lambda>_.
     (case fromisoformat (replace_Z value) of
        Inl e \<Rightarrow> Inl (Raise UsageAnalysisError (''invalid RFC3339 timestamp: '' @ repr_str value))
      | Inr (t, None) \<Rightarrow>
          Inl (Raise UsageAnalysisError (''timestamp must include a timezone: '' @ repr_str value))
      | Inr (t, Some off) \<Rightarrow> Inr (t - off)))"

section \<open>Writing a timestamp\<close>

definition pad2 :: "int \<Rightarrow> string" where
  "pad2 i = [digit_char (i div 10), digit_char (i)]"

definition pad4 :: "int \<Rightarrow> string" where
  "pad4 i = [digit_char (i div 1000), digit_char (i div 100),
             digit_char (i div 10), digit_char (i)]"

text \<open>The text \<open>YYYY-MM-DDTHH:MM:SSZ\<close> of calendar fields.\<close>

definition stamp_text :: "int \<Rightarrow> int \<Rightarrow> int \<Rightarrow> int \<Rightarrow> int \<Rightarrow> int \<Rightarrow> string" where
  "stamp_text y m d h mi sec =
     pad4 y @ ''-'' @ pad2 m @ ''-'' @ pad2 d @ ''T''
     @ pad2 h @ '':'' @ pad2 mi @ '':'' @ pad2 sec @ ''Z''"

text \<open>
  \<open>utc_text\<close>: the second the instant lies in, in UTC; instants outside the years 1 to 9999 raise
  \<open>OverflowError\<close>, as \<open>astimezone\<close> does.
\<close>

definition max_instant :: int where
  "max_instant = 3652059 * 86400 * 1000000"

definition utc_text :: "int \<Rightarrow> string res" where
  "utc_text t =
     bindE (guardE (0 \<le> t \<and> t < max_instant) OverflowError ''date value out of range'') (\<lambda>_.
     let secs = t div 1000000;
         (y, m, d) = days_ymd (secs div 86400);
         r = secs mod 86400
     in Inr (stamp_text y m d (r div 3600) (r div 60 mod 60) (r mod 60)))"

text \<open>The instant of valid calendar fields.\<close>

definition instant :: "int \<Rightarrow> int \<Rightarrow> int \<Rightarrow> int \<Rightarrow> int \<Rightarrow> int \<Rightarrow> int" where
  "instant y m d h mi sec = ymd_days y m d * (86400 * 1000000) + micros h mi sec 0"

definition valid_stamp :: "int \<Rightarrow> int \<Rightarrow> int \<Rightarrow> int \<Rightarrow> int \<Rightarrow> int \<Rightarrow> bool" where
  "valid_stamp y m d h mi sec =
     (valid_date y m d \<and> 0 \<le> h \<and> h < 24 \<and> 0 \<le> mi \<and> mi < 60 \<and> 0 \<le> sec \<and> sec < 60)"

end
