(* ===== verification/Jobs.thy ===== *)
theory Jobs
  imports Timestamps Sql
begin

text \<open>
  The queue of execution jobs of \<open>src/elcapitan/scheduler.py\<close>, with its SQLite store, and the
  PostgreSQL store of the same protocol in \<open>src/elcapitan/postgres_store.py\<close>. Times are stored
  and compared as text.
\<close>

section \<open>Jobs\<close>

datatype job_state =
    JOB_SCHEDULED | JOB_RUNNING | JOB_SUCCEEDED | JOB_ROLLED_BACK | JOB_CONTAINED | JOB_FAILED
  | JOB_MISSED

fun job_state_value :: "job_state \<Rightarrow> string" where
  "job_state_value JOB_SCHEDULED = ''scheduled''"
| "job_state_value JOB_RUNNING = ''running''"
| "job_state_value JOB_SUCCEEDED = ''succeeded''"
| "job_state_value JOB_ROLLED_BACK = ''rolled_back''"
| "job_state_value JOB_CONTAINED = ''contained''"
| "job_state_value JOB_FAILED = ''failed''"
| "job_state_value JOB_MISSED = ''missed''"

record execution_job =
  ej_job_id :: string
  ej_case_id :: string
  ej_execute_at :: string
  ej_deadline :: string
  ej_state :: job_state
  ej_attempts :: int
  ej_lease_owner :: string
  ej_lease_until :: string
  ej_detail :: string

record 's job_store_ops =
  js_put :: "execution_job \<Rightarrow> ('s, unit) prog"
  js_get :: "string \<Rightarrow> ('s, execution_job) prog"
  js_claim_due :: "string \<Rightarrow> string \<Rightarrow> int \<Rightarrow> ('s, execution_job option) prog"
  js_complete :: "string \<Rightarrow> string \<Rightarrow> job_state \<Rightarrow> string \<Rightarrow> ('s, execution_job) prog"

section \<open>The SQLite store\<close>

definition sql_job_put :: "execution_job \<Rightarrow> (execution_job list, unit) prog" where
  "sql_job_put job =
     tryM (transaction (sql_insert (\<lambda>j j'. ej_job_id j = ej_job_id j' \<or> ej_case_id j = ej_case_id j') job))
       [IntegrityError]
       (\<lambda>_. raise ValueError (''case '' @ ej_case_id job @ '' already has a scheduled job''))"

definition sql_job_get :: "string \<Rightarrow> (execution_job list, execution_job) prog" where
  "sql_job_get i =
     bindM (getsM (find (\<lambda>j. ej_job_id j = i))) (\<lambda>row.
     case row of None \<Rightarrow> raise KeyError i | Some j \<Rightarrow> ret j)"

text \<open>The two updates and the query of a claim, in one transaction.\<close>

definition mark_missed :: "string \<Rightarrow> execution_job list \<Rightarrow> execution_job list" where
  "mark_missed now =
     sql_update (\<lambda>j. ej_state j = JOB_SCHEDULED \<and> ej_deadline j \<le> now)
       (\<lambda>j. j\<lparr>ej_state := JOB_MISSED, ej_detail := ''approved window elapsed before execution''\<rparr>)"

definition claimable :: "string \<Rightarrow> execution_job \<Rightarrow> bool" where
  "claimable now j =
     (ej_execute_at j \<le> now \<and> now < ej_deadline j \<and>
      (ej_state j = JOB_SCHEDULED \<or> (ej_state j = JOB_RUNNING \<and> ej_lease_until j \<le> now)))"

definition due_jobs :: "string \<Rightarrow> execution_job list \<Rightarrow> execution_job list" where
  "due_jobs now rows = sort_key (\<lambda>j. (ej_execute_at j, ej_job_id j)) (filter (claimable now) rows)"

definition take_lease :: "string \<Rightarrow> string \<Rightarrow> string \<Rightarrow> execution_job list \<Rightarrow> execution_job list" where
  "take_lease job_id worker lease_until =
     sql_update (\<lambda>j. ej_job_id j = job_id)
       (\<lambda>j. j\<lparr>ej_state := JOB_RUNNING, ej_attempts := ej_attempts j + 1,
               ej_lease_owner := worker, ej_lease_until := lease_until\<rparr>)"

definition lease_end :: "string \<Rightarrow> string \<Rightarrow> int \<Rightarrow> string res" where
  "lease_end now worker lease_seconds =
     bindE (guardE (worker \<noteq> [] \<and> 0 < lease_seconds) ValueError
              ''worker id and positive lease are required'') (\<lambda>_.
     bindE (parse_timestamp now) (\<lambda>current.
     utc_text (current + lease_seconds * 1000000)))"

definition sql_claim_due ::
  "string \<Rightarrow> string \<Rightarrow> int \<Rightarrow> (execution_job list, execution_job option) prog" where
  "sql_claim_due now worker lease_seconds =
     bindM (liftE (lease_end now worker lease_seconds)) (\<lambda>lease_until.
     bindM (modifyM (mark_missed now)) (\<lambda>_.
     bindM (getsM (due_jobs now)) (\<lambda>due.
     case due of [] \<Rightarrow> ret None
     | j # _ \<Rightarrow>
         bindM (modifyM (take_lease (ej_job_id j) worker lease_until)) (\<lambda>_.
         bindM (sql_job_get (ej_job_id j)) (\<lambda>claimed. ret (Some claimed))))))"

definition leased_by :: "string \<Rightarrow> string \<Rightarrow> execution_job \<Rightarrow> bool" where
  "leased_by job_id worker j =
     (ej_job_id j = job_id \<and> ej_state j = JOB_RUNNING \<and> ej_lease_owner j = worker)"

text \<open>Completion releases the lease of a job in one of the final states.\<close>

definition release_lease ::
  "string \<Rightarrow> string \<Rightarrow> job_state \<Rightarrow> string \<Rightarrow> execution_job list \<Rightarrow> execution_job list res" where
  "release_lease job_id worker state detail rows =
     bindE (guardE (length (filter (leased_by job_id worker) rows) = 1) ValueError
              ''job is not leased by this worker'') (\<lambda>_.
     Inr (sql_update (leased_by job_id worker)
            (\<lambda>j. j\<lparr>ej_state := state, ej_detail := detail, ej_lease_owner := [],
                    ej_lease_until := []\<rparr>) rows))"

definition complete_job ::
  "job_state list \<Rightarrow> string \<Rightarrow> string \<Rightarrow> job_state \<Rightarrow> string \<Rightarrow> (execution_job list, execution_job) prog" where
  "complete_job final job_id worker state detail =
     bindM (guardM (state \<in> set final) ValueError ''job completion state must be terminal'') (\<lambda>_.
     bindM (transaction (release_lease job_id worker state detail)) (\<lambda>_.
     sql_job_get job_id))"

definition sql_complete ::
  "string \<Rightarrow> string \<Rightarrow> job_state \<Rightarrow> string \<Rightarrow> (execution_job list, execution_job) prog" where
  "sql_complete = complete_job [JOB_SUCCEEDED, JOB_ROLLED_BACK, JOB_CONTAINED, JOB_FAILED]"

definition sql_job_ops :: "execution_job list job_store_ops" where
  "sql_job_ops = \<lparr> js_put = sql_job_put, js_get = sql_job_get, js_claim_due = sql_claim_due,
                   js_complete = sql_complete \<rparr>"

section \<open>The PostgreSQL store\<close>

text \<open>
  \<open>PostgresExecutionJobStore\<close>. Two things are the database's and parameters here: \<open>le\<close>, the order
  its collation gives texts, by which times and identifiers are compared and sorted, and
  \<open>locked\<close>, the jobs whose rows other transactions hold when \<open>FOR UPDATE SKIP LOCKED\<close> selects. The
  updates are executed after the row locks they wait for.
\<close>

definition pg_mark_missed ::
  "(string \<Rightarrow> string \<Rightarrow> bool) \<Rightarrow> string \<Rightarrow> execution_job list \<Rightarrow> execution_job list" where
  "pg_mark_missed le now =
     sql_update (\<lambda>j. ej_state j = JOB_SCHEDULED \<and> le (ej_deadline j) now)
       (\<lambda>j. j\<lparr>ej_state := JOB_MISSED, ej_detail := ''approved window elapsed before execution''\<rparr>)"

definition pg_claimable :: "(string \<Rightarrow> string \<Rightarrow> bool) \<Rightarrow> string \<Rightarrow> execution_job \<Rightarrow> bool" where
  "pg_claimable le now j =
     (le (ej_execute_at j) now \<and> \<not> le (ej_deadline j) now \<and>
      (ej_state j = JOB_SCHEDULED \<or> (ej_state j = JOB_RUNNING \<and> le (ej_lease_until j) now)))"

text \<open>\<open>ORDER BY execute_at, job_id\<close>.\<close>

definition pg_before :: "(string \<Rightarrow> string \<Rightarrow> bool) \<Rightarrow> execution_job \<Rightarrow> execution_job \<Rightarrow> bool" where
  "pg_before le j k =
     (le (ej_execute_at j) (ej_execute_at k) \<and>
      (le (ej_execute_at k) (ej_execute_at j) \<longrightarrow> le (ej_job_id j) (ej_job_id k)))"

text \<open>\<open>LIMIT 1 FOR UPDATE SKIP LOCKED\<close>: the first row in that order that nobody has locked.\<close>

fun pg_first ::
  "(string \<Rightarrow> string \<Rightarrow> bool) \<Rightarrow> (execution_job \<Rightarrow> bool) \<Rightarrow> execution_job list \<Rightarrow> execution_job option" where
  "pg_first le hit [] = None"
| "pg_first le hit (j # js) =
     (if \<not> hit j then pg_first le hit js
      else case pg_first le hit js of
             None \<Rightarrow> Some j
           | Some k \<Rightarrow> Some (if pg_before le j k then j else k))"

text \<open>\<open>UPDATE ... RETURNING\<close>, of which \<open>fetchone\<close> takes the first row.\<close>

definition update_returning ::
  "('r \<Rightarrow> bool) \<Rightarrow> ('r \<Rightarrow> 'r) \<Rightarrow> ('r list, 'r option) prog" where
  "update_returning hit f rows =
     (Inr (case filter hit rows of [] \<Rightarrow> None | r # _ \<Rightarrow> Some (f r)), sql_update hit f rows)"

text \<open>\<open>_job\<close>, of a row that need not be there.\<close>

fun pg_job :: "execution_job option \<Rightarrow> execution_job res" where
  "pg_job None = Inl (Raise KeyError [])"
| "pg_job (Some j) = Inr j"

definition pg_claim_due ::
  "(string \<Rightarrow> string \<Rightarrow> bool) \<Rightarrow> string list \<Rightarrow> string \<Rightarrow> string \<Rightarrow> int \<Rightarrow>
   (execution_job list, execution_job option) prog" where
  "pg_claim_due le locked now worker lease_seconds =
     bindM (liftE (lease_end now worker lease_seconds)) (\<lambda>lease_until.
     bindM (modifyM (pg_mark_missed le now)) (\<lambda>_.
     bindM (getsM (pg_first le (\<lambda>j. pg_claimable le now j \<and> ej_job_id j \<notin> set locked))) (\<lambda>row.
     case row of None \<Rightarrow> ret None
     | Some job \<Rightarrow>
         bindM (update_returning (\<lambda>j. ej_job_id j = ej_job_id job)
                  (\<lambda>j. j\<lparr>ej_state := JOB_RUNNING, ej_attempts := ej_attempts j + 1,
                          ej_lease_owner := worker, ej_lease_until := lease_until\<rparr>)) (\<lambda>updated.
         bindM (liftE (pg_job updated)) (\<lambda>claimed. ret (Some claimed))))))"

definition pg_complete ::
  "string \<Rightarrow> string \<Rightarrow> job_state \<Rightarrow> string \<Rightarrow> (execution_job list, execution_job) prog" where
  "pg_complete job_id worker state detail =
     bindM (guardM (state \<in> {JOB_SUCCEEDED, JOB_ROLLED_BACK, JOB_FAILED}) ValueError
              ''job completion state must be terminal'') (\<lambda>_.
     bindM (update_returning
              (\<lambda>j. ej_job_id j = job_id \<and> ej_state j = JOB_RUNNING \<and> ej_lease_owner j = worker)
              (\<lambda>j. j\<lparr>ej_state := state, ej_detail := detail, ej_lease_owner := [],
                      ej_lease_until := []\<rparr>)) (\<lambda>row.
     bindM (guardM (row \<noteq> None) ValueError ''job is not leased by this worker'') (\<lambda>_.
     liftE (pg_job row))))"

definition pg_job_ops ::
  "(string \<Rightarrow> string \<Rightarrow> bool) \<Rightarrow> string list \<Rightarrow> execution_job list job_store_ops" where
  "pg_job_ops le locked =
     \<lparr> js_put = sql_job_put, js_get = sql_job_get, js_claim_due = pg_claim_due le locked,
       js_complete = pg_complete \<rparr>"

section \<open>What the statements do\<close>

definition jobs_ok :: "execution_job list \<Rightarrow> bool" where
  "jobs_ok rows = (distinct (map ej_job_id rows) \<and> distinct (map ej_case_id rows))"

lemma sql_update_ids:
  assumes "\<And>j. g (f j) = g j"
  shows "map g (sql_update hit f rows) = map g rows"
  by (simp add: sql_update_def assms cong: if_cong)

lemma sql_update_in:
  "j \<in> set rows \<Longrightarrow> (if hit j then f j else j) \<in> set (sql_update hit f rows)"
  unfolding sql_update_def set_map by blast

lemma sql_update_from:
  "x \<in> set (sql_update hit f rows) \<Longrightarrow> \<exists>j \<in> set rows. x = (if hit j then f j else j)"
  unfolding sql_update_def set_map by blast

lemma ids_kept:
  "map ej_job_id (mark_missed now rows) = map ej_job_id rows"
  "map ej_case_id (mark_missed now rows) = map ej_case_id rows"
  "map ej_job_id (take_lease i w l rows) = map ej_job_id rows"
  "map ej_case_id (take_lease i w l rows) = map ej_case_id rows"
  unfolding mark_missed_def take_lease_def by (rule sql_update_ids; simp)+

lemma jobs_ok_kept:
  "jobs_ok (mark_missed now rows) = jobs_ok rows" "jobs_ok (take_lease i w l rows) = jobs_ok rows"
  by (simp_all add: jobs_ok_def ids_kept)

lemma sql_job_get_row:
  assumes "jobs_ok rows" "j \<in> set rows"
  shows "sql_job_get (ej_job_id j) rows = (Inr j, rows)"
  using find_distinct [of ej_job_id rows j] assms by (simp add: jobs_ok_def sql_job_get_def run_defs)

lemma same_job:
  "jobs_ok rows \<Longrightarrow> j \<in> set rows \<Longrightarrow> j' \<in> set rows \<Longrightarrow> ej_job_id j = ej_job_id j' \<Longrightarrow> j = j'"
  unfolding jobs_ok_def distinct_map inj_on_def by blast

lemma mark_missed_keeps:
  assumes "j \<in> set rows" "ej_state j \<noteq> JOB_SCHEDULED \<or> now < ej_deadline j"
  shows "j \<in> set (mark_missed now rows)"
proof -
  have "\<not> (ej_state j = JOB_SCHEDULED \<and> ej_deadline j \<le> now)" using assms(2) by auto
  then show ?thesis
    using sql_update_in [OF assms(1), of "\<lambda>j. ej_state j = JOB_SCHEDULED \<and> ej_deadline j \<le> now"]
    unfolding mark_missed_def by (simp only: if_False)
qed

lemma due_job:
  "due_jobs now rows = j # js \<Longrightarrow> j \<in> set rows \<and> claimable now j"
  using set_sort [of "\<lambda>j. (ej_execute_at j, ej_job_id j)" "filter (claimable now) rows"]
  unfolding due_jobs_def by auto

text \<open>A claim, opened up: the queue after it, and the job it took and what the job was before.\<close>

lemma claim_cases:
  assumes "jobs_ok rows" "sql_claim_due now worker secs rows = (Inr r, rows')"
  obtains (none) "r = None" "rows' = mark_missed now rows" "due_jobs now rows' = []"
  | (some) j l where "j \<in> set rows" "claimable now j" "lease_end now worker secs = Inr l"
      "r = Some (j\<lparr>ej_state := JOB_RUNNING, ej_attempts := ej_attempts j + 1,
                    ej_lease_owner := worker, ej_lease_until := l\<rparr>)"
      "rows' = take_lease (ej_job_id j) worker l (mark_missed now rows)"
proof -
  from assms(2) obtain l where l: "lease_end now worker secs = Inr l"
    by (auto simp: sql_claim_due_def run_simps)
  show thesis
  proof (cases "due_jobs now (mark_missed now rows)")
    case Nil
    with assms(2) l show thesis by (intro none) (auto simp: sql_claim_due_def run_simps)
  next
    case (Cons j js)
    from due_job [OF Cons] have j: "j \<in> set (mark_missed now rows)" "claimable now j" by blast+
    then have jr: "j \<in> set rows"
      unfolding mark_missed_def by (auto dest!: sql_update_from simp: claimable_def split: if_splits)
    let ?j = "j\<lparr>ej_state := JOB_RUNNING, ej_attempts := ej_attempts j + 1,
                    ej_lease_owner := worker, ej_lease_until := l\<rparr>"
    have in': "?j \<in> set (take_lease (ej_job_id j) worker l (mark_missed now rows))"
      using sql_update_in [OF j(1), of "\<lambda>x. ej_job_id x = ej_job_id j"] unfolding take_lease_def by auto
    have ok: "jobs_ok (take_lease (ej_job_id j) worker l (mark_missed now rows))"
      using assms(1) by (simp add: jobs_ok_kept)
    from assms(2) l Cons sql_job_get_row [OF ok in'] show thesis
      by (intro some [OF jr j(2) l]) (auto simp: sql_claim_due_def run_simps)
  qed
qed

lemma release_cases:
  assumes "jobs_ok rows" "complete_job final i worker st detail rows = (Inr j', rows')"
  obtains j where "j \<in> set rows" "leased_by i worker j" "st \<in> set final"
    "j' = j\<lparr>ej_state := st, ej_detail := detail, ej_lease_owner := [], ej_lease_until := []\<rparr>"
    "rows' = sql_update (leased_by i worker) (\<lambda>j. j\<lparr>ej_state := st, ej_detail := detail,
               ej_lease_owner := [], ej_lease_until := []\<rparr>) rows"
proof -
  let ?f = "\<lambda>j. j\<lparr>ej_state := st, ej_detail := detail, ej_lease_owner := [], ej_lease_until := []\<rparr>"
  from assms(2) have st: "st \<in> set final" and len: "length (filter (leased_by i worker) rows) = 1"
    and r: "rows' = sql_update (leased_by i worker) ?f rows" and g: "sql_job_get i rows' = (Inr j', rows')"
    by (auto simp: complete_job_def run_simps transaction_run release_lease_def res_simps sql_job_get_def
        split: option.splits)
  from len obtain j where "filter (leased_by i worker) rows = [j]" by (auto simp: length_Suc_conv)
  then have j: "j \<in> set rows" "leased_by i worker j"
    by (metis list.set_intros(1) mem_Collect_eq set_filter)+
  have "jobs_ok rows'" using assms(1) unfolding r jobs_ok_def by (simp add: sql_update_ids)
  moreover have "?f j \<in> set rows'" using sql_update_in [OF j(1), of "leased_by i worker" ?f] j(2) r by simp
  moreover have "ej_job_id (?f j) = i" using j(2) by (simp add: leased_by_def)
  ultimately have "sql_job_get i rows' = (Inr (?f j), rows')" using sql_job_get_row by metis
  with g j st r show thesis by (intro that) auto
qed

section \<open>Properties\<close>

text \<open>A worker gets a job only inside the approved window and only when nobody holds it: the job
  it is given had started, had not reached its deadline, was waiting or had a lease that had run
  out, and is now running under this worker's lease with one more attempt; jobs of which the
  window elapsed before anybody started them are marked missed, and no other job changes.\<close>

theorem claim_respects_window_and_lease:
  assumes "jobs_ok rows" "sql_claim_due now worker secs rows = (Inr (Some c), rows')"
  shows "\<exists>j \<in> set rows. ej_execute_at j \<le> now \<and> now < ej_deadline j \<and>
    (ej_state j = JOB_SCHEDULED \<or> (ej_state j = JOB_RUNNING \<and> ej_lease_until j \<le> now)) \<and>
    (\<exists>l. lease_end now worker secs = Inr l \<and>
      c = j\<lparr>ej_state := JOB_RUNNING, ej_attempts := ej_attempts j + 1, ej_lease_owner := worker,
            ej_lease_until := l\<rparr>) \<and>
    set rows' = insert c (set (mark_missed now rows) - {j}) \<and>
    list_all (\<lambda>x. ej_state x = JOB_SCHEDULED \<longrightarrow> now < ej_deadline x) rows'"
  using assms
proof (cases rule: claim_cases)
  case none
  then show ?thesis by simp
next
  case (some j l)
  have ok: "jobs_ok (mark_missed now rows)" using assms(1) by (simp add: jobs_ok_kept)
  have jm: "j \<in> set (mark_missed now rows)"
    using mark_missed_keeps [OF some(1)] some(2) by (simp add: claimable_def)
  have c: "c = j\<lparr>ej_state := JOB_RUNNING, ej_attempts := ej_attempts j + 1,
                    ej_lease_owner := worker, ej_lease_until := l\<rparr>" using some(4) by simp
  have rows': "set rows' = insert c (set (mark_missed now rows) - {j})"
  proof (intro equalityI subsetI)
    fix x assume "x \<in> set rows'"
    then obtain y where y: "y \<in> set (mark_missed now rows)"
      "x = (if ej_job_id y = ej_job_id j then y\<lparr>ej_state := JOB_RUNNING, ej_attempts := ej_attempts y + 1,
               ej_lease_owner := worker, ej_lease_until := l\<rparr> else y)"
      unfolding some(5) take_lease_def by (blast dest: sql_update_from)
    show "x \<in> insert c (set (mark_missed now rows) - {j})"
      using same_job [OF ok y(1) jm] y c by (cases "ej_job_id y = ej_job_id j") auto
  next
    fix x assume x: "x \<in> insert c (set (mark_missed now rows) - {j})"
    then obtain y where y: "y \<in> set (mark_missed now rows)" "x = (if y = j then c else y)"
      using jm by auto
    then have "(if ej_job_id y = ej_job_id j then y\<lparr>ej_state := JOB_RUNNING, ej_attempts := ej_attempts y + 1,
               ej_lease_owner := worker, ej_lease_until := l\<rparr> else y) \<in> set rows'"
      unfolding some(5) take_lease_def by (intro sql_update_in)
    with y same_job [OF ok y(1) jm] c show "x \<in> set rows'" by (auto split: if_splits)
  qed
  have "ej_state x = JOB_SCHEDULED \<longrightarrow> now < ej_deadline x" if "x \<in> set (mark_missed now rows)" for x
    using that unfolding mark_missed_def by (auto dest!: sql_update_from split: if_splits)
  then have "list_all (\<lambda>x. ej_state x = JOB_SCHEDULED \<longrightarrow> now < ej_deadline x) rows'"
    using rows' c by (auto simp: list_all_iff)
  with rows' c some(1-3) show ?thesis unfolding claimable_def by blast
qed

text \<open>C16: A lease is exclusive: while a running job's lease has not run out, no claim by any worker
  returns the job or changes it.\<close>

theorem lease_is_exclusive:
  assumes "jobs_ok rows" "j \<in> set rows" "ej_state j = JOB_RUNNING" "now < ej_lease_until j"
    and "sql_claim_due now worker secs rows = (Inr r, rows')"
  shows "j \<in> set rows' \<and> (\<forall>c. r = Some c \<longrightarrow> ej_job_id c \<noteq> ej_job_id j)"
proof -
  have jm: "j \<in> set (mark_missed now rows)"
    using mark_missed_keeps [OF assms(2)] assms(3) by simp
  from assms(1,5) show ?thesis
  proof (cases rule: claim_cases)
    case none
    with jm show ?thesis by simp
  next
    case (some k l)
    have "ej_job_id k \<noteq> ej_job_id j"
      using same_job [OF assms(1) some(1) assms(2)] some(2) assms(3,4) by (auto simp: claimable_def)
    with some jm show ?thesis
      using sql_update_in [OF jm, of "\<lambda>x. ej_job_id x = ej_job_id k"] by (auto simp: take_lease_def)
  qed
qed

section \<open>A concrete queue\<close>

definition sample_job :: "job_state \<Rightarrow> string \<Rightarrow> execution_job" where
  "sample_job st owner = \<lparr> ej_job_id = ''j'', ej_case_id = ''c'',
     ej_execute_at = ''2026-01-01T00:00:00Z'', ej_deadline = ''2026-01-01T02:00:00Z'',
     ej_state = st, ej_attempts = 0, ej_lease_owner = owner,
     ej_lease_until = (if owner = [] then [] else ''2026-01-01T01:05:00Z''), ej_detail = [] \<rparr>"

lemma sample_jobs_ok: "jobs_ok [sample_job st w]"
  by (simp add: jobs_ok_def)

lemma sample_claim:
  "case sql_claim_due ''2026-01-01T01:00:00Z'' ''w'' 300 [sample_job JOB_SCHEDULED []] of
     (Inr (Some c), rows) \<Rightarrow> ej_lease_until c = ''2026-01-01T01:05:00Z'' | _ \<Rightarrow> False"
  by code_simp

theorem claim_respects_window_and_lease_witness:
  "\<exists>c rows. sql_claim_due ''2026-01-01T01:00:00Z'' ''w'' 300 [sample_job JOB_SCHEDULED []] =
       (Inr (Some c), rows) \<and> c \<in> set rows"
proof -
  from sample_claim obtain c rows where
    c: "sql_claim_due ''2026-01-01T01:00:00Z'' ''w'' 300 [sample_job JOB_SCHEDULED []] = (Inr (Some c), rows)"
    by (auto split: prod.splits sum.splits option.splits)
  with claim_respects_window_and_lease [OF sample_jobs_ok c] show ?thesis by blast
qed

theorem lease_is_exclusive_witness:
  "snd (sql_claim_due ''2026-01-01T01:00:00Z'' ''v'' 300 [sample_job JOB_RUNNING ''w'']) \<noteq> [] \<and>
   is_ok (fst (sql_claim_due ''2026-01-01T01:00:00Z'' ''v'' 300 [sample_job JOB_RUNNING ''w'']))"
proof -
  let ?j = "sample_job JOB_RUNNING ''w''"
  have "is_ok (fst (sql_claim_due ''2026-01-01T01:00:00Z'' ''v'' 300 [?j]))" by code_simp
  then obtain r rows where c: "sql_claim_due ''2026-01-01T01:00:00Z'' ''v'' 300 [?j] = (Inr r, rows)"
    unfolding is_ok_iff by (metis prod.collapse)
  have "ej_state ?j = JOB_RUNNING" "''2026-01-01T01:00:00Z'' < ej_lease_until ?j" by code_simp+
  from lease_is_exclusive [OF sample_jobs_ok _ this c] c show ?thesis by (auto simp: is_ok_iff)
qed

section \<open>The two stores\<close>

lemma pg_first_in: "pg_first le hit rows = Some j \<Longrightarrow> j \<in> set rows \<and> hit j"
  by (induction rows arbitrary: j) (auto split: option.splits if_splits)

lemma sql_update_none: "filter hit rows = [] \<Longrightarrow> sql_update hit f rows = rows"
  by (induction rows) (auto simp: sql_update_def split: if_splits)

text \<open>The rows other transactions hold, and the others.\<close>

definition free_jobs :: "string list \<Rightarrow> execution_job list \<Rightarrow> execution_job list" where
  "free_jobs locked rows = filter (\<lambda>j. ej_job_id j \<notin> set locked) rows"

definition held_jobs :: "string list \<Rightarrow> execution_job list \<Rightarrow> execution_job list" where
  "held_jobs locked rows = filter (\<lambda>j. ej_job_id j \<in> set locked) rows"

text \<open>The texts a claim compares, on which a collation may or may not agree with their bytes.\<close>

definition compared_texts :: "string \<Rightarrow> execution_job list \<Rightarrow> string set" where
  "compared_texts now rows =
     insert now (\<Union>j \<in> set rows. {ej_execute_at j, ej_deadline j, ej_lease_until j, ej_job_id j})"

definition bytewise_on :: "string set \<Rightarrow> (string \<Rightarrow> string \<Rightarrow> bool) \<Rightarrow> bool" where
  "bytewise_on ts le = (\<forall>x \<in> ts. \<forall>y \<in> ts. le x y \<longleftrightarrow> x \<le> y)"

lemma update_filtered:
  assumes "\<And>j. P (f j) = P j"
  shows "filter P (sql_update hit f rows) = sql_update hit f (filter P rows)"
  by (induction rows) (auto simp: sql_update_def assms)

lemma split_mark:
  "free_jobs locked (mark_missed now rows) = mark_missed now (free_jobs locked rows)"
  "held_jobs locked (mark_missed now rows) = mark_missed now (held_jobs locked rows)"
  unfolding free_jobs_def held_jobs_def mark_missed_def by (rule update_filtered; simp)+

lemma split_lease:
  "free_jobs locked (take_lease i w l rows) = take_lease i w l (free_jobs locked rows)"
  "i \<notin> set locked \<Longrightarrow> held_jobs locked (take_lease i w l rows) = held_jobs locked rows"
proof -
  show "free_jobs locked (take_lease i w l rows) = take_lease i w l (free_jobs locked rows)"
    unfolding free_jobs_def take_lease_def by (rule update_filtered) simp
  assume "i \<notin> set locked"
  then show "held_jobs locked (take_lease i w l rows) = held_jobs locked rows"
    unfolding held_jobs_def take_lease_def by (induction rows) (auto simp: sql_update_def)
qed

lemma jobs_ok_free: "jobs_ok rows \<Longrightarrow> jobs_ok (free_jobs locked rows)"
  by (simp add: jobs_ok_def free_jobs_def distinct_map_filter)

lemma texts_mark: "compared_texts now (mark_missed now' rows) \<subseteq> compared_texts now rows"
proof
  fix x assume "x \<in> compared_texts now (mark_missed now' rows)"
  then consider "x = now" | j where "j \<in> set (mark_missed now' rows)"
    "x \<in> {ej_execute_at j, ej_deadline j, ej_lease_until j, ej_job_id j}"
    by (auto simp: compared_texts_def)
  then show "x \<in> compared_texts now rows"
  proof cases
    case 2
    then obtain k where "k \<in> set rows" "x \<in> {ej_execute_at k, ej_deadline k, ej_lease_until k, ej_job_id k}"
      unfolding mark_missed_def by (auto dest!: sql_update_from split: if_splits)
    then show ?thesis by (auto simp: compared_texts_def)
  qed (simp add: compared_texts_def)
qed

lemma bytewise_mono: "bytewise_on ts le \<Longrightarrow> ts' \<subseteq> ts \<Longrightarrow> bytewise_on ts' le"
  unfolding bytewise_on_def by blast

lemma pg_mark:
  assumes "bytewise_on (compared_texts now rows) le"
  shows "pg_mark_missed le now rows = mark_missed now rows"
proof -
  have "le (ej_deadline j) now \<longleftrightarrow> ej_deadline j \<le> now" if "j \<in> set rows" for j
    using assms that unfolding bytewise_on_def compared_texts_def by blast
  then show ?thesis unfolding pg_mark_missed_def mark_missed_def sql_update_def by (intro map_cong) auto
qed

text \<open>The minimum of the selection is the first row of the sorted selection.\<close>

lemma pg_first_sorted:
  assumes "\<forall>j \<in> set rows. \<forall>k \<in> set rows. pg_before le j k \<longleftrightarrow> key j \<le> (key k :: string \<times> string)"
  shows "pg_first le hit rows = (case sort_key key (filter hit rows) of [] \<Rightarrow> None | k # _ \<Rightarrow> Some k)"
  using assms
proof (induction rows)
  case (Cons j js)
  then have IH: "pg_first le hit js = (case sort_key key (filter hit js) of [] \<Rightarrow> None | k # _ \<Rightarrow> Some k)"
    by simp
  show ?case
  proof (cases "sort_key key (filter hit js)")
    case Nil
    with IH show ?thesis by simp
  next
    case (Cons k ks)
    have "k \<in> set (sort_key key (filter hit js))" by (simp add: Cons)
    then have "pg_before le j k \<longleftrightarrow> key j \<le> key k" using Cons.prems by auto
    with IH Cons show ?thesis by auto
  qed
qed simp

lemma pg_first_due:
  assumes "bytewise_on (compared_texts now rows) le"
  shows "pg_first le (\<lambda>j. pg_claimable le now j \<and> ej_job_id j \<notin> set locked) rows =
    (case due_jobs now (free_jobs locked rows) of [] \<Rightarrow> None | k # _ \<Rightarrow> Some k)"
proof -
  let ?key = "\<lambda>j. (ej_execute_at j, ej_job_id j)"
  have cmp: "le x y \<longleftrightarrow> x \<le> y" if "x \<in> compared_texts now rows" "y \<in> compared_texts now rows" for x y
    using assms that unfolding bytewise_on_def by blast
  have "\<forall>j \<in> set rows. \<forall>k \<in> set rows. pg_before le j k \<longleftrightarrow> ?key j \<le> ?key k"
  proof (intro ballI)
    fix j k assume "j \<in> set rows" "k \<in> set rows"
    then have "{ej_execute_at j, ej_job_id j, ej_execute_at k, ej_job_id k} \<subseteq> compared_texts now rows"
      by (auto simp: compared_texts_def)
    then show "pg_before le j k \<longleftrightarrow> ?key j \<le> ?key k"
      using cmp by (auto simp: pg_before_def less_eq_prod_def)
  qed
  note sorted = pg_first_sorted [OF this]
  have "(pg_claimable le now j \<and> ej_job_id j \<notin> set locked) \<longleftrightarrow> (ej_job_id j \<notin> set locked \<and> claimable now j)"
    if "j \<in> set rows" for j
  proof -
    have "{now, ej_execute_at j, ej_deadline j, ej_lease_until j} \<subseteq> compared_texts now rows"
      using that by (auto simp: compared_texts_def)
    then show ?thesis using cmp by (auto simp: pg_claimable_def claimable_def)
  qed
  then have "filter (\<lambda>j. pg_claimable le now j \<and> ej_job_id j \<notin> set locked) rows =
      filter (claimable now) (free_jobs locked rows)"
    unfolding free_jobs_def filter_filter by (intro filter_cong) auto
  with sorted show ?thesis unfolding due_jobs_def by simp
qed

lemma returned_job:
  assumes "jobs_ok rows" "j \<in> set rows"
  shows "update_returning (\<lambda>x. ej_job_id x = ej_job_id j) f rows =
    (Inr (Some (f j)), sql_update (\<lambda>x. ej_job_id x = ej_job_id j) f rows)"
proof -
  have "filter (\<lambda>x. ej_job_id x = ej_job_id j) rows = [j]"
    using assms by (induction rows) (force simp: jobs_ok_def filter_empty_conv image_iff)+
  then show ?thesis by (simp add: update_returning_def)
qed

text \<open>A claim of the PostgreSQL store, opened up as the one of the SQLite store, for any collation and
  any locked rows.\<close>

lemma pg_claim_run:
  assumes "jobs_ok rows" "lease_end now worker secs = Inr l"
  shows "pg_claim_due le locked now worker secs rows =
    (case pg_first le (\<lambda>j. pg_claimable le now j \<and> ej_job_id j \<notin> set locked) (pg_mark_missed le now rows) of
       None \<Rightarrow> (Inr None, pg_mark_missed le now rows)
     | Some j \<Rightarrow> (Inr (Some (j\<lparr>ej_state := JOB_RUNNING, ej_attempts := ej_attempts j + 1,
           ej_lease_owner := worker, ej_lease_until := l\<rparr>)),
         take_lease (ej_job_id j) worker l (pg_mark_missed le now rows)))"
proof -
  have ok: "jobs_ok (pg_mark_missed le now rows)"
    using assms(1) by (simp add: jobs_ok_def pg_mark_missed_def sql_update_ids)
  show ?thesis
    using assms(2) returned_job [OF ok] pg_first_in
    by (auto simp: pg_claim_due_def run_defs take_lease_def split: option.splits dest!: pg_first_in)
qed

lemma sql_claim_run:
  assumes "jobs_ok rows" "lease_end now worker secs = Inr l"
  shows "sql_claim_due now worker secs rows =
    (case due_jobs now (mark_missed now rows) of
       [] \<Rightarrow> (Inr None, mark_missed now rows)
     | j # _ \<Rightarrow> (Inr (Some (j\<lparr>ej_state := JOB_RUNNING, ej_attempts := ej_attempts j + 1,
           ej_lease_owner := worker, ej_lease_until := l\<rparr>)),
         take_lease (ej_job_id j) worker l (mark_missed now rows)))"
proof (cases "due_jobs now (mark_missed now rows)")
  case (Cons j js)
  let ?rows = "take_lease (ej_job_id j) worker l (mark_missed now rows)"
  let ?j = "j\<lparr>ej_state := JOB_RUNNING, ej_attempts := ej_attempts j + 1,
           ej_lease_owner := worker, ej_lease_until := l\<rparr>"
  have ok: "jobs_ok ?rows" using assms(1) by (simp add: jobs_ok_kept)
  have "j \<in> set (mark_missed now rows)" using due_job [OF Cons] by blast
  from sql_update_in [OF this, of "\<lambda>x. ej_job_id x = ej_job_id j"] have "?j \<in> set ?rows"
    unfolding take_lease_def by auto
  from sql_job_get_row [OF ok this] show ?thesis
    using assms(2) Cons by (simp add: sql_claim_due_def run_defs)
qed (use assms in \<open>simp add: sql_claim_due_def run_defs\<close>)

lemma complete_agrees:
  assumes "jobs_ok rows" "st \<noteq> JOB_CONTAINED"
  shows "pg_complete i worker st detail rows = sql_complete i worker st detail rows"
proof -
  let ?f = "\<lambda>j. j\<lparr>ej_state := st, ej_detail := detail, ej_lease_owner := [], ej_lease_until := []\<rparr>"
  have few: "length (filter (leased_by i worker) rows) \<le> 1"
    using assms(1) by (induction rows) (force simp: jobs_ok_def leased_by_def filter_empty_conv image_iff)+
  have hit: "(\<lambda>j. ej_job_id j = i \<and> ej_state j = JOB_RUNNING \<and> ej_lease_owner j = worker) = leased_by i worker"
    by (simp add: leased_by_def fun_eq_iff)
  consider "filter (leased_by i worker) rows = []" | j where "filter (leased_by i worker) rows = [j]"
    using few by (cases "filter (leased_by i worker) rows") auto
  then show ?thesis
  proof cases
    case 1
    then show ?thesis using assms(2)
      by (cases st) (simp_all add: pg_complete_def sql_complete_def complete_job_def hit update_returning_def
          sql_update_none run_defs guardE_def transaction_def release_lease_def)
  next
    case 2
    then have j: "j \<in> set rows" "leased_by i worker j"
      by (metis list.set_intros(1) mem_Collect_eq set_filter)+
    have ok: "jobs_ok (sql_update (leased_by i worker) ?f rows)" using assms(1) by (simp add: jobs_ok_def sql_update_ids)
    have "?f j \<in> set (sql_update (leased_by i worker) ?f rows)"
      using sql_update_in [OF j(1), of "leased_by i worker" ?f] j(2) by simp
    with sql_job_get_row [OF ok] j(2) have "sql_job_get i (sql_update (leased_by i worker) ?f rows) =
        (Inr (?f j), sql_update (leased_by i worker) ?f rows)" by (force simp: leased_by_def)
    with 2 show ?thesis using assms(2)
      by (cases st) (simp_all add: pg_complete_def sql_complete_def complete_job_def hit update_returning_def
          run_defs guardE_def transaction_def release_lease_def)
  qed
qed

lemma claims_agree:
  assumes "jobs_ok rows" "bytewise_on (compared_texts now rows) le"
  shows "case pg_claim_due le locked now worker secs rows of (r, rows') \<Rightarrow>
      sql_claim_due now worker secs (free_jobs locked rows) = (r, free_jobs locked rows') \<and>
      (is_ok r \<longrightarrow> held_jobs locked rows' = mark_missed now (held_jobs locked rows)) \<and>
      (locked = [] \<longrightarrow> sql_claim_due now worker secs rows = (r, rows'))"
proof -
  have all: "free_jobs [] rows' = rows'" for rows' by (simp add: free_jobs_def)
  show "case pg_claim_due le locked now worker secs rows of (r, rows') \<Rightarrow>
      sql_claim_due now worker secs (free_jobs locked rows) = (r, free_jobs locked rows') \<and>
      (is_ok r \<longrightarrow> held_jobs locked rows' = mark_missed now (held_jobs locked rows)) \<and>
      (locked = [] \<longrightarrow> sql_claim_due now worker secs rows = (r, rows'))"
  proof (cases "lease_end now worker secs")
    case (Inl e)
    then show ?thesis by (simp add: pg_claim_due_def sql_claim_due_def run_defs)
  next
    case (Inr l)
    note sel = pg_first_due [OF bytewise_mono [OF assms(2) texts_mark [of now now rows]], of locked]
    note pg = pg_claim_run [OF assms(1) Inr, of le locked, unfolded pg_mark [OF assms(2)] sel split_mark]
    note sql = sql_claim_run [OF jobs_ok_free [OF assms(1)] Inr, of locked]
    show ?thesis
    proof (cases "due_jobs now (mark_missed now (free_jobs locked rows))")
      case Nil
      with pg sql show ?thesis by (auto simp: split_mark all)
    next
      case (Cons j js)
      have "ej_job_id j \<notin> set locked"
        using due_job [OF Cons [folded split_mark]] by (simp add: free_jobs_def)
      with Cons pg sql show ?thesis by (auto simp: split_mark split_lease all)
    qed
  qed
qed

text \<open>C18: The two stores agree. When the database orders the texts of the queue as their bytes, the
  PostgreSQL store claims, from any queue, the job that the SQLite store claims from the rows that
  no other transaction holds, with the same effect on them, and of the rows that are held it only
  marks the missed ones; with nothing held the two claims are the same. A job is completed alike
  in every final state but \<open>contained\<close>.\<close>

theorem stores_agree:
  assumes "jobs_ok rows" "bytewise_on (compared_texts now rows) le"
  shows "(case pg_claim_due le locked now worker secs rows of (r, rows') \<Rightarrow>
      sql_claim_due now worker secs (free_jobs locked rows) = (r, free_jobs locked rows') \<and>
      (is_ok r \<longrightarrow> held_jobs locked rows' = mark_missed now (held_jobs locked rows)) \<and>
      (locked = [] \<longrightarrow> sql_claim_due now worker secs rows = (r, rows'))) \<and>
    (st \<noteq> JOB_CONTAINED \<longrightarrow> pg_complete i worker st detail rows = sql_complete i worker st detail rows)"
  by (intro conjI impI claims_agree [OF assms] complete_agrees [OF assms(1)])

text \<open>A queue of two jobs, the first of which another transaction holds.\<close>

definition two_jobs :: "execution_job list" where
  "two_jobs = [sample_job JOB_SCHEDULED [], (sample_job JOB_SCHEDULED [])\<lparr>ej_job_id := ''k'', ej_case_id := ''d''\<rparr>]"

lemma two_jobs_claim:
  "fst (sql_claim_due ''2026-01-01T01:00:00Z'' ''w'' 300 (free_jobs [''j''] two_jobs)) =
     Inr (Some ((sample_job JOB_SCHEDULED [])\<lparr>ej_job_id := ''k'', ej_case_id := ''d'', ej_state := JOB_RUNNING,
       ej_attempts := 1, ej_lease_owner := ''w'', ej_lease_until := ''2026-01-01T01:05:00Z''\<rparr>))"
  by code_simp

theorem stores_agree_witness:
  "fst (pg_claim_due (\<le>) [''j''] ''2026-01-01T01:00:00Z'' ''w'' 300 two_jobs) =
     Inr (Some ((sample_job JOB_SCHEDULED [])\<lparr>ej_job_id := ''k'', ej_case_id := ''d'', ej_state := JOB_RUNNING,
       ej_attempts := 1, ej_lease_owner := ''w'', ej_lease_until := ''2026-01-01T01:05:00Z''\<rparr>))"
proof -
  have ok: "jobs_ok two_jobs" by (simp add: two_jobs_def jobs_ok_def sample_job_def)
  have le: "bytewise_on (compared_texts ''2026-01-01T01:00:00Z'' two_jobs) (\<le>)" by (simp add: bytewise_on_def)
  obtain r rows where pg: "pg_claim_due (\<le>) [''j''] ''2026-01-01T01:00:00Z'' ''w'' 300 two_jobs = (r, rows)"
    by (metis surj_pair)
  from conjunct1 [OF stores_agree [OF ok le, where locked = "[''j'']" and worker = "''w''" and secs = 300], unfolded pg prod.case] two_jobs_claim pg
  show ?thesis by simp
qed

end
