(* ===== verification/World.thy ===== *)
theory World
  imports Case_Store Records Findings Jobs
begin

text \<open>
  The state that the application services share: the four durable stores, the files under the
  artifact root, a counter of the readings of clock and id factory, and a state of the outside
  world for the adapters a service is given (cloud readers, drivers, monitors, agent runtimes).
  What the environment supplies, the time and the fresh id of each reading and the hash function
  of \<open>hashlib\<close>, is a record of parameters. \<open>src/elcapitan/evidence.py\<close> writes the evidence
  files.
\<close>

section \<open>State and environment\<close>

record 'x world =
  wd_cases :: sql_cases
  wd_records :: "product_row list"
  wd_findings :: "finding_row list"
  wd_jobs :: "execution_job list"
  wd_files :: "(string, string) dict"
  wd_tick :: nat
  wd_outside :: 'x

record env =
  env_now :: "nat \<Rightarrow> string"
  env_id :: "nat \<Rightarrow> string \<Rightarrow> string"
  env_sha256 :: "string \<Rightarrow> string"

definition on_cases :: "(sql_cases, 'a) prog \<Rightarrow> ('x world, 'a) prog" where
  "on_cases m w = (case m (wd_cases w) of (r, s) \<Rightarrow> (r, w\<lparr>wd_cases := s\<rparr>))"

definition on_records :: "(product_row list, 'a) prog \<Rightarrow> ('x world, 'a) prog" where
  "on_records m w = (case m (wd_records w) of (r, s) \<Rightarrow> (r, w\<lparr>wd_records := s\<rparr>))"

definition on_findings :: "(finding_row list, 'a) prog \<Rightarrow> ('x world, 'a) prog" where
  "on_findings m w = (case m (wd_findings w) of (r, s) \<Rightarrow> (r, w\<lparr>wd_findings := s\<rparr>))"

definition on_jobs :: "(execution_job list, 'a) prog \<Rightarrow> ('x world, 'a) prog" where
  "on_jobs m w = (case m (wd_jobs w) of (r, s) \<Rightarrow> (r, w\<lparr>wd_jobs := s\<rparr>))"

definition on_outside :: "('x, 'a) prog \<Rightarrow> ('x world, 'a) prog" where
  "on_outside m w = (case m (wd_outside w) of (r, s) \<Rightarrow> (r, w\<lparr>wd_outside := s\<rparr>))"

definition clock_now :: "env \<Rightarrow> ('x world, string) prog" where
  "clock_now env w = (Inr (env_now env (wd_tick w)), w\<lparr>wd_tick := wd_tick w + 1\<rparr>)"

definition new_id :: "env \<Rightarrow> string \<Rightarrow> ('x world, string) prog" where
  "new_id env pre w = (Inr (env_id env (wd_tick w) pre), w\<lparr>wd_tick := wd_tick w + 1\<rparr>)"

text \<open>The coordinator on the shared case store.\<close>

definition get_case :: "string \<Rightarrow> ('x world, remediation_case) prog" where
  "get_case i = on_cases (cs_get sql_ops i)"

definition advance ::
  "string \<Rightarrow> case_transition \<Rightarrow> transition_args \<Rightarrow> ('x world, remediation_case) prog" where
  "advance i t a = on_cases (workflow_advance sql_ops i t a)"

definition open_new :: "open_args \<Rightarrow> ('x world, remediation_case) prog" where
  "open_new a = on_cases (workflow_open sql_ops a)"

definition put_record :: "product_record \<Rightarrow> ('x world, unit) prog" where
  "put_record r = on_records (rs_put sql_record_ops r)"

definition get_record :: "string \<Rightarrow> ('x world, product_record) prog" where
  "get_record i = on_records (rs_get sql_record_ops i)"

definition list_records :: "string \<Rightarrow> string option \<Rightarrow> ('x world, product_record list) prog" where
  "list_records i t = on_records (rs_list sql_record_ops i t)"

text \<open>A record is built by its constructor, which may refuse it.\<close>

definition store_record :: "product_record \<Rightarrow> ('x world, product_record) prog" where
  "store_record r = bindM (liftE (mk_product_record r)) (\<lambda>r. bindM (put_record r) (\<lambda>_. ret r))"

text \<open>\<open>str(exc)\<close>.\<close>

definition exn_str :: "exn \<Rightarrow> string" where
  "exn_str e = (if exn_isa e [KeyError] then repr_str (exn_msg e) else exn_msg e)"

section \<open>Evidence\<close>

record collector =
  co_tool :: string
  co_version :: string
  co_identity :: string

record evidence_ref =
  ef_evidence_id :: string
  ef_type :: string
  ef_artifact_path :: string
  ef_sha256 :: string
  ef_collected_at :: string
  ef_sensitivity :: string
  ef_command_id :: string
  ef_collector :: collector

definition evidence_ref_to_dict :: "evidence_ref \<Rightarrow> pyval" where
  "evidence_ref_to_dict r = PDict
     [(''evidence_id'', PStr (ef_evidence_id r)), (''type'', PStr (ef_type r)),
      (''artifact_path'', PStr (ef_artifact_path r)), (''sha256'', PStr (ef_sha256 r)),
      (''collected_at'', PStr (ef_collected_at r)), (''sensitivity'', PStr (ef_sensitivity r)),
      (''command_id'', PStr (ef_command_id r)),
      (''collector'', PDict [(''tool'', PStr (co_tool (ef_collector r))),
                             (''version'', PStr (co_version (ef_collector r))),
                             (''identity'', PStr (co_identity (ef_collector r)))])]"

text \<open>\<open>^EVD-[0-9]{3,}$\<close> with \<open>match\<close>: the \<open>$\<close> also matches before a final line feed.\<close>

definition evidence_id_body :: "string \<Rightarrow> bool" where
  "evidence_id_body s =
     (take 4 s = ''EVD-'' \<and> 3 \<le> length (drop 4 s) \<and> list_all is_digit (drop 4 s))"

definition evidence_id_ok :: "string \<Rightarrow> bool" where
  "evidence_id_ok s =
     (evidence_id_body s \<or> (s \<noteq> [] \<and> last s = CHR 0x0A \<and> evidence_id_body (butlast s)))"

definition write_evidence ::
  "env \<Rightarrow> string \<Rightarrow> string \<Rightarrow> string \<Rightarrow> string \<Rightarrow> collector \<Rightarrow> string \<Rightarrow> string \<Rightarrow> string \<Rightarrow>
   ('x world, evidence_ref) prog" where
  "write_evidence env run_dir evidence_id kind payload collector sensitivity command_id now =
     bindM (guardM (evidence_id_ok evidence_id) ValueError
              (''evidence_id must match ^EVD-[0-9]{3,}$: '' @ repr_str evidence_id)) (\<lambda>_.
     let relative = ''evidence/'' @ evidence_id @ ''.bin'';
         path = run_dir @ ''/'' @ relative
     in bindM (getsM wd_files) (\<lambda>files.
        bindM (guardM (\<not> dict_has files path) FileExistsError (''File exists: '' @ path)) (\<lambda>_.
        bindM (modifyM (\<lambda>w. w\<lparr>wd_files := dict_set path payload (wd_files w)\<rparr>)) (\<lambda>_.
        ret \<lparr> ef_evidence_id = evidence_id, ef_type = kind, ef_artifact_path = relative,
              ef_sha256 = env_sha256 env payload, ef_collected_at = now,
              ef_sensitivity = sensitivity, ef_command_id = command_id,
              ef_collector = collector \<rparr>))))"

text \<open>\<open>verify_evidence\<close> on a directory without symbolic links: never raises.\<close>

fun path_parts :: "string \<Rightarrow> string list" where
  "path_parts [] = [[]]"
| "path_parts (c # cs) = (if c = CHR ''/'' then [] # path_parts cs
     else (case path_parts cs of p # ps \<Rightarrow> (c # p) # ps | [] \<Rightarrow> [[c]]))"

definition unsafe_path :: "string \<Rightarrow> bool" where
  "unsafe_path relative = (take 1 relative = ''/'' \<or> ''..'' \<in> set (path_parts relative))"

definition verify_evidence :: "env \<Rightarrow> string \<Rightarrow> evidence_ref \<Rightarrow> 'x world \<Rightarrow> bool" where
  "verify_evidence env run_dir r w =
     (\<not> unsafe_path (ef_artifact_path r) \<and>
      (case dict_get (wd_files w) (run_dir @ ''/'' @ ef_artifact_path r) of
         None \<Rightarrow> False
       | Some payload \<Rightarrow> env_sha256 env payload = ef_sha256 r))"

section \<open>Frames\<close>

lemma bindM_step: "m s = (Inr x, s') \<Longrightarrow> bindM m f s = f x s'"
  "m s = (Inl e, s') \<Longrightarrow> bindM m f s = (Inl e, s')"
  by (simp_all add: bindM_def)

lemmas on_defs = on_cases_def on_records_def on_findings_def on_jobs_def on_outside_def

lemma on_cases_run [run_simps]:
  "on_cases m w = (r, w') \<longleftrightarrow> (\<exists>s. m (wd_cases w) = (r, s) \<and> w' = w\<lparr>wd_cases := s\<rparr>)"
  by (auto simp: on_cases_def split: prod.splits)

lemma on_records_run [run_simps]:
  "on_records m w = (r, w') \<longleftrightarrow> (\<exists>s. m (wd_records w) = (r, s) \<and> w' = w\<lparr>wd_records := s\<rparr>)"
  by (auto simp: on_records_def split: prod.splits)

lemma on_findings_run [run_simps]:
  "on_findings m w = (r, w') \<longleftrightarrow> (\<exists>s. m (wd_findings w) = (r, s) \<and> w' = w\<lparr>wd_findings := s\<rparr>)"
  by (auto simp: on_findings_def split: prod.splits)

lemma on_jobs_run [run_simps]:
  "on_jobs m w = (r, w') \<longleftrightarrow> (\<exists>s. m (wd_jobs w) = (r, s) \<and> w' = w\<lparr>wd_jobs := s\<rparr>)"
  by (auto simp: on_jobs_def split: prod.splits)

lemma on_outside_run [run_simps]:
  "on_outside m w = (r, w') \<longleftrightarrow> (\<exists>s. m (wd_outside w) = (r, s) \<and> w' = w\<lparr>wd_outside := s\<rparr>)"
  by (auto simp: on_outside_def split: prod.splits)

lemma clock_now_run [run_simps]:
  "clock_now env w = (r, w') \<longleftrightarrow> r = Inr (env_now env (wd_tick w)) \<and> w' = w\<lparr>wd_tick := wd_tick w + 1\<rparr>"
  by (auto simp: clock_now_def)

lemma new_id_run [run_simps]:
  "new_id env p w = (r, w') \<longleftrightarrow> r = Inr (env_id env (wd_tick w) p) \<and> w' = w\<lparr>wd_tick := wd_tick w + 1\<rparr>"
  by (auto simp: new_id_def)

text \<open>The stores of a world are in order: this is what every service keeps.\<close>

definition cases_ok :: "sql_cases \<Rightarrow> bool" where
  "cases_ok db = (sql_ok db \<and> logged (sql_view db) \<and> one_active (sql_view db))"

definition world_ok :: "'x world \<Rightarrow> bool" where
  "world_ok w = (cases_ok (wd_cases w) \<and> sql_record_ok (wd_records w) \<and>
                 findings_ok (wd_findings w) \<and> jobs_ok (wd_jobs w))"

lemma keeps_on:
  "keeps cases_ok m1 \<Longrightarrow> keeps world_ok (on_cases m1)"
  "keeps sql_record_ok m2 \<Longrightarrow> keeps world_ok (on_records m2)"
  "keeps findings_ok m3 \<Longrightarrow> keeps world_ok (on_findings m3)"
  "keeps jobs_ok m4 \<Longrightarrow> keeps world_ok (on_jobs m4)"
  by (simp_all add: keeps_def on_defs world_ok_def case_prod_unfold)

lemma keeps_get_case [keeps_intros]: "keeps world_ok (get_case i)"
  unfolding get_case_def
  by (intro keeps_on) (simp add: keeps_def cases_ok_def sql.get_law)

lemma advance_cases_ok:
  assumes "cases_ok s" "args_ok a" "workflow_advance sql_ops i t a s = (r, s')"
  shows "cases_ok s'"
proof (cases "sql_view s i")
  case None
  then have "s' = s" using assms sql.get_law [of s i]
    by (simp add: cases_ok_def workflow_advance_def bindM_def)
  with assms show ?thesis by simp
next
  case (Some v)
  obtain c es where v: "v = (c, es)" by (cases v)
  have g: "cs_get sql_ops i s = (Inr c, s)" using sql.get_law [of s i] assms(1) Some v by (simp add: cases_ok_def)
  have c: "case_ok c" "rc_case_id c = i" using assms(1) Some v unfolding cases_ok_def logged_def by blast+
  show ?thesis
  proof (cases "transition_case c t a")
    case (Inl e)
    with assms(3) g have "s' = s" by (simp add: workflow_advance_def run_defs)
    with assms show ?thesis by simp
  next
    case (Inr pe)
    obtain p e where pe: "pe = (p, e)" by (cases pe)
    obtain r' where w: "cs_append sql_ops p e (rc_version c) s = (r', s')"
      using assms(3) g Inr pe by (auto simp: workflow_advance_def run_defs split: prod.splits sum.splits)
    have "transition_case c t a = Inr (p, e)" "sql_view s (rc_case_id c) = Some (c, es)"
      using Inr pe Some v c(2) by simp_all
    then have "pending_ok (sql_view s) (p, e, rc_version c)"
      using assms(2) c(1) unfolding pending_ok_def fst_conv snd_conv by blast
    from sql.written_keeps [OF _ _ _ this w] assms(1) show ?thesis unfolding cases_ok_def by blast
  qed
qed

lemma keeps_advance [keeps_intros]:
  assumes "args_ok a" shows "keeps world_ok (advance i t a)"
  unfolding advance_def
proof (intro keeps_on, unfold keeps_def, intro allI impI)
  fix s assume "cases_ok s"
  from advance_cases_ok [OF this assms surjective_pairing]
  show "cases_ok (snd (workflow_advance sql_ops i t a s))" by simp
qed

lemma keeps_open_new [keeps_intros]: "keeps world_ok (open_new a)"
  unfolding open_new_def
proof (intro keeps_on, unfold keeps_def, intro allI impI)
  fix s assume "cases_ok s"
  then show "cases_ok (snd (workflow_open sql_ops a s))"
    using sql.open_keeps [of s a "fst (workflow_open sql_ops a s)" "snd (workflow_open sql_ops a s)"]
    by (simp add: cases_ok_def)
qed

lemma sql_record_get_state: "snd (sql_record_get i s) = s"
  by (auto simp: sql_record_get_def run_defs split: option.splits)

lemma keeps_get_record [keeps_intros]: "keeps world_ok (get_record i)"
  unfolding get_record_def
  by (intro keeps_on) (simp add: keeps_def sql_record_ops_def sql_record_get_state)

lemma keeps_list_records [keeps_intros]: "keeps world_ok (list_records i t)"
  unfolding list_records_def
  by (intro keeps_on) (simp add: keeps_def sql_record_ops_def sql_record_list_def run_defs)

lemma keeps_store_record [keeps_intros]: "keeps world_ok (store_record r)"
proof (cases "mk_product_record r")
  case (Inl e)
  then show ?thesis by (simp add: store_record_def keeps_def run_defs)
next
  case (Inr r')
  then have "is_ok (mk_product_record r')" by (auto simp: mk_product_record_def res_simps)
  then have "keeps world_ok (put_record r')"
    unfolding put_record_def by (intro keeps_on) (simp add: keeps_def sql_record.put_keeps)
  with Inr show ?thesis
    unfolding store_record_def keeps_def bindM_def liftE_def ret_def
    by (auto split: prod.splits sum.splits)
qed

lemma keeps_readings [keeps_intros]:
  "keeps world_ok (clock_now env)" "keeps world_ok (new_id env p)" "keeps world_ok (on_outside m)"
  by (auto simp: keeps_def clock_now_def new_id_def on_outside_def world_ok_def split: prod.splits)

lemma keeps_write_evidence [keeps_intros]:
  "keeps world_ok (write_evidence env d i k p c sens cmd n)"
  unfolding write_evidence_def Let_def
  by (intro keeps_intros) (simp add: keeps_def modifyM_def world_ok_def)

end
