(* ===== verification/Scheduling.thy ===== *)
theory Scheduling
  imports World Case_Properties
begin

text \<open>
  The services of \<open>src/elcapitan/scheduler.py\<close>: \<open>ExecutionScheduler.schedule\<close> releases an approved
  case to the job queue, \<open>ScheduledExecutionWorker.run_once\<close> claims one due job, executes it
  and releases its lease. The job store is a parameter, so that both stores are covered.
\<close>

section \<open>Scheduling an approved case\<close>

record scheduling_outcome =
  so_case :: remediation_case
  so_record :: product_record
  so_job :: execution_job

definition job_of_window :: "string \<Rightarrow> string \<Rightarrow> change_window \<Rightarrow> execution_job" where
  "job_of_window job_id case_id window =
     \<lparr> ej_job_id = job_id, ej_case_id = case_id, ej_execute_at = cw_starts_at window,
       ej_deadline = cw_ends_at window, ej_state = JOB_SCHEDULED, ej_attempts = 0,
       ej_lease_owner = [], ej_lease_until = [], ej_detail = [] \<rparr>"

definition schedule_record :: "string \<Rightarrow> string \<Rightarrow> string \<Rightarrow> execution_job \<Rightarrow> change_window \<Rightarrow> product_record" where
  "schedule_record schedule_id case_id created_at job window =
     \<lparr> pr_record_id = schedule_id, pr_case_id = case_id, pr_record_type = ''ExecutionSchedule.v1'',
       pr_schema_version = 1, pr_created_at = created_at,
       pr_body = PDict [(''schedule_id'', PStr schedule_id), (''job_id'', PStr (ej_job_id job)),
                        (''execute_at'', PStr (ej_execute_at job)),
                        (''deadline'', PStr (ej_deadline job)),
                        (''window_id'', PStr (cw_window_id window))],
       pr_evidence_ids = cw_evidence_ids window \<rparr>"

definition schedule ::
  "env \<Rightarrow> execution_job list job_store_ops \<Rightarrow> string \<Rightarrow> ('x world, scheduling_outcome) prog" where
  "schedule env jobs case_id =
     bindM (get_case case_id) (\<lambda>c.
     case (if rc_state c = APPROVED then rc_change_window c else None) of
       None \<Rightarrow> raise ValueError ''only an approved case with a change window can be scheduled''
     | Some window \<Rightarrow>
        bindM (liftE (parse_timestamp (cw_ends_at window))) (\<lambda>ends_at.
        bindM (clock_now env) (\<lambda>t.
        bindM (liftE (parse_timestamp t)) (\<lambda>current.
        bindM (guardM (\<not> ends_at \<le> current) ValueError
                 ''approved change window has already elapsed'') (\<lambda>_.
        bindM (new_id env ''JOB'') (\<lambda>job_id.
        bindM (new_id env ''SCHEDULE'') (\<lambda>schedule_id.
        bindM (clock_now env) (\<lambda>created_at.
        let job = job_of_window job_id case_id window
        in bindM (on_jobs (js_put jobs job)) (\<lambda>_.
           bindM (store_record (schedule_record schedule_id case_id created_at job window)) (\<lambda>rec.
           bindM (new_id env ''EVT'') (\<lambda>event_id.
           bindM (advance case_id SCHEDULE_EXECUTION
                    (basic_args event_id created_at ''execution-scheduler''
                       [(''schedule_id'', schedule_id), (''execution_job_id'', job_id)]
                       (pr_evidence_ids rec))) (\<lambda>c'.
           ret \<lparr> so_case = c', so_record = rec, so_job = job \<rparr>))))))))))))"

section \<open>Dispatching a due job\<close>

text \<open>What the worker reads of the result of an execution.\<close>

record dispatch_result =
  dr_rolled_back :: bool
  dr_contained :: bool
  dr_case_state :: "string option"

definition final_state :: "dispatch_result \<Rightarrow> job_state" where
  "final_state r = (if dr_contained r then JOB_CONTAINED
                    else if dr_rolled_back r then JOB_ROLLED_BACK else JOB_SUCCEEDED)"

definition final_detail :: "dispatch_result \<Rightarrow> string" where
  "final_detail r = (case dr_case_state r of None \<Rightarrow> job_state_value (final_state r) | Some s \<Rightarrow> s)"

definition run_once ::
  "execution_job list job_store_ops \<Rightarrow> string \<Rightarrow> (execution_job \<Rightarrow> ('x world, dispatch_result) prog) \<Rightarrow>
   string \<Rightarrow> ('x world, (execution_job \<times> dispatch_result) option) prog" where
  "run_once jobs worker_id execute now =
     bindM (on_jobs (js_claim_due jobs now worker_id 300)) (\<lambda>claimed.
     case claimed of None \<Rightarrow> ret None
     | Some job \<Rightarrow>
         tryM (bindM (execute job) (\<lambda>result.
               bindM (on_jobs (js_complete jobs (ej_job_id job) worker_id (final_state result)
                                (final_detail result))) (\<lambda>completed.
               ret (Some (completed, result)))))
           [Exception_class]
           (\<lambda>e. bindM (on_jobs (js_complete jobs (ej_job_id job) worker_id JOB_FAILED
                                  (''execution worker failed: '' @ exn_str e)))
                  (\<lambda>_. liftE (Inl e))))"

section \<open>Facts\<close>

lemma run_once_claimed:
  assumes "js_claim_due jobs now worker 300 (wd_jobs w) = (Inr (Some c), claimed)"
  shows "run_once jobs worker execute now w =
    (case execute c (w\<lparr>wd_jobs := claimed\<rparr>) of
       (Inr res, w2) \<Rightarrow>
         (case js_complete jobs (ej_job_id c) worker (final_state res) (final_detail res) (wd_jobs w2) of
            (Inr j, rows) \<Rightarrow> (Inr (Some (j, res)), w2\<lparr>wd_jobs := rows\<rparr>)
          | (Inl e, rows) \<Rightarrow>
              (case js_complete jobs (ej_job_id c) worker JOB_FAILED
                      (''execution worker failed: '' @ exn_str e) rows of
                 (Inr j, rows) \<Rightarrow> (Inl e, w2\<lparr>wd_jobs := rows\<rparr>)
               | (Inl e', rows) \<Rightarrow> (Inl e', w2\<lparr>wd_jobs := rows\<rparr>)))
     | (Inl e, w2) \<Rightarrow>
         (case js_complete jobs (ej_job_id c) worker JOB_FAILED
                 (''execution worker failed: '' @ exn_str e) (wd_jobs w2) of
            (Inr j, rows) \<Rightarrow> (Inl e, w2\<lparr>wd_jobs := rows\<rparr>)
          | (Inl e', rows) \<Rightarrow> (Inl e', w2\<lparr>wd_jobs := rows\<rparr>)))"
proof -
  have any: "exn_isa e [Exception_class]" for e
    by (cases e; cases "exn_cls e") (simp_all add: exn_isa_def)
  have claim: "on_jobs (js_claim_due jobs now worker 300) w = (Inr (Some c), w\<lparr>wd_jobs := claimed\<rparr>)"
    by (simp add: on_jobs_def assms)
  show ?thesis
    unfolding run_once_def bindM_step(1) [of "on_jobs (js_claim_due jobs now worker 300)", OF claim] option.case(2)
    by (auto simp: tryM_def bindM_def on_jobs_def ret_def liftE_def any split: prod.splits sum.splits)
qed

lemma args_ok_basic [simp]: "args_ok (basic_args i t a rs es)"
  by (simp add: args_ok_def basic_args_def)

lemma put_keeps_jobs: "keeps jobs_ok (sql_job_put j)"
  unfolding keeps_def
proof (intro allI impI)
  fix rows assume ok: "jobs_ok rows"
  have "snd (sql_job_put j rows) \<in> {rows, rows @ [j]} \<and>
      (snd (sql_job_put j rows) \<noteq> rows \<longrightarrow>
         (\<forall>x \<in> set rows. ej_job_id j \<noteq> ej_job_id x \<and> ej_case_id j \<noteq> ej_case_id x))"
    by (auto simp: sql_job_put_def tryM_def transaction_def sql_insert_def guardE_def raise_def list_ex_iff
        split: if_splits)
  with ok show "jobs_ok (snd (sql_job_put j rows))"
    unfolding jobs_ok_def by (cases "snd (sql_job_put j rows) = rows") auto
qed

lemma keeps_schedule: "keeps world_ok (schedule env sql_job_ops i)"
  unfolding schedule_def Let_def
  by (intro keeps_intros keeps_on) (simp_all add: sql_job_ops_def put_keeps_jobs)

lemma complete_run:
  assumes "jobs_ok rows" "filter (leased_by i w) rows = [j]"
    and "st \<in> set final"
  shows "complete_job final i w st detail rows =
    (Inr (j\<lparr>ej_state := st, ej_detail := detail, ej_lease_owner := [], ej_lease_until := []\<rparr>),
     sql_update (leased_by i w) (\<lambda>j. j\<lparr>ej_state := st, ej_detail := detail, ej_lease_owner := [],
       ej_lease_until := []\<rparr>) rows)"
proof -
  let ?f = "\<lambda>j. j\<lparr>ej_state := st, ej_detail := detail, ej_lease_owner := [], ej_lease_until := []\<rparr>"
  let ?rows = "sql_update (leased_by i w) ?f rows"
  have j: "j \<in> set rows" "leased_by i w j"
    using assms(2) by (metis list.set_intros(1) mem_Collect_eq set_filter)+
  have "jobs_ok ?rows" using assms(1) by (simp add: jobs_ok_def sql_update_ids)
  moreover have "?f j \<in> set ?rows" using sql_update_in [OF j(1), of "leased_by i w" ?f] j(2) by simp
  moreover have "ej_job_id (?f j) = i" using j(2) by (simp add: leased_by_def)
  ultimately have "sql_job_get i ?rows = (Inr (?f j), ?rows)" using sql_job_get_row by metis
  then show ?thesis using assms(2,3)
    by (simp add: complete_job_def run_defs transaction_def release_lease_def)
qed

lemma leased_filter:
  assumes "jobs_ok rows" "j \<in> set rows" "leased_by (ej_job_id j) w j"
  shows "filter (leased_by (ej_job_id j) w) rows = [j]"
proof -
  have "\<forall>x \<in> set rows. leased_by (ej_job_id j) w x \<longleftrightarrow> x = j"
    using same_job [OF assms(1) _ assms(2)] assms(3) by (auto simp: leased_by_def)
  moreover have "distinct rows" using assms(1) by (auto simp: jobs_ok_def distinct_map)
  ultimately show ?thesis using assms(2) by (induction rows) (auto simp: filter_empty_conv)
qed

lemma claimed_job:
  assumes "jobs_ok rows" "sql_claim_due now w secs rows = (Inr (Some c), rows')"
  shows "jobs_ok rows' \<and> filter (leased_by (ej_job_id c) w) rows' = [c]"
proof -
  from assms obtain j l where j: "j \<in> set rows" "claimable now j"
    and c: "c = j\<lparr>ej_state := JOB_RUNNING, ej_attempts := ej_attempts j + 1,
                    ej_lease_owner := w, ej_lease_until := l\<rparr>"
    and r: "rows' = take_lease (ej_job_id j) w l (mark_missed now rows)"
    by (cases rule: claim_cases) auto
  have ok: "jobs_ok rows'" using assms(1) by (simp add: r jobs_ok_kept)
  have "j \<in> set (mark_missed now rows)" using mark_missed_keeps [OF j(1)] j(2) by (simp add: claimable_def)
  from sql_update_in [OF this, of "\<lambda>x. ej_job_id x = ej_job_id j"] have "c \<in> set rows'"
    unfolding r take_lease_def c by auto
  with ok show ?thesis using leased_filter [OF ok, of c w] by (simp add: leased_by_def c)
qed

lemma pg_claimed_job:
  assumes "jobs_ok rows" "pg_claim_due le locked now w secs rows = (Inr (Some c), rows')"
  shows "jobs_ok rows' \<and> filter (leased_by (ej_job_id c) w) rows' = [c]"
proof -
  obtain l where l: "lease_end now w secs = Inr l"
    using assms(2) by (cases "lease_end now w secs") (auto simp: pg_claim_due_def run_defs)
  let ?rows = "pg_mark_missed le now rows"
  have ok: "jobs_ok ?rows" using assms(1) by (simp add: jobs_ok_def pg_mark_missed_def sql_update_ids)
  from assms(2) pg_claim_run [OF assms(1) l, of le locked] obtain j where
    "pg_first le (\<lambda>j. pg_claimable le now j \<and> ej_job_id j \<notin> set locked) ?rows = Some j"
    and c: "c = j\<lparr>ej_state := JOB_RUNNING, ej_attempts := ej_attempts j + 1, ej_lease_owner := w, ej_lease_until := l\<rparr>"
    and r: "rows' = take_lease (ej_job_id j) w l ?rows"
    by (auto split: option.splits)
  then have "j \<in> set ?rows" by (blast dest: pg_first_in)
  from sql_update_in [OF this, of "\<lambda>x. ej_job_id x = ej_job_id j"] have "c \<in> set rows'"
    unfolding r take_lease_def c by auto
  moreover have "jobs_ok rows'" using ok by (simp add: r jobs_ok_kept)
  ultimately show ?thesis using leased_filter [of rows' c w] by (simp add: leased_by_def c)
qed

section \<open>Properties\<close>

text \<open>C17: The worker always releases its lease. Whatever an execution does to the rest of the world,
  and whether it returns or raises, as long as it leaves the queue alone the claimed job ends in
  the state the result names, or in \<open>failed\<close> when it raised, with no lease owner, and an
  exception of the execution is raised again.\<close>

theorem run_once_releases_lease:
  assumes "jobs_ok (wd_jobs w)"
    and "\<And>j v. wd_jobs (snd (execute j v)) = wd_jobs v"
    and "sql_claim_due now worker 300 (wd_jobs w) = (Inr (Some c), claimed)"
    and "run_once sql_job_ops worker execute now w = (r, w')"
  shows "(\<exists>d s. wd_jobs w' = sql_update (leased_by (ej_job_id c) worker)
            (\<lambda>j. j\<lparr>ej_state := s, ej_detail := d, ej_lease_owner := [], ej_lease_until := []\<rparr>) claimed \<and>
      (case fst (execute c (w\<lparr>wd_jobs := claimed\<rparr>)) of
         Inr res \<Rightarrow> s = final_state res \<and> is_ok r
       | Inl e \<Rightarrow> s = JOB_FAILED \<and> r = Inl e)) \<and>
    (\<forall>j \<in> set (wd_jobs w'). \<not> leased_by (ej_job_id c) worker j)"
proof -
  let ?w1 = "w\<lparr>wd_jobs := claimed\<rparr>"
  let ?upd = "\<lambda>s d. sql_update (leased_by (ej_job_id c) worker)
            (\<lambda>j. j\<lparr>ej_state := s, ej_detail := d, ej_lease_owner := [], ej_lease_until := []\<rparr>) claimed"
  have c: "jobs_ok claimed" "filter (leased_by (ej_job_id c) worker) claimed = [c]"
    using claimed_job [OF assms(1,3)] by blast+
  have comp: "\<exists>j. sql_complete (ej_job_id c) worker s d claimed = (Inr j, ?upd s d)"
    if "s \<in> {JOB_SUCCEEDED, JOB_ROLLED_BACK, JOB_CONTAINED, JOB_FAILED}" for s d
    using complete_run [OF c] that unfolding sql_complete_def by force
  have gone: "\<not> leased_by (ej_job_id c) worker j" if "j \<in> set (?upd s d)" "s \<noteq> JOB_RUNNING" for j s d
  proof -
    from sql_update_from [OF that(1)] obtain k where
      "j = (if leased_by (ej_job_id c) worker k
            then k\<lparr>ej_state := s, ej_detail := d, ej_lease_owner := [], ej_lease_until := []\<rparr> else k)" by blast
    with that(2) show ?thesis by (auto simp: leased_by_def split: if_splits)
  qed
  have fin: "final_state res \<in> {JOB_SUCCEEDED, JOB_ROLLED_BACK, JOB_CONTAINED, JOB_FAILED}" for res
    by (simp add: final_state_def)
  obtain x w2 where ex: "execute c ?w1 = (x, w2)" by (cases "execute c ?w1")
  then have q: "wd_jobs w2 = claimed" using assms(2) [of c ?w1] by simp
  have claim: "js_claim_due sql_job_ops now worker 300 (wd_jobs w) = (Inr (Some c), claimed)"
    by (simp add: sql_job_ops_def assms(3))
  note run = assms(4) [unfolded run_once_claimed [OF claim] ex]
  show ?thesis
  proof (cases x)
    case (Inr res)
    obtain j where "sql_complete (ej_job_id c) worker (final_state res) (final_detail res) claimed =
        (Inr j, ?upd (final_state res) (final_detail res))" using comp [OF fin] by blast
    then have "r = Inr (Some (j, res))" "wd_jobs w' = ?upd (final_state res) (final_detail res)"
      using run Inr q by (auto simp: sql_job_ops_def)
    then show ?thesis using ex Inr gone fin [of res] by auto
  next
    case (Inl e)
    obtain j where "sql_complete (ej_job_id c) worker JOB_FAILED (''execution worker failed: '' @ exn_str e) claimed =
        (Inr j, ?upd JOB_FAILED (''execution worker failed: '' @ exn_str e))" using comp by blast
    then have "r = Inl e" "wd_jobs w' = ?upd JOB_FAILED (''execution worker failed: '' @ exn_str e)"
      using run Inl q by (auto simp: sql_job_ops_def)
    then show ?thesis using ex Inl gone by auto
  qed
qed

definition sample_world :: "execution_job list \<Rightarrow> unit world" where
  "sample_world rows = \<lparr> wd_cases = sql_empty, wd_records = [], wd_findings = [], wd_jobs = rows,
     wd_files = [], wd_tick = 0, wd_outside = () \<rparr>"

definition sample_execute :: "bool \<Rightarrow> execution_job \<Rightarrow> (unit world, dispatch_result) prog" where
  "sample_execute kept job =
     ret \<lparr> dr_rolled_back = False, dr_contained = kept, dr_case_state = Some ''blocked'' \<rparr>"

theorem run_once_releases_lease_witness:
  "\<exists>c claimed. sql_claim_due ''2026-01-01T01:00:00Z'' ''w'' 300 [sample_job JOB_SCHEDULED []] =
       (Inr (Some c), claimed) \<and>
     (\<forall>j \<in> set (wd_jobs (snd (run_once sql_job_ops ''w'' (sample_execute False)
        ''2026-01-01T01:00:00Z'' (sample_world [sample_job JOB_SCHEDULED []])))).
        \<not> leased_by (ej_job_id c) ''w'' j)"
proof -
  let ?w = "sample_world [sample_job JOB_SCHEDULED []]"
  from sample_claim obtain c rows where
    c: "sql_claim_due ''2026-01-01T01:00:00Z'' ''w'' 300 (wd_jobs ?w) = (Inr (Some c), rows)"
    by (auto simp: sample_world_def split: prod.splits sum.splits option.splits)
  have ok: "jobs_ok (wd_jobs ?w)" by (simp add: sample_world_def sample_jobs_ok)
  have frame: "wd_jobs (snd (sample_execute False j v)) = wd_jobs v" for j v
    by (simp add: sample_execute_def ret_def)
  from run_once_releases_lease [OF ok frame c surjective_pairing] c show ?thesis
    by (auto simp: sample_world_def)
qed

text \<open>C24: On the PostgreSQL store, whatever the collation and the rows other transactions hold, a
  contained rollback is lost: the execution ends with the case
  contained, yet the job is recorded as \<open>failed\<close> and the worker raises the store's
  \<open>ValueError\<close>, although nothing in the execution raised.\<close>

theorem contained_execution_recorded_failed:
  assumes "jobs_ok (wd_jobs w)"
    and "\<And>j v. wd_jobs (snd (execute j v)) = wd_jobs v"
    and "pg_claim_due le locked now worker 300 (wd_jobs w) = (Inr (Some c), claimed)"
    and "fst (execute c (w\<lparr>wd_jobs := claimed\<rparr>)) = Inr res" "dr_contained res"
    and "run_once (pg_job_ops le locked) worker execute now w = (r, w')"
  shows "r = Inl (Raise ValueError ''job completion state must be terminal'') \<and>
    (\<exists>j \<in> set (wd_jobs w'). ej_job_id j = ej_job_id c \<and> ej_state j = JOB_FAILED)"
proof -
  let ?w1 = "w\<lparr>wd_jobs := claimed\<rparr>"
  have claim: "js_claim_due (pg_job_ops le locked) now worker 300 (wd_jobs w) = (Inr (Some c), claimed)"
    by (simp add: pg_job_ops_def assms(3))
  have c: "jobs_ok claimed" "filter (leased_by (ej_job_id c) worker) claimed = [c]"
    using pg_claimed_job [OF assms(1,3)] by blast+
  obtain w2 where ex: "execute c ?w1 = (Inr res, w2)" using assms(4) by (cases "execute c ?w1") auto
  then have q: "wd_jobs w2 = claimed" using assms(2) [of c ?w1] by simp
  let ?d = "''execution worker failed: '' @ exn_str (Raise ValueError ''job completion state must be terminal'')"
  let ?f = "\<lambda>d j. j\<lparr>ej_state := JOB_FAILED, ej_detail := d, ej_lease_owner := [], ej_lease_until := []\<rparr>"
  have refused: "pg_complete (ej_job_id c) worker JOB_CONTAINED d claimed =
      (Inl (Raise ValueError ''job completion state must be terminal''), claimed)" for d
    by (simp add: pg_complete_def run_defs)
  have failed: "pg_complete (ej_job_id c) worker JOB_FAILED d claimed =
      (Inr (?f d c), sql_update (leased_by (ej_job_id c) worker) (?f d) claimed)" for d
    using complete_run [OF c, of JOB_FAILED] complete_agrees [OF c(1)] by (simp add: sql_complete_def)
  have run: "(r, w') = (Inl (Raise ValueError ''job completion state must be terminal''),
      w2\<lparr>wd_jobs := sql_update (leased_by (ej_job_id c) worker) (?f ?d) claimed\<rparr>)"
    using assms(6) unfolding run_once_claimed [OF claim] ex
    by (simp add: pg_job_ops_def q final_state_def assms(5) refused failed)
  have "c \<in> set claimed" "leased_by (ej_job_id c) worker c"
    using c(2) by (metis list.set_intros(1) mem_Collect_eq set_filter)+
  from sql_update_in [OF this(1), of "leased_by (ej_job_id c) worker" "?f ?d"] this(2)
  have "?f ?d c \<in> set (sql_update (leased_by (ej_job_id c) worker) (?f ?d) claimed)" by simp
  with run have "?f ?d c \<in> set (wd_jobs w')" by (simp del: append_Cons)
  moreover have "r = Inl (Raise ValueError ''job completion state must be terminal'')" using run by simp
  ultimately show ?thesis by (intro conjI bexI [where x = "?f ?d c"]) simp_all
qed

theorem contained_execution_recorded_failed_witness:
  "\<not> is_ok (fst (run_once (pg_job_ops (\<le>) []) ''w'' (sample_execute True) ''2026-01-01T01:00:00Z''
      (sample_world [sample_job JOB_SCHEDULED []])))"
proof -
  let ?w = "sample_world [sample_job JOB_SCHEDULED []]"
  have ok: "jobs_ok (wd_jobs ?w)" by (simp add: sample_world_def sample_jobs_ok)
  from sample_claim obtain c rows where
    "sql_claim_due ''2026-01-01T01:00:00Z'' ''w'' 300 (wd_jobs ?w) = (Inr (Some c), rows)"
    by (auto simp: sample_world_def split: prod.splits sum.splits option.splits)
  moreover obtain r rows' where pg: "pg_claim_due (\<le>) [] ''2026-01-01T01:00:00Z'' ''w'' 300 (wd_jobs ?w) = (r, rows')"
    by (metis surj_pair)
  moreover have "bytewise_on (compared_texts ''2026-01-01T01:00:00Z'' (wd_jobs ?w)) (\<le>)" by (simp add: bytewise_on_def)
  note claims_agree [OF ok this, where locked = "[]" and worker = "''w''" and secs = 300, unfolded pg prod.case]
  ultimately have c: "pg_claim_due (\<le>) [] ''2026-01-01T01:00:00Z'' ''w'' 300 (wd_jobs ?w) = (Inr (Some c), rows)"
    by simp
  have frame: "wd_jobs (snd (sample_execute True j v)) = wd_jobs v" for j v
    by (simp add: sample_execute_def ret_def)
  have res: "fst (sample_execute True c (?w\<lparr>wd_jobs := rows\<rparr>)) =
      Inr \<lparr> dr_rolled_back = False, dr_contained = True, dr_case_state = Some ''blocked'' \<rparr>"
    by (simp add: sample_execute_def ret_def)
  from contained_execution_recorded_failed [where w = ?w and execute = "sample_execute True" and c = c and claimed = rows,
      OF ok frame c res _ surjective_pairing] show ?thesis by simp
qed

end
