(* ===== verification/Control_Models.thy ===== *)
theory Control_Models
  imports Pyvalue
begin

text \<open>
  \<open>src/elcapitan/control_packs/models.py\<close>: the contract of a deterministic control. A control
  names the aspects of the collected cloud state it may read and carries the function that decides
  from them; a pack is a list of controls with a default evidence grade. \<open>reads\<close> states that a
  function depends on the named aspects only.
\<close>

type_synonym evidence = "(string, pyval) dict"

record control_evaluation =
  ce_confirmed :: bool
  ce_reason :: string

definition evaluation :: "bool \<Rightarrow> string \<Rightarrow> control_evaluation res" where
  "evaluation confirmed reason = Inr \<lparr> ce_confirmed = confirmed, ce_reason = reason \<rparr>"

definition require :: "evidence \<Rightarrow> string \<Rightarrow> pyval res" where
  "require values aspect =
     (case dict_get values aspect of
        None \<Rightarrow> Inl (Raise ValueError (''live cloud state did not capture '' @ aspect))
      | Some v \<Rightarrow> Inr v)"

definition evidence_grades :: "string list" where
  "evidence_grades =
     [''contract_tested'', ''contract_tested_export_observed'', ''e2e_measured'',
      ''export_observed'', ''unverified'']"

record control_definition =
  cd_pack_id :: string
  cd_provider :: string
  cd_rule_id :: string
  cd_resource_family :: string
  cd_resource_types :: "string list"
  cd_live_validation :: bool
  cd_remediation_planning :: bool
  cd_live_execution :: bool
  cd_evidence_aspects :: "string list"
  cd_evaluator :: "evidence \<Rightarrow> control_evaluation res"
  cd_evidence_grade :: string

definition mk_control_definition :: "control_definition \<Rightarrow> control_definition res" where
  "mk_control_definition c =
     bindE (guardE (cd_pack_id c \<noteq> [] \<and> cd_provider c \<noteq> [] \<and> cd_rule_id c \<noteq> []) ValueError
              ''control definitions require pack, provider, and rule ids'') (\<lambda>_.
     bindE (guardE (cd_provider c = str_lower (cd_provider c)) ValueError
              ''control definition provider must be lower-case'') (\<lambda>_.
     bindE (guardE (cd_resource_types c \<noteq> [] \<and> [] \<notin> set (cd_resource_types c)) ValueError
              ''control definitions require explicit resource types'') (\<lambda>_.
     bindE (guardE (cd_evidence_aspects c \<noteq> [] \<and> [] \<notin> set (cd_evidence_aspects c)) ValueError
              ''control definitions require explicit evidence aspects'') (\<lambda>_.
     bindE (guardE (distinct (cd_evidence_aspects c)) ValueError
              ''control evidence aspects must be unique'') (\<lambda>_.
     bindE (guardE (cd_live_validation c) ValueError
              ''registered deterministic controls must support validation'') (\<lambda>_.
     bindE (guardE (cd_evidence_grade c = [] \<or> cd_evidence_grade c \<in> set evidence_grades) ValueError
              (''unknown evidence grade: '' @ cd_evidence_grade c)) (\<lambda>_.
     Inr c)))))))"

definition control_to_dict :: "control_definition \<Rightarrow> pyval" where
  "control_to_dict c = PDict
     [(''pack_id'', PStr (cd_pack_id c)), (''provider'', PStr (cd_provider c)),
      (''rule_id'', PStr (cd_rule_id c)), (''resource_family'', PStr (cd_resource_family c)),
      (''resource_types'', str_list (cd_resource_types c)),
      (''live_validation'', PBool (cd_live_validation c)),
      (''remediation_planning'', PBool (cd_remediation_planning c)),
      (''live_execution'', PBool (cd_live_execution c)),
      (''evidence_grade'', PStr (cd_evidence_grade c)),
      (''evidence_aspects'', str_list (cd_evidence_aspects c))]"

record control_pack =
  cp_pack_id :: string
  cp_controls :: "control_definition list"
  cp_evidence_grade :: string

definition mk_control_pack :: "control_pack \<Rightarrow> control_pack res" where
  "mk_control_pack p =
     bindE (guardE (cp_pack_id p \<noteq> [] \<and> cp_controls p \<noteq> []) ValueError
              ''control packs require an id and at least one control'') (\<lambda>_.
     bindE (guardE (list_all (\<lambda>c. cd_pack_id c = cp_pack_id p) (cp_controls p)) ValueError
              ''every control definition must belong to its containing pack'') (\<lambda>_.
     bindE (guardE (cp_evidence_grade p \<in> set evidence_grades) ValueError
              (''unknown evidence grade: '' @ cp_evidence_grade p)) (\<lambda>_.
     Inr (p\<lparr>cp_controls := map (\<lambda>c. if cd_evidence_grade c \<noteq> [] then c
                                       else c\<lparr>cd_evidence_grade := cp_evidence_grade p\<rparr>)
                               (cp_controls p)\<rparr>))))"

text \<open>A pack as its module builds it: each control is constructed, then the pack.\<close>

definition build_pack :: "string \<Rightarrow> string \<Rightarrow> control_definition list \<Rightarrow> control_pack res" where
  "build_pack pack_id grade controls =
     bindE (mapE mk_control_definition controls) (\<lambda>cs.
     mk_control_pack \<lparr> cp_pack_id = pack_id, cp_controls = cs, cp_evidence_grade = grade \<rparr>)"

text \<open>A control that is validated but neither planned nor executed, as most packs declare them.\<close>

definition validation_only ::
  "string \<Rightarrow> string \<Rightarrow> string \<Rightarrow> string \<Rightarrow> string \<Rightarrow> string list \<Rightarrow> string \<Rightarrow>
   (evidence \<Rightarrow> control_evaluation res) \<Rightarrow> control_definition" where
  "validation_only pack_id provider family resource_type rule_id aspects grade evaluator =
     \<lparr> cd_pack_id = pack_id, cd_provider = provider, cd_rule_id = rule_id,
       cd_resource_family = family, cd_resource_types = [resource_type], cd_live_validation = True,
       cd_remediation_planning = False, cd_live_execution = False, cd_evidence_aspects = aspects,
       cd_evaluator = evaluator, cd_evidence_grade = grade \<rparr>"

section \<open>Reading aspects\<close>

text \<open>An aspect that has to satisfy a test of its type.\<close>

definition need_aspect :: "string \<Rightarrow> (pyval \<Rightarrow> bool) \<Rightarrow> evidence \<Rightarrow> string \<Rightarrow> pyval res" where
  "need_aspect label ok values aspect =
     bindE (require values aspect) (\<lambda>v.
     bindE (guardE (ok v) ValueError
              (''live '' @ label @ '' state has invalid '' @ aspect @ '' '' @ py_repr v)) (\<lambda>_.
     Inr v))"

definition is_none :: "pyval \<Rightarrow> bool" where
  "is_none v = (v = PNone)"

definition is_int :: "pyval \<Rightarrow> bool" where
  "is_int v = (case v of PInt i \<Rightarrow> True | _ \<Rightarrow> False)"

definition as_int :: "pyval \<Rightarrow> int" where
  "as_int v = (case v of PInt i \<Rightarrow> i | _ \<Rightarrow> 0)"

definition name_list :: "pyval \<Rightarrow> bool" where
  "name_list v = (is_list v \<and> list_all is_name (list_items v))"

definition names_of :: "pyval \<Rightarrow> string list" where
  "names_of v = map as_str (list_items v)"

definition dict_list :: "pyval \<Rightarrow> bool" where
  "dict_list v = (is_list v \<and> list_all is_dict (list_items v))"

definition enabled_word :: "bool \<Rightarrow> string" where
  "enabled_word b = (if b then ''enabled'' else ''disabled'')"

definition py_contains :: "string \<Rightarrow> string \<Rightarrow> bool" where
  "py_contains needle s = list_ex (\<lambda>i. take (length needle) (drop i s) = needle) [0..<length s + 1]"

text \<open>The keys of a dictionary are exactly these.\<close>

definition keys_are :: "(string, pyval) dict \<Rightarrow> string list \<Rightarrow> bool" where
  "keys_are d ks = (set (map fst d) = set ks)"

section \<open>Dependence on aspects\<close>

definition agree :: "string list \<Rightarrow> evidence \<Rightarrow> evidence \<Rightarrow> bool" where
  "agree aspects v w = list_all (\<lambda>a. dict_get v a = dict_get w a) aspects"

definition reads :: "string list \<Rightarrow> (evidence \<Rightarrow> 'a) \<Rightarrow> bool" where
  "reads aspects f = (\<forall>v w. agree aspects v w \<longrightarrow> f v = f w)"

lemma readsI: "(\<And>v w. agree aspects v w \<Longrightarrow> f v = f w) \<Longrightarrow> reads aspects f"
  by (simp add: reads_def)

lemma list_all_simps: "list_all P [] \<longleftrightarrow> True" "list_all P (x # xs) \<longleftrightarrow> P x \<and> list_all P xs"
  by simp_all

lemma agree_simps [simp]:
  "agree [] v w" "agree (a # as) v w \<longleftrightarrow> dict_get v a = dict_get w a \<and> agree as v w"
  by (simp_all add: agree_def)

lemmas reads_unfold = require_def need_aspect_def

lemma reads_mono:
  assumes "reads as f" "set as \<subseteq> set bs"
  shows "reads bs f"
  using assms by (auto simp: reads_def agree_def list_all_iff)

definition reads_declared :: "control_definition \<Rightarrow> bool" where
  "reads_declared c = reads (cd_evidence_aspects c) (cd_evaluator c)"

lemma reads_declared_validation_only [simp]:
  "reads_declared (validation_only p v f t r as g ev) \<longleftrightarrow> reads as ev"
  by (simp add: reads_declared_def validation_only_def)

lemma reads_declared_execution [simp]:
  "reads_declared (c\<lparr>cd_remediation_planning := b, cd_live_execution := b'\<rparr>) = reads_declared c"
  by (simp add: reads_declared_def)

section \<open>Building packs\<close>

definition control_ok :: "control_definition \<Rightarrow> bool" where
  "control_ok c = is_ok (mk_control_definition c)"

lemma mk_control_definition_same: "mk_control_definition c = Inr c' \<Longrightarrow> c' = c"
  by (auto simp: mk_control_definition_def res_simps)

lemma mapE_mk_controls: "list_all control_ok cs \<Longrightarrow> mapE mk_control_definition cs = Inr cs"
  by (induction cs) (auto simp: control_ok_def is_ok_iff dest: mk_control_definition_same)

lemma build_pack_Inr:
  assumes "build_pack i g cs = Inr p"
  shows "cp_pack_id p = i \<and> cp_evidence_grade p = g \<and>
    cp_controls p = map (\<lambda>c. if cd_evidence_grade c \<noteq> [] then c else c\<lparr>cd_evidence_grade := g\<rparr>) cs \<and>
    list_all (\<lambda>c. cd_pack_id c = i) (cp_controls p) \<and>
    list_all (\<lambda>c. control_ok c \<and> cd_evidence_grade c \<noteq> []) (cp_controls p) \<and> cp_controls p \<noteq> []"
proof -
  have same: "mapE mk_control_definition cs = Inr ds \<Longrightarrow> ds = cs \<and> list_all control_ok cs" for ds
    by (induction cs arbitrary: ds) (auto simp: res_simps control_ok_def dest: mk_control_definition_same)
  have g: "control_ok (c\<lparr>cd_evidence_grade := g\<rparr>)" if "control_ok c" "g \<in> set evidence_grades" for c
    using that by (auto simp: control_ok_def is_ok_iff mk_control_definition_def res_simps)
  have ne: "g \<noteq> []" if "g \<in> set evidence_grades" using that by (auto simp: evidence_grades_def)
  from assms obtain ds where ds: "mapE mk_control_definition cs = Inr ds"
    and p: "mk_control_pack \<lparr>cp_pack_id = i, cp_controls = ds, cp_evidence_grade = g\<rparr> = Inr p"
    by (auto simp: build_pack_def res_simps)
  with same [OF ds] show ?thesis
    using g ne by (auto simp: mk_control_pack_def res_simps list_all_iff)
qed

end
