(* ===== verification/Packs_Aws.thy ===== *)
theory Packs_Aws
  imports Control_Models
begin

text \<open>
  The AWS packs \<open>aws_ebs.py\<close>, \<open>aws_rds.py\<close> and \<open>aws_s3.py\<close> of \<open>src/elcapitan/control_packs\<close>:
  one evaluator per scanner control, and the aspects each one reads.
\<close>

section \<open>EBS volumes\<close>

definition ebs_bool :: "evidence \<Rightarrow> string \<Rightarrow> bool res" where
  "ebs_bool values aspect =
     bindE (need_aspect ''EBS'' is_bool values aspect) (\<lambda>v. Inr (v = PBool True))"

definition volume_encryption :: "evidence \<Rightarrow> control_evaluation res" where
  "volume_encryption values =
     bindE (ebs_bool values ''ebs_volume_encrypted'') (\<lambda>encrypted.
     evaluation (\<not> encrypted) (''EBS volume encryption is '' @ enabled_word encrypted))"

definition snapshot_exists :: "evidence \<Rightarrow> control_evaluation res" where
  "snapshot_exists values =
     bindE (ebs_bool values ''ebs_volume_owned_snapshot_present'') (\<lambda>present.
     evaluation (\<not> present)
       (if present then ''EBS volume has an owned snapshot'' else ''EBS volume has no owned snapshot''))"

definition ebs_control ::
  "string \<Rightarrow> string \<Rightarrow> (evidence \<Rightarrow> control_evaluation res) \<Rightarrow> control_definition" where
  "ebs_control rule_id aspect =
     validation_only ''aws-ebs-volume'' ''aws'' ''ebs_volume'' ''awsec2volume'' rule_id [aspect]
       ''contract_tested''"

definition aws_ebs_controls :: "control_definition list" where
  "aws_ebs_controls =
     [ebs_control ''ec2_ebs_volume_encryption'' ''ebs_volume_encrypted'' volume_encryption,
      ebs_control ''ec2_ebs_volume_snapshots_exists'' ''ebs_volume_owned_snapshot_present''
        snapshot_exists]"

definition aws_ebs_volume_pack :: "control_pack res" where
  "aws_ebs_volume_pack = build_pack ''aws-ebs-volume'' ''contract_tested'' aws_ebs_controls"

section \<open>RDS instances\<close>

definition aurora_engines :: "string list" where
  "aurora_engines = [''aurora'', ''aurora-mysql'', ''aurora-postgresql'']"

definition iam_engine_tokens :: "string list" where
  "iam_engine_tokens =
     [''postgres'', ''aurora-postgresql'', ''mysql'', ''mariadb'', ''aurora-mysql'', ''aurora'']"

definition rds_bool :: "evidence \<Rightarrow> string \<Rightarrow> bool res" where
  "rds_bool values aspect =
     bindE (need_aspect ''RDS'' is_bool values aspect) (\<lambda>v. Inr (v = PBool True))"

definition rds_engine :: "evidence \<Rightarrow> string res" where
  "rds_engine values =
     bindE (require values ''rds_engine'') (\<lambda>v.
     bindE (guardE (is_name v) ValueError (''live RDS state has invalid engine '' @ py_repr v)) (\<lambda>_.
     Inr (as_str v)))"

definition rds_backup :: "evidence \<Rightarrow> control_evaluation res" where
  "rds_backup values =
     bindE (rds_bool values ''rds_read_replica_source_present'') (\<lambda>replica.
     bindE (require values ''rds_backup_retention_period'') (\<lambda>retention.
     bindE (guardE (is_int retention \<and> \<not> as_int retention < 0) ValueError
              (''live RDS state has invalid backup retention period '' @ py_repr retention)) (\<lambda>_.
     if replica then
       evaluation False ''read replica is excluded by Prowler's default RDS audit scope''
     else
       evaluation (as_int retention \<le> 0)
         (''RDS automated backup retention is '' @ show_int (as_int retention) @ '' day(s)''))))"

definition rds_copy_tags :: "evidence \<Rightarrow> control_evaluation res" where
  "rds_copy_tags values =
     bindE (rds_engine values) (\<lambda>engine.
     bindE (rds_bool values ''rds_copy_tags_to_snapshot'') (\<lambda>enabled.
     if engine \<in> set aurora_engines then
       evaluation False (''copy-tags control is not emitted for Aurora engine '' @ repr_str engine)
     else
       evaluation (\<not> enabled) (''copy tags to DB snapshots is '' @ enabled_word enabled)))"

definition rds_enhanced_monitoring :: "evidence \<Rightarrow> control_evaluation res" where
  "rds_enhanced_monitoring values =
     bindE (rds_bool values ''rds_enhanced_monitoring_enabled'') (\<lambda>enabled.
     evaluation (\<not> enabled) (''RDS enhanced monitoring is '' @ enabled_word enabled))"

definition rds_iam_authentication :: "evidence \<Rightarrow> control_evaluation res" where
  "rds_iam_authentication values =
     bindE (rds_engine values) (\<lambda>engine.
     bindE (rds_bool values ''rds_iam_database_authentication_enabled'') (\<lambda>enabled.
     if \<not> list_ex (\<lambda>token. py_contains token engine) iam_engine_tokens then
       evaluation False
         (''IAM database authentication control is not emitted for '' @ repr_str engine)
     else
       evaluation (\<not> enabled) (''RDS IAM database authentication is '' @ enabled_word enabled)))"

definition rds_inside_vpc :: "evidence \<Rightarrow> control_evaluation res" where
  "rds_inside_vpc values =
     bindE (rds_bool values ''rds_in_vpc'') (\<lambda>enabled.
     evaluation (\<not> enabled)
       (''RDS instance is '' @ (if enabled then ''inside a VPC'' else ''not inside a VPC'')))"

definition rds_cloudwatch_logs :: "evidence \<Rightarrow> control_evaluation res" where
  "rds_cloudwatch_logs values =
     bindE (require values ''rds_enabled_cloudwatch_logs_exports'') (\<lambda>exports.
     bindE (guardE (name_list exports \<and> distinct (names_of exports)) ValueError
              (''live RDS state has invalid CloudWatch log exports '' @ py_repr exports)) (\<lambda>_.
     evaluation (names_of exports = [])
       (if names_of exports \<noteq> []
        then ''RDS exports '' @ str_join '', '' (names_of exports) @ '' to CloudWatch Logs''
        else ''RDS exports no database logs to CloudWatch Logs'')))"

definition rds_minor_version_upgrade :: "evidence \<Rightarrow> control_evaluation res" where
  "rds_minor_version_upgrade values =
     bindE (rds_bool values ''rds_auto_minor_version_upgrade'') (\<lambda>enabled.
     evaluation (\<not> enabled) (''automatic minor version upgrades are '' @ enabled_word enabled))"

definition rds_storage_encrypted :: "evidence \<Rightarrow> control_evaluation res" where
  "rds_storage_encrypted values =
     bindE (rds_bool values ''rds_storage_encrypted'') (\<lambda>enabled.
     evaluation (\<not> enabled) (''RDS storage encryption is '' @ enabled_word enabled))"

definition rds_control ::
  "string \<Rightarrow> string list \<Rightarrow> (evidence \<Rightarrow> control_evaluation res) \<Rightarrow> control_definition" where
  "rds_control rule_id aspects =
     validation_only ''aws-rds'' ''aws'' ''rds_db_instance'' ''awsrdsdbinstance'' rule_id aspects
       ''contract_tested''"

definition aws_rds_controls :: "control_definition list" where
  "aws_rds_controls =
     [rds_control ''rds_instance_backup_enabled''
        [''rds_backup_retention_period'', ''rds_read_replica_source_present''] rds_backup,
      rds_control ''rds_instance_copy_tags_to_snapshots''
        [''rds_engine'', ''rds_copy_tags_to_snapshot''] rds_copy_tags,
      rds_control ''rds_instance_enhanced_monitoring_enabled''
        [''rds_enhanced_monitoring_enabled''] rds_enhanced_monitoring,
      rds_control ''rds_instance_iam_authentication_enabled''
        [''rds_engine'', ''rds_iam_database_authentication_enabled''] rds_iam_authentication,
      rds_control ''rds_instance_inside_vpc'' [''rds_in_vpc''] rds_inside_vpc,
      rds_control ''rds_instance_integration_cloudwatch_logs''
        [''rds_enabled_cloudwatch_logs_exports''] rds_cloudwatch_logs,
      rds_control ''rds_instance_minor_version_upgrade_enabled''
        [''rds_auto_minor_version_upgrade''] rds_minor_version_upgrade,
      rds_control ''rds_instance_storage_encrypted'' [''rds_storage_encrypted'']
        rds_storage_encrypted]"

definition aws_rds_pack :: "control_pack res" where
  "aws_rds_pack = build_pack ''aws-rds'' ''contract_tested'' aws_rds_controls"

section \<open>S3 buckets\<close>

definition s3_absent :: "string \<Rightarrow> string" where
  "s3_absent aspect =
     (if aspect = ''encryption'' then ''<absent: ServerSideEncryptionConfigurationNotFoundError>''
      else if aspect = ''lifecycle'' then ''<absent: NoSuchLifecycleConfiguration>''
      else ''<absent: ObjectLockConfigurationNotFoundError>'')"

text \<open>The document of an aspect, \<open>None\<close> when the collector recorded its absence.\<close>

definition s3_document :: "evidence \<Rightarrow> string \<Rightarrow> bool \<Rightarrow> (string, pyval) dict option res" where
  "s3_document values aspect absent =
     bindE (require values aspect) (\<lambda>v.
     if absent \<and> v = PStr (s3_absent aspect) then Inr None
     else bindE (guardE (is_dict v) ValueError
                   (''live S3 state has invalid '' @ aspect @ '' response '' @ py_repr v)) (\<lambda>_.
          Inr (Some (dict_items v))))"

definition s3_enum :: "(string, pyval) dict \<Rightarrow> string \<Rightarrow> string list \<Rightarrow> bool \<Rightarrow> pyval res" where
  "s3_enum document name allowed optional =
     (if \<not> dict_has document name \<and> optional then Inr PNone
      else let v = pget document name
           in bindE (guardE (is_str v \<and> as_str v \<in> set allowed) ValueError
                       (''live S3 response has invalid '' @ name @ '' '' @ py_repr v)) (\<lambda>_.
              Inr v))"

definition s3_object_versioning :: "evidence \<Rightarrow> control_evaluation res" where
  "s3_object_versioning values =
     bindE (s3_document values ''versioning'' False) (\<lambda>value.
     bindE (s3_enum (the value) ''Status'' [''Enabled'', ''Suspended''] True) (\<lambda>status.
     evaluation (status \<noteq> PStr ''Enabled'') (''bucket versioning status is '' @ py_repr status)))"

definition s3_kms_encryption :: "evidence \<Rightarrow> control_evaluation res" where
  "s3_kms_encryption values =
     bindE (s3_document values ''encryption'' True) (\<lambda>value.
     case value of
       None \<Rightarrow> evaluation True ''bucket has no encryption configuration''
     | Some value \<Rightarrow>
         let configuration = pget value ''ServerSideEncryptionConfiguration''
         in bindE (guardE (is_dict configuration) ValueError
                     ''live S3 encryption response has invalid configuration'') (\<lambda>_.
            let rules = pget (dict_items configuration) ''Rules''
            in bindE (guardE (is_list rules \<and> truthy rules \<and> dict_list rules) ValueError
                        ''live S3 encryption response has invalid Rules'') (\<lambda>_.
               let default = pget (dict_items (hd (list_items rules))) ''ApplyServerSideEncryptionByDefault''
               in bindE (guardE (is_dict default) ValueError
                           ''live S3 encryption response has invalid default rule'') (\<lambda>_.
                  bindE (s3_enum (dict_items default) ''SSEAlgorithm''
                           [''AES256'', ''aws:kms'', ''aws:kms:dsse''] False) (\<lambda>algorithm.
                  evaluation (algorithm \<notin> {PStr ''aws:kms'', PStr ''aws:kms:dsse''})
                    (''bucket default encryption algorithm is '' @ py_repr algorithm))))))"

definition s3_server_access_logging :: "evidence \<Rightarrow> control_evaluation res" where
  "s3_server_access_logging values =
     bindE (s3_document values ''logging'' False) (\<lambda>value.
     let logging = pget (the value) ''LoggingEnabled''
     in bindE (guardE (is_none logging \<or> is_dict logging) ValueError
                 ''live S3 logging response has invalid LoggingEnabled'') (\<lambda>_.
        bindE (guardE (is_dict logging \<longrightarrow>
                         is_name (pget (dict_items logging) ''TargetBucket'') \<and>
                         is_str (pget (dict_items logging) ''TargetPrefix'')) ValueError
                 ''live S3 logging response has invalid target bucket or prefix'') (\<lambda>_.
        evaluation (is_none logging)
          (''bucket server access logging is '' @ enabled_word (\<not> is_none logging)))))"

definition s3_notification_lists :: "string list" where
  "s3_notification_lists =
     [''TopicConfigurations'', ''QueueConfigurations'', ''LambdaFunctionConfigurations'']"

definition s3_event_notifications :: "evidence \<Rightarrow> control_evaluation res" where
  "s3_event_notifications values =
     bindE (s3_document values ''notification'' False) (\<lambda>value.
     bindE (mapE (\<lambda>key. guardE (dict_has (the value) key \<longrightarrow> dict_list (pget (the value) key)) ValueError
                          (''live S3 notification response has invalid '' @ key))
              s3_notification_lists) (\<lambda>_.
     bindE (guardE (dict_has (the value) ''EventBridgeConfiguration'' \<longrightarrow>
                      is_dict (pget (the value) ''EventBridgeConfiguration'')) ValueError
              ''live S3 notification response has invalid EventBridgeConfiguration'') (\<lambda>_.
     let enabled = list_ex (dict_has (the value)) (s3_notification_lists @ [''EventBridgeConfiguration''])
     in evaluation (\<not> enabled) (''bucket event notifications are '' @ enabled_word enabled))))"

definition s3_lifecycle_enabled :: "evidence \<Rightarrow> control_evaluation res" where
  "s3_lifecycle_enabled values =
     bindE (s3_document values ''lifecycle'' True) (\<lambda>value.
     case value of
       None \<Rightarrow> evaluation True ''bucket has no lifecycle configuration''
     | Some value \<Rightarrow>
         let rules = pget value ''Rules''
         in bindE (guardE (is_list rules \<and> truthy rules \<and> dict_list rules) ValueError
                     ''live S3 lifecycle response has invalid Rules'') (\<lambda>_.
            bindE (mapE (\<lambda>rule.
                     bindE (guardE (is_name (pget (dict_items rule) ''ID'')) ValueError
                              ''live S3 lifecycle response has invalid rule ID'') (\<lambda>_.
                     s3_enum (dict_items rule) ''Status'' [''Enabled'', ''Disabled''] False))
                     (list_items rules)) (\<lambda>statuses.
            let enabled = PStr ''Enabled'' \<in> set statuses
            in evaluation (\<not> enabled)
                 (if enabled then ''bucket has an enabled lifecycle rule''
                  else ''bucket has no enabled lifecycle rule''))))"

definition s3_object_lock :: "evidence \<Rightarrow> control_evaluation res" where
  "s3_object_lock values =
     bindE (s3_document values ''object_lock'' True) (\<lambda>value.
     case value of
       None \<Rightarrow> evaluation True ''bucket Object Lock is disabled''
     | Some value \<Rightarrow>
         let configuration = pget value ''ObjectLockConfiguration''
         in bindE (guardE (is_dict configuration) ValueError
                     ''live S3 Object Lock response has invalid configuration'') (\<lambda>_.
            bindE (s3_enum (dict_items configuration) ''ObjectLockEnabled'' [''Enabled''] False)
              (\<lambda>status.
            let enabled = status = PStr ''Enabled''
            in evaluation (\<not> enabled) (''bucket Object Lock is '' @ enabled_word enabled))))"

definition s3_mfa_delete :: "evidence \<Rightarrow> control_evaluation res" where
  "s3_mfa_delete values =
     bindE (s3_document values ''versioning'' False) (\<lambda>value.
     bindE (s3_enum (the value) ''Status'' [''Enabled'', ''Suspended''] True) (\<lambda>_.
     bindE (s3_enum (the value) ''MFADelete'' [''Enabled'', ''Disabled''] True) (\<lambda>status.
     evaluation (status \<noteq> PStr ''Enabled'') (''bucket MFA Delete status is '' @ py_repr status))))"

definition s3_validation_control ::
  "string \<Rightarrow> string \<Rightarrow> (evidence \<Rightarrow> control_evaluation res) \<Rightarrow> control_definition" where
  "s3_validation_control rule_id aspect =
     validation_only ''aws-s3'' ''aws'' ''s3_bucket'' ''awss3bucket'' rule_id [aspect]
       ''contract_tested''"

definition aws_s3_controls :: "control_definition list" where
  "aws_s3_controls =
     [(validation_only ''aws-s3'' ''aws'' ''s3_bucket'' ''awss3bucket''
         ''s3_bucket_object_versioning'' [''versioning''] [] s3_object_versioning)
        \<lparr>cd_remediation_planning := True, cd_live_execution := True\<rparr>,
      s3_validation_control ''s3_bucket_kms_encryption'' ''encryption'' s3_kms_encryption,
      s3_validation_control ''s3_bucket_server_access_logging_enabled'' ''logging''
        s3_server_access_logging,
      s3_validation_control ''s3_bucket_event_notifications_enabled'' ''notification''
        s3_event_notifications,
      s3_validation_control ''s3_bucket_lifecycle_enabled'' ''lifecycle'' s3_lifecycle_enabled,
      s3_validation_control ''s3_bucket_object_lock'' ''object_lock'' s3_object_lock,
      s3_validation_control ''s3_bucket_no_mfa_delete'' ''versioning'' s3_mfa_delete]"

definition aws_s3_pack :: "control_pack res" where
  "aws_s3_pack = build_pack ''aws-s3'' ''e2e_measured'' aws_s3_controls"

section \<open>What the evaluators read\<close>

lemmas aws_defs = ebs_bool_def volume_encryption_def snapshot_exists_def
  rds_bool_def rds_engine_def rds_backup_def rds_copy_tags_def rds_enhanced_monitoring_def
  rds_iam_authentication_def rds_inside_vpc_def rds_cloudwatch_logs_def
  rds_minor_version_upgrade_def rds_storage_encrypted_def
  s3_document_def s3_object_versioning_def s3_kms_encryption_def s3_server_access_logging_def
  s3_event_notifications_def s3_lifecycle_enabled_def s3_object_lock_def s3_mfa_delete_def

lemma aws_ebs_reads: "list_all reads_declared aws_ebs_controls"
  unfolding aws_ebs_controls_def ebs_control_def list_all_simps reads_declared_validation_only
  by (intro conjI TrueI readsI; simp only: agree_simps aws_defs reads_unfold)

lemma aws_rds_reads: "list_all reads_declared aws_rds_controls"
  unfolding aws_rds_controls_def rds_control_def list_all_simps reads_declared_validation_only
  by (intro conjI TrueI readsI; simp only: agree_simps aws_defs reads_unfold)

lemma aws_s3_reads: "list_all reads_declared aws_s3_controls"
  unfolding aws_s3_controls_def s3_validation_control_def list_all_simps reads_declared_execution
    reads_declared_validation_only
  by (intro conjI TrueI readsI; simp only: agree_simps aws_defs reads_unfold)

end
