(* ===== verification/Ipaddress.thy ===== *)
theory Ipaddress
  imports Control_Models
begin

text \<open>
  The part of Python's \<open>ipaddress\<close> that the security-group controls use: \<open>ip_network\<close> on a
  string (strict), with \<open>version\<close>, \<open>prefixlen\<close> and \<open>is_global\<close> of the result. Every failure of
  \<open>ip_network\<close> is a \<open>ValueError\<close>, so \<open>None\<close> stands for all of them.
\<close>

fun split_on :: "char \<Rightarrow> string \<Rightarrow> string list" where
  "split_on c [] = [[]]"
| "split_on c (x # xs) =
     (if x = c then [] # split_on c xs
      else case split_on c xs of [] \<Rightarrow> [[x]] | y # ys \<Rightarrow> (x # y) # ys)"

definition dec_digit :: "char \<Rightarrow> int option" where
  "dec_digit c = (let n = int (of_char c :: nat) in if 48 \<le> n \<and> n \<le> 57 then Some (n - 48) else None)"

definition hex_value :: "char \<Rightarrow> int option" where
  "hex_value c =
     (let n = int (of_char c :: nat)
      in if 48 \<le> n \<and> n \<le> 57 then Some (n - 48)
         else if 97 \<le> n \<and> n \<le> 102 then Some (n - 87)
         else if 65 \<le> n \<and> n \<le> 70 then Some (n - 55)
         else None)"

definition number :: "int \<Rightarrow> (char \<Rightarrow> int option) \<Rightarrow> string \<Rightarrow> int option" where
  "number base digit s =
     (if s = [] then None
      else foldl (\<lambda>acc c. case (acc, digit c) of (Some n, Some d) \<Rightarrow> Some (n * base + d) | _ \<Rightarrow> None)
             (Some 0) s)"

definition octet :: "string \<Rightarrow> int option" where
  "octet s =
     (case number 10 dec_digit s of
        Some n \<Rightarrow> if length s \<le> 3 \<and> (s = ''0'' \<or> hd s \<noteq> CHR ''0'') \<and> n \<le> 255 then Some n else None
      | None \<Rightarrow> None)"

fun sequence_opt :: "'a option list \<Rightarrow> 'a list option" where
  "sequence_opt [] = Some []"
| "sequence_opt (None # xs) = None"
| "sequence_opt (Some x # xs) = map_option (Cons x) (sequence_opt xs)"

definition from_digits :: "int \<Rightarrow> int list \<Rightarrow> int" where
  "from_digits base = foldl (\<lambda>n d. n * base + d) 0"

definition ipv4_int :: "string \<Rightarrow> int option" where
  "ipv4_int s =
     (let octets = split_on CHR ''.'' s
      in if length octets \<noteq> 4 then None
         else map_option (from_digits 256) (sequence_opt (map octet octets)))"

definition mask_of :: "nat \<Rightarrow> nat \<Rightarrow> int" where
  "mask_of width n = 2 ^ width - 2 ^ (width - n)"

definition prefix_number :: "nat \<Rightarrow> string \<Rightarrow> nat option" where
  "prefix_number width s =
     (case number 10 dec_digit s of
        Some n \<Rightarrow> if n \<le> int width then Some (nat n) else None
      | None \<Rightarrow> None)"

definition prefix_of_mask :: "int \<Rightarrow> nat option" where
  "prefix_of_mask i = find (\<lambda>n. i = mask_of 32 n) [0..<33]"

definition ipv4_prefix :: "string \<Rightarrow> nat option" where
  "ipv4_prefix s =
     (case prefix_number 32 s of
        Some n \<Rightarrow> Some n
      | None \<Rightarrow>
          (case ipv4_int s of
             None \<Rightarrow> None
           | Some i \<Rightarrow> (case prefix_of_mask i of
                         Some n \<Rightarrow> Some n
                       | None \<Rightarrow> prefix_of_mask (2 ^ 32 - 1 - i))))"

definition hextet :: "string \<Rightarrow> int option" where
  "hextet s = (if length s \<le> 4 then number 16 hex_value s else None)"

text \<open>The hextets of an IPv6 address: the positions between the ends that are empty mark \<open>::\<close>.\<close>

definition ipv6_parts :: "string list \<Rightarrow> int option" where
  "ipv6_parts parts =
     (let n = length parts;
          skips = filter (\<lambda>i. parts ! i = []) [1..<n - 1]
      in if n < 3 \<or> 9 < n \<or> 1 < length skips then None
         else case skips of
           [] \<Rightarrow> if n \<noteq> 8 then None
                 else map_option (from_digits 65536) (sequence_opt (map hextet parts))
         | i # _ \<Rightarrow>
             let hi = (if hd parts = [] then i - 1 else i);
                 lo = (if last parts = [] then n - i - 2 else n - i - 1)
             in if (hd parts = [] \<and> hi \<noteq> 0) \<or> (last parts = [] \<and> lo \<noteq> 0) \<or> 8 < hi + lo + 1 then None
                else map_option (\<lambda>(hs, ls). from_digits 65536 (hs @ replicate (8 - (hi + lo)) 0 @ ls))
                       (case (sequence_opt (map hextet (take hi parts)),
                              sequence_opt (map hextet (drop (n - lo) parts))) of
                          (Some hs, Some ls) \<Rightarrow> Some (hs, ls) | _ \<Rightarrow> None))"

fun hex_digits :: "nat \<Rightarrow> int \<Rightarrow> string" where
  "hex_digits 0 n = []"
| "hex_digits (Suc k) n = hex_digits k (n div 16) @ [hex_digit (nat (n mod 16))]"

definition ipv6_int :: "string \<Rightarrow> int option" where
  "ipv6_int s =
     (let parts = split_on CHR '':'' s
      in if length parts < 3 then None
         else if CHR ''.'' \<in> set (last parts)
         then (case ipv4_int (last parts) of
                 None \<Rightarrow> None
               | Some i \<Rightarrow> ipv6_parts (butlast parts @ [hex_digits 4 (i div 65536), hex_digits 4 (i mod 65536)]))
         else ipv6_parts parts)"

definition ipv6_address :: "string \<Rightarrow> int option" where
  "ipv6_address s =
     (case split_on CHR ''%'' s of
        [a] \<Rightarrow> ipv6_int a
      | [a, scope] \<Rightarrow> if scope = [] then None else ipv6_int a
      | _ \<Rightarrow> None)"

record network =
  nw_version :: nat
  nw_address :: int
  nw_prefixlen :: nat

definition network_of :: "nat \<Rightarrow> nat \<Rightarrow> int option \<Rightarrow> nat option \<Rightarrow> network option" where
  "network_of version width address plen =
     (case (address, plen) of
        (Some a, Some n) \<Rightarrow>
          if a mod 2 ^ (width - n) = 0
          then Some \<lparr> nw_version = version, nw_address = a, nw_prefixlen = n \<rparr> else None
      | _ \<Rightarrow> None)"

definition ip_network :: "string \<Rightarrow> network option" where
  "ip_network s =
     (case split_on CHR ''/'' s of
        [a] \<Rightarrow> (case ipv4_int a of
                  Some i \<Rightarrow> network_of 4 32 (Some i) (Some 32)
                | None \<Rightarrow> network_of 6 128 (ipv6_address a) (Some 128))
      | [a, m] \<Rightarrow> (case (ipv4_int a, ipv4_prefix m) of
                     (Some i, Some n) \<Rightarrow> network_of 4 32 (Some i) (Some n)
                   | _ \<Rightarrow> network_of 6 128 (ipv6_address a) (prefix_number 128 m))
      | _ \<Rightarrow> None)"

definition broadcast :: "network \<Rightarrow> int" where
  "broadcast n = nw_address n + 2 ^ (32 - nw_prefixlen n) - 1"

text \<open>The blocks of the IANA special registry, as address and prefix length.\<close>

definition private_networks :: "(int list \<times> nat) list" where
  "private_networks =
     [([0, 0, 0, 0], 8), ([10, 0, 0, 0], 8), ([127, 0, 0, 0], 8), ([169, 254, 0, 0], 16),
      ([172, 16, 0, 0], 12), ([192, 0, 0, 0], 24), ([192, 0, 0, 170], 31), ([192, 0, 2, 0], 24),
      ([192, 168, 0, 0], 16), ([198, 18, 0, 0], 15), ([198, 51, 100, 0], 24),
      ([203, 0, 113, 0], 24), ([240, 0, 0, 0], 4), ([255, 255, 255, 255], 32)]"

definition in_block :: "int list \<times> nat \<Rightarrow> int \<Rightarrow> bool" where
  "in_block b i =
     (let a = from_digits 256 (fst b) in a \<le> i \<and> i < a + 2 ^ (32 - snd b))"

definition ipv4_is_private :: "network \<Rightarrow> bool" where
  "ipv4_is_private n =
     (list_ex (\<lambda>b. in_block b (nw_address n) \<and> in_block b (broadcast n)) private_networks \<and>
      list_all (\<lambda>b. \<not> in_block b (nw_address n) \<and> \<not> in_block b (broadcast n))
        [([192, 0, 0, 9], 32), ([192, 0, 0, 10], 32)])"

definition ipv4_is_global :: "network \<Rightarrow> bool" where
  "ipv4_is_global n =
     (\<not> (in_block ([100, 64, 0, 0], 10) (nw_address n) \<and> in_block ([100, 64, 0, 0], 10) (broadcast n))
      \<and> \<not> ipv4_is_private n)"

section \<open>Facts\<close>

lemma network_of_version: "network_of v w a n = Some m \<Longrightarrow> nw_version m = v"
  by (auto simp: network_of_def split: option.splits if_splits)

lemma ip_network_version: "ip_network s = Some n \<Longrightarrow> nw_version n = 4 \<or> nw_version n = 6"
  by (auto simp: ip_network_def dest!: network_of_version split: option.splits list.splits)

lemma network_of_aligned:
  "network_of v w a n = Some m \<Longrightarrow> nw_address m mod 2 ^ (w - nw_prefixlen m) = 0"
  by (auto simp: network_of_def split: option.splits if_splits)

lemma ip_network_samples:
  "map_option nw_prefixlen (ip_network ''0.0.0.0/0'') = Some 0"
  "ip_network ''10.0.0.1/8'' = None"
  "map_option nw_prefixlen (ip_network ''10.0.0.0/255.0.0.0'') = Some 8"
  "map_option nw_version (ip_network ''::/0'') = Some 6"
  "map_option nw_version (ip_network ''2001:db8::/32'') = Some 6"
  "map_option nw_version (ip_network ''::ffff:1.2.3.4'') = Some 6"
  "ip_network ''1.2.3.04'' = None" "ip_network '':::'' = None"
  "map_option ipv4_is_global (ip_network ''8.0.0.0/7'') = Some True"
  "map_option ipv4_is_global (ip_network ''10.0.0.0/8'') = Some False"
  by code_simp+

end
