(* ===== verification/Pack_Ec2.thy ===== *)
theory Pack_Ec2
  imports Ipaddress
begin

text \<open>
  \<open>src/elcapitan/control_packs/aws_ec2.py\<close>: the security-group controls, over rules with
  protocol, port range and CIDR blocks.
\<close>

definition rule_keys :: "string list" where
  "rule_keys = [''protocol'', ''from_port'', ''to_port'', ''ipv4_cidrs'', ''ipv6_cidrs'']"

definition high_risk_ports :: "int list" where
  "high_risk_ports = [25, 110, 135, 143, 445, 3000, 4333, 5000, 5500, 8080, 8088]"

definition port_controls :: "(string \<times> int list \<times> string) list" where
  "port_controls =
     [(''ec2_securitygroup_allow_ingress_from_internet_to_tcp_port_22'', [22], ''SSH''),
      (''ec2_securitygroup_allow_ingress_from_internet_to_tcp_port_3389'', [3389], ''RDP''),
      (''ec2_securitygroup_allow_ingress_from_internet_to_tcp_port_cassandra_7199_9160_8888'',
        [7199, 9160, 8888], ''Cassandra''),
      (''ec2_securitygroup_allow_ingress_from_internet_to_tcp_port_elasticsearch_kibana_9200_9300_5601'',
        [9200, 9300, 5601], ''Elasticsearch/Kibana''),
      (''ec2_securitygroup_allow_ingress_from_internet_to_tcp_port_ftp_20_21'', [20, 21], ''FTP''),
      (''ec2_securitygroup_allow_ingress_from_internet_to_tcp_port_kafka_9092'', [9092], ''Kafka''),
      (''ec2_securitygroup_allow_ingress_from_internet_to_tcp_port_memcached_11211'', [11211], ''Memcached''),
      (''ec2_securitygroup_allow_ingress_from_internet_to_tcp_port_mongodb_27017_27018'',
        [27017, 27018], ''MongoDB''),
      (''ec2_securitygroup_allow_ingress_from_internet_to_tcp_port_mysql_3306'', [3306], ''MySQL''),
      (''ec2_securitygroup_allow_ingress_from_internet_to_tcp_port_oracle_1521_2483'', [1521, 2483], ''Oracle''),
      (''ec2_securitygroup_allow_ingress_from_internet_to_tcp_port_postgres_5432'', [5432], ''PostgreSQL''),
      (''ec2_securitygroup_allow_ingress_from_internet_to_tcp_port_redis_6379'', [6379], ''Redis''),
      (''ec2_securitygroup_allow_ingress_from_internet_to_tcp_port_sql_server_1433_1434'',
        [1433, 1434], ''SQL Server''),
      (''ec2_securitygroup_allow_ingress_from_internet_to_tcp_port_telnet_23'', [23], ''Telnet'')]"

definition ec2_bool :: "evidence \<Rightarrow> string \<Rightarrow> bool res" where
  "ec2_bool values aspect =
     bindE (need_aspect ''EC2'' is_bool values aspect) (\<lambda>v. Inr (v = PBool True))"

definition sg_name :: "evidence \<Rightarrow> string res" where
  "sg_name values =
     bindE (require values ''ec2_sg_name'') (\<lambda>v.
     bindE (guardE (is_name v) ValueError
              (''live EC2 state has invalid security-group name '' @ py_repr v)) (\<lambda>_.
     Inr (as_str v)))"

type_synonym sg_rule = "(string, pyval) dict"

definition check_cidr :: "string \<Rightarrow> nat \<Rightarrow> pyval \<Rightarrow> unit res" where
  "check_cidr field version cidr =
     (case ip_network (as_str cidr) of
        None \<Rightarrow> Inl (Raise ValueError (''live EC2 state has invalid CIDR '' @ py_repr cidr))
      | Some n \<Rightarrow> guardE (nw_version n = version) ValueError
                    (''live EC2 state has invalid '' @ field @ '' CIDR '' @ py_repr cidr))"

definition check_cidrs :: "sg_rule \<Rightarrow> string \<times> nat \<Rightarrow> unit res" where
  "check_cidrs rule fv =
     (case fv of (field, version) \<Rightarrow>
        let cidrs = pget rule field
        in bindE (guardE (name_list cidrs \<and> distinct (names_of cidrs)) ValueError
                    (''live EC2 state has invalid '' @ field @ '' '' @ py_repr cidrs)) (\<lambda>_.
           bindE (mapE (check_cidr field version) (list_items cidrs)) (\<lambda>_. Inr ())))"

definition check_rule :: "string \<Rightarrow> pyval \<Rightarrow> sg_rule res" where
  "check_rule aspect value =
     bindE (guardE (is_dict value \<and> keys_are (dict_items value) rule_keys) ValueError
              (''live EC2 state has invalid '' @ aspect @ '' rule '' @ py_repr value)) (\<lambda>_.
     let rule = dict_items value;
         protocol = pget rule ''protocol''; start = pget rule ''from_port''; stop = pget rule ''to_port''
     in bindE (guardE (is_name protocol) ValueError
                 (''live EC2 state has invalid rule protocol '' @ py_repr protocol)) (\<lambda>_.
        bindE (guardE (is_none start = is_none stop) ValueError
                 ''live EC2 state has an incomplete port range'') (\<lambda>_.
        bindE (guardE (is_none start \<or>
                       (is_int start \<and> is_int stop \<and> -1 \<le> as_int start \<and> as_int stop \<le> 65535 \<and>
                        as_int start \<le> as_int stop)) ValueError
                 (''live EC2 state has invalid port range '' @ py_repr start @ ''-'' @ py_repr stop)) (\<lambda>_.
        bindE (mapE (check_cidrs rule) [(''ipv4_cidrs'', 4), (''ipv6_cidrs'', 6)]) (\<lambda>_.
        Inr rule)))))"

definition sg_rules :: "evidence \<Rightarrow> string \<Rightarrow> sg_rule list res" where
  "sg_rules values aspect =
     bindE (need_aspect ''EC2'' is_list values aspect) (\<lambda>value.
     mapE (check_rule aspect) (list_items value))"

definition wildcard :: "sg_rule \<Rightarrow> bool" where
  "wildcard rule =
     (PStr ''0.0.0.0/0'' \<in> set (list_items (pget rule ''ipv4_cidrs'')) \<or>
      PStr ''::/0'' \<in> set (list_items (pget rule ''ipv6_cidrs'')))"

definition opens_all_ports :: "sg_rule \<Rightarrow> bool" where
  "opens_all_ports rule =
     (wildcard rule \<and>
      (pget rule ''protocol'' = PStr ''-1'' \<or>
       (pget rule ''from_port'' = PInt 0 \<and> pget rule ''to_port'' = PInt 65535)))"

definition in_scope :: "evidence \<Rightarrow> bool res" where
  "in_scope values = ec2_bool values ''ec2_sg_in_use''"

definition sg_all_ports :: "evidence \<Rightarrow> control_evaluation res" where
  "sg_all_ports values =
     bindE (sg_rules values ''ec2_sg_ingress_rules'') (\<lambda>rules.
     bindE (in_scope values) (\<lambda>used.
     if \<not> used then
       evaluation False ''security group is unused and excluded by Prowler's default scope''
     else
       let exposed = list_ex opens_all_ports rules
       in evaluation exposed
            (if exposed then ''security group exposes all ports to a wildcard internet CIDR''
             else ''security group does not expose all ports to the internet'')))"

definition opens_port :: "int list \<Rightarrow> sg_rule \<Rightarrow> bool" where
  "opens_port ports rule =
     (wildcard rule \<and> pget rule ''protocol'' = PStr ''tcp'' \<and> \<not> is_none (pget rule ''from_port'') \<and>
      list_ex (\<lambda>port. as_int (pget rule ''from_port'') \<le> port \<and> port \<le> as_int (pget rule ''to_port''))
        ports)"

definition ports_evaluator :: "int list \<Rightarrow> string \<Rightarrow> evidence \<Rightarrow> control_evaluation res" where
  "ports_evaluator ports label values =
     bindE (sg_rules values ''ec2_sg_ingress_rules'') (\<lambda>rules.
     bindE (in_scope values) (\<lambda>used.
     if \<not> used then
       evaluation False ''security group is unused and excluded by Prowler's default scope''
     else if list_ex opens_all_ports rules then
       evaluation False
         ''Prowler suppresses the specific-port finding when its all-ports control is active''
     else
       let exposed = list_ex (opens_port ports) rules
       in evaluation exposed
            ((if exposed then ''security group exposes '' else ''security group does not expose '')
             @ label @ '' TCP port(s) to the internet'')))"

definition sg_high_risk :: "evidence \<Rightarrow> control_evaluation res" where
  "sg_high_risk = ports_evaluator high_risk_ports ''configured high-risk''"

definition wide_open_cidr :: "pyval \<Rightarrow> bool" where
  "wide_open_cidr cidr =
     (case ip_network (as_str cidr) of
        None \<Rightarrow> False
      | Some n \<Rightarrow> ipv4_is_global n \<and> 0 < nw_prefixlen n \<and> nw_prefixlen n < 24)"

definition sg_wide_open_public_ipv4 :: "evidence \<Rightarrow> control_evaluation res" where
  "sg_wide_open_public_ipv4 values =
     bindE (sg_rules values ''ec2_sg_ingress_rules'') (\<lambda>ingress.
     bindE (sg_rules values ''ec2_sg_egress_rules'') (\<lambda>egress.
     bindE (in_scope values) (\<lambda>used.
     if \<not> used then
       evaluation False ''security group is unused and excluded by Prowler's default scope''
     else
       let exposed = list_ex (\<lambda>rule. list_ex wide_open_cidr (list_items (pget rule ''ipv4_cidrs'')))
                       (ingress @ egress)
       in evaluation exposed
            (if exposed then ''security group contains a globally routable IPv4 range broader than /24''
             else ''security group has no globally routable IPv4 range broader than /24''))))"

definition sg_default_restrict :: "evidence \<Rightarrow> control_evaluation res" where
  "sg_default_restrict values =
     bindE (sg_rules values ''ec2_sg_ingress_rules'') (\<lambda>ingress.
     bindE (sg_rules values ''ec2_sg_egress_rules'') (\<lambda>egress.
     bindE (sg_name values) (\<lambda>name.
     bindE (in_scope values) (\<lambda>used.
     if \<not> used \<or> name \<noteq> ''default'' then
       evaluation False ''control applies only to an in-use default security group''
     else
       let allows_traffic = (ingress \<noteq> [] \<or> egress \<noteq> [])
       in evaluation allows_traffic
            (if allows_traffic then ''default security group has traffic rules''
             else ''default security group has no traffic rules'')))))"

definition sg_many_rules :: "evidence \<Rightarrow> control_evaluation res" where
  "sg_many_rules values =
     bindE (sg_rules values ''ec2_sg_ingress_rules'') (\<lambda>ingress.
     bindE (sg_rules values ''ec2_sg_egress_rules'') (\<lambda>egress.
     evaluation (50 < length ingress \<or> 50 < length egress)
       (''security group has '' @ show_nat (length ingress) @ '' ingress and ''
        @ show_nat (length egress) @ '' egress permission entries'')))"

definition sg_launch_wizard :: "evidence \<Rightarrow> control_evaluation res" where
  "sg_launch_wizard values =
     bindE (sg_name values) (\<lambda>name.
     evaluation (py_contains ''launch-wizard'' name) (''security-group name is '' @ repr_str name))"

definition sg_control ::
  "string \<Rightarrow> string list \<Rightarrow> (evidence \<Rightarrow> control_evaluation res) \<Rightarrow> control_definition" where
  "sg_control rule_id aspects =
     validation_only ''aws-ec2-security-group'' ''aws'' ''ec2_security_group''
       ''awsec2securitygroup'' rule_id aspects ''contract_tested''"

definition ingress_scope :: "string list" where
  "ingress_scope = [''ec2_sg_in_use'', ''ec2_sg_ingress_rules'']"

definition aws_ec2_controls :: "control_definition list" where
  "aws_ec2_controls =
     [sg_control ''ec2_securitygroup_allow_ingress_from_internet_to_all_ports'' ingress_scope
        sg_all_ports,
      sg_control ''ec2_securitygroup_allow_ingress_from_internet_to_high_risk_tcp_ports''
        ingress_scope sg_high_risk]
     @ map (\<lambda>(rule_id, ports, label). sg_control rule_id ingress_scope (ports_evaluator ports label))
         port_controls
     @ [sg_control ''ec2_securitygroup_allow_wide_open_public_ipv4''
          [''ec2_sg_in_use'', ''ec2_sg_ingress_rules'', ''ec2_sg_egress_rules'']
          sg_wide_open_public_ipv4,
        sg_control ''ec2_securitygroup_default_restrict_traffic''
          [''ec2_sg_in_use'', ''ec2_sg_name'', ''ec2_sg_ingress_rules'', ''ec2_sg_egress_rules'']
          sg_default_restrict,
        sg_control ''ec2_securitygroup_from_launch_wizard'' [''ec2_sg_name''] sg_launch_wizard,
        sg_control ''ec2_securitygroup_with_many_ingress_egress_rules''
          [''ec2_sg_ingress_rules'', ''ec2_sg_egress_rules''] sg_many_rules]"

definition aws_ec2_security_group_pack :: "control_pack res" where
  "aws_ec2_security_group_pack =
     build_pack ''aws-ec2-security-group'' ''contract_tested'' aws_ec2_controls"

section \<open>What the evaluators read\<close>

lemmas sg_defs = ec2_bool_def sg_name_def sg_rules_def in_scope_def sg_all_ports_def
  ports_evaluator_def sg_high_risk_def sg_wide_open_public_ipv4_def sg_default_restrict_def
  sg_many_rules_def sg_launch_wizard_def

lemma aws_ec2_reads: "list_all reads_declared aws_ec2_controls"
proof -
  have "reads ingress_scope (ports_evaluator ports label)" for ports label
    by (rule readsI) (simp only: ingress_scope_def agree_simps sg_defs reads_unfold)
  then have "list_all reads_declared
      (map (\<lambda>(rule_id, ports, label). sg_control rule_id ingress_scope (ports_evaluator ports label))
         port_controls)"
    by (auto simp: list_all_iff sg_control_def)
  then show ?thesis
    unfolding aws_ec2_controls_def list_all_append list_all_simps sg_control_def
      reads_declared_validation_only
    by (intro conjI TrueI readsI)
       (assumption | simp only: ingress_scope_def agree_simps sg_defs reads_unfold)+
qed

section \<open>Exposed ports do not escape\<close>

lemma sg_all_ports_result:
  assumes "sg_rules values ''ec2_sg_ingress_rules'' = Inr rules" "in_scope values = Inr True"
  shows "\<exists>r. sg_all_ports values = Inr r \<and> (ce_confirmed r \<longleftrightarrow> list_ex opens_all_ports rules)"
  using assms by (simp add: sg_all_ports_def evaluation_def Let_def)

lemma ports_evaluator_result:
  assumes "sg_rules values ''ec2_sg_ingress_rules'' = Inr rules" "in_scope values = Inr True"
  shows "\<exists>r. ports_evaluator ports label values = Inr r \<and>
    (ce_confirmed r \<longleftrightarrow> \<not> list_ex opens_all_ports rules \<and> list_ex (opens_port ports) rules)"
  using assms by (simp add: ports_evaluator_def evaluation_def Let_def)

text \<open>An exposed port does not escape: when an in-use security group has a TCP rule open to the
  internet whose range covers one of the ports of a control, exactly one of two controls confirms
  it, the control of these ports or, when some rule opens all ports and the former is suppressed,
  the all-ports control.\<close>

theorem exposed_port_reported:
  assumes "sg_rules values ''ec2_sg_ingress_rules'' = Inr rules" "in_scope values = Inr True"
    and "rule \<in> set rules" "opens_port ports rule"
  shows "\<exists>a b. sg_all_ports values = Inr a \<and> ports_evaluator ports label values = Inr b \<and>
    (ce_confirmed a \<longleftrightarrow> list_ex opens_all_ports rules) \<and> (ce_confirmed b \<longleftrightarrow> \<not> ce_confirmed a)"
proof -
  have "list_ex (opens_port ports) rules" using assms(3,4) by (auto simp: list_ex_iff)
  with sg_all_ports_result [OF assms(1,2)] ports_evaluator_result [OF assms(1,2), of ports label]
  show ?thesis by blast
qed

definition sample_group :: evidence where
  "sample_group =
     [(''ec2_sg_in_use'', PBool True),
      (''ec2_sg_ingress_rules'',
        PList [PDict [(''protocol'', PStr ''tcp''), (''from_port'', PInt 20), (''to_port'', PInt 30),
                      (''ipv4_cidrs'', PList [PStr ''10.0.0.0/8'', PStr ''0.0.0.0/0'']),
                      (''ipv6_cidrs'', PList [])]])]"

theorem exposed_port_reported_witness:
  "\<exists>b. ports_evaluator [22] ''SSH'' sample_group = Inr b \<and> ce_confirmed b"
proof -
  let ?rule = "dict_items (hd (list_items (pget sample_group ''ec2_sg_ingress_rules'')))"
  have rules: "sg_rules sample_group ''ec2_sg_ingress_rules'' = Inr [?rule]" by code_simp
  have used: "in_scope sample_group = Inr True" by code_simp
  have open22: "opens_port [22] ?rule" "\<not> opens_all_ports ?rule" by code_simp+
  from exposed_port_reported [OF rules used _ open22(1)] open22(2) show ?thesis by auto
qed

end
