(* ===== verification/Pack_Azure_Storage.thy ===== *)
theory Pack_Azure_Storage
  imports Control_Models
begin

text \<open>
  \<open>src/elcapitan/control_packs/azure_storage.py\<close>: fourteen controls of storage accounts.
  \<open>x is True\<close> and \<open>x is False\<close> are identity tests: only the booleans pass them.
\<close>

definition st_public_network_access :: "evidence \<Rightarrow> control_evaluation res" where
  "st_public_network_access values =
     bindE (require values ''public_network_access'') (\<lambda>value.
     evaluation (str_lower (py_str value) \<noteq> ''disabled'')
       (''public network access is '' @ py_repr value))"

definition st_blob_public_access :: "evidence \<Rightarrow> control_evaluation res" where
  "st_blob_public_access values =
     bindE (require values ''allow_blob_public_access'') (\<lambda>value.
     evaluation (value \<noteq> PBool False) (''allow blob public access is '' @ py_repr value))"

definition st_blob_versioning :: "evidence \<Rightarrow> control_evaluation res" where
  "st_blob_versioning values =
     bindE (require values ''blob_versioning'') (\<lambda>value.
     evaluation (value \<noteq> PBool True) (''blob versioning is '' @ py_repr value))"

definition st_object :: "evidence \<Rightarrow> string \<Rightarrow> (string, pyval) dict res" where
  "st_object values aspect =
     bindE (need_aspect ''storage'' is_dict values aspect) (\<lambda>v. Inr (dict_items v))"

definition opt_bool :: "pyval \<Rightarrow> bool" where
  "opt_bool v = (is_none v \<or> is_bool v)"

definition st_optional_boolean :: "evidence \<Rightarrow> string \<Rightarrow> pyval res" where
  "st_optional_boolean = need_aspect ''storage'' opt_bool"

definition st_customer_managed_key :: "evidence \<Rightarrow> control_evaluation res" where
  "st_customer_managed_key values =
     bindE (st_object values ''encryption'') (\<lambda>encryption.
     let key_source = pget encryption ''keySource''
     in bindE (guardE (is_name key_source) ValueError ''live storage encryption has no keySource'') (\<lambda>_.
        let uses_cmk = key_source = PStr ''Microsoft.Keyvault''
        in evaluation (\<not> uses_cmk)
             (if uses_cmk then ''storage encryption uses a customer-managed key''
              else ''storage encryption key source is '' @ py_repr key_source)))"

definition st_geo_redundant :: "evidence \<Rightarrow> control_evaluation res" where
  "st_geo_redundant values =
     bindE (st_object values ''sku'') (\<lambda>sku.
     let name = pget sku ''name''
     in bindE (guardE (is_name name) ValueError ''live storage SKU has no name'') (\<lambda>_.
        let enabled = as_str name \<in> {''Standard_GRS'', ''Standard_GZRS'', ''Standard_RAGRS'',
                                     ''Standard_RAGZRS''}
        in evaluation (\<not> enabled)
             (''storage replication SKU '' @ py_repr name
              @ (if enabled then '' is geo-redundant'' else '' is not geo-redundant''))))"

definition st_infrastructure_encryption :: "evidence \<Rightarrow> control_evaluation res" where
  "st_infrastructure_encryption values =
     bindE (st_object values ''encryption'') (\<lambda>encryption.
     let enabled = pget encryption ''requireInfrastructureEncryption''
     in bindE (guardE (opt_bool enabled) ValueError
                 ''live storage encryption has invalid requireInfrastructureEncryption'') (\<lambda>_.
        evaluation (enabled \<noteq> PBool True)
          (if enabled = PBool True then ''storage infrastructure encryption is enabled''
           else ''storage infrastructure encryption is not enabled'')))"

definition st_default_network_deny :: "evidence \<Rightarrow> control_evaluation res" where
  "st_default_network_deny values =
     bindE (st_object values ''network_rule_set'') (\<lambda>network.
     let action = pget network ''defaultAction''
     in bindE (in_str_set action [''Allow'', ''Deny'']) (\<lambda>known.
        bindE (guardE known ValueError
                 (''live storage network default action is invalid: '' @ py_repr action)) (\<lambda>_.
        evaluation (action = PStr ''Allow'')
          (''storage network default action is '' @ py_repr action))))"

definition st_private_endpoints :: "evidence \<Rightarrow> control_evaluation res" where
  "st_private_endpoints values =
     bindE (require values ''private_endpoint_connections'') (\<lambda>connections.
     bindE (guardE (dict_list connections) ValueError
              ''live storage private endpoint connections are not an object list'') (\<lambda>_.
     let count = length (list_items connections)
     in evaluation (count = 0)
          (if count = 0 then ''storage account has no private endpoint connections''
           else ''storage account has '' @ show_nat count @ '' private endpoint connection(s)'')))"

definition st_shared_key_access :: "evidence \<Rightarrow> control_evaluation res" where
  "st_shared_key_access values =
     bindE (st_optional_boolean values ''allow_shared_key_access'') (\<lambda>enabled.
     let disabled = enabled = PBool False
     in evaluation (\<not> disabled)
          (if disabled then ''storage Shared Key access is disabled''
           else ''storage Shared Key access is not explicitly disabled''))"

definition st_default_entra_authorization :: "evidence \<Rightarrow> control_evaluation res" where
  "st_default_entra_authorization values =
     bindE (st_optional_boolean values ''default_to_oauth_authentication'') (\<lambda>enabled.
     evaluation (enabled \<noteq> PBool True)
       (if enabled = PBool True then ''storage defaults to Microsoft Entra authorization''
        else ''storage does not default to Microsoft Entra authorization''))"

definition st_container_soft_delete :: "evidence \<Rightarrow> control_evaluation res" where
  "st_container_soft_delete values =
     bindE (require values ''blob_container_delete_retention_policy'') (\<lambda>policy.
     bindE (if is_none policy then Inr (PBool False)
            else if is_dict policy then Inr (pget (dict_items policy) ''enabled'')
            else Inl (Raise ValueError
                   (''live storage state has invalid blob_container_delete_retention_policy ''
                    @ py_repr policy))) (\<lambda>enabled.
     bindE (guardE (opt_bool enabled) ValueError
              ''live storage container-delete policy has invalid enabled state'') (\<lambda>_.
     evaluation (enabled \<noteq> PBool True)
       (if enabled = PBool True then ''storage container soft delete is enabled''
        else ''storage container soft delete is not enabled''))))"

definition st_trusted_azure_services :: "evidence \<Rightarrow> control_evaluation res" where
  "st_trusted_azure_services values =
     bindE (st_object values ''network_rule_set'') (\<lambda>network.
     let bypass = pget network ''bypass''
     in bindE (guardE (is_str bypass) ValueError
                 (''live storage network bypass is invalid: '' @ py_repr bypass)) (\<lambda>_.
        let trusted = py_contains ''AzureServices'' (as_str bypass)
        in evaluation (\<not> trusted)
             (if trusted then ''trusted Azure services network bypass is enabled''
              else ''trusted Azure services network bypass is not enabled'')))"

definition st_key_rotation_90_days :: "evidence \<Rightarrow> control_evaluation res" where
  "st_key_rotation_90_days values =
     bindE (require values ''key_policy'') (\<lambda>policy.
     bindE (if is_none policy then Inr PNone
            else if is_dict policy then
              (let days = pget (dict_items policy) ''keyExpirationPeriodInDays''
               in bindE (guardE (is_none days \<or> is_int days) ValueError
                           ''live storage key policy has invalid keyExpirationPeriodInDays'')
                    (\<lambda>_. Inr days))
            else Inl (Raise ValueError (''live storage state has invalid key_policy '' @ py_repr policy)))
       (\<lambda>days.
     let valid = (\<not> is_none days \<and> 1 \<le> as_int days \<and> as_int days \<le> 90)
     in evaluation (\<not> valid)
          (if is_none days \<or> days = PInt 0 then ''storage account has no key expiration period set''
           else if valid then ''storage key expiration period is '' @ py_str days @ '' days''
           else ''storage key expiration period is outside 1-90 days: '' @ py_str days)))"

definition st_secure_smb_channel_encryption :: "evidence \<Rightarrow> control_evaluation res" where
  "st_secure_smb_channel_encryption values =
     bindE (require values ''file_service_status'') (\<lambda>status.
     bindE (guardE (status \<noteq> PStr ''unavailable'') ValueError
              ''live Azure File Service properties are unavailable'') (\<lambda>_.
     bindE (guardE (status = PStr ''available'') ValueError
              (''live Azure File Service status is invalid: '' @ py_repr status)) (\<lambda>_.
     bindE (require values ''file_smb_channel_encryption'') (\<lambda>algorithms.
     bindE (guardE (name_list algorithms) ValueError
              ''live SMB channel encryption algorithms are invalid: expected a string list'') (\<lambda>_.
     let names = names_of algorithms;
         secure = (names \<noteq> [] \<and> list_all (\<lambda>a. a = ''AES-256-GCM'') names)
     in evaluation (\<not> secure)
          (if secure then ''SMB channel encryption allows only AES-256-GCM''
           else ''SMB channel encryption does not allow only AES-256-GCM: ''
                @ (if names \<noteq> [] then str_join '', '' names else ''none'')))))))"

definition storage_control ::
  "string \<Rightarrow> string list \<Rightarrow> (evidence \<Rightarrow> control_evaluation res) \<Rightarrow> control_definition" where
  "storage_control rule_id aspects =
     validation_only ''azure-storage'' ''azure'' ''storage_account''
       ''microsoft.storage/storageaccounts'' rule_id aspects []"

definition azure_storage_controls :: "control_definition list" where
  "azure_storage_controls =
     [(storage_control ''storage_account_public_network_access_disabled''
         [''public_network_access'', ''network_rule_set'', ''private_endpoint_connections'']
         st_public_network_access)
        \<lparr>cd_remediation_planning := True, cd_live_execution := True\<rparr>,
      (storage_control ''storage_blob_public_access_level_is_disabled''
         [''allow_blob_public_access''] st_blob_public_access)
        \<lparr>cd_remediation_planning := True, cd_live_execution := True\<rparr>,
      (storage_control ''storage_blob_versioning_is_enabled'' [''blob_versioning'']
         st_blob_versioning)
        \<lparr>cd_remediation_planning := True, cd_live_execution := False\<rparr>,
      storage_control ''storage_ensure_encryption_with_customer_managed_keys'' [''encryption'']
        st_customer_managed_key,
      storage_control ''storage_geo_redundant_enabled'' [''sku''] st_geo_redundant,
      storage_control ''storage_infrastructure_encryption_is_enabled'' [''encryption'']
        st_infrastructure_encryption,
      storage_control ''storage_default_network_access_rule_is_denied'' [''network_rule_set'']
        st_default_network_deny,
      storage_control ''storage_ensure_private_endpoints_in_storage_accounts''
        [''private_endpoint_connections''] st_private_endpoints,
      storage_control ''storage_account_key_access_disabled'' [''allow_shared_key_access'']
        st_shared_key_access,
      storage_control ''storage_default_to_entra_authorization_enabled''
        [''default_to_oauth_authentication''] st_default_entra_authorization,
      storage_control ''storage_ensure_soft_delete_is_enabled''
        [''blob_container_delete_retention_policy''] st_container_soft_delete,
      storage_control ''storage_ensure_azure_services_are_trusted_to_access_is_enabled''
        [''network_rule_set''] st_trusted_azure_services,
      storage_control ''storage_key_rotation_90_days'' [''key_policy''] st_key_rotation_90_days,
      storage_control ''storage_smb_channel_encryption_with_secure_algorithm''
        [''file_service_status'', ''file_smb_channel_encryption''] st_secure_smb_channel_encryption]"

definition azure_storage_pack :: "control_pack res" where
  "azure_storage_pack = build_pack ''azure-storage'' ''e2e_measured'' azure_storage_controls"

lemmas storage_defs = st_public_network_access_def st_blob_public_access_def st_blob_versioning_def
  st_object_def st_optional_boolean_def st_customer_managed_key_def st_geo_redundant_def
  st_infrastructure_encryption_def st_default_network_deny_def st_private_endpoints_def
  st_shared_key_access_def st_default_entra_authorization_def st_container_soft_delete_def
  st_trusted_azure_services_def st_key_rotation_90_days_def st_secure_smb_channel_encryption_def

lemma azure_storage_reads: "list_all reads_declared azure_storage_controls"
  unfolding azure_storage_controls_def storage_control_def list_all_simps reads_declared_execution
    reads_declared_validation_only
  by (intro conjI TrueI readsI; simp only: agree_simps storage_defs reads_unfold)

end
