(* ===== verification/Packs_Azure.thy ===== *)
theory Packs_Azure
  imports Pack_Azure_Storage
begin

text \<open>
  The other Azure packs of \<open>src/elcapitan/control_packs\<close>: App Service, Container Registry, Cosmos
  DB, Key Vault, Network, Azure OpenAI and SQL.
\<close>

section \<open>App Service and Function Apps\<close>

definition app_optional_boolean :: "evidence \<Rightarrow> string \<Rightarrow> pyval res" where
  "app_optional_boolean = need_aspect ''App Service'' opt_bool"

definition app_kind :: "evidence \<Rightarrow> string res" where
  "app_kind values =
     bindE (require values ''app_kind'') (\<lambda>kind.
     bindE (guardE (is_name kind) ValueError
              (''live App Service state has invalid app kind '' @ py_repr kind)) (\<lambda>_.
     Inr (as_str kind)))"

definition starts_with :: "string \<Rightarrow> string \<Rightarrow> bool" where
  "starts_with pre s = (take (length pre) s = pre)"

definition web_app :: "evidence \<Rightarrow> bool res" where
  "web_app values = bindE (app_kind values) (\<lambda>kind. Inr (starts_with ''app'' kind))"

definition function_app :: "evidence \<Rightarrow> bool res" where
  "function_app values = bindE (app_kind values) (\<lambda>kind. Inr (starts_with ''functionapp'' kind))"

definition app_client_certificates :: "evidence \<Rightarrow> control_evaluation res" where
  "app_client_certificates values =
     bindE (web_app values) (\<lambda>web.
     if \<not> web then evaluation False ''resource is not an App Service web app''
     else
       bindE (app_optional_boolean values ''app_client_cert_enabled'') (\<lambda>enabled.
       bindE (require values ''app_client_cert_mode'') (\<lambda>mode.
       bindE (guardE (is_none mode \<or> is_str mode) ValueError
                (''live App Service state has invalid client-certificate mode '' @ py_repr mode)) (\<lambda>_.
       let required = (enabled = PBool True \<and> mode = PStr ''Required'')
       in evaluation (\<not> required)
            (if required then ''client certificates are enabled and required''
             else ''client certificates are not both enabled and required'')))))"

definition app_authentication :: "evidence \<Rightarrow> control_evaluation res" where
  "app_authentication values =
     bindE (web_app values) (\<lambda>web.
     if \<not> web then evaluation False ''resource is not an App Service web app''
     else
       bindE (app_optional_boolean values ''app_auth_platform_enabled'') (\<lambda>enabled.
       evaluation (enabled \<noteq> PBool True)
         (if enabled = PBool True then ''App Service authentication is enabled''
          else ''App Service authentication is not enabled'')))"

definition app_http20 :: "evidence \<Rightarrow> control_evaluation res" where
  "app_http20 values =
     bindE (web_app values) (\<lambda>web.
     if \<not> web then evaluation False ''resource is not an App Service web app''
     else
       bindE (app_optional_boolean values ''app_http20_enabled'') (\<lambda>enabled.
       evaluation (enabled \<noteq> PBool True)
         (if enabled = PBool True then ''HTTP/2 is enabled'' else ''HTTP/2 is not enabled'')))"

text \<open>The shape of one diagnostic log entry, checked field by field; \<open>label\<close> starts the messages.\<close>

definition log_entry :: "string \<Rightarrow> nat \<times> pyval \<Rightarrow> (string, pyval) dict res" where
  "log_entry label pe =
     (case pe of (position, value) \<Rightarrow>
        let entry = dict_items value;
            here = ''live '' @ label @ '' diagnostic log entry '' @ show_nat position
        in bindE (guardE (is_dict value) ValueError (here @ '' is not an object'')) (\<lambda>_.
           bindE (guardE (keys_are entry [''setting'', ''category'', ''category_group'', ''enabled''])
                    ValueError (here @ '' has an invalid shape'')) (\<lambda>_.
           bindE (guardE (is_name (pget entry ''setting'')) ValueError (here @ '' has no setting name'')) (\<lambda>_.
           bindE (guardE (is_none (pget entry ''category'') \<or> is_str (pget entry ''category''))
                    ValueError (here @ '' has invalid category'')) (\<lambda>_.
           bindE (guardE (is_none (pget entry ''category_group'') \<or> is_str (pget entry ''category_group''))
                    ValueError (here @ '' has invalid category group'')) (\<lambda>_.
           bindE (guardE (opt_bool (pget entry ''enabled''))
                    ValueError (here @ '' has invalid enabled state'')) (\<lambda>_.
           Inr entry)))))))"

definition log_on :: "(string, pyval) dict \<Rightarrow> string \<Rightarrow> string \<Rightarrow> bool" where
  "log_on entry field value = (pget entry ''enabled'' = PBool True \<and> pget entry field = PStr value)"

definition app_http_logs :: "evidence \<Rightarrow> control_evaluation res" where
  "app_http_logs values =
     bindE (app_kind values) (\<lambda>kind.
     bindE (require values ''app_diagnostic_log_settings'') (\<lambda>settings.
     bindE (guardE (is_list settings) ValueError
              ''live App Service diagnostic settings are not a list'') (\<lambda>_.
     bindE (mapE (log_entry ''App Service'') (enumerate 0 (list_items settings))) (\<lambda>entries.
     let enabled = list_ex (\<lambda>e. log_on e ''category'' ''AppServiceHTTPLogs'' \<or>
                                log_on e ''category_group'' ''allLogs'') entries
     in if \<not> starts_with ''app'' kind then
          evaluation False ''Prowler excludes non-web workloads from the web-app HTTP log check''
        else
          evaluation (\<not> enabled)
            (if enabled then ''App Service HTTP diagnostic logs are enabled''
             else ''App Service HTTP diagnostic logs are not enabled'')))))"

definition opt_str :: "pyval \<Rightarrow> bool" where
  "opt_str v = (is_none v \<or> is_str v)"

definition app_optional_string :: "evidence \<Rightarrow> string \<Rightarrow> pyval res" where
  "app_optional_string = need_aspect ''App Service'' opt_str"

definition function_ftps :: "evidence \<Rightarrow> control_evaluation res" where
  "function_ftps values =
     bindE (function_app values) (\<lambda>fn.
     if \<not> fn then evaluation False ''resource is not an Azure Function App''
     else
       bindE (app_optional_string values ''app_ftps_state'') (\<lambda>state.
       let disabled = state = PStr ''Disabled''
       in evaluation (\<not> disabled)
            (if disabled then ''Function App FTPS deployment is disabled''
             else ''Function App FTPS deployment state is '' @ py_repr state)))"

definition function_public_access :: "evidence \<Rightarrow> control_evaluation res" where
  "function_public_access values =
     bindE (function_app values) (\<lambda>fn.
     if \<not> fn then evaluation False ''resource is not an Azure Function App''
     else
       bindE (app_optional_string values ''app_public_network_access'') (\<lambda>state.
       let disabled = state = PStr ''Disabled''
       in evaluation (\<not> disabled)
            (if disabled then ''Function App public network access is disabled''
             else ''Function App public network access is '' @ py_repr state)))"

definition function_vnet :: "evidence \<Rightarrow> control_evaluation res" where
  "function_vnet values =
     bindE (function_app values) (\<lambda>fn.
     if \<not> fn then evaluation False ''resource is not an Azure Function App''
     else
       bindE (app_optional_string values ''app_virtual_network_subnet_id'') (\<lambda>subnet_id.
       evaluation (\<not> truthy subnet_id)
         (if truthy subnet_id then ''Function App has VNet integration''
          else ''Function App has no VNet integration'')))"

definition app_control ::
  "string \<Rightarrow> string \<Rightarrow> string \<Rightarrow> string list \<Rightarrow> (evidence \<Rightarrow> control_evaluation res) \<Rightarrow> control_definition" where
  "app_control family resource_type rule_id aspects =
     validation_only ''azure-app-service'' ''azure'' family resource_type rule_id aspects []"

definition azure_app_service_controls :: "control_definition list" where
  "azure_app_service_controls =
     [app_control ''app_service_web_app'' ''microsoft.web/sites/config'' ''app_client_certificates_on''
        [''app_kind'', ''app_client_cert_enabled'', ''app_client_cert_mode''] app_client_certificates,
      app_control ''app_service_web_app'' ''microsoft.web/sites'' ''app_ensure_auth_is_set_up''
        [''app_kind'', ''app_auth_platform_enabled''] app_authentication,
      app_control ''app_service_web_app'' ''microsoft.web/sites'' ''app_ensure_using_http20''
        [''app_kind'', ''app_http20_enabled''] app_http20,
      app_control ''app_service_web_app'' ''microsoft.web/sites'' ''app_http_logs_enabled''
        [''app_kind'', ''app_diagnostic_log_settings''] app_http_logs,
      app_control ''azure_function_app'' ''microsoft.web/sites'' ''app_function_ftps_deployment_disabled''
        [''app_kind'', ''app_ftps_state''] function_ftps,
      app_control ''azure_function_app'' ''microsoft.web/sites'' ''app_function_not_publicly_accessible''
        [''app_kind'', ''app_public_network_access''] function_public_access,
      app_control ''azure_function_app'' ''microsoft.web/sites'' ''app_function_vnet_integration_enabled''
        [''app_kind'', ''app_virtual_network_subnet_id''] function_vnet]"

definition azure_app_service_pack :: "control_pack res" where
  "azure_app_service_pack = build_pack ''azure-app-service'' ''e2e_measured'' azure_app_service_controls"

section \<open>Container Registry\<close>

definition acr_admin_user :: "evidence \<Rightarrow> control_evaluation res" where
  "acr_admin_user values =
     bindE (require values ''acr_admin_user_enabled'') (\<lambda>enabled.
     bindE (guardE (is_bool enabled) ValueError
              (''live ACR admin-user state is invalid: '' @ py_repr enabled)) (\<lambda>_.
     evaluation (enabled = PBool True)
       (''Container Registry admin user is '' @ enabled_word (enabled = PBool True))))"

definition acr_public_network :: "evidence \<Rightarrow> control_evaluation res" where
  "acr_public_network values =
     bindE (require values ''acr_public_network_access'') (\<lambda>access.
     bindE (guardE (is_str access \<and> as_str access \<in> {''Enabled'', ''Disabled''}) ValueError
              (''live ACR public-network state is invalid: '' @ py_repr access)) (\<lambda>_.
     evaluation (access \<noteq> PStr ''Disabled'')
       (''Container Registry public network access is '' @ py_repr access)))"

definition acr_private_link :: "evidence \<Rightarrow> control_evaluation res" where
  "acr_private_link values =
     bindE (require values ''acr_private_endpoint_connection_count'') (\<lambda>count.
     bindE (guardE (is_int count \<and> \<not> as_int count < 0) ValueError
              (''live ACR private endpoint count is invalid: '' @ py_repr count)) (\<lambda>_.
     evaluation (as_int count = 0)
       (if as_int count = 0 then ''Container Registry has no private endpoint connections''
        else ''Container Registry has '' @ py_str count @ '' private endpoint connection(s)'')))"

definition acr_control ::
  "string \<Rightarrow> string list \<Rightarrow> (evidence \<Rightarrow> control_evaluation res) \<Rightarrow> control_definition" where
  "acr_control rule_id aspects =
     validation_only ''azure-container-registry'' ''azure'' ''container_registry''
       ''microsoft.containerregistry/registries'' rule_id aspects []"

definition azure_container_registry_controls :: "control_definition list" where
  "azure_container_registry_controls =
     [acr_control ''containerregistry_admin_user_disabled'' [''acr_admin_user_enabled''] acr_admin_user,
      acr_control ''containerregistry_not_publicly_accessible'' [''acr_public_network_access'']
        acr_public_network,
      acr_control ''containerregistry_uses_private_link''
        [''acr_private_endpoint_connection_count''] acr_private_link]"

definition azure_container_registry_pack :: "control_pack res" where
  "azure_container_registry_pack =
     build_pack ''azure-container-registry'' ''e2e_measured'' azure_container_registry_controls"

section \<open>Cosmos DB\<close>

definition cosmos_optional_boolean :: "evidence \<Rightarrow> string \<Rightarrow> pyval res" where
  "cosmos_optional_boolean = need_aspect ''Cosmos DB'' opt_bool"

definition cosmos_optional_enum :: "evidence \<Rightarrow> string \<Rightarrow> string list \<Rightarrow> pyval res" where
  "cosmos_optional_enum values aspect allowed =
     need_aspect ''Cosmos DB'' (\<lambda>v. is_none v \<or> (is_str v \<and> as_str v \<in> set allowed)) values aspect"

definition cosmos_automatic_failover :: "evidence \<Rightarrow> control_evaluation res" where
  "cosmos_automatic_failover values =
     bindE (cosmos_optional_boolean values ''cosmosdb_enable_automatic_failover'') (\<lambda>enabled.
     evaluation (enabled \<noteq> PBool True)
       (if enabled = PBool True then ''Cosmos DB automatic failover is enabled''
        else ''Cosmos DB automatic failover is not enabled''))"

definition cosmos_continuous_backup :: "evidence \<Rightarrow> control_evaluation res" where
  "cosmos_continuous_backup values =
     bindE (cosmos_optional_enum values ''cosmosdb_backup_policy_type'' [''Continuous'', ''Periodic''])
       (\<lambda>policy.
     evaluation (policy \<noteq> PStr ''Continuous'')
       (''Cosmos DB backup policy type is '' @ py_repr policy))"

definition cosmos_minimum_tls :: "evidence \<Rightarrow> control_evaluation res" where
  "cosmos_minimum_tls values =
     bindE (cosmos_optional_enum values ''cosmosdb_minimum_tls_version''
              [''Tls'', ''Tls11'', ''Tls12'', ''Tls13'']) (\<lambda>version.
     evaluation (version \<notin> {PStr ''Tls12'', PStr ''Tls13''})
       (if \<not> is_none version then ''Cosmos DB minimum TLS version is '' @ py_repr version
        else ''Cosmos DB minimum TLS version is absent''))"

definition cosmos_public_network :: "evidence \<Rightarrow> control_evaluation res" where
  "cosmos_public_network values =
     bindE (cosmos_optional_enum values ''cosmosdb_public_network_access''
              [''Disabled'', ''Enabled'', ''SecuredByPerimeter'']) (\<lambda>access.
     evaluation (access \<notin> {PStr ''Disabled'', PStr ''SecuredByPerimeter''})
       (if \<not> is_none access then ''Cosmos DB public network access is '' @ py_repr access
        else ''Cosmos DB public network access is absent''))"

definition cosmos_control ::
  "string \<Rightarrow> string list \<Rightarrow> (evidence \<Rightarrow> control_evaluation res) \<Rightarrow> control_definition" where
  "cosmos_control rule_id aspects =
     validation_only ''azure-cosmos-db'' ''azure'' ''cosmos_db''
       ''microsoft.documentdb/databaseaccounts'' rule_id aspects []"

definition azure_cosmos_controls :: "control_definition list" where
  "azure_cosmos_controls =
     [cosmos_control ''cosmosdb_account_automatic_failover_enabled''
        [''cosmosdb_enable_automatic_failover''] cosmos_automatic_failover,
      cosmos_control ''cosmosdb_account_backup_policy_continuous''
        [''cosmosdb_backup_policy_type''] cosmos_continuous_backup,
      cosmos_control ''cosmosdb_account_minimum_tls_version''
        [''cosmosdb_minimum_tls_version''] cosmos_minimum_tls,
      cosmos_control ''cosmosdb_account_public_network_access_disabled''
        [''cosmosdb_public_network_access''] cosmos_public_network]"

definition azure_cosmos_db_pack :: "control_pack res" where
  "azure_cosmos_db_pack =
     build_pack ''azure-cosmos-db'' ''contract_tested_export_observed'' azure_cosmos_controls"

section \<open>Key Vault\<close>

definition kv_optional_boolean :: "evidence \<Rightarrow> string \<Rightarrow> pyval res" where
  "kv_optional_boolean = need_aspect ''Key Vault'' opt_bool"

definition kv_rbac_enabled :: "evidence \<Rightarrow> control_evaluation res" where
  "kv_rbac_enabled values =
     bindE (kv_optional_boolean values ''keyvault_enable_rbac_authorization'') (\<lambda>enabled.
     evaluation (enabled \<noteq> PBool True)
       (if enabled = PBool True then ''Key Vault data-plane RBAC is enabled''
        else ''Key Vault data-plane RBAC is not enabled''))"

definition kv_recoverable :: "evidence \<Rightarrow> control_evaluation res" where
  "kv_recoverable values =
     bindE (kv_optional_boolean values ''keyvault_enable_soft_delete'') (\<lambda>soft_delete.
     bindE (kv_optional_boolean values ''keyvault_enable_purge_protection'') (\<lambda>purge_protection.
     let missing = (if soft_delete \<noteq> PBool True then [''soft delete''] else [])
                   @ (if purge_protection \<noteq> PBool True then [''purge protection''] else [])
     in evaluation (missing \<noteq> [])
          (if missing = [] then ''Key Vault has soft delete and purge protection enabled''
           else ''Key Vault is missing: '' @ str_join '', '' missing)))"

definition kv_private_endpoints :: "evidence \<Rightarrow> control_evaluation res" where
  "kv_private_endpoints values =
     bindE (require values ''keyvault_private_endpoint_connection_count'') (\<lambda>count.
     bindE (guardE (is_int count \<and> \<not> as_int count < 0) ValueError
              (''live Key Vault state has invalid private-endpoint connection count '' @ py_repr count)) (\<lambda>_.
     evaluation (as_int count = 0)
       (if as_int count = 0 then ''Key Vault has no private-endpoint connections''
        else ''Key Vault has '' @ py_str count @ '' private-endpoint connection(s)'')))"

text \<open>The flags of each diagnostic setting: audit category, audit group, all-logs group.\<close>

definition kv_flags ::
  "(string, pyval) dict \<Rightarrow> (string, bool \<times> bool \<times> bool) dict \<Rightarrow> (string, bool \<times> bool \<times> bool) dict" where
  "kv_flags entry by_setting =
     (let setting = as_str (pget entry ''setting'');
          (category, audit, all_logs) =
            (case dict_get by_setting setting of None \<Rightarrow> (False, False, False) | Some f \<Rightarrow> f)
      in dict_set setting (category \<or> log_on entry ''category'' ''AuditEvent'',
                           audit \<or> log_on entry ''category_group'' ''audit'',
                           all_logs \<or> log_on entry ''category_group'' ''allLogs'') by_setting)"

definition kv_diagnostic_logging :: "evidence \<Rightarrow> control_evaluation res" where
  "kv_diagnostic_logging values =
     bindE (require values ''keyvault_diagnostic_settings_status'') (\<lambda>status.
     bindE (require values ''keyvault_diagnostic_log_settings'') (\<lambda>settings.
     bindE (guardE (is_str status \<and> as_str status \<in> {''available'', ''unavailable''}) ValueError
              (''live Key Vault diagnostic-settings status is invalid: '' @ py_repr status)) (\<lambda>_.
     bindE (guardE (status = PStr ''unavailable'' \<longrightarrow> is_none settings) ValueError
              ''live Key Vault diagnostic settings have an invalid unavailable/logs pairing'') (\<lambda>_.
     bindE (guardE (status \<noteq> PStr ''unavailable'') ValueError
              ''live Key Vault diagnostic settings are unavailable'') (\<lambda>_.
     bindE (guardE (is_list settings) ValueError
              ''live Key Vault diagnostic settings are not a list'') (\<lambda>_.
     bindE (mapE (log_entry ''Key Vault'') (enumerate 0 (list_items settings))) (\<lambda>entries.
     let by_setting = fold kv_flags entries [];
         enabled = list_ex (\<lambda>(_, category, audit, all_logs). category \<or> (audit \<and> all_logs)) by_setting
     in evaluation (\<not> enabled)
          (if enabled then ''Key Vault diagnostic audit logging is enabled''
           else ''Key Vault diagnostic audit logging is not enabled''))))))))"

definition kv_control ::
  "string \<Rightarrow> string list \<Rightarrow> string \<Rightarrow> (evidence \<Rightarrow> control_evaluation res) \<Rightarrow> control_definition" where
  "kv_control rule_id aspects =
     validation_only ''azure-key-vault'' ''azure'' ''key_vault'' ''microsoft.keyvault/vaults''
       rule_id aspects"

definition azure_key_vault_controls :: "control_definition list" where
  "azure_key_vault_controls =
     [kv_control ''keyvault_logging_enabled''
        [''keyvault_diagnostic_settings_status'', ''keyvault_diagnostic_log_settings'']
        ''contract_tested'' kv_diagnostic_logging,
      kv_control ''keyvault_private_endpoints'' [''keyvault_private_endpoint_connection_count''] []
        kv_private_endpoints,
      kv_control ''keyvault_rbac_enabled'' [''keyvault_enable_rbac_authorization''] [] kv_rbac_enabled,
      kv_control ''keyvault_recoverable''
        [''keyvault_enable_soft_delete'', ''keyvault_enable_purge_protection''] [] kv_recoverable]"

definition azure_key_vault_pack :: "control_pack res" where
  "azure_key_vault_pack = build_pack ''azure-key-vault'' ''e2e_measured'' azure_key_vault_controls"

section \<open>Network and Azure OpenAI\<close>

definition azure_managed_subnets :: "string list" where
  "azure_managed_subnets =
     [''GatewaySubnet'', ''AzureFirewallSubnet'', ''AzureFirewallManagementSubnet'',
      ''AzureBastionSubnet'', ''RouteServerSubnet'']"

definition subnet_nsg_associated :: "evidence \<Rightarrow> control_evaluation res" where
  "subnet_nsg_associated values =
     bindE (require values ''network_subnet_name'') (\<lambda>name.
     bindE (require values ''network_subnet_nsg_id'') (\<lambda>nsg_id.
     bindE (guardE (is_name name) ValueError
              (''live subnet state has invalid name '' @ py_repr name)) (\<lambda>_.
     bindE (guardE (is_none nsg_id \<or> is_name nsg_id) ValueError
              (''live subnet state has invalid NSG id '' @ py_repr nsg_id)) (\<lambda>_.
     if as_str name \<in> set azure_managed_subnets then
       evaluation False (''Azure-managed subnet '' @ py_repr name @ '' is excluded by Prowler'')
     else
       evaluation (is_none nsg_id)
         (''subnet '' @ py_repr name
          @ (if is_none nsg_id then '' has no NSG associated''
             else '' has NSG '' @ py_repr nsg_id @ '' associated''))))))"

definition azure_network_controls :: "control_definition list" where
  "azure_network_controls =
     [validation_only ''azure-network'' ''azure'' ''network_subnet''
        ''microsoft.network/virtualnetworks/subnets'' ''network_subnet_nsg_associated''
        [''network_subnet_name'', ''network_subnet_nsg_id''] [] subnet_nsg_associated]"

definition azure_network_pack :: "control_pack res" where
  "azure_network_pack = build_pack ''azure-network'' ''e2e_measured'' azure_network_controls"

definition azure_openai_kinds :: "string list" where
  "azure_openai_kinds = [''AIServices'', ''OpenAI'']"

definition openai_public_network :: "evidence \<Rightarrow> control_evaluation res" where
  "openai_public_network values =
     bindE (require values ''azureopenai_kind'') (\<lambda>kind.
     bindE (require values ''azureopenai_public_network_access'') (\<lambda>access.
     bindE (guardE (is_str kind \<and> as_str kind \<in> set azure_openai_kinds) ValueError
              (''live Cognitive Services kind is not an Azure OpenAI kind: '' @ py_repr kind)) (\<lambda>_.
     bindE (guardE (is_str access \<and> as_str access \<in> {''Enabled'', ''Disabled''}) ValueError
              (''live Azure OpenAI public-network state is invalid: '' @ py_repr access)) (\<lambda>_.
     evaluation (access \<noteq> PStr ''Disabled'')
       (''Azure OpenAI account kind '' @ py_repr kind @ '' has public network access ''
        @ py_repr access)))))"

definition azure_openai_controls :: "control_definition list" where
  "azure_openai_controls =
     [validation_only ''azure-openai'' ''azure'' ''azure_openai''
        ''microsoft.cognitiveservices/accounts'' ''azureopenai_account_public_network_access_disabled''
        [''azureopenai_kind'', ''azureopenai_public_network_access''] [] openai_public_network]"

definition azure_openai_pack :: "control_pack res" where
  "azure_openai_pack =
     build_pack ''azure-openai'' ''contract_tested_export_observed'' azure_openai_controls"

section \<open>SQL\<close>

text \<open>The entries of the TDE map that are invalid; testing an unhashable value raises.\<close>

definition invalid_tde :: "string \<times> pyval \<Rightarrow> bool res" where
  "invalid_tde nv =
     (case nv of (name, value) \<Rightarrow>
        if name = [] then Inr True
        else bindE (in_str_set value [''Enabled'', ''Disabled'']) (\<lambda>known. Inr (\<not> known)))"

fun filterE :: "('a \<Rightarrow> bool res) \<Rightarrow> 'a list \<Rightarrow> 'a list res" where
  "filterE p [] = Inr []"
| "filterE p (x # xs) =
     bindE (p x) (\<lambda>b. bindE (filterE p xs) (\<lambda>ys. Inr (if b then x # ys else ys)))"

definition tde_disabled :: "(string, pyval) dict \<Rightarrow> string list" where
  "tde_disabled database_tde =
     sort (map fst (filter (\<lambda>(name, value). value \<noteq> PStr ''Enabled'') database_tde))"

definition user_databases :: "string list \<Rightarrow> string list" where
  "user_databases inventory = dedup (filter (\<lambda>name. str_lower name \<noteq> ''master'') inventory)"

definition tde_encrypted_with_cmk :: "evidence \<Rightarrow> control_evaluation res" where
  "tde_encrypted_with_cmk values =
     bindE (require values ''sql_tde_protector_type'') (\<lambda>protector_type.
     bindE (require values ''sql_database_inventory'') (\<lambda>inventory.
     bindE (require values ''sql_user_database_tde'') (\<lambda>database_tde.
     bindE (in_str_set protector_type [''AzureKeyVault'', ''ServiceManaged'']) (\<lambda>known.
     bindE (guardE known ValueError
              (''live SQL state has unknown TDE protector type '' @ py_repr protector_type)) (\<lambda>_.
     bindE (guardE (name_list inventory) ValueError
              ''live SQL state has no valid database inventory'') (\<lambda>_.
     bindE (guardE (distinct (map str_lower (names_of inventory))) ValueError
              ''live SQL state has duplicate database inventory entries'') (\<lambda>_.
     bindE (guardE (is_dict database_tde) ValueError
              ''live SQL state has no user-database TDE map'') (\<lambda>_.
     let tde = dict_items database_tde; expected = user_databases (names_of inventory)
     in bindE (filterE invalid_tde tde) (\<lambda>invalid.
        bindE (guardE (invalid = []) ValueError
                 (''live SQL state has invalid user-database TDE values: '' @ py_repr (PDict invalid))) (\<lambda>_.
        bindE (guardE (set (map fst tde) = set expected) ValueError
                 (''live SQL state user-database TDE map does not match its complete inventory: expected ''
                  @ py_repr (str_list (sort expected)) @ '', got ''
                  @ py_repr (str_list (sort (map fst tde))))) (\<lambda>_.
        evaluation (protector_type \<noteq> PStr ''AzureKeyVault'' \<or> tde_disabled tde \<noteq> [])
          (if protector_type \<noteq> PStr ''AzureKeyVault''
           then ''TDE protector type is '' @ py_repr protector_type @ '', not '' @ repr_str ''AzureKeyVault''
           else if tde_disabled tde \<noteq> []
           then ''TDE is disabled for user database(s): '' @ str_join '', '' (tde_disabled tde)
           else if tde \<noteq> []
           then ''TDE protector is 'AzureKeyVault' and TDE is enabled for every user database''
           else ''SQL server has no user databases; only master is excluded''))))))))))))"

definition azure_sql_controls :: "control_definition list" where
  "azure_sql_controls =
     [validation_only ''azure-sql'' ''azure'' ''sql_server'' ''microsoft.sql/servers''
        ''sqlserver_tde_encrypted_with_cmk''
        [''sql_tde_protector_type'', ''sql_database_inventory'', ''sql_user_database_tde''] []
        tde_encrypted_with_cmk]"

definition azure_sql_pack :: "control_pack res" where
  "azure_sql_pack = build_pack ''azure-sql'' ''e2e_measured'' azure_sql_controls"

section \<open>What the evaluators read\<close>

lemmas azure_defs = app_optional_boolean_def app_kind_def web_app_def function_app_def
  app_client_certificates_def app_authentication_def app_http20_def app_http_logs_def
  app_optional_string_def function_ftps_def function_public_access_def function_vnet_def
  acr_admin_user_def acr_public_network_def acr_private_link_def
  cosmos_optional_boolean_def cosmos_optional_enum_def cosmos_automatic_failover_def
  cosmos_continuous_backup_def cosmos_minimum_tls_def cosmos_public_network_def
  kv_optional_boolean_def kv_rbac_enabled_def kv_recoverable_def kv_private_endpoints_def
  kv_diagnostic_logging_def subnet_nsg_associated_def openai_public_network_def
  tde_encrypted_with_cmk_def

lemma azure_reads:
  "list_all reads_declared azure_app_service_controls"
  "list_all reads_declared azure_container_registry_controls"
  "list_all reads_declared azure_cosmos_controls"
  "list_all reads_declared azure_key_vault_controls"
  "list_all reads_declared azure_network_controls"
  "list_all reads_declared azure_openai_controls"
  "list_all reads_declared azure_sql_controls"
  unfolding azure_app_service_controls_def app_control_def azure_container_registry_controls_def
    acr_control_def azure_cosmos_controls_def cosmos_control_def azure_key_vault_controls_def
    kv_control_def azure_network_controls_def azure_openai_controls_def azure_sql_controls_def
    list_all_simps reads_declared_validation_only
  by (intro conjI TrueI readsI; simp only: agree_simps azure_defs reads_unfold)+

section \<open>Transparent data encryption\<close>

lemma filterE_result: "filterE p xs = Inr ys \<Longrightarrow> ys = filter (\<lambda>x. p x = Inr True) xs \<and> (\<forall>x \<in> set xs. is_ok (p x))"
  by (induction xs arbitrary: ys) (auto simp: res_simps is_ok_iff)

lemma sort_Nil: "sort xs = [] \<longleftrightarrow> xs = []"
  by (metis set_empty set_sort)

lemma user_databases_set: "n \<in> set (user_databases stock) \<longleftrightarrow> n \<in> set stock \<and> str_lower n \<noteq> ''master''"
  by (auto simp: user_databases_def)

text \<open>The TDE control of SQL servers clears a server exactly when its protector is a
  customer-managed key and every database of the inventory but \<open>master\<close>, in any case, is in the
  TDE map as enabled; no database of the inventory can be missing from a cleared server's map.\<close>

theorem tde_cleared_iff:
  assumes "tde_encrypted_with_cmk values = Inr r"
  shows "\<not> ce_confirmed r \<longleftrightarrow>
    pget values ''sql_tde_protector_type'' = PStr ''AzureKeyVault'' \<and>
    (\<forall>n \<in> set (names_of (pget values ''sql_database_inventory'')). str_lower n \<noteq> ''master'' \<longrightarrow>
       (n, PStr ''Enabled'') \<in> set (dict_items (pget values ''sql_user_database_tde'')) \<and>
       (\<forall>v. (n, v) \<in> set (dict_items (pget values ''sql_user_database_tde'')) \<longrightarrow> v = PStr ''Enabled''))"
proof -
  have req: "require values a = Inr v \<Longrightarrow> pget values a = v" for a v
    by (auto simp: require_def pget_def get_or_def split: option.splits)
  from assms obtain p stock tde where
    p: "require values ''sql_tde_protector_type'' = Inr p"
    and stock: "require values ''sql_database_inventory'' = Inr stock"
    and tde: "require values ''sql_user_database_tde'' = Inr tde"
    and keys: "set (map fst (dict_items tde)) = set (user_databases (names_of stock))"
    and r: "ce_confirmed r \<longleftrightarrow> p \<noteq> PStr ''AzureKeyVault'' \<or> tde_disabled (dict_items tde) \<noteq> []"
    unfolding tde_encrypted_with_cmk_def Let_def evaluation_def
    by (auto simp only: bindE_Inr guardE_Inr sum.inject control_evaluation.simps)
  have "tde_disabled (dict_items tde) = [] \<longleftrightarrow> (\<forall>(n, v) \<in> set (dict_items tde). v = PStr ''Enabled'')"
    unfolding tde_disabled_def sort_Nil by (auto simp: filter_empty_conv)
  also have "\<dots> \<longleftrightarrow> (\<forall>n \<in> set (names_of stock). str_lower n \<noteq> ''master'' \<longrightarrow>
       (n, PStr ''Enabled'') \<in> set (dict_items tde) \<and>
       (\<forall>v. (n, v) \<in> set (dict_items tde) \<longrightarrow> v = PStr ''Enabled''))" (is "?all \<longleftrightarrow> ?each")
  proof
    assume all: ?all
    show ?each
    proof (intro ballI impI conjI allI)
      fix n assume n: "n \<in> set (names_of stock)" "str_lower n \<noteq> ''master''"
      then have "n \<in> fst ` set (dict_items tde)" using keys by (simp add: user_databases_set)
      with all show "(n, PStr ''Enabled'') \<in> set (dict_items tde)" by fastforce
      show "v = PStr ''Enabled''" if "(n, v) \<in> set (dict_items tde)" for v using all that by blast
    qed
  next
    assume each: ?each
    show ?all
    proof (clarify)
      fix n v assume nv: "(n, v) \<in> set (dict_items tde)"
      then have "n \<in> set (map fst (dict_items tde))" by force
      then have "n \<in> set (names_of stock) \<and> str_lower n \<noteq> ''master''"
        unfolding keys user_databases_set .
      with each nv show "v = PStr ''Enabled''" by blast
    qed
  qed
  finally show ?thesis using r req [OF p] req [OF stock] req [OF tde] by auto
qed

definition sample_sql :: evidence where
  "sample_sql =
     [(''sql_tde_protector_type'', PStr ''AzureKeyVault''),
      (''sql_database_inventory'', PList [PStr ''Master'', PStr ''orders'']),
      (''sql_user_database_tde'', PDict [(''orders'', PStr ''Enabled'')])]"

theorem tde_cleared_iff_witness:
  "\<exists>r. tde_encrypted_with_cmk sample_sql = Inr r \<and>
     (ce_confirmed r \<longleftrightarrow> \<not> (pget sample_sql ''sql_tde_protector_type'' = PStr ''AzureKeyVault'' \<and>
        (''orders'', PStr ''Enabled'') \<in> set (dict_items (pget sample_sql ''sql_user_database_tde''))))"
proof -
  have "is_ok (tde_encrypted_with_cmk sample_sql)" by code_simp
  then obtain r where r: "tde_encrypted_with_cmk sample_sql = Inr r" by (auto simp: is_ok_iff)
  have "str_lower ''Master'' = ''master''"
    by (simp add: str_lower_def char_lower_def upper_letters_def lower_letters_def)
  with tde_cleared_iff [OF r] r show ?thesis
    by (auto simp: sample_sql_def pget_def get_or_def names_of_def list_items_def dict_items_def as_str_def)
qed

end
