(* ===== verification/Control_Registry.thy ===== *)
theory Control_Registry
  imports Packs_Aws Pack_Ec2 Packs_Azure
begin

text \<open>
  \<open>src/elcapitan/control_packs/registry.py\<close> and \<open>__init__.py\<close>: the registry of the built-in
  packs, and what holds of every control in it: the keys are unique, the definitions are valid, an
  evaluator reads the aspects its control declares and nothing else.
\<close>

section \<open>The registry\<close>

record registry =
  rg_packs :: "control_pack list"
  rg_controls :: "control_definition list"

definition control_key :: "control_definition \<Rightarrow> string \<times> string" where
  "control_key c = (cd_provider c, cd_rule_id c)"

definition mk_registry :: "control_pack list \<Rightarrow> registry res" where
  "mk_registry packs =
     bindE (guardE (distinct (map cp_pack_id packs)) ValueError ''control pack ids must be unique'') (\<lambda>_.
     let controls = concat (map cp_controls packs)
     in bindE (guardE (distinct (map control_key controls)) ValueError
                 ''controls must be unique by provider and rule'') (\<lambda>_.
        Inr \<lparr> rg_packs = packs, rg_controls = controls \<rparr>))"

definition registry_get :: "registry \<Rightarrow> string \<Rightarrow> string \<Rightarrow> string \<Rightarrow> control_definition option" where
  "registry_get reg provider rule_id resource_type =
     (case find (\<lambda>c. control_key c = (str_lower provider, rule_id)) (rg_controls reg) of
        None \<Rightarrow> None
      | Some c \<Rightarrow>
          if resource_type \<noteq> [] \<and>
             str_lower resource_type \<notin> set (map str_lower (cd_resource_types c))
          then None else Some c)"

definition registry_list :: "registry \<Rightarrow> string option \<Rightarrow> control_definition list" where
  "registry_list reg provider =
     sort_key control_key
       (filter (\<lambda>c. case provider of None \<Rightarrow> True | Some p \<Rightarrow> cd_provider c = str_lower p)
          (rg_controls reg))"

definition registry_packs :: "registry \<Rightarrow> control_pack list" where
  "registry_packs reg = sort_key cp_pack_id (rg_packs reg)"

definition builtin_control_packs :: "control_pack list res" where
  "builtin_control_packs = mapE (\<lambda>p. p)
     [aws_ebs_volume_pack, aws_ec2_security_group_pack, aws_rds_pack, aws_s3_pack,
      azure_app_service_pack, azure_container_registry_pack, azure_cosmos_db_pack,
      azure_key_vault_pack, azure_network_pack, azure_openai_pack, azure_sql_pack,
      azure_storage_pack]"

definition builtin_registry :: "registry res" where
  "builtin_registry = bindE builtin_control_packs mk_registry"

section \<open>The built-in controls\<close>

lemmas control_list_defs = aws_ebs_controls_def aws_rds_controls_def aws_s3_controls_def
  aws_ec2_controls_def azure_storage_controls_def azure_app_service_controls_def
  azure_container_registry_controls_def azure_cosmos_controls_def azure_key_vault_controls_def
  azure_network_controls_def azure_openai_controls_def azure_sql_controls_def

definition builtin_contents :: "(string \<times> control_definition list) list" where
  "builtin_contents =
     [(''aws-ebs-volume'', aws_ebs_controls), (''aws-ec2-security-group'', aws_ec2_controls),
      (''aws-rds'', aws_rds_controls), (''aws-s3'', aws_s3_controls),
      (''azure-app-service'', azure_app_service_controls),
      (''azure-container-registry'', azure_container_registry_controls),
      (''azure-cosmos-db'', azure_cosmos_controls), (''azure-key-vault'', azure_key_vault_controls),
      (''azure-network'', azure_network_controls), (''azure-openai'', azure_openai_controls),
      (''azure-sql'', azure_sql_controls), (''azure-storage'', azure_storage_controls)]"

definition builtin_controls :: "control_definition list" where
  "builtin_controls = concat (map snd builtin_contents)"

lemma builtin_reads: "list_all reads_declared builtin_controls"
  unfolding builtin_controls_def builtin_contents_def list.map snd_conv concat.simps list_all_append
    list_all_simps
  using aws_ebs_reads aws_ec2_reads aws_rds_reads aws_s3_reads azure_reads azure_storage_reads by blast

lemma builtin_controls_ok: "list_all control_ok builtin_controls"
  by code_simp

lemma builtin_keys_distinct: "distinct (map control_key builtin_controls)"
  by code_simp

lemma builtin_packs_ok: "is_ok builtin_control_packs"
  by code_simp

definition with_grade :: "string \<Rightarrow> control_definition \<Rightarrow> control_definition" where
  "with_grade g c = (if cd_evidence_grade c \<noteq> [] then c else c\<lparr>cd_evidence_grade := g\<rparr>)"

lemma with_grade_simps [simp]:
  "control_key (with_grade g c) = control_key c" "cd_evaluator (with_grade g c) = cd_evaluator c"
  "cd_evidence_aspects (with_grade g c) = cd_evidence_aspects c"
  "cd_live_execution (with_grade g c) = cd_live_execution c"
  "cd_remediation_planning (with_grade g c) = cd_remediation_planning c"
  by (simp_all add: with_grade_def control_key_def)

lemma build_pack_controls: "build_pack i g cs = Inr p \<Longrightarrow> cp_controls p = map (with_grade g) cs"
  using build_pack_Inr [of i g cs p] by (simp add: with_grade_def [abs_def])

lemmas pack_defs = aws_ebs_volume_pack_def aws_ec2_security_group_pack_def aws_rds_pack_def
  aws_s3_pack_def azure_app_service_pack_def azure_container_registry_pack_def
  azure_cosmos_db_pack_def azure_key_vault_pack_def azure_network_pack_def azure_openai_pack_def
  azure_sql_pack_def azure_storage_pack_def

text \<open>The controls of the built packs are those of the modules, with the grade of the pack filled in.\<close>

definition graded :: "control_definition list \<Rightarrow> control_definition list \<Rightarrow> bool" where
  "graded cs ds = list_all2 (\<lambda>c d. \<exists>g. c = with_grade g d) cs ds"

lemma graded_append: "graded cs ds \<Longrightarrow> graded cs' ds' \<Longrightarrow> graded (cs @ cs') (ds @ ds')"
  unfolding graded_def by (rule list_all2_appendI)

lemma graded_pack: "build_pack i g cs = Inr p \<Longrightarrow> graded (cp_controls p) cs"
  using build_pack_controls [of i g cs p] by (auto simp: graded_def list_all2_map1 intro: list_all2_refl)

lemma graded_keys: "graded cs ds \<Longrightarrow> map control_key cs = map control_key ds"
  unfolding graded_def by (induction rule: list_all2_induct) auto

definition pack_holds :: "control_pack \<Rightarrow> string \<times> control_definition list \<Rightarrow> bool" where
  "pack_holds p ic = (cp_pack_id p = fst ic \<and> graded (cp_controls p) (snd ic) \<and>
     (\<forall>c \<in> set (cp_controls p). control_ok c \<and> cd_evidence_grade c \<noteq> []))"

lemma pack_holds_built: "build_pack i g cs = Inr p \<Longrightarrow> pack_holds p (i, cs)"
  using build_pack_Inr [of i g cs p] graded_pack [of i g cs p]
  unfolding pack_holds_def list_all_iff fst_conv snd_conv by blast

lemma mapE_id_list_all2:
  assumes "mapE (\<lambda>p. p) xs = Inr ys" "list_all2 (\<lambda>r z. \<forall>y. r = Inr y \<longrightarrow> Q y z) xs zs"
  shows "list_all2 Q ys zs"
  using assms(2,1)
  by (induction arbitrary: ys rule: list_all2_induct) (auto simp: res_simps)

lemma builtin_packs_hold:
  assumes "builtin_control_packs = Inr packs"
  shows "list_all2 pack_holds packs builtin_contents"
  using assms unfolding builtin_control_packs_def
  by (rule mapE_id_list_all2)
     (unfold builtin_contents_def pack_defs, intro list.rel_intros allI impI pack_holds_built)

lemma concat_graded:
  "list_all2 pack_holds packs contents \<Longrightarrow>
     graded (concat (map cp_controls packs)) (concat (map snd contents)) \<and>
     (\<forall>c \<in> set (concat (map cp_controls packs)). control_ok c \<and> cd_evidence_grade c \<noteq> []) \<and>
     map cp_pack_id packs = map fst contents"
proof (induction rule: list_all2_induct)
  case Nil
  then show ?case by (simp add: graded_def)
next
  case (Cons p ps ic ics)
  then show ?case by (auto simp: pack_holds_def intro: graded_append)
qed

lemma builtin_packs_controls:
  assumes "builtin_control_packs = Inr packs"
  shows "graded (concat (map cp_controls packs)) builtin_controls"
    and "\<forall>c \<in> set (concat (map cp_controls packs)). control_ok c \<and> cd_evidence_grade c \<noteq> []"
    and "distinct (map cp_pack_id packs)"
  using concat_graded [OF builtin_packs_hold [OF assms]]
  unfolding builtin_controls_def by (blast, blast, simp add: builtin_contents_def)

lemma gradedD: "graded cs ds \<Longrightarrow> c \<in> set cs \<Longrightarrow> \<exists>d \<in> set ds. \<exists>g. c = with_grade g d"
  unfolding graded_def by (induction rule: list_all2_induct) auto

lemma gradedD2: "graded cs ds \<Longrightarrow> d \<in> set ds \<Longrightarrow> \<exists>c \<in> set cs. \<exists>g. c = with_grade g d"
  unfolding graded_def by (induction rule: list_all2_induct) auto

text \<open>The registry the program uses: it exists, and its controls are the built-in ones.\<close>

lemma builtin_registry_controls:
  assumes "builtin_registry = Inr reg"
  shows "graded (rg_controls reg) builtin_controls"
    and "distinct (map control_key (rg_controls reg))"
    and "\<forall>c \<in> set (rg_controls reg). control_ok c \<and> cd_evidence_grade c \<noteq> []"
proof -
  from assms obtain packs where packs: "builtin_control_packs = Inr packs"
    and reg: "rg_controls reg = concat (map cp_controls packs)"
      "distinct (map control_key (concat (map cp_controls packs)))"
    unfolding builtin_registry_def mk_registry_def Let_def by (auto simp: res_simps)
  show "graded (rg_controls reg) builtin_controls"
    unfolding reg by (rule builtin_packs_controls(1) [OF packs])
  show "distinct (map control_key (rg_controls reg))" using reg by simp
  show "\<forall>c \<in> set (rg_controls reg). control_ok c \<and> cd_evidence_grade c \<noteq> []"
    unfolding reg by (rule builtin_packs_controls(2) [OF packs])
qed

lemma builtin_registry_ok: "is_ok builtin_registry"
proof -
  from builtin_packs_ok obtain packs where packs: "builtin_control_packs = Inr packs"
    by (auto simp: is_ok_iff)
  have "distinct (map control_key (concat (map cp_controls packs)))"
    unfolding graded_keys [OF builtin_packs_controls(1) [OF packs]] by (rule builtin_keys_distinct)
  with builtin_packs_controls(3) [OF packs] show ?thesis
    unfolding builtin_registry_def mk_registry_def packs by simp
qed

lemma registered_control:
  assumes "builtin_registry = Inr reg" "c \<in> set (rg_controls reg)"
  obtains d g where "d \<in> set builtin_controls" "c = with_grade g d"
  using gradedD [OF builtin_registry_controls(1) [OF assms(1)] assms(2)] that by blast

lemma builtin_registered:
  assumes "d \<in> set builtin_controls"
  obtains reg packs c g where "builtin_registry = Inr reg" "mk_registry packs = Inr reg"
    "c \<in> set (rg_controls reg)" "c = with_grade g d"
proof -
  from builtin_registry_ok obtain reg packs where
    reg: "builtin_registry = Inr reg" "mk_registry packs = Inr reg"
    by (auto simp: is_ok_iff builtin_registry_def res_simps)
  with gradedD2 [OF builtin_registry_controls(1) [OF reg(1)] assms] that show thesis by blast
qed

lemma some_builtin: "hd aws_ebs_controls \<in> set builtin_controls"
  by (simp add: builtin_controls_def builtin_contents_def aws_ebs_controls_def)

lemma find_key:
  assumes "distinct (map k xs)"
  shows "find (\<lambda>x. k x = a) xs = Some x \<longleftrightarrow> x \<in> set xs \<and> k x = a"
  using assms by (induction xs) auto

text \<open>With nothing collected every evaluator raises, so it raises whenever none of the aspects its
  control declares was collected.\<close>

definition fails_closed :: "control_definition \<Rightarrow> bool" where
  "fails_closed c =
     (case cd_evaluator c [] of Inl e \<Rightarrow> exn_cls e = ValueError | Inr r \<Rightarrow> False)"

lemma builtin_fail_closed: "list_all fails_closed builtin_controls"
  by code_simp

text \<open>The controls that may be executed.\<close>

definition executable_keys :: "(string \<times> string) list" where
  "executable_keys =
     [(''aws'', ''s3_bucket_object_versioning''),
      (''azure'', ''storage_account_public_network_access_disabled''),
      (''azure'', ''storage_blob_public_access_level_is_disabled'')]"

lemma builtin_execution:
  "list_all (\<lambda>c. cd_live_execution c \<longrightarrow> cd_remediation_planning c \<and> control_key c \<in> set executable_keys)
     builtin_controls"
  by code_simp

section \<open>Properties\<close>

text \<open>The registry of the built-in packs exists, and looking a registered control up by its
  provider, in any case, and its rule returns that control; with a resource type given, exactly when
  the type is one of the control's, in any case.\<close>

theorem registry_lookup:
  assumes "mk_registry packs = Inr reg"
  shows "registry_get reg provider rule_id resource_type = Some c \<longleftrightarrow>
    c \<in> set (rg_controls reg) \<and> cd_provider c = str_lower provider \<and> cd_rule_id c = rule_id \<and>
    (resource_type = [] \<or> str_lower resource_type \<in> set (map str_lower (cd_resource_types c)))"
proof -
  have "distinct (map control_key (rg_controls reg))"
    using assms by (auto simp: mk_registry_def res_simps Let_def)
  note key = find_key [OF this, of "(str_lower provider, rule_id)"]
  have "registry_get reg provider rule_id resource_type = Some c \<longleftrightarrow>
      find (\<lambda>c. control_key c = (str_lower provider, rule_id)) (rg_controls reg) = Some c \<and>
      (resource_type = [] \<or> str_lower resource_type \<in> set (map str_lower (cd_resource_types c)))"
    unfolding registry_get_def by (simp split: option.split) blast
  then show ?thesis unfolding key by (simp add: control_key_def)
qed

theorem registry_lookup_witness:
  "\<exists>reg c. builtin_registry = Inr reg \<and>
     registry_get reg ''AWS'' ''rds_instance_inside_vpc'' ''AwsRdsDbInstance'' = Some c"
proof -
  let ?d = "rds_control ''rds_instance_inside_vpc'' [''rds_in_vpc''] rds_inside_vpc"
  have "?d \<in> set builtin_controls"
    by (simp add: builtin_controls_def builtin_contents_def aws_rds_controls_def)
  then obtain reg packs c g where reg: "builtin_registry = Inr reg" "mk_registry packs = Inr reg"
    and c: "c \<in> set (rg_controls reg)" "c = with_grade g ?d" by (rule builtin_registered)
  have "str_lower ''AWS'' = ''aws''" "str_lower ''AwsRdsDbInstance'' = ''awsrdsdbinstance''"
    "str_lower ''awsrdsdbinstance'' = ''awsrdsdbinstance''"
    by (simp_all add: str_lower_def char_lower_def upper_letters_def lower_letters_def)
  then have "registry_get reg ''AWS'' ''rds_instance_inside_vpc'' ''AwsRdsDbInstance'' = Some c"
    unfolding registry_lookup [OF reg(2)]
    using c by (simp add: with_grade_def rds_control_def validation_only_def)
  with reg(1) show ?thesis by blast
qed

text \<open>An evaluator reads the aspects its control declares and nothing else: on two collections
  that agree on those aspects every registered control gives the same answer, exceptions included.\<close>

theorem evaluators_read_declared_aspects:
  assumes "builtin_registry = Inr reg" "c \<in> set (rg_controls reg)"
    and "agree (cd_evidence_aspects c) values values'"
  shows "cd_evaluator c values = cd_evaluator c values'"
proof -
  from assms(1,2) obtain d g where d: "d \<in> set builtin_controls" "c = with_grade g d"
    by (rule registered_control)
  with builtin_reads have "reads_declared d" by (simp add: list_all_iff)
  then show ?thesis using assms(3) unfolding reads_declared_def reads_def d(2) by simp
qed

theorem evaluators_read_declared_aspects_witness:
  "\<exists>reg c. builtin_registry = Inr reg \<and> c \<in> set (rg_controls reg) \<and>
     cd_evaluator c [(''ebs_volume_encrypted'', PBool True)] =
     cd_evaluator c [(''other'', PNone), (''ebs_volume_encrypted'', PBool True)]"
proof -
  from some_builtin obtain reg packs c g where reg: "builtin_registry = Inr reg"
    and c: "c \<in> set (rg_controls reg)" "c = with_grade g (hd aws_ebs_controls)"
    by (rule builtin_registered)
  have "cd_evidence_aspects c = [''ebs_volume_encrypted'']"
    by (simp add: c(2) aws_ebs_controls_def ebs_control_def validation_only_def)
  then have "agree (cd_evidence_aspects c) [(''ebs_volume_encrypted'', PBool True)]
      [(''other'', PNone), (''ebs_volume_encrypted'', PBool True)]" by simp
  from evaluators_read_declared_aspects [OF reg c(1) this] reg c(1) show ?thesis by blast
qed

text \<open>C21: The controls fail closed: when none of the aspects a registered control declares was
  collected, its evaluator raises \<open>ValueError\<close> instead of giving an answer.\<close>

theorem evaluators_fail_closed:
  assumes "builtin_registry = Inr reg" "c \<in> set (rg_controls reg)"
    and "list_all (\<lambda>a. dict_get values a = None) (cd_evidence_aspects c)"
  shows "\<exists>e. cd_evaluator c values = Inl e \<and> exn_cls e = ValueError"
proof -
  from assms(1,2) obtain d g where d: "d \<in> set builtin_controls" "c = with_grade g d"
    by (rule registered_control)
  with builtin_reads builtin_fail_closed have "reads_declared d" "fails_closed d"
    by (simp_all add: list_all_iff)
  moreover have "agree (cd_evidence_aspects d) values []"
    using assms(3) by (simp add: agree_def list_all_iff d(2))
  ultimately have "cd_evaluator c values = cd_evaluator d []" and closed: "fails_closed d"
    unfolding reads_declared_def reads_def d(2) with_grade_simps by (blast, blast)
  moreover obtain e where "cd_evaluator d [] = Inl e" "exn_cls e = ValueError"
    using closed unfolding fails_closed_def by (cases "cd_evaluator d []") simp_all
  ultimately show ?thesis by (intro exI [where x = e]) simp
qed

theorem evaluators_fail_closed_witness:
  "\<exists>reg c e. builtin_registry = Inr reg \<and> c \<in> set (rg_controls reg) \<and>
     cd_evaluator c [(''other'', PNone)] = Inl e"
proof -
  from some_builtin obtain reg packs c g where reg: "builtin_registry = Inr reg"
    and c: "c \<in> set (rg_controls reg)" "c = with_grade g (hd aws_ebs_controls)"
    by (rule builtin_registered)
  have "list_all (\<lambda>a. dict_get [(''other'', PNone)] a = None) (cd_evidence_aspects c)"
    by (simp add: c(2) aws_ebs_controls_def ebs_control_def validation_only_def)
  from evaluators_fail_closed [OF reg c(1) this] obtain e
    where "cd_evaluator c [(''other'', PNone)] = Inl e" by (elim exE conjE)
  with reg c(1) show ?thesis by (intro exI conjI)
qed

text \<open>Validation coverage implies no authority to change anything: of all registered controls
  exactly three may be executed, and a control that may be executed may be planned.\<close>

theorem execution_authority:
  assumes "builtin_registry = Inr reg" "c \<in> set (rg_controls reg)" "cd_live_execution c"
  shows "cd_remediation_planning c \<and>
    (cd_provider c, cd_rule_id c) \<in> {(''aws'', ''s3_bucket_object_versioning''),
      (''azure'', ''storage_account_public_network_access_disabled''),
      (''azure'', ''storage_blob_public_access_level_is_disabled'')}"
proof -
  from assms(1,2) obtain d g where d: "d \<in> set builtin_controls" "c = with_grade g d"
    by (rule registered_control)
  with builtin_execution assms(3) have "cd_remediation_planning d" "control_key d \<in> set executable_keys"
    by (auto simp: list_all_iff)
  moreover have "control_key c = control_key d" by (simp add: d(2))
  ultimately show ?thesis
    by (simp add: d(2) executable_keys_def control_key_def [symmetric])
qed

theorem execution_authority_witness:
  "\<exists>reg c. builtin_registry = Inr reg \<and> c \<in> set (rg_controls reg) \<and> cd_live_execution c \<and>
     cd_remediation_planning c"
proof -
  have d: "hd aws_s3_controls \<in> set builtin_controls"
    by (simp add: builtin_controls_def builtin_contents_def aws_s3_controls_def)
  then obtain reg packs c g where reg: "builtin_registry = Inr reg"
    and c: "c \<in> set (rg_controls reg)" "c = with_grade g (hd aws_s3_controls)"
    by (rule builtin_registered)
  have "cd_live_execution c" by (simp add: c(2) aws_s3_controls_def)
  with execution_authority [OF reg c(1) this] reg c(1) show ?thesis by blast
qed

end
