(* ===== verification/Json_Parser.thy ===== *)
theory Json_Parser
  imports Json Ipaddress
begin

text \<open>
  \<open>json.loads\<close>, which reads back what \<open>canonical_json\<close> of \<open>src/elcapitan/hashing.py\<close> wrote. A
  recursive descent over the text with fuel, which the length of the text bounds; \<open>None\<close> is
  \<open>JSONDecodeError\<close>. The literals \<open>NaN\<close> and \<open>Infinity\<close> and escapes of surrogates have no value in
  the model and count as errors.
\<close>

section \<open>The parser\<close>

definition json_space :: "char \<Rightarrow> bool" where
  "json_space c = (c \<in> {CHR '' '', CHR 0x09, CHR 0x0A, CHR 0x0D})"

definition skip_ws :: "string \<Rightarrow> string" where
  "skip_ws = dropWhile json_space"

definition simple_escape :: "char \<Rightarrow> char option" where
  "simple_escape c =
     map_of [(CHR 0x22, CHR 0x22), (CHR 0x5C, CHR 0x5C), (CHR ''/'', CHR ''/''), (CHR ''b'', CHR 0x08),
             (CHR ''f'', CHR 0x0C), (CHR ''n'', CHR 0x0A), (CHR ''r'', CHR 0x0D), (CHR ''t'', CHR 0x09)] c"

text \<open>The character of an escape, in UTF-8; none for a surrogate.\<close>

definition utf8_encode :: "int \<Rightarrow> string option" where
  "utf8_encode n =
     (if n < 128 then Some [char_of (nat n)]
      else if n < 2048 then Some [char_of (nat (192 + n div 64)), char_of (nat (128 + n mod 64))]
      else if 55296 \<le> n \<and> n < 57344 then None
      else Some [char_of (nat (224 + n div 4096)), char_of (nat (128 + n div 64 mod 64)),
                 char_of (nat (128 + n mod 64))])"

text \<open>The rest of a string after its opening quote.\<close>

fun parse_string :: "string \<Rightarrow> (string \<times> string) option" where
  "parse_string [] = None"
| "parse_string (c # s) =
     (if c = CHR 0x22 then Some ([], s)
      else if c = CHR 0x5C then
        (case s of
           [] \<Rightarrow> None
         | e # t \<Rightarrow>
             if e = CHR ''u'' then
               (case t of
                  h1 # h2 # h3 # h4 # t' \<Rightarrow>
                    (case number 16 hex_value [h1, h2, h3, h4] of
                       None \<Rightarrow> None
                     | Some n \<Rightarrow>
                         (case utf8_encode n of
                            None \<Rightarrow> None
                          | Some u \<Rightarrow> map_option (\<lambda>(x, r). (u @ x, r)) (parse_string t')))
                | _ \<Rightarrow> None)
             else
               (case simple_escape e of
                  None \<Rightarrow> None
                | Some x \<Rightarrow> map_option (\<lambda>(y, r). (x # y, r)) (parse_string t)))
      else if (of_char c :: nat) < 32 then None
      else map_option (\<lambda>(x, r). (c # x, r)) (parse_string s))"

definition json_digit :: "char \<Rightarrow> bool" where
  "json_digit c = (dec_digit c \<noteq> None)"

definition take_digits :: "string \<Rightarrow> string \<times> string" where
  "take_digits s = (takeWhile json_digit s, dropWhile json_digit s)"

text \<open>A number: an integer part without leading zeros, then a fraction and an exponent.\<close>

definition digits_int :: "string \<Rightarrow> int" where
  "digits_int s = foldl (\<lambda>n c. n * 10 + (int (of_char c :: nat) - 48)) 0 s"

definition parse_frac :: "string \<Rightarrow> string \<times> string" where
  "parse_frac s =
     (case s of
        c # t \<Rightarrow> if c = CHR ''.'' \<and> fst (take_digits t) \<noteq> [] then take_digits t else ([], s)
      | [] \<Rightarrow> ([], s))"

definition parse_exp :: "string \<Rightarrow> int option \<times> string" where
  "parse_exp s =
     (case s of
        c # t \<Rightarrow>
          if c = CHR ''e'' \<or> c = CHR ''E'' then
            (let neg = (t \<noteq> [] \<and> hd t = CHR ''-'');
                 u = (if t \<noteq> [] \<and> (hd t = CHR ''-'' \<or> hd t = CHR ''+'') then tl t else t);
                 (ds, r) = take_digits u
             in if ds = [] then (None, s)
                else (Some (if neg then - digits_int ds else digits_int ds), r))
          else (None, s)
      | [] \<Rightarrow> (None, s))"

definition parse_number :: "string \<Rightarrow> (pyval \<times> string) option" where
  "parse_number s =
     (let neg = (s \<noteq> [] \<and> hd s = CHR ''-'');
          (ds, r) = take_digits (if neg then tl s else s);
          (ip, r) = (if ds \<noteq> [] \<and> hd ds = CHR ''0'' then (''0'', tl ds @ r) else (ds, r));
          (fr, r') = parse_frac r;
          (ex, r'') = parse_exp r';
          sign = (if neg then - 1 else 1)
      in if ip = [] then None
         else if fr = [] \<and> ex = None then Some (PInt (sign * digits_int ip), r)
         else Some (PFloat (of_int sign * (of_int (digits_int ip) + of_int (digits_int fr) / 10 ^ length fr)
                            * (case ex of None \<Rightarrow> 1
                               | Some e \<Rightarrow> if e < 0 then 1 / 10 ^ nat (- e) else 10 ^ nat e)), r''))"

fun parse_value :: "nat \<Rightarrow> string \<Rightarrow> (pyval \<times> string) option"
  and parse_items :: "nat \<Rightarrow> pyval list \<Rightarrow> string \<Rightarrow> (pyval \<times> string) option"
  and parse_members :: "nat \<Rightarrow> (string, pyval) dict \<Rightarrow> string \<Rightarrow> (pyval \<times> string) option"
where
  "parse_value 0 s = None"
| "parse_value (Suc n) s =
     (case s of
        [] \<Rightarrow> None
      | c # t \<Rightarrow>
          if c = CHR 0x22 then map_option (\<lambda>(x, r). (PStr x, r)) (parse_string t)
          else if c = CHR ''['' then
            (case skip_ws t of
               [] \<Rightarrow> None
             | d # u \<Rightarrow> if d = CHR '']'' then Some (PList [], u) else parse_items n [] (d # u))
          else if c = CHR ''{'' then
            (case skip_ws t of
               [] \<Rightarrow> None
             | d # u \<Rightarrow> if d = CHR ''}'' then Some (PDict [], u) else parse_members n [] (d # u))
          else if take 4 s = ''null'' then Some (PNone, drop 4 s)
          else if take 4 s = ''true'' then Some (PBool True, drop 4 s)
          else if take 5 s = ''false'' then Some (PBool False, drop 5 s)
          else parse_number s)"
| "parse_items 0 xs s = None"
| "parse_items (Suc n) xs s =
     (case parse_value n s of
        None \<Rightarrow> None
      | Some (v, r) \<Rightarrow>
          (case skip_ws r of
             [] \<Rightarrow> None
           | c # t \<Rightarrow>
               if c = CHR '','' then parse_items n (xs @ [v]) (skip_ws t)
               else if c = CHR '']'' then Some (PList (xs @ [v]), t)
               else None))"
| "parse_members 0 d s = None"
| "parse_members (Suc n) d s =
     (case s of
        [] \<Rightarrow> None
      | q # t \<Rightarrow>
          if q \<noteq> CHR 0x22 then None
          else
            (case parse_string t of
               None \<Rightarrow> None
             | Some (k, r) \<Rightarrow>
                 (case skip_ws r of
                    [] \<Rightarrow> None
                  | c # u \<Rightarrow>
                      if c \<noteq> CHR '':'' then None
                      else
                        (case parse_value n (skip_ws u) of
                           None \<Rightarrow> None
                         | Some (v, r') \<Rightarrow>
                             (case skip_ws r' of
                                [] \<Rightarrow> None
                              | e # w \<Rightarrow>
                                  if e = CHR '','' then parse_members n (dict_set k v d) (skip_ws w)
                                  else if e = CHR ''}'' then Some (PDict (dict_set k v d), w)
                                  else None)))))"

definition json_loads :: "string \<Rightarrow> pyval option" where
  "json_loads s =
     (case parse_value (length s + 1) (skip_ws s) of
        None \<Rightarrow> None
      | Some (v, r) \<Rightarrow> if skip_ws r = [] then Some v else None)"

lemma json_samples:
  "json_loads '' {\"a\": [1, -20, 0.5, null], \"b\": \"x\"} '' =
     Some (PDict [(''a'', PList [PInt 1, PInt (- 20), PFloat (1/2), PNone]), (''b'', PStr ''x'')])"
  "json_loads ''01'' = None" "json_loads ''Enabled'' = None" "json_loads ''2e3'' = Some (PFloat 2000)"
  "json_loads ''true'' = Some (PBool True)"
  by code_simp+

end
