(* ===== verification/Validation.thy ===== *)
theory Validation
  imports World Control_Registry Json_Parser
begin

text \<open>
  \<open>src/elcapitan/case_validation.py\<close>: read-only validation of the findings of a prioritized case.
  One reading of the live state per resource is kept as evidence; each finding is evaluated by its
  registered control; the case moves to \<open>validated\<close>, \<open>blocked\<close> or \<open>closed_no_action\<close>. The
  cloud reader is a parameter.
\<close>

section \<open>Results\<close>

datatype finding_validation_status = CONFIRMED | NOT_CONFIRMED | UNSUPPORTED | UNAVAILABLE

fun validation_status_value :: "finding_validation_status \<Rightarrow> string" where
  "validation_status_value CONFIRMED = ''confirmed''"
| "validation_status_value NOT_CONFIRMED = ''not_confirmed''"
| "validation_status_value UNSUPPORTED = ''unsupported''"
| "validation_status_value UNAVAILABLE = ''unavailable''"

record finding_validation =
  fv_finding_id :: string
  fv_rule_id :: pyval
  fv_status :: finding_validation_status
  fv_reason :: string
  fv_evidence_ids :: "string list"

definition finding_validation_to_dict :: "finding_validation \<Rightarrow> pyval" where
  "finding_validation_to_dict v = PDict
     [(''finding_id'', PStr (fv_finding_id v)), (''rule_id'', fv_rule_id v),
      (''status'', PStr (validation_status_value (fv_status v))), (''reason'', PStr (fv_reason v)),
      (''evidence_ids'', str_list (fv_evidence_ids v))]"

record case_validation_outcome =
  vo_case :: remediation_case
  vo_record :: product_record
  vo_findings :: "finding_validation list"

record cloud_state =
  cl_provider :: string
  cl_resource_uid :: string
  cl_region :: string
  cl_config :: "(string \<times> string) list"

definition cloud_state_to_dict :: "cloud_state \<Rightarrow> pyval" where
  "cloud_state_to_dict s = PDict
     [(''provider'', PStr (cl_provider s)), (''resource_uid'', PStr (cl_resource_uid s)),
      (''region'', PStr (cl_region s)),
      (''config'', PDict (dict_update [] (map (\<lambda>(a, v). (a, PStr v)) (cl_config s))))]"

section \<open>Evaluating one finding\<close>

text \<open>\<open>_value\<close>: the text of an aspect as JSON, or the text itself.\<close>

definition live_value :: "cloud_state \<Rightarrow> string \<Rightarrow> pyval res" where
  "live_value state aspect =
     (case dict_get (rev (cl_config state)) aspect of
        None \<Rightarrow> Inl (Raise ValueError (''live cloud state did not capture '' @ aspect))
      | Some raw \<Rightarrow> Inr (case json_loads raw of Some v \<Rightarrow> v | None \<Rightarrow> PStr raw))"

definition finding_rule :: "stored_finding \<Rightarrow> pyval res" where
  "finding_rule f =
     bindE (fld (dict_items (sf_record f)) ''ocsf'') (\<lambda>ocsf.
     dict_get_attr ocsf ''rule_id'' (PStr ''''))"

definition finding_resource_type :: "stored_finding \<Rightarrow> string res" where
  "finding_resource_type f =
     bindE (dict_get_attr (sf_record f) ''resource'' (PDict [])) (\<lambda>resource.
     bindE (dict_get_attr resource ''type'' (PStr '''')) (\<lambda>t. Inr (py_str t)))"

text \<open>The lookup of a rule id that need not be a string: no key equals it, unless hashing raises.\<close>

definition lookup_control :: "registry \<Rightarrow> string \<Rightarrow> pyval \<Rightarrow> string \<Rightarrow> control_definition option res" where
  "lookup_control reg provider rule_id resource_type =
     bindE (guardE (hashable rule_id) TypeError ''unhashable type'') (\<lambda>_.
     Inr (if is_str rule_id then registry_get reg provider (as_str rule_id) resource_type else None))"

definition evaluate_finding ::
  "registry \<Rightarrow> stored_finding \<Rightarrow> cloud_state \<Rightarrow> string list \<Rightarrow> finding_validation res" where
  "evaluate_finding reg f state evidence_ids =
     bindE (finding_rule f) (\<lambda>rule_id.
     bindE (finding_resource_type f) (\<lambda>resource_type.
     bindE (lookup_control reg (sf_provider f) rule_id resource_type) (\<lambda>control.
     case control of
       None \<Rightarrow>
         Inr \<lparr> fv_finding_id = sf_finding_id f, fv_rule_id = rule_id, fv_status = UNSUPPORTED,
               fv_reason = ''no deterministic live evaluator is registered for provider ''
                 @ repr_str (sf_provider f) @ '', rule '' @ py_repr rule_id @ '', and resource type ''
                 @ repr_str resource_type,
               fv_evidence_ids = [] \<rparr>
     | Some c \<Rightarrow>
         bindE (mapE (\<lambda>(aspect, _). bindE (live_value state aspect) (\<lambda>v. Inr (aspect, v)))
                  (cl_config state)) (\<lambda>values.
         bindE (cd_evaluator c (dict_update [] values)) (\<lambda>e.
         Inr \<lparr> fv_finding_id = sf_finding_id f, fv_rule_id = rule_id,
               fv_status = (if ce_confirmed e then CONFIRMED else NOT_CONFIRMED),
               fv_reason = ce_reason e, fv_evidence_ids = evidence_ids \<rparr>)))))"

section \<open>Validating a case\<close>

definition validator :: collector where
  "validator = \<lparr> co_tool = ''elcapitan-live-validator'', co_version = ''0.1.0'',
                 co_identity = ''read-only-scanner'' \<rparr>"

text \<open>What one reading captured: the state, or none and the error; and the evidence of it.\<close>

record capture =
  cap_state :: "cloud_state option"
  cap_ref :: evidence_ref
  cap_error :: string

definition capture_resource ::
  "env \<Rightarrow> (stored_finding \<Rightarrow> ('x, cloud_state) prog) \<Rightarrow> string \<Rightarrow> string \<Rightarrow> stored_finding \<Rightarrow>
   ('x world, capture) prog" where
  "capture_resource env reader dir now f =
     bindM (new_id env ''EVD'') (\<lambda>evidence_id.
     bindM (new_id env ''CMD'') (\<lambda>command_id.
     tryM
       (bindM (on_outside (reader f)) (\<lambda>state.
        bindM (guardM (cl_provider state = sf_provider f \<and> cl_resource_uid state = sf_resource_uid f)
                 ValueError
                 (''live reader returned state for a different resource: expected ''
                  @ sf_provider f @ '':'' @ sf_resource_uid f @ '', got ''
                  @ cl_provider state @ '':'' @ cl_resource_uid state)) (\<lambda>_.
        bindM (write_evidence env dir evidence_id ''live_cloud_configuration''
                 (canonical_json (cloud_state_to_dict state)) validator ''internal'' command_id now)
          (\<lambda>ref. ret \<lparr> cap_state = Some state, cap_ref = ref, cap_error = '''' \<rparr>))))
       [OSError, ValueError]
       (\<lambda>e.
        bindM (write_evidence env dir evidence_id ''live_validation_error'' (exn_str e) validator
                 ''restricted'' command_id now)
          (\<lambda>ref. ret \<lparr> cap_state = None, cap_ref = ref, cap_error = exn_str e \<rparr>))))"

definition unavailable :: "stored_finding \<Rightarrow> string \<Rightarrow> string list \<Rightarrow> finding_validation res" where
  "unavailable f reason evidence_ids =
     bindE (finding_rule f) (\<lambda>rule_id.
     Inr \<lparr> fv_finding_id = sf_finding_id f, fv_rule_id = rule_id, fv_status = UNAVAILABLE,
           fv_reason = reason, fv_evidence_ids = evidence_ids \<rparr>)"

definition finding_result :: "registry \<Rightarrow> stored_finding \<Rightarrow> capture \<Rightarrow> finding_validation res" where
  "finding_result reg f cap =
     (let ids = [ef_evidence_id (cap_ref cap)]
      in case cap_state cap of
           None \<Rightarrow> unavailable f (cap_error cap) ids
         | Some state \<Rightarrow>
             (case evaluate_finding reg f state ids of
                Inl e \<Rightarrow> if exn_isa e [ValueError] then unavailable f (exn_str e) ids else Inl e
              | Inr v \<Rightarrow> Inr v))"

text \<open>The loop over the findings; \<open>captured\<close> maps provider and resource to the reading.\<close>

fun validate_each ::
  "env \<Rightarrow> (stored_finding \<Rightarrow> ('x, cloud_state) prog) \<Rightarrow> registry \<Rightarrow> string \<Rightarrow> string \<Rightarrow>
   (string \<times> string, capture) dict \<Rightarrow> stored_finding list \<Rightarrow>
   ('x world, finding_validation list \<times> evidence_ref list) prog" where
  "validate_each env reader reg dir now captured [] = ret ([], [])"
| "validate_each env reader reg dir now captured (f # fs) =
     (let key = (sf_provider f, sf_resource_uid f)
      in bindM (case dict_get captured key of
                  Some cap \<Rightarrow> ret (cap, [])
                | None \<Rightarrow> bindM (capture_resource env reader dir now f) (\<lambda>cap. ret (cap, [cap_ref cap])))
           (\<lambda>(cap, refs).
         bindM (liftE (finding_result reg f cap)) (\<lambda>v.
         bindM (validate_each env reader reg dir now (dict_set key cap captured) fs) (\<lambda>(vs, refs').
         ret (v # vs, refs @ refs')))))"

definition incomplete :: "finding_validation list \<Rightarrow> finding_validation list" where
  "incomplete vs = filter (\<lambda>v. fv_status v \<in> {UNAVAILABLE, UNSUPPORTED}) vs"

definition confirmed :: "finding_validation list \<Rightarrow> finding_validation list" where
  "confirmed vs = filter (\<lambda>v. fv_status v = CONFIRMED) vs"

definition validation_dir :: "string \<Rightarrow> string \<Rightarrow> string" where
  "validation_dir case_id validation_id = ''cases/'' @ case_id @ ''/validation/'' @ validation_id"

definition validation_record ::
  "string \<Rightarrow> string \<Rightarrow> string \<Rightarrow> finding_validation list \<Rightarrow> evidence_ref list \<Rightarrow> product_record" where
  "validation_record validation_id case_id now results refs =
     \<lparr> pr_record_id = validation_id, pr_case_id = case_id, pr_record_type = ''ValidationResult.v1'',
       pr_schema_version = 1, pr_created_at = now,
       pr_body = PDict
         [(''validation_id'', PStr validation_id), (''case_id'', PStr case_id),
          (''findings'', PList (map finding_validation_to_dict results)),
          (''artifact_namespace'', PStr (validation_dir case_id validation_id)),
          (''evidence'', PList (map evidence_ref_to_dict refs))],
       pr_evidence_ids = dedup (concat (map fv_evidence_ids results)) \<rparr>"

text \<open>The transition the results call for and its detail.\<close>

definition validation_transition :: "finding_validation list \<Rightarrow> case_transition \<times> string" where
  "validation_transition results =
     (if confirmed results \<noteq> [] then
        (VALIDATE, show_nat (length (confirmed results)) @ '' finding(s) confirmed; ''
                   @ show_nat (length (incomplete results)) @ '' finding(s) unavailable or unsupported'')
      else if incomplete results \<noteq> [] then
        (BLOCK, str_join ''; '' (map fv_reason (incomplete results)))
      else (CLOSE_NO_ACTION, ''live state no longer confirms any finding''))"

definition list_case_findings :: "string \<Rightarrow> ('x world, stored_finding list) prog" where
  "list_case_findings i = on_findings (fs_list sql_finding_ops i)"

definition validate ::
  "env \<Rightarrow> (stored_finding \<Rightarrow> ('x, cloud_state) prog) \<Rightarrow> registry \<Rightarrow> string \<Rightarrow> string \<Rightarrow>
   ('x world, case_validation_outcome) prog" where
  "validate env reader reg artifact_root case_id =
     bindM (get_case case_id) (\<lambda>c.
     bindM (guardM (rc_state c = PRIORITIZED) ValueError
              (''case '' @ case_id @ '' must be prioritized before validation; current state is ''
               @ case_state_value (rc_state c))) (\<lambda>_.
     bindM (list_case_findings case_id) (\<lambda>findings.
     bindM (guardM (findings \<noteq> []) ValueError
              (''case '' @ case_id @ '' has no persisted findings'')) (\<lambda>_.
     bindM (new_id env ''VAL'') (\<lambda>validation_id.
     bindM (clock_now env) (\<lambda>now.
     bindM (validate_each env reader reg
              (artifact_root @ ''/'' @ validation_dir case_id validation_id) now [] findings)
       (\<lambda>(results, refs).
     bindM (store_record (validation_record validation_id case_id now results refs)) (\<lambda>rec.
     bindM (new_id env ''EVT'') (\<lambda>event_id.
     let (transition, detail) = validation_transition results
     in bindM (advance case_id transition
                 ((basic_args event_id now ''live-validator'' [(''validation_result_id'', validation_id)]
                    (pr_evidence_ids rec))\<lparr>ta_detail := detail\<rparr>)) (\<lambda>c'.
        ret \<lparr> vo_case = c', vo_record = rec, vo_findings = results \<rparr>))))))))))"

end
