(* ===== verification/Frames.thy ===== *)
theory Frames
  imports Prelude
begin

text \<open>
  Frames: what a computation leaves of a state, as a reflexive and transitive relation between
  the states before and after it. The rules are proved once, in a locale, and every component
  that reasons about what its services may change interprets it on its own relation.
\<close>

definition stays :: "('s \<Rightarrow> 's \<Rightarrow> bool) \<Rightarrow> ('s, 'a) prog \<Rightarrow> bool" where
  "stays R m = (\<forall>s. R s (snd (m s)))"

named_theorems stays_intros \<open>frame rules that hold for every relation\<close>

lemma staysI: "(\<And>s r s'. m s = (r, s') \<Longrightarrow> R s s') \<Longrightarrow> stays R m"
  unfolding stays_def by (metis prod.collapse)

lemma staysD: "stays R m \<Longrightarrow> m s = (r, s') \<Longrightarrow> R s s'"
  unfolding stays_def by (metis snd_conv)

lemma stays_if [stays_intros]:
  "(b \<Longrightarrow> stays R m) \<Longrightarrow> (\<not> b \<Longrightarrow> stays R n) \<Longrightarrow> stays R (if b then m else n)"
  by simp

lemma stays_case_option [stays_intros]:
  "(x = None \<Longrightarrow> stays R m) \<Longrightarrow> (\<And>y. x = Some y \<Longrightarrow> stays R (f y)) \<Longrightarrow>
     stays R (case x of None \<Rightarrow> m | Some y \<Rightarrow> f y)"
  by (cases x) auto

lemma stays_case_prod [stays_intros]:
  "(\<And>x y. p = (x, y) \<Longrightarrow> stays R (f x y)) \<Longrightarrow> stays R (case p of (x, y) \<Rightarrow> f x y)"
  by (cases p) auto

lemma stays_let [stays_intros]: "stays R (f x) \<Longrightarrow> stays R (let y = x in f y)"
  by simp

text \<open>
  A run from states with \<open>P\<close> stays in the frame and, when it returns, ends with \<open>Q\<close>; an
  assertion is stable when the frame preserves it.
\<close>

definition runs ::
  "('s \<Rightarrow> 's \<Rightarrow> bool) \<Rightarrow> ('s \<Rightarrow> bool) \<Rightarrow> ('s, 'a) prog \<Rightarrow> ('a \<Rightarrow> 's \<Rightarrow> bool) \<Rightarrow> bool" where
  "runs R P m Q = (\<forall>s r s'. P s \<longrightarrow> m s = (r, s') \<longrightarrow> R s s' \<and> (\<forall>x. r = Inr x \<longrightarrow> Q x s'))"

definition stable :: "('s \<Rightarrow> 's \<Rightarrow> bool) \<Rightarrow> ('s \<Rightarrow> bool) \<Rightarrow> bool" where
  "stable R P = (\<forall>s s'. P s \<longrightarrow> R s s' \<longrightarrow> P s')"

lemma runsI:
  "(\<And>s r s'. P s \<Longrightarrow> m s = (r, s') \<Longrightarrow> R s s' \<and> (\<forall>x. r = Inr x \<longrightarrow> Q x s')) \<Longrightarrow> runs R P m Q"
  by (simp add: runs_def)

lemma runsD:
  "runs R P m Q \<Longrightarrow> P s \<Longrightarrow> m s = (r, s') \<Longrightarrow> R s s' \<and> (\<forall>x. r = Inr x \<longrightarrow> Q x s')"
  by (simp add: runs_def)

lemma stableD: "stable R P \<Longrightarrow> P s \<Longrightarrow> R s s' \<Longrightarrow> P s'"
  unfolding stable_def by blast

lemma stable_conj: "stable R P \<Longrightarrow> stable R Q \<Longrightarrow> stable R (\<lambda>s. P s \<and> Q s)"
  unfolding stable_def by blast

lemma stable_const: "stable R (\<lambda>_. b)"
  by (simp add: stable_def)

lemma runs_conseq:
  "runs R P m Q \<Longrightarrow> (\<And>s. P' s \<Longrightarrow> P s) \<Longrightarrow> (\<And>x s. Q x s \<Longrightarrow> Q' x s) \<Longrightarrow> runs R P' m Q'"
  unfolding runs_def by blast

lemma runs_pre: "runs R P m Q \<Longrightarrow> (\<And>s. P' s \<Longrightarrow> P s) \<Longrightarrow> runs R P' m Q"
  unfolding runs_def by blast

lemma runs_absurd: "(\<And>s. \<not> P s) \<Longrightarrow> runs R P m Q"
  unfolding runs_def by blast

lemma runs_if:
  "(b \<Longrightarrow> runs R P m Q) \<Longrightarrow> (\<not> b \<Longrightarrow> runs R P n Q) \<Longrightarrow> runs R P (if b then m else n) Q"
  by simp

lemma runs_case_option:
  "(x = None \<Longrightarrow> runs R P m Q) \<Longrightarrow> (\<And>y. x = Some y \<Longrightarrow> runs R P (f y) Q) \<Longrightarrow>
     runs R P (case x of None \<Rightarrow> m | Some y \<Rightarrow> f y) Q"
  by (cases x) auto

lemma runs_case_prod:
  "(\<And>x y. p = (x, y) \<Longrightarrow> runs R P (f x y) Q) \<Longrightarrow> runs R P (case p of (x, y) \<Rightarrow> f x y) Q"
  by (cases p) auto

lemma runs_keep:
  assumes "runs R P m Q" "stable R S"
  shows "runs R (\<lambda>s. P s \<and> S s) m (\<lambda>x s. Q x s \<and> S s)"
  using assms unfolding runs_def stable_def by blast

locale frame =
  fixes R :: "'s \<Rightarrow> 's \<Rightarrow> bool"
  assumes refl [simp]: "R s s"
    and trans: "R s t \<Longrightarrow> R t u \<Longrightarrow> R s u"
begin

lemma bindM:
  assumes "stays R m" "\<And>x. stays R (f x)"
  shows "stays R (bindM m f)"
proof (rule staysI)
  fix s r s' assume run: "bindM m f s = (r, s')"
  obtain x t where m: "m s = (x, t)" by (cases "m s")
  show "R s s'"
  proof (cases x)
    case (Inl e)
    then show ?thesis using run m staysD [OF assms(1) m] by (simp add: bindM_def)
  next
    case (Inr y)
    then have "f y t = (r, s')" using run m by (simp add: bindM_def)
    then show ?thesis using staysD [OF assms(1) m] staysD [OF assms(2)] trans by blast
  qed
qed

lemma tryM:
  assumes "stays R m" "\<And>e. stays R (h e)"
  shows "stays R (tryM m cs h)"
proof (rule staysI)
  fix s r s' assume run: "tryM m cs h s = (r, s')"
  obtain x t where m: "m s = (x, t)" by (cases "m s")
  show "R s s'"
  proof (cases "\<exists>e. x = Inl e \<and> exn_isa e cs")
    case True
    then obtain e where "h e t = (r, s')" using run m by (auto simp: tryM_def)
    then show ?thesis using staysD [OF assms(1) m] staysD [OF assms(2)] trans by blast
  next
    case False
    then have "s' = t" using run m by (cases x) (auto simp: tryM_def)
    then show ?thesis using staysD [OF assms(1) m] by simp
  qed
qed

lemma pure:
  "stays R (ret x)" "stays R (raise c msg)" "stays R (guardM b c msg)"
  "stays R (liftE r)" "stays R (getsM f)"
  by (simp_all add: stays_def run_defs)

lemma runs_bindM:
  assumes "runs R P m Q" "\<And>x. runs R (Q x) (f x) S"
  shows "runs R P (bindM m f) S"
proof (rule runsI)
  fix s r s' assume P: "P s" and run: "bindM m f s = (r, s')"
  obtain x t where m: "m s = (x, t)" by (cases "m s")
  note A = runsD [OF assms(1) P m]
  show "R s s' \<and> (\<forall>x. r = Inr x \<longrightarrow> S x s')"
  proof (cases x)
    case (Inl e)
    then show ?thesis using run m A by (auto simp: bindM_def)
  next
    case (Inr y)
    then have f: "f y t = (r, s')" using run m by (simp add: bindM_def)
    from runsD [OF assms(2) _ f] A Inr show ?thesis using trans by blast
  qed
qed

lemma runs_tryM:
  assumes "runs R P m Q" "stable R P" "\<And>e. runs R P (h e) Q"
  shows "runs R P (tryM m cs h) Q"
proof (rule runsI)
  fix s r s' assume P: "P s" and run: "tryM m cs h s = (r, s')"
  obtain x t where m: "m s = (x, t)" by (cases "m s")
  note A = runsD [OF assms(1) P m]
  show "R s s' \<and> (\<forall>x. r = Inr x \<longrightarrow> Q x s')"
  proof (cases "\<exists>e. x = Inl e \<and> exn_isa e cs")
    case True
    then obtain e where h: "h e t = (r, s')" using run m by (auto simp: tryM_def)
    have "P t" using stableD [OF assms(2) P] A by blast
    from runsD [OF assms(3) this h] A show ?thesis using trans by blast
  next
    case False
    then have "s' = t" "r = x" using run m by (cases x; auto simp: tryM_def)+
    then show ?thesis using A by simp
  qed
qed

lemma runs_pure:
  "(\<And>s. P s \<Longrightarrow> Q x s) \<Longrightarrow> runs R P (ret x) Q"
  "runs R P (raise c msg) Q"
  "(\<And>s. P s \<Longrightarrow> b \<Longrightarrow> S () s) \<Longrightarrow> runs R P (guardM b c msg) S"
  "(\<And>s y. P s \<Longrightarrow> v = Inr y \<Longrightarrow> Q' y s) \<Longrightarrow> runs R P (liftE v) Q'"
  by (auto simp: runs_def ret_def raise_def liftE_def guardM_def guardE_def)

lemma runs_stays:
  assumes "stays R m" "stable R P" shows "runs R P m (\<lambda>_. P)"
proof (rule runsI)
  fix s r s' assume P: "P s" and m: "m s = (r, s')"
  from staysD [OF assms(1) m] have "R s s'" .
  with stableD [OF assms(2) P this] show "R s s' \<and> (\<forall>x. r = Inr x \<longrightarrow> P s')" by simp
qed

lemma runs_then:
  assumes "stays R m" "stable R P" "\<And>x s s'. m s = (Inr x, s') \<Longrightarrow> runs R P (f x) Q"
  shows "runs R P (bindM m f) Q"
proof (rule runs_bindM)
  show "runs R P m (\<lambda>x s. P s \<and> (\<exists>t t'. m t = (Inr x, t')))"
    using staysD [OF assms(1)] stableD [OF assms(2)] unfolding runs_def by blast
  show "runs R (\<lambda>s. P s \<and> (\<exists>t t'. m t = (Inr x, t'))) (f x) Q" for x
    using assms(3) unfolding runs_def by blast
qed

lemma mapM: "(\<And>x. stays R (f x)) \<Longrightarrow> stays R (mapM f xs)"
  by (induction xs) (auto intro!: bindM pure)

end

end
