(* ===== verification/Validation_Properties.thy ===== *)
theory Validation_Properties
  imports Validation Frames Case_Properties Store_Properties
begin

text \<open>
  What the validation of a case guarantees: its outcome follows from the results, one for each
  finding; a result that says something about the live state rests on evidence on disk.
\<close>

section \<open>Frames of the loop\<close>

definition files_extend :: "'x world \<Rightarrow> 'x world \<Rightarrow> bool" where
  "files_extend w w' = (\<forall>p t. dict_get (wd_files w) p = Some t \<longrightarrow> dict_get (wd_files w') p = Some t)"

lemma files_extend_refl [simp]: "files_extend w w"
  by (simp add: files_extend_def)

lemma files_extend_trans: "files_extend a b \<Longrightarrow> files_extend b c \<Longrightarrow> files_extend a c"
  by (simp add: files_extend_def)

text \<open>What a service that reads and collects evidence leaves alone.\<close>

definition collected :: "'x world \<Rightarrow> 'x world \<Rightarrow> bool" where
  "collected w w' = (wd_cases w' = wd_cases w \<and> wd_findings w' = wd_findings w \<and>
     wd_records w' = wd_records w \<and> wd_jobs w' = wd_jobs w \<and> files_extend w w')"

abbreviation only_collects :: "('x world, 'a) prog \<Rightarrow> bool" where
  "only_collects \<equiv> stays collected"

interpretation collects: frame collected
  by unfold_locales (auto simp: collected_def intro: files_extend_trans)

lemma only_collectsD:
  "only_collects m \<Longrightarrow> m w = (r, w') \<Longrightarrow> wd_cases w' = wd_cases w \<and> wd_findings w' = wd_findings w \<and>
     wd_records w' = wd_records w \<and> wd_jobs w' = wd_jobs w \<and> files_extend w w'"
  using staysD [of collected m w r w'] by (simp add: collected_def)

named_theorems collect_intros

lemmas collect_rules [collect_intros] = collects.bindM collects.tryM collects.pure stays_if

lemma only_collects_readings [collect_intros]:
  "only_collects (clock_now env)" "only_collects (new_id env p)" "only_collects (on_outside m)"
  by (simp_all add: stays_def collected_def run_defs clock_now_def new_id_def on_outside_def
      case_prod_unfold files_extend_def)

lemma write_evidence_run:
  assumes "write_evidence env dir i k p c sens cmd n w = (Inr ref, w')"
  shows "ef_evidence_id ref = i \<and> dict_get (wd_files w') (dir @ ''/evidence/'' @ i @ ''.bin'') = Some p"
  using assms by (auto simp: write_evidence_def Let_def run_simps)

lemma only_collects_write_evidence [collect_intros]:
  "only_collects (write_evidence env dir i k p c sens cmd n)"
  unfolding stays_def write_evidence_def Let_def run_defs guardE_def
  by (auto simp: collected_def files_extend_def dict_has_get split: if_splits prod.splits sum.splits)

lemma only_collects_capture [collect_intros]: "only_collects (capture_resource env reader dir now f)"
  unfolding capture_resource_def by (intro collect_intros)

lemma only_collects_validate_each [collect_intros]:
  "only_collects (validate_each env reader reg dir now captured fs)"
proof (induction fs arbitrary: captured)
  case (Cons f fs)
  have "only_collects (case dict_get captured key of
        Some cap \<Rightarrow> ret (cap, [])
      | None \<Rightarrow> bindM (capture_resource env reader dir now f) (\<lambda>cap. ret (cap, [cap_ref cap])))" for key
    by (cases "dict_get captured key") (auto intro!: collect_intros)
  then show ?case by (auto simp: Let_def case_prod_unfold intro!: collect_intros Cons.IH)
qed (simp add: collect_intros)

section \<open>Captures\<close>

definition capture_ok :: "string \<Rightarrow> 'x world \<Rightarrow> string \<times> string \<Rightarrow> capture \<Rightarrow> bool" where
  "capture_ok dir w key cap =
     (\<forall>st. cap_state cap = Some st \<longrightarrow> (cl_provider st, cl_resource_uid st) = key \<and>
        dict_get (wd_files w) (dir @ ''/evidence/'' @ ef_evidence_id (cap_ref cap) @ ''.bin'') =
          Some (canonical_json (cloud_state_to_dict st)))"

lemma capture_ok_extend: "files_extend w w' \<Longrightarrow> capture_ok dir w key cap \<Longrightarrow> capture_ok dir w' key cap"
  by (simp add: capture_ok_def files_extend_def)

lemma capture_resource_ok:
  assumes "capture_resource env reader dir now f w = (Inr cap, w')"
  shows "capture_ok dir w' (sf_provider f, sf_resource_uid f) cap"
  using assms unfolding capture_resource_def
  by (auto simp: run_simps capture_ok_def dest: write_evidence_run)

text \<open>A result that decides was evaluated on a state that is on disk as evidence.\<close>

definition decided_on :: "registry \<Rightarrow> string \<Rightarrow> 'x world \<Rightarrow> stored_finding \<Rightarrow> finding_validation \<Rightarrow> bool" where
  "decided_on reg dir w f v =
     (\<exists>st i. cl_provider st = sf_provider f \<and> cl_resource_uid st = sf_resource_uid f \<and>
        fv_evidence_ids v = [i] \<and> evaluate_finding reg f st [i] = Inr v \<and>
        dict_get (wd_files w) (dir @ ''/evidence/'' @ i @ ''.bin'') = Some (canonical_json (cloud_state_to_dict st)))"

definition result_ok :: "registry \<Rightarrow> string \<Rightarrow> 'x world \<Rightarrow> stored_finding \<Rightarrow> finding_validation \<Rightarrow> bool" where
  "result_ok reg dir w f v =
     (fv_finding_id v = sf_finding_id f \<and>
      (fv_status v \<in> {CONFIRMED, NOT_CONFIRMED} \<longrightarrow> decided_on reg dir w f v))"

lemma result_ok_extend: "files_extend w w' \<Longrightarrow> result_ok reg dir w f v \<Longrightarrow> result_ok reg dir w' f v"
  unfolding result_ok_def decided_on_def files_extend_def by blast

lemma evaluate_finding_result:
  assumes "evaluate_finding reg f st ids = Inr v"
  shows "fv_finding_id v = sf_finding_id f \<and>
    (fv_status v \<in> {CONFIRMED, NOT_CONFIRMED} \<longrightarrow> fv_evidence_ids v = ids)"
  using assms by (auto simp: evaluate_finding_def res_simps split: option.splits)

lemma finding_result_ok:
  assumes "finding_result reg f cap = Inr v" "capture_ok dir w (sf_provider f, sf_resource_uid f) cap"
  shows "result_ok reg dir w f v"
proof (cases "cap_state cap")
  case None
  with assms(1) show ?thesis by (auto simp: finding_result_def unavailable_def res_simps result_ok_def)
next
  case (Some st)
  let ?ids = "[ef_evidence_id (cap_ref cap)]"
  show ?thesis
  proof (cases "evaluate_finding reg f st ?ids")
    case (Inl e)
    with assms(1) Some show ?thesis
      by (auto simp: finding_result_def unavailable_def res_simps result_ok_def split: if_splits)
  next
    case (Inr v')
    with assms(1) Some have "v' = v" by (simp add: finding_result_def)
    with Inr Some assms(2) evaluate_finding_result [OF Inr] show ?thesis
      unfolding result_ok_def decided_on_def capture_ok_def by auto
  qed
qed

lemma validate_each_ok:
  assumes "validate_each env reader reg dir now captured fs w = (Inr (vs, refs), w')"
    and "\<forall>key cap. dict_get captured key = Some cap \<longrightarrow> capture_ok dir w key cap"
  shows "list_all2 (result_ok reg dir w') fs vs"
  using assms
proof (induction fs arbitrary: captured w vs refs)
  case Nil
  then show ?case by (simp add: run_simps)
next
  case (Cons f fs)
  let ?key = "(sf_provider f, sf_resource_uid f)"
  from Cons.prems(1) obtain cap rs w1 v vs' refs' where
    step: "(case dict_get captured ?key of Some cap \<Rightarrow> ret (cap, [])
        | None \<Rightarrow> bindM (capture_resource env reader dir now f) (\<lambda>cap. ret (cap, [cap_ref cap]))) w =
        (Inr (cap, rs), w1)"
    and v: "finding_result reg f cap = Inr v"
    and rest: "validate_each env reader reg dir now (dict_set ?key cap captured) fs w1 = (Inr (vs', refs'), w')"
    and vs: "vs = v # vs'"
    by (auto simp: Let_def run_simps split: prod.splits)
  have cap: "capture_ok dir w1 ?key cap \<and> files_extend w w1"
  proof (cases "dict_get captured ?key")
    case None
    with step have c: "capture_resource env reader dir now f w = (Inr cap, w1)" by (auto simp: run_simps)
    show ?thesis using capture_resource_ok [OF c] only_collectsD [OF only_collects_capture c] by blast
  next
    case (Some cap')
    with step have "cap' = cap" "w1 = w" by (auto simp: run_simps)
    with Some Cons.prems(2) show ?thesis by auto
  qed
  have inv: "\<forall>key cap'. dict_get (dict_set ?key cap captured) key = Some cap' \<longrightarrow> capture_ok dir w1 key cap'"
  proof (intro allI impI)
    fix key cap' assume "dict_get (dict_set ?key cap captured) key = Some cap'"
    then have "(if key = ?key then Some cap else dict_get captured key) = Some cap'"
      by (simp only: dict_get_set)
    then consider "cap' = cap" "key = ?key" | "dict_get captured key = Some cap'"
      by (cases "key = ?key") simp_all
    then show "capture_ok dir w1 key cap'"
    proof cases
      case 2
      with Cons.prems(2) have "capture_ok dir w key cap'" by blast
      then show ?thesis using cap capture_ok_extend by blast
    qed (use cap in simp)
  qed
  have "files_extend w1 w'" using only_collectsD [OF only_collects_validate_each rest] by blast
  with finding_result_ok [OF v] cap have "result_ok reg dir w' f v" by (blast intro: result_ok_extend)
  with Cons.IH [OF rest inv] vs show ?case by simp
qed

section \<open>The outcome\<close>

text \<open>A successful advance of a stored case is a transition of the case that is stored.\<close>

lemma advance_transition:
  assumes "advance i t a w = (Inr c', w')" "cs_get sql_ops i (wd_cases w) = (Inr c, s)"
  obtains e where "transition_case c t a = Inr (c', e)"
  using assms by (auto simp: advance_def workflow_advance_def run_simps split: prod.splits)

lemma store_record_frame:
  "store_record r w = (x, w') \<Longrightarrow> wd_cases w' = wd_cases w \<and> wd_files w' = wd_files w"
  by (auto simp: store_record_def put_record_def on_records_def bindM_def liftE_def ret_def
      split: prod.splits sum.splits)

lemma get_case_run:
  "get_case i w = (Inr c, w') \<Longrightarrow> cs_get sql_ops i (wd_cases w) = (Inr c, wd_cases w')"
  by (auto simp: get_case_def run_simps)

text \<open>A run of \<open>validate\<close> that returned, taken apart.\<close>

lemma validate_run:
  assumes "cases_ok (wd_cases w)" "validate env reader reg base i w = (Inr out, w')"
  obtains c fs vid now w1 refs w2 e a where
    "rc_state c = PRIORITIZED" "fs \<noteq> []" "fst (sql_finding_list i (wd_findings w)) = Inr fs"
    "validate_each env reader reg (base @ ''/'' @ validation_dir i vid) now [] fs w1 =
       (Inr (vo_findings out, refs), w2)"
    "wd_files w' = wd_files w2" "pr_record_id (vo_record out) = vid"
    "transition_case c (fst (validation_transition (vo_findings out))) a = Inr (vo_case out, e)"
proof -
  from assms(2) obtain c fs vid now w1 rs refs w2 rec w3 w4 wg c' ta where
    g: "get_case i w = (Inr c, wg)" and p: "rc_state c = PRIORITIZED"
    and fs: "list_case_findings i wg = (Inr fs, w1)" "fs \<noteq> []"
    and each: "validate_each env reader reg (base @ ''/'' @ validation_dir i vid) now [] fs
          (w1\<lparr>wd_tick := wd_tick w1 + 1 + 1\<rparr>) = (Inr (rs, refs), w2)"
    and rec: "store_record (validation_record vid i now rs refs) w2 = (Inr rec, w3)"
    and adv: "advance i (fst (validation_transition rs)) ta (w3\<lparr>wd_tick := wd_tick w3 + 1\<rparr>) = (Inr c', w')"
    and out: "out = \<lparr>vo_case = c', vo_record = rec, vo_findings = rs\<rparr>"
    unfolding validate_def Let_def case_prod_unfold run_simps
    by (elim exE conjE) (rule that; (assumption | simp))
  have sg: "cs_get sql_ops i (wd_cases w) = (Inr c, wd_cases w)" "wd_cases wg = wd_cases w" "wg = w\<lparr>wd_cases := wd_cases wg\<rparr>"
    using get_case_run [OF g] sql.get_law [of "wd_cases w" i] assms(1) g
    by (auto simp: cases_ok_def get_case_def on_cases_def split: prod.splits)
  have f: "fst (sql_finding_list i (wd_findings w)) = Inr fs" "wd_cases w1 = wd_cases w"
    using fs(1) sg by (auto simp: list_case_findings_def run_simps sql_finding_ops_def)
  have "wd_cases w2 = wd_cases w"
    using only_collectsD [OF only_collects_validate_each each] f(2) by simp
  then have "cs_get sql_ops i (wd_cases (w3\<lparr>wd_tick := wd_tick w3 + 1\<rparr>)) = (Inr c, wd_cases w)"
    using sg(1) store_record_frame [OF rec] by simp
  from advance_transition [OF adv this] obtain e where
    tr: "transition_case c (fst (validation_transition rs)) ta = Inr (c', e)" by blast
  have files: "wd_files w' = wd_files w2"
    using adv store_record_frame [OF rec] by (auto simp: advance_def run_simps)
  have "pr_record_id rec = vid"
    using rec by (auto simp: store_record_def run_simps mk_product_record_def res_simps validation_record_def)
  then show thesis
    using that [where c = c and fs = fs and refs = refs and ?w2.0 = w2 and e = e and a = ta] p fs(2) f(1) files tr each out
    by simp
qed

lemma validation_transition_state:
  assumes "rc_state c = PRIORITIZED" "transition_case c (fst (validation_transition vs)) a = Inr (c', e)"
  shows "rc_state c' = (if confirmed vs \<noteq> [] then VALIDATED
                        else if incomplete vs \<noteq> [] then BLOCKED else CLOSED_NO_ACTION)"
  using transition_caseD(4) [OF assms(2)] assms(1)
  by (auto simp: validation_transition_def linear_transition_def linear_transitions_def res_simps
      split: if_splits)

text \<open>C19: Validation gives every finding of the case a result, in the order of the findings, and these
  decide the case: it is validated when a finding is confirmed, closed without action only when
  every finding was found not to hold, and blocked otherwise, so that an unavailable or
  unsupported finding never closes a case.\<close>

theorem validation_decides_case:
  assumes "cases_ok (wd_cases w)" "validate env reader reg base i w = (Inr out, w')"
  shows "(\<exists>fs. fs \<noteq> [] \<and> fst (sql_finding_list i (wd_findings w)) = Inr fs \<and>
      map fv_finding_id (vo_findings out) = map sf_finding_id fs) \<and>
    (rc_state (vo_case out) = VALIDATED \<longleftrightarrow> list_ex (\<lambda>v. fv_status v = CONFIRMED) (vo_findings out)) \<and>
    (rc_state (vo_case out) = CLOSED_NO_ACTION \<longleftrightarrow>
       list_all (\<lambda>v. fv_status v = NOT_CONFIRMED) (vo_findings out)) \<and>
    rc_state (vo_case out) \<in> {VALIDATED, BLOCKED, CLOSED_NO_ACTION}"
proof -
  from assms obtain c fs vid now w1 refs w2 e a where
    c: "rc_state c = PRIORITIZED" and fs: "fs \<noteq> []" "fst (sql_finding_list i (wd_findings w)) = Inr fs"
    and each: "validate_each env reader reg (base @ ''/'' @ validation_dir i vid) now [] fs w1 =
       (Inr (vo_findings out, refs), w2)"
    and tr: "transition_case c (fst (validation_transition (vo_findings out))) a = Inr (vo_case out, e)"
    by (rule validate_run)
  let ?vs = "vo_findings out"
  have all2: "list_all2 (result_ok reg (base @ ''/'' @ validation_dir i vid) w2) fs ?vs"
    by (rule validate_each_ok [OF each]) simp
  then have ids: "map fv_finding_id ?vs = map sf_finding_id fs"
    by (induction rule: list_all2_induct) (auto simp: result_ok_def)
  have "confirmed ?vs \<noteq> [] \<longleftrightarrow> list_ex (\<lambda>v. fv_status v = CONFIRMED) ?vs"
    by (auto simp: confirmed_def filter_empty_conv list_ex_iff)
  moreover have "confirmed ?vs = [] \<and> incomplete ?vs = [] \<longleftrightarrow> list_all (\<lambda>v. fv_status v = NOT_CONFIRMED) ?vs"
    by (auto simp: confirmed_def incomplete_def filter_empty_conv list_all_iff)
      (metis finding_validation_status.exhaust)
  ultimately show ?thesis
    using validation_transition_state [OF c tr] fs ids by auto
qed

text \<open>C20: A finding is confirmed, or found not to hold, only on evidence: each such result names one
  evidence id, whose file under the validation's directory holds a live state of that finding's own
  provider and resource, and evaluating the finding on this state gives the result.\<close>

theorem validation_rests_on_evidence:
  assumes "cases_ok (wd_cases w)" "validate env reader reg base i w = (Inr out, w')"
    and "v \<in> set (vo_findings out)" "fv_status v \<in> {CONFIRMED, NOT_CONFIRMED}"
  shows "\<exists>fs f st eid. fst (sql_finding_list i (wd_findings w)) = Inr fs \<and> f \<in> set fs \<and>
    cl_provider st = sf_provider f \<and> cl_resource_uid st = sf_resource_uid f \<and>
    fv_evidence_ids v = [eid] \<and> evaluate_finding reg f st [eid] = Inr v \<and>
    dict_get (wd_files w') (base @ ''/'' @ validation_dir i (pr_record_id (vo_record out)) @ ''/evidence/''
      @ eid @ ''.bin'') = Some (canonical_json (cloud_state_to_dict st))"
proof -
  from assms(1,2) obtain c fs vid now w1 refs w2 e a where
    fs: "fst (sql_finding_list i (wd_findings w)) = Inr fs"
    and each: "validate_each env reader reg (base @ ''/'' @ validation_dir i vid) now [] fs w1 =
       (Inr (vo_findings out, refs), w2)"
    and files: "wd_files w' = wd_files w2" and vid: "pr_record_id (vo_record out) = vid"
    by (rule validate_run)
  have "list_all2 (result_ok reg (base @ ''/'' @ validation_dir i vid) w2) fs (vo_findings out)"
    by (rule validate_each_ok [OF each]) simp
  with assms(3) obtain f where "f \<in> set fs" "result_ok reg (base @ ''/'' @ validation_dir i vid) w2 f v"
    by (metis in_set_conv_nth list_all2_conv_all_nth)
  with assms(4) fs files vid show ?thesis unfolding result_ok_def decided_on_def by auto
qed

section \<open>A concrete validation\<close>

definition sample_env :: env where
  "sample_env = \<lparr> env_now = (\<lambda>n. ''2026-01-01T00:00:00Z''),
     env_id = (\<lambda>n pre. pre @ ''-'' @ pad_left 18 (show_nat n)), env_sha256 = (\<lambda>s. ''hash'') \<rparr>"

definition sample_volume :: "string \<Rightarrow> stored_finding" where
  "sample_volume i = (sample_finding i)\<lparr>sf_provider := ''aws'', sf_resource_uid := ''vol-1'',
     sf_record := PDict [(''ocsf'', PDict [(''rule_id'', PStr ''ec2_ebs_volume_encryption'')]),
                         (''resource'', PDict [(''type'', PStr ''AwsEc2Volume'')])],
     sf_case_id := Some ''c1''\<rparr>"

definition sample_reader :: "stored_finding \<Rightarrow> (unit, cloud_state) prog" where
  "sample_reader f = ret \<lparr> cl_provider = sf_provider f, cl_resource_uid = sf_resource_uid f,
     cl_region = '''', cl_config = [(''ebs_volume_encrypted'', ''false'')] \<rparr>"

definition sample_case_world :: "finding_row list \<Rightarrow> unit world" where
  "sample_case_world rows = \<lparr> wd_cases = sample_db, wd_records = [], wd_findings = rows,
     wd_jobs = [], wd_files = [], wd_tick = 0, wd_outside = () \<rparr>"

definition sample_registry :: registry where
  "sample_registry = \<lparr> rg_packs = [], rg_controls = aws_ebs_controls \<rparr>"

definition sample_validation :: "case_validation_outcome res \<times> unit world" where
  "sample_validation =
     validate sample_env sample_reader sample_registry ''root'' ''c1''
       (sample_case_world [finding_row (sample_volume ''f'')])"

lemma sample_cases_ok: "cases_ok sample_db"
proof -
  have "sql_view sql_empty = Map.empty" "sql_ok sql_empty"
    by (auto simp: fun_eq_iff sql_view_def sql_empty_def sql_ok_def case_event_rows_def)
  from sql.interleaved_keeps [OF sample_db_reached this(2,1)] show ?thesis by (simp add: cases_ok_def)
qed

lemma sample_validation_ok: "is_ok (fst sample_validation)"
  by code_simp

lemma sample_validation_run:
  obtains out w' where "validate sample_env sample_reader sample_registry ''root'' ''c1''
      (sample_case_world [finding_row (sample_volume ''f'')]) = (Inr out, w')"
    "fst sample_validation = Inr out"
proof -
  from sample_validation_ok obtain out where "fst sample_validation = Inr out" by (auto simp: is_ok_iff)
  with that show thesis unfolding sample_validation_def by (metis prod.collapse)
qed

lemma sample_validation_status:
  "(case fst sample_validation of Inr out \<Rightarrow> map fv_status (vo_findings out) = [CONFIRMED] | Inl e \<Rightarrow> False)"
  by code_simp

theorem validation_decides_case_witness:
  "\<exists>out. fst sample_validation = Inr out \<and> rc_state (vo_case out) = VALIDATED"
proof (rule sample_validation_run)
  fix out w' assume run: "validate sample_env sample_reader sample_registry ''root'' ''c1''
      (sample_case_world [finding_row (sample_volume ''f'')]) = (Inr out, w')"
    and out: "fst sample_validation = Inr out"
  have ok: "cases_ok (wd_cases (sample_case_world [finding_row (sample_volume ''f'')]))"
    by (simp add: sample_case_world_def sample_cases_ok)
  have "map fv_status (vo_findings out) = [CONFIRMED]" using sample_validation_status out by simp
  then have "list_ex (\<lambda>v. fv_status v = CONFIRMED) (vo_findings out)" by (cases "vo_findings out") auto
  with validation_decides_case [OF ok run] out show ?thesis by blast
qed

theorem validation_rests_on_evidence_witness:
  "\<exists>(v :: finding_validation) eid. fv_status v = CONFIRMED \<and> fv_evidence_ids v = [eid] \<and>
     dict_has (wd_files (snd sample_validation))
       (''root'' @ ''/'' @ validation_dir ''c1'' ''VAL-000000000000000000'' @ ''/evidence/'' @ eid @ ''.bin'')"
proof (rule sample_validation_run)
  fix out w' assume run: "validate sample_env sample_reader sample_registry ''root'' ''c1''
      (sample_case_world [finding_row (sample_volume ''f'')]) = (Inr out, w')"
    and out: "fst sample_validation = Inr out"
  have ok: "cases_ok (wd_cases (sample_case_world [finding_row (sample_volume ''f'')]))"
    by (simp add: sample_case_world_def sample_cases_ok)
  have "map fv_status (vo_findings out) = [CONFIRMED]" using sample_validation_status out by simp
  then obtain v where v: "v \<in> set (vo_findings out)" "fv_status v = CONFIRMED"
    by (cases "vo_findings out") auto
  have "(case fst sample_validation of Inr out \<Rightarrow> pr_record_id (vo_record out) = ''VAL-000000000000000000''
      | Inl e \<Rightarrow> False)" by code_simp
  then have id: "pr_record_id (vo_record out) = ''VAL-000000000000000000''" using out by simp
  have w': "w' = snd sample_validation" using run by (simp add: sample_validation_def)
  from validation_rests_on_evidence [OF ok run v(1)] v(2) obtain eid st where
    "fv_evidence_ids v = [eid]"
    "dict_get (wd_files w') (''root'' @ ''/'' @ validation_dir ''c1'' (pr_record_id (vo_record out))
       @ ''/evidence/'' @ eid @ ''.bin'') = Some (canonical_json (cloud_state_to_dict st))" by blast
  with v(2) show ?thesis unfolding id w' dict_has_get
    by - (rule exI [where x = v], rule exI [where x = eid], simp)
qed

end
