(* ===== verification/Json_Roundtrip.thy ===== *)
theory Json_Roundtrip
  imports Json_Parser
begin

text \<open>
  Reading back what was written: \<open>json.loads (canonical_json v)\<close> is \<open>v\<close> with the keys of every
  object in order. The stores keep the text; that they may be modelled as keeping \<open>canon v\<close> rests
  on this round trip.
\<close>

section \<open>Strings\<close>

lemma hex_digit_value: "d < 16 \<Longrightarrow> hex_value (hex_digit d) = Some (int d)"
proof -
  assume "d < 16"
  then have "d \<in> {0, 1, 2, 3, 4, 5, 6, 7, 8, 9, 10, 11, 12, 13, 14, 15}"
    unfolding insert_iff empty_iff by arith
  then show ?thesis by (auto simp: hex_digit_def hex_value_def)
qed

lemma hex_digit_mod: "hex_digit n = hex_digit (n mod 16)"
  by (simp add: hex_digit_def)

lemma hex_escape:
  assumes "n < 32"
  shows "number 16 hex_value [CHR ''0'', CHR ''0'', hex_digit (n div 16), hex_digit n] = Some (int n)"
proof -
  have "hex_value CHR ''0'' = Some 0" by (simp add: hex_value_def)
  moreover have "n div 16 < 16" using assms by simp
  moreover have "int (n div 16) * 16 + int (n mod 16) = int n"
    by (metis div_mult_mod_eq of_nat_add of_nat_mult of_nat_numeral)
  ultimately show ?thesis
    using hex_digit_value [of "n div 16"] hex_digit_value [of "n mod 16"] hex_digit_mod [of n]
    by (simp add: number_def)
qed

lemma parse_json_char: "parse_string (json_char c @ s) = map_option (\<lambda>(x, r). (c # x, r)) (parse_string s)"
proof -
  let ?n = "of_char c :: nat"
  consider (quote) "c = CHR 0x22 \<or> c = CHR 0x5C" | (short) "?n \<in> {8, 9, 10, 12, 13}"
    | (ctrl) "?n < 32" "?n \<notin> {8, 9, 10, 12, 13}" "c \<noteq> CHR 0x22" "c \<noteq> CHR 0x5C"
    | (plain) "32 \<le> ?n" "c \<noteq> CHR 0x22" "c \<noteq> CHR 0x5C"
    by fastforce
  then show ?thesis
  proof cases
    case quote
    then show ?thesis by (auto simp: json_char_def simple_escape_def)
  next
    case short
    then have "?n \<in> of_char ` {CHR 0x08, CHR 0x09, CHR 0x0A, CHR 0x0C, CHR 0x0D}" by simp
    then have "c \<in> {CHR 0x08, CHR 0x09, CHR 0x0A, CHR 0x0C, CHR 0x0D}" by (auto simp only: of_char_eq_iff image_iff)
    then show ?thesis by (auto simp: json_char_def simple_escape_def)
  next
    case ctrl
    have "json_char c = [CHR 0x5C, CHR ''u'', CHR ''0'', CHR ''0'', hex_digit (?n div 16), hex_digit ?n]"
      using ctrl by (auto simp: json_char_def Let_def)
    then show ?thesis using hex_escape [OF ctrl(1)] ctrl(1) by (simp add: utf8_encode_def char_of_char)
  next
    case plain
    then show ?thesis by (auto simp: json_char_def Let_def)
  qed
qed

lemma parse_json_string: "parse_string (concat (map json_char s) @ CHR 0x22 # r) = Some (s, r)"
  by (induction s) (simp_all add: parse_json_char)

section \<open>Numbers\<close>

lemma digit_char_code:
  assumes "0 \<le> d" "d < 10"
  shows "json_digit (digit_char d)" "int (of_char (digit_char d) :: nat) - 48 = d"
    "digit_char d = CHR ''0'' \<longleftrightarrow> d = 0"
proof -
  have "list_all (\<lambda>d. json_digit (digit_char d) \<and> int (of_char (digit_char d) :: nat) - 48 = d \<and>
      (digit_char d = CHR ''0'' \<longleftrightarrow> d = 0)) [0..9]" by code_simp
  then show "json_digit (digit_char d)" "int (of_char (digit_char d) :: nat) - 48 = d"
    "digit_char d = CHR ''0'' \<longleftrightarrow> d = 0"
    using assms by (simp_all add: list_all_iff)
qed

lemma digit_char_mod: "digit_char n = digit_char (n mod 10)"
  by (simp add: digit_char_def)

lemma digits_int_snoc: "digits_int (s @ [c]) = digits_int s * 10 + (int (of_char c :: nat) - 48)"
  by (simp add: digits_int_def)

lemma show_digits_props:
  "0 \<le> n \<Longrightarrow> show_digits n \<noteq> [] \<and> list_all json_digit (show_digits n) \<and>
     digits_int (show_digits n) = n \<and> (hd (show_digits n) = CHR ''0'' \<longleftrightarrow> n = 0) \<and>
     (n = 0 \<longrightarrow> show_digits n = ''0'')"
proof (induction n rule: show_digits.induct)
  case (1 n)
  note d = digit_char_code [of "n mod 10"]
  show ?case
  proof (cases "n < 10")
    case True
    with 1 d show ?thesis
      by (auto simp: show_digits.simps [of n] show_digits.simps [of 0] digits_int_def digit_char_def)
  next
    case False
    with 1 have IH: "show_digits (n div 10) \<noteq> []" "list_all json_digit (show_digits (n div 10))"
      "digits_int (show_digits (n div 10)) = n div 10"
      "hd (show_digits (n div 10)) = CHR ''0'' \<longleftrightarrow> n div 10 = 0" by auto
    have nz: "n div 10 \<noteq> 0" using False by linarith
    have "show_digits n = show_digits (n div 10) @ [digit_char (n mod 10)]"
      using False by (simp add: show_digits.simps [of n] digit_char_mod [of n])
    moreover have "n div 10 * 10 + n mod 10 = n" by simp
    ultimately show ?thesis using IH nz d False by (auto simp: digits_int_snoc)
  qed
qed

text \<open>What follows a value inside a document ends it.\<close>

definition stops :: "string \<Rightarrow> bool" where
  "stops r = (r = [] \<or> hd r \<in> {CHR '','', CHR '']'', CHR ''}''})"

lemma json_digit_stop: "stops r \<Longrightarrow> r \<noteq> [] \<Longrightarrow> \<not> json_digit (hd r)"
proof -
  have "\<not> json_digit CHR '',''" "\<not> json_digit CHR '']''" "\<not> json_digit CHR ''}''" by code_simp+
  then show "stops r \<Longrightarrow> r \<noteq> [] \<Longrightarrow> ?thesis" by (auto simp: stops_def)
qed

lemma take_digits_stop:
  assumes "list_all json_digit ds" "stops r"
  shows "take_digits (ds @ r) = (ds, r)"
proof -
  have "takeWhile json_digit r = [] \<and> dropWhile json_digit r = r"
    using json_digit_stop [OF assms(2)] by (cases r) auto
  then show ?thesis using assms(1) by (auto simp: take_digits_def takeWhile_append list_all_iff dropWhile_append)
qed

lemma stops_tails [simp]:
  "stops r \<Longrightarrow> parse_frac r = ([], r)" "stops r \<Longrightarrow> parse_exp r = (None, r)"
  by (auto simp: stops_def parse_frac_def parse_exp_def split: list.splits)

lemma json_digit_minus: "json_digit c \<Longrightarrow> c \<noteq> CHR ''-''"
proof -
  have "\<not> json_digit CHR ''-''" by code_simp
  then show "json_digit c \<Longrightarrow> ?thesis" by auto
qed

lemma parse_number_digits:
  assumes "0 \<le> n" "stops r"
  shows "parse_number (show_digits n @ r) = Some (PInt n, r)"
    "parse_number (CHR ''-'' # show_digits n @ r) = Some (PInt (- n), r)"
proof -
  note p = show_digits_props [OF assms(1)]
  note t = take_digits_stop [OF _ assms(2), of "show_digits n"]
  have h: "hd (show_digits n @ r) \<noteq> CHR ''-''"
    using p json_digit_minus by (cases "show_digits n") auto
  show "parse_number (show_digits n @ r) = Some (PInt n, r)"
    using p t h assms(2) by (auto simp: parse_number_def Let_def digits_int_def split: prod.splits)
  show "parse_number (CHR ''-'' # show_digits n @ r) = Some (PInt (- n), r)"
    using p t assms(2) by (auto simp: parse_number_def Let_def digits_int_def split: prod.splits)
qed

lemma parse_number_int: "stops r \<Longrightarrow> parse_number (show_int i @ r) = Some (PInt i, r)"
  using parse_number_digits [of i r] parse_number_digits [of "- i" r] by (simp add: show_int_def)

section \<open>Floats\<close>

text \<open>A float that \<open>repr\<close> writes without an exponent and the model without rounding.\<close>

definition plain_float :: "rat \<Rightarrow> bool" where
  "plain_float x =
     (x * 10 ^ 17 = of_int \<lfloor>x * 10 ^ 17\<rfloor> \<and> (x = 0 \<or> 1 / 10 ^ 4 \<le> \<bar>x\<bar> \<and> \<bar>x\<bar> < 10 ^ 16))"

lemma digits_int_append: "digits_int (s @ replicate n CHR ''0'') = digits_int s * 10 ^ n"
  by (induction n) (simp_all add: digits_int_snoc replicate_append_same [symmetric] del: append_assoc
      flip: append_assoc)

lemma digits_int_zeros: "digits_int (replicate n CHR ''0'' @ s) = digits_int s"
proof -
  have "digits_int (replicate n CHR ''0'') = 0" using digits_int_append [of "[]" n] by (simp add: digits_int_def)
  then show ?thesis by (simp add: digits_int_def)
qed

lemma show_digits_short: "0 \<le> n \<Longrightarrow> n < 10 ^ Suc k \<Longrightarrow> length (show_digits n) \<le> Suc k"
proof (induction n arbitrary: k rule: show_digits.induct)
  case (1 n)
  show ?case
  proof (cases "n < 10")
    case False
    with 1 obtain j where k: "k = Suc j" by (cases k) auto
    have "n div 10 < 10 ^ Suc j" using 1(3) k by (simp add: div_less_iff_less_mult) 
    with 1 False k show ?thesis by (simp add: show_digits.simps [of n])
  qed (simp add: show_digits.simps [of n])
qed

text \<open>The places of a fraction, with all and without the last zeros.\<close>

lemma padded_places:
  assumes "0 \<le> f" "f < 10 ^ 17"
  shows "length (pad_left 17 (show_digits f)) = 17" "list_all json_digit (pad_left 17 (show_digits f))"
    "digits_int (pad_left 17 (show_digits f)) = f"
proof -
  have z: "json_digit CHR ''0''" by code_simp
  have "length (show_digits f) \<le> 17" using show_digits_short [OF assms(1), of 16] assms(2) by simp
  then show "length (pad_left 17 (show_digits f)) = 17" by (simp add: pad_left_def)
  show "list_all json_digit (pad_left 17 (show_digits f))"
    using show_digits_props [OF assms(1)] z by (auto simp: pad_left_def list_all_iff)
  show "digits_int (pad_left 17 (show_digits f)) = f"
    using show_digits_props [OF assms(1)] by (simp add: pad_left_def digits_int_zeros)
qed

definition strip_zeros :: "string \<Rightarrow> string" where
  "strip_zeros s = rev (dropWhile (\<lambda>c. c = CHR ''0'') (rev s))"

lemma strip_zeros_split: "\<exists>n. s = strip_zeros s @ replicate n CHR ''0''"
proof -
  let ?z = "takeWhile (\<lambda>c. c = CHR ''0'') (rev s)"
  have "set ?z \<subseteq> {CHR ''0''}" by (auto dest: set_takeWhileD)
  then have z: "?z = replicate (length ?z) CHR ''0''" by (metis replicate_length_same singletonD subsetD)
  have "s = rev (?z @ dropWhile (\<lambda>c. c = CHR ''0'') (rev s))" by simp
  also have "\<dots> = strip_zeros s @ rev ?z" by (simp only: rev_append strip_zeros_def)
  also have "rev ?z = replicate (length ?z) CHR ''0''" by (subst z) simp
  finally show ?thesis by blast
qed

lemma strip_zeros_last: "strip_zeros s \<noteq> [] \<Longrightarrow> last (strip_zeros s) \<noteq> CHR ''0''"
  using hd_dropWhile [of "\<lambda>c. c = CHR ''0''" "rev s"] by (simp add: strip_zeros_def last_rev)

lemma strip_zeros_append:
  "strip_zeros (s @ CHR ''.'' # t) = s @ CHR ''.'' # strip_zeros t"
  by (simp add: strip_zeros_def dropWhile_append)

text \<open>A sign, the digits before the point and some digits after it.\<close>

lemma repr_float_text:
  assumes "plain_float x"
  obtains s n fr where "0 \<le> n" "list_all json_digit fr" "fr \<noteq> []" "s \<in> {''-'', []}"
    "repr_float x = s @ show_digits n @ CHR ''.'' # fr"
    "x = (if s = [] then 1 else - 1) * (of_int n + of_int (digits_int fr) / 10 ^ length fr)"
proof -
  define k where "k = \<lfloor>x * 10 ^ 17\<rfloor>"
  have x: "x * 10 ^ 17 = of_int k" using assms by (simp add: plain_float_def k_def)
  have r: "round_half_even (x * 10 ^ 17) = k" unfolding x by (simp add: round_half_even_def Let_def)
  define n f where "n = \<bar>k\<bar> div 10 ^ 17" and "f = \<bar>k\<bar> mod 10 ^ 17"
  have nf: "0 \<le> n" "0 \<le> f" "f < 10 ^ 17" "\<bar>k\<bar> = n * 10 ^ 17 + f" by (simp_all add: n_def f_def)
  note F = padded_places [OF nf(2,3)]
  let ?F = "pad_left 17 (show_digits f)"
  let ?G = "strip_zeros ?F"
  let ?s = "if k < 0 then ''-'' else []"
  obtain j where j: "?F = ?G @ replicate j CHR ''0''" using strip_zeros_split by blast
  define fr where "fr = (if ?G = [] then ''0'' else ?G)"
  have z: "json_digit CHR ''0''" "\<not> json_digit CHR ''.''" by code_simp+
  have dG: "list_all json_digit ?G" using F(2) by (subst (asm) j) simp
  have written: "repr_float x = ?s @ show_digits n @ CHR ''.'' # fr"
  proof -
    have "fmt_fixed 17 x = (?s @ show_digits n) @ CHR ''.'' # ?F"
      unfolding fmt_fixed_def r n_def f_def Let_def by simp
    moreover have "repr_float x = (let u = strip_zeros (fmt_fixed 17 x)
        in if u \<noteq> [] \<and> last u = CHR ''.'' then u @ ''0'' else u)"
      by (simp add: repr_float_def strip_zeros_def Let_def)
    ultimately have "repr_float x = (let u = (?s @ show_digits n) @ CHR ''.'' # ?G
        in if u \<noteq> [] \<and> last u = CHR ''.'' then u @ ''0'' else u)"
      by (simp only: strip_zeros_append)
    moreover have "?G \<noteq> [] \<Longrightarrow> last ?G \<noteq> CHR ''.''" using dG z(2) last_in_set [of ?G] unfolding list_all_iff by metis
    ultimately show ?thesis by (auto simp: fr_def Let_def)
  qed
  have places: "of_int (digits_int fr) / 10 ^ length fr = (of_int f / 10 ^ 17 :: rat)"
  proof (cases "?G = []")
    case True
    then have "f = 0" using F(3) j digits_int_append [of "[]" j] by (simp add: digits_int_def)
    then show ?thesis using True by (simp add: fr_def digits_int_def)
  next
    case False
    have "f = digits_int ?G * 10 ^ j" using F(3) j digits_int_append by metis
    then have "rat_of_int f = of_int (digits_int ?G) * 10 ^ j" by (metis of_int_mult of_int_numeral of_int_power)
    moreover have "length ?G + j = 17" using F(1) j by (metis length_append length_replicate)
    then have "(10 ^ 17 :: rat) = 10 ^ length ?G * 10 ^ j" by (metis power_add)
    ultimately have "of_int f / 10 ^ 17 = of_int (digits_int ?G) * 10 ^ j / (10 ^ length ?G * 10 ^ j :: rat)"
      by (simp only:)
    then show ?thesis using False by (simp add: fr_def)
  qed
  have "x = of_int k / 10 ^ 17" using x by (simp add: field_simps)
  also have "\<dots> = (if k < 0 then - 1 else 1) * (of_int \<bar>k\<bar> / 10 ^ 17)" by simp
  also have "(of_int \<bar>k\<bar> / 10 ^ 17 :: rat) = of_int n + of_int f / 10 ^ 17" unfolding nf(4) by (simp add: field_simps)
  finally have "x = (if ?s = [] then 1 else - 1) * (of_int n + of_int (digits_int fr) / 10 ^ length fr)"
    unfolding places by (simp split: if_splits)
  moreover have "list_all json_digit fr" "fr \<noteq> []" using dG z(1) by (simp_all add: fr_def)
  ultimately show thesis using nf(1) written by (intro that [of n fr ?s]) auto
qed

lemma parse_number_float:
  assumes "plain_float x" "stops r"
  shows "parse_number (repr_float x @ r) = Some (PFloat x, r)"
proof -
  from assms(1) obtain s n fr where n: "0 \<le> n" and fr: "list_all json_digit fr" "fr \<noteq> []" and s: "s \<in> {''-'', []}"
    and t: "repr_float x = s @ show_digits n @ CHR ''.'' # fr"
    and x: "x = (if s = [] then 1 else - 1) * (of_int n + of_int (digits_int fr) / 10 ^ length fr)"
    by (rule repr_float_text)
  note p = show_digits_props [OF n]
  have dot: "\<not> json_digit CHR ''.''" by code_simp
  have td: "take_digits (show_digits n @ CHR ''.'' # fr @ r) = (show_digits n, CHR ''.'' # fr @ r)"
    using p dot by (auto simp: take_digits_def takeWhile_append list_all_iff dropWhile_append)
  note tf = take_digits_stop [OF fr(1) assms(2)]
  have pf: "parse_frac (CHR ''.'' # fr @ r) = (fr, r)" using tf fr(2) by (simp add: parse_frac_def)
  have h: "hd (show_digits n @ u) \<noteq> CHR ''-''" for u using p json_digit_minus by (cases "show_digits n") auto
  have ip: "(if show_digits n \<noteq> [] \<and> hd (show_digits n) = CHR ''0'' then (''0'', tl (show_digits n) @ u)
      else (show_digits n, u)) = (show_digits n, u)" for u using p by auto
  have nz: "show_digits n \<noteq> []" using p by simp
  show ?thesis
  proof (cases "s = []")
    case True
    with t x td pf h ip nz assms(2) fr(2) p show ?thesis by (simp add: parse_number_def Let_def)
  next
    case False
    with s t x td pf ip nz assms(2) fr(2) p show ?thesis by (simp add: parse_number_def Let_def)
  qed
qed

section \<open>Documents\<close>

text \<open>Documents whose floats are plain, with each key of an object once.\<close>

fun plain :: "pyval \<Rightarrow> bool" where
  "plain (PFloat r) = plain_float r"
| "plain (PList xs) = list_all plain xs"
| "plain (PDict d) = (distinct (map fst d) \<and> list_all (\<lambda>kv. plain (snd kv)) d)"
| "plain v = True"

lemma json_digit_first: "json_digit c \<Longrightarrow>
  \<not> json_space c \<and> c \<notin> {CHR '']'', CHR ''}'', CHR 0x22, CHR ''['', CHR ''{'', CHR ''n'', CHR ''t'', CHR ''f''}"
proof -
  have "list_all (\<lambda>c. \<not> json_digit c) [CHR '' '', CHR 0x09, CHR 0x0A, CHR 0x0D, CHR '']'', CHR ''}'',
      CHR 0x22, CHR ''['', CHR ''{'', CHR ''n'', CHR ''t'', CHR ''f'']" by code_simp
  then show "json_digit c \<Longrightarrow> ?thesis" by (auto simp: json_space_def)
qed

lemma show_int_first:
  "\<exists>c t. show_int i = c # t \<and> \<not> json_space c \<and>
     c \<notin> {CHR '']'', CHR ''}'', CHR 0x22, CHR ''['', CHR ''{'', CHR ''n'', CHR ''t'', CHR ''f''}"
proof (cases "i < 0")
  case True
  then show ?thesis by (simp add: show_int_def json_space_def)
next
  case False
  with show_digits_props [of i] obtain c t where "show_digits i = c # t" "json_digit c"
    by (cases "show_digits i") auto
  with json_digit_first [of c] False show ?thesis by (auto simp: show_int_def)
qed

lemma repr_float_first:
  assumes "plain_float x"
  shows "\<exists>c t. repr_float x = c # t \<and> \<not> json_space c \<and>
    c \<notin> {CHR '']'', CHR ''}'', CHR 0x22, CHR ''['', CHR ''{'', CHR ''n'', CHR ''t'', CHR ''f''}"
proof -
  from assms obtain s n fr where s: "s \<in> {''-'', []}" "repr_float x = s @ show_digits n @ CHR ''.'' # fr" and n: "0 \<le> n"
    by (rule repr_float_text)
  from show_digits_props [OF n] obtain c t where "show_digits n = c # t" "json_digit c"
    by (cases "show_digits n") auto
  with json_digit_first [of c] s show ?thesis by (auto simp: json_space_def)
qed

lemma canonical_first:
  assumes "plain v"
  shows "\<exists>c t. canonical_json v = c # t \<and> \<not> json_space c \<and> c \<noteq> CHR '']'' \<and> c \<noteq> CHR ''}''"
proof (cases v)
  case (PInt i)
  with show_int_first [of i] show ?thesis by auto
next
  case (PBool b)
  then show ?thesis by (cases b) (simp_all add: json_space_def)
next
  case (PFloat x)
  with repr_float_first [of x] assms show ?thesis by auto
qed (use assms in \<open>simp_all add: json_space_def json_string_def\<close>)

lemma skip_ws_Cons [simp]: "\<not> json_space c \<Longrightarrow> skip_ws (c # s) = c # s"
  by (simp add: skip_ws_def)

lemma not_space [simp]: "\<not> json_space CHR '',''" "\<not> json_space CHR '']''" "\<not> json_space CHR ''}''"
  "\<not> json_space CHR '':''" "\<not> json_space CHR 0x22" "\<not> json_space CHR ''['' " "\<not> json_space CHR ''{''"
  by (simp_all add: json_space_def)

lemma stops_simps [simp]: "stops []" "stops (CHR '','' # s)" "stops (CHR '']'' # s)" "stops (CHR ''}'' # s)"
  by (simp_all add: stops_def)

lemma skip_canonical: "plain v \<Longrightarrow> skip_ws (canonical_json v @ r) = canonical_json v @ r"
  using canonical_first [of v] by auto

text \<open>The induction hypothesis of the documents inside a document.\<close>

definition reads_back :: "pyval \<Rightarrow> bool" where
  "reads_back v = (\<forall>n r. length (canonical_json v) < n \<longrightarrow> stops r \<longrightarrow>
     parse_value n (canonical_json v @ r) = Some (canon v, r))"

lemma reads_backD: "reads_back v \<Longrightarrow> length (canonical_json v) < n \<Longrightarrow> stops r \<Longrightarrow>
  parse_value n (canonical_json v @ r) = Some (canon v, r)"
  by (simp add: reads_back_def)

lemma reads_backI:
  "(\<And>m r. stops r \<Longrightarrow> parse_value (Suc m) (canonical_json v @ r) = Some (canon v, r)) \<Longrightarrow> reads_back v"
  unfolding reads_back_def by (metis less_imp_Suc_add)

lemma str_join_Cons: "xs \<noteq> [] \<Longrightarrow> str_join sep (x # xs) = x @ sep @ str_join sep xs"
  by (cases xs) simp_all

lemma items_read_back:
  assumes "xs \<noteq> []" "\<forall>x \<in> set xs. plain x \<and> reads_back x"
    and "length (str_join '','' (map canonical_json xs)) + 1 < n"
  shows "parse_items n acc (str_join '','' (map canonical_json xs) @ CHR '']'' # r) =
    Some (PList (acc @ map canon xs), r)"
  using assms
proof (induction xs arbitrary: n acc)
  case (Cons x xs)
  from Cons.prems obtain m where n: "n = Suc m" by (cases n) auto
  show ?case
  proof (cases "xs = []")
    case True
    with Cons.prems n have "parse_value m (canonical_json x @ CHR '']'' # r) = Some (canon x, CHR '']'' # r)"
      by (simp add: reads_back_def)
    then show ?thesis using True n by simp
  next
    case False
    let ?rest = "str_join '','' (map canonical_json xs) @ CHR '']'' # r"
    have join: "str_join '','' (map canonical_json (x # xs)) @ CHR '']'' # r = canonical_json x @ CHR '','' # ?rest"
      using False by (simp add: str_join_Cons)
    have len: "length (canonical_json x) < m" "length (str_join '','' (map canonical_json xs)) + 1 < m"
      using Cons.prems(3) False n by (simp_all add: str_join_Cons)
    have "parse_value m (canonical_json x @ CHR '','' # ?rest) = Some (canon x, CHR '','' # ?rest)"
      using Cons.prems(2) len(1) by (simp add: reads_back_def)
    moreover have "skip_ws ?rest = ?rest"
    proof -
      obtain y ys where xs: "xs = y # ys" using False by (cases xs) auto
      then have "\<exists>t. ?rest = canonical_json y @ t"
        by (cases ys) auto
      moreover have "plain y" using Cons.prems(2) xs by simp
      ultimately show ?thesis using skip_canonical by metis
    qed
    moreover have "parse_items m (acc @ [canon x]) ?rest = Some (PList ((acc @ [canon x]) @ map canon xs), r)"
      using Cons.IH [OF False _ len(2)] Cons.prems(2) by simp
    ultimately show ?thesis unfolding join n by simp
  qed
qed simp

definition member_text :: "string \<times> pyval \<Rightarrow> string" where
  "member_text kv = json_string (fst kv) @ '':'' @ canonical_json (snd kv)"

lemma dict_set_fresh: "k \<notin> fst ` set d \<Longrightarrow> dict_set k v d = d @ [(k, v)]"
  by (induction d) (auto simp: dict_set_def)

lemma members_read_back:
  assumes "d \<noteq> []" "\<forall>kv \<in> set d. plain (snd kv) \<and> reads_back (snd kv)"
    and "length (str_join '','' (map member_text d)) + 1 < n"
    and "distinct (map fst acc @ map fst d)"
  shows "parse_members n acc (str_join '','' (map member_text d) @ CHR ''}'' # r) =
    Some (PDict (acc @ map (\<lambda>kv. (fst kv, canon (snd kv))) d), r)"
  using assms
proof (induction d arbitrary: n acc)
  case (Cons kv d)
  from Cons.prems obtain m where n: "n = Suc m" by (cases n) auto
  obtain k v where kv: "kv = (k, v)" by (cases kv)
  have fresh: "k \<notin> fst ` set acc" using Cons.prems(4) kv by auto
  have v: "plain v" "reads_back v" using Cons.prems(2) kv by auto
  have mtext: "member_text (k, v) @ s = CHR 0x22 # concat (map json_char k) @ CHR 0x22 # CHR '':'' # canonical_json v @ s" for s
    by (simp add: member_text_def json_string_def)
  have lenv: "length (canonical_json v) < length (member_text kv)"
    by (simp add: member_text_def json_string_def kv)
  show ?case
  proof (cases "d = []")
    case True
    with Cons.prems(3) n lenv have "parse_value m (canonical_json v @ CHR ''}'' # r) = Some (canon v, CHR ''}'' # r)"
      using v by (simp add: reads_back_def)
    then show ?thesis using True n v
      by (simp add: mtext parse_json_string skip_canonical dict_set_fresh [OF fresh] kv)
  next
    case False
    let ?rest = "str_join '','' (map member_text d) @ CHR ''}'' # r"
    have join: "str_join '','' (map member_text (kv # d)) @ CHR ''}'' # r = member_text kv @ CHR '','' # ?rest"
      using False by (simp add: str_join_Cons)
    have len: "length (canonical_json v) < m" "length (str_join '','' (map member_text d)) + 1 < m"
      using Cons.prems(3) False n lenv by (simp_all add: str_join_Cons)
    have "parse_value m (canonical_json v @ CHR '','' # ?rest) = Some (canon v, CHR '','' # ?rest)"
      using v len(1) by (simp add: reads_back_def)
    moreover have "skip_ws ?rest = ?rest"
    proof -
      obtain y ys where "d = y # ys" using False by (cases d) auto
      then have "\<exists>t. ?rest = member_text y @ t" by (cases ys) auto
      then show ?thesis by (auto simp: member_text_def json_string_def)
    qed
    moreover have "parse_members m (acc @ [(k, canon v)]) ?rest =
        Some (PDict ((acc @ [(k, canon v)]) @ map (\<lambda>kv. (fst kv, canon (snd kv))) d), r)"
      using Cons.prems(2,4) kv by (intro Cons.IH [OF False _ len(2)]) auto
    ultimately show ?thesis unfolding join n unfolding kv mtext
      using v by (simp add: parse_json_string skip_canonical dict_set_fresh [OF fresh])
  qed
qed simp

lemma canonical_dict:
  "canonical_json (PDict d) = ''{'' @ str_join '','' (map member_text (sort_key fst d)) @ ''}''"
  by (simp add: sort_key_map comp_def member_text_def [abs_def])

lemma canon_dict_sorted: "canon (PDict d) = PDict (map (\<lambda>kv. (fst kv, canon (snd kv))) (sort_key fst d))"
  by (simp add: sort_key_map comp_def)

lemma int_read_back: "reads_back (PInt i)"
proof (rule reads_backI)
  fix m r assume r: "stops r"
  obtain c t where "show_int i = c # t \<and> \<not> json_space c \<and>
    c \<notin> {CHR '']'', CHR ''}'', CHR 0x22, CHR ''['', CHR ''{'', CHR ''n'', CHR ''t'', CHR ''f''}"
    using show_int_first [of i] by (elim exE)
  then show "parse_value (Suc m) (canonical_json (PInt i) @ r) = Some (canon (PInt i), r)"
    using parse_number_int [OF r, of i] by simp
qed

lemma float_read_back:
  assumes "plain_float x" shows "reads_back (PFloat x)"
proof (rule reads_backI)
  fix m r assume r: "stops r"
  obtain c t where "repr_float x = c # t \<and> \<not> json_space c \<and>
    c \<notin> {CHR '']'', CHR ''}'', CHR 0x22, CHR ''['', CHR ''{'', CHR ''n'', CHR ''t'', CHR ''f''}"
    using repr_float_first [OF assms] by (elim exE)
  then show "parse_value (Suc m) (canonical_json (PFloat x) @ r) = Some (canon (PFloat x), r)"
    using parse_number_float [OF assms r] by simp
qed

lemma bool_read_back: "reads_back (PBool b)"
  by (rule reads_backI, cases b) simp_all

lemma value_read_back: "plain v \<Longrightarrow> reads_back v"
proof (induction v rule: canon.induct)
  case (1 xs)
  show ?case
  proof (cases "xs = []")
    case False
    have each: "\<forall>x \<in> set xs. plain x \<and> reads_back x" using 1 by (auto simp: list_all_iff)
    obtain y ys where xs: "xs = y # ys" using False by (cases xs) auto
    from each xs canonical_first [of y] obtain c t where
      c: "canonical_json y = c # t" "\<not> json_space c" "c \<noteq> CHR '']''" by auto
    show ?thesis unfolding reads_back_def
    proof (intro allI impI)
      fix n r assume len: "length (canonical_json (PList xs)) < n" and "stops r"
      then obtain m where n: "n = Suc m" by (cases n) auto
      have "\<exists>u. str_join '','' (map canonical_json xs) = c # u" using xs c(1) by (cases ys) auto
      then obtain u where u: "str_join '','' (map canonical_json xs) = c # u" by blast
      have "parse_items m [] (str_join '','' (map canonical_json xs) @ CHR '']'' # r) = Some (PList ([] @ map canon xs), r)"
        using len n by (intro items_read_back [OF False each]) simp
      then show "parse_value n (canonical_json (PList xs) @ r) = Some (canon (PList xs), r)"
        using n u c by simp
    qed
  next
    case True
    show ?thesis unfolding True by (rule reads_backI) simp
  qed
next
  case (2 d)
  let ?e = "sort_key fst d"
  have each: "\<forall>kv \<in> set ?e. plain (snd kv) \<and> reads_back (snd kv)" using 2 by (auto simp: list_all_iff)
  show ?case
  proof (cases "d = []")
    case False
    then have e: "?e \<noteq> []" by (metis set_empty set_sort)
    show ?thesis unfolding reads_back_def
    proof (intro allI impI)
      fix n r assume len: "length (canonical_json (PDict d)) < n" and "stops r"
      then obtain m where n: "n = Suc m" by (cases n) auto
      have u: "\<exists>u. str_join '','' (map member_text ?e) = CHR 0x22 # u"
        using e by (cases ?e; cases "tl ?e") (auto simp: member_text_def json_string_def)
      have dist: "distinct (map fst [] @ map fst ?e)"
        using 2(2) by (simp add: distinct_map)
      have "parse_members m [] (str_join '','' (map member_text ?e) @ CHR ''}'' # r) =
          Some (PDict ([] @ map (\<lambda>kv. (fst kv, canon (snd kv))) ?e), r)"
        using len n by (intro members_read_back [OF e each _ dist]) (simp add: canonical_dict del: canonical_json.simps)
      then show "parse_value n (canonical_json (PDict d) @ r) = Some (canon (PDict d), r)"
        unfolding canonical_dict canon_dict_sorted using n u by auto
    qed
  next
    case True
    show ?thesis unfolding True by (rule reads_backI) simp
  qed
next
  case "3_3"
  show ?case by (rule int_read_back)
next
  case "3_1"
  show ?case by (rule reads_backI) simp
next
  case "3_2"
  show ?case by (rule bool_read_back)
next
  case "3_4"
  then show ?case using float_read_back by simp
next
  case "3_5"
  show ?case by (rule reads_backI) (simp add: json_string_def parse_json_string)
qed

section \<open>The round trip\<close>

lemma json_loads_canonical: "plain v \<Longrightarrow> json_loads (canonical_json v) = Some (canon v)"
proof -
  assume v: "plain v"
  have "parse_value (length (canonical_json v) + 1) (canonical_json v @ []) = Some (canon v, [])"
    by (rule reads_backD [OF value_read_back [OF v]]) simp_all
  moreover have "skip_ws (canonical_json v) = canonical_json v" using skip_canonical [OF v, of "[]"] by simp
  moreover have "skip_ws [] = []" by (simp add: skip_ws_def)
  ultimately show ?thesis unfolding json_loads_def append_Nil2 by (simp del: parse_value.simps)
qed

text \<open>C22: A document read back from its canonical text is the document with the keys of every object
  in order, for documents in which no object repeats a key and every float is zero, or lies between
  \<open>1e-4\<close> and \<open>1e16\<close> in magnitude and has at most seventeen decimal places; so two such documents
  with the same canonical text are the same up to the order of keys.\<close>

theorem canonical_json_roundtrip:
  assumes "plain v" "plain w"
  shows "json_loads (canonical_json v) = Some (canon v) \<and>
    (canonical_json v = canonical_json w \<longrightarrow> canon v = canon w)"
  using json_loads_canonical [OF assms(1)] json_loads_canonical [OF assms(2)] by auto

theorem canonical_json_roundtrip_witness:
  "json_loads (canonical_json (PDict [(''b'', PList [PInt (- 7), PFloat (- 1 / 8)]), (''a'', PStr [CHR 0x0A, CHR 0x22])])) =
   Some (PDict [(''a'', PStr [CHR 0x0A, CHR 0x22]), (''b'', PList [PInt (- 7), PFloat (- 1 / 8)])])"
proof -
  let ?v = "PDict [(''b'', PList [PInt (- 7), PFloat (- 1 / 8)]), (''a'', PStr [CHR 0x0A, CHR 0x22])]"
  have "plain ?v" by (simp add: plain_float_def)
  moreover have "canon ?v = PDict [(''a'', PStr [CHR 0x0A, CHR 0x22]), (''b'', PList [PInt (- 7), PFloat (- 1 / 8)])]"
    by code_simp
  ultimately show ?thesis using canonical_json_roundtrip [of ?v ?v] by simp
qed

end
