(* ===== verification/Normalise.thy ===== *)
theory Normalise
  imports World Timestamps
begin

text \<open>
  \<open>src/elcapitan/finding.py\<close>: the identity of a scanner's OCSF finding and its normalised record.
  A raw finding is a dictionary; everything in it may have any type, so that each \<open>.get\<close> of a
  nested value may raise \<open>AttributeError\<close>.
\<close>

section \<open>Reading the raw finding\<close>

type_synonym raw_finding = "(string, pyval) dict"

definition ocsf_severity :: "(int, string) dict" where
  "ocsf_severity = [(0, ''Unknown''), (1, ''Informational''), (2, ''Low''), (3, ''Medium''),
                    (4, ''High''), (5, ''Critical''), (6, ''Fatal'')]"

definition prowler_outcomes :: "string list" where
  "prowler_outcomes = [''FAIL'', ''PASS'', ''MANUAL'']"

definition product_name :: "raw_finding \<Rightarrow> string res" where
  "product_name raw =
     bindE (dict_get_attr (or_dict (pget raw ''metadata'')) ''product'' PNone) (\<lambda>product.
     bindE (dict_get_attr (or_dict product) ''name'' (PStr '''')) (\<lambda>name.
     Inr (as_str name)))"

definition finding_rule_id :: "raw_finding \<Rightarrow> string res" where
  "finding_rule_id raw =
     bindE (dict_get_attr (or_dict (pget raw ''finding_info'')) ''analytic'' PNone) (\<lambda>analytic.
     bindE (dict_get_attr (or_dict analytic) ''uid'' PNone) (\<lambda>uid.
     if truthy uid then Inr (py_str uid)
     else bindE (dict_get_attr (or_dict (pget raw ''metadata'')) ''event_code'' PNone) (\<lambda>code.
       if truthy code then Inr (py_str code)
       else bindE (dict_get_attr (or_dict (pget raw ''unmapped'')) ''prowler_check_id'' PNone)
         (\<lambda>check. Inr (if truthy check then py_str check else '''')))))"

definition from_prowler :: "raw_finding \<Rightarrow> bool res" where
  "from_prowler raw = bindE (product_name raw) (\<lambda>name. Inr (str_lower (str_strip name) = ''prowler''))"

definition prowler_outcome :: "raw_finding \<Rightarrow> string option res" where
  "prowler_outcome raw =
     bindE (from_prowler raw) (\<lambda>prowler.
     if \<not> prowler then Inr None
     else let outcome = str_upper (str_strip (as_str (pget raw ''status_code'')))
          in bindE (guardE (outcome \<in> set prowler_outcomes) ValueError
                      ''Prowler OCSF finding must have status_code FAIL, PASS, or MANUAL'')
               (\<lambda>_. Inr (Some outcome)))"

definition severity_of :: "raw_finding \<Rightarrow> string" where
  "severity_of raw =
     (let severity = pget raw ''severity''
      in if is_name severity then as_str severity
         else case pget raw ''severity_id'' of
                PInt i \<Rightarrow> (case dict_get ocsf_severity i of
                             Some name \<Rightarrow> name | None \<Rightarrow> ''severity_id='' @ show_int i)
              | _ \<Rightarrow> '''')"

text \<open>
  \<open>fromtimestamp\<close> rounds to the microsecond, ties to even; \<open>strftime\<close> drops the fraction. An
  instant outside the years 1 to 9999 is no text.
\<close>

definition unix_epoch :: int where
  "unix_epoch = 719162 * 86400 * 1000000"

definition epoch_text :: "rat \<Rightarrow> string" where
  "epoch_text seconds =
     (case utc_text (unix_epoch + round_half_even (seconds * 1000000)) of Inr s \<Rightarrow> s | Inl e \<Rightarrow> '''')"

fun epoch_number :: "pyval \<Rightarrow> rat option" where
  "epoch_number (PInt i) = Some (of_int i)"
| "epoch_number (PFloat x) = Some x"
| "epoch_number v = None"

definition observed_at :: "raw_finding \<Rightarrow> string" where
  "observed_at raw =
     (let time_dt = pget raw ''time_dt''
      in if is_name time_dt then as_str time_dt
         else case epoch_number (pget raw ''time'') of
                None \<Rightarrow> ''''
              | Some epoch \<Rightarrow> epoch_text (if 100000000000 < epoch then epoch / 1000 else epoch))"

section \<open>Identity\<close>

text \<open>\<open>v[0]\<close> of a value that is truthy.\<close>

fun first_of :: "pyval \<Rightarrow> pyval res" where
  "first_of (PList (x # xs)) = Inr x"
| "first_of (PList []) = Inl (Raise IndexError ''list index out of range'')"
| "first_of (PStr (c # cs)) = Inr (PStr [c])"
| "first_of (PStr []) = Inl (Raise IndexError ''string index out of range'')"
| "first_of (PDict d) = Inl (Raise KeyError ''0'')"
| "first_of v = Inl (Raise TypeError ''object is not subscriptable'')"

definition resources_of :: "raw_finding \<Rightarrow> pyval" where
  "resources_of raw =
     (let resources = pget raw ''resources'' in if truthy resources then resources else PList [PDict []])"

text \<open>Provider, resource id (of any type) and region.\<close>

definition cloud_target :: "raw_finding \<Rightarrow> (string \<times> pyval \<times> string) res" where
  "cloud_target raw =
     (let cloud = or_dict (pget raw ''cloud'')
      in bindE (first_of (resources_of raw)) (\<lambda>first.
         let primary = dict_items first
         in bindE (dict_get_attr cloud ''region'' (PStr '''')) (\<lambda>region.
            bindE (dict_get_attr cloud ''provider'' (PStr '''')) (\<lambda>provider.
            Inr (str_lower (as_str provider), get_or primary ''uid'' (PStr ''''),
                 (if region = PNone then '''' else py_str region))))))"

definition missing_names :: "(string \<times> pyval) list \<Rightarrow> string list" where
  "missing_names values = map fst (filter (\<lambda>nv. \<not> is_name (snd nv)) values)"

definition raw_uid_of :: "raw_finding \<Rightarrow> pyval res" where
  "raw_uid_of raw = dict_get_attr (or_dict (pget raw ''finding_info'')) ''uid'' (PStr '''')"

definition scoped_identity :: "string \<Rightarrow> string \<Rightarrow> string \<Rightarrow> pyval" where
  "scoped_identity uid rule_id resource_uid = PDict
     [(''uid'', PStr uid), (''rule_id'', PStr rule_id), (''resource_uid'', PStr resource_uid)]"

text \<open>Provider, account and source key; \<open>env_sha256\<close> is \<open>hashlib.sha256(\<dots>).hexdigest()\<close>.\<close>

definition source_identity :: "env \<Rightarrow> raw_finding \<Rightarrow> (string \<times> string \<times> string) res" where
  "source_identity env raw =
     bindE (cloud_target raw) (\<lambda>(provider, resource_uid, _).
     bindE (dict_get_attr (or_dict (pget raw ''cloud'')) ''account'' PNone) (\<lambda>account.
     bindE (raw_uid_of raw) (\<lambda>original_uid.
     bindE (dict_get_attr (or_dict account) ''uid'' (PStr '''')) (\<lambda>account_uid.
     let missing = missing_names [(''provider'', PStr provider), (''account'', account_uid),
                                  (''original_uid'', original_uid)]
     in bindE (guardE (missing = []) ValueError
                 (''OCSF finding has no stable source identity: missing '' @ str_join '', '' missing))
          (\<lambda>_.
        bindE (from_prowler raw) (\<lambda>prowler.
        if \<not> prowler then Inr (provider, as_str account_uid, as_str original_uid)
        else bindE (finding_rule_id raw) (\<lambda>rule_id.
          let missing = missing_names [(''uid'', original_uid), (''rule_id'', PStr rule_id),
                                       (''resource_uid'', resource_uid)]
          in bindE (guardE (missing = []) ValueError
                      (''Prowler OCSF finding has no collision-safe source identity: missing ''
                       @ str_join '', '' missing)) (\<lambda>_.
             Inr (provider, as_str account_uid,
                  ''prowler:'' @ env_sha256 env (canonical_json
                    (scoped_identity (as_str original_uid) rule_id (as_str resource_uid))))))))))))"

section \<open>The normalised record\<close>

text \<open>
  \<open>dict(v)\<close>: a copy of a dictionary, or the dictionary of a sequence of pairs (keys that are not
  text cannot be represented; they raise \<open>TypeError\<close> here).
\<close>

definition pair_of :: "pyval \<Rightarrow> (string \<times> pyval) res" where
  "pair_of v = (case v of
       PList [PStr k, x] \<Rightarrow> Inr (k, x)
     | PStr [a, b] \<Rightarrow> Inr ([a], PStr [b])
     | PDict [(k, x), (k', x')] \<Rightarrow> Inr (k, PStr k')
     | PList [k, x] \<Rightarrow> Inl (Raise TypeError ''key is not text'')
     | PList xs \<Rightarrow> Inl (Raise ValueError ''dictionary update sequence element has a wrong length'')
     | PStr s \<Rightarrow> Inl (Raise ValueError ''dictionary update sequence element has a wrong length'')
     | PDict d \<Rightarrow> Inl (Raise ValueError ''dictionary update sequence element has a wrong length'')
     | _ \<Rightarrow> Inl (Raise TypeError ''cannot convert dictionary update sequence element to a sequence''))"

definition dict_of_value :: "pyval \<Rightarrow> (string, pyval) dict res" where
  "dict_of_value v = (case v of
       PDict d \<Rightarrow> Inr d
     | PList xs \<Rightarrow> bindE (mapE pair_of xs) (\<lambda>kvs. Inr (dict_update [] kvs))
     | PStr [] \<Rightarrow> Inr []
     | PStr s \<Rightarrow> Inl (Raise ValueError ''dictionary update sequence element has a wrong length'')
     | _ \<Rightarrow> Inl (Raise TypeError ''object is not iterable''))"

text \<open>The document, after the raw event was written as evidence \<open>raw_ref\<close>.\<close>

definition normalised_record ::
  "raw_finding \<Rightarrow> string \<Rightarrow> pyval \<Rightarrow> pyval \<Rightarrow> pyval \<Rightarrow> pyval \<Rightarrow> pyval \<Rightarrow> string \<Rightarrow> pyval \<Rightarrow> string \<Rightarrow>
   evidence_ref \<Rightarrow> (string, pyval) dict res" where
  "normalised_record raw finding_id metadata product finding_info cloud primary provider
       resource_uid region raw_ref =
     bindE (dict_get_attr metadata ''version'' (PStr '''')) (\<lambda>version.
     bindE (fld raw ''class_uid'') (\<lambda>class_uid.
     bindE (dict_get_attr finding_info ''uid'' (PStr '''')) (\<lambda>original_uid.
     bindE (dict_get_attr finding_info ''title'' (PStr '''')) (\<lambda>title.
     bindE (finding_rule_id raw) (\<lambda>rule_id.
     bindE (dict_get_attr product ''name'' (PStr '''')) (\<lambda>name.
     bindE (dict_get_attr product ''version'' (PStr '''')) (\<lambda>product_version.
     bindE (dict_get_attr cloud ''account'' (PDict [])) (\<lambda>account.
     bindE (dict_get_attr account ''uid'' (PStr '''')) (\<lambda>account_uid.
     bindE (dict_get_attr primary ''type'' (PStr '''')) (\<lambda>type.
     bindE (dict_of_value (get_or raw ''unmapped'' (PDict []))) (\<lambda>unmapped.
     Inr [(''finding_id'', PStr finding_id),
          (''ocsf'', PDict [(''version'', version), (''class_uid'', class_uid),
             (''original_uid'', original_uid), (''title'', title), (''rule_id'', PStr rule_id)]),
          (''provenance'', PDict [(''product'', name), (''product_version'', product_version),
             (''provider'', PStr provider), (''account'', account_uid), (''region'', PStr region),
             (''observed_at'', PStr (observed_at raw))]),
          (''resource'', PDict [(''uid'', resource_uid), (''type'', type)]),
          (''severity'', PStr (severity_of raw)),
          (''raw_event'', evidence_ref_to_dict raw_ref),
          (''vendor_extensions'', PDict unmapped)])))))))))))"

definition normalise_ocsf ::
  "env \<Rightarrow> raw_finding \<Rightarrow> string \<Rightarrow> string \<Rightarrow> collector \<Rightarrow> string \<Rightarrow>
   ('x world, (string, pyval) dict) prog" where
  "normalise_ocsf env raw run_dir finding_id collector now =
     bindM (guardM (dict_has raw ''class_uid'') ValueError
              ''input is not an OCSF finding: missing class_uid'') (\<lambda>_.
     let metadata = get_or raw ''metadata'' (PDict []);
         finding_info = get_or raw ''finding_info'' (PDict []);
         cloud = get_or raw ''cloud'' (PDict [])
     in bindM (liftE (dict_get_attr metadata ''product'' (PDict []))) (\<lambda>product.
        bindM (liftE (first_of (resources_of raw))) (\<lambda>primary.
        bindM (liftE (cloud_target raw)) (\<lambda>(provider, resource_uid, region).
        bindM (write_evidence env run_dir ''EVD-001'' ''scanner_raw_event''
                 (canonical_json (PDict raw)) collector ''internal'' ''CMD-000'' now) (\<lambda>raw_ref.
        liftE (normalised_record raw finding_id metadata product finding_info cloud primary
                 provider resource_uid region raw_ref))))))"

end
