(* ===== verification/Intake.thy ===== *)
theory Intake
  imports Normalise
begin

text \<open>
  \<open>src/elcapitan/intake.py\<close>: a scanner's finding is normalised, stored once, attached to the one
  active case of its asset, and the case is prioritised. Intake workers run side by side on the
  same stores: what the others do between two calls of this one is the parameter
  \<open>ie_others\<close>, applied before each call of a store. \<open>validate_doc\<close>, the JSON schema library, is a
  parameter too.
\<close>

section \<open>Context and outcome\<close>

record intake_context =
  ic_asset_criticality :: rat
  ic_exploit_probability :: rat
  ic_internet_exposed :: "bool option"
  ic_reachable :: bool
  ic_known_exploited :: bool
  ic_active_exploitation :: bool
  ic_runtime_dependency :: bool
  ic_compensating_control_strength :: rat
  ic_service_ids :: "string list"

definition default_intake_context :: intake_context where
  "default_intake_context = \<lparr> ic_asset_criticality = 0, ic_exploit_probability = 0,
     ic_internet_exposed = None, ic_reachable = False, ic_known_exploited = False,
     ic_active_exploitation = False, ic_runtime_dependency = False,
     ic_compensating_control_strength = 0, ic_service_ids = [] \<rparr>"

record intake_outcome =
  io_finding :: stored_finding
  io_case :: remediation_case
  io_duplicate :: bool
  io_case_created :: bool
  io_finding_attached :: bool
  io_priority_changed :: bool

record 'x intake =
  ie_env :: env
  ie_others :: "nat \<Rightarrow> 'x world \<Rightarrow> 'x world"
  ie_validate_doc :: "string \<Rightarrow> pyval \<Rightarrow> string list"
  ie_artifact_root :: string
  ie_collector :: collector

section \<open>Helpers\<close>

definition canonical_asset_id :: "string \<Rightarrow> string \<Rightarrow> string \<Rightarrow> string res" where
  "canonical_asset_id provider account resource_uid =
     bindE (guardE (provider \<noteq> [] \<and> account \<noteq> [] \<and> resource_uid \<noteq> []) ValueError
              ''canonical asset id requires provider, account, and resource uid'') (\<lambda>_.
     Inr (provider @ '':'' @ account @ '':'' @ resource_uid))"

definition category_text :: "pyval \<Rightarrow> string" where
  "category_text v = map (\<lambda>c. if c = CHR ''_'' then CHR ''-'' else c) (str_lower (py_str v))"

definition inferred_exposure :: "(string, pyval) dict \<Rightarrow> bool res" where
  "inferred_exposure rec =
     bindE (dict_get_attr (or_dict (pget rec ''vendor_extensions'')) ''categories'' PNone) (\<lambda>value.
     let categories = (if truthy value then value else PList []);
         categories = (if is_str categories then PList [categories] else categories)
     in bindE (iterate_value categories) (\<lambda>xs.
        Inr (list_ex (\<lambda>v. category_text v = ''internet-exposed'') xs)))"

definition signals_of_record ::
  "(string, pyval) dict \<Rightarrow> intake_context \<Rightarrow> priority_signals res" where
  "signals_of_record rec ctx =
     bindE (inferred_exposure rec) (\<lambda>inferred.
     bindE (fld rec ''raw_event'') (\<lambda>raw_event.
     bindE (fld (dict_items raw_event) ''evidence_id'') (\<lambda>evidence_id.
     let severity = as_str (pget rec ''severity'')
     in mk_priority_signals
          \<lparr> ps_severity = (if severity \<noteq> [] then severity else ''unknown''),
            ps_asset_criticality = ic_asset_criticality ctx,
            ps_exploit_probability = ic_exploit_probability ctx,
            ps_internet_exposed = (case ic_internet_exposed ctx of None \<Rightarrow> inferred | Some b \<Rightarrow> b),
            ps_reachable = ic_reachable ctx, ps_known_exploited = ic_known_exploited ctx,
            ps_active_exploitation = ic_active_exploitation ctx,
            ps_runtime_dependency = ic_runtime_dependency ctx,
            ps_compensating_control_strength = ic_compensating_control_strength ctx,
            ps_evidence_ids = [as_str evidence_id] \<rparr>)))"

definition merge_priority :: "string \<Rightarrow> risk_assessment \<Rightarrow> risk_assessment \<Rightarrow> risk_assessment res" where
  "merge_priority assessment_id current incoming =
     (let winner = (if ra_score current < ra_score incoming then incoming else current)
      in mk_risk_assessment (winner\<lparr>ra_assessment_id := assessment_id\<rparr>))"

section \<open>Stores shared with other workers\<close>

definition shared :: "'x intake \<Rightarrow> ('x world, 'a) prog \<Rightarrow> ('x world, 'a) prog" where
  "shared ie m w = m ((ie_others ie (wd_tick w) w)\<lparr>wd_tick := wd_tick w + 1\<rparr>)"

definition shared_cases :: "'x intake \<Rightarrow> 'x world case_store_ops" where
  "shared_cases ie = \<lparr> cs_create = (\<lambda>c. shared ie (on_cases (cs_create sql_ops c))),
     cs_get = (\<lambda>i. shared ie (on_cases (cs_get sql_ops i))),
     cs_append = (\<lambda>c e v. shared ie (on_cases (cs_append sql_ops c e v))),
     cs_events = (\<lambda>i. shared ie (on_cases (cs_events sql_ops i))),
     cs_find_active = (\<lambda>t a. shared ie (on_cases (cs_find_active sql_ops t a))),
     cs_list = (\<lambda>t. shared ie (on_cases (cs_list sql_ops t))) \<rparr>"

definition shared_by_source ::
  "'x intake \<Rightarrow> string \<Rightarrow> string \<Rightarrow> string \<Rightarrow> string \<Rightarrow> ('x world, stored_finding option) prog" where
  "shared_by_source ie tenant_id provider account uid =
     shared ie (on_findings (fs_get_by_source sql_finding_ops tenant_id provider account uid))"

section \<open>Storing the finding\<close>

definition under_dir :: "string \<Rightarrow> string \<Rightarrow> bool" where
  "under_dir dir path = (take (length dir + 1) path = dir @ ''/'')"

definition make_dir :: "string \<Rightarrow> ('x world, unit) prog" where
  "make_dir dir =
     bindM (getsM wd_files) (\<lambda>files.
     guardM (\<not> list_ex (\<lambda>f. under_dir dir (fst f)) files) FileExistsError (''File exists: '' @ dir))"

definition remove_tree :: "string \<Rightarrow> ('x world, unit) prog" where
  "remove_tree dir = modifyM (\<lambda>w. w\<lparr>wd_files := filter (\<lambda>f. \<not> under_dir dir (fst f)) (wd_files w)\<rparr>)"

text \<open>
  The record with the caller's asset context. (The schema admits only text as the resource id; a
  record whose id is not text is refused here, should \<open>validate_doc\<close> let it pass.)
\<close>

definition with_asset_context ::
  "(string, pyval) dict \<Rightarrow> (string, pyval) dict option \<Rightarrow> (string, pyval) dict" where
  "with_asset_context rec asset_context =
     (case asset_context of
        None \<Rightarrow> rec
      | Some a \<Rightarrow> dict_set ''vendor_extensions''
          (PDict (dict_set ''elcapitan_asset_context'' (PDict a)
                    (dict_items (pget rec ''vendor_extensions'')))) rec)"

definition store_finding ::
  "'x intake \<Rightarrow> raw_finding \<Rightarrow> string \<Rightarrow> string \<Rightarrow> string \<Rightarrow> string \<Rightarrow> intake_context \<Rightarrow>
   (string, pyval) dict option \<Rightarrow> ('x world, stored_finding \<times> bool) prog" where
  "store_finding ie raw tenant_id provider account original_uid ctx asset_context =
     bindM (new_id (ie_env ie) ''FIND'') (\<lambda>finding_id.
     let namespace = ''findings/'' @ finding_id;
         run_dir = ie_artifact_root ie @ ''/'' @ namespace
     in bindM (make_dir run_dir) (\<lambda>_.
        bindM (clock_now (ie_env ie)) (\<lambda>now.
        bindM (normalise_ocsf (ie_env ie) raw run_dir finding_id (ie_collector ie) now) (\<lambda>rec.
        let rec = with_asset_context rec asset_context;
            failures = ie_validate_doc ie ''finding-record'' (PDict rec)
        in bindM (guardM (failures = []) ValueError
                    (''normalized finding is invalid: '' @ str_join ''; '' failures)) (\<lambda>_.
           bindM (liftE (cloud_target raw)) (\<lambda>(_, resource_uid, _).
           bindM (liftE (need_str resource_uid)) (\<lambda>resource_uid.
           bindM (liftE (signals_of_record rec ctx)) (\<lambda>signals.
           let finding = \<lparr> sf_tenant_id = tenant_id, sf_finding_id = finding_id,
                 sf_provider = provider, sf_account = account, sf_original_uid = original_uid,
                 sf_resource_uid = resource_uid, sf_record = PDict rec,
                 sf_priority_signals = signals, sf_artifact_namespace = namespace,
                 sf_case_id = None \<rparr>
           in tryM
                (bindM (shared ie (on_findings (fs_put sql_finding_ops finding))) (\<lambda>_.
                 ret (finding, True)))
                [DuplicateFinding]
                (\<lambda>e.
                 bindM (remove_tree run_dir) (\<lambda>_.
                 bindM (shared_by_source ie tenant_id provider account original_uid) (\<lambda>winner.
                 case winner of None \<Rightarrow> liftE (Inl e) | Some f \<Rightarrow> ret (f, False))))))))))))"

section \<open>Attaching and prioritising\<close>

definition attach_finding ::
  "'x intake \<Rightarrow> string \<Rightarrow> stored_finding \<Rightarrow> remediation_case \<Rightarrow> ('x world, remediation_case) prog" where
  "attach_finding ie now f current =
     bindM (new_id (ie_env ie) ''EVT'') (\<lambda>event_id.
     workflow_advance (shared_cases ie) (rc_case_id current) ADD_FINDING
       ((basic_args event_id now ''intake'' [(''finding_id'', sf_finding_id f)]
           (ps_evidence_ids (sf_priority_signals f)))
        \<lparr>ta_new_finding_ids := [sf_finding_id f]\<rparr>))"

text \<open>The case and whether the finding was attached now.\<close>

definition attach_if_missing ::
  "'x intake \<Rightarrow> string \<Rightarrow> stored_finding \<Rightarrow> remediation_case \<Rightarrow>
   ('x world, remediation_case \<times> bool) prog" where
  "attach_if_missing ie now f current =
     (if sf_finding_id f \<notin> set (rc_finding_ids current)
      then bindM (attach_finding ie now f current) (\<lambda>c. ret (c, True))
      else ret (current, False))"

definition priority_args :: "string \<Rightarrow> string \<Rightarrow> risk_assessment \<Rightarrow> transition_args" where
  "priority_args event_id now r =
     (basic_args event_id now ''priority-policy'' [(''risk_assessment_id'', ra_assessment_id r)]
        (ra_evidence_ids r))\<lparr>ta_priority := Some r\<rparr>"

text \<open>The case and whether its priority changed.\<close>

definition prioritise ::
  "'x intake \<Rightarrow> string \<Rightarrow> risk_assessment \<Rightarrow> remediation_case \<Rightarrow>
   ('x world, remediation_case \<times> bool) prog" where
  "prioritise ie now incoming current =
     (if rc_state current = OPEN then
        bindM (new_id (ie_env ie) ''EVT'') (\<lambda>event_id.
        bindM (workflow_advance (shared_cases ie) (rc_case_id current) PRIORITIZE
                 (priority_args event_id now incoming)) (\<lambda>c. ret (c, True)))
      else if (case rc_priority current of None \<Rightarrow> True | Some r \<Rightarrow> ra_score r < ra_score incoming) then
        bindM (case rc_priority current of
                 None \<Rightarrow> ret incoming
               | Some r \<Rightarrow> bindM (new_id (ie_env ie) ''RISK'') (\<lambda>i. liftE (merge_priority i r incoming)))
          (\<lambda>merged.
        bindM (new_id (ie_env ie) ''EVT'') (\<lambda>event_id.
        bindM (workflow_advance (shared_cases ie) (rc_case_id current) REPRIORITIZE
                 (priority_args event_id now merged)) (\<lambda>c. ret (c, True))))
      else ret (current, False))"

text \<open>
  \<open>for attempt in range(3)\<close>: the argument counts the attempts that are left after this one. What
  an attempt did before \<open>ConcurrentCaseUpdate\<close> stays done; the next one starts from the case as
  it is then.
\<close>

definition attempt_once ::
  "nat \<Rightarrow> ('x world, 'a) prog \<Rightarrow> ('x world, 'a option) prog" where
  "attempt_once left m =
     tryM (bindM m (\<lambda>x. ret (Some x))) [ConcurrentCaseUpdate]
       (\<lambda>e. if left = 0 then liftE (Inl e) else ret None)"

fun intake_attempts ::
  "'x intake \<Rightarrow> string \<Rightarrow> stored_finding \<Rightarrow> risk_assessment \<Rightarrow> nat \<Rightarrow> remediation_case \<Rightarrow> bool \<Rightarrow>
   ('x world, remediation_case \<times> bool \<times> bool) prog" where
  "intake_attempts ie now f incoming left current attached =
     (let again = bindM (cs_get (shared_cases ie) (rc_case_id current)) in
      bindM (attempt_once left (attach_if_missing ie now f current)) (\<lambda>r.
      case r of
        None \<Rightarrow> (case left of 0 \<Rightarrow> raise RuntimeError ''unreachable''
                 | Suc n \<Rightarrow> again (\<lambda>c. intake_attempts ie now f incoming n c attached))
      | Some (c1, now_attached) \<Rightarrow>
          bindM (attempt_once left (prioritise ie now incoming c1)) (\<lambda>r.
          case r of
            None \<Rightarrow> (case left of 0 \<Rightarrow> raise RuntimeError ''unreachable''
                     | Suc n \<Rightarrow> again (\<lambda>c. intake_attempts ie now f incoming n c (attached \<or> now_attached)))
          | Some (c2, changed) \<Rightarrow> ret (c2, attached \<or> now_attached, changed))))"

declare intake_attempts.simps [simp del]

text \<open>The case of the asset: the active one, or a new one; another worker may win the race.\<close>

definition open_or_join ::
  "'x intake \<Rightarrow> string \<Rightarrow> string \<Rightarrow> intake_context \<Rightarrow> stored_finding \<Rightarrow> string \<Rightarrow>
   ('x world, remediation_case \<times> bool \<times> bool) prog" where
  "open_or_join ie tenant_id now ctx f asset_id =
     tryM
       (bindM (new_id (ie_env ie) ''CASE'') (\<lambda>case_id.
        bindM (workflow_open (shared_cases ie)
                 \<lparr> oa_case_id = case_id, oa_tenant_id = tenant_id,
                   oa_finding_ids = [sf_finding_id f], oa_asset_ids = [asset_id],
                   oa_service_ids = ic_service_ids ctx, oa_now = now \<rparr>) (\<lambda>c.
        ret (c, True, False))))
       [ConcurrentCaseUpdate]
       (\<lambda>e.
        bindM (cs_find_active (shared_cases ie) tenant_id asset_id) (\<lambda>found.
        case found of
          None \<Rightarrow> liftE (Inl e)
        | Some c \<Rightarrow> bindM (attach_if_missing ie now f c) (\<lambda>(c, attached). ret (c, False, attached))))"

section \<open>Ingesting a finding\<close>

text \<open>A row of an earlier deployment, keyed by the raw id, if it is this rule on this resource.\<close>

definition legacy_match :: "raw_finding \<Rightarrow> stored_finding \<Rightarrow> bool res" where
  "legacy_match raw legacy =
     bindE (cloud_target raw) (\<lambda>(_, resource_uid, _).
     bindE (dict_get_attr (sf_record legacy) ''ocsf'' (PDict [])) (\<lambda>ocsf.
     bindE (dict_get_attr ocsf ''rule_id'' (PStr '''')) (\<lambda>rule.
     bindE (finding_rule_id raw) (\<lambda>rule_id.
     Inr (PStr (sf_resource_uid legacy) = resource_uid \<and> py_str rule = rule_id)))))"

definition find_existing ::
  "'x intake \<Rightarrow> raw_finding \<Rightarrow> string \<Rightarrow> string \<Rightarrow> string \<Rightarrow> string \<Rightarrow>
   ('x world, stored_finding option) prog" where
  "find_existing ie raw tenant_id provider account original_uid =
     bindM (shared_by_source ie tenant_id provider account original_uid) (\<lambda>existing.
     bindM (liftE (raw_uid_of raw)) (\<lambda>raw_uid.
     if existing = None \<and> PStr original_uid \<noteq> raw_uid \<and> truthy raw_uid then
       bindM (shared_by_source ie tenant_id provider account (as_str raw_uid)) (\<lambda>legacy.
       case legacy of
         None \<Rightarrow> ret None
       | Some l \<Rightarrow> bindM (liftE (legacy_match raw l)) (\<lambda>same. ret (if same then Some l else None)))
     else ret existing))"

definition attach_and_prioritise ::
  "'x intake \<Rightarrow> string \<Rightarrow> intake_context \<Rightarrow> stored_finding \<Rightarrow> bool \<Rightarrow> ('x world, intake_outcome) prog" where
  "attach_and_prioritise ie tenant_id ctx f created =
     bindM (liftE (canonical_asset_id (sf_provider f) (sf_account f) (sf_resource_uid f))) (\<lambda>asset_id.
     bindM (cs_find_active (shared_cases ie) tenant_id asset_id) (\<lambda>found.
     bindM (clock_now (ie_env ie)) (\<lambda>now.
     bindM (new_id (ie_env ie) ''RISK'') (\<lambda>risk_id.
     bindM (liftE (assess_priority risk_id (sf_priority_signals f) default_priority_policy)) (\<lambda>incoming.
     bindM (case found of
              Some c \<Rightarrow> ret (c, False, False)
            | None \<Rightarrow> open_or_join ie tenant_id now ctx f asset_id) (\<lambda>(current, case_created, attached).
     bindM (intake_attempts ie now f incoming 2 current attached) (\<lambda>(current, attached, changed).
     bindM (shared ie (on_findings (fs_assign_case sql_finding_ops (sf_finding_id f) (rc_case_id current))))
       (\<lambda>f'.
     ret \<lparr> io_finding = f', io_case = current, io_duplicate = (\<not> created),
           io_case_created = case_created, io_finding_attached = attached,
           io_priority_changed = changed \<rparr>))))))))"

definition ingest ::
  "'x intake \<Rightarrow> raw_finding \<Rightarrow> string \<Rightarrow> intake_context \<Rightarrow> (string, pyval) dict option \<Rightarrow>
   ('x world, intake_outcome) prog" where
  "ingest ie raw tenant_id ctx asset_context =
     bindM (guardM (tenant_id \<noteq> []) ValueError ''tenant_id is required'') (\<lambda>_.
     bindM (liftE (prowler_outcome raw)) (\<lambda>outcome.
     bindM (guardM (outcome = None \<or> outcome = Some ''FAIL'') ValueError
              (''Prowler '' @ (case outcome of None \<Rightarrow> '''' | Some s \<Rightarrow> s)
               @ '' records are not actionable findings'')) (\<lambda>_.
     bindM (liftE (source_identity (ie_env ie) raw)) (\<lambda>(provider, account, original_uid).
     bindM (find_existing ie raw tenant_id provider account original_uid) (\<lambda>existing.
     case existing of
       None \<Rightarrow>
         bindM (store_finding ie raw tenant_id provider account original_uid ctx asset_context)
           (\<lambda>(f, created). attach_and_prioritise ie tenant_id ctx f created)
     | Some f \<Rightarrow>
         (case sf_case_id f of
            Some (c # cs) \<Rightarrow>
              bindM (cs_get (shared_cases ie) (c # cs)) (\<lambda>current.
              ret \<lparr> io_finding = f, io_case = current, io_duplicate = True,
                    io_case_created = False, io_finding_attached = False,
                    io_priority_changed = False \<rparr>)
          | _ \<Rightarrow> attach_and_prioritise ie tenant_id ctx f False))))))"

end
