(* ===== verification/Case_Logs.thy ===== *)
theory Case_Logs
  imports World Frames
begin

text \<open>
  What calls of the coordinator do to the SQLite case store over time: the log of a case only ever
  grows, by events that its transitions recorded. Services are framed by this relation.
\<close>

section \<open>Logs that only grow\<close>

definition logs_extend :: "sql_cases \<Rightarrow> sql_cases \<Rightarrow> bool" where
  "logs_extend db db' = (\<forall>i c es. sql_view db i = Some (c, es) \<longrightarrow>
     (\<exists>c' fs. sql_view db' i = Some (c', es @ fs) \<and> case_steps c fs c'))"

lemma logs_extend_refl [simp]: "logs_extend db db"
  unfolding logs_extend_def by (metis append_Nil2 case_steps.none)

lemma logs_extendD:
  "logs_extend db db' \<Longrightarrow> sql_view db i = Some (c, es) \<Longrightarrow>
     \<exists>c' fs. sql_view db' i = Some (c', es @ fs) \<and> case_steps c fs c'"
  unfolding logs_extend_def by blast

lemma logs_extend_trans:
  assumes "logs_extend a b" "logs_extend b c" shows "logs_extend a c"
  unfolding logs_extend_def
proof (intro allI impI)
  fix i d es assume "sql_view a i = Some (d, es)"
  with logs_extendD [OF assms(1)] obtain d' fs where
    1: "sql_view b i = Some (d', es @ fs)" "case_steps d fs d'" by blast
  with logs_extendD [OF assms(2)] obtain d'' gs where
    2: "sql_view c i = Some (d'', (es @ fs) @ gs)" "case_steps d' gs d''" by blast
  from case_steps_trans [OF 2(2) 1(2)] 2(1) show
    "\<exists>c' fs. sql_view c i = Some (c', es @ fs) \<and> case_steps d fs c'" by auto
qed

definition cases_grow :: "sql_cases \<Rightarrow> sql_cases \<Rightarrow> bool" where
  "cases_grow db db' = (cases_ok db \<longrightarrow> cases_ok db' \<and> logs_extend db db')"

lemma cases_grow_refl [simp]: "cases_grow db db"
  by (simp add: cases_grow_def)

lemma cases_grow_trans: "cases_grow a b \<Longrightarrow> cases_grow b c \<Longrightarrow> cases_grow a c"
  unfolding cases_grow_def using logs_extend_trans by blast

text \<open>What a case keeps while its log grows.\<close>

lemma recorded_findings: "recorded c t a d e \<Longrightarrow> set (rc_finding_ids c) \<subseteq> set (rc_finding_ids d)"
  unfolding recorded_def by (auto dest!: transition_caseD(13) same_case_fields(3))

lemma steps_keep:
  assumes "case_steps c fs c'"
  shows "rc_case_id c' = rc_case_id c" "rc_tenant_id c' = rc_tenant_id c"
    "rc_asset_ids c' = rc_asset_ids c" "rc_version c' = rc_version c + int (length fs)"
    "set (rc_finding_ids c) \<subseteq> set (rc_finding_ids c')"
  using assms by (induction rule: case_steps.induct)
    (auto simp: recordedD(3,4,5,8) dest: recorded_findings)

lemma steps_same_version: "case_steps c fs c' \<Longrightarrow> rc_version c' = rc_version c \<Longrightarrow> fs = [] \<and> c' = c"
  using steps_keep(4) [of c fs c'] by (auto simp: case_steps_Nil)

section \<open>One call\<close>

lemma sql_find_active_view:
  assumes "sql_find_active t a db = (Inr (Some c), db')" "sql_ok db"
  shows "\<exists>es. sql_view db (rc_case_id c) = Some (c, es)"
proof -
  let ?rows = "[r. r \<leftarrow> sc_cases db, (t', a', i) \<leftarrow> sc_active db, i = cr_case_id r, t' = t, a' = a]"
  obtain r rs where rows: "?rows = r # rs" and c: "case_from_dict (cr_projection r) = Inr c"
    using assms(1) by (auto simp: sql_find_active_def run_simps split: list.splits)
  have "r \<in> set ?rows" unfolding rows by simp
  then have r: "r \<in> set (sc_cases db)" by auto
  have "distinct (map cr_case_id (sc_cases db))" using assms(2) unfolding sql_ok_def by blast
  from sql_view_find [OF assms(2) find_distinct [OF this r]] c show ?thesis
    unfolding row_case_from by auto
qed

text \<open>A write of a projection computed from a case that the log has, or had.\<close>

lemma append_grows:
  assumes "cases_ok db" "case_ok c" "args_ok a" "transition_case c t a = Inr (p, e)"
    and "sql_view db (rc_case_id c) = Some (d, es)"
    and "rc_version d = rc_version c \<longrightarrow> d = c" "rc_version c \<le> rc_version d"
    and "cs_append sql_ops p e (rc_version c) db = (r, db')"
  shows "cases_ok db' \<and> logs_extend db db' \<and>
    (r = Inr () \<longrightarrow> d = c \<and> (\<exists>p' e'. same_case p p' \<and> same_event e e' \<and> recorded c t a p' e' \<and>
       sql_view db' = (sql_view db)(rc_case_id c \<mapsto> (p', es @ [e'])))) \<and>
    (\<forall>x. r = Inl x \<longrightarrow> db' = db)"
proof (cases r)
  case (Inl x)
  then have "db' = db" using sql.append_fails assms(1,8) by (auto simp: cases_ok_def)
  with assms(1) Inl show ?thesis by simp
next
  case (Inr u)
  with assms(8) have w: "cs_append sql_ops p e (rc_version c) db = (Inr (), db')" by simp
  note D = transition_caseD [OF assms(4)]
  have pend: "pending_ok (sql_view db) (p, e, rc_version c)"
    unfolding pending_ok_def using assms(2-7) by (intro exI [where x = c]) auto
  have ok: "sql_ok db" using assms(1) by (simp add: cases_ok_def)
  have d: "d = c" using sql.append_version [OF ok w] assms(5,6) D(5) by auto
  have pok: "case_ok p" by (rule transition_case_ok [OF assms(4,3,2)])
  from sql.append_law [OF ok w pok D(31)] D(5,6,7,18) D(1) assms(5) d
  obtain p' e' where new: "same_case p p'" "same_event e e'"
    "sql_view db' = (sql_view db)(rc_case_id c \<mapsto> (p', es @ [e']))" by auto
  have rec: "recorded c t a p' e'" using assms(4) new(1,2) unfolding recorded_def by blast
  have steps: "case_steps c [e'] p'" using case_steps.step [OF case_steps.none rec] by simp
  have "\<exists>c2 fs. sql_view db' i = Some (c2, es1 @ fs) \<and> case_steps c1 fs c2"
    if "sql_view db i = Some (c1, es1)" for i c1 es1
  proof (cases "i = rc_case_id c")
    case True
    then show ?thesis using that assms(5) d new(3) steps by auto
  next
    case False
    then show ?thesis using that new(3) case_steps.none by fastforce
  qed
  then have "logs_extend db db'" unfolding logs_extend_def by blast
  moreover have "cases_ok db'"
    using sql.written_keeps [OF _ _ _ pend w] assms(1) unfolding cases_ok_def by blast
  ultimately show ?thesis using new d rec Inr by blast
qed

lemma create_grows:
  assumes "open_from a = Inr c" "cs_create sql_ops c db = (r, db')" "cases_ok db"
  shows "cases_ok db' \<and> logs_extend db db' \<and>
    (r = Inr () \<longrightarrow> sql_view db' = (sql_view db)(rc_case_id c \<mapsto> (c, [])))"
proof -
  have "\<exists>r'. workflow_open sql_ops a db = (r', db')"
    using assms(1,2) by (cases r) (auto simp: workflow_open_def run_defs)
  then obtain r' where w: "workflow_open sql_ops a db = (r', db')" by blast
  from sql.open_keeps [OF _ _ _ w] assms(3) have
    "cases_ok db'" "\<forall>i c es. sql_view db i = Some (c, es) \<longrightarrow> sql_view db' i = Some (c, es)"
    unfolding cases_ok_def by blast+
  then have "cases_ok db' \<and> logs_extend db db'"
    unfolding logs_extend_def by (metis append_Nil2 case_steps.none)
  moreover have "sql_view db' = (sql_view db)(rc_case_id c \<mapsto> (c, []))" if "r = Inr ()"
  proof -
    note ok = open_case_ok [OF assms(1)]
    from sql.create_law [OF _ _ assms(2) [unfolded that]] assms(3) ok obtain d where
      "same_case c d" "sql_view db' = (sql_view db)(rc_case_id c \<mapsto> (d, []))"
      unfolding cases_ok_def by blast
    with same_case_empty ok show ?thesis by blast
  qed
  ultimately show ?thesis by blast
qed

section \<open>The coordinator on the world\<close>

lemma get_case_view:
  assumes "cases_ok (wd_cases w)"
  shows "get_case i w = ((case sql_view (wd_cases w) i of None \<Rightarrow> Inl (Raise CaseNotFound i)
    | Some (c, es) \<Rightarrow> Inr c), w)"
  using sql.get_law [of "wd_cases w" i] assms
  by (simp add: get_case_def on_cases_def cases_ok_def)

lemma view_case_ok:
  "cases_ok db \<Longrightarrow> sql_view db i = Some (c, es) \<Longrightarrow> case_ok c \<and> rc_case_id c = i \<and> history c es"
  unfolding cases_ok_def logged_def by blast

text \<open>An \<open>advance\<close> that returned recorded one event of the case that was stored.\<close>

lemma advance_run:
  assumes "cases_ok (wd_cases w)" "args_ok a" "advance i t a w = (r, w')"
  shows "cases_ok (wd_cases w') \<and> logs_extend (wd_cases w) (wd_cases w') \<and>
    w' = w\<lparr>wd_cases := wd_cases w'\<rparr> \<and>
    (\<forall>p. r = Inr p \<longrightarrow> (\<exists>c es p' e e'. sql_view (wd_cases w) i = Some (c, es) \<and>
       transition_case c t a = Inr (p, e) \<and> same_case p p' \<and> same_event e e' \<and>
       sql_view (wd_cases w') = (sql_view (wd_cases w))(i \<mapsto> (p', es @ [e'])))) \<and>
    (\<forall>x. r = Inl x \<longrightarrow> w' = w)"
proof -
  obtain db' where run: "workflow_advance sql_ops i t a (wd_cases w) = (r, db')"
    and w': "w' = w\<lparr>wd_cases := db'\<rparr>" using assms(3) by (auto simp: advance_def run_simps)
  have ok: "sql_ok (wd_cases w)" using assms(1) by (simp add: cases_ok_def)
  note g = sql.get_law [OF ok, of i]
  have same: "db' = wd_cases w \<Longrightarrow> \<exists>x. r = Inl x \<Longrightarrow> ?thesis"
    using assms(1) w' by auto
  show ?thesis
  proof (cases "sql_view (wd_cases w) i")
    case None
    then show ?thesis using run g by (intro same) (auto simp: workflow_advance_def bindM_def)
  next
    case (Some v)
    obtain c es where v: "v = (c, es)" by (cases v)
    note c = view_case_ok [OF assms(1) Some [unfolded v]]
    show ?thesis
    proof (cases "transition_case c t a")
      case (Inl x)
      then show ?thesis using run g Some v
        by (intro same) (auto simp: workflow_advance_def run_defs)
    next
      case (Inr pe)
      obtain p e where pe: "pe = (p, e)" by (cases pe)
      obtain r' where ap: "cs_append sql_ops p e (rc_version c) (wd_cases w) = (r', db')"
        and r: "r = (case r' of Inl x \<Rightarrow> Inl x | Inr u \<Rightarrow> Inr p)"
        using run g Some v Inr pe
        by (auto simp: workflow_advance_def run_defs split: prod.splits sum.splits)
      have view: "sql_view (wd_cases w) (rc_case_id c) = Some (c, es)" using Some v c by simp
      from append_grows [OF assms(1) _ assms(2) Inr [unfolded pe] view _ _ ap] c
      have K: "cases_ok db'" "logs_extend (wd_cases w) db'"
        "r' = Inr () \<longrightarrow> (\<exists>p' e'. same_case p p' \<and> same_event e e' \<and>
          sql_view db' = (sql_view (wd_cases w))(i \<mapsto> (p', es @ [e'])))"
        "\<forall>x. r' = Inl x \<longrightarrow> db' = wd_cases w" by auto
      show ?thesis using K r Some v Inr pe w' by (cases r') auto
    qed
  qed
qed

end
