(* ===== verification/Intake_Properties.thy ===== *)
theory Intake_Properties
  imports Intake Case_Logs
begin

text \<open>
  What intake guarantees, whatever other workers do to the same stores between its calls, as long
  as they keep the same invariant and only extend the logs and the findings: rely and guarantee
  are the one relation \<open>intake_step\<close>.
\<close>

section \<open>Rely and guarantee\<close>

text \<open>A finding that is assigned to a case is one of the findings of that case.\<close>

definition linked :: "'x world \<Rightarrow> bool" where
  "linked w = (\<forall>row \<in> set (wd_findings w). \<forall>i. fr_case_id row = Some i \<longrightarrow>
     (\<exists>c es. sql_view (wd_cases w) i = Some (c, es) \<and> fr_finding_id row \<in> set (rc_finding_ids c)))"

definition intake_inv :: "'x world \<Rightarrow> bool" where
  "intake_inv w = (cases_ok (wd_cases w) \<and> findings_ok (wd_findings w) \<and> linked w)"

definition intake_step :: "'x world \<Rightarrow> 'x world \<Rightarrow> bool" where
  "intake_step w w' = (intake_inv w \<longrightarrow>
     intake_inv w' \<and> logs_extend (wd_cases w) (wd_cases w') \<and> rows_extend (wd_findings w) (wd_findings w'))"

definition others_behave :: "'x intake \<Rightarrow> bool" where
  "others_behave ie = (\<forall>n w. intake_step w (ie_others ie n w))"

interpretation step: frame intake_step
  by unfold_locales (auto simp: intake_step_def intro: logs_extend_trans rows_extend_trans)

lemma step_stores:
  "wd_cases w' = wd_cases w \<Longrightarrow> wd_findings w' = wd_findings w \<Longrightarrow> intake_step w w'"
  by (simp add: intake_step_def intake_inv_def linked_def)

lemma step_cases:
  assumes "wd_findings w' = wd_findings w" "cases_ok (wd_cases w')" "logs_extend (wd_cases w) (wd_cases w')"
  shows "intake_step w w'"
proof -
  have "\<exists>c es. sql_view (wd_cases w') i = Some (c, es) \<and> x \<in> set (rc_finding_ids c)"
    if "sql_view (wd_cases w) i = Some (c, es)" "x \<in> set (rc_finding_ids c)" for i c es x
    using logs_extendD [OF assms(3) that(1)] steps_keep(5) that(2) by blast
  then have "linked w \<Longrightarrow> linked w'"
    using assms(1) unfolding linked_def by fastforce
  with assms show ?thesis by (simp add: intake_step_def intake_inv_def)
qed

named_theorems step_intros

lemmas step_rules [step_intros] = step.bindM step.tryM step.pure stays_if stays_case_option
  stays_case_prod stays_let

lemma step_local [step_intros]:
  "stays intake_step (clock_now env)" "stays intake_step (new_id env p)"
  "stays intake_step (make_dir d)" "stays intake_step (remove_tree d)"
  "stays intake_step (write_evidence env d i k pl c sens cmd n)"
  by (auto simp: stays_def clock_now_def new_id_def make_dir_def remove_tree_def write_evidence_def
      Let_def run_defs guardE_def intro!: step_stores)

lemma step_normalise [step_intros]: "stays intake_step (normalise_ocsf env raw d i c n)"
  unfolding normalise_ocsf_def Let_def by (intro step_intros)

lemma step_tick [simp]: "intake_step w (w\<lparr>wd_tick := n\<rparr>)"
  by (rule step_stores) simp_all

text \<open>Before a call of a store the others move, within the frame.\<close>

lemma runs_shared:
  assumes "others_behave ie" "stable intake_step P" "runs intake_step P m Q"
  shows "runs intake_step P (shared ie m) Q"
proof (rule runsI)
  fix w r w' assume P: "P w" and run: "shared ie m w = (r, w')"
  let ?w = "(ie_others ie (wd_tick w) w)\<lparr>wd_tick := wd_tick w + 1\<rparr>"
  have s: "intake_step w ?w"
    using step.trans [OF _ step_tick] assms(1) unfolding others_behave_def by blast
  have "m ?w = (r, w')" using run by (simp add: shared_def)
  from runsD [OF assms(3) stableD [OF assms(2) P s] this] s
  show "intake_step w w' \<and> (\<forall>x. r = Inr x \<longrightarrow> Q x w')" using step.trans by blast
qed

section \<open>Facts that stay\<close>

text \<open>The case store holds the case, or what became of it.\<close>

definition on_log :: "remediation_case \<Rightarrow> 'x world \<Rightarrow> bool" where
  "on_log c w = (intake_inv w \<and> (\<exists>d es. sql_view (wd_cases w) (rc_case_id c) = Some (d, es) \<and>
     set (rc_finding_ids c) \<subseteq> set (rc_finding_ids d)))"

definition source_key :: "stored_finding \<Rightarrow> string \<times> string \<times> string \<times> string" where
  "source_key f = (sf_tenant_id f, sf_provider f, sf_account f, sf_original_uid f)"

text \<open>The finding store holds the finding; with its case, for good.\<close>

definition on_file :: "stored_finding \<Rightarrow> 'x world \<Rightarrow> bool" where
  "on_file f w = (intake_inv w \<and> (\<exists>row \<in> set (wd_findings w). fr_finding_id row = sf_finding_id f \<and>
     source_of row = source_key f \<and> signals_from_dict (fr_priority_signals row) = Inr (sf_priority_signals f)))"

definition filed :: "stored_finding \<Rightarrow> 'x world \<Rightarrow> bool" where
  "filed f w = (intake_inv w \<and> sf_case_id f \<noteq> None \<and> (\<exists>row \<in> set (wd_findings w). finding_from_row row = Inr f))"

lemma stable_inv: "stable intake_step intake_inv"
  by (simp add: stable_def intake_step_def)

lemma stable_on_log: "stable intake_step (on_log c)"
  unfolding stable_def
proof (intro allI impI)
  fix w w' :: "'a world" assume a: "on_log c w" and s: "intake_step w w'"
  then obtain d es where d: "sql_view (wd_cases w) (rc_case_id c) = Some (d, es)"
    "set (rc_finding_ids c) \<subseteq> set (rc_finding_ids d)" and ext: "logs_extend (wd_cases w) (wd_cases w')"
    and inv: "intake_inv w'"
    unfolding on_log_def intake_step_def by blast
  from logs_extendD [OF ext d(1)] obtain d' fs where
    "sql_view (wd_cases w') (rc_case_id c) = Some (d', es @ fs)" "case_steps d fs d'" by blast
  with steps_keep(5) d(2) inv show "on_log c w'" unfolding on_log_def by blast
qed

lemma row_extends_fields:
  assumes "row_extends row row'"
  shows "fr_finding_id row' = fr_finding_id row" "fr_priority_signals row' = fr_priority_signals row"
    "source_of row' = source_of row" "fr_case_id row \<noteq> None \<Longrightarrow> row' = row"
proof -
  obtain x where x: "row' = row\<lparr>fr_case_id := x\<rparr>" using assms unfolding row_extends_def by blast
  then show "fr_finding_id row' = fr_finding_id row" "fr_priority_signals row' = fr_priority_signals row"
    "source_of row' = source_of row" by (simp_all add: source_of_def)
  assume "fr_case_id row \<noteq> None"
  then have "x = fr_case_id row" using assms x unfolding row_extends_def by simp
  with x show "row' = row" by simp
qed

lemma step_row:
  assumes "intake_step w w'" "intake_inv w" "row \<in> set (wd_findings w)"
  obtains row' where "row' \<in> set (wd_findings w')" "row_extends row row'" "intake_inv w'"
  using assms unfolding intake_step_def rows_extend_def by blast

lemma stable_on_file: "stable intake_step (on_file f)"
  unfolding stable_def
proof (intro allI impI)
  fix w w' :: "'a world" assume a: "on_file f w" and s: "intake_step w w'"
  then obtain row where row: "row \<in> set (wd_findings w)" "fr_finding_id row = sf_finding_id f"
    "source_of row = source_key f" "signals_from_dict (fr_priority_signals row) = Inr (sf_priority_signals f)"
    unfolding on_file_def by blast
  from a have "intake_inv w" unfolding on_file_def by blast
  from step_row [OF s this row(1)] row_extends_fields row(2-) show "on_file f w'"
    unfolding on_file_def by metis
qed

lemma stable_filed: "stable intake_step (filed f)"
  unfolding stable_def
proof (intro allI impI)
  fix w w' :: "'a world" assume a: "filed f w" and s: "intake_step w w'"
  then obtain row where row: "row \<in> set (wd_findings w)" "finding_from_row row = Inr f" "sf_case_id f \<noteq> None"
    unfolding filed_def by blast
  then have "fr_case_id row \<noteq> None" by (auto simp: finding_from_row_def res_simps)
  moreover from a have "intake_inv w" unfolding filed_def by blast
  ultimately show "filed f w'" using step_row [OF s _ row(1)] row_extends_fields(4) row(2,3)
    unfolding filed_def by metis
qed

text \<open>A case as it was read: what is stored now came from it by transitions.\<close>

definition follows :: "remediation_case \<Rightarrow> 'x world \<Rightarrow> bool" where
  "follows c w = (intake_inv w \<and> case_ok c \<and> (\<exists>d es fs.
     sql_view (wd_cases w) (rc_case_id c) = Some (d, es) \<and> case_steps c fs d))"

lemma stable_follows: "stable intake_step (follows c)"
  unfolding stable_def
proof (intro allI impI)
  fix w w' :: "'a world" assume a: "follows c w" and s: "intake_step w w'"
  then obtain d es fs where d: "sql_view (wd_cases w) (rc_case_id c) = Some (d, es)"
    "case_steps c fs d" "case_ok c" and ext: "logs_extend (wd_cases w) (wd_cases w')" and inv: "intake_inv w'"
    unfolding follows_def intake_step_def by blast
  from logs_extendD [OF ext d(1)] obtain d' gs where
    "sql_view (wd_cases w') (rc_case_id c) = Some (d', es @ gs)" "case_steps d gs d'" by blast
  with case_steps_trans [OF _ d(2)] inv d(3) show "follows c w'" unfolding follows_def by blast
qed

lemma follows_on_log: "follows c w \<Longrightarrow> on_log c w"
  unfolding follows_def on_log_def using steps_keep(5) by blast

text \<open>The case the finding is assigned to holds it.\<close>

definition on_case :: "stored_finding \<Rightarrow> 'x world \<Rightarrow> bool" where
  "on_case f w = (intake_inv w \<and> (\<forall>i. sf_case_id f = Some i \<longrightarrow>
     (\<exists>c es. sql_view (wd_cases w) i = Some (c, es) \<and> sf_finding_id f \<in> set (rc_finding_ids c))))"

lemma stable_on_case: "stable intake_step (on_case f)"
  unfolding stable_def
proof (intro allI impI)
  fix w w' :: "'a world" assume a: "on_case f w" and s: "intake_step w w'"
  then have ext: "logs_extend (wd_cases w) (wd_cases w')" and inv: "intake_inv w'"
    unfolding on_case_def intake_step_def by blast+
  have "\<exists>c es. sql_view (wd_cases w') i = Some (c, es) \<and> sf_finding_id f \<in> set (rc_finding_ids c)"
    if i: "sf_case_id f = Some i" for i
  proof -
    from a i obtain c es where c: "sql_view (wd_cases w) i = Some (c, es)" "sf_finding_id f \<in> set (rc_finding_ids c)"
      unfolding on_case_def by blast
    from logs_extendD [OF ext c(1)] steps_keep(5) c(2) show ?thesis by blast
  qed
  with inv show "on_case f w'" unfolding on_case_def by blast
qed

lemmas stable_facts = stable_inv stable_on_log stable_on_file stable_follows stable_on_case stable_conj stable_const

section \<open>Calls of the case store\<close>

lemma get_runs:
  fixes ie :: "'x intake"
  assumes "others_behave ie" "stable intake_step P" "\<And>w. P w \<Longrightarrow> intake_inv w"
  shows "runs intake_step P (cs_get (shared_cases ie) i)
    (\<lambda>c w. follows c w \<and> rc_case_id c = i \<and> P w \<and> (\<exists>es. sql_view (wd_cases w) i = Some (c, es)))"
proof -
  have "runs intake_step P (on_cases (cs_get sql_ops i) :: ('x world, remediation_case) prog)
      (\<lambda>c w. follows c w \<and> rc_case_id c = i \<and> P w \<and> (\<exists>es. sql_view (wd_cases w) i = Some (c, es)))"
  proof (rule runsI)
    fix w :: "'x world" and r w' assume p: "P w" and run: "on_cases (cs_get sql_ops i) w = (r, w')"
    then have ok: "cases_ok (wd_cases w)" using assms(3) by (simp add: intake_inv_def)
    have g: "r = (case sql_view (wd_cases w) i of None \<Rightarrow> Inl (Raise CaseNotFound i) | Some (c, es) \<Rightarrow> Inr c)"
      "w' = w" using get_case_view [OF ok, of i] run by (auto simp: get_case_def)
    have "follows c w \<and> rc_case_id c = i \<and> P w \<and> (\<exists>es. sql_view (wd_cases w) i = Some (c, es))"
      if "r = Inr c" for c
    proof -
      from that g(1) obtain es where v: "sql_view (wd_cases w) i = Some (c, es)"
        by (auto split: option.splits)
      from view_case_ok [OF ok v] v p assms(3) show ?thesis
        unfolding follows_def by (auto intro: case_steps.none)
    qed
    with g show "intake_step w w' \<and> (\<forall>c. r = Inr c \<longrightarrow> follows c w' \<and> rc_case_id c = i \<and> P w' \<and>
        (\<exists>es. sql_view (wd_cases w') i = Some (c, es)))" by simp
  qed
  from runs_shared [OF assms(1,2) this] show ?thesis by (simp add: shared_cases_def)
qed

lemma find_active_runs:
  fixes ie :: "'x intake"
  assumes "others_behave ie"
  shows "runs intake_step intake_inv (cs_find_active (shared_cases ie) t a)
    (\<lambda>r w. intake_inv w \<and> (\<forall>c. r = Some c \<longrightarrow> on_log c w))"
proof -
  have "runs intake_step intake_inv (on_cases (cs_find_active sql_ops t a) :: ('x world, remediation_case option) prog)
      (\<lambda>r w. intake_inv w \<and> (\<forall>c. r = Some c \<longrightarrow> on_log c w))"
  proof (rule runsI)
    fix w :: "'x world" and r w' assume inv: "intake_inv w"
      and run: "on_cases (cs_find_active sql_ops t a) w = (r, w')"
    then obtain db where f: "sql_find_active t a (wd_cases w) = (r, db)" "w' = w\<lparr>wd_cases := db\<rparr>"
      by (auto simp: run_simps sql_ops_def)
    have "db = wd_cases w" using f(1)
      by (auto simp: sql_find_active_def run_defs split: list.splits sum.splits prod.splits)
    with f have w': "w' = w" and f: "sql_find_active t a (wd_cases w) = (r, wd_cases w)" by simp_all
    have "on_log c w" if "r = Inr (Some c)" for c
      using sql_find_active_view [of t a "wd_cases w" c] f that inv
      unfolding on_log_def intake_inv_def cases_ok_def by blast
    with w' inv show "intake_step w w' \<and>
        (\<forall>x. r = Inr x \<longrightarrow> intake_inv w' \<and> (\<forall>c. x = Some c \<longrightarrow> on_log c w'))" by simp
  qed
  from runs_shared [OF assms stable_inv this] show ?thesis by (simp add: shared_cases_def)
qed

lemma open_runs:
  fixes ie :: "'x intake"
  assumes "others_behave ie"
  shows "runs intake_step intake_inv (workflow_open (shared_cases ie) a)
    (\<lambda>c w. on_log c w \<and> rc_finding_ids c = oa_finding_ids a)"
  unfolding workflow_open_def
proof (rule step.runs_bindM)
  show "runs intake_step intake_inv (liftE (open_from a)) (\<lambda>c w. intake_inv w \<and> open_from a = Inr c)"
    by (rule step.runs_pure) simp
  fix c
  have "runs intake_step (\<lambda>w. intake_inv w \<and> open_from a = Inr c) (on_cases (cs_create sql_ops c) :: ('x world, unit) prog)
      (\<lambda>_ w. on_log c w \<and> open_from a = Inr c)"
  proof (rule runsI)
    fix w :: "'x world" and r w' assume inv: "intake_inv w \<and> open_from a = Inr c"
      and run: "on_cases (cs_create sql_ops c) w = (r, w')"
    then obtain db where cr: "cs_create sql_ops c (wd_cases w) = (r, db)" "w' = w\<lparr>wd_cases := db\<rparr>"
      by (auto simp: run_simps)
    from create_grows [OF _ cr(1)] inv have K: "cases_ok db" "logs_extend (wd_cases w) db"
      "r = Inr () \<longrightarrow> sql_view db = (sql_view (wd_cases w))(rc_case_id c \<mapsto> (c, []))"
      unfolding intake_inv_def by blast+
    have s: "intake_step w w'" by (rule step_cases) (simp_all add: cr(2) K(1,2))
    then have "intake_inv w'" using inv by (simp add: intake_step_def)
    with s K(3) inv show "intake_step w w' \<and> (\<forall>x. r = Inr x \<longrightarrow> on_log c w' \<and> open_from a = Inr c)"
      by (auto simp: on_log_def cr(2))
  qed
  then have cr: "runs intake_step (\<lambda>w. intake_inv w \<and> open_from a = Inr c) (cs_create (shared_cases ie) c)
      (\<lambda>_ w. on_log c w \<and> open_from a = Inr c)"
    using runs_shared [OF assms stable_conj [OF stable_inv stable_const]] by (simp add: shared_cases_def)
  show "runs intake_step (\<lambda>w. intake_inv w \<and> open_from a = Inr c)
      (bindM (cs_create (shared_cases ie) c) (\<lambda>_. ret c)) (\<lambda>c w. on_log c w \<and> rc_finding_ids c = oa_finding_ids a)"
    by (rule step.runs_bindM [OF cr], rule step.runs_pure) (auto simp: open_from_def dest: openedD)
qed

text \<open>
  \<open>advance\<close> reads, and writes later: the write succeeds only on the version that was read, so the
  event it records is a transition of the stored case.
\<close>

lemma append_runs:
  fixes ie :: "'x intake"
  assumes "others_behave ie" "args_ok a" "transition_case c t a = Inr (p, e)"
  shows "runs intake_step (follows c) (cs_append (shared_cases ie) p e (rc_version c))
    (\<lambda>_ w. on_log p w)"
proof -
  have "runs intake_step (follows c) (on_cases (cs_append sql_ops p e (rc_version c)) :: ('x world, unit) prog) (\<lambda>_ w. on_log p w)"
  proof (rule runsI)
    fix w :: "'x world" and r w' assume f: "follows c w"
      and run: "on_cases (cs_append sql_ops p e (rc_version c)) w = (r, w')"
    then obtain db where ap: "cs_append sql_ops p e (rc_version c) (wd_cases w) = (r, db)"
      "w' = w\<lparr>wd_cases := db\<rparr>" by (auto simp: run_simps)
    from f obtain d es fs where d: "sql_view (wd_cases w) (rc_case_id c) = Some (d, es)"
      "case_steps c fs d" "case_ok c" "intake_inv w" unfolding follows_def by blast
    have ver: "rc_version d = rc_version c \<longrightarrow> d = c" "rc_version c \<le> rc_version d"
      using steps_same_version [OF d(2)] by blast (simp add: steps_keep(4) [OF d(2)])
    have ok: "cases_ok (wd_cases w)" using d(4) unfolding intake_inv_def by blast
    note A = append_grows [OF ok d(3) assms(2,3) d(1) ver ap(1)]
    have K: "cases_ok db" "logs_extend (wd_cases w) db"
      using A [THEN conjunct1] A [THEN conjunct2, THEN conjunct1] by simp_all
    have s: "intake_step w w'" by (rule step_cases) (simp_all add: ap(2) K(1,2))
    then have inv: "intake_inv w'" using d(4) by (simp add: intake_step_def)
    have "on_log p w'" if "r = Inr ()"
    proof -
      from mp [OF A [THEN conjunct2, THEN conjunct2, THEN conjunct1] that]
      obtain p' e' where p': "same_case p p'"
        "sql_view db = (sql_view (wd_cases w))(rc_case_id c \<mapsto> (p', es @ [e']))"
        by (elim conjE exE) (rule that; assumption)
      then show ?thesis using inv transition_caseD(5) [OF assms(3)]
        by (auto simp: on_log_def ap(2) same_case_fields(3))
    qed
    with s show "intake_step w w' \<and> (\<forall>x. r = Inr x \<longrightarrow> on_log p w')" by simp
  qed
  from runs_shared [OF assms(1) stable_follows this] show ?thesis by (simp add: shared_cases_def)
qed

lemma transition_findings:
  "transition_case c t a = Inr (p, e) \<Longrightarrow> set (rc_finding_ids c) \<subseteq> set (rc_finding_ids p)"
  using recorded_findings [OF recorded_itself] .

lemma advance_runs:
  fixes ie :: "'x intake"
  assumes "others_behave ie" "args_ok a"
  shows "runs intake_step (on_log c1) (workflow_advance (shared_cases ie) (rc_case_id c1) t a)
    (\<lambda>c w. on_log c w \<and> rc_case_id c = rc_case_id c1 \<and> set (rc_finding_ids c1) \<subseteq> set (rc_finding_ids c) \<and>
       (\<exists>c0 e. transition_case c0 t a = Inr (c, e)))"
  unfolding workflow_advance_def
proof (rule step.runs_bindM)
  let ?read = "\<lambda>c. rc_case_id c = rc_case_id c1 \<and> set (rc_finding_ids c1) \<subseteq> set (rc_finding_ids c)"
  show "runs intake_step (on_log c1) (cs_get (shared_cases ie) (rc_case_id c1))
      (\<lambda>c w. follows c w \<and> ?read c)"
    by (rule runs_conseq [OF get_runs [OF assms(1) stable_on_log [of c1]]]) (auto simp: on_log_def)
  fix c
  show "runs intake_step (\<lambda>w. follows c w \<and> ?read c)
      (bindM (liftE (transition_case c t a)) (\<lambda>(projection, event).
         bindM (cs_append (shared_cases ie) projection event (rc_version c)) (\<lambda>_. ret projection)))
      (\<lambda>c w. on_log c w \<and> rc_case_id c = rc_case_id c1 \<and> set (rc_finding_ids c1) \<subseteq> set (rc_finding_ids c) \<and>
         (\<exists>c0 e. transition_case c0 t a = Inr (c, e)))"
  proof (rule step.runs_bindM)
    show "runs intake_step (\<lambda>w. follows c w \<and> ?read c) (liftE (transition_case c t a))
        (\<lambda>pe w. follows c w \<and> (?read c \<and> transition_case c t a = Inr pe))"
      by (rule step.runs_pure) simp
    fix pe :: "remediation_case \<times> case_event"
    obtain p e where pe: "pe = (p, e)" by (cases pe)
    show "runs intake_step (\<lambda>w. follows c w \<and> (?read c \<and> transition_case c t a = Inr pe))
        (case pe of (projection, event) \<Rightarrow>
           bindM (cs_append (shared_cases ie) projection event (rc_version c)) (\<lambda>_. ret projection))
        (\<lambda>c w. on_log c w \<and> rc_case_id c = rc_case_id c1 \<and> set (rc_finding_ids c1) \<subseteq> set (rc_finding_ids c) \<and>
           (\<exists>c0 e. transition_case c0 t a = Inr (c, e)))"
    proof (cases "?read c \<and> transition_case c t a = Inr pe")
      case True
      then have tr: "transition_case c t a = Inr (p, e)" by (simp add: pe)
      show ?thesis unfolding pe prod.case
      proof (rule step.runs_bindM)
        show "runs intake_step (\<lambda>w. follows c w \<and> (?read c \<and> transition_case c t a = Inr (p, e)))
            (cs_append (shared_cases ie) p e (rc_version c)) (\<lambda>_. on_log p)"
          by (rule runs_conseq [OF append_runs [OF assms tr]]) simp_all
        show "runs intake_step (on_log p) (ret p)
          (\<lambda>c w. on_log c w \<and> rc_case_id c = rc_case_id c1 \<and> set (rc_finding_ids c1) \<subseteq> set (rc_finding_ids c) \<and>
             (\<exists>c0 e. transition_case c0 t a = Inr (c, e)))"
          using True transition_findings [OF tr] transition_caseD(5) [OF tr] tr
          by (intro step.runs_pure) auto
      qed
    next
      case False
      then show ?thesis unfolding runs_def by blast
    qed
  qed
qed

section \<open>Calls of the finding store\<close>

lemma row_finding:
  assumes "finding_from_row row = Inr f"
  shows "sf_finding_id f = fr_finding_id row" "sf_case_id f = fr_case_id row"
    "signals_from_dict (fr_priority_signals row) = Inr (sf_priority_signals f)"
    "source_of row = source_key f"
  using assms by (auto simp: finding_from_row_def source_of_def source_key_def res_simps)

lemma by_source_runs:
  fixes ie :: "'x intake"
  assumes "others_behave ie"
  shows "runs intake_step intake_inv (shared_by_source ie t p acc u)
    (\<lambda>r w. intake_inv w \<and> (\<forall>f. r = Some f \<longrightarrow> on_file f w \<and> on_case f w))" (is "runs _ _ _ ?Q")
proof -
  have "runs intake_step intake_inv
      (on_findings (fs_get_by_source sql_finding_ops t p acc u) :: ('x world, stored_finding option) prog) ?Q"
  proof (rule runsI)
    fix w :: "'x world" and r w' assume inv: "intake_inv w"
      and run: "on_findings (fs_get_by_source sql_finding_ops t p acc u) w = (r, w')"
    then obtain rows where f: "sql_finding_by_source t p acc u (wd_findings w) = (r, rows)"
      "w' = w\<lparr>wd_findings := rows\<rparr>" by (auto simp: run_simps sql_finding_ops_def)
    have "rows = wd_findings w" using f(1)
      by (auto simp: sql_finding_by_source_def run_defs split: option.splits sum.splits prod.splits)
    with f(2) have w': "w' = w" by simp
    have "?Q x w" if x: "r = Inr x" for x
    proof -
      have "on_file f w \<and> on_case f w" if xf: "x = Some f" for f
      proof -
        obtain row where row: "row \<in> set (wd_findings w)" "finding_from_row row = Inr f"
          using f(1) x xf
          by (auto simp: sql_finding_by_source_def run_simps split: option.splits dest!: find_Some_in)
        have "linked w" using inv unfolding intake_inv_def by blast
        then show ?thesis using inv row(1) row_finding [OF row(2)]
          unfolding on_file_def on_case_def linked_def by auto
      qed
      with inv show ?thesis by blast
    qed
    with w' show "intake_step w w' \<and> (\<forall>x. r = Inr x \<longrightarrow> ?Q x w')" by simp
  qed
  from runs_shared [OF assms stable_inv this] show ?thesis unfolding shared_by_source_def .
qed

lemma put_runs:
  fixes ie :: "'x intake"
  assumes "others_behave ie" "is_ok (mk_priority_signals (sf_priority_signals f))" "sf_case_id f = None"
  shows "runs intake_step intake_inv (shared ie (on_findings (fs_put sql_finding_ops f))) (\<lambda>_. on_file f)"
proof -
  have "runs intake_step intake_inv (on_findings (fs_put sql_finding_ops f) :: ('x world, unit) prog)
      (\<lambda>_. on_file f)"
  proof (rule runsI)
    fix w :: "'x world" and r w' assume inv: "intake_inv w"
      and run: "on_findings (fs_put sql_finding_ops f) w = (r, w')"
    then obtain rows where p: "sql_finding_put f (wd_findings w) = (r, rows)"
      "w' = w\<lparr>wd_findings := rows\<rparr>" by (auto simp: run_simps sql_finding_ops_def)
    from put_keeps_findings [OF _ assms(2) p(1)] inv
    have K: "findings_ok rows" "rows_extend (wd_findings w) rows" unfolding intake_inv_def by blast+
    have rows: "rows = wd_findings w \<or> rows = wd_findings w @ [finding_row f]" "r = Inr () \<Longrightarrow> rows = wd_findings w @ [finding_row f]"
      using p(1) by (auto simp: sql_finding_put_def tryM_def transaction_def sql_insert_def raise_def guardE_def
          split: if_splits)
    have link: "linked w'" using rows(1) inv assms(3) unfolding intake_inv_def linked_def
      by (auto simp: p(2) finding_row_def)
    have inv': "intake_inv w'" using inv K link by (simp add: intake_inv_def p(2))
    have s: "intake_step w w'" using inv' K by (simp add: intake_step_def p(2))
    have "on_file f w'" if "r = Inr ()"
      using rows(2) [OF that] inv' signals_read_back [OF assms(2)]
      by (auto simp: on_file_def p(2) finding_row_def source_of_def source_key_def)
    with s show "intake_step w w' \<and> (\<forall>x. r = Inr x \<longrightarrow> on_file f w')" by simp
  qed
  from runs_shared [OF assms(1) stable_inv this] show ?thesis .
qed

lemma assign_result:
  assumes "findings_ok rows" "sql_finding_assign i k rows = (Inr f', rows')"
    and "row \<in> set rows" "fr_finding_id row = i"
  shows "sf_finding_id f' = i \<and> sf_case_id f' = Some k \<and>
    signals_from_dict (fr_priority_signals row) = Inr (sf_priority_signals f') \<and>
    source_key f' = source_of row \<and> (\<exists>v \<in> set rows'. finding_from_row v = Inr f') \<and>
    rows' = sql_update (\<lambda>w. fr_finding_id w = i \<and> (fr_case_id w = None \<or> fr_case_id w = Some k))
      (\<lambda>w. w\<lparr>fr_case_id := Some k\<rparr>) rows"
proof -
  define hit where "hit = (\<lambda>w :: finding_row. fr_finding_id w = i \<and> (fr_case_id w = None \<or> fr_case_id w = Some k))"
  let ?rows = "sql_update hit (\<lambda>w. w\<lparr>fr_case_id := Some k\<rparr>) rows"
  have one: "length (filter hit rows) = 1" and g: "sql_finding_get i ?rows = (Inr f', rows')"
    using assms(2) unfolding sql_finding_assign_def Let_def hit_def [symmetric]
    by (auto simp: run_simps transaction_run split: if_splits option.splits)
  have rows': "rows' = ?rows" using g sql_finding_get_state [of i ?rows] by simp
  from one have "filter hit rows \<noteq> []" by auto
  then obtain v where v: "v \<in> set rows" "hit v" unfolding filter_empty_conv by blast
  have d: "distinct (map fr_finding_id rows)" using assms(1) unfolding findings_ok_def by blast
  with v(1,2) assms(3,4) have row: "hit row" unfolding hit_def distinct_map inj_on_def by metis
  let ?row = "row\<lparr>fr_case_id := Some k\<rparr>"
  have mem: "?row \<in> set ?rows" using assms(3) row unfolding sql_update_def by force
  moreover have "findings_ok ?rows" using assign_keeps_findings [OF assms(1,2)] rows' by simp
  ultimately have "sql_finding_get (fr_finding_id ?row) ?rows = (finding_from_row ?row, ?rows)"
    using sql_finding_get_row by blast
  with g assms(4) have f': "finding_from_row ?row = Inr f'" by simp
  have "source_of ?row = source_of row" by (simp add: source_of_def)
  with row_finding [OF f'] assms(4) rows' mem f' show ?thesis unfolding hit_def by auto
qed

lemma assign_runs:
  fixes ie :: "'x intake"
  assumes "others_behave ie" "sf_finding_id f \<in> set (rc_finding_ids c)"
  shows "runs intake_step (\<lambda>w. on_log c w \<and> on_file f w)
    (shared ie (on_findings (fs_assign_case sql_finding_ops (sf_finding_id f) (rc_case_id c))))
    (\<lambda>f' w. on_log c w \<and> sf_finding_id f' = sf_finding_id f \<and> sf_case_id f' = Some (rc_case_id c) \<and>
       sf_priority_signals f' = sf_priority_signals f \<and> source_key f' = source_key f \<and> filed f' w)"
    (is "runs _ ?P _ ?Q")
proof -
  have "runs intake_step ?P (on_findings (fs_assign_case sql_finding_ops (sf_finding_id f) (rc_case_id c))
      :: ('x world, stored_finding) prog) ?Q"
  proof (rule runsI)
    fix w :: "'x world" and r w' assume p: "?P w"
      and run: "on_findings (fs_assign_case sql_finding_ops (sf_finding_id f) (rc_case_id c)) w = (r, w')"
    then obtain rows where a: "sql_finding_assign (sf_finding_id f) (rc_case_id c) (wd_findings w) = (r, rows)"
      "w' = w\<lparr>wd_findings := rows\<rparr>" by (auto simp: run_simps sql_finding_ops_def)
    have inv: "intake_inv w" and ok: "findings_ok (wd_findings w)" "linked w"
      using p unfolding on_log_def intake_inv_def by blast+
    from p obtain d es where d: "sql_view (wd_cases w) (rc_case_id c) = Some (d, es)"
      "sf_finding_id f \<in> set (rc_finding_ids d)" using assms(2) unfolding on_log_def by blast
    from p obtain row where row: "row \<in> set (wd_findings w)" "fr_finding_id row = sf_finding_id f"
      "signals_from_dict (fr_priority_signals row) = Inr (sf_priority_signals f)" "source_of row = source_key f"
      unfolding on_file_def by blast
    from assign_keeps_findings [OF ok(1) a(1)]
    have K: "findings_ok rows" "rows_extend (wd_findings w) rows" by blast+
    have "linked w'" unfolding linked_def
    proof (intro ballI allI impI)
      fix v i assume v: "v \<in> set (wd_findings w')" "fr_case_id v = Some i"
      have "v \<in> set (wd_findings w) \<or> (fr_finding_id v = sf_finding_id f \<and> fr_case_id v = Some (rc_case_id c))"
        using v(1) sql_finding_assign_state [of "sf_finding_id f" "rc_case_id c" "wd_findings w"] a
        by (auto simp: Let_def sql_update_def split: if_splits)
      then show "\<exists>c es. sql_view (wd_cases w') i = Some (c, es) \<and> fr_finding_id v \<in> set (rc_finding_ids c)"
        using v(2) d ok(2) unfolding linked_def by (auto simp: a(2))
    qed
    then have inv': "intake_inv w'" using inv K by (simp add: intake_inv_def a(2))
    have s: "intake_step w w'" using inv' K by (simp add: intake_step_def a(2))
    have "?Q f' w'" if "r = Inr f'" for f'
      using assign_result [OF ok(1) a(1) [unfolded that] row(1,2)] row(3,4) inv'
        stableD [OF stable_on_log _ s] p by (auto simp: filed_def a(2))
    with s show "intake_step w w' \<and> (\<forall>x. r = Inr x \<longrightarrow> ?Q x w')" by blast
  qed
  from runs_shared [OF assms(1) stable_conj [OF stable_on_log stable_on_file] this] show ?thesis .
qed

section \<open>The steps of intake\<close>

lemma signals_of_record_ok: "signals_of_record rec ctx = Inr s \<Longrightarrow> is_ok (mk_priority_signals s)"
  by (auto simp: signals_of_record_def Let_def res_simps mk_priority_signals_def)

lemma store_finding_runs:
  fixes ie :: "'x intake"
  assumes "others_behave ie"
  shows "runs intake_step intake_inv (store_finding ie raw t p acc u ctx ac)
    (\<lambda>(f, created) w. on_file f w \<and> (created \<longrightarrow> source_key f = (t, p, acc, u)))"
  unfolding store_finding_def Let_def
  apply (rule step.runs_then [OF step_local(2) stable_inv])
  apply (rule step.runs_then [OF step_local(3) stable_inv])
  apply (rule step.runs_then [OF step_local(1) stable_inv])
  apply (rule step.runs_then [OF step_normalise stable_inv])
  apply (rule step.runs_then [OF step.pure(3) stable_inv])
  apply (rule step.runs_then [OF step.pure(4) stable_inv])
  apply (simp add: case_prod_unfold)
  apply (rule step.runs_then [OF step.pure(4) stable_inv])
  apply (rule step.runs_then [OF step.pure(4) stable_inv])
  apply (rule step.runs_tryM [OF _ stable_inv])
  subgoal
    by (rule step.runs_bindM [OF put_runs [OF assms]])
      (auto simp: run_simps signals_of_record_ok source_key_def intro!: step.runs_pure)
  subgoal
    apply (rule step.runs_then [OF step_local(4) stable_inv])
    apply (rule step.runs_bindM [OF by_source_runs [OF assms]])
    apply (rule runs_case_option)
     apply (auto intro: step.runs_pure)
    done
  done

text \<open>A case that has taken the finding in.\<close>

abbreviation joined :: "stored_finding \<Rightarrow> remediation_case \<Rightarrow> 'x world \<Rightarrow> bool" where
  "joined f c w \<equiv> on_log c w \<and> on_file f w \<and> sf_finding_id f \<in> set (rc_finding_ids c)"

lemma attach_finding_runs:
  fixes ie :: "'x intake"
  assumes "others_behave ie"
  shows "runs intake_step (\<lambda>w. on_log c w \<and> on_file f w) (attach_finding ie now f c)
    (\<lambda>c' w. joined f c' w \<and> rc_case_id c' = rc_case_id c)"
  unfolding attach_finding_def
proof (rule step.runs_then [OF step_local(2)])
  show "stable intake_step (\<lambda>w :: 'x world. on_log c w \<and> on_file f w)" by (intro stable_facts)
  fix i
  let ?a = "basic_args i now ''intake'' [(''finding_id'', sf_finding_id f)]
      (ps_evidence_ids (sf_priority_signals f))\<lparr>ta_new_finding_ids := [sf_finding_id f]\<rparr>"
  have a: "args_ok ?a" by (simp add: args_ok_def basic_args_def)
  have "sf_finding_id f \<in> set (rc_finding_ids c')" if "transition_case c0 ADD_FINDING ?a = Inr (c', e)" for c0 c' e
    using transition_caseD(13) [OF that] by (auto simp: additions_def)
  then show "runs intake_step (\<lambda>w. on_log c w \<and> on_file f w)
      (workflow_advance (shared_cases ie) (rc_case_id c) ADD_FINDING ?a)
      (\<lambda>c' w. joined f c' w \<and> rc_case_id c' = rc_case_id c)"
    by (intro runs_conseq [OF runs_keep [OF advance_runs [OF assms a, of c ADD_FINDING] stable_on_file [of f]]]) auto
qed

lemma attach_if_missing_runs:
  fixes ie :: "'x intake"
  assumes "others_behave ie"
  shows "runs intake_step (\<lambda>w. on_log c w \<and> on_file f w) (attach_if_missing ie now f c)
    (\<lambda>(c', b) w. joined f c' w \<and> rc_case_id c' = rc_case_id c)"
  unfolding attach_if_missing_def
  by (intro runs_if step.runs_bindM [OF attach_finding_runs [OF assms]] step.runs_pure) auto

text \<open>A case whose priority is at least the assessment.\<close>

definition at_least :: "risk_assessment \<Rightarrow> remediation_case \<Rightarrow> bool" where
  "at_least r c = (\<exists>s. rc_priority c = Some s \<and> ra_score r \<le> ra_score s)"

lemma advance_priority_runs:
  fixes ie :: "'x intake"
  assumes "others_behave ie" "is_ok (mk_risk_assessment r)" "ra_score incoming \<le> ra_score r"
    and "sf_finding_id f \<in> set (rc_finding_ids c)"
  shows "runs intake_step (\<lambda>w. on_log c w \<and> on_file f w)
    (bindM (new_id (ie_env ie) ''EVT'') (\<lambda>i.
     bindM (workflow_advance (shared_cases ie) (rc_case_id c) t (priority_args i now r)) (\<lambda>c. ret (c, True))))
    (\<lambda>(c', b) w. joined f c' w \<and> rc_case_id c' = rc_case_id c \<and> at_least incoming c')"
proof (rule step.runs_then [OF step_local(2)])
  show "stable intake_step (\<lambda>w :: 'x world. on_log c w \<and> on_file f w)" by (intro stable_facts)
  fix i
  have a: "args_ok (priority_args i now r)" using assms(2) by (simp add: args_ok_def basic_args_def priority_args_def)
  have p: "at_least incoming c'" if "transition_case c0 t (priority_args i now r) = Inr (c', e)" for c0 c' e
    using transition_caseD(14) [OF that] assms(3) by (auto simp: at_least_def priority_args_def or_else_def)
  show "runs intake_step (\<lambda>w. on_log c w \<and> on_file f w)
      (bindM (workflow_advance (shared_cases ie) (rc_case_id c) t (priority_args i now r)) (\<lambda>c. ret (c, True)))
      (\<lambda>(c', b) w. joined f c' w \<and> rc_case_id c' = rc_case_id c \<and> at_least incoming c')"
    by (rule step.runs_bindM [OF runs_keep [OF advance_runs [OF assms(1) a, of c t] stable_on_file [of f]]])
      (use p assms(4) in \<open>auto intro!: step.runs_pure\<close>)
qed

lemma merge_priority_score:
  "merge_priority i r incoming = Inr m \<Longrightarrow> is_ok (mk_risk_assessment m) \<and> ra_score incoming \<le> ra_score m"
  by (auto simp: merge_priority_def Let_def mk_risk_assessment_def res_simps split: if_splits)

lemma prioritise_runs:
  fixes ie :: "'x intake"
  assumes "others_behave ie" "is_ok (mk_risk_assessment incoming)"
  shows "runs intake_step (joined f c) (prioritise ie now incoming c)
    (\<lambda>(c', b) w. joined f c' w \<and> rc_case_id c' = rc_case_id c \<and> at_least incoming c')"
proof (cases "sf_finding_id f \<in> set (rc_finding_ids c)")
  case True
  let ?Q = "\<lambda>(c', b) w. joined f c' w \<and> rc_case_id c' = rc_case_id c \<and> at_least incoming c'"
  have st: "stable intake_step (\<lambda>w :: 'x world. on_log c w \<and> on_file f w)" by (intro stable_facts)
  note adv = advance_priority_runs [OF assms(1) _ _ True]
  have "runs intake_step (\<lambda>w. on_log c w \<and> on_file f w) (prioritise ie now incoming c) ?Q"
    unfolding prioritise_def
  proof (intro runs_if)
    show "runs intake_step (\<lambda>w. on_log c w \<and> on_file f w)
      (bindM (new_id (ie_env ie) ''EVT'') (\<lambda>i.
       bindM (workflow_advance (shared_cases ie) (rc_case_id c) PRIORITIZE (priority_args i now incoming))
         (\<lambda>c. ret (c, True)))) ?Q" by (rule adv [OF assms(2)]) simp
    let ?merged = "case rc_priority c of None \<Rightarrow> ret incoming
      | Some r \<Rightarrow> bindM (new_id (ie_env ie) ''RISK'') (\<lambda>i. liftE (merge_priority i r incoming))"
    show "runs intake_step (\<lambda>w. on_log c w \<and> on_file f w)
      (bindM ?merged (\<lambda>m. bindM (new_id (ie_env ie) ''EVT'') (\<lambda>i.
       bindM (workflow_advance (shared_cases ie) (rc_case_id c) REPRIORITIZE (priority_args i now m))
         (\<lambda>c. ret (c, True))))) ?Q"
    proof (rule step.runs_then [OF _ st])
      show "stays intake_step ?merged" by (intro step_intros)
      fix m and s s' :: "'x world" assume "?merged s = (Inr m, s')"
      then have "is_ok (mk_risk_assessment m) \<and> ra_score incoming \<le> ra_score m"
        using assms(2) merge_priority_score by (auto simp: run_simps split: option.splits)
      then show "runs intake_step (\<lambda>w. on_log c w \<and> on_file f w)
        (bindM (new_id (ie_env ie) ''EVT'') (\<lambda>i.
         bindM (workflow_advance (shared_cases ie) (rc_case_id c) REPRIORITIZE (priority_args i now m))
           (\<lambda>c. ret (c, True)))) ?Q" by (intro adv) auto
    qed
    assume "\<not> (case rc_priority c of None \<Rightarrow> True | Some r \<Rightarrow> ra_score r < ra_score incoming)"
    then have "at_least incoming c" by (auto simp: at_least_def split: option.splits)
    then show "runs intake_step (\<lambda>w. on_log c w \<and> on_file f w) (ret (c, False)) ?Q"
      using True by (intro step.runs_pure) simp
  qed
  then show ?thesis by (rule runs_conseq) simp_all
qed (simp add: runs_def)

lemma attempt_once_runs:
  assumes "runs intake_step P m Q" "stable intake_step P"
  shows "runs intake_step P (attempt_once left m) (\<lambda>r w. case r of None \<Rightarrow> P w \<and> left \<noteq> 0 | Some x \<Rightarrow> Q x w)"
  unfolding attempt_once_def
proof (rule step.runs_tryM [OF _ assms(2)])
  show "runs intake_step P (bindM m (\<lambda>x. ret (Some x)))
      (\<lambda>r w. case r of None \<Rightarrow> P w \<and> left \<noteq> 0 | Some x \<Rightarrow> Q x w)"
    by (rule step.runs_bindM [OF assms(1)]) (rule step.runs_pure, simp)
  show "runs intake_step P (if left = 0 then liftE (Inl e) else ret None)
      (\<lambda>r w. case r of None \<Rightarrow> P w \<and> left \<noteq> 0 | Some x \<Rightarrow> Q x w)" for e
    by (intro runs_if step.runs_pure) auto
qed

lemma again_runs:
  fixes ie :: "'x intake"
  assumes "others_behave ie" and "\<And>c'. runs intake_step (\<lambda>w. on_log c' w \<and> on_file f w) (k c') Q"
  shows "runs intake_step (\<lambda>w. on_log c w \<and> on_file f w) (bindM (cs_get (shared_cases ie) (rc_case_id c)) k) Q"
proof (rule step.runs_bindM)
  have st: "stable intake_step (\<lambda>w :: 'x world. on_log c w \<and> on_file f w)" by (intro stable_facts)
  show "runs intake_step (\<lambda>w. on_log c w \<and> on_file f w) (cs_get (shared_cases ie) (rc_case_id c))
      (\<lambda>c' w. on_log c' w \<and> on_file f w)"
    by (rule runs_conseq [OF get_runs [OF assms(1) st]]) (auto simp: on_log_def dest: follows_on_log)
qed (rule assms(2))

text \<open>What an attempt that lost a race does next.\<close>

definition retry ::
  "'x intake \<Rightarrow> string \<Rightarrow> stored_finding \<Rightarrow> risk_assessment \<Rightarrow> nat \<Rightarrow> string \<Rightarrow> bool \<Rightarrow>
   ('x world, remediation_case \<times> bool \<times> bool) prog" where
  "retry ie now f incoming left i att =
     (case left of 0 \<Rightarrow> raise RuntimeError ''unreachable''
      | Suc n \<Rightarrow> bindM (cs_get (shared_cases ie) i) (\<lambda>c. intake_attempts ie now f incoming n c att))"

lemma attempts_unfold:
  "intake_attempts ie now f incoming left c att =
     bindM (attempt_once left (attach_if_missing ie now f c)) (\<lambda>r.
     case r of
       None \<Rightarrow> retry ie now f incoming left (rc_case_id c) att
     | Some (c1, b) \<Rightarrow>
         bindM (attempt_once left (prioritise ie now incoming c1)) (\<lambda>r.
         case r of
           None \<Rightarrow> retry ie now f incoming left (rc_case_id c) (att \<or> b)
         | Some (c2, changed) \<Rightarrow> ret (c2, att \<or> b, changed)))"
  by (subst intake_attempts.simps) (simp add: Let_def retry_def)

abbreviation settled ::
  "stored_finding \<Rightarrow> risk_assessment \<Rightarrow> remediation_case \<times> bool \<times> bool \<Rightarrow> 'x world \<Rightarrow> bool" where
  "settled f incoming \<equiv> \<lambda>(c, _, _) w. joined f c w \<and> at_least incoming c"

lemma retry_runs:
  fixes ie :: "'x intake"
  assumes "others_behave ie"
    and IH: "\<And>n c att. n < left \<Longrightarrow> runs intake_step (\<lambda>w. on_log c w \<and> on_file f w)
      (intake_attempts ie now f incoming n c att) (settled f incoming)"
  shows "runs intake_step (\<lambda>w. (on_log c w \<and> on_file f w) \<and> left \<noteq> 0)
    (retry ie now f incoming left (rc_case_id c) att) (settled f incoming)"
proof (cases left)
  case 0
  then show ?thesis by (simp add: runs_def)
next
  case (Suc n)
  then have "runs intake_step (\<lambda>w. on_log c' w \<and> on_file f w) (intake_attempts ie now f incoming n c' att)
    (settled f incoming)" for c' by (intro IH) simp
  from again_runs [OF assms(1) this, of c] show ?thesis
    by (auto simp: Suc retry_def elim: runs_conseq)
qed

lemma prioritise_or_retry_runs:
  fixes ie :: "'x intake"
  assumes "others_behave ie" "is_ok (mk_risk_assessment incoming)"
    and retry: "\<And>att. runs intake_step (\<lambda>w. (on_log c w \<and> on_file f w) \<and> left \<noteq> 0)
      (retry ie now f incoming left (rc_case_id c) att) (settled f incoming)"
  shows "runs intake_step (joined f c)
    (bindM (attempt_once left (prioritise ie now incoming c)) (\<lambda>r.
     case r of
       None \<Rightarrow> retry ie now f incoming left (rc_case_id c) att
     | Some (c2, changed) \<Rightarrow> ret (c2, att, changed))) (settled f incoming)"
proof (rule step.runs_bindM [OF attempt_once_runs [OF prioritise_runs [OF assms(1,2)]]])
  show "stable intake_step (\<lambda>w :: 'x world. joined f c w)" by (intro stable_facts)
  fix r :: "(remediation_case \<times> bool) option"
  show "runs intake_step
      (\<lambda>w. case r of None \<Rightarrow> joined f c w \<and> left \<noteq> 0
         | Some x \<Rightarrow> (case x of (c', b) \<Rightarrow> \<lambda>w. joined f c' w \<and> rc_case_id c' = rc_case_id c \<and> at_least incoming c') w)
      (case r of None \<Rightarrow> retry ie now f incoming left (rc_case_id c) att
         | Some (c2, changed) \<Rightarrow> ret (c2, att, changed)) (settled f incoming)"
  proof (cases r)
    case None
    then show ?thesis using retry [of att] by (auto elim: runs_conseq)
  next
    case (Some x)
    then show ?thesis by (cases x) (auto intro!: step.runs_pure)
  qed
qed

lemma attempts_runs:
  fixes ie :: "'x intake"
  assumes "others_behave ie" "is_ok (mk_risk_assessment incoming)"
  shows "runs intake_step (\<lambda>w. on_log c w \<and> on_file f w) (intake_attempts ie now f incoming left c att)
    (settled f incoming)"
proof (induction left arbitrary: c att rule: less_induct)
  case (less left)
  note retry = retry_runs [OF assms(1) less.IH]
  show ?case unfolding attempts_unfold
  proof (rule step.runs_bindM [OF attempt_once_runs [OF attach_if_missing_runs [OF assms(1)]]])
    show "stable intake_step (\<lambda>w :: 'x world. on_log c w \<and> on_file f w)" by (intro stable_facts)
    fix r :: "(remediation_case \<times> bool) option"
    let ?next = "case r of None \<Rightarrow> retry ie now f incoming left (rc_case_id c) att
       | Some (c1, b) \<Rightarrow>
          bindM (attempt_once left (prioritise ie now incoming c1))
           (\<lambda>r. case r of None \<Rightarrow> retry ie now f incoming left (rc_case_id c) (att \<or> b)
                | Some (c2, changed) \<Rightarrow> ret (c2, att \<or> b, changed))"
    show "runs intake_step (\<lambda>w. case r of None \<Rightarrow> (on_log c w \<and> on_file f w) \<and> left \<noteq> 0
          | Some x \<Rightarrow> (case x of (c', b) \<Rightarrow> \<lambda>w. joined f c' w \<and> rc_case_id c' = rc_case_id c) w)
      ?next (settled f incoming)"
    proof (cases r)
      case None
      then show ?thesis using retry [of left c att] by simp
    next
      case (Some x)
      obtain c1 b where x: "x = (c1, b)" by (cases x)
      show ?thesis
      proof (cases "rc_case_id c1 = rc_case_id c")
        case True
        then show ?thesis using prioritise_or_retry_runs [OF assms retry, of left c1 "att \<or> b"] Some x
          by (auto elim: runs_conseq)
      qed (simp add: Some x runs_def)
    qed
  qed
qed

lemma open_or_join_runs:
  fixes ie :: "'x intake"
  assumes "others_behave ie"
  shows "runs intake_step (on_file f) (open_or_join ie t now ctx f asset_id)
    (\<lambda>(c, _, _) w. on_log c w \<and> on_file f w)"
  unfolding open_or_join_def
proof (rule step.runs_tryM [OF _ stable_on_file])
  have opened: "runs intake_step (\<lambda>w. intake_inv w \<and> on_file f w) (workflow_open (shared_cases ie) a)
      (\<lambda>c w. (on_log c w \<and> rc_finding_ids c = oa_finding_ids a) \<and> on_file f w)" for a
    by (rule runs_keep [OF open_runs [OF assms] stable_on_file])
  show "runs intake_step (on_file f)
     (bindM (new_id (ie_env ie) ''CASE'') (\<lambda>case_id.
      bindM (workflow_open (shared_cases ie)
               \<lparr> oa_case_id = case_id, oa_tenant_id = t, oa_finding_ids = [sf_finding_id f],
                 oa_asset_ids = [asset_id], oa_service_ids = ic_service_ids ctx, oa_now = now \<rparr>)
        (\<lambda>c. ret (c, True, False)))) (\<lambda>(c, _, _) w. on_log c w \<and> on_file f w)"
    by (rule step.runs_then [OF step_local(2) stable_on_file], rule step.runs_bindM [OF runs_pre [OF opened]])
      (auto simp: on_file_def intro!: step.runs_pure)
  fix e
  have found: "runs intake_step (\<lambda>w. intake_inv w \<and> on_file f w) (cs_find_active (shared_cases ie) t asset_id)
      (\<lambda>r w. (intake_inv w \<and> (\<forall>c. r = Some c \<longrightarrow> on_log c w)) \<and> on_file f w)"
    by (rule runs_keep [OF find_active_runs [OF assms] stable_on_file])
  show "runs intake_step (on_file f) (bindM (cs_find_active (shared_cases ie) t asset_id)
      (\<lambda>found. case found of None \<Rightarrow> liftE (Inl e)
        | Some c \<Rightarrow> bindM (attach_if_missing ie now f c) (\<lambda>(c, attached). ret (c, False, attached))))
      (\<lambda>(c, _, _) w. on_log c w \<and> on_file f w)"
  proof (rule step.runs_bindM [OF runs_pre [OF found]], simp add: on_file_def, rule runs_case_option)
    fix x :: "remediation_case option" and c assume "x = Some c"
    then show "runs intake_step (\<lambda>w. (intake_inv w \<and> (\<forall>c. x = Some c \<longrightarrow> on_log c w)) \<and> on_file f w)
        (bindM (attach_if_missing ie now f c) (\<lambda>(c, attached). ret (c, False, attached)))
        (\<lambda>(c, _, _) w. on_log c w \<and> on_file f w)"
      by (intro step.runs_bindM [OF runs_pre [OF attach_if_missing_runs [OF assms, of c f now]]])
        (auto intro!: step.runs_pure)
  qed (simp add: runs_def liftE_def)
qed

text \<open>The outcome: the finding is assigned to the case, which holds it and is at least as urgent.\<close>

definition placed :: "stored_finding \<Rightarrow> intake_outcome \<Rightarrow> bool" where
  "placed f out =
     (sf_finding_id (io_finding out) = sf_finding_id f \<and>
      sf_case_id (io_finding out) = Some (rc_case_id (io_case out)) \<and>
      sf_finding_id f \<in> set (rc_finding_ids (io_case out)) \<and>
      (\<exists>r. rc_priority (io_case out) = Some r \<and>
         priority_score (sf_priority_signals (io_finding out)) default_priority_policy \<le> ra_score r))"

lemma assessed:
  assumes "assess_priority i s p = Inr r"
  shows "is_ok (mk_risk_assessment r) \<and> ra_score r = priority_score s p"
  using assms by (auto simp: assess_priority_def Let_def mk_risk_assessment_def res_simps)

lemma finish_runs:
  fixes ie :: "'x intake"
  assumes "others_behave ie"
    and "ra_score incoming = priority_score (sf_priority_signals f) default_priority_policy"
  shows "runs intake_step (settled f incoming (c, b, b'))
     (bindM (shared ie (on_findings (fs_assign_case sql_finding_ops (sf_finding_id f) (rc_case_id c))))
       (\<lambda>f'. ret \<lparr> io_finding = f', io_case = c, io_duplicate = (\<not> created), io_case_created = b1,
                    io_finding_attached = b2, io_priority_changed = b3 \<rparr>))
     (\<lambda>out w. intake_inv w \<and> placed f out \<and> io_duplicate out = (\<not> created) \<and>
        source_key (io_finding out) = source_key f \<and> filed (io_finding out) w)"
proof (cases "sf_finding_id f \<in> set (rc_finding_ids c) \<and> at_least incoming c")
  case True
  then show ?thesis using assms(2)
    by (intro step.runs_bindM [OF runs_pre [OF assign_runs [OF assms(1), of f c]]])
      (auto simp: placed_def at_least_def on_log_def intro!: step.runs_pure)
next
  case False
  then show ?thesis by (intro runs_absurd) auto
qed

abbreviation found_on_log :: "stored_finding \<Rightarrow> remediation_case option \<Rightarrow> 'x world \<Rightarrow> bool" where
  "found_on_log f found w \<equiv> (\<forall>c. found = Some c \<longrightarrow> on_log c w) \<and> on_file f w"

lemma stable_found: "stable intake_step (found_on_log f found)"
proof (cases found)
  case None
  then show ?thesis using stable_on_file by simp
next
  case (Some c)
  then show ?thesis using stable_conj [OF stable_on_log stable_on_file] by simp
qed

lemma attach_and_prioritise_runs:
  fixes ie :: "'x intake"
  assumes "others_behave ie"
  shows "runs intake_step (on_file f) (attach_and_prioritise ie t ctx f created)
    (\<lambda>out w. intake_inv w \<and> placed f out \<and> io_duplicate out = (\<not> created) \<and>
       source_key (io_finding out) = source_key f \<and> filed (io_finding out) w)"
proof -
  have found: "runs intake_step (on_file f) (cs_find_active (shared_cases ie) t asset_id) (found_on_log f)"
    for asset_id
    by (rule runs_conseq [OF runs_keep [OF find_active_runs [OF assms] stable_on_file]])
      (auto simp: on_file_def)
  have start: "runs intake_step (found_on_log f found) (case found of Some c \<Rightarrow> ret (c, False, False)
      | None \<Rightarrow> open_or_join ie t now ctx f asset_id) (\<lambda>(c, _, _) w. on_log c w \<and> on_file f w)"
    for found now asset_id
    by (rule runs_case_option) (auto intro: runs_conseq [OF open_or_join_runs [OF assms]] step.runs_pure)
  show ?thesis
    unfolding attach_and_prioritise_def
    apply (rule step.runs_then [OF step.pure(4) stable_on_file])
    apply (rule step.runs_bindM [OF found])
    apply (rule step.runs_then [OF step_local(1) stable_found])
    apply (rule step.runs_then [OF step_local(2) stable_found])
    apply (rule step.runs_then [OF step.pure(4) stable_found])
    apply (rule step.runs_bindM [OF start])
    apply (clarsimp simp: run_simps)
    apply (drule assessed)
    apply (rule step.runs_bindM [OF attempts_runs [OF assms]], blast)
    apply clarsimp
    apply (rule runs_pre [OF finish_runs [OF assms]], blast)
    apply simp
    done
qed

abbreviation existing :: "stored_finding option \<Rightarrow> 'x world \<Rightarrow> bool" where
  "existing r w \<equiv> intake_inv w \<and> (\<forall>f. r = Some f \<longrightarrow> on_file f w \<and> on_case f w)"

lemma stable_existing: "stable intake_step (existing r)"
proof (cases r)
  case None
  then show ?thesis using stable_inv by simp
next
  case (Some f)
  then show ?thesis
    using stable_conj [OF stable_inv stable_conj [OF stable_on_file stable_on_case]] by simp
qed

lemma find_existing_runs:
  fixes ie :: "'x intake"
  assumes "others_behave ie"
  shows "runs intake_step intake_inv (find_existing ie raw t p acc u) existing"
  unfolding find_existing_def
  apply (rule step.runs_bindM [OF by_source_runs [OF assms]])
  apply (rule step.runs_then [OF step.pure(4) stable_existing])
  apply (rule runs_if)
   apply (rule step.runs_bindM [OF runs_pre [OF by_source_runs [OF assms]]], blast)
   apply (rule runs_case_option)
    apply (rule step.runs_pure, simp)
   apply (rule step.runs_then [OF step.pure(4) stable_existing])
   apply (rule step.runs_pure, simp)
  apply (rule step.runs_pure, simp)
  done

text \<open>What an intake that returned has achieved.\<close>

definition taken_in ::
  "env \<Rightarrow> raw_finding \<Rightarrow> string \<Rightarrow> intake_outcome \<Rightarrow> 'x world \<Rightarrow> bool" where
  "taken_in env raw t out w =
     (intake_inv w \<and> sf_case_id (io_finding out) = Some (rc_case_id (io_case out)) \<and>
      sf_finding_id (io_finding out) \<in> set (rc_finding_ids (io_case out)) \<and>
      (\<not> io_duplicate out \<longrightarrow> placed (io_finding out) out \<and> filed (io_finding out) w \<and>
         (\<exists>p acc u. source_identity env raw = Inr (p, acc, u) \<and>
            source_key (io_finding out) = (t, p, acc, u))))"

lemma attach_taken_in:
  fixes ie :: "'x intake"
  assumes "others_behave ie" "source_identity (ie_env ie) raw = Inr (p, acc, u)"
  shows "runs intake_step (\<lambda>w. on_file f w \<and> (created \<longrightarrow> source_key f = (t, p, acc, u)))
    (attach_and_prioritise ie t ctx f created) (taken_in (ie_env ie) raw t)"
proof (cases "created \<longrightarrow> source_key f = (t, p, acc, u)")
  case True
  then have "runs intake_step (on_file f) (attach_and_prioritise ie t ctx f created) (taken_in (ie_env ie) raw t)"
    by (intro runs_conseq [OF attach_and_prioritise_runs [OF assms(1)]])
      (auto simp: placed_def taken_in_def assms(2))
  then show ?thesis by (rule runs_pre) simp
qed (simp add: runs_absurd)

lemma duplicate_taken_in:
  fixes ie :: "'x intake"
  assumes "others_behave ie" "source_identity (ie_env ie) raw = Inr ids"
  shows "runs intake_step (existing (Some f))
      (case sf_case_id f of
         Some (c # cs) \<Rightarrow> bindM (cs_get (shared_cases ie) (c # cs)) (\<lambda>current.
           ret \<lparr> io_finding = f, io_case = current, io_duplicate = True, io_case_created = False,
                 io_finding_attached = False, io_priority_changed = False \<rparr>)
       | _ \<Rightarrow> attach_and_prioritise ie t ctx f False) (taken_in (ie_env ie) raw t)"
proof (cases "sf_case_id f = None \<or> sf_case_id f = Some []")
  case True
  obtain p acc u where "source_identity (ie_env ie) raw = Inr (p, acc, u)" using assms(2) by (cases ids) auto
  from attach_taken_in [OF assms(1) this, of f False] have
    "runs intake_step (existing (Some f)) (attach_and_prioritise ie t ctx f False) (taken_in (ie_env ie) raw t)"
    by (rule runs_pre) simp
  with True show ?thesis by (elim disjE) simp_all
next
  case False
  then obtain c cs where i: "sf_case_id f = Some (c # cs)" by (cases "sf_case_id f"; cases "the (sf_case_id f)") auto
  have get: "runs intake_step (on_case f) (cs_get (shared_cases ie) (c # cs))
      (\<lambda>d w. intake_inv w \<and> rc_case_id d = c # cs \<and> sf_finding_id f \<in> set (rc_finding_ids d))"
    by (rule runs_conseq [OF get_runs [OF assms(1) stable_on_case [of f]]]) (use i in \<open>auto simp: on_case_def\<close>)
  show ?thesis
    by (simp add: i, rule step.runs_bindM [OF runs_pre [OF get]])
      (auto simp: i taken_in_def intro: step.runs_pure)
qed

lemma ingest_runs:
  fixes ie :: "'x intake"
  assumes "others_behave ie"
  shows "runs intake_step intake_inv (ingest ie raw t ctx ac) (taken_in (ie_env ie) raw t)"
  unfolding ingest_def
  apply (rule step.runs_then [OF step.pure(3) stable_inv])
  apply (rule step.runs_then [OF step.pure(4) stable_inv])
  apply (rule step.runs_then [OF step.pure(3) stable_inv])
  apply (rule step.runs_then [OF step.pure(4) stable_inv])
  apply (rule runs_case_prod, rule runs_case_prod)
  apply (rule step.runs_bindM [OF find_existing_runs [OF assms]])
  apply (rule runs_case_option)
   apply (rule step.runs_bindM [OF runs_pre [OF store_finding_runs [OF assms]]], blast)
   apply (rule runs_case_prod)
   apply (simp, rule attach_taken_in [OF assms], simp add: run_simps)
  apply (simp only:, rule duplicate_taken_in [OF assms], auto simp: run_simps)
  done

section \<open>Properties\<close>

text \<open>C25: Intake, whatever other well-behaved workers do between its calls, keeps the stores in order
  and every assigned finding among the findings of its case, and only extends the case logs and the
  finding rows. When it returns, the finding is assigned to the case it returns, which holds it;
  when the finding is new, that case is at least as urgent as the finding.\<close>

theorem intake_places_findings:
  assumes "others_behave ie" "intake_inv w" "ingest ie raw t ctx ac w = (r, w')"
  shows "intake_inv w' \<and> logs_extend (wd_cases w) (wd_cases w') \<and>
    rows_extend (wd_findings w) (wd_findings w') \<and>
    (\<forall>out. r = Inr out \<longrightarrow>
       sf_case_id (io_finding out) = Some (rc_case_id (io_case out)) \<and>
       sf_finding_id (io_finding out) \<in> set (rc_finding_ids (io_case out)) \<and>
       (\<not> io_duplicate out \<longrightarrow> (\<exists>p. rc_priority (io_case out) = Some p \<and>
          priority_score (sf_priority_signals (io_finding out)) default_priority_policy \<le> ra_score p)))"
proof -
  from runsD [OF ingest_runs [OF assms(1)] assms(2,3)]
  have "intake_step w w'" and "\<forall>out. r = Inr out \<longrightarrow> taken_in (ie_env ie) raw t out w'" by blast+
  with assms(2) show ?thesis unfolding intake_step_def taken_in_def placed_def by blast
qed

text \<open>A scanner may replay an event: once a finding was ingested as new, ingesting the same event
  again, at any later time and by any worker, returns the same finding as a duplicate with its
  case, and opens, attaches and prioritises nothing.\<close>

theorem intake_replay_is_duplicate:
  assumes "others_behave ie" "intake_inv w" "ingest ie raw t ctx ac w = (Inr out, w1)"
    and "\<not> io_duplicate out" "intake_step w1 w2"
    and "others_behave ie'" "env_sha256 (ie_env ie') = env_sha256 (ie_env ie)"
  shows "\<exists>c w3. ingest ie' raw t ctx' ac' w2 =
      (Inr \<lparr> io_finding = io_finding out, io_case = c, io_duplicate = True, io_case_created = False,
             io_finding_attached = False, io_priority_changed = False \<rparr>, w3) \<and>
    rc_case_id c = rc_case_id (io_case out) \<and> sf_finding_id (io_finding out) \<in> set (rc_finding_ids c)"
proof -
  let ?f = "io_finding out" and ?i = "rc_case_id (io_case out)"
  from runsD [OF ingest_runs [OF assms(1)] assms(2,3)] assms(4) obtain p acc u where
    out: "intake_inv w1" "sf_case_id ?f = Some ?i" "filed ?f w1"
      "source_identity (ie_env ie) raw = Inr (p, acc, u)" "source_key ?f = (t, p, acc, u)"
    unfolding taken_in_def by blast
  have id: "source_identity (ie_env ie') raw = Inr (p, acc, u)"
    using out(4) unfolding source_identity_def assms(7) .
  define w2' where "w2' = (ie_others ie' (wd_tick w2) w2)\<lparr>wd_tick := wd_tick w2 + 1\<rparr>"
  have others: "intake_step v ((ie_others ie' n v)\<lparr>wd_tick := m\<rparr>)" for v n m
    using assms(6) step.trans step_tick unfolding others_behave_def by blast
  have filed: "filed ?f w2'"
    using stableD [OF stable_filed stableD [OF stable_filed out(3) assms(5)] others] unfolding w2'_def .
  then obtain row where row: "row \<in> set (wd_findings w2')" "finding_from_row row = Inr ?f"
    unfolding filed_def by blast
  have inv: "findings_ok (wd_findings w2')" "intake_inv w2'" "linked w2'"
    using filed unfolding filed_def intake_inv_def by blast+
  have "find (\<lambda>v. source_of v = source_of row) (wd_findings w2') = Some row"
    using find_distinct [of source_of "wd_findings w2'" row] row(1) inv(1) by (simp add: findings_ok_def)
  then have "on_findings (fs_get_by_source sql_finding_ops t p acc u) w2' = (Inr (Some ?f), w2')"
    using row_finding(4) [OF row(2)] row(2)
    by (simp add: on_findings_def sql_finding_ops_def sql_finding_by_source_def run_defs out(5))
  then have found: "shared_by_source ie' t p acc u w2 = (Inr (Some ?f), w2')"
    unfolding shared_by_source_def shared_def w2'_def .
  define w3 where "w3 = (ie_others ie' (wd_tick w2') w2')\<lparr>wd_tick := wd_tick w2' + 1\<rparr>"
  have "on_case ?f w2'"
    using inv(2,3) row row_finding [OF row(2)] unfolding on_case_def linked_def by auto
  from stableD [OF stable_on_case this others] have "on_case ?f w3" unfolding w3_def .
  then obtain c es where c: "sql_view (wd_cases w3) ?i = Some (c, es)" "sf_finding_id ?f \<in> set (rc_finding_ids c)"
    and ok: "cases_ok (wd_cases w3)"
    using out(2) unfolding on_case_def intake_inv_def by blast
  have "on_cases (cs_get sql_ops ?i) w3 = (Inr c, w3)"
    using get_case_view [OF ok, of ?i] c(1) by (simp add: get_case_def)
  then have get: "cs_get (shared_cases ie') ?i w2' = (Inr c, w3)"
    unfolding shared_cases_def case_store_ops.simps shared_def w3_def .
  have ne: "?i \<noteq> []" "rc_case_id c = ?i"
    using view_case_ok [OF ok c(1)] by (auto simp: case_ok_def mk_remediation_case_def is_ok_iff res_simps)
  from assms(3) have first: "t \<noteq> []" "\<exists>o'. prowler_outcome raw = Inr o' \<and> (o' = None \<or> o' = Some ''FAIL'')"
    "\<exists>v. raw_uid_of raw = Inr v"
    using out(4) unfolding ingest_def source_identity_def
    by (auto simp: run_simps res_simps split: prod.splits)
  then show ?thesis using found get ne c(2)
    by (cases ?i) (auto simp: ingest_def find_existing_def run_defs id out(2))
qed

end
