(* ===== verification/Endings.thy ===== *)
theory Endings
  imports Prelude
begin

text \<open>
  Total correctness of computations: how a run from a state with \<open>P\<close> ends, whether it returns or
  raises. Every computation of the model is a total function, so that a proof that it ends well is
  a proof that it ends.
\<close>

definition ends ::
  "('s \<Rightarrow> bool) \<Rightarrow> ('s, 'a) prog \<Rightarrow> ('a \<Rightarrow> 's \<Rightarrow> bool) \<Rightarrow> (exn \<Rightarrow> 's \<Rightarrow> bool) \<Rightarrow> bool" where
  "ends P m Q E = (\<forall>s. P s \<longrightarrow> (case m s of (Inr x, s') \<Rightarrow> Q x s' | (Inl e, s') \<Rightarrow> E e s'))"

lemma endsI:
  "(\<And>s r s'. P s \<Longrightarrow> m s = (r, s') \<Longrightarrow> (case r of Inr x \<Rightarrow> Q x s' | Inl e \<Rightarrow> E e s')) \<Longrightarrow> ends P m Q E"
  unfolding ends_def by (auto split: prod.splits sum.splits)

lemma endsD:
  "ends P m Q E \<Longrightarrow> P s \<Longrightarrow> m s = (r, s') \<Longrightarrow> (case r of Inr x \<Rightarrow> Q x s' | Inl e \<Rightarrow> E e s')"
  unfolding ends_def by (auto split: prod.splits sum.splits)

lemma ends_conseq:
  "ends P m Q E \<Longrightarrow> (\<And>s. P' s \<Longrightarrow> P s) \<Longrightarrow> (\<And>x s. Q x s \<Longrightarrow> Q' x s) \<Longrightarrow> (\<And>e s. E e s \<Longrightarrow> E' e s) \<Longrightarrow>
     ends P' m Q' E'"
  unfolding ends_def by (fastforce split: prod.splits sum.splits)

lemma ends_pre: "ends P m Q E \<Longrightarrow> (\<And>s. P' s \<Longrightarrow> P s) \<Longrightarrow> ends P' m Q E"
  by (rule ends_conseq)

text \<open>What cannot fail ends in any way it may raise.\<close>

abbreviation returns :: "('s \<Rightarrow> bool) \<Rightarrow> ('s, 'a) prog \<Rightarrow> ('a \<Rightarrow> 's \<Rightarrow> bool) \<Rightarrow> bool" where
  "returns P m Q \<equiv> ends P m Q (\<lambda>_ _. False)"

lemma ends_returns: "returns P m Q \<Longrightarrow> ends P m Q E"
  by (erule ends_conseq) auto

lemma returnsI: "(\<And>s. P s \<Longrightarrow> \<exists>x s'. m s = (Inr x, s') \<and> Q x s') \<Longrightarrow> returns P m Q"
  by (rule endsI) fastforce

lemma ends_bindM:
  assumes "ends P m Q E" "\<And>x. ends (Q x) (f x) R E"
  shows "ends P (bindM m f) R E"
proof (rule endsI)
  fix s r s' assume P: "P s" and run: "bindM m f s = (r, s')"
  obtain x t where m: "m s = (x, t)" by (cases "m s")
  from endsD [OF assms(1) P m] run m endsD [OF assms(2)]
  show "case r of Inr y \<Rightarrow> R y s' | Inl e \<Rightarrow> E e s'"
    by (cases x) (auto simp: bindM_def)
qed

text \<open>A step that cannot fail, followed by the rest.\<close>

lemma ends_then:
  assumes "returns P m Q" "\<And>x. ends (Q x) (f x) R E"
  shows "ends P (bindM m f) R E"
  by (rule ends_bindM [OF ends_returns [OF assms(1)] assms(2)])

lemma ends_pure:
  "(\<And>s. P s \<Longrightarrow> Q x s) \<Longrightarrow> ends P (ret x) Q E"
  "(\<And>s. P s \<Longrightarrow> E (Raise c msg) s) \<Longrightarrow> ends P (raise c msg) Q E"
  by (auto simp: ends_def ret_def raise_def)

lemma ends_guardM:
  assumes "\<And>s. P s \<Longrightarrow> \<not> b \<Longrightarrow> E (Raise c msg) s" "b \<Longrightarrow> ends P m Q E"
  shows "ends P (bindM (guardM b c msg) (\<lambda>_. m)) Q E"
  using assms by (auto simp: ends_def bindM_def guardM_def guardE_def split: prod.splits sum.splits)

lemma ends_liftE:
  assumes "\<And>s e. P s \<Longrightarrow> v = Inl e \<Longrightarrow> E e s" "\<And>x. v = Inr x \<Longrightarrow> ends P (f x) Q E"
  shows "ends P (bindM (liftE v) f) Q E"
  using assms by (cases v) (auto simp: ends_def bindM_def liftE_def)

lemma ends_if:
  "(b \<Longrightarrow> ends P m Q E) \<Longrightarrow> (\<not> b \<Longrightarrow> ends P n Q E) \<Longrightarrow> ends P (if b then m else n) Q E"
  by simp

lemma ends_ex:
  assumes "\<And>x. ends (P x) m Q E" shows "ends (\<lambda>s. \<exists>x. P x s) m Q E"
proof (rule endsI)
  fix s r s' assume "\<exists>x. P x s" and m: "m s = (r, s')"
  then obtain x where "P x s" by blast
  from endsD [OF assms this m] show "case r of Inr x \<Rightarrow> Q x s' | Inl e \<Rightarrow> E e s'" .
qed

lemma ends_fact: "(b \<Longrightarrow> ends P m Q E) \<Longrightarrow> ends (\<lambda>s. P s \<and> b) m Q E"
  by (auto simp: ends_def)

lemma ends_fact': "(b \<Longrightarrow> ends P m Q E) \<Longrightarrow> ends (\<lambda>s. b \<and> P s) m Q E"
  by (auto simp: ends_def)

lemma ends_known:
  assumes "\<And>s. P s \<Longrightarrow> b" "b \<Longrightarrow> ends P m Q E" shows "ends P m Q E"
proof (rule endsI)
  fix s r s' assume P: "P s" and m: "m s = (r, s')"
  from endsD [OF assms(2) [OF assms(1) [OF P]] P m]
  show "case r of Inr x \<Rightarrow> Q x s' | Inl e \<Rightarrow> E e s'" .
qed

lemma ends_absurd: "(\<And>s. \<not> P s) \<Longrightarrow> ends P m Q E"
  unfolding ends_def by blast

lemma exn_isa_any [simp]: "exn_isa e [Exception_class]"
  by (cases e; cases "exn_cls e") (simp_all add: exn_isa_def)

text \<open>A handler of every exception that falls back to a value.\<close>

lemma ends_caught:
  assumes "ends P m Q E" "\<And>e. ends (E e) (h e) Q E'"
  shows "ends P (tryM m [Exception_class] h) Q E'"
proof (rule endsI)
  fix s r s' assume P: "P s" and run: "tryM m [Exception_class] h s = (r, s')"
  obtain x t where m: "m s = (x, t)" by (cases "m s")
  from endsD [OF assms(1) P m] run m endsD [OF assms(2)]
  show "case r of Inr y \<Rightarrow> Q y s' | Inl e \<Rightarrow> E' e s'"
    by (cases x) (auto simp: tryM_def)
qed

end
