(* ===== verification/Service_Logic.thy ===== *)
theory Service_Logic
  imports Case_Logs Endings
begin

text \<open>
  What every stage of the workflow needs of its environment and of the adapters it is given, and
  how its own steps end: readings of clock and id factory, evidence, records and transitions. The
  stores hold only ids that were read before (\<open>unused\<close>), a stage holds ids that it has read and not
  used yet, and adapters use no id of the factory behind its back.
\<close>

section \<open>Ids in use\<close>

definition evidence_path :: "string \<Rightarrow> string \<Rightarrow> string" where
  "evidence_path dir i = dir @ ''/'' @ (''evidence/'' @ i @ ''.bin'')"

definition id_used :: "'x world \<Rightarrow> string \<Rightarrow> bool" where
  "id_used w x = (x \<in> er_event_id ` set (sc_events (wd_cases w)) \<or>
     x \<in> pw_record_id ` set (wd_records w) \<or> (\<exists>dir. dict_has (wd_files w) (evidence_path dir x)))"

text \<open>The documented behaviour of the clock and of the id factory: ids are fresh and well formed.\<close>

definition env_ok :: "env \<Rightarrow> bool" where
  "env_ok env = ((\<forall>n. env_now env n \<noteq> []) \<and> (\<forall>n p. env_id env n p \<noteq> []) \<and>
     (\<forall>n p m q. env_id env n p = env_id env m q \<longrightarrow> n = m) \<and>
     (\<forall>n p. CHR ''/'' \<notin> set (env_id env n p)) \<and>
     (\<forall>n. evidence_id_ok (env_id env n ''EVD'')))"

definition unused :: "env \<Rightarrow> 'x world \<Rightarrow> bool" where
  "unused env w = (\<forall>n \<ge> wd_tick w. \<forall>p. \<not> id_used w (env_id env n p))"

definition held :: "env \<Rightarrow> 'x world \<Rightarrow> string \<Rightarrow> bool" where
  "held env w x = (x \<noteq> [] \<and> \<not> id_used w x \<and> (\<exists>n < wd_tick w. \<exists>p. x = env_id env n p))"

text \<open>What an adapter may do between the steps of a stage: anything outside, and records, files and
  readings of its own, with ids of its own.\<close>

definition aside :: "env \<Rightarrow> 'x world \<Rightarrow> 'x world \<Rightarrow> bool" where
  "aside env w w' = (wd_cases w' = wd_cases w \<and> wd_tick w \<le> wd_tick w' \<and>
     (sql_record_ok (wd_records w) \<longrightarrow> sql_record_ok (wd_records w') \<and>
        sql_record_view (wd_records w) \<subseteq>\<^sub>m sql_record_view (wd_records w')) \<and>
     (\<forall>n p. id_used w' (env_id env n p) \<longrightarrow> id_used w (env_id env n p)))"

interpretation aside: frame "aside env"
  by unfold_locales (auto simp: aside_def intro: map_le_trans)

text \<open>The state of a stage: its stores are in order, it knows the cases, and holds the ids \<open>H\<close>.\<close>

definition staged :: "env \<Rightarrow> sql_cases \<Rightarrow> string set \<Rightarrow> 'x world \<Rightarrow> bool" where
  "staged env db H w = (wd_cases w = db \<and> cases_ok db \<and> sql_record_ok (wd_records w) \<and> unused env w \<and>
     (\<forall>x \<in> H. held env w x))"

definition stands :: "string \<Rightarrow> case_state \<Rightarrow> sql_cases \<Rightarrow> bool" where
  "stands i s db = (\<exists>c es. sql_view db i = Some (c, es) \<and> rc_state c = s)"

lemma staged_less: "staged env db H w \<Longrightarrow> H' \<subseteq> H \<Longrightarrow> staged env db H' w"
  unfolding staged_def by blast

section \<open>Adapters\<close>

lemma staged_aside:
  assumes "aside env w w'" "staged env db H w" shows "staged env db H w'"
proof -
  have mono: "wd_tick w \<le> wd_tick w'" and used: "\<And>n p. id_used w' (env_id env n p) \<Longrightarrow> id_used w (env_id env n p)"
    using assms(1) by (auto simp: aside_def)
  have "unused env w'" using assms(2) mono used unfolding staged_def unused_def by (meson order.trans)
  moreover have "held env w' x" if "held env w x" for x
    using that mono used unfolding held_def by (metis order.strict_trans2)
  ultimately show ?thesis using assms unfolding staged_def aside_def by blast
qed

lemma ends_adapter:
  assumes "stays (aside env) m"
  shows "ends (staged env db H) m (\<lambda>_. staged env db H) (\<lambda>_. staged env db H)"
proof (rule endsI)
  fix w r w' assume "staged env db H w" "m w = (r, w')"
  with staged_aside staysD [OF assms] have "staged env db H w'" by blast
  then show "case r of Inr x \<Rightarrow> staged env db H w' | Inl e \<Rightarrow> staged env db H w'" by (cases r) simp_all
qed

section \<open>Readings\<close>

lemma id_used_same:
  "wd_cases w' = wd_cases w \<Longrightarrow> wd_records w' = wd_records w \<Longrightarrow> wd_files w' = wd_files w \<Longrightarrow>
     id_used w' x = id_used w x"
  by (simp add: id_used_def)

lemma staged_tick:
  assumes "staged env db H w"
  shows "staged env db H (w\<lparr>wd_tick := wd_tick w + 1\<rparr>)"
proof -
  have "id_used (w\<lparr>wd_tick := wd_tick w + 1\<rparr>) x = id_used w x" for x by (rule id_used_same) simp_all
  then show ?thesis using assms by (auto simp: staged_def unused_def held_def) (metis less_SucI)
qed

lemma returns_clock:
  assumes "env_ok env"
  shows "returns (staged env db H) (clock_now env) (\<lambda>t w. staged env db H w \<and> t \<noteq> [])"
  using assms staged_tick by (intro returnsI) (auto simp: clock_now_def env_ok_def)

lemma returns_new_id:
  assumes "env_ok env"
  shows "returns (staged env db H) (new_id env p)
    (\<lambda>x w. staged env db (insert x H) w \<and> x \<noteq> [] \<and> x \<notin> H \<and> (p = ''EVD'' \<longrightarrow> evidence_id_ok x))"
proof (rule returnsI)
  fix w :: "'a world" assume s: "staged env db H w"
  let ?x = "env_id env (wd_tick w) p" and ?w = "w\<lparr>wd_tick := wd_tick w + 1\<rparr>"
  have "id_used ?w x = id_used w x" for x by (rule id_used_same) simp_all
  then have "held env ?w ?x"
    using s assms by (auto simp: held_def staged_def unused_def env_ok_def)
  moreover have "?x \<notin> H"
  proof
    assume "?x \<in> H"
    then obtain n q where "n < wd_tick w" "?x = env_id env n q" using s by (auto simp: staged_def held_def)
    then show False using assms by (metis env_ok_def less_irrefl)
  qed
  ultimately show "\<exists>x s'. new_id env p w = (Inr x, s') \<and> staged env db (insert x H) s' \<and> x \<noteq> [] \<and>
      x \<notin> H \<and> (p = ''EVD'' \<longrightarrow> evidence_id_ok x)"
    using staged_tick [OF s] assms by (auto simp: new_id_def staged_def env_ok_def)
qed

section \<open>Using an id\<close>

text \<open>A step that uses the id \<open>x\<close> and no other.\<close>

lemma staged_use:
  assumes s: "staged env db H w" and x: "x \<in> H" and e: "env_ok env"
    and db: "wd_cases w' = db'" "cases_ok db'" "sql_record_ok (wd_records w')" "wd_tick w' = wd_tick w"
    and used: "\<And>n p. id_used w' (env_id env n p) \<Longrightarrow> id_used w (env_id env n p) \<or> env_id env n p = x"
  shows "staged env db' (H - {x}) w'"
proof -
  from s x obtain n p where n: "n < wd_tick w" "x = env_id env n p" unfolding staged_def held_def by blast
  have "unused env w'" unfolding unused_def db(4)
  proof (intro allI impI notI)
    fix m q assume m: "wd_tick w \<le> m" and "id_used w' (env_id env m q)"
    then have "id_used w (env_id env m q) \<or> env_id env m q = x" using used by blast
    then have "env_id env m q = x" using s m by (auto simp: staged_def unused_def)
    then have "m = n" using e n(2) unfolding env_ok_def by metis
    then show False using m n(1) by simp
  qed
  moreover have "held env w' y" if "y \<in> H - {x}" for y
    using that s used db(4) unfolding staged_def held_def by (metis Diff_iff insertCI)
  ultimately show ?thesis using db by (simp add: staged_def)
qed

text \<open>The id in the name of an evidence file.\<close>

lemma evidence_path_id:
  assumes "evidence_path d y = evidence_path d' x" "CHR ''/'' \<notin> set y" "CHR ''/'' \<notin> set x"
  shows "y = x"
proof -
  have tail: "takeWhile (\<lambda>c. c \<noteq> CHR ''/'') (rev (evidence_path d z)) = rev (z @ ''.bin'')"
    if "CHR ''/'' \<notin> set z" for d z
  proof -
    have "rev (evidence_path d z) = rev (z @ ''.bin'') @ rev (d @ ''/evidence/'')"
      by (simp add: evidence_path_def)
    moreover have "\<forall>c \<in> set (rev (z @ ''.bin'')). c \<noteq> CHR ''/''" using that by auto
    ultimately show ?thesis by (simp add: takeWhile_append)
  qed
  from tail [OF assms(2), of d] tail [OF assms(3), of d'] assms(1) show ?thesis by simp
qed

lemma returns_evidence:
  assumes e: "env_ok env" and i: "i \<in> H" "evidence_id_ok i"
  shows "returns (staged env db H) (write_evidence env dir i k payload co sens cmd now)
    (\<lambda>ref w. staged env db (H - {i}) w \<and> ef_evidence_id ref = i)"
proof (rule returnsI)
  fix w :: "'a world" assume s: "staged env db H w"
  let ?p = "evidence_path dir i"
  let ?w = "w\<lparr>wd_files := dict_set ?p payload (wd_files w)\<rparr>"
  have fresh: "\<not> dict_has (wd_files w) ?p"
    using s i(1) unfolding staged_def held_def id_used_def by blast
  have slash: "CHR ''/'' \<notin> set i" "\<And>n p. CHR ''/'' \<notin> set (env_id env n p)"
    using s i(1) e unfolding staged_def held_def env_ok_def by metis+
  have "staged env db (H - {i}) ?w"
  proof (rule staged_use [OF s i(1) e])
    fix n p assume "id_used ?w (env_id env n p)"
    then show "id_used w (env_id env n p) \<or> env_id env n p = i"
      using evidence_path_id [OF _ slash(2,1)] unfolding id_used_def dict_has_get
      by (auto split: if_splits)
  qed (use s in \<open>auto simp: staged_def\<close>)
  with fresh i(2) show "\<exists>x s'. write_evidence env dir i k payload co sens cmd now w = (Inr x, s') \<and>
      staged env db (H - {i}) s' \<and> ef_evidence_id x = i"
    by (simp add: write_evidence_def Let_def run_defs guardE_def evidence_path_def)
qed

lemma returns_record:
  assumes e: "env_ok env" and r: "is_ok (mk_product_record r)" "pr_record_id r \<in> H"
  shows "returns (staged env db H) (store_record r)
    (\<lambda>r' w. staged env db (H - {pr_record_id r}) w \<and> r' = r)"
proof (rule returnsI)
  fix w :: "'a world" assume s: "staged env db H w"
  then have ok: "sql_record_ok (wd_records w)" by (simp add: staged_def)
  have new: "sql_record_view (wd_records w) (pr_record_id r) = None"
    using s r(2) sql_record_view_None [OF ok] by (auto simp: staged_def held_def id_used_def)
  obtain rows where put: "rs_put sql_record_ops r (wd_records w) = (Inr (), rows)"
    using sql_record.put_law [OF ok r(1)] new by auto
  have view: "sql_record_ok rows"
    "sql_record_view rows = (sql_record_view (wd_records w))(pr_record_id r \<mapsto> json_record r)"
    using sql_record.put_view [OF ok r(1) new] unfolding put by simp_all
  have used: "x \<in> pw_record_id ` set rows \<longleftrightarrow> x \<in> pw_record_id ` set (wd_records w) \<or> x = pr_record_id r" for x
    using sql_record_view_None [OF ok, of x] sql_record_view_None [OF view(1), of x] view(2)
    by (auto simp: image_iff split: if_splits) metis+
  have "staged env db (H - {pr_record_id r}) (w\<lparr>wd_records := rows\<rparr>)"
    by (rule staged_use [OF s r(2) e]) (use s view(1) used in \<open>auto simp: staged_def id_used_def\<close>)
  moreover have "mk_product_record r = Inr r"
    using r(1) by (auto simp: mk_product_record_def is_ok_iff res_simps)
  ultimately show "\<exists>x s'. store_record r w = (Inr x, s') \<and>
      staged env db (H - {pr_record_id r}) s' \<and> x = r"
    by (simp add: store_record_def put_record_def on_records_def run_defs put)
qed

section \<open>Recording a transition\<close>

lemma filter_only: "distinct xs \<Longrightarrow> r \<in> set xs \<Longrightarrow> filter (\<lambda>x. x = r) xs = [r]"
  by (induction xs) (auto simp: filter_empty_conv)

lemma append_rows_succeeds:
  assumes ok: "sql_ok db" and view: "sql_view db (rc_case_id c) = Some (d, es)"
    and e: "ev_case_id e = rc_case_id c" "ev_sequence e = rc_version d + 1"
    and new: "ev_event_id e \<notin> er_event_id ` set (sc_events db)"
  shows "\<exists>db'. append_rows c e (rc_version d) db = Inr db' \<and>
    er_event_id ` set (sc_events db') = insert (ev_event_id e) (er_event_id ` set (sc_events db))"
proof -
  obtain r where r: "find (\<lambda>r. cr_case_id r = rc_case_id c) (sc_cases db) = Some r"
    using sql_view_None [OF ok, of "rc_case_id c"] view by auto
  from sql_view_find [OF ok r] view have v: "cr_version r = rc_version d" by auto
  have dist: "distinct (map cr_case_id (sc_cases db))" using ok by (simp add: sql_ok_def)
  have rin: "r \<in> set (sc_cases db)" "cr_case_id r = rc_case_id c"
    using r by (auto simp: find_Some_iff)
  have "\<forall>x \<in> set (sc_cases db). (cr_case_id x = rc_case_id c \<and> cr_version x = rc_version d) \<longleftrightarrow> x = r"
    using dist rin v unfolding distinct_map inj_on_def by metis
  then have "filter (\<lambda>x. cr_case_id x = rc_case_id c \<and> cr_version x = rc_version d) (sc_cases db) =
      filter (\<lambda>x. x = r) (sc_cases db)" by (intro filter_cong) auto
  moreover have "filter (\<lambda>x. x = r) (sc_cases db) = [r]"
    using dist rin(1) by (intro filter_only) (auto simp: distinct_map)
  ultimately have one: "length (filter (\<lambda>x. cr_case_id x = rc_case_id c \<and> cr_version x = rc_version d)
      (sc_cases db)) = 1" by simp
  have "\<forall>x \<in> set (sc_events db). er_case_id x = rc_case_id c \<longrightarrow> er_sequence x \<le> rc_version d"
    using ok view unfolding sql_ok_def by fastforce
  then have clash: "\<not> list_ex (\<lambda>x. ev_event_id e = er_event_id x \<or>
       (ev_case_id e = er_case_id x \<and> ev_sequence e = er_sequence x)) (sc_events db)"
    using new e unfolding list_ex_iff by fastforce
  show ?thesis using one clash by (simp add: append_rows_def Let_def sql_insert_def guardE_def)
qed

lemma returns_advance:
  assumes e: "env_ok env" and x: "ta_event_id a \<in> H" and a: "args_ok a"
    and view: "sql_view db i = Some (c, es)" and tr: "transition_case c t a = Inr (p, ev)"
  shows "returns (staged env db H) (advance i t a) (\<lambda>c' w. c' = p \<and>
    (\<exists>db' p' e'. staged env db' (H - {ta_event_id a}) w \<and> same_case p p' \<and>
       sql_view db' = (sql_view db)(i \<mapsto> (p', es @ [e']))))"
proof (rule returnsI)
  fix w :: "'a world" assume s: "staged env db H w"
  then have db: "wd_cases w = db" "cases_ok db" "sql_ok db" by (simp_all add: staged_def cases_ok_def)
  note c = view_case_ok [OF db(2) view]
  note D = transition_caseD [OF tr]
  have "ev_event_id ev \<notin> er_event_id ` set (sc_events db)"
    using s x D(23) db(1) unfolding staged_def held_def id_used_def by metis
  from append_rows_succeeds [OF db(3) _ _ _ this, of p c es] obtain db' where
    app: "append_rows p ev (rc_version c) db = Inr db'"
    and used: "er_event_id ` set (sc_events db') =
      insert (ta_event_id a) (er_event_id ` set (sc_events db))"
    using view c D(5,18,19,23) by auto
  have run: "advance i t a w = (Inr p, w\<lparr>wd_cases := db'\<rparr>)"
    using sql.get_law [OF db(3), of i] view tr app D(5,11,18,19) db(1)
    by (simp add: advance_def on_cases_def workflow_advance_def run_defs guardE_def sql_append_def
        transaction_def sql_ops_def)
  from advance_run [OF _ a run] db view tr obtain p' e' where
    new: "cases_ok db'" "same_case p p'" "sql_view db' = (sql_view db)(i \<mapsto> (p', es @ [e']))"
    by auto
  have "staged env db' (H - {ta_event_id a}) (w\<lparr>wd_cases := db'\<rparr>)"
    by (rule staged_use [OF s x e]) (use s new(1) used db(1) in \<open>auto simp: staged_def id_used_def\<close>)
  with run new show "\<exists>c' s'. advance i t a w = (Inr c', s') \<and> c' = p \<and>
      (\<exists>db' p' e'. staged env db' (H - {ta_event_id a}) s' \<and> same_case p p' \<and>
         sql_view db' = (sql_view db)(i \<mapsto> (p', es @ [e'])))"
    by blast
qed

section \<open>Transitions that are allowed\<close>

text \<open>The arguments of a transition without attachments.\<close>

definition plain_args :: "transition_args \<Rightarrow> bool" where
  "plain_args a = (ta_event_id a \<noteq> [] \<and> ta_actor a \<noteq> [] \<and> ta_occurred_at a \<noteq> [] \<and>
     ta_priority a = None \<and> ta_change_plan a = None \<and> ta_change_window a = None \<and>
     ta_new_finding_ids a = [])"

lemma plain_args_ok: "plain_args a \<Longrightarrow> args_ok a"
  by (simp add: plain_args_def args_ok_def)

lemma plain_transition:
  assumes "case_ok c" "transition_target c t a = Inr (s, b)" "\<not> rc_terminal c"
    and "required_present t a = Inr ()" "plain_args a"
    and "t \<notin> {PRIORITIZE, PREPARE_PLAN, SELECT_WINDOW, ADD_FINDING}"
  shows "\<exists>p e. transition_case c t a = Inr (p, e) \<and> rc_state p = s"
proof -
  have "is_ok (mk_remediation_case c)" using assms(1) by (simp add: case_ok_def)
  then have c: "rc_case_id c \<noteq> []" "rc_tenant_id c \<noteq> []" "rc_finding_ids c \<noteq> []" "0 \<le> rc_version c"
    by (auto simp: mk_remediation_case_def is_ok_iff res_simps)
  have "check_attachments t a = Inr ()"
    using assms(5,6) by (simp add: check_attachments_def plain_args_def)
  then show ?thesis using assms c
    by (auto simp: transition_case_def plain_args_def mk_case_event_def mk_remediation_case_def guardE_def)
qed

lemma linear_transition_open: "linear_transition s t = Some s' \<Longrightarrow> s \<notin> set terminal_case_states"
  by (drule linear_transitionD) (auto simp: linear_transitions_def terminal_case_states_def)

lemma linear_kinds:
  "linear_transition s t = Some s' \<Longrightarrow> t \<notin> {ADD_FINDING, REPRIORITIZE, SCHEDULE_EXECUTION, RETRY_SRE,
     REQUEST_REWORK, RESELECT_WINDOW, BLOCK, RESUME, CLOSE_NO_ACTION, REJECT}"
  by (drule linear_transitionD) (auto simp: linear_transitions_def)

section \<open>Steps of a stage\<close>

text \<open>The cases satisfy \<open>P\<close> and the stage holds the ids \<open>H\<close>; in particular, the case \<open>i\<close> stands in
  state \<open>s\<close>.\<close>

definition holding :: "env \<Rightarrow> (sql_cases \<Rightarrow> bool) \<Rightarrow> string set \<Rightarrow> 'x world \<Rightarrow> bool" where
  "holding env P H w = (\<exists>db. staged env db H w \<and> P db)"

abbreviation at_stage :: "env \<Rightarrow> string \<Rightarrow> case_state \<Rightarrow> string set \<Rightarrow> 'x world \<Rightarrow> bool" where
  "at_stage env i s \<equiv> holding env (stands i s)"

lemma holding_less: "holding env P H w \<Longrightarrow> H' \<subseteq> H \<Longrightarrow> holding env P H' w"
  unfolding holding_def using staged_less by blast

lemma at_stage_id:
  assumes "at_stage env i s H w" shows "i \<noteq> []"
proof -
  from assms obtain db c es where db: "cases_ok db" "sql_view db i = Some (c, es)"
    by (auto simp: holding_def staged_def stands_def)
  from view_case_ok [OF this] show ?thesis
    by (auto simp: case_ok_def mk_remediation_case_def is_ok_iff res_simps)
qed

lemma lift_holding:
  assumes "\<And>db. ends (staged env db H) m (\<lambda>x w. staged env db (H' x) w \<and> R x) (\<lambda>_. staged env db H)"
  shows "ends (holding env P H) m (\<lambda>x w. holding env P (H' x) w \<and> R x) (\<lambda>_. holding env P H)"
proof (rule endsI)
  fix w r w' assume "holding env P H w" and m: "m w = (r, w')"
  then obtain db where db: "staged env db H w" "P db" by (auto simp: holding_def)
  from endsD [OF assms db(1) m] db(2)
  show "case r of Inr x \<Rightarrow> holding env P (H' x) w' \<and> R x | Inl e \<Rightarrow> holding env P H w'"
    by (cases r) (auto simp: holding_def)
qed

lemma lift_holding_returns:
  assumes "\<And>db. returns (staged env db H) m (\<lambda>x w. staged env db (H' x) w \<and> R x)"
  shows "returns (holding env P H) m (\<lambda>x w. holding env P (H' x) w \<and> R x)"
proof (rule endsI)
  fix w r w' assume "holding env P H w" and m: "m w = (r, w')"
  then obtain db where db: "staged env db H w" "P db" by (auto simp: holding_def)
  from endsD [OF assms db(1) m] db(2)
  show "case r of Inr x \<Rightarrow> holding env P (H' x) w' \<and> R x | Inl e \<Rightarrow> False"
    by (cases r) (auto simp: holding_def)
qed

text \<open>A step and what remains, for each kind of step.\<close>

lemma step_clock:
  assumes "env_ok env" "\<And>t. t \<noteq> [] \<Longrightarrow> ends (holding env P H) (f t) Q E"
  shows "ends (holding env P H) (bindM (clock_now env) f) Q E"
  by (rule ends_then [OF lift_holding_returns [OF returns_clock [OF assms(1)]]])
    (rule ends_fact, rule assms(2))

lemma step_id:
  assumes "env_ok env"
    and "\<And>x. x \<noteq> [] \<Longrightarrow> x \<notin> H \<Longrightarrow> ends (holding env P (insert x H)) (f x) Q E"
  shows "ends (holding env P H) (bindM (new_id env p) f) Q E"
  by (rule ends_then [OF lift_holding_returns [OF returns_new_id [OF assms(1)]]])
    (rule ends_fact, rule assms(2), auto)

lemma step_record:
  assumes "env_ok env" "is_ok (mk_product_record r)" "pr_record_id r \<in> H"
    and "ends (holding env P (H - {pr_record_id r})) (f r) Q E"
  shows "ends (holding env P H) (bindM (store_record r) f) Q E"
  by (rule ends_then [OF lift_holding_returns [OF returns_record [OF assms(1-3)]]])
    (rule ends_fact, use assms(4) in simp)

lemma step_adapter:
  assumes "stays (aside env) m" "\<And>x. ends (holding env P H) (f x) Q E"
    and "\<And>e w. holding env P H w \<Longrightarrow> E e w"
  shows "ends (holding env P H) (bindM m f) Q E"
proof -
  have "ends (holding env P H) m (\<lambda>x w. holding env P H w \<and> True) (\<lambda>_. holding env P H)"
    by (rule lift_holding) (use ends_adapter [OF assms(1)] in simp)
  then have "ends (holding env P H) m (\<lambda>_. holding env P H) E"
    by (rule ends_conseq) (use assms(3) in auto)
  then show ?thesis by (rule ends_bindM) (rule assms(2))
qed

text \<open>What an adapter answered: a run at the stage, or the fall-back for what it raised.\<close>

definition answered ::
  "env \<Rightarrow> (sql_cases \<Rightarrow> bool) \<Rightarrow> ('x world, 'a) prog \<Rightarrow> 'a \<Rightarrow> bool" where
  "answered env P m x = (\<exists>v v'. holding env P {} v \<and> m v = (Inr x, v'))"

definition guarded :: "('s, 'a) prog \<Rightarrow> (exn \<Rightarrow> 'a) \<Rightarrow> ('s, 'a) prog" where
  "guarded m fallback = tryM m [Exception_class] (\<lambda>e. ret (fallback e))"

lemma step_guarded:
  assumes "stays (aside env) m"
    and "\<And>x. answered env P m x \<or> (\<exists>e. x = fb e) \<Longrightarrow> ends (holding env P H) (f x) Q E"
  shows "ends (holding env P H) (bindM (guarded m fb) f) Q E"
proof (rule ends_then)
  show "returns (holding env P H) (guarded m fb)
    (\<lambda>x w. holding env P H w \<and> (answered env P m x \<or> (\<exists>e. x = fb e)))"
    unfolding guarded_def
  proof (rule ends_caught)
    show "ends (holding env P H) m (\<lambda>x w. holding env P H w \<and> (answered env P m x \<or> (\<exists>e. x = fb e)))
        (\<lambda>_. holding env P H)"
    proof (rule endsI)
      fix w r w' assume w: "holding env P H w" and m: "m w = (r, w')"
      then have "holding env P H w'"
        using staysD [OF assms(1) m] staged_aside unfolding holding_def by blast
      moreover have "answered env P m x" if "r = Inr x" for x
        using holding_less [OF w] m that unfolding answered_def by blast
      ultimately show "case r of Inr x \<Rightarrow> holding env P H w' \<and> (answered env P m x \<or> (\<exists>e. x = fb e))
          | Inl e \<Rightarrow> holding env P H w'" by (cases r) auto
    qed
    show "returns (holding env P H) (ret (fb e))
        (\<lambda>x w. holding env P H w \<and> (answered env P m x \<or> (\<exists>e. x = fb e)))" for e
      by (rule ends_pure) auto
  qed
  show "ends (\<lambda>w. holding env P H w \<and> (answered env P m x \<or> (\<exists>e. x = fb e))) (f x) Q E" for x
    by (rule ends_fact) (rule assms(2))
qed

text \<open>A transition of the case, from the state it stands in.\<close>

lemma returns_transition:
  assumes e: "env_ok env" and a: "plain_args a" "ta_event_id a \<in> H" "required_present t a = Inr ()"
    and t: "t \<notin> {PRIORITIZE, PREPARE_PLAN, SELECT_WINDOW, ADD_FINDING}" "s \<notin> set terminal_case_states"
    and target: "\<And>c. rc_state c = s \<Longrightarrow> \<exists>b. transition_target c t a = Inr (s', b)"
  shows "returns (at_stage env i s H) (advance i t a)
    (\<lambda>c w. at_stage env i s' (H - {ta_event_id a}) w \<and> rc_state c = s')"
proof (rule endsI)
  fix w r w' assume "at_stage env i s H w" and run: "advance i t a w = (r, w')"
  then obtain db c es where db: "staged env db H w" "sql_view db i = Some (c, es)" "rc_state c = s"
    by (auto simp: holding_def stands_def)
  have c: "case_ok c" using view_case_ok db by (metis staged_def)
  obtain b where "transition_target c t a = Inr (s', b)" using target [OF db(3)] by blast
  then obtain p ev where tr: "transition_case c t a = Inr (p, ev)" and p: "rc_state p = s'"
    using plain_transition [OF c _ _ a(3,1) t(1)] t(2) db(3) unfolding rc_terminal_def by blast
  from endsD [OF returns_advance [OF e a(2) plain_args_ok [OF a(1)] db(2) tr] db(1) run]
  show "case r of Inr c' \<Rightarrow> at_stage env i s' (H - {ta_event_id a}) w' \<and> rc_state c' = s' | Inl e \<Rightarrow> False"
    using p by (cases r) (auto simp: holding_def stands_def same_case_fields)
qed

lemma step_linear:
  assumes "env_ok env" "linear_transition s t = Some s'" "t \<notin> {PRIORITIZE, PREPARE_PLAN, SELECT_WINDOW}"
    and "plain_args a" "ta_event_id a \<in> H" "required_present t a = Inr ()"
    and "\<And>c. rc_state c = s' \<Longrightarrow> ends (at_stage env i s' (H - {ta_event_id a})) (f c) Q E"
  shows "ends (at_stage env i s H) (bindM (advance i t a) f) Q E"
proof (rule ends_then [OF returns_transition [OF assms(1,4,5,6)]])
  show "t \<notin> {PRIORITIZE, PREPARE_PLAN, SELECT_WINDOW, ADD_FINDING}"
    using assms(3) linear_kinds [OF assms(2)] by blast
  show "s \<notin> set terminal_case_states" by (rule linear_transition_open [OF assms(2)])
  show "\<exists>b. transition_target c t a = Inr (s', b)" if "rc_state c = s" for c
    using transition_target_linear [OF linear_kinds [OF assms(2)]] assms(2) that by blast
  show "ends (\<lambda>w. at_stage env i s' (H - {ta_event_id a}) w \<and> rc_state x = s') (f x) Q E" for x
    by (rule ends_fact) (rule assms(7))
qed

lemma step_block:
  assumes "env_ok env" "s \<notin> set terminal_case_states" "s \<noteq> BLOCKED"
    and "plain_args a" "ta_event_id a \<in> H" "ta_detail a \<noteq> []"
    and "\<And>c. rc_state c = BLOCKED \<Longrightarrow> ends (at_stage env i BLOCKED (H - {ta_event_id a})) (f c) Q E"
  shows "ends (at_stage env i s H) (bindM (advance i BLOCK a) f) Q E"
proof (rule ends_then [OF returns_transition [OF assms(1,4,5)]])
  show "\<exists>b. transition_target c BLOCK a = Inr (BLOCKED, b)" if "rc_state c = s" for c
    using that assms(3,6) by simp
  show "ends (\<lambda>w. at_stage env i BLOCKED (H - {ta_event_id a}) w \<and> rc_state x = BLOCKED) (f x) Q E" for x
    by (rule ends_fact) (rule assms(7))
qed (use assms(2) in \<open>auto simp: required_present_def\<close>)

end
