(* ===== verification/Intake_Races.thy ===== *)
theory Intake_Races
  imports Intake_Properties Service_Logic
begin

text \<open>
  Two intake workers on one asset, run step by step: what one does between two calls of the other.
\<close>

section \<open>Workers and findings\<close>

definition raw_sample :: "string \<Rightarrow> string \<Rightarrow> raw_finding" where
  "raw_sample uid severity =
     [(''class_uid'', PInt 2004),
      (''finding_info'', PDict [(''uid'', PStr uid)]),
      (''cloud'', PDict [(''provider'', PStr ''AWS''), (''account'', PDict [(''uid'', PStr ''1'')])]),
      (''resources'', PList [PDict [(''uid'', PStr ''vol-1'')]]),
      (''severity'', PStr severity)]"

definition worker :: "string \<Rightarrow> (nat \<Rightarrow> unit world \<Rightarrow> unit world) \<Rightarrow> unit intake" where
  "worker name others =
     \<lparr> ie_env = \<lparr> env_now = (\<lambda>n. ''2026-01-01T00:00:00Z''),
                  env_id = (\<lambda>n pre. pre @ ''-'' @ name @ show_nat n), env_sha256 = (\<lambda>s. ''hash'') \<rparr>,
       ie_others = others, ie_validate_doc = (\<lambda>_ _. []), ie_artifact_root = ''root'',
       ie_collector = \<lparr> co_tool = ''t'', co_version = ''1'', co_identity = ''i'' \<rparr> \<rparr>"

definition empty_world :: "unit world" where
  "empty_world = \<lparr> wd_cases = sql_empty, wd_records = [], wd_findings = [], wd_jobs = [],
     wd_files = [], wd_tick = 0, wd_outside = () \<rparr>"

definition alone :: "nat \<Rightarrow> unit world \<Rightarrow> unit world" where
  "alone n w = w"

definition run_intake :: "unit intake \<Rightarrow> raw_finding \<Rightarrow> unit world \<Rightarrow> intake_outcome res \<times> unit world" where
  "run_intake ie raw = ingest ie raw ''t'' default_intake_context None"

text \<open>Another worker ingests a finding just before the call at reading \<open>k\<close>.\<close>

definition at_reading :: "nat \<Rightarrow> raw_finding \<Rightarrow> nat \<Rightarrow> unit world \<Rightarrow> unit world" where
  "at_reading k raw n w = (if n = k then snd (run_intake (worker ''b'' alone) raw w) else w)"

lemma empty_inv: "intake_inv empty_world"
  by (auto simp: intake_inv_def empty_world_def cases_ok_def sql_empty_def sql_ok_def sql_view_def
      logged_def one_active_def findings_ok_def linked_def case_event_rows_def)

lemma alone_behaves: "others_behave (worker name alone)"
  by (simp add: others_behave_def worker_def alone_def)

lemma worker_step: "others_behave ie \<Longrightarrow> intake_step w (snd (run_intake ie raw w))"
proof (cases "intake_inv w")
  case True
  assume "others_behave ie"
  from runsD [OF ingest_runs [OF this] True surjective_pairing] show ?thesis
    unfolding run_intake_def by blast
qed (simp add: intake_step_def)

text \<open>Workers that intake findings behave: what one guarantees is what the others rely on.\<close>

lemma at_reading_behaves: "others_behave (worker name (at_reading k raw))"
  using worker_step [OF alone_behaves [of "''b''"]]
  by (simp add: others_behave_def worker_def at_reading_def)

section \<open>The properties at work\<close>

definition first_intake :: "intake_outcome res \<times> unit world" where
  "first_intake = run_intake (worker ''a'' alone) (raw_sample ''A'' ''low'') empty_world"

lemma first_result: "(case fst first_intake of Inl _ \<Rightarrow> False | Inr out \<Rightarrow> \<not> io_duplicate out)"
  by code_simp

lemma first_run:
  obtains out where "ingest (worker ''a'' alone) (raw_sample ''A'' ''low'') ''t'' default_intake_context None
      empty_world = (Inr out, snd first_intake)" "fst first_intake = Inr out" "\<not> io_duplicate out"
proof -
  from first_result obtain out where out: "fst first_intake = Inr out" "\<not> io_duplicate out"
    by (auto split: sum.splits)
  moreover from out(1) have "first_intake = (Inr out, snd first_intake)" by (metis prod.collapse)
  ultimately show thesis using that unfolding first_intake_def run_intake_def by blast
qed

theorem intake_places_findings_witness:
  "\<exists>out p. fst first_intake = Inr out \<and> sf_case_id (io_finding out) = Some (rc_case_id (io_case out)) \<and>
     rc_priority (io_case out) = Some p \<and> intake_inv (snd first_intake)"
proof -
  obtain out where out: "ingest (worker ''a'' alone) (raw_sample ''A'' ''low'') ''t'' default_intake_context None
      empty_world = (Inr out, snd first_intake)" "fst first_intake = Inr out" "\<not> io_duplicate out"
    by (rule first_run)
  from intake_places_findings [OF alone_behaves empty_inv out(1)] out(2,3) show ?thesis by blast
qed

text \<open>A replay, while another worker ingests a second finding of the asset.\<close>

theorem intake_replay_is_duplicate_witness:
  "\<exists>out w. run_intake (worker ''b'' (at_reading 14 (raw_sample ''C'' ''critical''))) (raw_sample ''A'' ''low'')
     (snd first_intake) = (Inr out, w) \<and> io_duplicate out"
proof -
  obtain out where out: "ingest (worker ''a'' alone) (raw_sample ''A'' ''low'') ''t'' default_intake_context None
      empty_world = (Inr out, snd first_intake)" "fst first_intake = Inr out" "\<not> io_duplicate out"
    by (rule first_run)
  have "env_sha256 (ie_env (worker ''b'' (at_reading 14 (raw_sample ''C'' ''critical'')))) =
      env_sha256 (ie_env (worker ''a'' alone))" by (simp add: worker_def)
  from intake_replay_is_duplicate [OF alone_behaves empty_inv out(1,3) step.refl at_reading_behaves this]
  show ?thesis unfolding run_intake_def by fastforce
qed

section \<open>Lost races\<close>

text \<open>
  The coordinator reads the case again in \<open>advance\<close>, so that its check of the version does not
  protect a decision that intake took on the case as it had read it before.
\<close>

definition score_of :: "rat \<Rightarrow> risk_assessment" where
  "score_of x = \<lparr> ra_assessment_id = ''r'', ra_score = x, ra_urgency = ''u'', ra_factors = [''f''],
                  ra_confidence = 1, ra_evidence_ids = [] \<rparr>"

definition filed_sample :: stored_finding where
  "filed_sample = \<lparr> sf_tenant_id = ''t'', sf_finding_id = ''f'', sf_provider = ''aws'',
     sf_account = ''1'', sf_original_uid = ''A'', sf_resource_uid = ''r'', sf_record = PDict [],
     sf_priority_signals = sample_signals True, sf_artifact_namespace = ''n'', sf_case_id = None \<rparr>"

definition opened_world :: "unit world" where
  "opened_world = snd (open_new \<lparr> oa_case_id = ''c'', oa_tenant_id = ''t'', oa_finding_ids = [''f''],
     oa_asset_ids = [''a''], oa_service_ids = [], oa_now = ''n'' \<rparr> empty_world)"

definition stored_case :: "unit world \<Rightarrow> remediation_case" where
  "stored_case w = projr (fst (get_case ''c'' w))"


text \<open>The retries of a worker that read the case \<open>c\<close>.\<close>

definition attempt :: "(nat \<Rightarrow> unit world \<Rightarrow> unit world) \<Rightarrow> rat \<Rightarrow> remediation_case \<Rightarrow> unit world \<Rightarrow>
    (remediation_case \<times> bool \<times> bool) res \<times> unit world" where
  "attempt others score c = intake_attempts (worker ''w'' others) ''n'' filed_sample (score_of score) 2 c False"










text \<open>
  Two workers read a case that was just opened. The one that prioritises it second fails with
  \<open>ValueError\<close>, which the retries do not catch, although it lost a race.
\<close>

definition outrunning :: "nat \<Rightarrow> unit world \<Rightarrow> unit world" where
  "outrunning n w = (if n = 1 then snd (attempt alone 40 (stored_case opened_world) w) else w)"

theorem outrun_worker_fails:
  "case fst (attempt outrunning 30 (stored_case opened_world) opened_world) of
     Inl e \<Rightarrow> e = Raise ValueError ''transition prioritize is not allowed from prioritized''
   | Inr _ \<Rightarrow> False"
  by code_simp

end
