(* ===== verification/Intake_Bounds.thy ===== *)
theory Intake_Bounds
  imports Intake Json_Roundtrip
begin

text \<open>
  How much an intake does: the readings of clock and id factory and the calls of the stores, which
  are counted by \<open>wd_tick\<close>; and what its source keys tell apart.
\<close>

section \<open>Counting calls\<close>

definition costs :: "nat \<Rightarrow> ('x world, 'a) prog \<Rightarrow> bool" where
  "costs n m = (\<forall>w. wd_tick (snd (m w)) \<le> wd_tick w + n)"

named_theorems cost_intros

lemma costs_le: "costs n m \<Longrightarrow> n \<le> k \<Longrightarrow> costs k m"
  unfolding costs_def by (meson add_left_mono order.trans)

lemma costs_bindM [cost_intros]:
  assumes "costs n m" "\<And>x. costs k (f x)"
  shows "costs (n + k) (bindM m f)"
  unfolding costs_def
proof
  fix w
  obtain r v where m: "m w = (r, v)" by (cases "m w")
  have n: "wd_tick v \<le> wd_tick w + n" using assms(1) m unfolding costs_def by (metis snd_conv)
  show "wd_tick (snd (bindM m f w)) \<le> wd_tick w + (n + k)"
  proof (cases r)
    case (Inl e)
    then show ?thesis using m n by (simp add: bindM_def)
  next
    case (Inr x)
    have "wd_tick (snd (f x v)) \<le> wd_tick v + k" using assms(2) unfolding costs_def by blast
    then show ?thesis using m n Inr by (simp add: bindM_def)
  qed
qed

lemma costs_tryM [cost_intros]:
  assumes "costs n m" "\<And>e. costs k (h e)"
  shows "costs (n + k) (tryM m cs h)"
  unfolding costs_def
proof
  fix w
  obtain r v where m: "m w = (r, v)" by (cases "m w")
  have n: "wd_tick v \<le> wd_tick w + n" using assms(1) m unfolding costs_def by (metis snd_conv)
  have k: "wd_tick (snd (h e v)) \<le> wd_tick v + k" for e using assms(2) unfolding costs_def by blast
  show "wd_tick (snd (tryM m cs h w)) \<le> wd_tick w + (n + k)"
    using n k [of "projl r"] by (auto simp: tryM_def m split: sum.splits)
qed

lemma costs_pure [cost_intros]:
  "costs 0 (ret x)" "costs 0 (raise c msg)" "costs 0 (guardM b c msg)" "costs 0 (liftE r)"
  "costs 0 (getsM f)" "costs 1 (clock_now env)" "costs 1 (new_id env p)"
  "costs 0 (make_dir d)" "costs 0 (remove_tree d)"
  "costs 0 (write_evidence env d i k pl col sens cmd n)"
  "costs 0 (on_cases mc)" "costs 0 (on_findings mf)"
  by (auto simp: costs_def run_defs clock_now_def new_id_def make_dir_def remove_tree_def
      write_evidence_def Let_def guardE_def on_cases_def on_findings_def split: prod.splits)

lemma costs_if [cost_intros]: "costs n a \<Longrightarrow> costs k b \<Longrightarrow> costs (max n k) (if c then a else b)"
  by (auto intro: costs_le)

lemma costs_case_option [cost_intros]:
  "costs n a \<Longrightarrow> (\<And>y. costs k (f y)) \<Longrightarrow> costs (max n k) (case x of None \<Rightarrow> a | Some y \<Rightarrow> f y)"
  by (cases x) (simp_all add: costs_le [OF _ max.cobounded1] costs_le [OF _ max.cobounded2])

lemma costs_case_prod [cost_intros]: "(\<And>x y. costs n (f x y)) \<Longrightarrow> costs n (case p of (x, y) \<Rightarrow> f x y)"
  by (cases p) auto

lemma costs_shared [cost_intros]:
  assumes "costs 0 m" shows "costs 1 (shared ie m)"
  unfolding costs_def shared_def
proof
  fix w
  let ?w = "(ie_others ie (wd_tick w) w)\<lparr>wd_tick := wd_tick w + 1\<rparr>"
  have "wd_tick (snd (m ?w)) \<le> wd_tick ?w + 0" using assms unfolding costs_def by blast
  then show "wd_tick (snd (m ?w)) \<le> wd_tick w + 1" by simp
qed

lemma costs_store [cost_intros]:
  "costs 1 (cs_get (shared_cases ie) i)" "costs 1 (cs_create (shared_cases ie) c)"
  "costs 1 (cs_append (shared_cases ie) p e v)" "costs 1 (cs_find_active (shared_cases ie) t a)"
  "costs 1 (shared_by_source ie t p' acc u)"
  unfolding shared_cases_def shared_by_source_def case_store_ops.simps
  by (rule costs_shared, rule costs_pure)+

lemma costs_normalise [cost_intros]: "costs 0 (normalise_ocsf env raw d i c n)"
  unfolding normalise_ocsf_def Let_def by (rule costs_le, (rule cost_intros)+) simp

section \<open>The parts of an intake\<close>

lemma costs_advance [cost_intros]: "costs 2 (workflow_advance (shared_cases ie) i t a)"
  unfolding workflow_advance_def by (rule costs_le, (rule cost_intros)+) simp

lemma costs_open [cost_intros]: "costs 1 (workflow_open (shared_cases ie) a)"
  unfolding workflow_open_def by (rule costs_le, (rule cost_intros)+) simp

lemma costs_attach [cost_intros]: "costs 3 (attach_if_missing ie now f c)"
  unfolding attach_if_missing_def attach_finding_def by (rule costs_le, (rule cost_intros)+) simp

lemma costs_prioritise [cost_intros]: "costs 4 (prioritise ie now r c)"
  unfolding prioritise_def by (rule costs_le, (rule cost_intros)+) simp

lemma costs_attempt [cost_intros]: "costs n m \<Longrightarrow> costs n (attempt_once left m)"
  unfolding attempt_once_def by (rule costs_le, (rule cost_intros | assumption)+) simp

lemma costs_attempts: "costs (7 + 8 * left) (intake_attempts ie now f r left c att)"
proof (induction left arbitrary: c att)
  case 0
  show ?case unfolding intake_attempts.simps [of _ _ _ _ 0] Let_def nat.case
    by (rule costs_le, (rule cost_intros)+) simp
next
  case (Suc n)
  show ?case unfolding intake_attempts.simps [of _ _ _ _ "Suc n"] Let_def nat.case
    by (rule costs_le, (rule cost_intros Suc.IH)+) simp
qed

lemma costs_join [cost_intros]: "costs 6 (open_or_join ie t now ctx f a)"
  unfolding open_or_join_def by (rule costs_le, (rule cost_intros)+) simp

lemma costs_store_finding [cost_intros]: "costs 4 (store_finding ie raw t p acc u ctx ac)"
  unfolding store_finding_def Let_def by (rule costs_le, (rule cost_intros)+) simp

lemma costs_attach_all [cost_intros]: "costs 33 (attach_and_prioritise ie t ctx f b)"
  unfolding attach_and_prioritise_def
  by (rule costs_le, (rule cost_intros costs_attempts)+) simp

lemma costs_existing [cost_intros]: "costs 2 (find_existing ie raw t p acc u)"
  unfolding find_existing_def by (rule costs_le, (rule cost_intros)+) simp

section \<open>Properties\<close>

text \<open>C27: An intake ends, whatever the other workers do: it makes at most 39 readings of clock and id
  factory and calls of the stores, three attempts at its events included.\<close>

theorem intake_makes_bounded_calls:
  "wd_tick (snd (ingest ie raw t ctx ac w)) \<le> wd_tick w + 39"
proof -
  have nested: "costs 33 (case i of Some (c # cs) \<Rightarrow>
        bindM (cs_get (shared_cases ie) (c # cs)) (\<lambda>current. ret (mk current))
      | _ \<Rightarrow> attach_and_prioritise ie t ctx f False)" for i f mk
    by (cases i; cases "the i") (auto intro!: costs_le [OF costs_bindM] intro: cost_intros)
  have "costs 39 (ingest ie raw t ctx ac)"
    unfolding ingest_def by (rule costs_le, (rule cost_intros nested)+) simp
  then show ?thesis unfolding costs_def by blast
qed

section \<open>Source keys\<close>

lemma scoped_identity_text:
  assumes "canonical_json (scoped_identity u r s) = canonical_json (scoped_identity u' r' s')"
  shows "u = u' \<and> r = r' \<and> s = s'"
proof -
  have "plain (scoped_identity u r s)" for u r s by (simp add: scoped_identity_def)
  then have "json_loads (canonical_json (scoped_identity u r s)) = Some (canon (scoped_identity u r s))" for u r s
    by (rule json_loads_canonical)
  with assms have "canon (scoped_identity u r s) = canon (scoped_identity u' r' s')"
    by (metis option.inject)
  then have "dict_get (json_dict (dict_items (scoped_identity u r s))) k =
      dict_get (json_dict (dict_items (scoped_identity u' r' s'))) k" for k
    by (simp add: scoped_identity_def canon_dict dict_items_def del: canon.simps)
  from this [of "''uid''"] this [of "''rule_id''"] this [of "''resource_uid''"] show ?thesis
    by (simp add: dict_get_json scoped_identity_def dict_items_def)
qed

lemma prowler_source:
  assumes "source_identity env raw = Inr (p, acc, key)" "from_prowler raw = Inr True"
  obtains u r s rg where "raw_uid_of raw = Inr (PStr u)" "finding_rule_id raw = Inr r"
    "cloud_target raw = Inr (p, PStr s, rg)" "u \<noteq> []" "r \<noteq> []" "s \<noteq> []"
    "key = ''prowler:'' @ env_sha256 env (canonical_json (scoped_identity u r s))"
proof -
  have str: "is_name v \<Longrightarrow> v = PStr (as_str v) \<and> as_str v \<noteq> []" for v
    by (cases v) (simp_all add: is_name_def as_str_def)
  from assms obtain u0 r s0 rg where
    *: "raw_uid_of raw = Inr u0" "finding_rule_id raw = Inr r" "cloud_target raw = Inr (p, s0, rg)"
      "missing_names [(''uid'', u0), (''rule_id'', PStr r), (''resource_uid'', s0)] = []"
      "key = ''prowler:'' @ env_sha256 env (canonical_json (scoped_identity (as_str u0) r (as_str s0)))"
    unfolding source_identity_def Let_def by (auto simp: res_simps)
  then have "is_name u0" "is_name (PStr r)" "is_name s0" by (auto simp: missing_names_def split: if_splits)
  with str [of u0] str [of "PStr r"] str [of s0] * show thesis
    by (intro that [of "as_str u0" r "as_str s0" rg]) (auto simp: as_str_def)
qed

text \<open>A Prowler finding's source key binds the producer's id, the rule and the resource: two
  Prowler findings that get the same key agree on all three, unless their identities are a
  collision of SHA-256.\<close>

theorem prowler_key_binds_rule_and_resource:
  assumes "source_identity env raw = Inr (p, acc, key)" "source_identity env raw' = Inr (p', acc', key)"
    and "from_prowler raw = Inr True" "from_prowler raw' = Inr True"
  shows "(raw_uid_of raw = raw_uid_of raw' \<and> finding_rule_id raw = finding_rule_id raw' \<and>
      map_sum id (fst \<circ> snd) (cloud_target raw) = map_sum id (fst \<circ> snd) (cloud_target raw')) \<or>
    (\<exists>a b. a \<noteq> b \<and> env_sha256 env a = env_sha256 env b)"
proof -
  obtain u r s rg where 1: "raw_uid_of raw = Inr (PStr u)" "finding_rule_id raw = Inr r"
    "cloud_target raw = Inr (p, PStr s, rg)"
    "key = ''prowler:'' @ env_sha256 env (canonical_json (scoped_identity u r s))"
    by (rule prowler_source [OF assms(1,3)])
  obtain u' r' s' rg' where 2: "raw_uid_of raw' = Inr (PStr u')" "finding_rule_id raw' = Inr r'"
    "cloud_target raw' = Inr (p', PStr s', rg')"
    "key = ''prowler:'' @ env_sha256 env (canonical_json (scoped_identity u' r' s'))"
    by (rule prowler_source [OF assms(2,4)])
  have hash: "env_sha256 env (canonical_json (scoped_identity u r s)) =
      env_sha256 env (canonical_json (scoped_identity u' r' s'))"
    using 1(4) 2(4) by simp
  show ?thesis
  proof (cases "canonical_json (scoped_identity u r s) = canonical_json (scoped_identity u' r' s')")
    case True
    from scoped_identity_text [OF this] 1 2 show ?thesis by simp
  next
    case False
    with hash show ?thesis by blast
  qed
qed

definition prowler_sample :: "string \<Rightarrow> raw_finding" where
  "prowler_sample resource =
     [(''metadata'', PDict [(''product'', PDict [(''name'', PStr ''Prowler'')]), (''event_code'', PStr ''rule'')]),
      (''finding_info'', PDict [(''uid'', PStr ''uid'')]),
      (''cloud'', PDict [(''provider'', PStr ''aws''), (''account'', PDict [(''uid'', PStr ''1'')])]),
      (''resources'', PList [PDict [(''uid'', PStr resource)]])]"

definition prowler_env :: env where
  "prowler_env = \<lparr> env_now = (\<lambda>n. ''''), env_id = (\<lambda>n pre. pre), env_sha256 = id \<rparr>"

theorem prowler_key_binds_rule_and_resource_witness:
  "source_identity prowler_env (prowler_sample ''r1'') \<noteq> source_identity prowler_env (prowler_sample ''r2'')"
proof
  assume same: "source_identity prowler_env (prowler_sample ''r1'') = source_identity prowler_env (prowler_sample ''r2'')"
  have "is_ok (source_identity prowler_env (prowler_sample ''r1''))" by code_simp
  then obtain p acc key where "source_identity prowler_env (prowler_sample ''r1'') = Inr (p, acc, key)"
    by (auto simp: is_ok_iff)
  moreover have "from_prowler (prowler_sample ''r1'') = Inr True" "from_prowler (prowler_sample ''r2'') = Inr True"
    by code_simp+
  moreover have "env_sha256 prowler_env a = env_sha256 prowler_env b \<Longrightarrow> a = b" for a b
    by (simp add: prowler_env_def)
  ultimately have "map_sum id (fst \<circ> snd) (cloud_target (prowler_sample ''r1'')) =
      map_sum id (fst \<circ> snd) (cloud_target (prowler_sample ''r2''))"
    using prowler_key_binds_rule_and_resource [of prowler_env "prowler_sample ''r1''" p acc key
        "prowler_sample ''r2''" p acc] same by auto
  moreover have "cloud_target (prowler_sample x) = Inr (''aws'', PStr x, '''')" for x
    by (simp add: cloud_target_def prowler_sample_def pget_def get_or_def or_dict_def resources_of_def py_str_def
        dict_items_def dict_get_attr_def as_str_def Let_def str_lower_def py_str_def)
      (simp add: char_lower_def upper_letters_def lower_letters_def)
  ultimately show False by simp
qed

end
