(* ===== verification/Sample_Worlds.thy ===== *)
theory Sample_Worlds
  imports Case_Properties Service_Logic Intake_Races
begin

text \<open>
  Concrete environments, cases and worlds, shared by the theories that put the properties of the
  services to work.
\<close>

section \<open>An environment\<close>

definition steady_env :: env where
  "steady_env = \<lparr> env_now = (\<lambda>n. ''2026-01-01T01:00:00Z''),
     env_id = (\<lambda>n p. filter (\<lambda>c. c \<noteq> CHR ''/'') p @ ''-'' @ replicate (n + 3) (CHR ''1'')),
     env_sha256 = (\<lambda>s. ''hash'') \<rparr>"

lemma digits_of_replicate: "takeWhile (\<lambda>c. c = CHR ''1'') (replicate k (CHR ''1'') @ CHR ''-'' # xs) = replicate k (CHR ''1'')"
  by (induction k) auto

lemma steady_id_count:
  "length (takeWhile (\<lambda>c. c = CHR ''1'') (rev (env_id steady_env n p))) = n + 3"
  by (simp add: steady_env_def digits_of_replicate del: replicate.simps)

lemma steady_ids_distinct: "env_id steady_env n p = env_id steady_env m q \<Longrightarrow> n = m"
  using steady_id_count [of n p] steady_id_count [of m q] by simp

lemma steady_env_ok: "env_ok steady_env"
proof -
  have "evidence_id_ok (env_id steady_env n ''EVD'')" for n
    by (simp add: steady_env_def evidence_id_ok_def evidence_id_body_def list_all_iff is_digit_def)
  moreover have "env_id steady_env n p \<noteq> []" "CHR ''/'' \<notin> set (env_id steady_env n p)"
    "env_now steady_env n \<noteq> []" for n p
    by (simp_all add: steady_env_def)
  ultimately show ?thesis unfolding env_ok_def using steady_ids_distinct by blast
qed

section \<open>A case on its way\<close>

text \<open>Stages with short ids, up to the one that awaits an approval.\<close>

definition brief_args :: "string \<Rightarrow> string \<Rightarrow> transition_args" where
  "brief_args e k = basic_args e ''2026-01-01T00:00:00Z'' ''m'' [(k, ''v'')] []"

definition awaiting_stages :: "(case_transition \<times> transition_args) list" where
  "awaiting_stages =
     [(PRIORITIZE, (brief_args ''a'' ''risk_assessment_id'')\<lparr>ta_priority := Some sample_risk\<rparr>),
      (VALIDATE, brief_args ''b'' ''validation_result_id''),
      (PREPARE_PLAN, (brief_args ''d'' ''change_plan_id'')\<lparr>ta_change_plan := Some sample_plan\<rparr>),
      (APPROVE_SRE, brief_args ''e'' ''sre_review_id''),
      (SELECT_WINDOW, (brief_args ''f'' ''change_window_id'')\<lparr>ta_change_window := Some sample_window\<rparr>),
      (REVIEW_ROLLBACK, brief_args ''g'' ''rollback_review_id''),
      (REQUEST_APPROVAL, (brief_args ''h'' ''policy_decision_id'')
         \<lparr>ta_record_ids := [(''policy_decision_id'', ''v''), (''human_review_package_id'', ''u'')]\<rparr>)]"

fun advances :: "string \<Rightarrow> (case_transition \<times> transition_args) list \<Rightarrow> ('x world, unit) prog" where
  "advances i [] = ret ()"
| "advances i ((t, a) # xs) = bindM (advance i t a) (\<lambda>_. advances i xs)"

definition bound_record :: "string \<Rightarrow> pyval \<Rightarrow> product_record" where
  "bound_record i body = \<lparr> pr_record_id = i, pr_case_id = ''c'', pr_record_type = ''T'',
     pr_schema_version = 1, pr_created_at = ''n'', pr_body = body, pr_evidence_ids = [] \<rparr>"

definition open_sample :: "(unit world, remediation_case) prog" where
  "open_sample = open_new \<lparr> oa_case_id = ''c'', oa_tenant_id = ''t'', oa_finding_ids = [''f1''],
     oa_asset_ids = [''i''], oa_service_ids = [], oa_now = ''2026-01-01T00:00:00Z'' \<rparr>"

section \<open>Their stores are in order\<close>

lemma empty_world_ok: "world_ok empty_world"
  using empty_inv by (simp add: world_ok_def intake_inv_def)
    (simp add: empty_world_def sql_record_ok_def jobs_ok_def)

lemma sample_parts_ok:
  "is_ok (mk_risk_assessment sample_risk)" "is_ok (mk_change_plan sample_plan)"
  "is_ok (mk_change_window sample_window)"
  by code_simp+

lemma keeps_advances: "list_all (args_ok \<circ> snd) xs \<Longrightarrow> keeps world_ok (advances i xs)"
  by (induction i xs rule: advances.induct) (auto intro!: keeps_intros)

lemma awaiting_stages_ok: "list_all (args_ok \<circ> snd) awaiting_stages"
  by (simp add: awaiting_stages_def brief_args_def args_ok_def basic_args_def sample_parts_ok)

end
