(* ===== verification/Agents.thy ===== *)
theory Agents
  imports World
begin

text \<open>
  \<open>src/elcapitan/agents.py\<close>: the contract between the workflow and the agents it dispatches. A
  runtime is any computation over the world, since an adapter may keep records of its own; the
  workflow trusts nothing it says about itself and checks every result with \<open>validate_result\<close>.
  Freezing makes a value read-only and is the identity here. The citations of a result are
  texts.
\<close>

section \<open>Looking into documents\<close>

text \<open>\<open>v[k]\<close> with a text as the key.\<close>

definition item :: "pyval \<Rightarrow> string \<Rightarrow> pyval res" where
  "item v k =
     (case v of
        PDict d \<Rightarrow> (case dict_get d k of None \<Rightarrow> Inl (Raise KeyError k) | Some x \<Rightarrow> Inr x)
      | PList xs \<Rightarrow> Inl (Raise TypeError ''list indices must be integers or slices, not str'')
      | PStr s \<Rightarrow> Inl (Raise TypeError (''string indices must be integers, not '' @ repr_str ''str''))
      | _ \<Rightarrow> Inl (Raise TypeError ''object is not subscriptable''))"

lemma item_dict_Inr [res_simps]: "item v k = Inr x \<longleftrightarrow> (\<exists>d. v = PDict d \<and> dict_get d k = Some x)"
  by (cases v) (auto simp: item_def split: option.splits)

definition item_text :: "pyval \<Rightarrow> string \<Rightarrow> string res" where
  "item_text v k =
     bindE (item v k) (\<lambda>x.
     bindE (guardE (is_str x) TypeError ''can only concatenate str to str'') (\<lambda>_. Inr (as_str x)))"

text \<open>A list of texts from a document.\<close>

definition text_items :: "pyval \<Rightarrow> string list res" where
  "text_items v =
     (case v of
        PList xs \<Rightarrow> mapE (\<lambda>x. bindE (guardE (is_str x) TypeError
                       ''sequence item: expected str instance'') (\<lambda>_. Inr (as_str x))) xs
      | PStr s \<Rightarrow> Inr (map (\<lambda>c. [c]) s)
      | PDict d \<Rightarrow> Inr (map fst d)
      | _ \<Rightarrow> Inl (Raise TypeError ''object is not iterable''))"

section \<open>Tasks and results\<close>

datatype agent_role =
    PRIORITIZER | VALIDATOR | REMEDIATION_ENGINEER | SRE_REVIEWER | WINDOW_PLANNER
  | ROLLBACK_VERIFIER | RELEASE_AUDITOR

fun agent_role_value :: "agent_role \<Rightarrow> string" where
  "agent_role_value PRIORITIZER = ''prioritizer''"
| "agent_role_value VALIDATOR = ''validator''"
| "agent_role_value REMEDIATION_ENGINEER = ''remediation_engineer''"
| "agent_role_value SRE_REVIEWER = ''sre_reviewer''"
| "agent_role_value WINDOW_PLANNER = ''window_planner''"
| "agent_role_value ROLLBACK_VERIFIER = ''rollback_verifier''"
| "agent_role_value RELEASE_AUDITOR = ''release_auditor''"

datatype agent_result_status = SUCCEEDED | NEEDS_MORE_EVIDENCE | NEEDS_HUMAN_CONTEXT | FAILED

fun agent_status_value :: "agent_result_status \<Rightarrow> string" where
  "agent_status_value SUCCEEDED = ''succeeded''"
| "agent_status_value NEEDS_MORE_EVIDENCE = ''needs_more_evidence''"
| "agent_status_value NEEDS_HUMAN_CONTEXT = ''needs_human_context''"
| "agent_status_value FAILED = ''failed''"

definition agent_status_of :: "pyval \<Rightarrow> agent_result_status res" where
  "agent_status_of v =
     (case find (\<lambda>s. v = PStr (agent_status_value s))
             [SUCCEEDED, NEEDS_MORE_EVIDENCE, NEEDS_HUMAN_CONTEXT, FAILED] of
        None \<Rightarrow> Inl (Raise ValueError (py_repr v @ '' is not a valid AgentResultStatus''))
      | Some s \<Rightarrow> Inr s)"

record agent_task =
  at_task_id :: string
  at_case_id :: string
  at_role :: agent_role
  at_objective :: string
  at_output_contract :: string
  at_input_record_ids :: "string list"
  at_evidence_ids :: "string list"
  at_constraints :: "string list"
  at_metadata :: "(string, pyval) dict"

definition mk_agent_task :: "agent_task \<Rightarrow> agent_task res" where
  "mk_agent_task t =
     bindE (guardE (at_task_id t \<noteq> [] \<and> at_case_id t \<noteq> [] \<and> at_objective t \<noteq> []) ValueError
              ''agent task requires task id, case id, and objective'') (\<lambda>_.
     bindE (guardE (at_output_contract t \<noteq> []) ValueError
              ''agent task requires a named output contract'') (\<lambda>_.
     Inr t))"

record agent_result =
  ar_task_id :: string
  ar_case_id :: string
  ar_role :: agent_role
  ar_status :: agent_result_status
  ar_output :: "(string, pyval) dict"
  ar_evidence_cited :: "string list"
  ar_missing_evidence :: "string list"
  ar_runtime :: string
  ar_model :: string
  ar_started_at :: string
  ar_completed_at :: string
  ar_usage :: pyval

definition mk_agent_result :: "agent_result \<Rightarrow> agent_result res" where
  "mk_agent_result r =
     bindE (guardE (ar_task_id r \<noteq> [] \<and> ar_case_id r \<noteq> [] \<and> ar_runtime r \<noteq> []) ValueError
              ''agent result requires task id, case id, and runtime'') (\<lambda>_.
     Inr r)"

text \<open>The protocol \<open>AgentRuntime\<close>.\<close>

record 'x agent_runtime =
  rt_name :: string
  rt_run :: "agent_task \<Rightarrow> ('x world, agent_result) prog"

section \<open>What a runtime is not trusted with\<close>

text \<open>\<open>sorted(set(xs) - set(ys))\<close>.\<close>

definition set_minus :: "string list \<Rightarrow> string list \<Rightarrow> string list" where
  "set_minus xs ys = sort (filter (\<lambda>x. x \<notin> set ys) (dedup xs))"

lemma set_minus_empty [simp]: "set_minus xs ys = [] \<longleftrightarrow> set xs \<subseteq> set ys"
proof -
  have "set_minus xs ys = [] \<longleftrightarrow> set (set_minus xs ys) = {}" by (cases "set_minus xs ys") auto
  then show ?thesis by (auto simp: set_minus_def)
qed

definition validate_result :: "agent_task \<Rightarrow> agent_result \<Rightarrow> string list" where
  "validate_result task r =
     (let unknown = set_minus (ar_evidence_cited r) (at_evidence_ids task)
      in (if ar_task_id r \<noteq> at_task_id task
            then [''agent result task_id does not match the dispatched task''] else [])
       @ (if ar_case_id r \<noteq> at_case_id task
            then [''agent result case_id does not match the dispatched task''] else [])
       @ (if ar_role r \<noteq> at_role task
            then [''agent result role does not match the dispatched task''] else [])
       @ (if unknown \<noteq> []
            then [''agent result cites evidence it was not supplied: '' @ str_join '', '' unknown] else [])
       @ (if ar_status r = SUCCEEDED \<and> ar_missing_evidence r \<noteq> []
            then [''a succeeded agent result cannot also report missing evidence''] else [])
       @ (if ar_status r = NEEDS_MORE_EVIDENCE \<and> ar_missing_evidence r = []
            then [''needs_more_evidence must name the missing evidence''] else []))"

lemma validate_result_Nil:
  "validate_result task r = [] \<longleftrightarrow>
     ar_task_id r = at_task_id task \<and> ar_case_id r = at_case_id task \<and> ar_role r = at_role task \<and>
     set (ar_evidence_cited r) \<subseteq> set (at_evidence_ids task) \<and>
     (ar_status r = SUCCEEDED \<longrightarrow> ar_missing_evidence r = []) \<and>
     (ar_status r = NEEDS_MORE_EVIDENCE \<longrightarrow> ar_missing_evidence r \<noteq> [])"
  by (simp add: validate_result_def Let_def)

section \<open>Runtimes of the module\<close>

text \<open>\<open>RecordedContractRuntime\<close> replays a recorded document for each contract.\<close>

definition recorded_run ::
  "env \<Rightarrow> (string, (string, pyval) dict) dict \<Rightarrow> agent_task \<Rightarrow> ('x world, agent_result) prog" where
  "recorded_run env documents task =
     (case dict_get documents (at_output_contract task) of
        None \<Rightarrow> raise ValueError (''no recorded result supplied for '' @ at_output_contract task)
      | Some document \<Rightarrow>
          let output = get_or document ''output'' (PDict document);
              text_or = (\<lambda>k d. if truthy (pget document k) then py_str (pget document k) else d)
          in bindM (guardM (is_dict output) ValueError
                      (''recorded '' @ at_output_contract task @ '' output must be an object'')) (\<lambda>_.
             bindM (clock_now env) (\<lambda>timestamp.
             bindM (liftE (agent_status_of (get_or document ''status'' (PStr ''succeeded'')))) (\<lambda>status.
             bindM (liftE (text_items (get_or document ''evidence_cited'' (str_list (at_evidence_ids task)))))
               (\<lambda>cited.
             bindM (liftE (text_items (get_or document ''missing_evidence'' (PList [])))) (\<lambda>missing.
             liftE (mk_agent_result
               \<lparr> ar_task_id = at_task_id task, ar_case_id = at_case_id task, ar_role = at_role task,
                 ar_status = status, ar_output = dict_items output, ar_evidence_cited = cited,
                 ar_missing_evidence = missing,
                 ar_runtime = text_or ''runtime'' ''recorded-contract-results'',
                 ar_model = text_or ''model'' ''recorded'',
                 ar_started_at = text_or ''started_at'' timestamp,
                 ar_completed_at = text_or ''completed_at'' timestamp,
                 ar_usage = get_or document ''usage'' (PDict []) \<rparr>)))))))"

definition recorded_runtime ::
  "env \<Rightarrow> (string, (string, pyval) dict) dict \<Rightarrow> 'x agent_runtime" where
  "recorded_runtime env documents =
     \<lparr> rt_name = ''recorded-contract-results'', rt_run = recorded_run env documents \<rparr>"

text \<open>\<open>RoleRoutedRuntime\<close> sends each role to the runtime configured for it.\<close>

definition role_routed_run ::
  "(agent_role, 'x agent_runtime) dict \<Rightarrow> 'x agent_runtime option \<Rightarrow> agent_task \<Rightarrow>
   ('x world, agent_result) prog" where
  "role_routed_run routes dflt task =
     (case dict_get routes (at_role task) of
        Some rt \<Rightarrow> rt_run rt task
      | None \<Rightarrow> (case dflt of
           Some rt \<Rightarrow> rt_run rt task
         | None \<Rightarrow> raise ValueError
             (''no agent runtime is configured for role '' @ agent_role_value (at_role task))))"

definition mk_role_routed ::
  "(agent_role, 'x agent_runtime) dict \<Rightarrow> 'x agent_runtime option \<Rightarrow> 'x agent_runtime res" where
  "mk_role_routed routes dflt =
     bindE (guardE (routes \<noteq> [] \<or> dflt \<noteq> None) ValueError
              ''role-routed runtime requires at least one route'') (\<lambda>_.
     Inr \<lparr> rt_name = ''role-routed-runtime'', rt_run = role_routed_run routes dflt \<rparr>)"

text \<open>A recorded result answers its task, and satisfies it unless it cites what it was not given.\<close>

lemma recorded_run_answers:
  assumes "recorded_run env documents task w = (Inr r, w')"
  shows "ar_task_id r = at_task_id task \<and> ar_case_id r = at_case_id task \<and> ar_role r = at_role task"
  using assms
  by (auto simp: recorded_run_def Let_def run_simps mk_agent_result_def res_simps split: option.splits)

end
