(* ===== verification/Agent_Contracts.thy ===== *)
theory Agent_Contracts
  imports Agents
begin

text \<open>
  \<open>src/elcapitan/agent_contracts.py\<close>: the JSON schemas of what each role may answer. The validator
  of the library \<open>jsonschema\<close> is a parameter: from a schema and a document it gives the errors,
  each the path to the offending value and a message.
\<close>

type_synonym schema_errors = "pyval \<Rightarrow> pyval \<Rightarrow> (string list \<times> string) list"

section \<open>The schemas\<close>

definition schema_obj :: "(string \<times> pyval) list \<Rightarrow> string list \<Rightarrow> pyval" where
  "schema_obj properties required = PDict
     [(''type'', PStr ''object''), (''additionalProperties'', PBool False),
      (''properties'', PDict properties), (''required'', str_list required)]"

definition schema_text :: pyval where
  "schema_text = PDict [(''type'', PStr ''string''), (''minLength'', PInt 1)]"

definition string_array :: pyval where
  "string_array = PDict [(''type'', PStr ''array''), (''items'', schema_text)]"

definition schema_enum :: "string list \<Rightarrow> pyval" where
  "schema_enum vs = PDict [(''type'', PStr ''string''), (''enum'', str_list vs)]"

definition review_string_array :: pyval where
  "review_string_array = PDict
     [(''type'', PStr ''array''), (''maxItems'', PInt 6),
      (''description'', PStr ''Concrete evidence-grounded review statements; never placeholders.''),
      (''items'', PDict
         [(''type'', PStr ''string''), (''minLength'', PInt 1), (''maxLength'', PInt 500),
          (''description'', PStr (''A concrete evidence-grounded statement; never placeholder, TBD, ''
             @ ''TODO, N/A, none, or unknown.''))])]"

definition terraform_remediation_proposal :: pyval where
  "terraform_remediation_proposal = schema_obj
     [(''objective'', schema_text),
      (''files'', PDict
         [(''type'', PStr ''array''), (''minItems'', PInt 1),
          (''items'', schema_obj [(''path'', schema_text), (''content'', schema_text)]
                        [''path'', ''content''])]),
      (''prerequisites'', string_array), (''steps'', string_array),
      (''rollout_steps'', string_array), (''verification_steps'', string_array),
      (''rollback_steps'', string_array), (''rollback_triggers'', string_array),
      (''blast_radius'', string_array)]
     [''objective'', ''files'', ''prerequisites'', ''steps'', ''rollout_steps'',
      ''verification_steps'', ''rollback_steps'', ''rollback_triggers'', ''blast_radius'']"

definition review_summary :: pyval where
  "review_summary = PDict
     [(''type'', PStr ''string''), (''minLength'', PInt 1), (''maxLength'', PInt 1500),
      (''description'', PStr (''Required concise, concrete, evidence-based review rationale. ''
         @ ''Never empty and never a placeholder.''))]"

definition sre_review :: pyval where
  "sre_review = schema_obj
     [(''decision'', schema_enum [''approve'', ''reject'', ''needs_human_context'']),
      (''risk_level'', schema_enum [''low'', ''medium'', ''high'', ''critical'']),
      (''summary'', review_summary), (''dependencies'', review_string_array),
      (''failure_modes'', review_string_array), (''required_controls'', review_string_array),
      (''verification_requirements'', review_string_array)]
     [''decision'', ''risk_level'', ''summary'', ''dependencies'', ''failure_modes'',
      ''required_controls'', ''verification_requirements'']"

definition change_window_selection :: pyval where
  "change_window_selection = schema_obj
     [(''selected_candidate_id'', schema_text), (''rationale'', string_array),
      (''confidence'', PDict [(''type'', PStr ''number''), (''minimum'', PInt 0), (''maximum'', PInt 1)]),
      (''risks'', string_array)]
     [''selected_candidate_id'', ''rationale'', ''confidence'', ''risks'']"

definition rollback_review :: pyval where
  "rollback_review = schema_obj
     [(''decision'', schema_enum [''approve'', ''reject'', ''needs_human_context'']),
      (''summary'', review_summary), (''verified_steps'', review_string_array),
      (''trigger_coverage'', review_string_array), (''failure_modes'', review_string_array),
      (''required_changes'', review_string_array)]
     [''decision'', ''summary'', ''verified_steps'', ''trigger_coverage'', ''failure_modes'',
      ''required_changes'']"

definition post_change_review :: pyval where
  "post_change_review = schema_obj
     [(''decision'', schema_enum [''accept'', ''rollback'', ''needs_human_context'']),
      (''summary'', schema_text), (''validated_outcomes'', string_array),
      (''residual_risks'', string_array), (''handoff_notes'', string_array)]
     [''decision'', ''summary'', ''validated_outcomes'', ''residual_risks'', ''handoff_notes'']"

definition output_contracts :: "(string, pyval) dict" where
  "output_contracts =
     [(''TerraformRemediationProposal.v1'', terraform_remediation_proposal),
      (''IaCRemediationProposal.v1'', terraform_remediation_proposal),
      (''SREReview.v1'', sre_review),
      (''ChangeWindowSelection.v1'', change_window_selection),
      (''RollbackReview.v1'', rollback_review),
      (''PostChangeReview.v1'', post_change_review)]"

section \<open>Validation\<close>

definition output_schema :: "string \<Rightarrow> pyval res" where
  "output_schema contract =
     (case dict_get output_contracts contract of
        None \<Rightarrow> Inl (Raise ValueError (''unknown agent output contract: '' @ contract))
      | Some s \<Rightarrow> Inr s)"

definition agent_result_schema :: "string \<Rightarrow> pyval res" where
  "agent_result_schema contract =
     bindE (output_schema contract) (\<lambda>output.
     Inr (schema_obj
       [(''status'', schema_enum [''succeeded'', ''needs_more_evidence'', ''needs_human_context'', ''failed'']),
        (''output'', output), (''evidence_cited'', string_array), (''missing_evidence'', string_array)]
       [''status'', ''output'', ''evidence_cited'', ''missing_evidence'']))"

definition error_text :: "string list \<times> string \<Rightarrow> string" where
  "error_text e = (let p = str_join ''/'' (fst e) in (if p = [] then ''<root>'' else p) @ '': '' @ snd e)"

definition validate_output :: "schema_errors \<Rightarrow> string \<Rightarrow> pyval \<Rightarrow> string list res" where
  "validate_output schema contract document =
     bindE (output_schema contract) (\<lambda>s. Inr (map error_text (sort_key fst (schema s document))))"

lemma validate_output_Nil:
  "validate_output schema contract document = Inr [] \<longleftrightarrow>
     (\<exists>s. output_schema contract = Inr s \<and> schema s document = [])"
proof -
  have "sort_key fst es = [] \<longleftrightarrow> es = []" for es :: "(string list \<times> string) list"
    by (metis length_0_conv length_sort)
  then show ?thesis by (auto simp: validate_output_def res_simps)
qed

end
