(* ===== verification/Action_Records.thy ===== *)
theory Action_Records
  imports Agent_Contracts Json
begin

text \<open>
  The data of \<open>src/elcapitan/action_plane.py\<close>: approvals, rejections, the execution context and
  what the adapters (change driver, health monitor, probes) report. A payload that is \<open>None\<close> and
  an empty one are told apart nowhere in the sources; both are the empty dictionary here.
\<close>

section \<open>Verified decisions of humans\<close>

record verified_approval =
  va_approval_id :: string
  va_case_id :: string
  va_review_package_id :: string
  va_approver :: string
  va_authenticated_at :: string
  va_expires_at :: string
  va_authentication_method :: string
  va_statement :: string

text \<open>\<open>asdict\<close>.\<close>

definition approval_fields :: "verified_approval \<Rightarrow> (string \<times> string) list" where
  "approval_fields a =
     [(''approval_id'', va_approval_id a), (''case_id'', va_case_id a),
      (''review_package_id'', va_review_package_id a), (''approver'', va_approver a),
      (''authenticated_at'', va_authenticated_at a), (''expires_at'', va_expires_at a),
      (''authentication_method'', va_authentication_method a), (''statement'', va_statement a)]"

definition missing_fields :: "(string \<times> string) list \<Rightarrow> string list" where
  "missing_fields fs = map fst (filter (\<lambda>f. snd f = []) fs)"

definition mk_verified_approval :: "verified_approval \<Rightarrow> verified_approval res" where
  "mk_verified_approval a =
     (let missing = missing_fields (approval_fields a)
      in bindE (guardE (missing = []) ValueError
                  (''verified approval is missing: '' @ str_join '', '' missing)) (\<lambda>_.
         bindE (parse_timestamp (va_expires_at a)) (\<lambda>expires.
         bindE (parse_timestamp (va_authenticated_at a)) (\<lambda>authenticated.
         bindE (guardE (\<not> expires \<le> authenticated) ValueError
                  ''approval expiry must follow authentication'') (\<lambda>_.
         Inr a)))))"

record verified_rejection =
  vr_rejection_id :: string
  vr_case_id :: string
  vr_review_package_id :: string
  vr_approver :: string
  vr_authenticated_at :: string
  vr_authentication_method :: string
  vr_reason :: string
  vr_statement :: string

definition rejection_fields :: "verified_rejection \<Rightarrow> (string \<times> string) list" where
  "rejection_fields a =
     [(''rejection_id'', vr_rejection_id a), (''case_id'', vr_case_id a),
      (''review_package_id'', vr_review_package_id a), (''approver'', vr_approver a),
      (''authenticated_at'', vr_authenticated_at a),
      (''authentication_method'', vr_authentication_method a), (''reason'', vr_reason a),
      (''statement'', vr_statement a)]"

definition mk_verified_rejection :: "verified_rejection \<Rightarrow> verified_rejection res" where
  "mk_verified_rejection a =
     (let missing = missing_fields (rejection_fields a)
      in bindE (guardE (missing = []) ValueError
                  (''verified rejection is missing: '' @ str_join '', '' missing)) (\<lambda>_.
         Inr a))"

record decision_outcome =
  do_case :: remediation_case
  do_record :: product_record

section \<open>The context of an execution\<close>

record execution_context =
  ex_case :: remediation_case
  ex_plan :: product_record
  ex_link :: product_record
  ex_approval :: product_record
  ex_window :: product_record
  ex_artifact_root :: string

text \<open>The findings that the approved plan covers.\<close>

definition scoped_ids :: "pyval \<Rightarrow> string list res" where
  "scoped_ids scope =
     (let bad = Raise ActionPlaneError ''approved plan has an invalid finding scope''
      in if \<not> is_dict scope then Inl bad
         else let ids = list_items (pget (dict_items scope) ''finding_ids'')
              in if is_list (pget (dict_items scope) ''finding_ids'') \<and> ids \<noteq> [] \<and>
                    list_all is_name ids \<and> distinct ids
                 then Inr (map as_str ids) else Inl bad)"

definition approved_finding_ids :: "execution_context \<Rightarrow> string list res" where
  "approved_finding_ids ctx =
     (let body = dict_items (pr_body (ex_plan ctx))
      in if \<not> dict_has body ''scope'' then Inr (rc_finding_ids (ex_case ctx))
         else bindE (scoped_ids (pget body ''scope'')) (\<lambda>ids.
              let unknown = filter (\<lambda>i. i \<notin> set (rc_finding_ids (ex_case ctx))) ids
              in bindE (guardE (unknown = []) ActionPlaneError
                          (''approved plan references findings outside the case: ''
                           @ str_join '', '' unknown)) (\<lambda>_.
                 Inr ids)))"

section \<open>What the adapters report\<close>

record action_step =
  as_name :: string
  as_passed :: bool
  as_detail :: string
  as_payload :: "(string, pyval) dict"

definition action_step_to_dict :: "action_step \<Rightarrow> pyval" where
  "action_step_to_dict s = PDict
     [(''name'', PStr (as_name s)), (''passed'', PBool (as_passed s)),
      (''detail'', PStr (as_detail s)), (''payload'', PDict (as_payload s))]"

definition failed_step :: "string \<Rightarrow> string \<Rightarrow> action_step" where
  "failed_step name detail =
     \<lparr> as_name = name, as_passed = False, as_detail = detail, as_payload = [] \<rparr>"

record deployment_checkpoint =
  dc_checkpoint_id :: string
  dc_detail :: string
  dc_payload :: "(string, pyval) dict"

definition checkpoint_to_dict :: "deployment_checkpoint \<Rightarrow> pyval" where
  "checkpoint_to_dict c = PDict
     [(''checkpoint_id'', PStr (dc_checkpoint_id c)), (''detail'', PStr (dc_detail c)),
      (''payload'', PDict (dc_payload c))]"

record health_observation =
  ho_healthy :: bool
  ho_reasons :: "string list"
  ho_metrics :: "(string, pyval) dict"

definition health_to_dict :: "health_observation \<Rightarrow> pyval" where
  "health_to_dict h = PDict
     [(''healthy'', PBool (ho_healthy h)), (''reasons'', str_list (ho_reasons h)),
      (''metrics'', PDict (ho_metrics h))]"

record probe_result =
  po_probe :: string
  po_target :: string
  po_passed :: bool
  po_detail :: string
  po_payload :: "(string, pyval) dict"

definition probe_to_dict :: "probe_result \<Rightarrow> pyval" where
  "probe_to_dict p = PDict
     [(''probe'', PStr (po_probe p)), (''target'', PStr (po_target p)),
      (''passed'', PBool (po_passed p)), (''detail'', PStr (po_detail p)),
      (''payload'', PDict (po_payload p))]"

text \<open>The protocols \<open>ChangeDriver\<close>, \<open>HealthMonitor\<close> and \<open>VerificationProbe\<close>.\<close>

record 'x change_driver =
  dv_name :: string
  dv_preflight :: "execution_context \<Rightarrow> ('x world, action_step) prog"
  dv_checkpoint :: "execution_context \<Rightarrow> ('x world, deployment_checkpoint) prog"
  dv_deploy :: "execution_context \<Rightarrow> deployment_checkpoint \<Rightarrow> ('x world, action_step) prog"
  dv_rollback :: "execution_context \<Rightarrow> deployment_checkpoint \<Rightarrow> ('x world, action_step) prog"

record 'x health_monitor =
  hm_name :: string
  hm_observe :: "string \<Rightarrow> execution_context \<Rightarrow> ('x world, health_observation) prog"

record 'x verification_probe =
  vp_name :: string
  vp_run :: "execution_context \<Rightarrow> ('x world, probe_result) prog"

record execution_outcome =
  xo_case :: remediation_case
  xo_execution_record :: product_record
  xo_verification_record :: "product_record option"
  xo_handoff_record :: "product_record option"
  xo_rolled_back :: bool
  xo_contained :: bool

end
