(* ===== verification/Approvals.thy ===== *)
theory Approvals
  imports Action_Records Case_Logs
begin

text \<open>
  \<open>ApprovalService\<close> and \<open>RejectionService\<close> of \<open>src/elcapitan/action_plane.py\<close>: the decision of a
  person, already verified by an identity adapter, is bound to the exact review package of a case
  that awaits approval, kept as evidence and as a record, and moves the case.
\<close>

section \<open>The services\<close>

text \<open>The checks that approval and rejection share: state, package, owner and type.\<close>

definition decision_package ::
  "string \<Rightarrow> string \<Rightarrow> string \<Rightarrow> ('x world, remediation_case \<times> product_record) prog" where
  "decision_package kind case_id package_id =
     bindM (get_case case_id) (\<lambda>c.
     bindM (guardM (rc_state c = AWAITING_APPROVAL) ActionPlaneError
              (''case '' @ rc_case_id c @ '' must be awaiting_approval, not ''
               @ case_state_value (rc_state c))) (\<lambda>_.
     bindM (guardM (dict_get (rc_record_ids c) ''human_review_package_id'' = Some package_id)
              ActionPlaneError (kind @ '' is not bound to this case'' @ [CHR 0x27] @ ''s review package'')) (\<lambda>_.
     bindM (get_record package_id) (\<lambda>package.
     bindM (guardM (pr_case_id package = rc_case_id c \<and> pr_record_type package = ''HumanReviewPackage.v1'')
              ActionPlaneError (kind @ '' package has the wrong owner or type'')) (\<lambda>_.
     ret (c, package))))))"

text \<open>\<open>case.record_ids[k]\<close>.\<close>

definition case_record :: "remediation_case \<Rightarrow> string \<Rightarrow> string res" where
  "case_record c k = (case dict_get (rc_record_ids c) k of
     None \<Rightarrow> Inl (Raise KeyError k) | Some v \<Rightarrow> Inr v)"

definition decision_body ::
  "(string \<times> string) list \<Rightarrow> string \<Rightarrow> remediation_case \<Rightarrow> pyval res" where
  "decision_body entries binding c =
     bindE (case_record c ''change_plan_id'') (\<lambda>plan.
     bindE (case_record c ''change_window_id'') (\<lambda>window.
     Inr (str_dict (entries @ [(''review_package_sha256'', binding), (''plan_id'', plan),
                              (''window_id'', window)]))))"

definition approval_collector :: collector where
  "approval_collector = \<lparr> co_tool = ''elcapitan-approval-gate'', co_version = ''0.1.0'',
     co_identity = ''trusted-approval-adapter'' \<rparr>"

definition rejection_collector :: collector where
  "rejection_collector = \<lparr> co_tool = ''elcapitan-rejection-gate'', co_version = ''0.1.0'',
     co_identity = ''trusted-approval-adapter'' \<rparr>"

definition approve :: "env \<Rightarrow> string \<Rightarrow> verified_approval \<Rightarrow> ('x world, decision_outcome) prog" where
  "approve env artifact_root a =
     bindM (decision_package ''approval'' (va_case_id a) (va_review_package_id a)) (\<lambda>(c, package).
     bindM (clock_now env) (\<lambda>now.
     bindM (liftE (parse_timestamp (va_authenticated_at a))) (\<lambda>authenticated.
     bindM (liftE (parse_timestamp now)) (\<lambda>current.
     bindM (guardM (\<not> current < authenticated) ActionPlaneError
              ''approval authentication timestamp is in the future'') (\<lambda>_.
     bindM (liftE (parse_timestamp (va_expires_at a))) (\<lambda>expires.
     bindM (guardM (\<not> expires \<le> current) ActionPlaneError ''approval has expired'') (\<lambda>_.
     let binding = env_sha256 env (canonical_json (pr_body package));
         run_dir = artifact_root @ ''/cases/'' @ rc_case_id c @ ''/approval/'' @ va_approval_id a
     in bindM (new_id env ''EVD'') (\<lambda>evidence_id.
        bindM (write_evidence env run_dir evidence_id ''verified_human_approval''
                 (canonical_json (str_dict (approval_fields a @ [(''review_package_sha256'', binding)])))
                 approval_collector ''restricted'' [] now) (\<lambda>ref.
        bindM (liftE (decision_body (approval_fields a) binding c)) (\<lambda>body.
        bindM (store_record
                 \<lparr> pr_record_id = va_approval_id a, pr_case_id = rc_case_id c,
                   pr_record_type = ''ChangeApproval.v1'', pr_schema_version = 1, pr_created_at = now,
                   pr_body = body, pr_evidence_ids = [ef_evidence_id ref] \<rparr>) (\<lambda>rec.
        bindM (new_id env ''EVT'') (\<lambda>event_id.
        bindM (advance (rc_case_id c) APPROVE_CHANGE
                 (basic_args event_id now (''approver:'' @ va_approver a)
                    [(''approval_id'', va_approval_id a)] (pr_evidence_ids rec))) (\<lambda>c'.
        ret \<lparr> do_case = c', do_record = rec \<rparr>)))))))))))))"

definition reject :: "env \<Rightarrow> string \<Rightarrow> verified_rejection \<Rightarrow> ('x world, decision_outcome) prog" where
  "reject env artifact_root a =
     bindM (decision_package ''rejection'' (vr_case_id a) (vr_review_package_id a)) (\<lambda>(c, package).
     bindM (clock_now env) (\<lambda>now.
     bindM (liftE (parse_timestamp (vr_authenticated_at a))) (\<lambda>authenticated.
     bindM (liftE (parse_timestamp now)) (\<lambda>current.
     bindM (guardM (\<not> current < authenticated) ActionPlaneError
              ''rejection authentication timestamp is in the future'') (\<lambda>_.
     let binding = env_sha256 env (canonical_json (pr_body package));
         run_dir = artifact_root @ ''/cases/'' @ rc_case_id c @ ''/rejection/'' @ vr_rejection_id a
     in bindM (new_id env ''EVD'') (\<lambda>evidence_id.
        bindM (write_evidence env run_dir evidence_id ''verified_human_rejection''
                 (canonical_json (str_dict (rejection_fields a @ [(''review_package_sha256'', binding)])))
                 rejection_collector ''restricted'' [] now) (\<lambda>ref.
        bindM (liftE (decision_body (rejection_fields a) binding c)) (\<lambda>body.
        bindM (store_record
                 \<lparr> pr_record_id = vr_rejection_id a, pr_case_id = rc_case_id c,
                   pr_record_type = ''ChangeRejection.v1'', pr_schema_version = 1, pr_created_at = now,
                   pr_body = body, pr_evidence_ids = [ef_evidence_id ref] \<rparr>) (\<lambda>rec.
        bindM (new_id env ''EVT'') (\<lambda>event_id.
        bindM (advance (rc_case_id c) REJECT
                 ((basic_args event_id now (''approver:'' @ vr_approver a)
                    [(''rejection_id'', vr_rejection_id a)] (pr_evidence_ids rec))
                  \<lparr>ta_detail := vr_reason a\<rparr>)) (\<lambda>c'.
        ret \<lparr> do_case = c', do_record = rec \<rparr>)))))))))))"

end
