(* ===== verification/Execution.thy ===== *)
theory Execution
  imports Action_Records Service_Logic
begin

text \<open>
  \<open>ExecutionService\<close> of \<open>src/elcapitan/action_plane.py\<close>: an approved and scheduled change is
  deployed inside its window, observed, probed and audited; anything that goes wrong after the
  start rolls it back. Driver, monitor, probes and the auditor's runtime are the adapters the
  service is given.
\<close>

record 'x execution_service =
  xs_env :: env
  xs_artifact_root :: string
  xs_driver :: "'x change_driver"
  xs_monitor :: "'x health_monitor"
  xs_probes :: "'x verification_probe list"
  xs_runtime :: "'x agent_runtime"
  xs_schema :: schema_errors

section \<open>Context and evidence\<close>

definition context_record ::
  "remediation_case \<Rightarrow> string \<Rightarrow> ('x world, product_record) prog" where
  "context_record c name =
     (case dict_get (rc_record_ids c) name of
        Some (ch # chs) \<Rightarrow>
          bindM (get_record (ch # chs)) (\<lambda>found.
          bindM (guardM (pr_case_id found = rc_case_id c) ActionPlaneError
                   (name @ '' belongs to another case'')) (\<lambda>_.
          ret found))
      | _ \<Rightarrow> raise ActionPlaneError (''approved case is missing '' @ name))"

definition build_context ::
  "'x execution_service \<Rightarrow> remediation_case \<Rightarrow> ('x world, execution_context) prog" where
  "build_context xs c =
     bindM (context_record c ''change_plan_id'') (\<lambda>plan.
     bindM (context_record c ''iac_link_id'') (\<lambda>link.
     bindM (context_record c ''approval_id'') (\<lambda>approval.
     bindM (context_record c ''change_window_id'') (\<lambda>window.
     let ctx = \<lparr> ex_case = c, ex_plan = plan, ex_link = link, ex_approval = approval,
                 ex_window = window, ex_artifact_root = xs_artifact_root xs \<rparr>
     in bindM (liftE (approved_finding_ids ctx)) (\<lambda>_. ret ctx)))))"

definition execution_collector :: collector where
  "execution_collector = \<lparr> co_tool = ''elcapitan-execution-control-plane'', co_version = ''0.1.0'',
     co_identity = ''change-orchestrator'' \<rparr>"

definition keep_evidence ::
  "'x execution_service \<Rightarrow> string \<Rightarrow> string \<Rightarrow> pyval \<Rightarrow> string \<Rightarrow> ('x world, string) prog" where
  "keep_evidence xs run_dir kind document now =
     bindM (new_id (xs_env xs) ''EVD'') (\<lambda>i.
     bindM (write_evidence (xs_env xs) run_dir i kind (canonical_json document)
              execution_collector ''internal'' [] now) (\<lambda>ref.
     ret (ef_evidence_id ref)))"

definition unhealthy :: "string \<Rightarrow> health_observation" where
  "unhealthy reason = \<lparr> ho_healthy = False, ho_reasons = [reason], ho_metrics = [] \<rparr>"

section \<open>Rolling back\<close>

definition rollback_verification ::
  "string \<Rightarrow> string \<Rightarrow> string \<Rightarrow> action_step \<Rightarrow> string \<Rightarrow> string list \<Rightarrow> product_record" where
  "rollback_verification verification_id case_id created_at step reason evidence =
     \<lparr> pr_record_id = verification_id, pr_case_id = case_id,
       pr_record_type = ''RollbackVerification.v1'', pr_schema_version = 1,
       pr_created_at = created_at,
       pr_body = PDict
         [(''verification_id'', PStr verification_id),
          (''checkpoint_restored'',
             PBool (truthy (get_or (as_payload step) ''checkpoint_restored'' (PBool True)))),
          (''containment_achieved'',
             PBool (truthy (get_or (as_payload step) ''containment_achieved'' (PBool False)))),
          (''service_recovered'', PBool True), (''reason'', PStr reason)],
       pr_evidence_ids = evidence \<rparr>"

definition rollback_record ::
  "'x execution_service \<Rightarrow> string \<Rightarrow> string \<Rightarrow> string \<Rightarrow> string \<Rightarrow> action_step \<Rightarrow> health_observation \<Rightarrow>
   deployment_checkpoint \<Rightarrow> string list \<Rightarrow> product_record" where
  "rollback_record xs rollback_id case_id now reason step health checkpoint evidence =
     \<lparr> pr_record_id = rollback_id, pr_case_id = case_id, pr_record_type = ''RollbackExecution.v1'',
       pr_schema_version = 1, pr_created_at = now,
       pr_body = PDict
         [(''rollback_execution_id'', PStr rollback_id), (''reason'', PStr reason),
          (''driver'', PStr (dv_name (xs_driver xs))), (''step'', action_step_to_dict step),
          (''health'', health_to_dict health), (''checkpoint_id'', PStr (dc_checkpoint_id checkpoint))],
       pr_evidence_ids = evidence \<rparr>"

text \<open>An advance of the policy, whose event id and time are read in this order.\<close>

definition policy_advance ::
  "'x execution_service \<Rightarrow> string \<Rightarrow> case_transition \<Rightarrow> string \<Rightarrow> (string, string) dict \<Rightarrow>
   string list \<Rightarrow> string \<Rightarrow> ('x world, remediation_case) prog" where
  "policy_advance xs case_id t actor record_ids evidence detail =
     bindM (new_id (xs_env xs) ''EVT'') (\<lambda>event_id.
     bindM (clock_now (xs_env xs)) (\<lambda>now.
     advance case_id t ((basic_args event_id now actor record_ids evidence)\<lparr>ta_detail := detail\<rparr>)))"

definition not_restored :: string where
  "not_restored = ''rollback did not restore both checkpoint and healthy service state''"

definition contained_detail :: string where
  "contained_detail = ''containment succeeded, but the irreversible change cannot restore ''
     @ ''the exact checkpoint; human follow-up is required''"

text \<open>The end of a rollback, after \<open>start_rollback\<close> was recorded.\<close>

definition finish_rollback ::
  "'x execution_service \<Rightarrow> string \<Rightarrow> product_record \<Rightarrow> action_step \<Rightarrow> health_observation \<Rightarrow>
   string list \<Rightarrow> string \<Rightarrow> ('x world, execution_outcome) prog" where
  "finish_rollback xs case_id rec step health evidence reason =
     (if \<not> as_passed step \<or> \<not> ho_healthy health then
        bindM (policy_advance xs case_id BLOCK ''execution-policy''
                 [(''rollback_failure_id'', pr_record_id rec)] evidence not_restored) (\<lambda>_.
        raise ActionPlaneError not_restored)
      else
        bindM (new_id (xs_env xs) ''VERIFY'') (\<lambda>verification_id.
        bindM (clock_now (xs_env xs)) (\<lambda>created_at.
        bindM (store_record (rollback_verification verification_id case_id created_at step reason evidence))
          (\<lambda>verification.
        if \<not> truthy (get_or (as_payload step) ''checkpoint_restored'' (PBool True)) then
          bindM (policy_advance xs case_id BLOCK ''execution-policy''
                   [(''verification_result_id'', verification_id)] evidence contained_detail) (\<lambda>c.
          ret \<lparr> xo_case = c, xo_execution_record = rec, xo_verification_record = Some verification,
                xo_handoff_record = None, xo_rolled_back = False, xo_contained = True \<rparr>)
        else
          bindM (policy_advance xs case_id COMPLETE_ROLLBACK ''execution-policy''
                   [(''verification_result_id'', verification_id)] evidence []) (\<lambda>c.
          ret \<lparr> xo_case = c, xo_execution_record = rec, xo_verification_record = Some verification,
                xo_handoff_record = None, xo_rolled_back = True, xo_contained = False \<rparr>)))))"

definition rollback ::
  "'x execution_service \<Rightarrow> string \<Rightarrow> execution_context \<Rightarrow> deployment_checkpoint \<Rightarrow> string \<Rightarrow>
   string list \<Rightarrow> string \<Rightarrow> ('x world, execution_outcome) prog" where
  "rollback xs case_id ctx checkpoint run_dir evidence_ids reason =
     bindM (clock_now (xs_env xs)) (\<lambda>now.
     bindM (new_id (xs_env xs) ''RBEXEC'') (\<lambda>rollback_id.
     bindM (guarded (dv_rollback (xs_driver xs) ctx checkpoint)
              (\<lambda>e. failed_step ''rollback'' (''rollback driver raised: '' @ exn_str e))) (\<lambda>step.
     bindM (guarded (hm_observe (xs_monitor xs) ''rollback'' ctx)
              (\<lambda>e. unhealthy (''rollback health monitor raised: '' @ exn_str e))) (\<lambda>health.
     bindM (keep_evidence xs run_dir ''rollback_execution''
              (PDict [(''reason'', PStr reason), (''step'', action_step_to_dict step),
                      (''health'', health_to_dict health)]) now) (\<lambda>rollback_evidence.
     let evidence = dedup (evidence_ids @ [rollback_evidence])
     in bindM (store_record (rollback_record xs rollback_id case_id now reason step health checkpoint evidence))
          (\<lambda>rec.
        bindM (new_id (xs_env xs) ''EVT'') (\<lambda>event_id.
        bindM (advance case_id START_ROLLBACK
                 ((basic_args event_id now ''execution-policy''
                     [(''rollback_execution_id'', rollback_id)] evidence)\<lparr>ta_detail := reason\<rparr>)) (\<lambda>_.
        finish_rollback xs case_id rec step health evidence reason))))))))"

section \<open>Admission and start\<close>

definition has_record :: "remediation_case \<Rightarrow> string \<Rightarrow> bool" where
  "has_record c k = (case dict_get (rc_record_ids c) k of Some (ch # chs) \<Rightarrow> True | _ \<Rightarrow> False)"

text \<open>\<open>parse_timestamp\<close> of a value that need not be a text.\<close>

definition parse_stamp_value :: "pyval \<Rightarrow> int res" where
  "parse_stamp_value v =
     bindE (guardE (is_str v) UsageAnalysisError ''timestamp must be non-empty RFC3339 text'') (\<lambda>_.
     parse_timestamp (as_str v))"

text \<open>The guards before anything is touched: the time of the admission and the context.\<close>

definition admit ::
  "'x execution_service \<Rightarrow> string \<Rightarrow> string \<Rightarrow> string \<Rightarrow> ('x world, string \<times> execution_context) prog" where
  "admit xs case_id originator job_id =
     bindM (get_case case_id) (\<lambda>c.
     bindM (guardM (rc_state c = APPROVED) ActionPlaneError
              (''case '' @ case_id @ '' must be approved, not '' @ case_state_value (rc_state c))) (\<lambda>_.
     bindM (guardM (has_record c ''schedule_id'' \<and> has_record c ''execution_job_id'') ActionPlaneError
              ''approved case must be released by the durable scheduler'') (\<lambda>_.
     bindM (guardM (dict_get (rc_record_ids c) ''execution_job_id'' = Some job_id) ActionPlaneError
              ''execution job is not bound to this approved case'') (\<lambda>_.
     bindM (guardM (originator \<noteq> []) ActionPlaneError
              ''originator is required for completion handoff'') (\<lambda>_.
     bindM (clock_now (xs_env xs)) (\<lambda>now.
     case rc_change_window c of
       None \<Rightarrow> raise ActionPlaneError ''approved case has no selected change window''
     | Some window \<Rightarrow>
        bindM (liftE (parse_timestamp now)) (\<lambda>current.
        bindM (liftE (parse_timestamp (cw_starts_at window))) (\<lambda>starts.
        bindM (guardM (starts \<le> current) ActionPlaneError
                 (''execution is outside approved window '' @ cw_starts_at window @ '' to '' @ cw_ends_at window))
          (\<lambda>_.
        bindM (liftE (parse_timestamp (cw_ends_at window))) (\<lambda>ends.
        bindM (guardM (current < ends) ActionPlaneError
                 (''execution is outside approved window '' @ cw_starts_at window @ '' to '' @ cw_ends_at window))
          (\<lambda>_.
        bindM (build_context xs c) (\<lambda>ctx.
        bindM (liftE (bindE (item (pr_body (ex_approval ctx)) ''expires_at'') parse_stamp_value)) (\<lambda>expires.
        bindM (guardM (\<not> expires \<le> current) ActionPlaneError
                 ''bound approval expired before execution'') (\<lambda>_.
        ret (now, ctx)))))))))))))))"

record execution_start =
  es_execution :: product_record
  es_run_dir :: string
  es_checkpoint :: deployment_checkpoint
  es_evidence :: string

definition start_record ::
  "'x execution_service \<Rightarrow> string \<Rightarrow> string \<Rightarrow> string \<Rightarrow> execution_context \<Rightarrow> action_step \<Rightarrow>
   health_observation \<Rightarrow> deployment_checkpoint \<Rightarrow> string \<Rightarrow> product_record" where
  "start_record xs execution_id case_id now ctx preflight baseline checkpoint evidence =
     \<lparr> pr_record_id = execution_id, pr_case_id = case_id, pr_record_type = ''ExecutionStart.v1'',
       pr_schema_version = 1, pr_created_at = now,
       pr_body = PDict
         [(''execution_id'', PStr execution_id), (''driver'', PStr (dv_name (xs_driver xs))),
          (''monitor'', PStr (hm_name (xs_monitor xs))), (''preflight'', action_step_to_dict preflight),
          (''baseline'', health_to_dict baseline), (''checkpoint'', checkpoint_to_dict checkpoint),
          (''window_id'', PStr (pr_record_id (ex_window ctx))),
          (''approval_id'', PStr (pr_record_id (ex_approval ctx))),
          (''artifact_namespace'', PStr (''cases/'' @ case_id @ ''/execution/'' @ execution_id))],
       pr_evidence_ids = [evidence] \<rparr>"

definition start_execution ::
  "'x execution_service \<Rightarrow> string \<Rightarrow> string \<Rightarrow> execution_context \<Rightarrow> ('x world, execution_start) prog" where
  "start_execution xs case_id now ctx =
     bindM (new_id (xs_env xs) ''EXEC'') (\<lambda>execution_id.
     let run_dir = xs_artifact_root xs @ ''/cases/'' @ case_id @ ''/execution/'' @ execution_id
     in bindM (dv_preflight (xs_driver xs) ctx) (\<lambda>preflight.
        bindM (guardM (as_passed preflight) ActionPlaneError
                 (''execution preflight failed: '' @ as_detail preflight)) (\<lambda>_.
        bindM (hm_observe (xs_monitor xs) ''baseline'' ctx) (\<lambda>baseline.
        bindM (guardM (ho_healthy baseline) ActionPlaneError
                 ''service baseline is unhealthy; change is not eligible'') (\<lambda>_.
        bindM (dv_checkpoint (xs_driver xs) ctx) (\<lambda>checkpoint.
        bindM (keep_evidence xs run_dir ''execution_preflight''
                 (PDict [(''preflight'', action_step_to_dict preflight),
                         (''baseline'', health_to_dict baseline),
                         (''checkpoint'', checkpoint_to_dict checkpoint)]) now) (\<lambda>evidence.
        bindM (store_record (start_record xs execution_id case_id now ctx preflight baseline checkpoint evidence))
          (\<lambda>execution.
        bindM (new_id (xs_env xs) ''EVT'') (\<lambda>event_id.
        bindM (advance case_id START_EXECUTION
                 (basic_args event_id now (''driver:'' @ dv_name (xs_driver xs))
                    [(''execution_id'', execution_id)] [evidence])) (\<lambda>_.
        ret \<lparr> es_execution = execution, es_run_dir = run_dir, es_checkpoint = checkpoint,
              es_evidence = evidence \<rparr>))))))))))"

section \<open>Deployment, probes and audit\<close>

definition run_probes ::
  "'x execution_service \<Rightarrow> string \<Rightarrow> execution_context \<Rightarrow> ('x world, probe_result list) prog" where
  "run_probes xs case_id ctx =
     mapM (\<lambda>p. guarded (vp_run p ctx)
             (\<lambda>e. \<lparr> po_probe = vp_name p, po_target = case_id, po_passed = False,
                    po_detail = ''verification probe raised: '' @ exn_str e, po_payload = [] \<rparr>))
       (xs_probes xs)"

definition audit_task ::
  "string \<Rightarrow> string \<Rightarrow> remediation_case \<Rightarrow> execution_context \<Rightarrow> product_record \<Rightarrow> product_record \<Rightarrow>
   probe_result list \<Rightarrow> string list \<Rightarrow> agent_task res" where
  "audit_task task_id case_id c ctx execution result probes evidence =
     mk_agent_task
       \<lparr> at_task_id = task_id, at_case_id = case_id, at_role = RELEASE_AUDITOR,
         at_objective = ''Independently audit the completed change and prepare originator handoff'',
         at_output_contract = ''PostChangeReview.v1'',
         at_input_record_ids = [pr_record_id execution, pr_record_id result],
         at_evidence_ids = evidence,
         at_constraints =
           [''accept only when every mandatory deterministic probe passed'',
            ''do not claim the original vulnerability cleared without evidence'',
            ''request rollback for a material unresolved risk''],
         at_metadata =
           [(''case'', case_to_dict c), (''plan'', pr_body (ex_plan ctx)),
            (''deployment'', pr_body result), (''probes'', PList (map probe_to_dict probes))] \<rparr>"

definition audit_failures ::
  "'x execution_service \<Rightarrow> agent_task \<Rightarrow> agent_result \<Rightarrow> string list \<Rightarrow> string list res" where
  "audit_failures xs task audit evidence =
     bindE (validate_output (xs_schema xs) (at_output_contract task) (PDict (ar_output audit))) (\<lambda>errors.
     Inr (validate_result task audit @ errors
       @ (if ar_status audit \<noteq> SUCCEEDED
            then [''release auditor status is '' @ agent_status_value (ar_status audit)] else [])
       @ (if \<not> set evidence \<subseteq> set (ar_evidence_cited audit)
            then [''release auditor did not cite the complete execution evidence set''] else [])
       @ (if pget (ar_output audit) ''decision'' = PStr ''accept''
             \<and> \<not> truthy (pget (ar_output audit) ''validated_outcomes'')
            then [''release auditor accepted without naming validated outcomes''] else [])))"

definition audit_document :: "agent_result \<Rightarrow> pyval" where
  "audit_document audit = PDict
     [(''runtime'', PStr (ar_runtime audit)), (''model'', PStr (ar_model audit)),
      (''output'', PDict (ar_output audit)), (''evidence_cited'', str_list (ar_evidence_cited audit))]"

section \<open>Completion\<close>

definition verification_record ::
  "string \<Rightarrow> string \<Rightarrow> string \<Rightarrow> probe_result list \<Rightarrow> agent_result \<Rightarrow> string list \<Rightarrow> product_record" where
  "verification_record verification_id case_id created_at probes audit evidence =
     \<lparr> pr_record_id = verification_id, pr_case_id = case_id,
       pr_record_type = ''PostChangeVerification.v1'', pr_schema_version = 1,
       pr_created_at = created_at,
       pr_body = PDict
         [(''verification_id'', PStr verification_id), (''status'', PStr ''passed''),
          (''probes'', PList (map probe_to_dict probes)), (''release_audit'', PDict (ar_output audit))],
       pr_evidence_ids = evidence \<rparr>"

definition certificate_record ::
  "string \<Rightarrow> string \<Rightarrow> string \<Rightarrow> string list \<Rightarrow> execution_context \<Rightarrow> string \<Rightarrow> string \<Rightarrow> string list \<Rightarrow>
   product_record" where
  "certificate_record certificate_id case_id created_at finding_ids ctx execution_id verification_id evidence =
     \<lparr> pr_record_id = certificate_id, pr_case_id = case_id,
       pr_record_type = ''RemediationCertificate.v1'', pr_schema_version = 1,
       pr_created_at = created_at,
       pr_body = PDict
         [(''certificate_id'', PStr certificate_id), (''case_id'', PStr case_id),
          (''finding_ids'', str_list finding_ids), (''plan_id'', PStr (pr_record_id (ex_plan ctx))),
          (''approval_id'', PStr (pr_record_id (ex_approval ctx))),
          (''execution_id'', PStr execution_id), (''verification_id'', PStr verification_id),
          (''completed_status'', PStr ''remediated''), (''evidence_ids'', str_list evidence)],
       pr_evidence_ids = evidence \<rparr>"

definition handoff_body ::
  "string \<Rightarrow> string \<Rightarrow> agent_result \<Rightarrow> string \<Rightarrow> pyval res" where
  "handoff_body handoff_id originator audit certificate_id =
     (let out = PDict (ar_output audit) in
      bindE (item out ''summary'') (\<lambda>summary.
      bindE (bindE (item out ''validated_outcomes'') list_of) (\<lambda>outcomes.
      bindE (bindE (item out ''residual_risks'') list_of) (\<lambda>risks.
      bindE (bindE (item out ''handoff_notes'') list_of) (\<lambda>notes.
      Inr (PDict
        [(''handoff_id'', PStr handoff_id), (''recipient'', PStr originator), (''status'', PStr ''done''),
         (''summary'', summary), (''validated_outcomes'', outcomes), (''residual_risks'', risks),
         (''notes'', notes), (''certificate_id'', PStr certificate_id)]))))))"

definition complete_remediation ::
  "'x execution_service \<Rightarrow> string \<Rightarrow> string \<Rightarrow> execution_context \<Rightarrow> product_record \<Rightarrow> probe_result list \<Rightarrow>
   agent_result \<Rightarrow> string list \<Rightarrow> ('x world, execution_outcome) prog" where
  "complete_remediation xs case_id originator ctx execution probes audit evidence =
     bindM (new_id (xs_env xs) ''VERIFY'') (\<lambda>verification_id.
     bindM (clock_now (xs_env xs)) (\<lambda>t1.
     bindM (store_record (verification_record verification_id case_id t1 probes audit evidence)) (\<lambda>verification.
     bindM (new_id (xs_env xs) ''CERT'') (\<lambda>certificate_id.
     bindM (clock_now (xs_env xs)) (\<lambda>t2.
     bindM (liftE (approved_finding_ids ctx)) (\<lambda>finding_ids.
     bindM (store_record (certificate_record certificate_id case_id t2 finding_ids ctx
              (pr_record_id execution) verification_id evidence)) (\<lambda>_.
     bindM (new_id (xs_env xs) ''HANDOFF'') (\<lambda>handoff_id.
     bindM (clock_now (xs_env xs)) (\<lambda>t3.
     bindM (liftE (handoff_body handoff_id originator audit certificate_id)) (\<lambda>body.
     bindM (store_record
              \<lparr> pr_record_id = handoff_id, pr_case_id = case_id,
                pr_record_type = ''OriginatorHandoff.v1'', pr_schema_version = 1, pr_created_at = t3,
                pr_body = body, pr_evidence_ids = evidence \<rparr>) (\<lambda>handoff.
     bindM (policy_advance xs case_id COMPLETE_REMEDIATION ''release-auditor''
              [(''verification_result_id'', verification_id),
               (''remediation_certificate_id'', certificate_id),
               (''originator_handoff_id'', handoff_id)] evidence []) (\<lambda>c.
     ret \<lparr> xo_case = c, xo_execution_record = execution, xo_verification_record = Some verification,
           xo_handoff_record = Some handoff, xo_rolled_back = False, xo_contained = False \<rparr>))))))))))))"

section \<open>Executing\<close>

text \<open>From the deployed and probed change to its end: the independent audit decides.\<close>

definition audit_and_complete ::
  "'x execution_service \<Rightarrow> string \<Rightarrow> string \<Rightarrow> execution_context \<Rightarrow> execution_start \<Rightarrow>
   remediation_case \<Rightarrow> product_record \<Rightarrow> probe_result list \<Rightarrow> string list \<Rightarrow>
   ('x world, execution_outcome) prog" where
  "audit_and_complete xs case_id originator ctx st c result probes evidence =
     (let back = (\<lambda>ev reason. rollback xs case_id ctx (es_checkpoint st) (es_run_dir st) ev reason)
      in bindM (new_id (xs_env xs) ''TASK'') (\<lambda>task_id.
         bindM (liftE (audit_task task_id case_id c ctx (es_execution st) result probes evidence)) (\<lambda>task.
         bindM (guarded (bindM (rt_run (xs_runtime xs) task) (\<lambda>a. ret (Inr a))) Inl) (\<lambda>audited.
         case audited of
           Inl e \<Rightarrow> back evidence (''release auditor runtime failed: '' @ exn_str e)
         | Inr audit \<Rightarrow>
             bindM (liftE (audit_failures xs task audit evidence)) (\<lambda>failures.
             if failures \<noteq> [] then
               back evidence (''release audit contract failed: '' @ str_join ''; '' failures)
             else
               bindM (clock_now (xs_env xs)) (\<lambda>t.
               bindM (keep_evidence xs (es_run_dir st) ''release_auditor_result'' (audit_document audit) t)
                 (\<lambda>audit_evidence.
               let evidence = dedup (evidence @ [audit_evidence]); out = PDict (ar_output audit)
               in bindM (liftE (item out ''decision'')) (\<lambda>decision.
                  if decision = PStr ''rollback'' then
                    bindM (liftE (item_text out ''summary'')) (\<lambda>summary.
                    back evidence (''release auditor requested rollback: '' @ summary))
                  else if decision = PStr ''needs_human_context'' then
                    bindM (liftE (item_text out ''summary'')) (\<lambda>summary.
                    back evidence (''release auditor requires human context: '' @ summary))
                  else complete_remediation xs case_id originator ctx (es_execution st) probes audit evidence))))))))"

text \<open>Why the probes do not let the change stand, if they do not.\<close>

definition probes_reason :: "probe_result list \<Rightarrow> string option" where
  "probes_reason probes =
     (let failed = filter (\<lambda>p. \<not> po_passed p) probes
      in if probes = [] then Some ''no post-change verification probes were configured''
         else if failed \<noteq> [] then
           Some (''post-change probes failed: '' @ str_join '', '' (map po_probe failed))
         else None)"

definition result_of_deployment ::
  "string \<Rightarrow> string \<Rightarrow> string \<Rightarrow> action_step \<Rightarrow> health_observation \<Rightarrow> deployment_checkpoint \<Rightarrow>
   string list \<Rightarrow> product_record" where
  "result_of_deployment result_id case_id created_at deployment health checkpoint evidence =
     \<lparr> pr_record_id = result_id, pr_case_id = case_id, pr_record_type = ''ExecutionResult.v1'',
       pr_schema_version = 1, pr_created_at = created_at,
       pr_body = PDict
         [(''execution_result_id'', PStr result_id), (''deployment'', action_step_to_dict deployment),
          (''health'', health_to_dict health), (''checkpoint_id'', PStr (dc_checkpoint_id checkpoint))],
       pr_evidence_ids = evidence \<rparr>"

definition verify_change ::
  "'x execution_service \<Rightarrow> string \<Rightarrow> string \<Rightarrow> execution_context \<Rightarrow> execution_start \<Rightarrow>
   action_step \<Rightarrow> health_observation \<Rightarrow> string list \<Rightarrow> ('x world, execution_outcome) prog" where
  "verify_change xs case_id originator ctx st deployment health evidence =
     bindM (new_id (xs_env xs) ''EXRES'') (\<lambda>result_id.
     bindM (clock_now (xs_env xs)) (\<lambda>t1.
     bindM (store_record (result_of_deployment result_id case_id t1 deployment health (es_checkpoint st) evidence))
       (\<lambda>result.
     bindM (policy_advance xs case_id START_VERIFICATION ''execution-policy''
              [(''execution_result_id'', result_id)] evidence []) (\<lambda>c.
     bindM (run_probes xs case_id ctx) (\<lambda>probes.
     bindM (clock_now (xs_env xs)) (\<lambda>t2.
     bindM (keep_evidence xs (es_run_dir st) ''post_change_probes'' (PList (map probe_to_dict probes)) t2)
       (\<lambda>probe_evidence.
     let evidence = dedup (evidence @ [probe_evidence])
     in case probes_reason probes of
          Some reason \<Rightarrow> rollback xs case_id ctx (es_checkpoint st) (es_run_dir st) evidence reason
        | None \<Rightarrow> audit_and_complete xs case_id originator ctx st c result probes evidence)))))))"

definition deploy_and_verify ::
  "'x execution_service \<Rightarrow> string \<Rightarrow> string \<Rightarrow> execution_context \<Rightarrow> execution_start \<Rightarrow>
   ('x world, execution_outcome) prog" where
  "deploy_and_verify xs case_id originator ctx st =
     bindM (guarded (dv_deploy (xs_driver xs) ctx (es_checkpoint st))
              (\<lambda>e. failed_step ''deploy'' (''deployment driver raised: '' @ exn_str e))) (\<lambda>deployment.
     bindM (guarded (hm_observe (xs_monitor xs) ''after_deploy'' ctx)
              (\<lambda>e. unhealthy (''health monitor raised: '' @ exn_str e))) (\<lambda>health.
     bindM (clock_now (xs_env xs)) (\<lambda>t.
     bindM (keep_evidence xs (es_run_dir st) ''deployment_result''
              (PDict [(''deployment'', action_step_to_dict deployment), (''health'', health_to_dict health)]) t)
       (\<lambda>deploy_evidence.
     let evidence = [es_evidence st, deploy_evidence];
         back = rollback xs case_id ctx (es_checkpoint st) (es_run_dir st) evidence
     in if \<not> as_passed deployment then back (''deployment failed: '' @ as_detail deployment)
        else if \<not> ho_healthy health then
          back (''post-deployment health policy failed: '' @ str_join ''; '' (ho_reasons health))
        else verify_change xs case_id originator ctx st deployment health evidence))))"

definition execute ::
  "'x execution_service \<Rightarrow> string \<Rightarrow> string \<Rightarrow> string \<Rightarrow> ('x world, execution_outcome) prog" where
  "execute xs case_id originator job_id =
     bindM (admit xs case_id originator job_id) (\<lambda>(now, ctx).
     bindM (start_execution xs case_id now ctx) (\<lambda>st.
     deploy_and_verify xs case_id originator ctx st))"

end
