(* ===== verification/Execution_Properties.thy ===== *)
theory Execution_Properties
  imports Execution
begin

text \<open>
  What an execution guarantees: it starts only when everything was approved and scheduled for this
  moment, it is never left half done, and a case becomes remediated only through a deployment,
  health observation, probes and an audit that all succeeded.
\<close>

section \<open>The adapters\<close>

text \<open>The adapters act outside: they record nothing under the service's ids and move no case.\<close>

definition adapters_aside :: "'x execution_service \<Rightarrow> bool" where
  "adapters_aside xs =
     ((\<forall>ctx. stays (aside (xs_env xs)) (dv_preflight (xs_driver xs) ctx)) \<and>
      (\<forall>ctx. stays (aside (xs_env xs)) (dv_checkpoint (xs_driver xs) ctx)) \<and>
      (\<forall>ctx ck. stays (aside (xs_env xs)) (dv_deploy (xs_driver xs) ctx ck)) \<and>
      (\<forall>ctx ck. stays (aside (xs_env xs)) (dv_rollback (xs_driver xs) ctx ck)) \<and>
      (\<forall>phase ctx. stays (aside (xs_env xs)) (hm_observe (xs_monitor xs) phase ctx)) \<and>
      (\<forall>p \<in> set (xs_probes xs). \<forall>ctx. stays (aside (xs_env xs)) (vp_run p ctx)) \<and>
      (\<forall>task. stays (aside (xs_env xs)) (rt_run (xs_runtime xs) task)))"

text \<open>The documented behaviour of the JSON schema validator on the release auditor's contract: an
  object that lacks a required property, or has one of another type or outside its enumeration,
  has an error.\<close>

definition audit_shape :: "(string, pyval) dict \<Rightarrow> bool" where
  "audit_shape d =
     (pget d ''decision'' \<in> {PStr ''accept'', PStr ''rollback'', PStr ''needs_human_context''} \<and>
      is_str (pget d ''summary'') \<and> is_list (pget d ''validated_outcomes'') \<and>
      is_list (pget d ''residual_risks'') \<and> is_list (pget d ''handoff_notes''))"

definition schema_sound :: "schema_errors \<Rightarrow> bool" where
  "schema_sound schema = (\<forall>d. schema post_change_review (PDict d) = [] \<longrightarrow> audit_shape d)"

section \<open>Steps\<close>

lemma step_evidence:
  assumes e: "env_ok (xs_env xs)" and f: "\<And>x. ends (holding (xs_env xs) P H) (f x) Q E"
  shows "ends (holding (xs_env xs) P H) (bindM (keep_evidence xs dir k doc t) f) Q E"
proof -
  have "returns (holding (xs_env xs) P H) (keep_evidence xs dir k doc t)
      (\<lambda>x w. holding (xs_env xs) P H w \<and> True)"
    unfolding keep_evidence_def
  proof (rule lift_holding_returns, rule ends_then [OF returns_new_id [OF e]])
    fix db x
    show "returns (\<lambda>w. staged (xs_env xs) db (insert x H) w \<and> x \<noteq> [] \<and> x \<notin> H \<and>
          (''EVD'' = ''EVD'' \<longrightarrow> evidence_id_ok x))
        (bindM (write_evidence (xs_env xs) dir x k (canonical_json doc) execution_collector ''internal'' [] t)
           (\<lambda>ref. ret (ef_evidence_id ref))) (\<lambda>x w. staged (xs_env xs) db H w \<and> True)"
    proof (rule ends_fact, rule ends_then [OF returns_evidence [OF e, of x]])
      show "returns (\<lambda>w. staged (xs_env xs) db (insert x H - {x}) w \<and> ef_evidence_id ref = x)
          (ret (ef_evidence_id ref)) (\<lambda>x w. staged (xs_env xs) db H w \<and> True)"
        if "x \<noteq> [] \<and> x \<notin> H \<and> (''EVD'' = ''EVD'' \<longrightarrow> evidence_id_ok x)" for ref :: evidence_ref
        using that by (intro ends_pure) simp
    qed auto
  qed
  then have "returns (holding (xs_env xs) P H) (keep_evidence xs dir k doc t)
      (\<lambda>_. holding (xs_env xs) P H)" by simp
  then show ?thesis by (rule ends_then) (rule f)
qed

lemma step_policy:
  assumes e: "env_ok (xs_env xs)" and lin: "linear_transition s t = Some s'"
    and t: "t \<notin> {PRIORITIZE, PREPARE_PLAN, SELECT_WINDOW}" and actor: "actor \<noteq> []"
    and req: "\<And>a. ta_record_ids a = ids \<Longrightarrow> required_present t a = Inr ()"
    and f: "\<And>c. rc_state c = s' \<Longrightarrow> ends (at_stage (xs_env xs) i s' H) (f c) Q E"
  shows "ends (at_stage (xs_env xs) i s H) (bindM (policy_advance xs i t actor ids ev detail) f) Q E"
  unfolding policy_advance_def bindM_assoc
proof (rule step_id [OF e], rule step_clock [OF e], rule step_linear [OF e lin t])
  fix x now :: string and c assume *: "x \<noteq> []" "x \<notin> H" "now \<noteq> []"
  let ?a = "(basic_args x now actor ids ev)\<lparr>ta_detail := detail\<rparr>"
  show "plain_args ?a" using * actor by (simp add: plain_args_def basic_args_def)
  show "required_present t ?a = Inr ()" by (rule req) (simp add: basic_args_def)
  show "ta_event_id ?a \<in> insert x H" by (simp add: basic_args_def)
  show "rc_state c = s' \<Longrightarrow> ends (at_stage (xs_env xs) i s' (insert x H - {ta_event_id ?a})) (f c) Q E"
    using f * by (simp add: basic_args_def)
qed

lemma step_policy_block:
  assumes e: "env_ok (xs_env xs)" and s: "s \<notin> set terminal_case_states" "s \<noteq> BLOCKED"
    and t: "actor \<noteq> []" "detail \<noteq> []"
    and f: "\<And>c. rc_state c = BLOCKED \<Longrightarrow> ends (at_stage (xs_env xs) i BLOCKED H) (f c) Q E"
  shows "ends (at_stage (xs_env xs) i s H) (bindM (policy_advance xs i BLOCK actor ids ev detail) f) Q E"
  unfolding policy_advance_def bindM_assoc
proof (rule step_id [OF e], rule step_clock [OF e], rule step_block [OF e s])
  fix x now :: string and c assume *: "x \<noteq> []" "x \<notin> H" "now \<noteq> []"
  let ?a = "(basic_args x now actor ids ev)\<lparr>ta_detail := detail\<rparr>"
  show "plain_args ?a" using * t by (simp add: plain_args_def basic_args_def)
  show "ta_event_id ?a \<in> insert x H" "ta_detail ?a \<noteq> []" using t by (simp_all add: basic_args_def)
  show "rc_state c = BLOCKED \<Longrightarrow> ends (at_stage (xs_env xs) i BLOCKED (insert x H - {ta_event_id ?a})) (f c) Q E"
    using f * by (simp add: basic_args_def)
qed

section \<open>Rolling back\<close>

definition rolled :: "env \<Rightarrow> string \<Rightarrow> execution_outcome \<Rightarrow> 'x world \<Rightarrow> bool" where
  "rolled env i out w =
     (at_stage env i (rc_state (xo_case out)) {} w \<and> xo_verification_record out \<noteq> None \<and>
      xo_handoff_record out = None \<and>
      (rc_state (xo_case out) = ROLLED_BACK \<and> xo_rolled_back out \<and> \<not> xo_contained out \<or>
       rc_state (xo_case out) = BLOCKED \<and> \<not> xo_rolled_back out \<and> xo_contained out))"

lemma record_ok:
  assumes "pr_record_id r \<noteq> []" "pr_case_id r \<noteq> []" "pr_record_type r \<noteq> []" "pr_schema_version r = 1"
  shows "is_ok (mk_product_record r)"
  using assms by (simp add: mk_product_record_def)

lemma finish_rollback_ends:
  assumes e: "env_ok (xs_env xs)"
  shows "ends (at_stage (xs_env xs) i ROLLING_BACK H) (finish_rollback xs i rec step health ev reason)
    (rolled (xs_env xs) i) (\<lambda>e. at_stage (xs_env xs) i BLOCKED {})"
  unfolding finish_rollback_def
proof (rule ends_known [OF at_stage_id], assumption, rule ends_if)
  show "ends (at_stage (xs_env xs) i ROLLING_BACK H)
     (bindM (policy_advance xs i BLOCK ''execution-policy'' [(''rollback_failure_id'', pr_record_id rec)]
        ev not_restored) (\<lambda>_. raise ActionPlaneError not_restored))
     (rolled (xs_env xs) i) (\<lambda>e. at_stage (xs_env xs) i BLOCKED {})"
    by (rule step_policy_block [OF e])
      (auto simp: not_restored_def terminal_case_states_def intro!: ends_pure elim: holding_less)
next
  assume i: "i \<noteq> []"
  let ?restored = "truthy (get_or (as_payload step) ''checkpoint_restored'' (PBool True))"
  show "ends (at_stage (xs_env xs) i ROLLING_BACK H)
     (bindM (new_id (xs_env xs) ''VERIFY'') (\<lambda>v. bindM (clock_now (xs_env xs)) (\<lambda>t.
      bindM (store_record (rollback_verification v i t step reason ev)) (\<lambda>verification.
      if \<not> ?restored then
        bindM (policy_advance xs i BLOCK ''execution-policy'' [(''verification_result_id'', v)] ev contained_detail)
          (\<lambda>c. ret \<lparr> xo_case = c, xo_execution_record = rec, xo_verification_record = Some verification,
                xo_handoff_record = None, xo_rolled_back = False, xo_contained = True \<rparr>)
      else
        bindM (policy_advance xs i COMPLETE_ROLLBACK ''execution-policy'' [(''verification_result_id'', v)] ev [])
          (\<lambda>c. ret \<lparr> xo_case = c, xo_execution_record = rec, xo_verification_record = Some verification,
                xo_handoff_record = None, xo_rolled_back = True, xo_contained = False \<rparr>)))))
     (rolled (xs_env xs) i) (\<lambda>e. at_stage (xs_env xs) i BLOCKED {})"
  proof (rule step_id [OF e], rule step_clock [OF e], rule step_record [OF e], goal_cases)
    case (1 v t)
    then show ?case using i by (intro record_ok) (simp_all add: rollback_verification_def)
  next
    case (2 v t)
    then show ?case by (simp add: rollback_verification_def)
  next
    case (3 v t)
    show ?case
    proof (rule ends_if)
      show "ends (at_stage (xs_env xs) i ROLLING_BACK
              (insert v H - {pr_record_id (rollback_verification v i t step reason ev)}))
         (bindM (policy_advance xs i BLOCK ''execution-policy'' [(''verification_result_id'', v)] ev contained_detail)
          (\<lambda>c. ret \<lparr> xo_case = c, xo_execution_record = rec,
                xo_verification_record = Some (rollback_verification v i t step reason ev),
                xo_handoff_record = None, xo_rolled_back = False, xo_contained = True \<rparr>))
         (rolled (xs_env xs) i) (\<lambda>e. at_stage (xs_env xs) i BLOCKED {})"
        by (rule step_policy_block [OF e])
          (auto simp: contained_detail_def terminal_case_states_def rolled_def intro!: ends_pure elim: holding_less)
      show "ends (at_stage (xs_env xs) i ROLLING_BACK
              (insert v H - {pr_record_id (rollback_verification v i t step reason ev)}))
         (bindM (policy_advance xs i COMPLETE_ROLLBACK ''execution-policy'' [(''verification_result_id'', v)] ev [])
          (\<lambda>c. ret \<lparr> xo_case = c, xo_execution_record = rec,
                xo_verification_record = Some (rollback_verification v i t step reason ev),
                xo_handoff_record = None, xo_rolled_back = True, xo_contained = False \<rparr>))
         (rolled (xs_env xs) i) (\<lambda>e. at_stage (xs_env xs) i BLOCKED {})"
        by (rule step_policy [OF e, where s' = ROLLED_BACK])
          (use 3(1) in \<open>auto simp: linear_transition_def linear_transitions_def required_present_def rolled_def
             intro!: ends_pure elim: holding_less\<close>)
    qed
  qed
qed

lemma rollback_ends:
  assumes e: "env_ok (xs_env xs)" and ad: "adapters_aside xs" and s: "s \<in> {EXECUTING, VERIFYING}"
  shows "ends (at_stage (xs_env xs) i s H) (rollback xs i ctx ck dir ev reason)
    (rolled (xs_env xs) i) (\<lambda>e. at_stage (xs_env xs) i BLOCKED {})"
  unfolding rollback_def Let_def
proof (rule ends_known [OF at_stage_id], assumption, rule step_clock [OF e], rule step_id [OF e],
    rule step_guarded, goal_cases)
  case (2 now x step)
  show ?case
  proof (rule step_guarded, goal_cases)
    case (2 health)
    show ?case
    proof (rule step_evidence [OF e], rule step_record [OF e], goal_cases)
      case (1 rev)
      then show ?case using \<open>i \<noteq> []\<close> \<open>x \<noteq> []\<close> by (intro record_ok) (simp_all add: rollback_record_def)
    next
      case (2 rev)
      then show ?case by (simp add: rollback_record_def)
    next
      case (3 rev)
      have lin: "linear_transition s START_ROLLBACK = Some ROLLING_BACK"
        using s by (auto simp: linear_transition_def linear_transitions_def)
      show ?case
      proof (rule step_id [OF e], rule step_linear [OF e lin], goal_cases)
        case (5 y c)
        show ?case by (rule finish_rollback_ends [OF e])
      qed (use \<open>now \<noteq> []\<close> \<open>x \<noteq> []\<close> in \<open>auto simp: plain_args_def basic_args_def required_present_def\<close>)
    qed
  qed (use ad in \<open>simp add: adapters_aside_def\<close>)
qed (use ad in \<open>simp add: adapters_aside_def\<close>)

section \<open>Completing\<close>

definition remediated :: "env \<Rightarrow> string \<Rightarrow> execution_outcome \<Rightarrow> 'x world \<Rightarrow> bool" where
  "remediated env i out w =
     (at_stage env i REMEDIATED {} w \<and> rc_state (xo_case out) = REMEDIATED \<and>
      xo_handoff_record out \<noteq> None \<and> \<not> xo_rolled_back out \<and> \<not> xo_contained out)"

lemma pget_Some: "pget d k \<noteq> PNone \<Longrightarrow> dict_get d k = Some (pget d k)"
  by (cases "dict_get d k") (auto simp: pget_def get_or_def)

lemma item_typed:
  "is_list (pget d k) \<Longrightarrow> item (PDict d) k = Inr (pget d k)"
  "is_str (pget d k) \<Longrightarrow> item (PDict d) k = Inr (pget d k)"
  by (cases "pget d k"; use pget_Some [of d k] in \<open>auto simp: item_def\<close>)+

lemma list_of_list: "is_list v \<Longrightarrow> list_of v = Inr v"
  by (cases v) (auto simp: list_of_def)

lemma handoff_body_ok:
  assumes "audit_shape (ar_output audit)"
  shows "\<exists>body. handoff_body h o' audit c = Inr body"
  using assms by (simp add: handoff_body_def audit_shape_def item_typed list_of_list)

lemma audit_shape_summary: "audit_shape d \<Longrightarrow> \<exists>x. item_text (PDict d) ''summary'' = Inr x"
  by (simp add: audit_shape_def item_text_def item_typed)

lemma complete_ends:
  assumes e: "env_ok (xs_env xs)" and ids: "approved_finding_ids ctx = Inr ids"
    and shape: "audit_shape (ar_output audit)"
  shows "ends (at_stage (xs_env xs) i VERIFYING H)
    (complete_remediation xs i originator ctx execution probes audit ev)
    (remediated (xs_env xs) i) E"
  unfolding complete_remediation_def
proof (rule ends_known [OF at_stage_id], assumption, rule step_id [OF e], rule step_clock [OF e],
    rule step_record [OF e], goal_cases)
  case (1 v t1)
  then show ?case by (intro record_ok) (simp_all add: verification_record_def)
next
  case (2 v t1)
  then show ?case by (simp add: verification_record_def)
next
  case (3 v t1)
  show ?case
  proof (rule step_id [OF e], rule step_clock [OF e], rule ends_liftE, goal_cases)
    case (1 c t2 s x)
    then show ?case using ids by simp
  next
    case (2 c t2 fs)
    show ?case
    proof (rule step_record [OF e], goal_cases)
      case 1
      then show ?case using \<open>i \<noteq> []\<close> \<open>c \<noteq> []\<close> by (intro record_ok) (simp_all add: certificate_record_def)
    next
      case 2
      then show ?case by (simp add: certificate_record_def)
    next
      case 3
      show ?case
      proof (rule step_id [OF e], rule step_clock [OF e], rule ends_liftE, goal_cases)
        case (1 h t3 s x)
        then show ?case using handoff_body_ok [OF shape] by (metis Inl_Inr_False)
      next
        case (2 h t3 body)
        show ?case
        proof (rule step_record [OF e], goal_cases)
          case 1
          then show ?case using \<open>i \<noteq> []\<close> \<open>h \<noteq> []\<close> by (intro record_ok) simp_all
        next
          case 3
          show ?case
            by (rule step_policy [OF e, where s' = REMEDIATED])
              (use \<open>v \<noteq> []\<close> in \<open>auto simp: linear_transition_def linear_transitions_def required_present_def
                 remediated_def intro!: ends_pure elim: holding_less\<close>)
        qed simp
      qed
    qed
  qed
qed

section \<open>Probes and audit\<close>

lemma run_probes_ends:
  assumes ad: "adapters_aside xs"
  shows "returns (at_stage (xs_env xs) i VERIFYING H) (run_probes xs i ctx) (\<lambda>_. at_stage (xs_env xs) i VERIFYING H)"
proof -
  have "returns (at_stage (xs_env xs) i VERIFYING H)
     (mapM (\<lambda>p. guarded (vp_run p ctx)
             (\<lambda>e. \<lparr> po_probe = vp_name p, po_target = i, po_passed = False,
                    po_detail = ''verification probe raised: '' @ exn_str e, po_payload = [] \<rparr>)) ps)
     (\<lambda>_. at_stage (xs_env xs) i VERIFYING H)"
    if "set ps \<subseteq> set (xs_probes xs)" for ps
    using that
  proof (induction ps)
    case Nil
    then show ?case by (auto intro: ends_pure)
  next
    case (Cons p ps)
    from Cons.prems have p: "stays (aside (xs_env xs)) (vp_run p ctx)" and sub: "set ps \<subseteq> set (xs_probes xs)"
      using ad by (auto simp: adapters_aside_def)
    show ?case unfolding mapM.simps
      by (rule step_guarded [OF p], rule ends_then [OF Cons.IH [OF sub]], rule ends_pure)
  qed
  then show ?thesis unfolding run_probes_def by blast
qed

lemma audit_accepted:
  assumes "audit_failures xs task audit ev = Inr []" "at_output_contract task = ''PostChangeReview.v1''"
    and "schema_sound (xs_schema xs)" "at_evidence_ids task = ev"
    and "item (PDict (ar_output audit)) ''decision'' = Inr d"
    and "d \<noteq> PStr ''rollback''" "d \<noteq> PStr ''needs_human_context''"
  shows "audit_shape (ar_output audit) \<and> validate_result task audit = [] \<and> ar_status audit = SUCCEEDED \<and>
    set (at_evidence_ids task) = set (ar_evidence_cited audit) \<and>
    pget (ar_output audit) ''decision'' = PStr ''accept'' \<and>
    truthy (pget (ar_output audit) ''validated_outcomes'')"
proof -
  from assms(1) obtain errors where errors: "validate_output (xs_schema xs) (at_output_contract task)
      (PDict (ar_output audit)) = Inr errors" "errors = []" "validate_result task audit = []"
    "ar_status audit = SUCCEEDED" "set ev \<subseteq> set (ar_evidence_cited audit)"
    "pget (ar_output audit) ''decision'' = PStr ''accept'' \<Longrightarrow> truthy (pget (ar_output audit) ''validated_outcomes'')"
    by (auto simp: audit_failures_def res_simps split: if_splits)
  then have "schema_sound (xs_schema xs) \<Longrightarrow> audit_shape (ar_output audit)"
    using assms(2) by (auto simp: validate_output_Nil output_schema_def output_contracts_def schema_sound_def)
  then have shape: "audit_shape (ar_output audit)" using assms(3) by blast
  have "pget (ar_output audit) ''decision'' = d"
    using assms(5) by (auto simp: item_dict_Inr pget_def)
  with shape assms(6,7) have "d = PStr ''accept''" by (auto simp: audit_shape_def)
  moreover have "set (ar_evidence_cited audit) \<subseteq> set (at_evidence_ids task)"
    using errors(3) by (simp add: validate_result_Nil)
  ultimately show ?thesis
    using shape errors \<open>pget (ar_output audit) ''decision'' = d\<close> assms(4) by auto
qed

definition settled :: "'x execution_service \<Rightarrow> string \<Rightarrow> execution_outcome \<Rightarrow> 'x world \<Rightarrow> bool" where
  "settled xs i out w = (rolled (xs_env xs) i out w \<or> remediated (xs_env xs) i out w)"

lemma rollback_settles:
  assumes "env_ok (xs_env xs)" "adapters_aside xs" "s \<in> {EXECUTING, VERIFYING}"
  shows "ends (at_stage (xs_env xs) i s H) (rollback xs i ctx ck dir ev reason)
    (settled xs i) (\<lambda>e. at_stage (xs_env xs) i BLOCKED {})"
  by (rule ends_conseq [OF rollback_ends [OF assms]]) (auto simp: settled_def)

lemma audit_ends:
  assumes e: "env_ok (xs_env xs)" and ad: "adapters_aside xs" and sound: "schema_sound (xs_schema xs)"
    and ids: "approved_finding_ids ctx = Inr ids"
  shows "ends (at_stage (xs_env xs) i VERIFYING H)
    (audit_and_complete xs i originator ctx st c result probes ev)
    (settled xs i) (\<lambda>e. at_stage (xs_env xs) i BLOCKED {})"
  unfolding audit_and_complete_def Let_def
proof (rule ends_known [OF at_stage_id], assumption, rule step_id [OF e], rule ends_liftE, goal_cases)
  case (1 t w x)
  then show ?case by (simp add: audit_task_def mk_agent_task_def guardE_def)
next
  case (2 t task)
  then have task: "at_case_id task = i" "at_role task = RELEASE_AUDITOR" "at_evidence_ids task = ev"
    "at_output_contract task = ''PostChangeReview.v1''"
    by (auto simp: audit_task_def mk_agent_task_def res_simps)
  have undo: "ends (at_stage (xs_env xs) i VERIFYING H') (rollback xs i ctx ck dir ev reason)
      (settled xs i) (\<lambda>e. at_stage (xs_env xs) i BLOCKED {})" for H' ck dir ev reason
    by (rule rollback_settles [OF e ad]) simp
  show ?case
  proof (rule step_guarded, goal_cases)
    case 1
    then show ?case using ad by (intro aside.bindM aside.pure) (simp add: adapters_aside_def)
  next
    case (2 audited)
    show ?case
    proof (cases audited)
      case (Inl x)
      then show ?thesis by (simp add: undo)
    next
      case (Inr audit)
      show ?thesis unfolding Inr sum.case
      proof (rule ends_liftE, goal_cases)
        case (1 w x)
        then show ?case
          using task(4) by (auto simp: audit_failures_def validate_output_def output_schema_def output_contracts_def)
      next
        case (2 failures)
        note fl = 2
        show ?case
        proof (rule ends_if [OF undo], simp, rule step_clock [OF e], rule step_evidence [OF e], rule ends_liftE,
            goal_cases)
          case (1 t x w y)
          then have "audit_shape (ar_output audit)"
            using 2 sound task(4)
            by (auto simp: audit_failures_def res_simps validate_output_Nil output_schema_def
                output_contracts_def schema_sound_def split: if_splits)
          then show ?case using 1 pget_Some [of "ar_output audit" "''decision''"]
            by (auto simp: audit_shape_def item_def)
        next
          case (2 t x d)
          then have d: "item (PDict (ar_output audit)) ''decision'' = Inr d" "failures = []" by simp_all
          have shape: "audit_shape (ar_output audit)"
            using fl d(2) sound task(4)
            by (auto simp: audit_failures_def res_simps validate_output_Nil output_schema_def
                output_contracts_def schema_sound_def)
          note smry = audit_shape_summary [OF shape]
          show ?case
          proof (rule ends_if, goal_cases)
            case 1
            show ?case by (rule ends_liftE) (use smry undo in auto)
          next
            case 2
            show ?case
            proof (rule ends_if, goal_cases)
              case 1
              show ?case by (rule ends_liftE) (use smry undo in auto)
            next
              case 2
              show ?case by (rule ends_conseq [OF complete_ends [OF e ids shape]]) (auto simp: settled_def)
            qed
          qed
        qed
      qed
    qed
  qed
qed

lemma verify_ends:
  assumes e: "env_ok (xs_env xs)" and ad: "adapters_aside xs" and sound: "schema_sound (xs_schema xs)"
    and ids: "approved_finding_ids ctx = Inr ids"
  shows "ends (at_stage (xs_env xs) i EXECUTING H)
    (verify_change xs i originator ctx st deployment health ev)
    (settled xs i) (\<lambda>e. at_stage (xs_env xs) i BLOCKED {})"
  unfolding verify_change_def Let_def
proof (rule ends_known [OF at_stage_id], assumption, rule step_id [OF e], rule step_clock [OF e],
    rule step_record [OF e], goal_cases)
  case (1 x t)
  then show ?case by (intro record_ok) (simp_all add: result_of_deployment_def)
next
  case (2 x t)
  then show ?case by (simp add: result_of_deployment_def)
next
  case (3 x t)
  show ?case
  proof (rule step_policy [OF e, where s' = VERIFYING], goal_cases)
    case (5 c)
    show ?case
    proof (rule ends_then [OF run_probes_ends [OF ad]], rule step_clock [OF e], rule step_evidence [OF e], goal_cases)
      case (1 rs t x)
      show ?case
        by (cases "probes_reason rs") (simp_all add: audit_ends [OF e ad sound ids] rollback_settles [OF e ad])
    qed
  qed (use \<open>x \<noteq> []\<close> in \<open>auto simp: linear_transition_def linear_transitions_def required_present_def\<close>)
qed

section \<open>Starting\<close>

text \<open>What was approved and scheduled when the execution was admitted.\<close>

definition admitted :: "'x execution_service \<Rightarrow> string \<Rightarrow> string \<Rightarrow> 'x world \<Rightarrow> bool" where
  "admitted xs i job w =
     (\<exists>c es window now starts stops aid approval expires expiry.
        sql_view (wd_cases w) i = Some (c, es) \<and> rc_state c = APPROVED \<and>
        dict_get (rc_record_ids c) ''execution_job_id'' = Some job \<and> rc_change_window c = Some window \<and>
        parse_timestamp (env_now (xs_env xs) (wd_tick w)) = Inr now \<and>
        parse_timestamp (cw_starts_at window) = Inr starts \<and> parse_timestamp (cw_ends_at window) = Inr stops \<and>
        starts \<le> now \<and> now < stops \<and>
        dict_get (rc_record_ids c) ''approval_id'' = Some aid \<and>
        sql_record_view (wd_records w) aid = Some approval \<and> pr_case_id approval = i \<and>
        item (pr_body approval) ''expires_at'' = Inr (PStr expires) \<and>
        parse_timestamp expires = Inr expiry \<and> now < expiry)"

lemma get_record_run:
  assumes "sql_record_ok (wd_records w)"
  shows "get_record i w = ((case sql_record_view (wd_records w) i of
     None \<Rightarrow> Inl (Raise ProductRecordNotFound i) | Some r \<Rightarrow> Inr r), w)"
  using sql_record.get_law [OF assms, of i] by (simp add: get_record_def on_records_def)

lemma context_record_run:
  assumes "sql_record_ok (wd_records w)" "context_record c name w = (r, w')"
  shows "w' = w \<and> (\<forall>x. r = Inr x \<longrightarrow> (\<exists>k. dict_get (rc_record_ids c) name = Some k \<and>
    sql_record_view (wd_records w) k = Some x \<and> pr_case_id x = rc_case_id c))"
  using assms(2) get_record_run [OF assms(1)]
  by (auto simp: context_record_def bindM_def raise_def guardM_def guardE_def ret_def
      split: option.splits list.splits if_splits)

lemma build_context_run:
  assumes ok: "sql_record_ok (wd_records w)" and run: "build_context xs c w = (r, w')"
  shows "w' = w \<and> (\<forall>ctx. r = Inr ctx \<longrightarrow> ex_case ctx = c \<and> is_ok (approved_finding_ids ctx) \<and>
    (\<exists>k. dict_get (rc_record_ids c) ''approval_id'' = Some k \<and>
       sql_record_view (wd_records w) k = Some (ex_approval ctx) \<and> pr_case_id (ex_approval ctx) = rc_case_id c))"
proof -
  note R = context_record_run [OF ok]
  obtain a where a: "context_record c ''change_plan_id'' w = (a, w)" using R by (metis surj_pair)
  obtain b where b: "context_record c ''iac_link_id'' w = (b, w)" using R by (metis surj_pair)
  obtain d where d: "context_record c ''approval_id'' w = (d, w)" using R by (metis surj_pair)
  obtain f where f: "context_record c ''change_window_id'' w = (f, w)" using R by (metis surj_pair)
  show ?thesis using run R [OF d]
    by (cases a; cases b; cases d; cases f)
      (auto simp: build_context_def bindM_def a b d f Let_def liftE_def ret_def is_ok_iff split: sum.splits)
qed

text \<open>The guards read and change nothing; when they let a case pass, it was admitted.\<close>

definition admits :: "'x execution_service \<Rightarrow> string \<Rightarrow> string \<Rightarrow> 'x world \<Rightarrow>
    (string \<times> execution_context) res \<Rightarrow> 'x world \<Rightarrow> bool" where
  "admits xs i job w r w' =
     ((w' = w \<or> w' = w\<lparr>wd_tick := wd_tick w + 1\<rparr>) \<and>
      (\<forall>now ctx. r = Inr (now, ctx) \<longrightarrow> admitted xs i job w \<and> is_ok (approved_finding_ids ctx) \<and>
         now = env_now (xs_env xs) (wd_tick w)))"

lemma admit_run:
  assumes cases: "cases_ok (wd_cases w)" and recs: "sql_record_ok (wd_records w)"
    and run: "admit xs i originator job w = (r, w')"
  shows "admits xs i job w r w'"
proof (cases "sql_view (wd_cases w) i")
  case None
  then show ?thesis using run get_case_view [OF cases, of i] by (auto simp: admit_def bindM_def admits_def)
next
  case (Some v)
  obtain c es where v: "v = (c, es)" by (cases v)
  have g: "get_case i w = (Inr c, w)" using get_case_view [OF cases, of i] Some v by simp
  have ci: "rc_case_id c = i" using view_case_ok [OF cases] Some v by blast
  let ?w = "w\<lparr>wd_tick := wd_tick w + 1\<rparr>"
  show ?thesis
  proof (cases "rc_state c = APPROVED \<and> has_record c ''schedule_id'' \<and> has_record c ''execution_job_id'' \<and>
      dict_get (rc_record_ids c) ''execution_job_id'' = Some job \<and> originator \<noteq> []")
    case False
    then show ?thesis using run g
      by (auto simp: admit_def bindM_def guardM_def guardE_def admits_def split: if_splits)
  next
    case True
    note T = True
    show ?thesis
    proof (cases "rc_change_window c")
      case None
      with T g run show ?thesis
        by (auto simp: admit_def bindM_def guardM_def clock_now_def raise_def admits_def)
    next
      case (Some window)
      obtain b wb where b: "build_context xs c ?w = (b, wb)" by (metis surj_pair)
      have B: "wb = ?w" "\<And>ctx. b = Inr ctx \<Longrightarrow> is_ok (approved_finding_ids ctx) \<and>
        (\<exists>k. dict_get (rc_record_ids c) ''approval_id'' = Some k \<and>
           sql_record_view (wd_records w) k = Some (ex_approval ctx) \<and> pr_case_id (ex_approval ctx) = i)"
        using build_context_run [OF _ b] recs ci by auto
      have stamp: "parse_stamp_value v = Inr x \<longleftrightarrow> (\<exists>t. v = PStr t \<and> parse_timestamp t = Inr x)" for v x
        by (cases v) (auto simp: parse_stamp_value_def res_simps as_str_def)
      show ?thesis
      proof (cases r)
        case (Inl e)
        with run T g Some b B(1) show ?thesis
          by (auto simp: admit_def bindM_Inl run_simps admits_def bindE_Inl)
      next
        case (Inr x)
        with run T g Some b B(1) obtain ctx now starts stops expiry where
          x: "x = (env_now (xs_env xs) (wd_tick w), ctx)" "w' = ?w" "b = Inr ctx"
          "parse_timestamp (env_now (xs_env xs) (wd_tick w)) = Inr now"
          "parse_timestamp (cw_starts_at window) = Inr starts" "starts \<le> now"
          "parse_timestamp (cw_ends_at window) = Inr stops" "now < stops"
          "bindE (item (pr_body (ex_approval ctx)) ''expires_at'') parse_stamp_value = Inr expiry" "now < expiry"
          by (auto simp: admit_def run_simps)
        from x(9) obtain t where t: "item (pr_body (ex_approval ctx)) ''expires_at'' = Inr (PStr t)"
          "parse_timestamp t = Inr expiry" unfolding bindE_Inr stamp by blast
        have "admitted xs i job w"
          unfolding admitted_def using \<open>sql_view (wd_cases w) i = Some v\<close> v T Some x(4-8,10) t B(2) [OF x(3)] by blast
        with x B(2) [OF x(3)] Inr show ?thesis by (auto simp: admits_def)
      qed
    qed
  qed
qed

lemma start_ends:
  assumes e: "env_ok (xs_env xs)" and ad: "adapters_aside xs" and now: "now \<noteq> []"
    and db: "stands i APPROVED db"
  shows "ends (holding (xs_env xs) (\<lambda>db'. db' = db) {}) (start_execution xs i now ctx)
    (\<lambda>st. at_stage (xs_env xs) i EXECUTING {}) (\<lambda>e w. wd_cases w = db)"
  unfolding start_execution_def Let_def
proof (rule ends_known [of _ "i \<noteq> []"], goal_cases)
  case (1 w)
  then have "at_stage (xs_env xs) i APPROVED {} w" using db by (auto simp: holding_def)
  then show ?case by (rule at_stage_id)
next
  case 2
  have unchanged: "wd_cases w = db" if "holding (xs_env xs) (\<lambda>db'. db' = db) H w" for H and w :: "'a world"
    using that by (auto simp: holding_def staged_def)
  show ?case
  proof (rule step_id [OF e], rule step_adapter, goal_cases)
    case (2 x pre)
    show ?case
    proof (rule ends_guardM, simp add: unchanged, rule step_adapter, goal_cases)
      case (2 base)
      show ?case
      proof (rule ends_guardM, simp add: unchanged, rule step_adapter, goal_cases)
        case (2 ck)
        show ?case
        proof (rule step_evidence [OF e], rule step_record [OF e], goal_cases)
          case (1 ev)
          then show ?case using \<open>i \<noteq> []\<close> \<open>x \<noteq> []\<close> by (intro record_ok) (simp_all add: start_record_def)
        next
          case (2 ev)
          then show ?case by (simp add: start_record_def)
        next
          case (3 ev)
          have to_stage: "ends (holding (xs_env xs) (\<lambda>db'. db' = db) H) m Q E"
            if "ends (at_stage (xs_env xs) i APPROVED H) m Q E" for H Q E and m :: "('a world, execution_start) prog"
            by (rule ends_pre [OF that]) (use db in \<open>auto simp: holding_def\<close>)
          have lin: "linear_transition APPROVED START_EXECUTION = Some EXECUTING"
            by (simp add: linear_transition_def linear_transitions_def)
          show ?case
          proof (rule to_stage, rule step_id [OF e], rule step_linear [OF e lin], goal_cases)
            case (5 y c)
            show ?case by (rule ends_pure) (erule holding_less, simp)
          qed (use now \<open>x \<noteq> []\<close> in \<open>auto simp: plain_args_def basic_args_def required_present_def\<close>)
        qed
      qed (use ad in \<open>auto simp: adapters_aside_def unchanged\<close>)
    qed (use ad in \<open>auto simp: adapters_aside_def unchanged\<close>)
  qed (use ad in \<open>auto simp: adapters_aside_def unchanged\<close>)
qed

section \<open>A whole execution\<close>

definition ready :: "'x execution_service \<Rightarrow> 'x world \<Rightarrow> bool" where
  "ready xs w = staged (xs_env xs) (wd_cases w) {} w"

lemma deploy_ends:
  assumes e: "env_ok (xs_env xs)" and ad: "adapters_aside xs" and sound: "schema_sound (xs_schema xs)"
    and ids: "approved_finding_ids ctx = Inr ids"
  shows "ends (at_stage (xs_env xs) i EXECUTING {}) (deploy_and_verify xs i originator ctx st)
    (settled xs i) (\<lambda>e. at_stage (xs_env xs) i BLOCKED {})"
  unfolding deploy_and_verify_def Let_def
proof (rule step_guarded, goal_cases)
  case (2 step)
  show ?case
  proof (rule step_guarded, goal_cases)
    case (2 health)
    show ?case
    proof (rule step_clock [OF e], rule step_evidence [OF e], rule ends_if, goal_cases)
      case (1 t ev)
      show ?case by (rule rollback_settles [OF e ad]) simp
    next
      case (2 t ev)
      show ?case
      proof (rule ends_if, goal_cases)
        case 1
        show ?case by (rule rollback_settles [OF e ad]) simp
      next
        case 2
        show ?case by (rule verify_ends [OF e ad sound ids])
      qed
    qed
  qed (use ad in \<open>simp add: adapters_aside_def\<close>)
qed (use ad in \<open>simp add: adapters_aside_def\<close>)

lemma execute_ends:
  assumes e: "env_ok (xs_env xs)" and ad: "adapters_aside xs" and sound: "schema_sound (xs_schema xs)"
    and w: "ready xs w" and run: "execute xs i originator job w = (r, w')"
  shows "wd_cases w' = wd_cases w \<and> \<not> is_ok r \<or>
    (case r of
       Inl x \<Rightarrow> at_stage (xs_env xs) i BLOCKED {} w'
     | Inr out \<Rightarrow> rolled (xs_env xs) i out w' \<or> remediated (xs_env xs) i out w')"
proof -
  have ok: "cases_ok (wd_cases w)" "sql_record_ok (wd_records w)"
    using w by (simp_all add: ready_def staged_def)
  obtain a w1 where a: "admit xs i originator job w = (a, w1)" by (metis surj_pair)
  have adm: "admits xs i job w a w1" by (rule admit_run [OF ok a])
  then have w1: "holding (xs_env xs) (\<lambda>db'. db' = wd_cases w) {} w1" "wd_cases w1 = wd_cases w"
    using w staged_tick unfolding admits_def holding_def ready_def by fastforce+
  show ?thesis
  proof (cases a)
    case (Inl x)
    then show ?thesis using run a w1 by (auto simp: execute_def bindM_def)
  next
    case (Inr nc)
    obtain now ctx where nc: "nc = (now, ctx)" by (cases nc)
    note A = adm [unfolded admits_def Inr nc]
    obtain ids where ids: "approved_finding_ids ctx = Inr ids" using A by (auto simp: is_ok_iff)
    have now: "now \<noteq> []" using A e by (auto simp: env_ok_def)
    have st: "stands i APPROVED (wd_cases w)"
      using A by (auto simp: admitted_def stands_def)
    obtain b w2 where b: "start_execution xs i now ctx w1 = (b, w2)" by (metis surj_pair)
    note S = endsD [OF start_ends [OF e ad now st] w1(1) b]
    have exec: "execute xs i originator job w = (case (b, w2) of (Inl e, s') \<Rightarrow> (Inl e, s')
        | (Inr s, s') \<Rightarrow> deploy_and_verify xs i originator ctx s s')"
      by (simp add: execute_def bindM_def a Inr nc b)
    show ?thesis
    proof (cases b)
      case (Inl x)
      then have "r = Inl x" "w' = w2" using run exec by simp_all
      then show ?thesis using S Inl by simp
    next
      case (Inr s)
      from endsD [OF deploy_ends [OF e ad sound ids], of i w2 originator s r w'] run exec S Inr
      have "case r of Inr out \<Rightarrow> settled xs i out w'
          | Inl x \<Rightarrow> at_stage (xs_env xs) i BLOCKED {} w'" by simp
      then show ?thesis by (cases r) (auto simp: settled_def)
    qed
  qed
qed

section \<open>The run that remediates\<close>

text \<open>The steps of one run, each in the world the step before it left behind: the deployment and the
  health read after it, kept as evidence; the record of the result and the move to verification;
  the probes, one after the other; and the audit.\<close>

definition deployed_run ::
  "'x execution_service \<Rightarrow> execution_context \<Rightarrow> execution_start \<Rightarrow> action_step \<Rightarrow> health_observation \<Rightarrow>
   string \<Rightarrow> 'x world \<Rightarrow> 'x world \<Rightarrow> bool" where
  "deployed_run xs ctx st step health evidence w w' =
     (\<exists>w1 w2 w3 t. dv_deploy (xs_driver xs) ctx (es_checkpoint st) w = (Inr step, w1) \<and> as_passed step \<and>
        hm_observe (xs_monitor xs) ''after_deploy'' ctx w1 = (Inr health, w2) \<and> ho_healthy health \<and>
        clock_now (xs_env xs) w2 = (Inr t, w3) \<and>
        keep_evidence xs (es_run_dir st) ''deployment_result''
          (PDict [(''deployment'', action_step_to_dict step), (''health'', health_to_dict health)]) t w3 =
            (Inr evidence, w'))"

definition verification_begun ::
  "'x execution_service \<Rightarrow> string \<Rightarrow> execution_start \<Rightarrow> action_step \<Rightarrow> health_observation \<Rightarrow> string list \<Rightarrow>
   product_record \<Rightarrow> remediation_case \<Rightarrow> 'x world \<Rightarrow> 'x world \<Rightarrow> bool" where
  "verification_begun xs i st step health evidence result c w w' =
     (\<exists>rid t w1 w2 w3. new_id (xs_env xs) ''EXRES'' w = (Inr rid, w1) \<and> clock_now (xs_env xs) w1 = (Inr t, w2) \<and>
        store_record (result_of_deployment rid i t step health (es_checkpoint st) evidence) w2 = (Inr result, w3) \<and>
        policy_advance xs i START_VERIFICATION ''execution-policy'' [(''execution_result_id'', rid)] evidence [] w3 =
          (Inr c, w'))"

fun probe_chain ::
  "execution_context \<Rightarrow> 'x verification_probe list \<Rightarrow> probe_result list \<Rightarrow> 'x world \<Rightarrow> 'x world \<Rightarrow> bool" where
  "probe_chain ctx [] rs w w' = (rs = [] \<and> w' = w)"
| "probe_chain ctx (p # ps) rs w w' =
     (\<exists>r rs' v. rs = r # rs' \<and> vp_run p ctx w = (Inr r, v) \<and> po_passed r \<and> probe_chain ctx ps rs' v w')"

definition probed_run ::
  "'x execution_service \<Rightarrow> execution_context \<Rightarrow> execution_start \<Rightarrow> probe_result list \<Rightarrow> string \<Rightarrow>
   'x world \<Rightarrow> 'x world \<Rightarrow> bool" where
  "probed_run xs ctx st rs evidence w w' =
     (\<exists>w1 w2 t. probe_chain ctx (xs_probes xs) rs w w1 \<and> clock_now (xs_env xs) w1 = (Inr t, w2) \<and>
        keep_evidence xs (es_run_dir st) ''post_change_probes'' (PList (map probe_to_dict rs)) t w2 =
          (Inr evidence, w'))"

definition audited_run ::
  "'x execution_service \<Rightarrow> string \<Rightarrow> execution_context \<Rightarrow> execution_start \<Rightarrow> remediation_case \<Rightarrow> product_record \<Rightarrow>
   probe_result list \<Rightarrow> string set \<Rightarrow> agent_task \<Rightarrow> agent_result \<Rightarrow> 'x world \<Rightarrow> bool" where
  "audited_run xs i ctx st c result rs evidence task audit w =
     (\<exists>x w1 w2. new_id (xs_env xs) ''TASK'' w = (Inr x, w1) \<and>
        audit_task x i c ctx (es_execution st) result rs (at_evidence_ids task) = Inr task \<and>
        rt_run (xs_runtime xs) task w1 = (Inr audit, w2) \<and>
        at_case_id task = i \<and> at_role task = RELEASE_AUDITOR \<and> set (at_evidence_ids task) = evidence \<and>
        validate_result task audit = [] \<and> ar_status audit = SUCCEEDED \<and> set (ar_evidence_cited audit) = evidence \<and>
        pget (ar_output audit) ''decision'' = PStr ''accept'' \<and>
        truthy (pget (ar_output audit) ''validated_outcomes''))"

lemma rollback_no_handoff:
  "rollback xs i ctx ck dir ev reason w = (Inr out, w') \<Longrightarrow> xo_handoff_record out = None"
  by (auto simp: rollback_def finish_rollback_def Let_def run_simps split: if_splits)

lemma guarded_Inr:
  "guarded m fb w = (Inr x, w') \<longleftrightarrow> m w = (Inr x, w') \<or> (\<exists>e. m w = (Inl e, w') \<and> x = fb e)"
  by (auto simp: guarded_def run_simps)

lemma run_probes_chain:
  assumes "run_probes xs i ctx w = (Inr rs, w')" "list_all po_passed rs"
  shows "probe_chain ctx (xs_probes xs) rs w w'"
proof -
  have "mapM (\<lambda>p. guarded (vp_run p ctx)
             (\<lambda>e. \<lparr> po_probe = vp_name p, po_target = i, po_passed = False,
                    po_detail = ''verification probe raised: '' @ exn_str e, po_payload = [] \<rparr>)) ps v = (Inr rs, w') \<Longrightarrow>
      list_all po_passed rs \<Longrightarrow> probe_chain ctx ps rs v w'" for ps v
  proof (induction ps arbitrary: v rs)
    case (Cons p ps)
    then show ?case by (auto simp: run_simps guarded_Inr)
  qed (simp add: run_simps)
  with assms show ?thesis by (simp add: run_probes_def)
qed

lemma probes_reason_passed: "probes_reason rs = None \<Longrightarrow> rs \<noteq> [] \<and> list_all po_passed rs"
  by (auto simp: probes_reason_def Let_def filter_empty_conv list_all_iff split: if_splits)

lemma deploy_run:
  assumes "deploy_and_verify xs i originator ctx st w = (Inr out, w')" "xo_handoff_record out \<noteq> None"
  shows "\<exists>step health e v. deployed_run xs ctx st step health e w v \<and>
    verify_change xs i originator ctx st step health [es_evidence st, e] v = (Inr out, w')"
  using assms unfolding deploy_and_verify_def deployed_run_def Let_def
  by (fastforce simp: run_simps guarded_Inr failed_step_def unhealthy_def dest: rollback_no_handoff split: if_splits)

lemma verify_run:
  assumes "verify_change xs i originator ctx st step health ev w = (Inr out, w')" "xo_handoff_record out \<noteq> None"
  shows "\<exists>result c rs e u v. verification_begun xs i st step health ev result c w u \<and>
    probed_run xs ctx st rs e u v \<and> rs \<noteq> [] \<and>
    audit_and_complete xs i originator ctx st c result rs (dedup (ev @ [e])) v = (Inr out, w')"
proof -
  from assms(1) obtain rid t1 w1 w2 result w3 c u rs w4 t2 w5 e v where
    b: "new_id (xs_env xs) ''EXRES'' w = (Inr rid, w1)" "clock_now (xs_env xs) w1 = (Inr t1, w2)"
      "store_record (result_of_deployment rid i t1 step health (es_checkpoint st) ev) w2 = (Inr result, w3)"
      "policy_advance xs i START_VERIFICATION ''execution-policy'' [(''execution_result_id'', rid)] ev [] w3 = (Inr c, u)"
    and p: "run_probes xs i ctx u = (Inr rs, w4)" "clock_now (xs_env xs) w4 = (Inr t2, w5)"
      "keep_evidence xs (es_run_dir st) ''post_change_probes'' (PList (map probe_to_dict rs)) t2 w5 = (Inr e, v)"
    and r: "(case probes_reason rs of
          Some reason \<Rightarrow> rollback xs i ctx (es_checkpoint st) (es_run_dir st) (dedup (ev @ [e])) reason
        | None \<Rightarrow> audit_and_complete xs i originator ctx st c result rs (dedup (ev @ [e]))) v = (Inr out, w')"
    unfolding verify_change_def Let_def bindM_Inr by blast
  from r assms(2) have n: "probes_reason rs = None" by (cases "probes_reason rs") (auto dest: rollback_no_handoff)
  have "probed_run xs ctx st rs e u v"
    using p run_probes_chain [OF p(1)] probes_reason_passed [OF n] unfolding probed_run_def by blast
  moreover have "verification_begun xs i st step health ev result c w u" using b unfolding verification_begun_def by blast
  moreover have "rs \<noteq> []" using probes_reason_passed [OF n] by blast
  moreover have "audit_and_complete xs i originator ctx st c result rs (dedup (ev @ [e])) v = (Inr out, w')"
    using r n by simp
  ultimately show ?thesis by blast
qed

lemma audit_run:
  assumes "audit_and_complete xs i originator ctx st c result rs ev w = (Inr out, w')" "xo_handoff_record out \<noteq> None"
    and sound: "schema_sound (xs_schema xs)"
  shows "\<exists>task audit. audited_run xs i ctx st c result rs (set ev) task audit w"
proof -
  let ?rest = "\<lambda>audit. \<lambda>t.
               bindM (keep_evidence xs (es_run_dir st) ''release_auditor_result'' (audit_document audit) t)
                 (\<lambda>audit_evidence.
                  bindM (liftE (item (PDict (ar_output audit)) ''decision'')) (\<lambda>decision.
                  if decision = PStr ''rollback'' then
                    bindM (liftE (item_text (PDict (ar_output audit)) ''summary'')) (\<lambda>summary.
                    rollback xs i ctx (es_checkpoint st) (es_run_dir st) (dedup (ev @ [audit_evidence]))
                      (''release auditor requested rollback: '' @ summary))
                  else if decision = PStr ''needs_human_context'' then
                    bindM (liftE (item_text (PDict (ar_output audit)) ''summary'')) (\<lambda>summary.
                    rollback xs i ctx (es_checkpoint st) (es_run_dir st) (dedup (ev @ [audit_evidence]))
                      (''release auditor requires human context: '' @ summary))
                  else complete_remediation xs i originator ctx (es_execution st) rs audit (dedup (ev @ [audit_evidence]))))"
  from assms(1) obtain x w1 task audited w2 where
    x: "new_id (xs_env xs) ''TASK'' w = (Inr x, w1)"
    and task: "audit_task x i c ctx (es_execution st) result rs ev = Inr task"
    and a: "guarded (bindM (rt_run (xs_runtime xs) task) (\<lambda>a. ret (Inr a))) Inl w1 = (Inr audited, w2)"
    and rest: "(case audited of
           Inl e \<Rightarrow> rollback xs i ctx (es_checkpoint st) (es_run_dir st) ev (''release auditor runtime failed: '' @ exn_str e)
         | Inr audit \<Rightarrow>
             bindM (liftE (audit_failures xs task audit ev)) (\<lambda>failures.
             if failures \<noteq> [] then
               rollback xs i ctx (es_checkpoint st) (es_run_dir st) ev (''release audit contract failed: '' @ str_join ''; '' failures)
             else bindM (clock_now (xs_env xs)) (?rest audit))) w2
       = (Inr out, w')"
    unfolding audit_and_complete_def Let_def bindM_Inr liftE_run by blast
  from rest assms(2) obtain audit where audit: "audited = Inr audit"
    by (cases audited) (auto dest: rollback_no_handoff)
  from rest obtain failures where f: "audit_failures xs task audit ev = Inr failures"
    and r1: "(if failures \<noteq> [] then
        rollback xs i ctx (es_checkpoint st) (es_run_dir st) ev (''release audit contract failed: '' @ str_join ''; '' failures)
      else bindM (clock_now (xs_env xs)) (?rest audit)) w2 = (Inr out, w')"
    unfolding audit sum.case bindM_Inr liftE_run by auto
  have none: "failures = []" using r1 assms(2) by (cases "failures = []") (auto dest: rollback_no_handoff)
  from r1 obtain d v e where d: "item (PDict (ar_output audit)) ''decision'' = Inr d"
    and r2: "(if d = PStr ''rollback'' then
        bindM (liftE (item_text (PDict (ar_output audit)) ''summary'')) (\<lambda>summary.
          rollback xs i ctx (es_checkpoint st) (es_run_dir st) (dedup (ev @ [e]))
            (''release auditor requested rollback: '' @ summary))
      else if d = PStr ''needs_human_context'' then
        bindM (liftE (item_text (PDict (ar_output audit)) ''summary'')) (\<lambda>summary.
          rollback xs i ctx (es_checkpoint st) (es_run_dir st) (dedup (ev @ [e]))
            (''release auditor requires human context: '' @ summary))
      else complete_remediation xs i originator ctx (es_execution st) rs audit (dedup (ev @ [e]))) v = (Inr out, w')"
    unfolding none by (auto simp only: not_True_eq_False simp_thms if_False bindM_Inr liftE_run)
  have d': "d \<noteq> PStr ''rollback''" "d \<noteq> PStr ''needs_human_context''"
    using r2 assms(2) by (auto simp: bindM_Inr dest: rollback_no_handoff split: if_splits)
  have t: "at_case_id task = i" "at_role task = RELEASE_AUDITOR" "at_evidence_ids task = ev"
    "at_output_contract task = ''PostChangeReview.v1''"
    using task by (auto simp: audit_task_def mk_agent_task_def res_simps)
  from a audit have "rt_run (xs_runtime xs) task w1 = (Inr audit, w2)" by (auto simp: guarded_Inr run_simps)
  with x task t audit_accepted [OF f [unfolded none] t(4) sound t(3) d d'] show ?thesis unfolding audited_run_def by blast
qed

lemma probe_chain_length: "probe_chain ctx ps rs w w' \<Longrightarrow> length rs = length ps"
  by (induction ps arbitrary: rs w) auto

lemma probe_chain_at:
  "probe_chain ctx (ps @ p # qs) rs w w' \<Longrightarrow>
     \<exists>rs1 r v v'. probe_chain ctx ps rs1 w v \<and> vp_run p ctx v = (Inr r, v') \<and> po_passed r"
proof (induction ps arbitrary: rs w)
  case (Cons a ps)
  then obtain r rs' u where a: "vp_run a ctx w = (Inr r, u)" "po_passed r" and "probe_chain ctx (ps @ p # qs) rs' u w'"
    by auto
  from Cons.IH [OF this(3)] obtain rs1 r' v v' where "probe_chain ctx ps rs1 u v" "vp_run p ctx v = (Inr r', v')" "po_passed r'"
    by blast
  moreover have "probe_chain ctx (a # ps) (r # rs1) w v" using a calculation(1) by auto
  ultimately show ?case by blast
qed auto

text \<open>A remediating execution, opened up.\<close>

lemma remediated_run:
  assumes "env_ok (xs_env xs)" "adapters_aside xs" "schema_sound (xs_schema xs)" "ready xs w"
    and "execute xs i originator job w = (Inr out, w')" "rc_state (xo_case out) = REMEDIATED"
  shows "\<exists>now ctx w0 st w1 step health e1 w2 result c w3 rs e2 w4 task audit.
    admit xs i originator job w = (Inr (now, ctx), w0) \<and> start_execution xs i now ctx w0 = (Inr st, w1) \<and>
    deployed_run xs ctx st step health e1 w1 w2 \<and>
    verification_begun xs i st step health [es_evidence st, e1] result c w2 w3 \<and>
    probed_run xs ctx st rs e2 w3 w4 \<and> rs \<noteq> [] \<and>
    audited_run xs i ctx st c result rs {es_evidence st, e1, e2} task audit w4"
proof -
  from execute_ends [OF assms(1-5)] assms(6) have h: "xo_handoff_record out \<noteq> None"
    by (auto simp: rolled_def remediated_def)
  from assms(5) obtain now ctx w0 st w1 where
    a: "admit xs i originator job w = (Inr (now, ctx), w0)" "start_execution xs i now ctx w0 = (Inr st, w1)"
    and d: "deploy_and_verify xs i originator ctx st w1 = (Inr out, w')"
    by (auto simp: execute_def bindM_Inr)
  from deploy_run [OF d h] obtain step health e1 w2 where dep: "deployed_run xs ctx st step health e1 w1 w2"
    and v: "verify_change xs i originator ctx st step health [es_evidence st, e1] w2 = (Inr out, w')" by blast
  from verify_run [OF v h] obtain result c rs e2 w3 w4 where
    ver: "verification_begun xs i st step health [es_evidence st, e1] result c w2 w3"
      "probed_run xs ctx st rs e2 w3 w4" "rs \<noteq> []"
    and au: "audit_and_complete xs i originator ctx st c result rs (dedup ([es_evidence st, e1] @ [e2])) w4 = (Inr out, w')"
    by blast
  have "set (dedup ([es_evidence st, e1] @ [e2])) = {es_evidence st, e1, e2}" by auto
  with audit_run [OF au h assms(3)] a dep ver show ?thesis by (simp only:) blast
qed

lemma execute_admitted:
  assumes "cases_ok (wd_cases w)" "sql_record_ok (wd_records w)"
    and "execute xs i originator job w = (Inr out, w')"
  shows "admitted xs i job w"
proof -
  obtain a w1 where a: "admit xs i originator job w = (a, w1)" by (metis surj_pair)
  have adm: "admits xs i job w a w1" by (rule admit_run [OF assms(1,2) a])
  have "is_ok a" using assms(3) a by (cases a) (auto simp: execute_def bindM_def)
  then show ?thesis using adm by (auto simp: admits_def is_ok_iff)
qed

text \<open>C5: Nothing is executed that was not approved and scheduled for this moment: when an execution
  changes any case, the case stood in \<open>approved\<close>, its durable job is the one that executes it, the
  time is inside its change window, and the approval record it is bound to belongs to it and has
  not expired.\<close>

theorem execution_was_admitted:
  assumes "cases_ok (wd_cases w)" "sql_record_ok (wd_records w)"
    and "execute xs i originator job w = (r, w')" "wd_cases w' \<noteq> wd_cases w"
  shows "\<exists>c es window now starts stops aid approval expires expiry.
    sql_view (wd_cases w) i = Some (c, es) \<and> rc_state c = APPROVED \<and>
    dict_get (rc_record_ids c) ''execution_job_id'' = Some job \<and> rc_change_window c = Some window \<and>
    parse_timestamp (env_now (xs_env xs) (wd_tick w)) = Inr now \<and>
    parse_timestamp (cw_starts_at window) = Inr starts \<and> parse_timestamp (cw_ends_at window) = Inr stops \<and>
    starts \<le> now \<and> now < stops \<and>
    dict_get (rc_record_ids c) ''approval_id'' = Some aid \<and>
    sql_record_view (wd_records w) aid = Some approval \<and> pr_case_id approval = i \<and>
    item (pr_body approval) ''expires_at'' = Inr (PStr expires) \<and>
    parse_timestamp expires = Inr expiry \<and> now < expiry"
proof -
  obtain a w1 where a: "admit xs i originator job w = (a, w1)" by (metis surj_pair)
  have adm: "admits xs i job w a w1" by (rule admit_run [OF assms(1,2) a])
  have "is_ok a"
  proof (cases a)
    case (Inl x)
    then have "w' = w1" using assms(3) a by (simp add: execute_def bindM_def)
    then show ?thesis using adm assms(4) by (auto simp: admits_def)
  qed simp
  then have "admitted xs i job w" using adm by (auto simp: admits_def is_ok_iff)
  then show ?thesis unfolding admitted_def by blast
qed

text \<open>C6: An execution is never left half done. Whatever driver, monitor, probes and auditor answer,
  and whatever they raise, either nothing was started and the cases are as they were, or the case
  ends remediated, rolled back to its checkpoint, or blocked for a person; it is blocked when the
  change could only be contained, and also whenever the execution raises after its start.\<close>

theorem execution_never_half_done:
  assumes "env_ok (xs_env xs)" "adapters_aside xs" "schema_sound (xs_schema xs)" "ready xs w"
    and "execute xs i originator job w = (r, w')"
  shows "wd_cases w' = wd_cases w \<and> \<not> is_ok r \<or>
    (\<exists>s. stands i s (wd_cases w') \<and> s \<in> {REMEDIATED, ROLLED_BACK, BLOCKED} \<and>
       (case r of
          Inl x \<Rightarrow> s = BLOCKED
        | Inr out \<Rightarrow> rc_state (xo_case out) = s \<and> (xo_rolled_back out \<longleftrightarrow> s = ROLLED_BACK) \<and>
            (xo_contained out \<longleftrightarrow> s = BLOCKED)))"
proof -
  have at: "holding (xs_env xs) (stands i s) {} w' \<Longrightarrow> stands i s (wd_cases w')" for s
    by (auto simp: holding_def staged_def)
  from execute_ends [OF assms] show ?thesis
    by (cases r) (auto simp: rolled_def remediated_def dest!: at)
qed

text \<open>C7: A case becomes remediated only by a change that is proven to be good, in one run from its
  admission: the driver deployed the change and said that it passed; the monitor, read in the world
  the deployment left, found the service healthy; both answers were kept as evidence before
  verification began; there is a probe, and then every configured probe ran, one after the other,
  returned and passed, and the results were kept as evidence; and an independent auditor, asked
  after that about this case with these results, was given exactly the evidence of the start, of
  the deployment and of the probes, cited all of it and nothing else, accepted and named what was
  validated.\<close>

theorem remediated_only_if_proven:
  assumes "env_ok (xs_env xs)" "adapters_aside xs" "schema_sound (xs_schema xs)" "ready xs w"
    and "execute xs i originator job w = (Inr out, w')" "rc_state (xo_case out) = REMEDIATED"
  shows "\<exists>now ctx w0 st w1 step health e1 w2 result c w3 rs e2 w4 task audit.
    admit xs i originator job w = (Inr (now, ctx), w0) \<and> start_execution xs i now ctx w0 = (Inr st, w1) \<and>
    deployed_run xs ctx st step health e1 w1 w2 \<and>
    verification_begun xs i st step health [es_evidence st, e1] result c w2 w3 \<and>
    xs_probes xs \<noteq> [] \<and> probed_run xs ctx st rs e2 w3 w4 \<and>
    audited_run xs i ctx st c result rs {es_evidence st, e1, e2} task audit w4"
proof -
  have "probed_run xs ctx st rs e2 v v' \<Longrightarrow> rs \<noteq> [] \<Longrightarrow> xs_probes xs \<noteq> []" for ctx st rs e2 v v'
    by (auto simp: probed_run_def)
  then show ?thesis using remediated_run [OF assms] by (elim exE conjE) (intro exI conjI; assumption?; blast)
qed

end
