(* ===== verification/Approval_Properties.thy ===== *)
theory Approval_Properties
  imports Approvals Execution_Properties Validation_Properties
begin

text \<open>
  What a recorded decision of a person guarantees: it is bound to the exact review package that the
  case awaits a decision on, it is timely, and it is what the case rests on from then on.
\<close>

section \<open>The package\<close>

text \<open>The package that the case awaits a decision on.\<close>

definition awaited :: "string \<Rightarrow> string \<Rightarrow> 'x world \<Rightarrow> remediation_case \<Rightarrow> case_event list \<Rightarrow>
    product_record \<Rightarrow> bool" where
  "awaited i pid w c es package =
     (sql_view (wd_cases w) i = Some (c, es) \<and> rc_state c = AWAITING_APPROVAL \<and>
      dict_get (rc_record_ids c) ''human_review_package_id'' = Some pid \<and>
      sql_record_view (wd_records w) pid = Some package \<and> pr_case_id package = i \<and>
      pr_record_type package = ''HumanReviewPackage.v1'')"

lemma decision_package_run:
  assumes "cases_ok (wd_cases w)" "sql_record_ok (wd_records w)"
    and run: "decision_package kind i pid w = (r, w')"
  shows "w' = w \<and> (\<forall>c p. r = Inr (c, p) \<longrightarrow> (\<exists>es. awaited i pid w c es p))"
proof (cases "sql_view (wd_cases w) i")
  case None
  then show ?thesis using run get_case_view [OF assms(1), of i] by (auto simp: decision_package_def bindM_def)
next
  case (Some v)
  obtain c es where v: "v = (c, es)" by (cases v)
  have g: "get_case i w = (Inr c, w)" using get_case_view [OF assms(1), of i] Some v by simp
  have ci: "rc_case_id c = i" using view_case_ok [OF assms(1)] Some v by blast
  from run g show ?thesis using get_record_run [OF assms(2), of pid] Some v ci
    by (auto simp: decision_package_def bindM_def guardM_def guardE_def ret_def awaited_def
        split: option.splits if_splits)
qed

section \<open>Frames\<close>

text \<open>Everything but the last step leaves the cases alone, and the last step does when it raises.\<close>

definition same_cases :: "'x world \<Rightarrow> 'x world \<Rightarrow> bool" where
  "same_cases w w' = (cases_ok (wd_cases w) \<longrightarrow> wd_cases w' = wd_cases w)"

interpretation same_cases: frame same_cases
  by unfold_locales (simp_all add: same_cases_def)

lemma collected_same_cases: "stays collected m \<Longrightarrow> stays same_cases m"
  by (simp add: stays_def collected_def same_cases_def)

lemma store_record_same_cases: "stays same_cases (store_record r)"
  unfolding store_record_def put_record_def
  by (intro same_cases.bindM same_cases.pure) (rule staysI, auto simp: same_cases_def run_simps)

definition moves_last :: "('x world, 'a) prog \<Rightarrow> bool" where
  "moves_last m = (\<forall>w e w'. cases_ok (wd_cases w) \<longrightarrow> m w = (Inl e, w') \<longrightarrow> wd_cases w' = wd_cases w)"

lemma moves_last_then:
  assumes "stays same_cases m" "\<And>x. moves_last (f x)" shows "moves_last (bindM m f)"
  unfolding moves_last_def
proof (intro allI impI)
  fix w e w' assume ok: "cases_ok (wd_cases w)" and run: "bindM m f w = (Inl e, w')"
  obtain r v where m: "m w = (r, v)" by (cases "m w")
  have v: "wd_cases v = wd_cases w" using staysD [OF assms(1) m] ok by (simp add: same_cases_def)
  show "wd_cases w' = wd_cases w"
  proof (cases r)
    case (Inl x)
    then show ?thesis using run m v by (simp add: bindM_def)
  next
    case (Inr x)
    then have "f x v = (Inl e, w')" using run m by (simp add: bindM_def)
    then show ?thesis using assms(2) [of x] v ok unfolding moves_last_def by metis
  qed
qed

lemma moves_last_advance:
  assumes "args_ok a" shows "moves_last (bindM (advance i t a) (\<lambda>c. ret (f c)))"
  unfolding moves_last_def
proof (intro allI impI)
  fix w e w' assume ok: "cases_ok (wd_cases w)" and run: "bindM (advance i t a) (\<lambda>c. ret (f c)) w = (Inl e, w')"
  obtain r v where m: "advance i t a w = (r, v)" by (cases "advance i t a w")
  show "wd_cases w' = wd_cases w"
    using run m advance_run [OF ok assms m] by (cases r) (auto simp: bindM_def ret_def)
qed

lemma decision_package_same_cases: "stays same_cases (decision_package kind i pid)"
proof -
  have "stays same_cases (get_case i)"
    by (rule staysI) (auto simp: same_cases_def get_case_view)
  moreover have "stays same_cases (get_record pid)"
    by (rule staysI) (auto simp: same_cases_def get_record_def run_simps)
  ultimately show ?thesis unfolding decision_package_def by (intro same_cases.bindM same_cases.pure)
qed

lemma moves_last_case_prod:
  "(\<And>x y. moves_last (f x y)) \<Longrightarrow> moves_last (case p of (x, y) \<Rightarrow> f x y)"
  by (cases p) simp

lemmas moves_last_rules = moves_last_then [OF decision_package_same_cases] moves_last_case_prod
  moves_last_then [OF collected_same_cases] moves_last_then [OF store_record_same_cases]
  moves_last_advance

lemma approve_moves_last: "moves_last (approve env base a)"
  unfolding approve_def Let_def
  by (intro moves_last_rules collect_intros) (simp add: args_ok_def basic_args_def)

lemma reject_moves_last: "moves_last (reject env base a)"
  unfolding reject_def Let_def
  by (intro moves_last_rules collect_intros) (simp add: args_ok_def basic_args_def)

section \<open>Approval\<close>

lemma approve_run:
  assumes "approve env base a w = (Inr out, w')"
  obtains c package authenticated now expires ref body c' eid i w1 w2 w3 where
    "decision_package ''approval'' (va_case_id a) (va_review_package_id a) w = (Inr (c, package), w1)"
    "parse_timestamp (va_authenticated_at a) = Inr authenticated"
    "parse_timestamp (env_now env (wd_tick w1)) = Inr now"
    "parse_timestamp (va_expires_at a) = Inr expires" "\<not> now < authenticated" "\<not> expires \<le> now"
    "write_evidence env (base @ ''/cases/'' @ rc_case_id c @ ''/approval/'' @ va_approval_id a) i
       ''verified_human_approval'' (canonical_json (str_dict (approval_fields a @
          [(''review_package_sha256'', env_sha256 env (canonical_json (pr_body package)))])))
       approval_collector ''restricted'' [] (env_now env (wd_tick w1))
       (w1\<lparr>wd_tick := wd_tick w1 + 1 + 1\<rparr>) = (Inr ref, w2)"
    "decision_body (approval_fields a) (env_sha256 env (canonical_json (pr_body package))) c = Inr body"
    "store_record
       \<lparr> pr_record_id = va_approval_id a, pr_case_id = rc_case_id c,
         pr_record_type = ''ChangeApproval.v1'', pr_schema_version = 1,
         pr_created_at = env_now env (wd_tick w1),
         pr_body = body, pr_evidence_ids = [ef_evidence_id ref] \<rparr> w2 = (Inr (do_record out), w3)"
    "advance (rc_case_id c) APPROVE_CHANGE
       (basic_args eid (env_now env (wd_tick w1)) (''approver:'' @ va_approver a)
          [(''approval_id'', va_approval_id a)] (pr_evidence_ids (do_record out)))
       (w3\<lparr>wd_tick := wd_tick w3 + 1\<rparr>) = (Inr c', w')" "do_case out = c'"
  using assms unfolding approve_def Let_def case_prod_unfold run_simps
  by (elim exE conjE) (rule that; (assumption | simp))

lemma dict_get_str_dict: "str_dict d = PDict (map (\<lambda>kv. (fst kv, PStr (snd kv))) d)"
  by (simp add: str_dict_def case_prod_unfold)

lemma decision_body_item:
  assumes "decision_body (approval_fields a) h c = Inr body"
  shows "item body ''review_package_sha256'' = Inr (PStr h)"
  using assms
  by (auto simp: decision_body_def res_simps item_dict_Inr dict_get_str_dict dict_get_map_snd approval_fields_def)

lemma store_record_view:
  assumes "sql_record_ok (wd_records w)" "store_record r w = (Inr r', w')"
  shows "r' = r \<and> sql_record_view (wd_records w) (pr_record_id r) = None \<and>
    sql_record_ok (wd_records w') \<and>
    sql_record_view (wd_records w') = (sql_record_view (wd_records w))(pr_record_id r \<mapsto> json_record r)"
proof -
  have ok: "is_ok (mk_product_record r)" "r' = r"
    using assms(2) by (auto simp: store_record_def run_simps mk_product_record_def res_simps)
  then have put: "rs_put sql_record_ops r (wd_records w) = (Inr (), wd_records w')"
    using assms(2) by (auto simp: store_record_def put_record_def run_simps mk_product_record_def res_simps)
  have new: "sql_record_view (wd_records w) (pr_record_id r) = None"
    using sql_record.put_law [OF assms(1) ok(1)] put by (auto split: if_splits)
  from sql_record.put_view [OF assms(1) ok(1) new] put ok(2) new show ?thesis by simp
qed

text \<open>C12: An approval is bound to the exact review package that the case awaits a decision on: it is
  recorded under a fresh id with the digest of that package, after the person authenticated and
  before the approval expires, and the case is then \<open>approved\<close> and rests on it. Whenever the
  service raises, no case has changed.\<close>

theorem approval_binds_package:
  assumes "cases_ok (wd_cases w)" "sql_record_ok (wd_records w)"
    and "approve env base a w = (r, w')"
  shows "case r of
     Inl x \<Rightarrow> wd_cases w' = wd_cases w
   | Inr out \<Rightarrow> \<exists>c es e c' package authenticated now expires.
       awaited (va_case_id a) (va_review_package_id a) w c es package \<and>
       parse_timestamp (va_authenticated_at a) = Inr authenticated \<and>
       parse_timestamp (env_now env (wd_tick w)) = Inr now \<and>
       parse_timestamp (va_expires_at a) = Inr expires \<and> authenticated \<le> now \<and> now < expires \<and>
       sql_view (wd_cases w') = (sql_view (wd_cases w))(va_case_id a \<mapsto> (c', es @ [e])) \<and>
       same_case (do_case out) c' \<and> rc_state c' = APPROVED \<and>
       dict_get (rc_record_ids c') ''approval_id'' = Some (va_approval_id a) \<and>
       sql_record_view (wd_records w) (va_approval_id a) = None \<and>
       sql_record_view (wd_records w') (va_approval_id a) = Some (json_record (do_record out)) \<and>
       item (pr_body (do_record out)) ''review_package_sha256'' =
         Inr (PStr (env_sha256 env (canonical_json (pr_body package))))"
proof (cases r)
  case (Inl x)
  then show ?thesis using approve_moves_last [of env base a] assms unfolding moves_last_def by auto
next
  case (Inr out)
  then obtain c package authenticated now expires ref body c' eid i w1 w2 w3 where
    P: "decision_package ''approval'' (va_case_id a) (va_review_package_id a) w = (Inr (c, package), w1)"
    and T: "parse_timestamp (va_authenticated_at a) = Inr authenticated"
      "parse_timestamp (env_now env (wd_tick w1)) = Inr now"
      "parse_timestamp (va_expires_at a) = Inr expires" "\<not> now < authenticated" "\<not> expires \<le> now"
    and E: "write_evidence env (base @ ''/cases/'' @ rc_case_id c @ ''/approval/'' @ va_approval_id a) i
       ''verified_human_approval'' (canonical_json (str_dict (approval_fields a @
          [(''review_package_sha256'', env_sha256 env (canonical_json (pr_body package)))])))
       approval_collector ''restricted'' [] (env_now env (wd_tick w1))
       (w1\<lparr>wd_tick := wd_tick w1 + 1 + 1\<rparr>) = (Inr ref, w2)"
    and B: "decision_body (approval_fields a) (env_sha256 env (canonical_json (pr_body package))) c = Inr body"
    and R: "store_record
       \<lparr> pr_record_id = va_approval_id a, pr_case_id = rc_case_id c,
         pr_record_type = ''ChangeApproval.v1'', pr_schema_version = 1,
         pr_created_at = env_now env (wd_tick w1),
         pr_body = body, pr_evidence_ids = [ef_evidence_id ref] \<rparr> w2 = (Inr (do_record out), w3)"
    and A: "advance (rc_case_id c) APPROVE_CHANGE
       (basic_args eid (env_now env (wd_tick w1)) (''approver:'' @ va_approver a)
          [(''approval_id'', va_approval_id a)] (pr_evidence_ids (do_record out)))
       (w3\<lparr>wd_tick := wd_tick w3 + 1\<rparr>) = (Inr c', w')" and D: "do_case out = c'"
    using approve_run [of env base a w out w'] assms(3) by metis
  from decision_package_run [OF assms(1,2) P] obtain es where
    aw: "w1 = w" "awaited (va_case_id a) (va_review_package_id a) w c es package" by auto
  then have c: "sql_view (wd_cases w) (va_case_id a) = Some (c, es)" "rc_state c = AWAITING_APPROVAL"
    "rc_case_id c = va_case_id a"
    using view_case_ok [OF assms(1)] by (auto simp: awaited_def)
  have w2: "wd_cases w2 = wd_cases w" "wd_records w2 = wd_records w"
    using only_collectsD [OF only_collects_write_evidence E] aw(1) by simp_all
  note S = store_record_view [of w2, OF _ R]
  have rec: "sql_record_view (wd_records w) (va_approval_id a) = None"
    "sql_record_view (wd_records w3) (va_approval_id a) = Some (json_record (do_record out))"
    "pr_body (do_record out) = body"
    using S w2(2) assms(2) by auto
  have w3: "wd_cases w3 = wd_cases w" using store_record_frame [OF R] w2 by simp
  have plain: "args_ok (basic_args i' t actor rs es')" for i' t actor rs es'
    by (simp add: args_ok_def basic_args_def)
  obtain p' e e' where tr: "transition_case c APPROVE_CHANGE
      (basic_args eid (env_now env (wd_tick w1)) (''approver:'' @ va_approver a)
          [(''approval_id'', va_approval_id a)] (pr_evidence_ids (do_record out))) = (Inr (c', e))"
    "same_case c' p'" "sql_view (wd_cases w') = (sql_view (wd_cases w))(va_case_id a \<mapsto> (p', es @ [e']))"
    using advance_run [OF _ plain A] w3 assms(1) c by fastforce
  have fr: "wd_records w' = wd_records w3" using A by (auto simp: advance_def run_simps)
  have "rc_state c' = APPROVED"
    using transition_caseD(4) [OF tr(1)] c(2) by (simp add: transition_target_linear linear_transition_def linear_transitions_def)
  moreover have "dict_get (rc_record_ids c') ''approval_id'' = Some (va_approval_id a)"
    using transition_caseD(17) [OF tr(1)] by (simp add: merged_records_def basic_args_def dict_update_def)
  ultimately have p': "rc_state p' = APPROVED" "dict_get (rc_record_ids p') ''approval_id'' = Some (va_approval_id a)"
    using tr(2) same_case_fields(6) [OF tr(2)] unfolding same_case_def by metis+
  show ?thesis
    unfolding Inr sum.case
    using aw T rec tr(2,3) p' fr decision_body_item [OF B] D unfolding aw(1) by (metis not_less not_le)
qed

end
