(* ===== verification/Approval_Witnesses.thy ===== *)
theory Approval_Witnesses
  imports Sample_Worlds Approval_Properties
begin

text \<open>A case that awaits an approval, and the approval of its package.\<close>

definition sample_package :: product_record where
  "sample_package = (bound_record ''u'' (PDict [(''plan'', PStr ''p'')]))
     \<lparr>pr_record_type := ''HumanReviewPackage.v1''\<rparr>"

definition awaiting_setup :: "(unit world, product_record) prog" where
  "awaiting_setup = bindM open_sample (\<lambda>_. bindM (advances ''c'' awaiting_stages) (\<lambda>_.
     store_record sample_package))"

definition awaiting_world :: "unit world" where
  "awaiting_world = snd (awaiting_setup empty_world)"

definition sample_approval :: verified_approval where
  "sample_approval = \<lparr> va_approval_id = ''w'', va_case_id = ''c'', va_review_package_id = ''u'',
     va_approver = ''x'', va_authenticated_at = ''2026-01-01T00:30:00Z'',
     va_expires_at = ''2026-01-01T02:00:00Z'', va_authentication_method = ''k'', va_statement = ''s'' \<rparr>"

lemma awaiting_world_ok: "world_ok awaiting_world"
proof -
  have "keeps world_ok awaiting_setup"
    unfolding awaiting_setup_def open_sample_def
    by (intro keeps_intros keeps_advances awaiting_stages_ok)
  then show ?thesis using empty_world_ok unfolding awaiting_world_def keeps_def by blast
qed

lemma sample_approved: "is_ok (fst (approve steady_env ''root'' sample_approval awaiting_world))"
  by code_simp

theorem approval_binds_package_witness:
  "\<exists>out w' package. approve steady_env ''root'' sample_approval awaiting_world = (Inr out, w') \<and>
     sql_record_view (wd_records awaiting_world) ''u'' = Some package \<and>
     item (pr_body (do_record out)) ''review_package_sha256'' =
       Inr (PStr (env_sha256 steady_env (canonical_json (pr_body package))))"
proof -
  obtain r w' where run: "approve steady_env ''root'' sample_approval awaiting_world = (r, w')" by (metis surj_pair)
  then obtain out where out: "r = Inr out" using sample_approved by (auto simp: is_ok_iff)
  have ids: "va_case_id sample_approval = ''c''" "va_review_package_id sample_approval = ''u''"
    by (simp_all add: sample_approval_def)
  have "cases_ok (wd_cases awaiting_world)" "sql_record_ok (wd_records awaiting_world)"
    using awaiting_world_ok by (simp_all add: world_ok_def)
  from approval_binds_package [OF this run] show ?thesis
    using run unfolding out sum.case ids awaited_def by blast
qed

end
