(* ===== verification/Paths.thy ===== *)
theory Paths
  imports World
begin

text \<open>
  \<open>src/elcapitan/paths.py\<close>: containment of paths that an agent supplied, over the map of files of
  the world. There are no symbolic links in the model, so the guard against them and the second
  guard, on the resolved path, never fire; a root exists when it holds a file. The content of a file
  is its bytes; \<open>decode_text\<close> is what \<open>read_text(encoding="utf-8")\<close> makes of them.
\<close>

section \<open>The text of a file\<close>

text \<open>The number of bytes of the character that a byte starts, 0 for a byte that starts none.\<close>

definition utf8_width :: "char \<Rightarrow> nat" where
  "utf8_width c =
     (if c \<le> CHR 0x7F then 1
      else if CHR 0xC2 \<le> c \<and> c \<le> CHR 0xDF then 2
      else if CHR 0xE0 \<le> c \<and> c \<le> CHR 0xEF then 3
      else if CHR 0xF0 \<le> c \<and> c \<le> CHR 0xF4 then 4 else 0)"

definition utf8_more :: "char \<Rightarrow> bool" where
  "utf8_more c = (CHR 0x80 \<le> c \<and> c \<le> CHR 0xBF)"

text \<open>The second byte: no overlong form, no surrogate, nothing beyond \<open>U+10FFFF\<close>.\<close>

definition utf8_second :: "char \<Rightarrow> char \<Rightarrow> bool" where
  "utf8_second c d =
     ((c = CHR 0xE0 \<longrightarrow> CHR 0xA0 \<le> d) \<and> (c = CHR 0xF0 \<longrightarrow> CHR 0x90 \<le> d) \<and>
      (c = CHR 0xED \<longrightarrow> d \<le> CHR 0x9F) \<and> (c = CHR 0xF4 \<longrightarrow> d \<le> CHR 0x8F))"

fun utf8_valid :: "string \<Rightarrow> bool" where
  "utf8_valid [] = True"
| "utf8_valid (c # cs) =
     (let n = utf8_width c - 1
      in 0 < utf8_width c \<and> n \<le> length cs \<and> list_all utf8_more (take n cs) \<and>
         (0 < n \<longrightarrow> utf8_second c (hd cs)) \<and> utf8_valid (drop n cs))"

text \<open>Universal newlines: a carriage return, with the line feed after it if there is one, is read as
  a line feed.\<close>

fun text_newlines :: "string \<Rightarrow> string" where
  "text_newlines [] = []"
| "text_newlines (c # cs) =
     (if c = CHR 0x0D then CHR 0x0A # text_newlines (if take 1 cs = [CHR 0x0A] then tl cs else cs)
      else c # text_newlines cs)"

definition decode_text :: "string \<Rightarrow> string res" where
  "decode_text bytes =
     bindE (guardE (utf8_valid bytes) UnicodeDecodeError ''invalid UTF-8'') (\<lambda>_.
     Inr (text_newlines bytes))"

lemma text_newlines_same: "CHR 0x0D \<notin> set s \<Longrightarrow> text_newlines s = s"
  by (induction s) auto

lemma text_newlines_clean: "CHR 0x0D \<notin> set (text_newlines s)"
  by (induction s rule: text_newlines.induct) auto

text \<open>Reading text keeps exactly the files without carriage returns.\<close>

lemma text_newlines_iff: "text_newlines s = s \<longleftrightarrow> CHR 0x0D \<notin> set s"
  using text_newlines_same text_newlines_clean [of s] by metis

lemma decode_text_Inr [res_simps]:
  "decode_text s = Inr t \<longleftrightarrow> utf8_valid s \<and> t = text_newlines s"
  by (auto simp: decode_text_def res_simps)

section \<open>Containment\<close>

text \<open>\<open>Path(relative).parts\<close>, without the root of an absolute path.\<close>

definition path_names :: "string \<Rightarrow> string list" where
  "path_names relative = filter (\<lambda>p. p \<noteq> [] \<and> p \<noteq> ''.'') (path_parts relative)"

fun join_path :: "string \<Rightarrow> string list \<Rightarrow> string" where
  "join_path base [] = base"
| "join_path base (p # ps) = join_path (base @ ''/'' @ p) ps"

definition dir_present :: "(string, string) dict \<Rightarrow> string \<Rightarrow> bool" where
  "dir_present files dir = list_ex (\<lambda>f. take (length dir + 1) (fst f) = dir @ ''/'') files"

definition safe_resolve :: "(string, string) dict \<Rightarrow> string \<Rightarrow> string \<Rightarrow> string res" where
  "safe_resolve files base relative =
     bindE (guardE (dir_present files base) PathEscape
              (''root directory does not resolve: PosixPath('' @ repr_str base
               @ '') ([Errno 2] No such file or directory: '' @ repr_str base @ '')'')) (\<lambda>_.
     bindE (guardE (take 1 relative \<noteq> ''/'' \<and> ''..'' \<notin> set (path_names relative)) PathEscape
              (''unsafe path: '' @ repr_str relative)) (\<lambda>_.
     Inr (join_path base (path_names relative))))"

lemma join_path_prefix: "\<exists>s. join_path base ps = base @ s"
  by (induction base ps rule: join_path.induct) auto

lemma join_path_under:
  assumes "ps \<noteq> []" shows "\<exists>s. join_path base ps = base @ ''/'' @ s"
proof -
  obtain p qs where ps: "ps = p # qs" using assms by (cases ps) auto
  obtain s where "join_path (base @ ''/'' @ p) qs = (base @ ''/'' @ p) @ s"
    using join_path_prefix by blast
  then show ?thesis by (simp add: ps)
qed

text \<open>A resolved path is the root or lies below it, and no part of it climbs.\<close>

lemma safe_resolve_contained:
  assumes "safe_resolve files base relative = Inr p"
  shows "(p = base \<or> (\<exists>s. p = base @ ''/'' @ s)) \<and>
    p = join_path base (path_names relative) \<and> ''..'' \<notin> set (path_names relative)"
  using assms join_path_under [of "path_names relative" base]
  by (cases "path_names relative") (auto simp: safe_resolve_def res_simps)

end
