(* ===== verification/Action_Adapters.thy ===== *)
theory Action_Adapters
  imports Action_Records Paths Validation
begin

text \<open>
  The adapters that \<open>src/elcapitan/action_plane.py\<close> itself provides: the filesystem reference
  driver, the recorded health monitor, and the verification probes. Target and artifact files live
  in the files of the world. The HTTP client, \<open>urlparse\<close> and the decoding of a body are parameters
  of the HTTP probe; the cloud reader and the credentials it is given are parameters of the live
  finding probe.
\<close>

section \<open>The filesystem reference driver\<close>

record filesystem_driver =
  fd_target_root :: string
  fd_fail_deploy :: bool

text \<open>\<open>context.plan.body['change'][k]\<close>, a path or a digest.\<close>

definition change_item :: "execution_context \<Rightarrow> string \<Rightarrow> pyval res" where
  "change_item ctx k = bindE (item (pr_body (ex_plan ctx)) ''change'') (\<lambda>change. item change k)"

text \<open>A path handed to \<open>safe_resolve\<close>, which calls its method \<open>startswith\<close>.\<close>

definition path_text :: "pyval \<Rightarrow> string res" where
  "path_text v =
     bindE (guardE (is_str v) AttributeError
              (''object has no attribute '' @ repr_str ''startswith'')) (\<lambda>_. Inr (as_str v))"

definition fs_paths ::
  "filesystem_driver \<Rightarrow> execution_context \<Rightarrow> ('x world, string \<times> string \<times> string) prog" where
  "fs_paths fd ctx =
     bindM (liftE (bindE (change_item ctx ''source_path'') path_text)) (\<lambda>source_path.
     bindM (getsM wd_files) (\<lambda>files.
     bindM (liftE (safe_resolve files (fd_target_root fd) source_path)) (\<lambda>target.
     bindM (liftE (item (pr_body (ex_plan ctx)) ''artifact_namespace'')) (\<lambda>namespace.
     bindM (liftE (safe_resolve files (ex_artifact_root ctx)
              (py_str namespace @ ''/workspace/'' @ source_path))) (\<lambda>replacement.
     ret (target, replacement, source_path))))))"

text \<open>\<open>Path.read_bytes\<close> and \<open>Path.read_text(encoding="utf-8")\<close>.\<close>

definition file_bytes :: "string \<Rightarrow> ('x world, string) prog" where
  "file_bytes path =
     bindM (getsM wd_files) (\<lambda>files.
     case dict_get files path of
       None \<Rightarrow> raise FileNotFoundError (''No such file or directory: '' @ repr_str path)
     | Some t \<Rightarrow> ret t)"

definition file_text :: "string \<Rightarrow> ('x world, string) prog" where
  "file_text path = bindM (file_bytes path) (\<lambda>bytes. liftE (decode_text bytes))"

definition sha256_file :: "env \<Rightarrow> string \<Rightarrow> ('x world, string) prog" where
  "sha256_file env path = bindM (file_bytes path) (\<lambda>t. ret (env_sha256 env t))"

definition fs_compare ::
  "env \<Rightarrow> execution_context \<Rightarrow> string \<Rightarrow> string \<Rightarrow> ('x world, action_step) prog" where
  "fs_compare env ctx target replacement =
     bindM (getsM wd_files) (\<lambda>files.
     if \<not> dict_has files target \<or> \<not> dict_has files replacement then
       ret (failed_step ''preflight'' ''target or verified replacement is missing'')
     else
       bindM (liftE (change_item ctx ''before_sha256'')) (\<lambda>before.
       bindM (liftE (change_item ctx ''after_sha256'')) (\<lambda>after.
       bindM (sha256_file env target) (\<lambda>found.
       bindM (sha256_file env replacement) (\<lambda>verified.
       let passed = (PStr found = before \<and> PStr verified = after)
       in ret \<lparr> as_name = ''preflight'', as_passed = passed,
                as_detail = (if passed
                  then ''target and verified replacement hashes match the approved package''
                  else ''target drift or replacement tampering detected''),
                as_payload = [(''target_sha256'', PStr found), (''replacement_sha256'', PStr verified)] \<rparr>)))))"

definition fs_preflight ::
  "env \<Rightarrow> filesystem_driver \<Rightarrow> execution_context \<Rightarrow> ('x world, action_step) prog" where
  "fs_preflight env fd ctx =
     bindM (tryM (bindM (fs_paths fd ctx) (\<lambda>p. ret (Inr p))) [PathEscape, FileNotFoundError]
              (\<lambda>e. ret (Inl e))) (\<lambda>paths.
     case paths of
       Inl e \<Rightarrow> ret (failed_step ''preflight'' (exn_str e))
     | Inr p \<Rightarrow> fs_compare env ctx (fst p) (fst (snd p)))"

definition fs_checkpoint ::
  "env \<Rightarrow> filesystem_driver \<Rightarrow> execution_context \<Rightarrow> ('x world, deployment_checkpoint) prog" where
  "fs_checkpoint env fd ctx =
     bindM (fs_paths fd ctx) (\<lambda>(target, _, source_path).
     bindM (new_id env ''CHK'') (\<lambda>i.
     bindM (file_text target) (\<lambda>content.
     bindM (sha256_file env target) (\<lambda>digest.
     ret \<lparr> dc_checkpoint_id = i, dc_detail = ''captured exact pre-change file content'',
           dc_payload = [(''source_path'', PStr source_path), (''content'', PStr content),
                         (''sha256'', PStr digest)] \<rparr>))))"

text \<open>The temporary file beside the target, written and moved over it: writing a text writes the
  bytes of its encoding, with every line feed as it is.\<close>

definition temporary_of :: "string \<Rightarrow> string" where
  "temporary_of path =
     (let name = last (path_parts path)
      in take (length path - length name) path @ ''.'' @ name @ ''.elcapitan.tmp'')"

definition fs_replace :: "string \<Rightarrow> string \<Rightarrow> ('x world, unit) prog" where
  "fs_replace path content =
     bindM (getsM wd_files) (\<lambda>files.
     bindM (guardM (\<not> dict_has files (temporary_of path)) FileExistsError
              (''File exists: '' @ repr_str (temporary_of path))) (\<lambda>_.
     modifyM (\<lambda>w. w\<lparr>wd_files := dict_set path content (wd_files w)\<rparr>)))"

definition fs_deploy ::
  "env \<Rightarrow> filesystem_driver \<Rightarrow> execution_context \<Rightarrow> deployment_checkpoint \<Rightarrow>
   ('x world, action_step) prog" where
  "fs_deploy env fd ctx checkpoint =
     (if fd_fail_deploy fd then
        ret (failed_step ''deploy'' ''injected reference-driver deployment failure'')
      else
        bindM (fs_paths fd ctx) (\<lambda>(target, replacement, _).
        bindM (file_text replacement) (\<lambda>content.
        bindM (fs_replace target content) (\<lambda>_.
        bindM (sha256_file env target) (\<lambda>found.
        bindM (liftE (change_item ctx ''after_sha256'')) (\<lambda>after.
        let passed = (PStr found = after)
        in ret \<lparr> as_name = ''deploy'', as_passed = passed,
                 as_detail = (if passed then ''verified replacement installed''
                              else ''post-write hash mismatch''),
                 as_payload = [(''target_sha256'', PStr found)] \<rparr>))))))"

definition fs_rollback ::
  "env \<Rightarrow> filesystem_driver \<Rightarrow> execution_context \<Rightarrow> deployment_checkpoint \<Rightarrow>
   ('x world, action_step) prog" where
  "fs_rollback env fd ctx checkpoint =
     bindM (fs_paths fd ctx) (\<lambda>(target, _, _).
     let content = pget (dc_payload checkpoint) ''content''
     in if \<not> is_str content then
          ret (failed_step ''rollback'' ''checkpoint has no restorable content'')
        else
          bindM (fs_replace target (as_str content)) (\<lambda>_.
          bindM (sha256_file env target) (\<lambda>found.
          let passed = (PStr found = pget (dc_payload checkpoint) ''sha256'')
          in ret \<lparr> as_name = ''rollback'', as_passed = passed,
                   as_detail = (if passed then ''checkpoint restored'' else ''restored file hash mismatch''),
                   as_payload = [(''target_sha256'', PStr found)] \<rparr>)))"

definition filesystem_change_driver :: "env \<Rightarrow> filesystem_driver \<Rightarrow> 'x change_driver" where
  "filesystem_change_driver env fd =
     \<lparr> dv_name = ''filesystem-reference-driver'', dv_preflight = fs_preflight env fd,
       dv_checkpoint = fs_checkpoint env fd, dv_deploy = fs_deploy env fd,
       dv_rollback = fs_rollback env fd \<rparr>"

section \<open>Recorded monitor and probe\<close>

definition recorded_health_monitor :: "(string, health_observation) dict \<Rightarrow> 'x health_monitor" where
  "recorded_health_monitor observations =
     \<lparr> hm_name = ''recorded-health-monitor'',
       hm_observe = (\<lambda>phase ctx. case dict_get observations phase of
           Some o' \<Rightarrow> ret o'
         | None \<Rightarrow> raise ActionPlaneError (''no recorded health observation for '' @ phase)) \<rparr>"

definition recorded_probe ::
  "string \<Rightarrow> string \<Rightarrow> bool \<Rightarrow> string \<Rightarrow> (string, pyval) dict \<Rightarrow> 'x verification_probe" where
  "recorded_probe name target passed detail payload =
     \<lparr> vp_name = name,
       vp_run = (\<lambda>ctx. ret \<lparr> po_probe = name, po_target = target, po_passed = passed,
                             po_detail = detail, po_payload = payload \<rparr>) \<rparr>"

section \<open>The probe of the deployed file\<close>

definition file_hash_run ::
  "env \<Rightarrow> string \<Rightarrow> execution_context \<Rightarrow> ('x world, probe_result) prog" where
  "file_hash_run env target_root ctx =
     bindM (liftE (bindE (change_item ctx ''source_path'') path_text)) (\<lambda>relative.
     bindM (getsM wd_files) (\<lambda>files.
     bindM (liftE (safe_resolve files target_root relative)) (\<lambda>target.
     bindM (liftE (change_item ctx ''after_sha256'')) (\<lambda>expected.
     let actual = (case dict_get files target of None \<Rightarrow> [] | Some t \<Rightarrow> env_sha256 env t);
         passed = (PStr actual = expected)
     in ret \<lparr> po_probe = ''deployed-file-hash'', po_target = relative, po_passed = passed,
              po_detail = (if passed then ''deployed artifact matches approved hash''
                           else ''deployed artifact does not match approved hash''),
              po_payload = [(''expected_sha256'', expected), (''actual_sha256'', PStr actual)] \<rparr>))))"

definition file_hash_probe :: "env \<Rightarrow> string \<Rightarrow> 'x verification_probe" where
  "file_hash_probe env target_root =
     \<lparr> vp_name = ''deployed-file-hash'', vp_run = file_hash_run env target_root \<rparr>"

section \<open>The probe of the live findings\<close>

text \<open>The last finding with an id, as in a dictionary built by a comprehension.\<close>

definition finding_by_id :: "stored_finding list \<Rightarrow> string \<Rightarrow> stored_finding option" where
  "finding_by_id fs i = find (\<lambda>f. sf_finding_id f = i) (rev fs)"

definition live_result ::
  "registry \<Rightarrow> (stored_finding \<Rightarrow> (string, string) dict \<Rightarrow> ('x, cloud_state) prog) \<Rightarrow>
   (string, string) dict \<Rightarrow> stored_finding \<Rightarrow> ('x world, pyval) prog" where
  "live_result reg reader host_env f =
     tryM (bindM (on_outside (reader f host_env)) (\<lambda>state.
           bindM (liftE (evaluate_finding reg f state [])) (\<lambda>v.
           ret (finding_validation_to_dict v))))
       [OSError, ValueError]
       (\<lambda>e. ret (PDict [(''finding_id'', PStr (sf_finding_id f)), (''status'', PStr ''unavailable''),
                       (''reason'', PStr (exn_str e))]))"

definition is_cleared :: "pyval \<Rightarrow> bool" where
  "is_cleared result =
     (pget (dict_items result) ''status'' = PStr (validation_status_value NOT_CONFIRMED))"

definition live_name :: string where
  "live_name = ''live-vulnerability-revalidation''"

definition live_finding_run ::
  "registry \<Rightarrow> (stored_finding \<Rightarrow> (string, string) dict \<Rightarrow> ('x, cloud_state) prog) \<Rightarrow>
   ('x, (string, string) dict) prog \<Rightarrow> execution_context \<Rightarrow> ('x world, probe_result) prog" where
  "live_finding_run reg reader host_env ctx =
     (let case_id = rc_case_id (ex_case ctx);
          refused = (\<lambda>detail payload. ret \<lparr> po_probe = live_name, po_target = case_id,
                       po_passed = False, po_detail = detail, po_payload = payload \<rparr>)
      in bindM (list_case_findings case_id) (\<lambda>findings.
         case approved_finding_ids ctx of
           Inl e \<Rightarrow>
             (if exn_isa e [ActionPlaneError] then
                refused (exn_str e) [(''scope'', pget (dict_items (pr_body (ex_plan ctx))) ''scope'')]
              else liftE (Inl e))
         | Inr ids \<Rightarrow>
             (let unknown = filter (\<lambda>i. finding_by_id findings i = None) ids
              in if unknown \<noteq> [] then
                   refused ''approved plan references findings absent from the finding store''
                     [(''finding_ids'', str_list ids), (''unknown_finding_ids'', str_list unknown)]
                 else
                   let fs = map (\<lambda>i. the (finding_by_id findings i)) ids
                   in bindM (on_outside host_env) (\<lambda>henv.
                      bindM (mapM (live_result reg reader henv) fs) (\<lambda>results.
                      let passed = (results \<noteq> [] \<and> list_all is_cleared results)
                      in ret \<lparr> po_probe = live_name, po_target = case_id, po_passed = passed,
                               po_detail = (if passed then ''approved findings are no longer confirmed''
                                 else ''one or more approved findings remain confirmed or unavailable''),
                               po_payload = [(''finding_ids'', str_list (map sf_finding_id fs)),
                                             (''findings'', PList results)] \<rparr>)))))"

definition live_finding_probe ::
  "registry \<Rightarrow> (stored_finding \<Rightarrow> (string, string) dict \<Rightarrow> ('x, cloud_state) prog) \<Rightarrow>
   ('x, (string, string) dict) prog \<Rightarrow> 'x verification_probe" where
  "live_finding_probe reg reader host_env =
     \<lparr> vp_name = live_name, vp_run = live_finding_run reg reader host_env \<rparr>"

section \<open>The HTTP probe\<close>

record http_response =
  hr_status :: int
  hr_body :: string

record http_probe =
  hp_name :: string
  hp_url :: string
  hp_expected_status :: int
  hp_body_contains :: string
  hp_timeout_seconds :: rat

text \<open>The constructor's checks; \<open>scheme\<close> and \<open>hostname\<close> are what \<open>urlparse\<close> found.\<close>

definition mk_http_probe ::
  "(string \<Rightarrow> string \<times> string option) \<Rightarrow> string list \<Rightarrow> http_probe \<Rightarrow> http_probe res" where
  "mk_http_probe urlparse allowed_hosts p =
     (case urlparse (hp_url p) of (scheme, hostname) \<Rightarrow>
        bindE (guardE (scheme \<in> {''http'', ''https''} \<and> hostname \<noteq> None \<and> hostname \<noteq> Some []) ValueError
                 ''HTTP verification URL must be absolute http(s)'') (\<lambda>_.
        bindE (guardE (the hostname \<in> set allowed_hosts) ValueError
                 ''HTTP verification host is not explicitly allowed'') (\<lambda>_.
        bindE (guardE (0 < hp_timeout_seconds p) ValueError
                 ''HTTP verification timeout must be positive'') (\<lambda>_.
        Inr p))))"

definition max_body :: nat where
  "max_body = 1024 * 1024"

definition http_run ::
  "env \<Rightarrow> (string \<Rightarrow> rat \<Rightarrow> ('x, http_response) prog) \<Rightarrow> (string \<Rightarrow> string) \<Rightarrow> http_probe \<Rightarrow>
   execution_context \<Rightarrow> ('x world, probe_result) prog" where
  "http_run env fetch decode p ctx =
     tryM
       (bindM (on_outside (fetch (hp_url p) (hp_timeout_seconds p))) (\<lambda>response.
        let body = take (max_body + 1) (hr_body response)
        in bindM (guardM (\<not> max_body < length body) ValueError ''response exceeded 1 MiB'') (\<lambda>_.
           let present = (hp_body_contains p = [] \<or> sublist (hp_body_contains p) (decode body));
               passed = (hr_status response = hp_expected_status p \<and> present)
           in ret \<lparr> po_probe = hp_name p, po_target = hp_url p, po_passed = passed,
                    po_detail = (if passed then ''HTTP verification passed'' else ''unexpected status or body''),
                    po_payload = [(''status'', PInt (hr_status response)),
                                  (''body_sha256'', PStr (env_sha256 env body)),
                                  (''required_text_present'', PBool present)] \<rparr>)))
       [OSError, ValueError]
       (\<lambda>e. ret \<lparr> po_probe = hp_name p, po_target = hp_url p, po_passed = False,
                 po_detail = ''HTTP verification failed: '' @ exn_str e, po_payload = [] \<rparr>)"

definition http_verification_probe ::
  "env \<Rightarrow> (string \<Rightarrow> rat \<Rightarrow> ('x, http_response) prog) \<Rightarrow> (string \<Rightarrow> string) \<Rightarrow> http_probe \<Rightarrow>
   'x verification_probe" where
  "http_verification_probe env fetch decode p =
     \<lparr> vp_name = hp_name p, vp_run = http_run env fetch decode p \<rparr>"

end
