(* ===== verification/Adapter_Properties.thy ===== *)
theory Adapter_Properties
  imports Action_Adapters Execution_Properties
begin

text \<open>
  What the adapters of the module itself promise: the rollback of the reference driver restores
  the text its checkpoint captured, which are the bytes of the file unless it holds carriage
  returns, and the live probe passes only on findings that were read again in that run and are not
  confirmed any more.
\<close>

section \<open>Adapters act aside\<close>

lemma readings_aside:
  "stays (aside env') (clock_now env)" "stays (aside env') (on_outside m)" "stays (aside env') (list_case_findings i)"
  by (rule staysI, auto simp: run_simps aside_def id_used_def list_case_findings_def)+

lemma recorded_run_aside: "stays (aside env') (recorded_run env ds task)"
  unfolding recorded_run_def Let_def
  by (intro stays_case_option aside.bindM aside.pure readings_aside)

lemma mapM_aside: "(\<And>x. stays (aside env) (f x)) \<Longrightarrow> stays (aside env) (mapM f xs)"
  by (induction xs) (auto intro!: aside.bindM aside.pure)

lemma live_finding_aside: "stays (aside env) (live_finding_run reg reader host_env ctx)"
proof (cases "approved_finding_ids ctx")
  case (Inl e)
  show ?thesis unfolding live_finding_run_def Let_def Inl sum.case
    by (intro aside.bindM aside.pure readings_aside stays_if)
next
  case (Inr ids)
  show ?thesis unfolding live_finding_run_def Let_def Inr sum.case live_result_def
    by (intro aside.bindM aside.tryM aside.pure readings_aside stays_if mapM_aside)
qed

section \<open>The filesystem driver\<close>

lemma fs_paths_run:
  "fs_paths fd ctx w = (Inr (target, replacement, source), w') \<Longrightarrow>
     w' = w \<and> bindE (change_item ctx ''source_path'') path_text = Inr source \<and>
     safe_resolve (wd_files w) (fd_target_root fd) source = Inr target"
  by (auto simp: fs_paths_def run_simps)

lemma safe_resolve_same:
  "safe_resolve fs base source = Inr a \<Longrightarrow> safe_resolve gs base source = Inr b \<Longrightarrow> a = b"
  by (auto simp: safe_resolve_def res_simps)

lemma file_bytes_run: "file_bytes p w = (Inr t, w') \<longleftrightarrow> dict_get (wd_files w) p = Some t \<and> w' = w"
  by (auto simp: file_bytes_def run_simps split: option.splits)

lemma file_text_run:
  "file_text p w = (Inr t, w') \<longleftrightarrow>
     (\<exists>b. dict_get (wd_files w) p = Some b \<and> utf8_valid b \<and> t = text_newlines b) \<and> w' = w"
  by (auto simp: file_text_def run_simps file_bytes_run res_simps)

lemma sha256_file_run:
  "sha256_file env p w = (Inr h, w') \<longleftrightarrow> (\<exists>t. dict_get (wd_files w) p = Some t \<and> h = env_sha256 env t) \<and> w' = w"
  by (auto simp: sha256_file_def run_simps file_bytes_run)

text \<open>A target that is not text has no checkpoint.\<close>

lemma checkpoint_undecodable:
  assumes "fs_paths fd ctx w = (Inr (target, replacement, source), w)" "dict_get (wd_files w) target = Some b"
    and "\<not> utf8_valid b"
  shows "\<exists>w'. fs_checkpoint env fd ctx w = (Inl (Raise UnicodeDecodeError ''invalid UTF-8''), w') \<and>
    wd_files w' = wd_files w"
  using assms by (simp add: fs_checkpoint_def run_defs new_id_def file_text_def file_bytes_def decode_text_def
      guardE_def)

lemma fs_replace_run:
  "fs_replace p t w = (Inr u, w') \<Longrightarrow> w' = w\<lparr>wd_files := dict_set p t (wd_files w)\<rparr>"
  by (auto simp: fs_replace_def run_simps)

text \<open>C13: Rolling back the reference driver writes the captured text of the target back, whatever
  happened to the files in between, and touches no other file. The captured text is the content
  with every line end as a line feed: a target without carriage returns is restored to exactly its
  bytes and the step passes; one with a carriage return is not restored to its bytes, and the step
  says so unless the two contents have the same digest.\<close>

theorem filesystem_rollback_restores:
  assumes "fs_checkpoint env fd ctx w = (Inr ck, w1)" and "fs_rollback env fd ctx ck v = (Inr step, v')"
  shows "\<exists>target content. safe_resolve (wd_files w) (fd_target_root fd)
        (as_str (pget (dc_payload ck) ''source_path'')) = Inr target \<and>
     dict_get (wd_files w) target = Some content \<and> utf8_valid content \<and>
     wd_files v' = dict_set target (text_newlines content) (wd_files v) \<and>
     (CHR 0x0D \<notin> set content \<longrightarrow> wd_files v' = dict_set target content (wd_files v) \<and> as_passed step) \<and>
     (CHR 0x0D \<in> set content \<longrightarrow> text_newlines content \<noteq> content \<and>
        (as_passed step \<longleftrightarrow> env_sha256 env (text_newlines content) = env_sha256 env content))"
proof -
  from assms(1) obtain target source content where
    P: "bindE (change_item ctx ''source_path'') path_text = Inr source"
      "safe_resolve (wd_files w) (fd_target_root fd) source = Inr target"
    and content: "dict_get (wd_files w) target = Some content" "utf8_valid content"
    and ck: "dc_payload ck = [(''source_path'', PStr source), (''content'', PStr (text_newlines content)),
        (''sha256'', PStr (env_sha256 env content))]"
    unfolding fs_checkpoint_def
    by (auto simp: run_simps file_text_run sha256_file_run dest!: fs_paths_run split: prod.splits)
  from assms(2) obtain target' source' where
    Q: "bindE (change_item ctx ''source_path'') path_text = Inr source'"
      "safe_resolve (wd_files v) (fd_target_root fd) source' = Inr target'"
    and rest: "wd_files v' = dict_set target' (text_newlines content) (wd_files v)"
      "as_passed step \<longleftrightarrow> env_sha256 env (text_newlines content) = env_sha256 env content"
    unfolding fs_rollback_def
    by (auto simp: run_simps sha256_file_run ck pget_def get_or_def Let_def as_str_def
        dest!: fs_replace_run fs_paths_run split: prod.splits if_splits)
  have "source' = source" "target' = target"
    using P Q safe_resolve_same by auto
  with rest content ck P show ?thesis
    using text_newlines_iff [of content] by (auto simp: pget_def get_or_def as_str_def)
qed

section \<open>The live probe\<close>

text \<open>The findings read again, one after the other from the state of the cloud \<open>o1\<close> to the state \<open>o2\<close>,
  each evaluated by its control and not confirmed any more.\<close>

fun cleared_readings ::
  "registry \<Rightarrow> (stored_finding \<Rightarrow> (string, string) dict \<Rightarrow> ('x, cloud_state) prog) \<Rightarrow>
   (string, string) dict \<Rightarrow> stored_finding list \<Rightarrow> 'x \<Rightarrow> 'x \<Rightarrow> bool" where
  "cleared_readings reg reader henv [] o1 o2 = (o2 = o1)"
| "cleared_readings reg reader henv (f # fs) o1 o2 =
     (\<exists>st o' v. reader f henv o1 = (Inr st, o') \<and> evaluate_finding reg f st [] = Inr v \<and>
        fv_status v = NOT_CONFIRMED \<and> cleared_readings reg reader henv fs o' o2)"

lemma is_cleared_dict:
  "is_cleared (finding_validation_to_dict v) \<longleftrightarrow> fv_status v = NOT_CONFIRMED"
  by (cases "fv_status v") (simp_all add: is_cleared_def finding_validation_to_dict_def pget_def get_or_def dict_items_def)

lemma live_result_cleared:
  assumes "live_result reg reader henv f w = (Inr d, w')" "is_cleared d"
  shows "\<exists>st v. reader f henv (wd_outside w) = (Inr st, wd_outside w') \<and>
    evaluate_finding reg f st [] = Inr v \<and> fv_status v = NOT_CONFIRMED"
proof -
  have "\<not> is_cleared (PDict [(''finding_id'', x), (''status'', PStr ''unavailable''), (''reason'', y)])" for x y
    by (simp add: is_cleared_def pget_def get_or_def dict_items_def)
  with assms show ?thesis
    unfolding live_result_def by (auto simp: run_simps is_cleared_dict)
qed

lemma live_results_cleared:
  assumes "mapM (live_result reg reader henv) fs w = (Inr ds, w')" "list_all is_cleared ds"
  shows "cleared_readings reg reader henv fs (wd_outside w) (wd_outside w')"
  using assms
proof (induction fs arbitrary: w ds)
  case (Cons f fs)
  then obtain d ds' u where d: "live_result reg reader henv f w = (Inr d, u)" "is_cleared d"
    and rest: "mapM (live_result reg reader henv) fs u = (Inr ds', w')" "list_all is_cleared ds'"
    by (auto simp: run_simps)
  from live_result_cleared [OF d] Cons.IH [OF rest] show ?case by auto
qed (simp add: run_simps)

lemma finding_by_id_in:
  assumes "finding_by_id fs i = Some f" shows "f \<in> set fs \<and> sf_finding_id f = i"
  using assms find_Some_in [of _ "rev fs" f] by (auto simp: finding_by_id_def find_Some_iff)

text \<open>A passing run of the live probe.\<close>

definition live_reading ::
  "registry \<Rightarrow> (stored_finding \<Rightarrow> (string, string) dict \<Rightarrow> ('x, cloud_state) prog) \<Rightarrow>
   ('x, (string, string) dict) prog \<Rightarrow> execution_context \<Rightarrow> string list \<Rightarrow> stored_finding list \<Rightarrow>
   'x world \<Rightarrow> 'x world \<Rightarrow> bool" where
  "live_reading reg reader host_env ctx ids fs w w' =
     (\<exists>found henv o1. fst (sql_finding_list (rc_case_id (ex_case ctx)) (wd_findings w)) = Inr found \<and>
        set fs \<subseteq> set found \<and> map sf_finding_id fs = ids \<and>
        host_env (wd_outside w) = (Inr henv, o1) \<and>
        cleared_readings reg reader henv fs o1 (wd_outside w'))"

lemma live_finding_cleared:
  assumes "live_finding_run reg reader host_env ctx w = (Inr r, w')" "po_passed r"
  shows "\<exists>ids fs. approved_finding_ids ctx = Inr ids \<and> ids \<noteq> [] \<and> live_reading reg reader host_env ctx ids fs w w'"
proof -
  obtain fr w1 where L: "list_case_findings (rc_case_id (ex_case ctx)) w = (fr, w1)" by (metis surj_pair)
  with assms obtain findings where fr: "fr = Inr findings"
    by (cases fr) (auto simp: live_finding_run_def Let_def bindM_def)
  have stored: "fst (sql_finding_list (rc_case_id (ex_case ctx)) (wd_findings w)) = Inr findings"
    and out: "wd_outside w1 = wd_outside w"
    using L fr by (auto simp: list_case_findings_def run_simps sql_finding_ops_def)
  show ?thesis
  proof (cases "approved_finding_ids ctx")
    case (Inl e)
    then show ?thesis using assms L fr
      by (auto simp: live_finding_run_def Let_def run_simps split: if_splits)
  next
    case (Inr ids)
    let ?fs = "map (\<lambda>i. the (finding_by_id findings i)) ids"
    from assms L fr Inr obtain henv o1 ds where
      known: "\<forall>i \<in> set ids. finding_by_id findings i \<noteq> None"
      and h: "host_env (wd_outside w1) = (Inr henv, o1)"
      and ds: "mapM (live_result reg reader henv) ?fs (w1\<lparr>wd_outside := o1\<rparr>) = (Inr ds, w')" "ds \<noteq> []"
        "list_all is_cleared ds"
      by (auto simp: live_finding_run_def Let_def run_simps filter_empty_conv split: if_splits)
    have each: "the (finding_by_id findings i) \<in> set findings \<and> sf_finding_id (the (finding_by_id findings i)) = i"
      if "i \<in> set ids" for i
      using known finding_by_id_in [of findings i] that by fastforce
    then have "set ?fs \<subseteq> set findings" "map sf_finding_id ?fs = ids" by (auto intro: map_idI)
    moreover have "cleared_readings reg reader henv ?fs o1 (wd_outside w')"
      using live_results_cleared [OF ds(1,3)] by simp
    ultimately have "live_reading reg reader host_env ctx ids ?fs w w'"
      using stored h out unfolding live_reading_def by auto
    moreover have "ids \<noteq> []" using ds(1,2) by (auto simp: run_simps)
    ultimately show ?thesis using Inr by blast
  qed
qed

text \<open>C8: With the live probe among its probes, an execution remediates a case only when every finding
  that the approved plan covers was read again from the cloud in this run, after the change was
  deployed, found healthy and moved to verification: in the world in which the probes before it
  left the run, the finding store holds the findings of the approved plan, the reader, given the
  credentials of that moment, read each of them in turn, and the deterministic evaluator of its
  control found it not confirmed any more.\<close>

theorem remediated_means_cleared:
  fixes xs :: "'x execution_service"
  assumes "env_ok (xs_env xs)" "adapters_aside xs" "schema_sound (xs_schema xs)" "ready xs w"
    and "execute xs i originator job w = (Inr out, w')" "rc_state (xo_case out) = REMEDIATED"
    and "live_finding_probe reg reader host_env \<in> set (xs_probes xs)"
  shows "\<exists>now ctx w0 st w1 step health e1 w2 result c w3 ps qs rs v v' ids fs.
    admit xs i originator job w = (Inr (now, ctx), w0) \<and> start_execution xs i now ctx w0 = (Inr st, w1) \<and>
    deployed_run xs ctx st step health e1 w1 w2 \<and>
    verification_begun xs i st step health [es_evidence st, e1] result c w2 w3 \<and>
    xs_probes xs = ps @ live_finding_probe reg reader host_env # qs \<and> probe_chain ctx ps rs w3 v \<and>
    approved_finding_ids ctx = Inr ids \<and> ids \<noteq> [] \<and> live_reading reg reader host_env ctx ids fs v v'"
proof -
  let ?p = "live_finding_probe reg reader host_env"
  from remediated_run [OF assms(1-6)] obtain now ctx w0 st w1 step health e1 w2 result c w3 rs e2 w4 where
    run: "admit xs i originator job w = (Inr (now, ctx), w0)" "start_execution xs i now ctx w0 = (Inr st, w1)"
      "deployed_run xs ctx st step health e1 w1 w2"
      "verification_begun xs i st step health [es_evidence st, e1] result c w2 w3"
    and probed: "probed_run xs ctx st rs e2 w3 w4" by blast
  obtain ps qs where split: "xs_probes xs = ps @ ?p # qs" using assms(7) by (meson split_list)
  from probed obtain u where "probe_chain ctx (ps @ ?p # qs) rs w3 u" unfolding probed_run_def split by blast
  from probe_chain_at [OF this] obtain rs1 r v v' where chain: "probe_chain ctx ps rs1 w3 v"
    and r: "live_finding_run reg reader host_env ctx v = (Inr r, v')" "po_passed r"
    by (auto simp: live_finding_probe_def)
  from live_finding_cleared [OF r] obtain ids fs where
    "approved_finding_ids ctx = Inr ids" "ids \<noteq> []" "live_reading reg reader host_env ctx ids fs v v'" by blast
  with run split chain show ?thesis by blast
qed

section \<open>The driver at work\<close>

definition file_env :: env where
  "file_env = \<lparr> env_now = (\<lambda>n. ''2026-01-01T00:00:00Z''), env_id = (\<lambda>n p. p @ show_nat n),
     env_sha256 = (\<lambda>s. s) \<rparr>"

definition file_world :: "unit world" where
  "file_world = \<lparr> wd_cases = sql_empty, wd_records = [], wd_findings = [], wd_jobs = [],
     wd_files = [(''t/m.tf'', ''old''), (''a/n/workspace/m.tf'', ''new'')], wd_tick = 0, wd_outside = () \<rparr>"

definition file_context :: execution_context where
  "file_context =
     (let r = \<lparr> pr_record_id = ''r'', pr_case_id = ''c'', pr_record_type = ''T'', pr_schema_version = 1,
                pr_created_at = ''n'', pr_body = PDict
                  [(''change'', PDict [(''source_path'', PStr ''m.tf''), (''before_sha256'', PStr ''old''),
                                       (''after_sha256'', PStr ''new'')]),
                   (''artifact_namespace'', PStr ''n'')], pr_evidence_ids = [] \<rparr>;
          c = \<lparr> rc_case_id = ''c'', rc_tenant_id = ''t'', rc_finding_ids = [''f''], rc_asset_ids = [],
                rc_service_ids = [], rc_state = APPROVED, rc_version = 1, rc_created_at = ''n'',
                rc_updated_at = ''n'', rc_priority = None, rc_change_plan = None, rc_change_window = None,
                rc_record_ids = [], rc_blocked_from = None \<rparr>
      in \<lparr> ex_case = c, ex_plan = r, ex_link = r, ex_approval = r, ex_window = r, ex_artifact_root = ''a'' \<rparr>)"

definition file_driver :: filesystem_driver where
  "file_driver = \<lparr> fd_target_root = ''t'', fd_fail_deploy = False \<rparr>"

text \<open>Checkpoint, deployment and rollback of one file.\<close>

definition file_change :: "(deployment_checkpoint \<times> unit world) \<times> (action_step \<times> unit world) \<times> (action_step \<times> unit world)" where
  "file_change =
     (case fs_checkpoint file_env file_driver file_context file_world of (ck, w1) \<Rightarrow>
        case fs_deploy file_env file_driver file_context (projr ck) w1 of (s2, w2) \<Rightarrow>
          case fs_rollback file_env file_driver file_context (projr ck) w2 of (s3, w3) \<Rightarrow>
            ((projr ck, w1), (projr s2, w2), (projr s3, w3)))"

lemma file_change_runs:
  "case file_change of ((ck, w1), (s2, w2), (s3, w3)) \<Rightarrow>
     fs_checkpoint file_env file_driver file_context file_world = (Inr ck, w1) \<and>
     fs_rollback file_env file_driver file_context ck w2 = (Inr s3, w3) \<and>
     dict_get (wd_files w2) ''t/m.tf'' = Some ''new'' \<and> as_passed s2 \<and>
     safe_resolve (wd_files file_world) (fd_target_root file_driver) (as_str (pget (dc_payload ck) ''source_path'')) =
       Inr ''t/m.tf''"
  by code_simp

theorem filesystem_rollback_restores_witness:
  "case file_change of ((ck, w1), (s2, w2), (s3, w3)) \<Rightarrow>
     dict_get (wd_files w2) ''t/m.tf'' = Some ''new'' \<and> dict_get (wd_files w3) ''t/m.tf'' = Some ''old'' \<and> as_passed s3"
proof -
  obtain ck w1 s2 w2 s3 w3 where fc: "file_change = ((ck, w1), (s2, w2), (s3, w3))" by (metis surj_pair)
  note run = file_change_runs [unfolded fc prod.case]
  have old: "dict_get (wd_files file_world) ''t/m.tf'' = Some ''old''" by (simp add: file_world_def)
  from filesystem_rollback_restores [of file_env file_driver file_context file_world ck w1 w2 s3 w3] run old
  show ?thesis unfolding fc by auto
qed

text \<open>A file with the line ends of Windows comes back with other bytes, and the step fails.\<close>

lemma windows_file_not_restored:
  "case fs_checkpoint file_env file_driver file_context
      (file_world\<lparr>wd_files := dict_set ''t/m.tf'' [CHR ''a'', CHR 0x0D, CHR 0x0A] (wd_files file_world)\<rparr>) of
     (ck, w1) \<Rightarrow> case fs_rollback file_env file_driver file_context (projr ck) w1 of
       (step, w2) \<Rightarrow> dict_get (wd_files w2) ''t/m.tf'' = Some [CHR ''a'', CHR 0x0A] \<and> \<not> as_passed (projr step)"
  by code_simp

end
