(* ===== verification/Execution_Witnesses.thy ===== *)
theory Execution_Witnesses
  imports Sample_Worlds Adapter_Properties Validation_Properties
begin

text \<open>
  An approved and scheduled case, run through the execution service with recorded adapters: the
  properties of \<open>Execution_Properties\<close> at work.
\<close>

section \<open>The environment and the adapters\<close>

definition steady_step :: "string \<Rightarrow> action_step" where
  "steady_step name = \<lparr> as_name = name, as_passed = True, as_detail = ''ok'', as_payload = [] \<rparr>"

definition steady_driver :: "unit change_driver" where
  "steady_driver = \<lparr> dv_name = ''steady'', dv_preflight = (\<lambda>_. ret (steady_step ''preflight'')),
     dv_checkpoint = (\<lambda>_. ret \<lparr> dc_checkpoint_id = ''CHK'', dc_detail = ''d'', dc_payload = [] \<rparr>),
     dv_deploy = (\<lambda>_ _. ret (steady_step ''deploy'')), dv_rollback = (\<lambda>_ _. ret (steady_step ''rollback'')) \<rparr>"

definition steady_health :: health_observation where
  "steady_health = \<lparr> ho_healthy = True, ho_reasons = [], ho_metrics = [] \<rparr>"

definition steady_audit :: "(string, pyval) dict" where
  "steady_audit =
     [(''decision'', PStr ''accept''), (''summary'', PStr ''s''), (''validated_outcomes'', PList [PStr ''v'']),
      (''residual_risks'', PList []), (''handoff_notes'', PList [])]"

definition shape_errors :: schema_errors where
  "shape_errors s d = (if audit_shape (dict_items d) then [] else [([], ''invalid'')])"

definition volume_finding :: stored_finding where
  "volume_finding = (sample_volume ''f1'')\<lparr>sf_case_id := Some ''c''\<rparr>"

text \<open>The volume is encrypted by now.\<close>

definition calm_reader :: "stored_finding \<Rightarrow> (string, string) dict \<Rightarrow> (unit, cloud_state) prog" where
  "calm_reader f henv = ret \<lparr> cl_provider = sf_provider f, cl_resource_uid = sf_resource_uid f,
     cl_region = [], cl_config = [(''ebs_volume_encrypted'', ''true'')] \<rparr>"

definition steady_service :: "unit execution_service" where
  "steady_service = \<lparr> xs_env = steady_env, xs_artifact_root = ''root'', xs_driver = steady_driver,
     xs_monitor = recorded_health_monitor
       [(''baseline'', steady_health), (''after_deploy'', steady_health), (''rollback'', steady_health)],
     xs_probes = [live_finding_probe sample_registry calm_reader (ret [])],
     xs_runtime = recorded_runtime steady_env [(''PostChangeReview.v1'', [(''output'', PDict steady_audit)])],
     xs_schema = shape_errors \<rparr>"

lemma steady_adapters: "adapters_aside steady_service"
  by (auto simp: adapters_aside_def steady_service_def steady_driver_def recorded_health_monitor_def
      recorded_runtime_def recorded_run_aside live_finding_aside live_finding_probe_def
      intro!: aside.pure stays_case_option)

lemma shape_errors_sound: "schema_sound shape_errors"
  by (simp add: schema_sound_def shape_errors_def dict_items_def)

section \<open>The case\<close>

definition scheduled_stages :: "(case_transition \<times> transition_args) list" where
  "scheduled_stages = awaiting_stages @
     [(APPROVE_CHANGE, (brief_args ''i'' ''approval_id'')\<lparr>ta_record_ids := [(''approval_id'', ''w'')]\<rparr>),
      (SCHEDULE_EXECUTION, (brief_args ''j'' ''schedule_id'')
         \<lparr>ta_record_ids := [(''schedule_id'', ''s''), (''execution_job_id'', ''job''), (''iac_link_id'', ''v'')]\<rparr>)]"

definition scheduled_cases :: "(unit world, unit) prog" where
  "scheduled_cases = bindM open_sample (\<lambda>_. advances ''c'' scheduled_stages)"

definition scheduled_records :: "(unit world, product_record) prog" where
  "scheduled_records =
     bindM (store_record (bound_record ''v'' (PDict []))) (\<lambda>_.
     store_record (bound_record ''w'' (PDict [(''expires_at'', PStr ''2026-01-02T00:00:00Z'')])))"

definition scheduled_world :: "unit world" where
  "scheduled_world = (snd (scheduled_cases empty_world))
     \<lparr> wd_records := wd_records (snd (scheduled_records empty_world)),
       wd_findings := [finding_row volume_finding] \<rparr>"

definition sample_execution :: "execution_outcome res \<times> unit world" where
  "sample_execution = execute steady_service ''c'' ''o'' ''job'' scheduled_world"

text \<open>No id of the factory is in use, and the execution remediates the case.\<close>

lemma scheduled_tests:
  "let w = scheduled_world in
     list_all (\<lambda>e. last (er_event_id e) \<noteq> CHR ''1'') (sc_events (wd_cases w)) \<and>
     list_all (\<lambda>r. last (pw_record_id r) \<noteq> CHR ''1'') (wd_records w) \<and> wd_files w = [] \<and>
     (case fst (execute steady_service ''c'' ''o'' ''job'' w) of
        Inr out \<Rightarrow> rc_state (xo_case out) = REMEDIATED | Inl e \<Rightarrow> False) \<and>
     (case fst (admit steady_service ''c'' ''o'' ''job'' w) of
        Inr (now, ctx) \<Rightarrow> approved_finding_ids ctx = Inr [''f1''] | Inl e \<Rightarrow> False)"
  by code_simp

lemma scheduled_stages_ok: "list_all (args_ok \<circ> snd) scheduled_stages"
  by (simp add: scheduled_stages_def awaiting_stages_def brief_args_def args_ok_def basic_args_def
      sample_parts_ok)

lemma scheduled_ready: "ready steady_service scheduled_world"
proof -
  have "keeps world_ok scheduled_cases" "keeps world_ok scheduled_records"
    unfolding scheduled_cases_def scheduled_records_def open_sample_def
    by (intro keeps_intros keeps_advances scheduled_stages_ok)+
  then have "world_ok (snd (scheduled_cases empty_world))" "world_ok (snd (scheduled_records empty_world))"
    using empty_world_ok by (simp_all add: keeps_def)
  then have "cases_ok (wd_cases scheduled_world)" "sql_record_ok (wd_records scheduled_world)"
    by (simp_all add: scheduled_world_def world_ok_def)
  moreover have "\<not> id_used scheduled_world (env_id steady_env n p)" for n p
  proof -
    have "last (env_id steady_env n p) = CHR ''1''" by (simp add: steady_env_def)
    then show ?thesis using scheduled_tests by (auto simp: Let_def id_used_def list_all_iff dict_has_def)
  qed
  ultimately show ?thesis by (simp add: ready_def staged_def unused_def steady_service_def)
qed

lemma sample_execution_result:
  obtains out where "execute steady_service ''c'' ''o'' ''job'' scheduled_world = (Inr out, snd sample_execution)"
    "rc_state (xo_case out) = REMEDIATED" "fst sample_execution = Inr out"
proof -
  obtain r w where run: "sample_execution = (r, w)" by (cases sample_execution)
  with scheduled_tests obtain out where "r = Inr out" "rc_state (xo_case out) = REMEDIATED"
    unfolding Let_def sample_execution_def by (cases r) auto
  then show thesis using that run by (simp add: sample_execution_def)
qed

section \<open>The properties at work\<close>

lemmas steady_facts = steady_env_ok steady_adapters shape_errors_sound scheduled_ready

lemma steady_env_is [simp]: "xs_env steady_service = steady_env" "xs_schema steady_service = shape_errors"
  by (simp_all add: steady_service_def)

theorem execution_was_admitted_witness:
  "\<exists>c es. sql_view (wd_cases scheduled_world) ''c'' = Some (c, es) \<and> rc_state c = APPROVED \<and>
     dict_get (rc_record_ids c) ''execution_job_id'' = Some ''job''"
proof -
  obtain out where out: "execute steady_service ''c'' ''o'' ''job'' scheduled_world = (Inr out, snd sample_execution)"
    "rc_state (xo_case out) = REMEDIATED" by (rule sample_execution_result)
  have ok: "cases_ok (wd_cases scheduled_world)" "sql_record_ok (wd_records scheduled_world)"
    using scheduled_ready by (simp_all add: ready_def staged_def)
  have "wd_cases (snd sample_execution) \<noteq> wd_cases scheduled_world"
  proof
    assume "wd_cases (snd sample_execution) = wd_cases scheduled_world"
    with execute_ends [of steady_service, OF _ steady_adapters _ scheduled_ready out(1)] steady_facts out(2)
    have "stands ''c'' REMEDIATED (wd_cases scheduled_world)"
      by (auto simp: rolled_def remediated_def holding_def staged_def)
    moreover have "admitted steady_service ''c'' ''job'' scheduled_world"
      by (rule execute_admitted [OF ok out(1)])
    ultimately show False by (auto simp: stands_def admitted_def)
  qed
  then show ?thesis using execution_was_admitted [OF ok out(1)] by blast
qed

theorem execution_never_half_done_witness:
  "\<exists>out s. fst sample_execution = Inr out \<and> stands ''c'' s (wd_cases (snd sample_execution)) \<and> s \<noteq> EXECUTING"
proof -
  obtain out where out: "execute steady_service ''c'' ''o'' ''job'' scheduled_world = (Inr out, snd sample_execution)"
    "fst sample_execution = Inr out" by (rule sample_execution_result)
  from execution_never_half_done [of steady_service, OF _ steady_adapters _ scheduled_ready out(1)] steady_facts out(2)
  show ?thesis by auto
qed

theorem remediated_means_cleared_witness:
  "\<exists>fs ctx v v'. map sf_finding_id fs = [''f1''] \<and>
     live_reading sample_registry calm_reader (ret []) ctx [''f1''] fs v v'"
proof -
  obtain out where out: "execute steady_service ''c'' ''o'' ''job'' scheduled_world = (Inr out, snd sample_execution)"
    "rc_state (xo_case out) = REMEDIATED" by (rule sample_execution_result)
  have "live_finding_probe sample_registry calm_reader (ret []) \<in> set (xs_probes steady_service)"
    by (simp add: steady_service_def)
  from remediated_means_cleared [of steady_service, OF _ steady_adapters _ scheduled_ready out this] steady_facts
  obtain now ctx w0 v v' ids fs where
    adm: "admit steady_service ''c'' ''o'' ''job'' scheduled_world = (Inr (now, ctx), w0)"
    and ids: "approved_finding_ids ctx = Inr ids"
    and l: "live_reading sample_registry calm_reader (ret []) ctx ids fs v v'"
    by auto
  have "(case fst (admit steady_service ''c'' ''o'' ''job'' scheduled_world) of
      Inr (now, ctx) \<Rightarrow> approved_finding_ids ctx = Inr [''f1''] | Inl e \<Rightarrow> False)"
    using scheduled_tests by (simp add: Let_def)
  with adm ids have "ids = [''f1'']" by simp
  moreover from l have "map sf_finding_id fs = ids" unfolding live_reading_def by blast
  ultimately have "map sf_finding_id fs = [''f1''] \<and>
      live_reading sample_registry calm_reader (ret []) ctx [''f1''] fs v v'" using l by simp
  then show ?thesis by (intro exI)
qed

theorem remediated_only_if_proven_witness:
  "\<exists>(task :: agent_task) (audit :: agent_result) evidence. at_case_id task = ''c'' \<and> at_role task = RELEASE_AUDITOR \<and> length evidence = 3 \<and>
     set (at_evidence_ids task) = set evidence \<and> set (ar_evidence_cited audit) = set evidence \<and>
     pget (ar_output audit) ''decision'' = PStr ''accept''"
proof -
  obtain out where out: "execute steady_service ''c'' ''o'' ''job'' scheduled_world = (Inr out, snd sample_execution)"
    "rc_state (xo_case out) = REMEDIATED" by (rule sample_execution_result)
  from remediated_only_if_proven [of steady_service, OF _ steady_adapters _ scheduled_ready out] steady_facts
  obtain ctx st c result rs e1 e2 task audit w4 where
    "audited_run steady_service ''c'' ctx st c result rs {es_evidence st, e1, e2} task audit w4" by auto
  then have "at_case_id task = ''c'' \<and> at_role task = RELEASE_AUDITOR \<and> length [es_evidence st, e1, e2] = 3 \<and>
     set (at_evidence_ids task) = set [es_evidence st, e1, e2] \<and>
     set (ar_evidence_cited audit) = set [es_evidence st, e1, e2] \<and>
     pget (ar_output audit) ''decision'' = PStr ''accept''" by (auto simp: audited_run_def)
  then show ?thesis by (intro exI)
qed

end
