(* ===== verification/Observability.thy ===== *)
theory Observability
  imports Timestamps
begin

text \<open>
  Change-window candidates from usage telemetry: \<open>UsageSample\<close>, \<open>WindowPolicy\<close> and
  \<open>candidate_windows\<close> of \<open>src/elcapitan/observability.py\<close>. A time zone of the library \<open>zoneinfo\<close>
  is a parameter: the wall clock of an instant, and the instant of a wall-clock time (the first
  one, where the clock was set back). Wall-clock arithmetic is arithmetic on the wall clock, as in
  \<open>datetime\<close>. Walls and instants are microseconds since 0001-01-01T00:00.
\<close>

section \<open>Time zones\<close>

record time_zone =
  tz_wall :: "int \<Rightarrow> int"
  tz_instant :: "int \<Rightarrow> int"

definition minute_us :: int where
  "minute_us = 60 * 1000000"

definition hour_us :: int where
  "hour_us = 60 * minute_us"

definition day_us :: int where
  "day_us = 24 * hour_us"

definition wall_weekday :: "int \<Rightarrow> int" where
  "wall_weekday w = (w div day_us) mod 7"

definition wall_hour :: "int \<Rightarrow> int" where
  "wall_hour w = (w mod day_us) div hour_us"

text \<open>A \<open>datetime\<close> outside the years 1 to 9999 raises.\<close>

definition in_calendar :: "int \<Rightarrow> int res" where
  "in_calendar w =
     bindE (guardE (0 \<le> w \<and> w < max_instant) OverflowError ''date value out of range'') (\<lambda>_. Inr w)"

text \<open>\<open>isoformat\<close> of a whole minute with an offset.\<close>

definition local_text :: "int \<Rightarrow> int \<Rightarrow> string" where
  "local_text w off =
     (let (y, m, d) = days_ymd (w div day_us); r = w mod day_us div 1000000;
          z = \<bar>off\<bar> div 1000000
      in butlast (stamp_text y m d (r div 3600) (r div 60 mod 60) (r mod 60))
         @ (if off < 0 then ''-'' else ''+'') @ pad2 (z div 3600) @ '':'' @ pad2 (z div 60 mod 60)
         @ (if z mod 60 = 0 then '''' else '':'' @ pad2 (z mod 60)))"

section \<open>Samples\<close>

record usage_sample =
  us_timestamp :: string
  us_requests :: pyval
  us_errors :: pyval
  us_latency :: pyval

fun num_of :: "pyval \<Rightarrow> rat" where
  "num_of (PInt i) = of_int i"
| "num_of (PFloat r) = r"
| "num_of v = 0"

fun is_number :: "pyval \<Rightarrow> bool" where
  "is_number (PInt i) = True"
| "is_number (PFloat r) = True"
| "is_number v = False"

definition usage_number :: "string \<Rightarrow> pyval \<Rightarrow> unit res" where
  "usage_number name v =
     guardE (is_number v \<and> 0 \<le> num_of v) UsageAnalysisError (name @ '' must be a non-negative number'')"

definition mk_usage_sample :: "pyval \<Rightarrow> pyval \<Rightarrow> pyval \<Rightarrow> pyval \<Rightarrow> usage_sample res" where
  "mk_usage_sample timestamp requests errors latency =
     bindE (guardE (is_str timestamp) UsageAnalysisError ''timestamp must be non-empty RFC3339 text'') (\<lambda>_.
     bindE (parse_timestamp (as_str timestamp)) (\<lambda>_.
     bindE (usage_number ''requests'' requests) (\<lambda>_.
     bindE (usage_number ''errors'' errors) (\<lambda>_.
     bindE (usage_number ''p95_latency_ms'' latency) (\<lambda>_.
     Inr \<lparr> us_timestamp = as_str timestamp, us_requests = requests, us_errors = errors,
           us_latency = latency \<rparr>)))))"

definition usage_sample_to_dict :: "usage_sample \<Rightarrow> pyval" where
  "usage_sample_to_dict s = PDict
     [(''timestamp'', PStr (us_timestamp s)), (''requests'', us_requests s),
      (''errors'', us_errors s), (''p95_latency_ms'', us_latency s)]"

definition usage_row :: "nat \<Rightarrow> pyval \<Rightarrow> usage_sample res" where
  "usage_row i row =
     (let label = ''usage sample '' @ show_nat i;
          field = (\<lambda>k. case dict_get (dict_items row) k of
             None \<Rightarrow> Inl (Raise UsageAnalysisError (label @ '' is missing '' @ k)) | Some v \<Rightarrow> Inr v)
      in bindE (guardE (is_dict row) UsageAnalysisError (label @ '' must be an object'')) (\<lambda>_.
         bindE (field ''timestamp'') (\<lambda>timestamp.
         bindE (field ''requests'') (\<lambda>requests.
         mk_usage_sample timestamp requests (get_or (dict_items row) ''errors'' (PInt 0))
           (get_or (dict_items row) ''p95_latency_ms'' (PInt 0))))))"

text \<open>\<open>load_usage_samples\<close> on the document that was read.\<close>

definition load_usage_samples :: "pyval \<Rightarrow> usage_sample list res" where
  "load_usage_samples document =
     (let rows = (if is_dict document then pget (dict_items document) ''samples'' else document)
      in bindE (guardE (is_list rows \<and> list_items rows \<noteq> []) UsageAnalysisError
                  ''usage input must contain a non-empty samples array'') (\<lambda>_.
         mapE (\<lambda>(i, row). usage_row i row) (enumerate 0 (list_items rows))))"

section \<open>Policies\<close>

record window_policy =
  wp_timezone :: string
  wp_duration_minutes :: int
  wp_notice_hours :: int
  wp_allowed_weekdays :: "int list"
  wp_allowed_start_hours :: "int list"
  wp_candidate_count :: int
  wp_minimum_profile_samples :: int
  wp_fixed_start_delay_minutes :: "int option"

text \<open>The fields as they are given.\<close>

record window_policy_fields =
  wf_timezone :: string
  wf_duration_minutes :: pyval
  wf_notice_hours :: pyval
  wf_allowed_weekdays :: "pyval list"
  wf_allowed_start_hours :: "pyval list"
  wf_candidate_count :: pyval
  wf_minimum_profile_samples :: pyval
  wf_fixed_start_delay_minutes :: pyval

fun is_whole :: "pyval \<Rightarrow> bool" where
  "is_whole (PInt i) = True"
| "is_whole v = False"

fun int_of :: "pyval \<Rightarrow> int" where
  "int_of (PInt i) = i"
| "int_of v = 0"

definition ints_below :: "int \<Rightarrow> pyval list \<Rightarrow> bool" where
  "ints_below n vs = (vs \<noteq> [] \<and> list_all (\<lambda>v. is_whole v \<and> 0 \<le> int_of v \<and> int_of v < n) vs)"

definition fixed_delay_ok :: "pyval \<Rightarrow> bool" where
  "fixed_delay_ok v = (v = PNone \<or> (is_whole v \<and> 1 \<le> int_of v \<and> int_of v \<le> 1440))"

definition mk_window_policy ::
  "(string \<Rightarrow> time_zone option) \<Rightarrow> window_policy_fields \<Rightarrow> window_policy res" where
  "mk_window_policy zones f =
     bindE (guardE (zones (wf_timezone f) \<noteq> None) UsageAnalysisError
              (''unknown timezone: '' @ wf_timezone f)) (\<lambda>_.
     bindE (guardE (list_all is_whole [wf_duration_minutes f, wf_notice_hours f, wf_candidate_count f,
                                     wf_minimum_profile_samples f]) UsageAnalysisError
              ''window policy counts and durations must be integers'') (\<lambda>_.
     bindE (guardE (0 < int_of (wf_duration_minutes f) \<and> 0 \<le> int_of (wf_notice_hours f))
              UsageAnalysisError ''window duration must be positive and notice non-negative'') (\<lambda>_.
     bindE (guardE (1 \<le> int_of (wf_candidate_count f) \<and> int_of (wf_candidate_count f) \<le> 10)
              UsageAnalysisError ''candidate_count must be between 1 and 10'') (\<lambda>_.
     bindE (guardE (1 \<le> int_of (wf_minimum_profile_samples f)) UsageAnalysisError
              ''minimum_profile_samples must be positive'') (\<lambda>_.
     bindE (guardE (fixed_delay_ok (wf_fixed_start_delay_minutes f)) UsageAnalysisError
              ''fixed_start_delay_minutes must be an integer from 1 through 1440'') (\<lambda>_.
     bindE (guardE (ints_below 7 (wf_allowed_weekdays f)) UsageAnalysisError
              ''allowed_weekdays must contain values from 0 through 6'') (\<lambda>_.
     bindE (guardE (ints_below 24 (wf_allowed_start_hours f)) UsageAnalysisError
              ''allowed_start_hours must contain values from 0 through 23'') (\<lambda>_.
     Inr \<lparr> wp_timezone = wf_timezone f, wp_duration_minutes = int_of (wf_duration_minutes f),
           wp_notice_hours = int_of (wf_notice_hours f),
           wp_allowed_weekdays = dedup (map int_of (wf_allowed_weekdays f)),
           wp_allowed_start_hours = dedup (map int_of (wf_allowed_start_hours f)),
           wp_candidate_count = int_of (wf_candidate_count f),
           wp_minimum_profile_samples = int_of (wf_minimum_profile_samples f),
           wp_fixed_start_delay_minutes =
             (if wf_fixed_start_delay_minutes f = PNone then None
              else Some (int_of (wf_fixed_start_delay_minutes f))) \<rparr>))))))))"

definition window_policy_to_dict :: "window_policy \<Rightarrow> pyval" where
  "window_policy_to_dict p = PDict
     [(''timezone'', PStr (wp_timezone p)), (''duration_minutes'', PInt (wp_duration_minutes p)),
      (''notice_hours'', PInt (wp_notice_hours p)),
      (''allowed_weekdays'', PList (map PInt (wp_allowed_weekdays p))),
      (''allowed_start_hours'', PList (map PInt (wp_allowed_start_hours p))),
      (''candidate_count'', PInt (wp_candidate_count p)),
      (''minimum_profile_samples'', PInt (wp_minimum_profile_samples p)),
      (''fixed_start_delay_minutes'',
         (case wp_fixed_start_delay_minutes p of None \<Rightarrow> PNone | Some d \<Rightarrow> PInt d))]"

section \<open>Candidates\<close>

record window_candidate =
  wc_candidate_id :: string
  wc_starts_at :: string
  wc_ends_at :: string
  wc_timezone :: string
  wc_local_start :: string
  wc_historical_samples :: int
  wc_average_requests :: pyval
  wc_average_errors :: pyval
  wc_average_latency :: pyval
  wc_rank :: int

definition window_candidate_to_dict :: "window_candidate \<Rightarrow> pyval" where
  "window_candidate_to_dict c = PDict
     [(''candidate_id'', PStr (wc_candidate_id c)), (''starts_at'', PStr (wc_starts_at c)),
      (''ends_at'', PStr (wc_ends_at c)), (''timezone'', PStr (wc_timezone c)),
      (''local_start'', PStr (wc_local_start c)),
      (''historical_samples'', PInt (wc_historical_samples c)),
      (''average_requests'', wc_average_requests c), (''average_errors'', wc_average_errors c),
      (''average_p95_latency_ms'', wc_average_latency c), (''rank'', PInt (wc_rank c))]"

text \<open>\<open>statistics.mean\<close>: an integer for integers whose mean is one; and \<open>round(x, 3)\<close>.\<close>

definition mean_of :: "pyval list \<Rightarrow> rat" where
  "mean_of vs = sum_list (map num_of vs) / of_nat (length vs)"

definition rounded_mean :: "pyval list \<Rightarrow> pyval" where
  "rounded_mean vs =
     (let m = mean_of vs in
      if list_all is_whole vs \<and> snd (quotient_of m) = 1 then PInt (fst (quotient_of m))
      else PFloat (py_round 3 m))"

type_synonym profile = "(int \<times> int) \<times> usage_sample list"

definition mean_key :: "profile \<Rightarrow> rat \<times> rat \<times> rat \<times> int \<times> int" where
  "mean_key p = (mean_of (map us_requests (snd p)), mean_of (map us_errors (snd p)),
                 mean_of (map us_latency (snd p)), fst p)"

text \<open>A candidate whose window starts at a time of the wall clock.\<close>

definition candidate_at ::
  "time_zone \<Rightarrow> window_policy \<Rightarrow> string \<Rightarrow> int \<Rightarrow> int \<Rightarrow> usage_sample list \<Rightarrow> window_candidate res" where
  "candidate_at z p candidate_id rank start samples =
     bindE (in_calendar (start + wp_duration_minutes p * minute_us)) (\<lambda>stop.
     bindE (utc_text (tz_instant z start)) (\<lambda>starts_at.
     bindE (utc_text (tz_instant z stop)) (\<lambda>ends_at.
     Inr \<lparr> wc_candidate_id = candidate_id, wc_starts_at = starts_at, wc_ends_at = ends_at,
           wc_timezone = wp_timezone p,
           wc_local_start = local_text start (start - tz_instant z start),
           wc_historical_samples = int (length samples),
           wc_average_requests = rounded_mean (map us_requests samples),
           wc_average_errors = rounded_mean (map us_errors samples),
           wc_average_latency = rounded_mean (map us_latency samples), wc_rank = rank \<rparr>)))"

definition sample_profile :: "time_zone \<Rightarrow> usage_sample \<Rightarrow> (int \<times> int) res" where
  "sample_profile z s =
     bindE (parse_timestamp (us_timestamp s)) (\<lambda>t.
     bindE (in_calendar (tz_wall z t)) (\<lambda>w.
     Inr (wall_weekday w, wall_hour w)))"

definition add_profile ::
  "time_zone \<Rightarrow> window_policy \<Rightarrow> usage_sample \<Rightarrow> profile list \<Rightarrow> profile list res" where
  "add_profile z p s ps =
     bindE (sample_profile z s) (\<lambda>key.
     Inr (if fst key \<in> set (wp_allowed_weekdays p) \<and> snd key \<in> set (wp_allowed_start_hours p)
          then dict_set key ((case dict_get ps key of None \<Rightarrow> [] | Some ss \<Rightarrow> ss) @ [s]) ps
          else ps))"

definition ranked_profiles ::
  "time_zone \<Rightarrow> window_policy \<Rightarrow> usage_sample list \<Rightarrow> profile list res" where
  "ranked_profiles z p samples =
     bindE (foldE (add_profile z p) samples []) (\<lambda>profiles.
     let eligible = filter (\<lambda>q. wp_minimum_profile_samples p \<le> int (length (snd q))) profiles
     in bindE (guardE (eligible \<noteq> []) UsageAnalysisError
                 ''telemetry has no samples in an allowed change-window profile'') (\<lambda>_.
        Inr (sort_key mean_key eligible)))"

text \<open>The next time the weekday and hour of a profile begin, not before \<open>earliest\<close>.\<close>

definition next_start :: "int \<Rightarrow> int \<times> int \<Rightarrow> int" where
  "next_start earliest key =
     (let days = (fst key - wall_weekday earliest) mod 7;
          start = earliest div day_us * day_us + snd key * hour_us + days * day_us
      in if start < earliest then start + 7 * day_us else start)"

definition fixed_window ::
  "time_zone \<Rightarrow> window_policy \<Rightarrow> usage_sample list \<Rightarrow> int \<Rightarrow> int \<Rightarrow> window_candidate list res" where
  "fixed_window z p samples now delay =
     bindE (in_calendar (tz_wall z now)) (\<lambda>w.
     bindE (in_calendar (w + delay * minute_us)) (\<lambda>start.
     bindE (candidate_at z p ''CAND-FIXED-001'' 1 (start div minute_us * minute_us) samples) (\<lambda>c.
     Inr [c])))"

definition profile_window ::
  "time_zone \<Rightarrow> window_policy \<Rightarrow> int \<Rightarrow> nat \<times> profile \<Rightarrow> window_candidate res" where
  "profile_window z p earliest q =
     bindE (in_calendar (next_start earliest (fst (snd q)))) (\<lambda>start.
     candidate_at z p (''CAND-'' @ pad_left 3 (show_nat (fst q))) (int (fst q)) start (snd (snd q)))"

definition candidate_windows ::
  "(string \<Rightarrow> time_zone option) \<Rightarrow> usage_sample list \<Rightarrow> window_policy \<Rightarrow> string \<Rightarrow>
   window_candidate list res" where
  "candidate_windows zones samples p now =
     bindE (guardE (samples \<noteq> []) UsageAnalysisError ''at least one usage sample is required'') (\<lambda>_.
     case zones (wp_timezone p) of
       None \<Rightarrow> Inl (Raise KeyError (''No time zone found with key '' @ wp_timezone p))
     | Some z \<Rightarrow>
        (case wp_fixed_start_delay_minutes p of
           Some delay \<Rightarrow>
             bindE (parse_timestamp now) (\<lambda>t. fixed_window z p samples t delay)
         | None \<Rightarrow>
             bindE (ranked_profiles z p samples) (\<lambda>ranked.
             bindE (parse_timestamp now) (\<lambda>t.
             bindE (in_calendar (tz_wall z t)) (\<lambda>w.
             bindE (in_calendar (w + wp_notice_hours p * hour_us)) (\<lambda>earliest.
             mapE (profile_window z p earliest)
               (enumerate 1 (take (nat (wp_candidate_count p)) ranked))))))))"

end
