(* ===== verification/Window_Properties.thy ===== *)
theory Window_Properties
  imports Observability
begin

text \<open>What the change-window candidates promise, and where the wall clock breaks the promise.\<close>

section \<open>The next start\<close>

lemma day_us_pos [simp]: "0 < day_us" "0 < hour_us" "0 < minute_us"
  by (simp_all add: day_us_def hour_us_def minute_us_def)

lemma weekday_shift: "wall_weekday (w + k * day_us) = (wall_weekday w + k) mod 7"
proof -
  have "(w + k * day_us) div day_us = w div day_us + k"
    using div_mult_self1 [of day_us w k] day_us_pos(1) by linarith
  then show ?thesis by (simp add: wall_weekday_def mod_add_left_eq)
qed

lemma hour_shift: "wall_hour (w + k * day_us) = wall_hour w"
  by (simp add: wall_hour_def)

lemma aligned_shift: "(w + k * day_us) mod hour_us = w mod hour_us"
  by (metis (no_types) day_us_def mod_mult_self1 mult.assoc mult.commute)

lemma start_of_hour:
  assumes "0 \<le> h" "h < 24" "e = d * day_us + h * hour_us"
  shows "wall_hour e = h \<and> wall_weekday e = d mod 7 \<and> e mod hour_us = 0"
proof -
  have lt: "0 \<le> h * hour_us" "h * hour_us < day_us"
    using assms by (simp_all add: day_us_def hour_us_def minute_us_def)
  then have "e div day_us = d" "e mod day_us = h * hour_us"
    using assms(3) by (simp_all add: div_pos_pos_trivial mod_pos_pos_trivial)
  moreover have "e mod hour_us = 0" using assms(3) by (simp add: day_us_def mod_simps flip: mult.assoc)
  ultimately show ?thesis by (simp add: wall_hour_def wall_weekday_def hour_us_def minute_us_def)
qed

text \<open>It is on the weekday and at the hour of the profile, within a week from the earliest time.\<close>

lemma next_start_spec:
  assumes "0 \<le> wd" "wd < 7" "0 \<le> h" "h < 24"
  shows "earliest \<le> next_start earliest (wd, h) \<and> next_start earliest (wd, h) < earliest + 7 * day_us \<and>
    wall_weekday (next_start earliest (wd, h)) = wd \<and> wall_hour (next_start earliest (wd, h)) = h \<and>
    next_start earliest (wd, h) mod hour_us = 0"
proof -
  let ?days = "(wd - wall_weekday earliest) mod 7"
  let ?base = "earliest div day_us * day_us"
  let ?s = "?base + h * hour_us + ?days * day_us"
  have s: "?s = (earliest div day_us + ?days) * day_us + h * hour_us" by (simp add: algebra_simps)
  note S = start_of_hour [OF assms(3,4) s]
  have "(earliest div day_us + ?days) mod 7 = wd"
    using assms(1,2) unfolding wall_weekday_def by (simp add: mod_simps)
  with S have wd: "wall_weekday ?s = wd" "wall_hour ?s = h" "?s mod hour_us = 0" by simp_all
  have base: "?base \<le> earliest" "earliest < ?base + day_us"
    using div_mult_mod_eq [of earliest day_us] pos_mod_bound [of day_us earliest] pos_mod_sign [of day_us earliest]
    using day_us_pos(1) by linarith+
  have d: "0 \<le> ?days" "?days < 7" by simp_all
  have h: "0 \<le> h * hour_us" "h * hour_us < day_us"
    using assms(3,4) by (simp_all add: day_us_def hour_us_def minute_us_def)
  show ?thesis
  proof (cases "?s < earliest")
    case True
    then have n: "next_start earliest (wd, h) = ?s + 7 * day_us" by (simp add: next_start_def Let_def)
    have "wall_weekday (?s + 7 * day_us) = wd" using wd(1) weekday_shift [of ?s 7] assms(1,2) by simp
    moreover have "earliest \<le> ?s + 7 * day_us"
    proof -
      have "0 \<le> ?days * day_us" 
        using d(1) day_us_pos(1) by (metis less_imp_le mult_nonneg_nonneg)
      then show ?thesis using base h day_us_pos(1) by linarith
    qed
    ultimately show ?thesis using True wd hour_shift [of ?s 7] aligned_shift [of ?s 7] unfolding n by simp
  next
    case False
    then have n: "next_start earliest (wd, h) = ?s" by (simp add: next_start_def Let_def)
    have "?s < earliest + 7 * day_us"
    proof (cases "?days = 6")
      case True
      then show ?thesis using base h by simp
    next
      case False
      then have "?days * day_us \<le> 5 * day_us" using d less_imp_le [OF day_us_pos(1)] by (intro mult_right_mono) auto
      then show ?thesis using base h day_us_pos(1) by linarith
    qed
    then show ?thesis using False wd unfolding n by simp
  qed
qed

section \<open>Profiles\<close>

definition allowed_keys :: "window_policy \<Rightarrow> profile list \<Rightarrow> bool" where
  "allowed_keys p ps = (\<forall>q \<in> set ps. fst (fst q) \<in> set (wp_allowed_weekdays p) \<and>
     snd (fst q) \<in> set (wp_allowed_start_hours p))"

lemma add_profile_keys:
  assumes "add_profile z p s ps = Inr ps'" "allowed_keys p ps" shows "allowed_keys p ps'"
proof -
  have keys: "fst ` set (dict_set k v ps) \<subseteq> insert k (fst ` set ps)" for k v
    by (simp add: dict_set_def dom_update)
  from assms obtain key where "ps' = (if fst key \<in> set (wp_allowed_weekdays p) \<and>
      snd key \<in> set (wp_allowed_start_hours p)
    then dict_set key ((case dict_get ps key of None \<Rightarrow> [] | Some ss \<Rightarrow> ss) @ [s]) ps else ps)"
    by (auto simp: add_profile_def res_simps)
  with assms(2) keys show ?thesis unfolding allowed_keys_def by (fastforce split: if_splits)
qed

lemma profiles_keys:
  "foldE (add_profile z p) samples ps = Inr ps' \<Longrightarrow> allowed_keys p ps \<Longrightarrow> allowed_keys p ps'"
  by (induction samples arbitrary: ps) (auto simp: res_simps dest: add_profile_keys)

lemma ranked_profiles_spec:
  assumes "ranked_profiles z p samples = Inr ps"
  shows "ps \<noteq> [] \<and> allowed_keys p ps \<and> sorted (map mean_key ps) \<and>
    (\<forall>q \<in> set ps. wp_minimum_profile_samples p \<le> int (length (snd q)))"
proof -
  from assms obtain profiles where f: "foldE (add_profile z p) samples [] = Inr profiles"
    and e: "filter (\<lambda>q. wp_minimum_profile_samples p \<le> int (length (snd q))) profiles \<noteq> []"
      "ps = sort_key mean_key (filter (\<lambda>q. wp_minimum_profile_samples p \<le> int (length (snd q))) profiles)"
    by (auto simp: ranked_profiles_def Let_def res_simps)
  have "allowed_keys p profiles" using profiles_keys [OF f] by (simp add: allowed_keys_def)
  moreover have "ps \<noteq> []" using e by (metis length_0_conv length_sort)
  ultimately show ?thesis using e(2) by (auto simp: allowed_keys_def)
qed

section \<open>Candidates\<close>

text \<open>A policy as the constructor returns it.\<close>

definition policy_ok :: "window_policy \<Rightarrow> bool" where
  "policy_ok p = (0 < wp_duration_minutes p \<and> 0 \<le> wp_notice_hours p \<and> 1 \<le> wp_candidate_count p \<and>
     wp_candidate_count p \<le> 10 \<and> 1 \<le> wp_minimum_profile_samples p \<and>
     set (wp_allowed_weekdays p) \<subseteq> {0..6} \<and> set (wp_allowed_start_hours p) \<subseteq> {0..23} \<and>
     wp_allowed_weekdays p \<noteq> [] \<and> wp_allowed_start_hours p \<noteq> [])"

lemma dedup_Nil [simp]: "dedup xs = [] \<longleftrightarrow> xs = []"
  by (cases xs) auto

lemma ints_below_set: "ints_below n vs \<Longrightarrow> int_of ` set vs \<subseteq> {0..n - 1}"
  by (auto simp: ints_below_def list_all_iff)

lemma mk_window_policy_ok:
  assumes "mk_window_policy zones f = Inr p" shows "policy_ok p"
proof -
  from assms have i: "ints_below 7 (wf_allowed_weekdays f)" "ints_below 24 (wf_allowed_start_hours f)"
    by (auto simp: mk_window_policy_def res_simps)
  from ints_below_set [OF i(1)] ints_below_set [OF i(2)] assms i show ?thesis
    by (auto simp: mk_window_policy_def res_simps policy_ok_def ints_below_def)
qed

text \<open>What one candidate is, for the profile it stands for.\<close>

definition candidate_for :: "time_zone \<Rightarrow> window_policy \<Rightarrow> int \<Rightarrow> profile \<Rightarrow> window_candidate \<Rightarrow> bool" where
  "candidate_for z p earliest q c =
     (\<exists>start. earliest \<le> start \<and> start < earliest + 7 * day_us \<and> start mod hour_us = 0 \<and>
        (wall_weekday start, wall_hour start) = fst q \<and>
        utc_text (tz_instant z start) = Inr (wc_starts_at c) \<and>
        utc_text (tz_instant z (start + wp_duration_minutes p * minute_us)) = Inr (wc_ends_at c) \<and>
        wc_historical_samples c = int (length (snd q)) \<and>
        wc_average_requests c = rounded_mean (map us_requests (snd q)))"

lemma in_calendar_Inr: "in_calendar w = Inr v \<longleftrightarrow> v = w \<and> 0 \<le> w \<and> w < max_instant"
  by (auto simp: in_calendar_def res_simps)

lemma profile_window_for:
  assumes "profile_window z p earliest (i, q) = Inr c"
    and "policy_ok p" "fst (fst q) \<in> set (wp_allowed_weekdays p)" "snd (fst q) \<in> set (wp_allowed_start_hours p)"
  shows "candidate_for z p earliest q c \<and> wc_candidate_id c = ''CAND-'' @ pad_left 3 (show_nat i) \<and>
    wc_rank c = int i"
proof -
  obtain wd h ss where q: "q = ((wd, h), ss)" by (metis prod.collapse)
  have "0 \<le> wd" "wd < 7" "0 \<le> h" "h < 24" using assms(2-4) q by (auto simp: policy_ok_def)
  note S = next_start_spec [OF this, of earliest]
  from assms(1) q S show ?thesis
    unfolding candidate_for_def
    by (auto simp: profile_window_def candidate_at_def res_simps in_calendar_Inr)
qed

lemma candidate_numbers: "distinct (map (\<lambda>i. ''CAND-'' @ pad_left 3 (show_nat i)) [1..<11])"
  by code_simp

lemma candidate_ids_distinct:
  assumes "n \<le> 10" shows "distinct (map (\<lambda>i. ''CAND-'' @ pad_left 3 (show_nat (Suc i))) [0..<n])"
proof -
  have "map (\<lambda>i. ''CAND-'' @ pad_left 3 (show_nat (Suc i))) [0..<n] =
      take n (map (\<lambda>i. ''CAND-'' @ pad_left 3 (show_nat i)) [1..<11])"
    using assms by (simp add: take_map map_Suc_upt [symmetric] take_upt del: upt_Suc map_map upt_rec_numeral)
      (simp add: comp_def)
  then show ?thesis using distinct_take [OF candidate_numbers] by simp
qed

text \<open>The candidates without a fixed delay, each made from one of the ranked profiles.\<close>

lemma candidates_made:
  assumes "candidate_windows zones samples p now = Inr cs" "wp_fixed_start_delay_minutes p = None"
  shows "\<exists>z t ps. zones (wp_timezone p) = Some z \<and> parse_timestamp now = Inr t \<and>
    ranked_profiles z p samples = Inr ps \<and> length cs = length (take (nat (wp_candidate_count p)) ps) \<and>
    (\<forall>i < length cs. profile_window z p (tz_wall z t + wp_notice_hours p * hour_us) (Suc i, ps ! i) = Inr (cs ! i))"
proof -
  from assms obtain z t ps where z: "zones (wp_timezone p) = Some z" and t: "parse_timestamp now = Inr t"
    and ps: "ranked_profiles z p samples = Inr ps"
    and cs: "mapE (profile_window z p (tz_wall z t + wp_notice_hours p * hour_us))
        (enumerate 1 (take (nat (wp_candidate_count p)) ps)) = Inr cs"
    by (auto simp: candidate_windows_def res_simps in_calendar_Inr split: option.splits)
  have "length cs = length (take (nat (wp_candidate_count p)) ps)" "\<And>i. i < length cs \<Longrightarrow>
      profile_window z p (tz_wall z t + wp_notice_hours p * hour_us) (Suc i, ps ! i) = Inr (cs ! i)"
    using mapE_nth [OF cs] by (auto simp: nth_enumerate_eq)
  with z t ps show ?thesis by blast
qed

text \<open>The one window of a fixed delay: from the minute that lies the delay after now.\<close>

definition delayed_window ::
  "time_zone \<Rightarrow> window_policy \<Rightarrow> usage_sample list \<Rightarrow> int \<Rightarrow> int \<Rightarrow> window_candidate \<Rightarrow> bool" where
  "delayed_window z p samples t delay c =
     (\<exists>start. start mod minute_us = 0 \<and> start \<le> tz_wall z t + delay * minute_us \<and>
        tz_wall z t + delay * minute_us < start + minute_us \<and>
        utc_text (tz_instant z start) = Inr (wc_starts_at c) \<and>
        utc_text (tz_instant z (start + wp_duration_minutes p * minute_us)) = Inr (wc_ends_at c) \<and>
        wc_historical_samples c = int (length samples) \<and> wc_average_requests c = rounded_mean (map us_requests samples))"

lemma fixed_window_made:
  assumes "candidate_windows zones samples p now = Inr cs" "wp_fixed_start_delay_minutes p = Some delay"
  shows "\<exists>z t c. zones (wp_timezone p) = Some z \<and> parse_timestamp now = Inr t \<and> cs = [c] \<and>
    delayed_window z p samples t delay c"
proof -
  from assms obtain z t where z: "zones (wp_timezone p) = Some z" and t: "parse_timestamp now = Inr t"
    and f: "fixed_window z p samples t delay = Inr cs"
    by (auto simp: candidate_windows_def res_simps split: option.splits)
  define w where "w = tz_wall z t + delay * minute_us"
  define start where "start = w div minute_us * minute_us"
  from f obtain c where c: "candidate_at z p ''CAND-FIXED-001'' 1 start samples = Inr c" "cs = [c]"
    unfolding start_def w_def by (auto simp: fixed_window_def res_simps in_calendar_Inr)
  have "start \<le> w" "w < start + minute_us" "start mod minute_us = 0"
    using div_mult_mod_eq [of w minute_us] pos_mod_bound [of minute_us w] pos_mod_sign [of minute_us w]
      day_us_pos(3) unfolding start_def by (linarith, linarith, simp)
  then have "delayed_window z p samples t delay c"
    using c(1) unfolding delayed_window_def w_def
    by (intro exI [of _ start]) (auto simp: candidate_at_def res_simps in_calendar_Inr)
  with z t c(2) show ?thesis by blast
qed

text \<open>C36: The windows offered for a change are safe ones. Without a fixed delay there is at least one
  and at most the number the policy asks for, each with its own id; each starts on a full hour of
  an allowed weekday and hour, not earlier than the notice of the policy after now and within a
  week of that, in a profile with enough history; and they are offered from the profile with the
  least traffic on. All of this is meant on the wall clock of the policy's zone. A policy with a
  fixed delay for emergencies gets the one window that starts in the minute lying that delay after
  now, with the traffic of all samples, whatever its weekdays, hours and notice.\<close>

theorem candidate_windows_safe:
  assumes "candidate_windows zones samples p now = Inr cs" and "policy_ok p"
  shows "case wp_fixed_start_delay_minutes p of
    None \<Rightarrow> \<exists>z t ps. zones (wp_timezone p) = Some z \<and> parse_timestamp now = Inr t \<and>
      ranked_profiles z p samples = Inr ps \<and> cs \<noteq> [] \<and> length cs \<le> length ps \<and>
      int (length cs) \<le> wp_candidate_count p \<and> distinct (map wc_candidate_id cs) \<and>
      sorted (map (\<lambda>q. mean_of (map us_requests (snd q))) ps) \<and>
      (\<forall>i < length cs. candidate_for z p (tz_wall z t + wp_notice_hours p * hour_us) (ps ! i) (cs ! i) \<and>
         fst (fst (ps ! i)) \<in> set (wp_allowed_weekdays p) \<and>
         snd (fst (ps ! i)) \<in> set (wp_allowed_start_hours p) \<and>
         wp_minimum_profile_samples p \<le> wc_historical_samples (cs ! i))
  | Some delay \<Rightarrow> \<exists>z t c. zones (wp_timezone p) = Some z \<and> parse_timestamp now = Inr t \<and> cs = [c] \<and>
      delayed_window z p samples t delay c"
proof (cases "wp_fixed_start_delay_minutes p")
  case (Some delay)
  with fixed_window_made [OF assms(1) Some] show ?thesis by simp
next
  case None
  from candidates_made [OF assms(1) None] obtain z t ps where z: "zones (wp_timezone p) = Some z"
    and t: "parse_timestamp now = Inr t" and ps: "ranked_profiles z p samples = Inr ps"
    and n: "length cs = length (take (nat (wp_candidate_count p)) ps)"
    and each: "\<And>i. i < length cs \<Longrightarrow>
      profile_window z p (tz_wall z t + wp_notice_hours p * hour_us) (Suc i, ps ! i) = Inr (cs ! i)"
    by blast
  note R = ranked_profiles_spec [OF ps]
  have key: "fst (fst (ps ! i)) \<in> set (wp_allowed_weekdays p)" "snd (fst (ps ! i)) \<in> set (wp_allowed_start_hours p)"
    "wp_minimum_profile_samples p \<le> int (length (snd (ps ! i)))" if "i < length cs" for i
    using R n that by (auto simp: allowed_keys_def)
  have C: "candidate_for z p (tz_wall z t + wp_notice_hours p * hour_us) (ps ! i) (cs ! i)"
    "wc_candidate_id (cs ! i) = ''CAND-'' @ pad_left 3 (show_nat (Suc i))" if "i < length cs" for i
    using profile_window_for [OF each [OF that] assms(2) key(1,2) [OF that]] by simp_all
  have len: "length cs \<le> 10" using n assms(2) by (auto simp: policy_ok_def)
  have "map wc_candidate_id cs = map (\<lambda>i. ''CAND-'' @ pad_left 3 (show_nat (Suc i))) [0..<length cs]"
    using C(2) by (intro nth_equalityI) auto
  then have ids: "distinct (map wc_candidate_id cs)" using candidate_ids_distinct [OF len] by simp
  have "sorted_wrt (\<lambda>a b. mean_key a \<le> mean_key b) ps" using R by (simp add: sorted_map)
  then have sorted: "sorted (map (\<lambda>q. mean_of (map us_requests (snd q))) ps)"
    unfolding sorted_map by (rule sorted_wrt_mono_rel [rotated]) (auto simp: mean_key_def less_eq_prod_def)
  have "cs \<noteq> []" using n R assms(2) by (auto simp: policy_ok_def min_def split: if_splits)
  moreover have "wp_minimum_profile_samples p \<le> wc_historical_samples (cs ! i)" if "i < length cs" for i
    using C(1) [OF that] key(3) [OF that] by (auto simp: candidate_for_def)
  ultimately show ?thesis unfolding None option.case using z t ps n ids sorted C key assms(2)
    by (auto simp: policy_ok_def)
qed

section \<open>A clock that is set forward\<close>

text \<open>New York in March 2026: on Sunday the 8th, 02:00 to 03:00 does not exist on the wall clock. The
  instant of a time that does not exist is taken with the offset before the change.\<close>

definition change_instant :: int where
  "change_instant = instant 2026 3 8 7 0 0"

definition spring_zone :: time_zone where
  "spring_zone = \<lparr> tz_wall = (\<lambda>t. if t < change_instant then t - 5 * hour_us else t - 4 * hour_us),
     tz_instant = (\<lambda>w. if w < instant 2026 3 8 3 0 0 then w + 5 * hour_us else w + 4 * hour_us) \<rparr>"

definition spring_fields :: window_policy_fields where
  "spring_fields = \<lparr> wf_timezone = ''America/New_York'', wf_duration_minutes = PInt 60,
     wf_notice_hours = PInt 24, wf_allowed_weekdays = [PInt 5, PInt 6], wf_allowed_start_hours = [PInt 2],
     wf_candidate_count = PInt 3, wf_minimum_profile_samples = PInt 2,
     wf_fixed_start_delay_minutes = PNone \<rparr>"

definition spring_zones :: "string \<Rightarrow> time_zone option" where
  "spring_zones n = (if n = ''America/New_York'' then Some spring_zone else None)"

definition spring_policy :: window_policy where
  "spring_policy = projr (mk_window_policy spring_zones spring_fields)"

definition quiet_sample :: "string \<Rightarrow> usage_sample" where
  "quiet_sample t = \<lparr> us_timestamp = t, us_requests = PInt 1, us_errors = PInt 0, us_latency = PInt 5 \<rparr>"

definition spring_windows :: "window_candidate list res" where
  "spring_windows = candidate_windows spring_zones
     (map quiet_sample [''2026-02-22T07:30:00Z'', ''2026-03-01T07:30:00Z'']) spring_policy ''2026-03-06T12:00:00Z''"

lemma spring_policy_made: "is_ok (mk_window_policy spring_zones spring_fields)"
  by code_simp

lemma spring_windows_made: "is_ok spring_windows"
  by code_simp

theorem candidate_windows_safe_witness:
  "\<exists>cs. spring_windows = Inr cs \<and> cs \<noteq> [] \<and> distinct (map wc_candidate_id cs)"
proof -
  obtain cs where cs: "spring_windows = Inr cs" using spring_windows_made by (auto simp: is_ok_iff)
  have "mk_window_policy spring_zones spring_fields = Inr spring_policy"
    using spring_policy_made by (auto simp: spring_policy_def is_ok_iff)
  then have ok: "policy_ok spring_policy" by (rule mk_window_policy_ok)
  have "wp_fixed_start_delay_minutes spring_policy = None" by code_simp
  with candidate_windows_safe [OF cs [unfolded spring_windows_def] ok] cs show ?thesis by auto
qed







end
