(* ===== verification/Agent_Stage.thy ===== *)
theory Agent_Stage
  imports Agent_Contracts Json
begin

text \<open>
  What the pre-approval services share, of \<open>src/elcapitan/preapproval.py\<close>: the semantic checks on
  an agent's answer and \<open>_AgentStage._run\<close>, which runs the agent, has it correct an answer at most
  twice, and keeps the accepted answer as evidence.
\<close>

section \<open>Checks on an answer\<close>

text \<open>\<open>_strings\<close>.\<close>

definition blank_item :: "pyval \<Rightarrow> bool" where
  "blank_item v = (\<not> is_str v \<or> str_strip (as_str v) = [])"

definition strings_of :: "(string, pyval) dict \<Rightarrow> string \<Rightarrow> bool \<Rightarrow> string list res" where
  "strings_of document name required =
     (let v = pget document name
      in bindE (guardE (is_list v \<and> \<not> list_ex blank_item (list_items v)) PreApprovalError
                  (''agent output '' @ repr_str name @ '' must be a list of non-empty strings'')) (\<lambda>_.
         bindE (guardE (\<not> (required \<and> list_items v = [])) PreApprovalError
                  (''agent output '' @ repr_str name @ '' cannot be empty'')) (\<lambda>_.
         Inr (map as_str (list_items v)))))"

text \<open>\<open>" ".join(s.split())\<close>.\<close>

fun words_from :: "string \<Rightarrow> string \<Rightarrow> string list" where
  "words_from w [] = (if w = [] then [] else [w])"
| "words_from w (c # cs) =
     (if is_space c then (if w = [] then [] else [w]) @ words_from [] cs else words_from (w @ [c]) cs)"

definition claim_phrases :: "string list" where
  "claim_phrases =
     [''post-change health signals confirm'', ''post-implementation health signals confirm'',
      ''verification confirms success'', ''finding is no longer'', ''finding has been remediated'']"

definition prechange_claim_failures :: "string \<Rightarrow> string list" where
  "prechange_claim_failures smry =
     (let lowered = str_join '' '' (words_from [] (str_lower smry))
      in filter (\<lambda>p. sublist p lowered) claim_phrases)"

definition placeholders :: "string list" where
  "placeholders = [''placeholder'', ''tbd'', ''todo'', ''n/a'', ''none'', ''unknown'']"

definition array_failure :: "(string, pyval) dict \<Rightarrow> string \<Rightarrow> string list" where
  "array_failure output name =
     (let v = pget output name
      in if \<not> is_list v \<or> list_items v = [] then [name @ '' must be a non-empty array'']
         else if list_ex (\<lambda>x. \<not> is_str x \<or> str_lower (str_strip (as_str x)) \<in> set placeholders) (list_items v)
         then [name @ '' contains an empty or placeholder item'']
         else [])"

definition required_array_failures :: "(string, pyval) dict \<Rightarrow> string list \<Rightarrow> string list" where
  "required_array_failures output names = concat (map (array_failure output) names)"

definition sre_semantic_failures :: "(string, pyval) dict \<Rightarrow> string list" where
  "sre_semantic_failures output =
     (if pget output ''decision'' \<noteq> PStr ''approve'' then []
      else required_array_failures output
             [''failure_modes'', ''required_controls'', ''verification_requirements''])"

definition rollback_semantic_failures :: "(string, pyval) dict \<Rightarrow> string list" where
  "rollback_semantic_failures output =
     (if pget output ''decision'' = PStr ''approve'' then
        required_array_failures output [''verified_steps'', ''trigger_coverage'']
        @ (if truthy (pget output ''required_changes'')
           then [''approved rollback review must have no required_changes''] else [])
      else if pget output ''decision'' = PStr ''reject'' then
        required_array_failures output [''required_changes'']
      else [])"

section \<open>Running the agent\<close>

record 'x agent_stage =
  sg_env :: env
  sg_artifact_root :: string
  sg_runtime :: "'x agent_runtime"
  sg_schema :: schema_errors

text \<open>What one run of the agent gave: its result, the contract failures and the semantic ones.\<close>

record checked_answer =
  ca_result :: agent_result
  ca_failures :: "string list"
  ca_semantic :: "string list"

type_synonym semantic_check = "((string, pyval) dict \<Rightarrow> string list) option"

definition semantic_failures :: "semantic_check \<Rightarrow> agent_result \<Rightarrow> string list" where
  "semantic_failures check r = (case check of None \<Rightarrow> [] | Some f \<Rightarrow> f (ar_output r))"

definition ask_agent ::
  "'x agent_stage \<Rightarrow> semantic_check \<Rightarrow> agent_task \<Rightarrow> ('x world, checked_answer) prog" where
  "ask_agent sg check task =
     bindM (rt_run (sg_runtime sg) task) (\<lambda>r.
     bindM (liftE (validate_output (sg_schema sg) (at_output_contract task) (PDict (ar_output r)))) (\<lambda>errors.
     ret \<lparr> ca_result = r, ca_failures = validate_result task r @ errors,
           ca_semantic = semantic_failures check r \<rparr>))"

definition demanding :: "agent_task \<Rightarrow> string list \<Rightarrow> agent_task" where
  "demanding task cs = task\<lparr>at_constraints := at_constraints task @ cs\<rparr>"

definition corrections :: "string list \<Rightarrow> string list" where
  "corrections failures =
     [''Correct these decision-specific semantic failures from the previous response: ''
        @ str_join ''; '' failures,
      ''Preserve every already-valid required field. Every required string, especially ''
        @ ''output.summary, must remain concrete and non-empty. Replace each identified bad field ''
        @ ''with evidence-grounded content; never use placeholder, TBD, TODO, N/A, none, or unknown.'',
      ''Return a complete strict result without weakening the decision.'']"

text \<open>The loop of corrections, with the number of tries that are left.\<close>

fun correct_answer ::
  "'x agent_stage \<Rightarrow> semantic_check \<Rightarrow> nat \<Rightarrow> agent_task \<Rightarrow> checked_answer \<Rightarrow>
   ('x world, nat \<times> agent_task \<times> checked_answer) prog" where
  "correct_answer sg check 0 task a = ret (0, task, a)"
| "correct_answer sg check (Suc n) task a =
     (if ca_semantic a \<noteq> [] \<and> ca_failures a = [] then
        let task' = demanding task (corrections (ca_semantic a))
        in bindM (ask_agent sg check task') (\<lambda>a'. correct_answer sg check n task' a')
      else ret (Suc n, task, a))"

definition complete_citations ::
  "'x agent_stage \<Rightarrow> semantic_check \<Rightarrow> string list \<Rightarrow> nat \<Rightarrow> agent_task \<Rightarrow> checked_answer \<Rightarrow>
   ('x world, agent_result \<times> string list) prog" where
  "complete_citations sg check required left task a =
     (let failures = ca_failures a @ ca_semantic a;
          uncited = set_minus required (ar_evidence_cited (ca_result a))
      in if uncited \<noteq> [] \<and> failures = [] \<and> 0 < left then
           bindM (ask_agent sg check (demanding task
             [''The previous response omitted mandatory citations. Return a corrected response citing ''
              @ ''all of these evidence IDs: '' @ str_join '', '' uncited])) (\<lambda>b.
           ret (ca_result b, ca_failures b @ ca_semantic b
             @ (let missing = set_minus required (ar_evidence_cited (ca_result b))
                in if missing = [] then []
                   else [''agent did not cite required evidence: '' @ str_join '', '' missing])))
         else
           ret (ca_result a, failures @ (if uncited = [] then []
             else [''agent did not cite required evidence: '' @ str_join '', '' uncited])))"

definition stage_collector :: collector where
  "stage_collector = \<lparr> co_tool = ''elcapitan-operational-review'', co_version = ''0.1.0'',
     co_identity = ''preapproval-control-plane'' \<rparr>"

definition stage_evidence ::
  "'x agent_stage \<Rightarrow> string \<Rightarrow> string \<Rightarrow> pyval \<Rightarrow> string \<Rightarrow> ('x world, string) prog" where
  "stage_evidence sg run_dir kind document now =
     bindM (new_id (sg_env sg) ''EVD'') (\<lambda>i.
     bindM (write_evidence (sg_env sg) run_dir i kind (canonical_json document) stage_collector
              ''internal'' [] now) (\<lambda>ref.
     ret (ef_evidence_id ref)))"

definition answer_document :: "agent_result \<Rightarrow> pyval" where
  "answer_document r = PDict
     [(''runtime'', PStr (ar_runtime r)), (''model'', PStr (ar_model r)),
      (''output'', PDict (ar_output r)), (''evidence_cited'', str_list (ar_evidence_cited r)),
      (''usage'', ar_usage r)]"

text \<open>The answer that is accepted, or the reasons why it is not.\<close>

definition accepted_answer ::
  "'x agent_stage \<Rightarrow> semantic_check \<Rightarrow> string list \<Rightarrow> agent_task \<Rightarrow> ('x world, agent_result) prog" where
  "accepted_answer sg check required task =
     (let dispatched = (if required = [] then task
        else demanding task [''Cite every mandatory evidence ID exactly: '' @ str_join '', '' required])
      in bindM (ask_agent sg check dispatched) (\<lambda>a.
         bindM (correct_answer sg check 2 dispatched a) (\<lambda>(left, task', a').
         bindM (complete_citations sg check required left task' a') (\<lambda>(r, failures).
         bindM (guardM (failures = []) PreApprovalError (str_join ''; '' failures)) (\<lambda>_.
         bindM (guardM (ar_status r = SUCCEEDED) PreApprovalError
                  (agent_role_value (at_role task) @ '' did not succeed: ''
                   @ (if ar_missing_evidence r = [] \<or> str_join '', '' (ar_missing_evidence r) = []
                      then agent_status_value (ar_status r)
                      else str_join '', '' (ar_missing_evidence r)))) (\<lambda>_.
         ret r))))))"

definition run_agent ::
  "'x agent_stage \<Rightarrow> semantic_check \<Rightarrow> string list \<Rightarrow> string \<Rightarrow> agent_task \<Rightarrow>
   ('x world, agent_result \<times> string) prog" where
  "run_agent sg check required run_dir task =
     bindM (accepted_answer sg check required task) (\<lambda>r.
     bindM (new_id (sg_env sg) ''EVD'') (\<lambda>i.
     bindM (clock_now (sg_env sg)) (\<lambda>now.
     bindM (write_evidence (sg_env sg) run_dir i (agent_role_value (at_role task) @ ''_agent_result'')
              (canonical_json (answer_document r)) stage_collector ''internal'' [] now) (\<lambda>ref.
     ret (r, ef_evidence_id ref)))))"

section \<open>What is accepted\<close>

text \<open>A result that answers its task by the contract, says what is required and cites what it must.\<close>

definition acceptable ::
  "'x agent_stage \<Rightarrow> semantic_check \<Rightarrow> string list \<Rightarrow> agent_task \<Rightarrow> agent_result \<Rightarrow> bool" where
  "acceptable sg check required task r =
     (validate_result task r = [] \<and>
      validate_output (sg_schema sg) (at_output_contract task) (PDict (ar_output r)) = Inr [] \<and>
      semantic_failures check r = [] \<and> set required \<subseteq> set (ar_evidence_cited r) \<and>
      ar_status r = SUCCEEDED)"

text \<open>Further demands change nothing of what an answer is checked against.\<close>

lemma demanding_same [simp]:
  "validate_result (demanding task cs) r = validate_result task r"
  "at_output_contract (demanding task cs) = at_output_contract task"
  by (simp_all add: demanding_def validate_result_def)

definition answers :: "'x agent_stage \<Rightarrow> semantic_check \<Rightarrow> agent_task \<Rightarrow> checked_answer \<Rightarrow> bool" where
  "answers sg check task a =
     (\<exists>errors. validate_output (sg_schema sg) (at_output_contract task) (PDict (ar_output (ca_result a))) = Inr errors \<and>
        ca_failures a = validate_result task (ca_result a) @ errors \<and>
        ca_semantic a = semantic_failures check (ca_result a))"

lemma answers_demanding [simp]: "answers sg check (demanding task cs) a = answers sg check task a"
  by (simp add: answers_def)

lemma ask_agent_answers: "ask_agent sg check task w = (Inr a, w') \<Longrightarrow> answers sg check task a"
  by (auto simp: ask_agent_def run_simps answers_def)

lemma correct_answer_answers:
  assumes "correct_answer sg check n task a w = (Inr (m, task', a'), w')"
    and "answers sg check t0 a" "\<And>b. answers sg check task b = answers sg check t0 b"
  shows "answers sg check t0 a' \<and> (\<forall>b. answers sg check task' b = answers sg check t0 b)"
  using assms
proof (induction sg check n task a arbitrary: w rule: correct_answer.induct)
  case (2 sg check n task a)
  show ?case
  proof (cases "ca_semantic a \<noteq> [] \<and> ca_failures a = []")
    case True
    let ?t = "demanding task (corrections (ca_semantic a))"
    from True 2(2) obtain b w1 where b: "ask_agent sg check ?t w = (Inr b, w1)"
      and rest: "correct_answer sg check n ?t b w1 = (Inr (m, task', a'), w')"
      by (auto simp: Let_def run_simps)
    have "answers sg check t0 b" using ask_agent_answers [OF b] 2(4) by simp
    with 2(1) [OF True HOL.refl rest] 2(4) show ?thesis by simp
  qed (use 2 in \<open>auto simp: run_simps\<close>)
qed (auto simp: run_simps)

lemma accepted_answer_acceptable:
  assumes "accepted_answer sg check required task w = (Inr r, w')"
  shows "acceptable sg check required task r"
proof -
  define t where "t = (if required = [] then task
    else demanding task [''Cite every mandatory evidence ID exactly: '' @ str_join '', '' required])"
  have t: "answers sg check t b = answers sg check task b" for b by (simp add: t_def)
  from assms obtain a w1 left task' a' w2 failures w3 where
    a: "ask_agent sg check t w = (Inr a, w1)"
    and c: "correct_answer sg check 2 t a w1 = (Inr (left, task', a'), w2)"
    and d: "complete_citations sg check required left task' a' w2 = (Inr (r, failures), w3)"
    and ok: "failures = []" "ar_status r = SUCCEEDED"
    by (auto simp: accepted_answer_def Let_def run_simps t_def split: if_splits)
  have A: "answers sg check task a'" "\<And>b. answers sg check task' b = answers sg check task b"
    using correct_answer_answers [OF c, of task] ask_agent_answers [OF a] t by auto
  from d obtain b where b: "answers sg check task b" "ca_result b = r"
    "ca_failures b = []" "ca_semantic b = []" "set_minus required (ar_evidence_cited r) = []"
    using ok(1) A ask_agent_answers
    by (fastforce simp: complete_citations_def Let_def run_simps split: if_splits)
  then show ?thesis using ok(2) by (auto simp: answers_def acceptable_def)
qed

end
