(* ===== verification/Reviews.thy ===== *)
theory Reviews
  imports Agent_Stage Observability Case_Documents
begin

text \<open>
  \<open>SREReviewService\<close>, \<open>ChangeWindowService\<close> and \<open>RollbackReviewService\<close> of
  \<open>src/elcapitan/preapproval.py\<close>: each has an agent judge one aspect of a prepared change, keeps
  what it said as a record, and moves the case accordingly.
\<close>

section \<open>Shared steps\<close>

record review_outcome =
  ro_case :: remediation_case
  ro_record :: product_record
  ro_result :: agent_result

text \<open>\<open>record_store.get(case.record_ids.get(name) or "")\<close>.\<close>

definition case_record_id :: "remediation_case \<Rightarrow> string \<Rightarrow> string" where
  "case_record_id c name = (case dict_get (rc_record_ids c) name of None \<Rightarrow> [] | Some v \<Rightarrow> v)"

definition named_record :: "remediation_case \<Rightarrow> string \<Rightarrow> ('x world, product_record) prog" where
  "named_record c name = get_record (case_record_id c name)"

definition body_of :: "product_record \<Rightarrow> (string, pyval) dict" where
  "body_of r = dict_items (pr_body r)"

text \<open>\<open>all(check.get("passed") is True for check in \<dots>)\<close>.\<close>

fun all_passed :: "pyval list \<Rightarrow> bool res" where
  "all_passed [] = Inr True"
| "all_passed (v # vs) =
     bindE (dict_get_attr v ''passed'' PNone) (\<lambda>p. if p = PBool True then all_passed vs else Inr False)"

definition first_id :: "string list \<Rightarrow> string res" where
  "first_id xs = (case xs of [] \<Rightarrow> Inl (Raise IndexError ''tuple index out of range'') | x # _ \<Rightarrow> Inr x)"

definition last_id :: "string list \<Rightarrow> string res" where
  "last_id xs = first_id (rev xs)"

definition plan_verified :: "product_record \<Rightarrow> bool res" where
  "plan_verified plan =
     (if pget (body_of plan) ''status'' \<noteq> PStr ''verified'' then Inr False
      else bindE (iterate_value (get_or (body_of plan) ''checks'' (PList []))) all_passed)"

definition task_dict :: "string \<Rightarrow> agent_result \<Rightarrow> pyval" where
  "task_dict task_id r = PDict
     [(''task_id'', PStr task_id), (''runtime'', PStr (ar_runtime r)), (''model'', PStr (ar_model r)),
      (''evidence_cited'', str_list (ar_evidence_cited r))]"

section \<open>Reliability review\<close>

definition sre_context_fields :: "string list" where
  "sre_context_fields = [''service'', ''environment'', ''health_signals'', ''dependencies'', ''owner'']"

definition check_service_context :: "(string, pyval) dict \<Rightarrow> unit res" where
  "check_service_context sc =
     (let missing = filter (\<lambda>k. \<not> dict_has sc k) sre_context_fields
      in bindE (guardE (missing = []) PreApprovalError
                  (''service context is missing: '' @ str_join '', '' missing)) (\<lambda>_.
         bindE (guardE (is_list (pget sc ''health_signals'') \<and> truthy (pget sc ''health_signals'')) PreApprovalError
                  ''service context requires at least one health signal'') (\<lambda>_.
         guardE (is_list (pget sc ''dependencies'')) PreApprovalError
           ''service context dependencies must be a list'')))"

definition sre_task ::
  "string \<Rightarrow> string \<Rightarrow> remediation_case \<Rightarrow> product_record \<Rightarrow> (string, pyval) dict \<Rightarrow> string list \<Rightarrow>
   agent_task res" where
  "sre_task task_id case_id c plan sc evidence =
     mk_agent_task
       \<lparr> at_task_id = task_id, at_case_id = case_id, at_role = SRE_REVIEWER,
         at_objective = ''Independently review the verified remediation for operational safety'',
         at_output_contract = ''SREReview.v1'', at_input_record_ids = [pr_record_id plan],
         at_evidence_ids = evidence,
         at_constraints =
           [''do not change the remediation'', ''do not approve missing health signals'',
            ''evaluate availability, dependencies, rollout, and verification'',
            ''this is pre-change: observed_topology contains current facts; health_signals are ''
              @ ''post-change success criteria unless explicitly labelled as observed'',
            ''do not state or imply that the change, rollback, or post-change verification has ''
              @ ''already run''],
         at_metadata = [(''plan'', pr_body plan), (''service_context'', PDict sc),
                        (''case'', case_to_dict c)] \<rparr>"

definition check_claims :: "(string, pyval) dict \<Rightarrow> (string, pyval) dict \<Rightarrow> unit res" where
  "check_claims sc output =
     (if pget sc ''evidence_phase'' = PStr ''pre_change'' then
        bindE (item_text (PDict output) ''summary'') (\<lambda>smry.
        let claims = prechange_claim_failures smry
        in guardE (claims = []) PreApprovalError
             (''SRE review claimed future-state evidence during pre-change: '' @ str_join '', '' claims))
      else Inr ())"

definition sre_body ::
  "string \<Rightarrow> string \<Rightarrow> string \<Rightarrow> product_record \<Rightarrow> agent_result \<Rightarrow> pyval \<Rightarrow> pyval res" where
  "sre_body review_id task_id case_id plan r decision =
     (let out = ar_output r in
      bindE (item (PDict out) ''risk_level'') (\<lambda>risk.
      bindE (item (PDict out) ''summary'') (\<lambda>smry.
      bindE (strings_of out ''dependencies'' False) (\<lambda>dependencies.
      bindE (strings_of out ''failure_modes'' False) (\<lambda>modes.
      bindE (strings_of out ''required_controls'' False) (\<lambda>controls.
      bindE (strings_of out ''verification_requirements'' False) (\<lambda>requirements.
      Inr (PDict
        [(''review_id'', PStr review_id), (''decision'', decision), (''risk_level'', risk),
         (''summary'', smry), (''dependencies'', str_list dependencies),
         (''failure_modes'', str_list modes), (''required_controls'', str_list controls),
         (''verification_requirements'', str_list requirements), (''plan_id'', PStr (pr_record_id plan)),
         (''task'', task_dict task_id r),
         (''artifact_namespace'', PStr (''cases/'' @ case_id @ ''/sre/'' @ review_id))]))))))))"

definition review_record ::
  "string \<Rightarrow> string \<Rightarrow> string \<Rightarrow> string \<Rightarrow> pyval \<Rightarrow> string list \<Rightarrow> product_record" where
  "review_record record_id case_id kind now body evidence =
     \<lparr> pr_record_id = record_id, pr_case_id = case_id, pr_record_type = kind,
       pr_schema_version = 1, pr_created_at = now, pr_body = body, pr_evidence_ids = evidence \<rparr>"

text \<open>How a decision moves the case. The summary of an accepted answer is a text.\<close>

definition sre_decide ::
  "string \<Rightarrow> pyval \<Rightarrow> agent_result \<Rightarrow> transition_args \<Rightarrow> ('x world, remediation_case) prog" where
  "sre_decide case_id decision r common =
     (if decision = PStr ''approve'' then advance case_id APPROVE_SRE common
      else bindM (liftE (item_text (PDict (ar_output r)) ''summary'')) (\<lambda>smry.
           advance case_id (if decision = PStr ''reject'' then REJECT else BLOCK)
             (common\<lparr>ta_detail := smry\<rparr>)))"

definition required_strings :: "(string, pyval) dict \<Rightarrow> string list \<Rightarrow> unit res" where
  "required_strings out names =
     bindE (mapE (\<lambda>n. strings_of out n True) names) (\<lambda>_. Inr ())"

definition sre_plan :: "string \<Rightarrow> (string, pyval) dict \<Rightarrow>
    ('x world, remediation_case \<times> product_record) prog" where
  "sre_plan case_id sc =
     bindM (get_case case_id) (\<lambda>c.
     bindM (guardM (rc_state c = PLAN_READY) PreApprovalError
              (''case '' @ case_id @ '' must be plan_ready for SRE review'')) (\<lambda>_.
     bindM (named_record c ''change_plan_id'') (\<lambda>plan.
     bindM (guardM (pr_case_id plan = case_id \<and> pr_record_type plan = ''RemediationPlan.v1'')
              PreApprovalError ''case remediation plan has the wrong owner or type'') (\<lambda>_.
     bindM (liftE (plan_verified plan)) (\<lambda>ok.
     bindM (guardM ok PreApprovalError ''SRE review requires a verified infrastructure plan'') (\<lambda>_.
     bindM (liftE (check_service_context sc)) (\<lambda>_.
     ret (c, plan))))))))"

definition sre_review_case ::
  "'x agent_stage \<Rightarrow> string \<Rightarrow> (string, pyval) dict \<Rightarrow> ('x world, review_outcome) prog" where
  "sre_review_case sg case_id sc =
     bindM (sre_plan case_id sc) (\<lambda>(c, plan).
     bindM (new_id (sg_env sg) ''SRE'') (\<lambda>review_id.
     bindM (new_id (sg_env sg) ''TASK'') (\<lambda>task_id.
     bindM (clock_now (sg_env sg)) (\<lambda>now.
     let run_dir = sg_artifact_root sg @ ''/cases/'' @ case_id @ ''/sre/'' @ review_id
     in bindM (stage_evidence sg run_dir ''service_operating_context'' (PDict sc) now) (\<lambda>context_id.
        let evidence = dedup (pr_evidence_ids plan @ [context_id])
        in bindM (liftE (sre_task task_id case_id c plan sc evidence)) (\<lambda>task.
           bindM (liftE (first_id (pr_evidence_ids plan))) (\<lambda>plan_evidence.
           bindM (run_agent sg (Some sre_semantic_failures) [plan_evidence, context_id] run_dir task)
             (\<lambda>(r, result_evidence).
           bindM (liftE (check_claims sc (ar_output r))) (\<lambda>_.
           bindM (liftE (item (PDict (ar_output r)) ''decision'')) (\<lambda>decision.
           bindM (liftE (if decision = PStr ''approve'' then required_strings (ar_output r)
                    [''failure_modes'', ''required_controls'', ''verification_requirements''] else Inr ())) (\<lambda>_.
           bindM (liftE (sre_body review_id task_id case_id plan r decision)) (\<lambda>body.
           let record_evidence = dedup (evidence @ [result_evidence])
           in bindM (store_record (review_record review_id case_id ''SREReview.v1'' now body record_evidence)) (\<lambda>rec.
              bindM (new_id (sg_env sg) ''EVT'') (\<lambda>event_id.
              bindM (sre_decide case_id decision r
                       (basic_args event_id now ''sre-reviewer'' [(''sre_review_id'', review_id)] record_evidence))
                (\<lambda>c'.
              ret \<lparr> ro_case = c', ro_record = rec, ro_result = r \<rparr>)))))))))))))))"

definition retry_invalid_approval :: "'x agent_stage \<Rightarrow> string \<Rightarrow> ('x world, bool) prog" where
  "retry_invalid_approval sg case_id =
     bindM (get_case case_id) (\<lambda>c.
     if rc_state c \<noteq> SRE_APPROVED \<and> rc_state c \<noteq> WINDOW_SELECTED then ret False
     else bindM (named_record c ''sre_review_id'') (\<lambda>review.
       bindM (guardM (pr_case_id review = case_id \<and> pr_record_type review = ''SREReview.v1'')
                PreApprovalError ''case SRE review has the wrong owner or record type'') (\<lambda>_.
       let failures = sre_semantic_failures (body_of review)
       in if failures = [] then ret False
          else bindM (new_id (sg_env sg) ''EVT'') (\<lambda>event_id.
            bindM (clock_now (sg_env sg)) (\<lambda>now.
            bindM (advance case_id RETRY_SRE
                     ((basic_args event_id now ''operational-review-policy''
                         [(''review_feedback_id'', pr_record_id review)] (pr_evidence_ids review))
                      \<lparr>ta_detail := str_join ''; '' failures\<rparr>)) (\<lambda>_.
            ret True))))))"

end
