(* ===== verification/Window_Selection.thy ===== *)
theory Window_Selection
  imports Reviews
begin

text \<open>
  \<open>ChangeWindowService\<close> of \<open>src/elcapitan/preapproval.py\<close>: it computes the candidate windows, has an
  agent choose one of them, and gives up a window that has already started. The time zone database is
  a parameter.
\<close>

section \<open>A window that has started\<close>

definition dependent_record ::
  "string \<Rightarrow> string \<Rightarrow> string \<Rightarrow> product_record \<Rightarrow> ('x world, unit) prog" where
  "dependent_record case_id what kind r =
     guardM (pr_case_id r = case_id \<and> pr_record_type r = kind) PreApprovalError
       (''case '' @ what @ '' has the wrong owner or record type'')"

definition window_passed :: "change_window \<Rightarrow> string \<Rightarrow> bool res" where
  "window_passed window now =
     bindE (parse_timestamp (cw_starts_at window)) (\<lambda>starts.
     bindE (parse_timestamp now) (\<lambda>current. Inr (starts \<le> current)))"

definition reselect_started :: "'x agent_stage \<Rightarrow> string \<Rightarrow> ('x world, bool) prog" where
  "reselect_started sg case_id =
     bindM (get_case case_id) (\<lambda>c.
     if rc_state c \<noteq> ROLLBACK_READY then ret False
     else case rc_change_window c of
       None \<Rightarrow> raise PreApprovalError (''case '' @ case_id @ '' has no change window to evaluate'')
     | Some w \<Rightarrow>
         bindM (clock_now (sg_env sg)) (\<lambda>now.
         bindM (liftE (window_passed w now)) (\<lambda>started.
         if \<not> started then ret False
         else bindM (named_record c ''change_window_id'') (\<lambda>window.
           bindM (named_record c ''rollback_review_id'') (\<lambda>rollback.
           bindM (dependent_record case_id ''change window'' ''ChangeWindowRecommendation.v1'' window) (\<lambda>_.
           bindM (dependent_record case_id ''rollback review'' ''RollbackReview.v1'' rollback) (\<lambda>_.
           bindM (new_id (sg_env sg) ''EVT'') (\<lambda>event_id.
           bindM (advance case_id RESELECT_WINDOW
             ((basic_args event_id now ''change-window-policy'' []
                 (dedup (pr_evidence_ids window @ pr_evidence_ids rollback)))
              \<lparr>ta_detail := ''window '' @ case_record_id c ''change_window_id'' @ '' started at ''
                 @ cw_starts_at w @ '' before the human gate; rollback review ''
                 @ case_record_id c ''rollback_review_id''
                 @ '' must be repeated for a newly selected window''\<rparr>)) (\<lambda>_.
           ret True)))))))))"

section \<open>Choosing a window\<close>

record window_outcome = review_outcome +
  wo_candidates :: "window_candidate list"

definition candidates_value :: "window_candidate list \<Rightarrow> pyval" where
  "candidates_value cs = PList (map window_candidate_to_dict cs)"

definition window_task ::
  "string \<Rightarrow> string \<Rightarrow> product_record \<Rightarrow> product_record \<Rightarrow> window_policy \<Rightarrow> window_candidate list \<Rightarrow>
   string list \<Rightarrow> agent_task res" where
  "window_task task_id case_id plan sre policy candidates evidence =
     mk_agent_task
       \<lparr> at_task_id = task_id, at_case_id = case_id, at_role = WINDOW_PLANNER,
         at_objective = ''Select the safest supplied change-window candidate'',
         at_output_contract = ''ChangeWindowSelection.v1'',
         at_input_record_ids = [pr_record_id plan, pr_record_id sre], at_evidence_ids = evidence,
         at_constraints =
           [''select exactly one supplied candidate'', ''do not invent telemetry'',
            ''respect the deterministic window policy''],
         at_metadata = [(''policy'', window_policy_to_dict policy),
                        (''candidates'', candidates_value candidates), (''sre_review'', pr_body sre)] \<rparr>"

text \<open>\<open>by_id[selected_id]\<close>, of a document whose keys are the candidates' identifiers.\<close>

definition supplied_candidate :: "window_candidate list \<Rightarrow> pyval \<Rightarrow> window_candidate res" where
  "supplied_candidate candidates v =
     bindE (guardE (hashable v) TypeError ''unhashable type'') (\<lambda>_.
     case (if is_str v then dict_get (rev (map (\<lambda>c. (wc_candidate_id c, c)) candidates)) (as_str v)
           else None) of
       None \<Rightarrow> Inl (Raise PreApprovalError ''window agent selected a candidate it was not supplied'')
     | Some c \<Rightarrow> Inr c)"

definition starts_later :: "string \<Rightarrow> window_candidate \<Rightarrow> unit res" where
  "starts_later now selected =
     bindE (parse_timestamp (wc_starts_at selected)) (\<lambda>starts.
     bindE (parse_timestamp now) (\<lambda>current.
     guardE (\<not> starts \<le> current) PreApprovalError ''selected change window is not in the future''))"

text \<open>Numbers are finite here, so that \<open>math.isfinite\<close> holds of every one.\<close>

definition window_confidence :: "pyval \<Rightarrow> rat res" where
  "window_confidence v =
     bindE (guardE (is_number v \<and> 0 \<le> num_of v \<and> num_of v \<le> 1) PreApprovalError
              ''window confidence must be a finite number from 0 to 1'') (\<lambda>_.
     Inr (num_of v))"

record window_choice =
  ch_selected :: window_candidate
  ch_rationale :: "string list"
  ch_confidence :: pyval
  ch_risks :: "string list"

definition choose_window ::
  "window_candidate list \<Rightarrow> string \<Rightarrow> (string, pyval) dict \<Rightarrow> window_choice res" where
  "choose_window candidates now out =
     bindE (item (PDict out) ''selected_candidate_id'') (\<lambda>selected_id.
     bindE (supplied_candidate candidates selected_id) (\<lambda>selected.
     bindE (starts_later now selected) (\<lambda>_.
     bindE (strings_of out ''rationale'' True) (\<lambda>rationale.
     bindE (item (PDict out) ''confidence'') (\<lambda>confidence.
     bindE (window_confidence confidence) (\<lambda>_.
     bindE (strings_of out ''risks'' False) (\<lambda>risks.
     Inr \<lparr> ch_selected = selected, ch_rationale = rationale, ch_confidence = confidence,
           ch_risks = risks \<rparr>)))))))"

definition window_body ::
  "string \<Rightarrow> string \<Rightarrow> string \<Rightarrow> window_policy \<Rightarrow> window_candidate list \<Rightarrow> agent_result \<Rightarrow> window_choice \<Rightarrow>
   pyval" where
  "window_body window_id task_id case_id policy candidates r ch = PDict
     [(''window_id'', PStr window_id),
      (''selected_candidate_id'', PStr (wc_candidate_id (ch_selected ch))),
      (''selected'', window_candidate_to_dict (ch_selected ch)),
      (''rationale'', str_list (ch_rationale ch)), (''confidence'', ch_confidence ch),
      (''risks'', str_list (ch_risks ch)), (''policy'', window_policy_to_dict policy),
      (''candidates'', candidates_value candidates), (''task'', task_dict task_id r),
      (''artifact_namespace'', PStr (''cases/'' @ case_id @ ''/window/'' @ window_id))]"

definition chosen_window :: "string \<Rightarrow> string list \<Rightarrow> window_choice \<Rightarrow> change_window res" where
  "chosen_window window_id evidence ch = mk_change_window
     \<lparr> cw_window_id = window_id, cw_starts_at = wc_starts_at (ch_selected ch),
       cw_ends_at = wc_ends_at (ch_selected ch), cw_timezone = wc_timezone (ch_selected ch),
       cw_rationale = ch_rationale ch, cw_evidence_ids = evidence,
       cw_confidence = num_of (ch_confidence ch) \<rparr>"

definition window_inputs :: "string \<Rightarrow> ('x world, product_record \<times> product_record) prog" where
  "window_inputs case_id =
     bindM (get_case case_id) (\<lambda>c.
     bindM (guardM (rc_state c = SRE_APPROVED) PreApprovalError
              (''case '' @ case_id @ '' must be sre_approved for window selection'')) (\<lambda>_.
     bindM (named_record c ''sre_review_id'') (\<lambda>sre.
     bindM (named_record c ''change_plan_id'') (\<lambda>plan.
     bindM (guardM (pr_case_id sre = case_id \<and> pr_record_type sre = ''SREReview.v1'' \<and>
                    pget (body_of sre) ''decision'' = PStr ''approve'') PreApprovalError
              ''window selection requires an approved SRE review'') (\<lambda>_.
     ret (sre, plan))))))"

definition select_window ::
  "'x agent_stage \<Rightarrow> (string \<Rightarrow> time_zone option) \<Rightarrow> string \<Rightarrow> usage_sample list \<Rightarrow> window_policy \<Rightarrow>
   ('x world, window_outcome) prog" where
  "select_window sg zones case_id samples policy =
     bindM (window_inputs case_id) (\<lambda>(sre, plan).
     bindM (clock_now (sg_env sg)) (\<lambda>now.
     bindM (liftE (candidate_windows zones samples policy now)) (\<lambda>candidates.
     bindM (new_id (sg_env sg) ''WIN'') (\<lambda>window_id.
     bindM (new_id (sg_env sg) ''TASK'') (\<lambda>task_id.
     let run_dir = sg_artifact_root sg @ ''/cases/'' @ case_id @ ''/window/'' @ window_id
     in bindM (stage_evidence sg run_dir ''service_usage_samples''
                 (PDict [(''samples'', PList (map usage_sample_to_dict samples))]) now) (\<lambda>telemetry_id.
        bindM (stage_evidence sg run_dir ''deterministic_window_candidates''
                 (PDict [(''policy'', window_policy_to_dict policy),
                         (''candidates'', candidates_value candidates)]) now) (\<lambda>candidates_id.
        let evidence = dedup (pr_evidence_ids plan @ pr_evidence_ids sre @ [telemetry_id, candidates_id])
        in bindM (liftE (window_task task_id case_id plan sre policy candidates evidence)) (\<lambda>task.
           bindM (liftE (last_id (pr_evidence_ids sre))) (\<lambda>sre_evidence.
           bindM (run_agent sg None [sre_evidence, telemetry_id, candidates_id] run_dir task)
             (\<lambda>(r, result_evidence).
           bindM (liftE (choose_window candidates now (ar_output r))) (\<lambda>ch.
           let record_evidence = dedup (evidence @ [result_evidence])
           in bindM (store_record (review_record window_id case_id ''ChangeWindowRecommendation.v1'' now
                       (window_body window_id task_id case_id policy candidates r ch) record_evidence)) (\<lambda>rec.
              bindM (liftE (chosen_window window_id record_evidence ch)) (\<lambda>window.
              bindM (new_id (sg_env sg) ''EVT'') (\<lambda>event_id.
              bindM (advance case_id SELECT_WINDOW
                       ((basic_args event_id now ''window-planner'' [(''change_window_id'', window_id)]
                           record_evidence)\<lparr>ta_change_window := Some window\<rparr>)) (\<lambda>c'.
              ret \<lparr> ro_case = c', ro_record = rec, ro_result = r,
                    wo_candidates = candidates \<rparr>)))))))))))))))"

end
