(* ===== verification/Rollback_Review.thy ===== *)
theory Rollback_Review
  imports Reviews
begin

text \<open>
  \<open>RollbackReviewService\<close> of \<open>src/elcapitan/preapproval.py\<close>: an agent judges whether the change can
  be undone; a rejection that says what to change sends the plan back once per cycle of the case.
\<close>

definition rollback_task ::
  "string \<Rightarrow> string \<Rightarrow> product_record \<Rightarrow> product_record \<Rightarrow> product_record \<Rightarrow> string list \<Rightarrow>
   agent_task res" where
  "rollback_task task_id case_id plan sre window evidence =
     mk_agent_task
       \<lparr> at_task_id = task_id, at_case_id = case_id, at_role = ROLLBACK_VERIFIER,
         at_objective = ''Independently verify rollback completeness before human review'',
         at_output_contract = ''RollbackReview.v1'',
         at_input_record_ids = [pr_record_id plan, pr_record_id sre, pr_record_id window],
         at_evidence_ids = evidence,
         at_constraints =
           [''do not approve vague rollback steps'',
            ''map material failure modes to observable triggers'', ''require a reversible path'',
            ''treat failed pre-mutation scope, tag, state, or permission guards as ''
              @ ''abort-without-change controls'',
            ''require rollback triggers only for failure modes possible after mutation; if rejecting, ''
              @ ''list concrete required_changes''],
         at_metadata = [(''plan'', pr_body plan), (''sre_review'', pr_body sre),
                        (''change_window'', pr_body window)] \<rparr>"

definition check_rollback_approval :: "(string, pyval) dict \<Rightarrow> unit res" where
  "check_rollback_approval out =
     bindE (required_strings out [''verified_steps'', ''trigger_coverage'']) (\<lambda>_.
     bindE (strings_of out ''required_changes'' False) (\<lambda>changes.
     guardE (changes = []) PreApprovalError
       ''rollback reviewer cannot approve while required changes remain''))"

definition rollback_body ::
  "string \<Rightarrow> string \<Rightarrow> string \<Rightarrow> product_record \<Rightarrow> product_record \<Rightarrow> agent_result \<Rightarrow> pyval \<Rightarrow>
   pyval res" where
  "rollback_body review_id task_id case_id plan window r decision =
     (let out = ar_output r in
      bindE (item (PDict out) ''summary'') (\<lambda>smry.
      bindE (strings_of out ''verified_steps'' False) (\<lambda>steps.
      bindE (strings_of out ''trigger_coverage'' False) (\<lambda>coverage.
      bindE (strings_of out ''failure_modes'' False) (\<lambda>modes.
      bindE (strings_of out ''required_changes'' False) (\<lambda>changes.
      Inr (PDict
        [(''review_id'', PStr review_id), (''decision'', decision), (''summary'', smry),
         (''verified_steps'', str_list steps), (''trigger_coverage'', str_list coverage),
         (''failure_modes'', str_list modes), (''required_changes'', str_list changes),
         (''plan_id'', PStr (pr_record_id plan)), (''window_id'', PStr (pr_record_id window)),
         (''task'', task_dict task_id r),
         (''artifact_namespace'', PStr (''cases/'' @ case_id @ ''/rollback/'' @ review_id))])))))))"

text \<open>A cycle of the case starts where a finding reopens its assessment; rework is asked for at most
  once in it.\<close>

definition cycle_start :: "case_event list \<Rightarrow> int" where
  "cycle_start evs =
     (let starts = map ev_sequence
            (filter (\<lambda>e. ev_transition e = ADD_FINDING \<and> ev_to_state e = PRIORITIZED) evs)
      in if starts = [] then 0 else Max (set starts))"

definition already_reworked :: "case_event list \<Rightarrow> bool" where
  "already_reworked evs =
     list_ex (\<lambda>e. ev_transition e = REQUEST_REWORK \<and> cycle_start evs < ev_sequence e) evs"

definition case_log :: "string \<Rightarrow> ('x world, case_event list) prog" where
  "case_log case_id = on_cases (cs_events sql_ops case_id)"

definition rollback_decide ::
  "string \<Rightarrow> string \<Rightarrow> pyval \<Rightarrow> agent_result \<Rightarrow> transition_args \<Rightarrow>
   ('x world, remediation_case) prog" where
  "rollback_decide case_id review_id decision r common =
     (if decision = PStr ''approve'' then advance case_id REVIEW_ROLLBACK common
      else if decision = PStr ''reject'' then
        bindM (liftE (strings_of (ar_output r) ''required_changes'' False)) (\<lambda>changes.
        bindM (case_log case_id) (\<lambda>evs.
        bindM (liftE (item_text (PDict (ar_output r)) ''summary'')) (\<lambda>smry.
        if changes \<noteq> [] \<and> \<not> already_reworked evs then
          advance case_id REQUEST_REWORK
            (common\<lparr>ta_record_ids := [(''review_feedback_id'', review_id)], ta_detail := smry\<rparr>)
        else advance case_id REJECT (common\<lparr>ta_detail := smry\<rparr>))))
      else bindM (liftE (item_text (PDict (ar_output r)) ''summary'')) (\<lambda>smry.
        advance case_id BLOCK (common\<lparr>ta_detail := smry\<rparr>)))"

definition rollback_inputs ::
  "string \<Rightarrow> ('x world, product_record \<times> product_record \<times> product_record) prog" where
  "rollback_inputs case_id =
     bindM (get_case case_id) (\<lambda>c.
     bindM (guardM (rc_state c = WINDOW_SELECTED) PreApprovalError
              (''case '' @ case_id @ '' must be window_selected for rollback review'')) (\<lambda>_.
     bindM (named_record c ''change_plan_id'') (\<lambda>plan.
     bindM (named_record c ''sre_review_id'') (\<lambda>sre.
     bindM (named_record c ''change_window_id'') (\<lambda>window.
     bindM (guardM (case rc_change_plan c of None \<Rightarrow> False
                    | Some p \<Rightarrow> cp_rollback_steps p \<noteq> [] \<and> cp_rollback_triggers p \<noteq> [])
              PreApprovalError ''change plan has no executable rollback contract'') (\<lambda>_.
     ret (plan, sre, window)))))))"

definition rollback_review_case ::
  "'x agent_stage \<Rightarrow> string \<Rightarrow> ('x world, review_outcome) prog" where
  "rollback_review_case sg case_id =
     bindM (rollback_inputs case_id) (\<lambda>(plan, sre, window).
     bindM (new_id (sg_env sg) ''RBK'') (\<lambda>review_id.
     bindM (new_id (sg_env sg) ''TASK'') (\<lambda>task_id.
     bindM (clock_now (sg_env sg)) (\<lambda>now.
     let run_dir = sg_artifact_root sg @ ''/cases/'' @ case_id @ ''/rollback/'' @ review_id;
         evidence = dedup (pr_evidence_ids plan @ pr_evidence_ids sre @ pr_evidence_ids window)
     in bindM (liftE (rollback_task task_id case_id plan sre window evidence)) (\<lambda>task.
        bindM (liftE (first_id (pr_evidence_ids plan))) (\<lambda>plan_evidence.
        bindM (liftE (last_id (pr_evidence_ids sre))) (\<lambda>sre_evidence.
        bindM (liftE (last_id (pr_evidence_ids window))) (\<lambda>window_evidence.
        bindM (run_agent sg (Some rollback_semantic_failures)
                 [plan_evidence, sre_evidence, window_evidence] run_dir task) (\<lambda>(r, result_evidence).
        bindM (liftE (item (PDict (ar_output r)) ''decision'')) (\<lambda>decision.
        bindM (liftE (if decision = PStr ''approve'' then check_rollback_approval (ar_output r)
                      else Inr ())) (\<lambda>_.
        bindM (liftE (rollback_body review_id task_id case_id plan window r decision)) (\<lambda>body.
        let record_evidence = dedup (evidence @ [result_evidence])
        in bindM (store_record (review_record review_id case_id ''RollbackReview.v1'' now body record_evidence)) (\<lambda>rec.
           bindM (new_id (sg_env sg) ''EVT'') (\<lambda>event_id.
           bindM (rollback_decide case_id review_id decision r
                    (basic_args event_id now ''rollback-reviewer''
                       [(''rollback_review_id'', review_id)] record_evidence)) (\<lambda>c'.
           ret \<lparr> ro_case = c', ro_record = rec, ro_result = r \<rparr>)))))))))))))))"

end
