(* ===== verification/Human_Gate.thy ===== *)
theory Human_Gate
  imports Rollback_Review
begin

text \<open>
  \<open>HumanReviewGate\<close> of \<open>src/elcapitan/preapproval.py\<close>: the mechanical checks a case passes before a
  person is asked, the record of them and the package that person decides on.
\<close>

section \<open>The gate and its checks\<close>

record review_gate =
  hg_env :: env
  hg_minimum_models :: int
  hg_state_grounded :: bool

definition mk_review_gate :: "review_gate \<Rightarrow> review_gate res" where
  "mk_review_gate g =
     bindE (guardE (1 \<le> hg_minimum_models g \<and> hg_minimum_models g \<le> 4) ValueError
              ''minimum distinct agent models must be between 1 and 4'') (\<lambda>_. Inr g)"

record gate_check =
  gk_name :: string
  gk_passed :: bool
  gk_detail :: string

definition gate_check_dict :: "gate_check \<Rightarrow> pyval" where
  "gate_check_dict k = PDict
     [(''check'', PStr (gk_name k)), (''passed'', PBool (gk_passed k)), (''detail'', PStr (gk_detail k))]"

definition mk_gate_check :: "string \<Rightarrow> bool \<Rightarrow> string \<Rightarrow> gate_check" where
  "mk_gate_check name passed detail = \<lparr> gk_name = name, gk_passed = passed, gk_detail = detail \<rparr>"

definition gate_records :: "(string \<times> string) list" where
  "gate_records =
     [(''validation_result_id'', ''ValidationResult.v1''), (''iac_link_id'', ''IaCLink.v1''),
      (''change_plan_id'', ''RemediationPlan.v1''), (''sre_review_id'', ''SREReview.v1''),
      (''change_window_id'', ''ChangeWindowRecommendation.v1''),
      (''rollback_review_id'', ''RollbackReview.v1'')]"

type_synonym gathered = "(string, product_record) dict"

text \<open>The records of the case, each with a check of its owner and type.\<close>

definition gather_one ::
  "string \<Rightarrow> remediation_case \<Rightarrow> string \<times> string \<Rightarrow>
   ('x world, gate_check \<times> (string \<times> product_record) option) prog" where
  "gather_one case_id c expected =
     (if case_record_id c (fst expected) = [] then
        ret (mk_gate_check (fst expected) False ''record missing'', None)
      else bindM (get_record (case_record_id c (fst expected))) (\<lambda>r.
        ret (mk_gate_check (fst expected) (pr_case_id r = case_id \<and> pr_record_type r = snd expected)
               (pr_record_id r @ '' ('' @ pr_record_type r @ '')''), Some (fst expected, r))))"

definition gather ::
  "string \<Rightarrow> remediation_case \<Rightarrow> ('x world, gate_check list \<times> gathered) prog" where
  "gather case_id c =
     bindM (mapM (gather_one case_id c) gate_records) (\<lambda>found.
     ret (map fst found, List.map_filter snd found))"

text \<open>Checks on the plan.\<close>

definition plan_gate :: "gathered \<Rightarrow> bool res" where
  "plan_gate recs =
     (case dict_get recs ''change_plan_id'' of
        None \<Rightarrow> Inr False
      | Some plan \<Rightarrow>
          if pget (body_of plan) ''status'' \<noteq> PStr ''verified'' \<or>
             \<not> truthy (pget (body_of plan) ''checks'') then Inr False
          else bindE (iterate_value (pget (body_of plan) ''checks'')) all_passed)"

fun any_named :: "string \<Rightarrow> pyval list \<Rightarrow> bool res" where
  "any_named name [] = Inr False"
| "any_named name (v # vs) =
     bindE (dict_get_attr v ''name'' PNone) (\<lambda>n.
     bindE (if n = PStr name then dict_get_attr v ''passed'' PNone else Inr PNone) (\<lambda>p.
     if n = PStr name \<and> p = PBool True then Inr True else any_named name vs))"

fun all_conditions :: "(unit \<Rightarrow> bool res) list \<Rightarrow> bool res" where
  "all_conditions [] = Inr True"
| "all_conditions (f # fs) = bindE (f ()) (\<lambda>b. if b then all_conditions fs else Inr False)"

definition attr_is :: "pyval \<Rightarrow> string \<Rightarrow> pyval \<Rightarrow> unit \<Rightarrow> bool res" where
  "attr_is v k expected = (\<lambda>_. bindE (dict_get_attr v k PNone) (\<lambda>x. Inr (x = expected)))"

definition attr_set :: "pyval \<Rightarrow> string \<Rightarrow> unit \<Rightarrow> bool res" where
  "attr_set v k = (\<lambda>_. bindE (dict_get_attr v k PNone) (\<lambda>x. Inr (truthy x)))"

definition plan_check_named :: "(string, pyval) dict \<Rightarrow> string \<Rightarrow> unit \<Rightarrow> bool res" where
  "plan_check_named body name = (\<lambda>_.
     bindE (iterate_value (get_or body ''checks'' (PList []))) (any_named name))"

definition state_grounded :: "gathered \<Rightarrow> bool res" where
  "state_grounded recs =
     (let body = (case dict_get recs ''change_plan_id'' of None \<Rightarrow> [] | Some plan \<Rightarrow> body_of plan);
          v = or_dict (pget body ''verification'')
      in bindE (all_conditions
           [attr_is v ''mode'' (PStr ''targeted_state_plan''),
            attr_is v ''plan_artifact_persisted'' (PBool False), attr_set v ''resource_address'',
            attr_set v ''state_sha256'', plan_check_named body ''plan_scope'']) (\<lambda>terraform.
         bindE (all_conditions
           [attr_is v ''mode'' (PStr ''cloudformation_template_scope''),
            attr_is v ''plan_artifact_persisted'' (PBool True),
            attr_is v ''iac_engine'' (PStr ''aws_cdk_cloudformation''), attr_set v ''resource_address'',
            attr_set v ''state_sha256'', plan_check_named body ''cloudformation_scope'']) (\<lambda>cloudformation.
         Inr (terraform \<or> cloudformation))))"

text \<open>Checks on the reviews.\<close>

definition approved_review ::
  "gathered \<Rightarrow> string \<Rightarrow> ((string, pyval) dict \<Rightarrow> string list) \<Rightarrow> bool" where
  "approved_review recs name semantic =
     (case dict_get recs name of
        None \<Rightarrow> False
      | Some r \<Rightarrow> pget (body_of r) ''decision'' = PStr ''approve'' \<and> semantic (body_of r) = [])"

text \<open>Who answered: the runtime and the model a record names.\<close>

definition text_attr :: "pyval \<Rightarrow> string \<Rightarrow> string res" where
  "text_attr v k =
     bindE (dict_get_attr v k (PStr [])) (\<lambda>x.
     bindE (guardE (is_str x) TypeError ''can only concatenate str to str'') (\<lambda>_. Inr (as_str x)))"

definition model_identity :: "product_record \<Rightarrow> string res" where
  "model_identity r =
     (let task = or_dict (pget (body_of r) ''task'')
      in bindE (text_attr task ''runtime'') (\<lambda>runtime.
         bindE (text_attr task ''model'') (\<lambda>model.
         Inr (runtime @ '':'' @ model))))"

definition model_identities :: "gathered \<Rightarrow> string list res" where
  "model_identities recs =
     bindE (mapE model_identity (List.map_filter (dict_get recs)
              [''change_plan_id'', ''sre_review_id'', ''change_window_id'', ''rollback_review_id'']))
       (\<lambda>ids. Inr (filter (\<lambda>i. i \<noteq> '':'') (dedup ids)))"

text \<open>The clock is read only where there is a window.\<close>

definition window_gate :: "env \<Rightarrow> remediation_case \<Rightarrow> ('x world, bool) prog" where
  "window_gate env c =
     (case rc_change_window c of
        None \<Rightarrow> ret False
      | Some w \<Rightarrow>
          bindM (liftE (parse_timestamp (cw_starts_at w))) (\<lambda>starts.
          bindM (clock_now env) (\<lambda>now.
          bindM (liftE (parse_timestamp now)) (\<lambda>current. ret (current < starts)))))"

definition gate_evidence :: "gathered \<Rightarrow> string list" where
  "gate_evidence recs = dedup (concat (map (\<lambda>p. pr_evidence_ids (snd p)) recs))"

definition evidence_gate :: "gathered \<Rightarrow> bool" where
  "evidence_gate recs = (gate_evidence recs \<noteq> [] \<and> list_all (\<lambda>p. pr_evidence_ids (snd p) \<noteq> []) recs)"

definition grounded_checks :: "review_gate \<Rightarrow> gathered \<Rightarrow> gate_check list res" where
  "grounded_checks g recs =
     (if hg_state_grounded g then
        bindE (state_grounded recs) (\<lambda>ok. Inr [mk_gate_check ''state_grounded_plan_scope'' ok
          (''the engine-specific plan must contain only the allowed update to the ''
           @ ''state-linked resource'')])
      else Inr [])"

definition record_checks :: "review_gate \<Rightarrow> gathered \<Rightarrow> gate_check list res" where
  "record_checks g recs =
     bindE (plan_gate recs) (\<lambda>plan_ok.
     bindE (grounded_checks g recs) (\<lambda>grounded.
     bindE (model_identities recs) (\<lambda>ids.
     Inr ([mk_gate_check ''iac_verification'' plan_ok ''every engine-specific verification check must pass'']
       @ grounded
       @ [mk_gate_check ''sre_approval'' (approved_review recs ''sre_review_id'' sre_semantic_failures)
            ''independent SRE decision must be approve'',
          mk_gate_check ''rollback_approval''
            (approved_review recs ''rollback_review_id'' rollback_semantic_failures)
            ''independent rollback decision must be approve'',
          mk_gate_check ''agent_model_diversity'' (hg_minimum_models g \<le> int (length ids))
            (show_nat (length ids) @ '' distinct runtime/model identities; policy requires ''
             @ show_int (hg_minimum_models g))]))))"

definition gate_checks ::
  "review_gate \<Rightarrow> string \<Rightarrow> remediation_case \<Rightarrow> ('x world, gate_check list \<times> gathered) prog" where
  "gate_checks g case_id c =
     bindM (gather case_id c) (\<lambda>(owned, recs).
     bindM (liftE (record_checks g recs)) (\<lambda>judged.
     bindM (window_gate (hg_env g) c) (\<lambda>window_ok.
     ret (owned @ judged
       @ [mk_gate_check ''future_change_window'' window_ok
            (case rc_change_window c of None \<Rightarrow> ''missing'' | Some w \<Rightarrow> cw_starts_at w),
          mk_gate_check ''evidence_chain'' (evidence_gate recs)
            (show_nat (length (gate_evidence recs)) @ '' immutable evidence references'')], recs))))"

section \<open>Asking for a decision\<close>

record human_review_outcome =
  hr_case :: remediation_case
  hr_policy :: product_record
  hr_package :: product_record

definition policy_body :: "string \<Rightarrow> gate_check list \<Rightarrow> pyval" where
  "policy_body policy_id checks = PDict
     [(''policy_id'', PStr policy_id), (''decision'', PStr ''allow_human_review''),
      (''checks'', PList (map gate_check_dict checks)),
      (''prohibitions'', str_list
         [''no infrastructure apply has been performed'',
          ''approval does not itself authorize or execute a change''])]"

definition package_entry :: "gathered \<Rightarrow> string \<times> string \<Rightarrow> (string \<times> pyval) res" where
  "package_entry recs named =
     (case dict_get recs (snd named) of
        None \<Rightarrow> Inl (Raise KeyError (snd named))
      | Some r \<Rightarrow> Inr (fst named, product_record_to_dict r))"

definition package_body ::
  "string \<Rightarrow> remediation_case \<Rightarrow> gathered \<Rightarrow> product_record \<Rightarrow> pyval res" where
  "package_body package_id c recs policy =
     bindE (mapE (package_entry recs)
       [(''validation'', ''validation_result_id''), (''iac_link'', ''iac_link_id''),
        (''remediation_plan'', ''change_plan_id''), (''sre_review'', ''sre_review_id''),
        (''change_window'', ''change_window_id''), (''rollback_review'', ''rollback_review_id'')])
       (\<lambda>entries.
     Inr (PDict ([(''review_package_id'', PStr package_id), (''case'', case_to_dict c),
                  (''risk_assessment'', pget (dict_items (case_to_dict c)) ''priority'')]
       @ entries
       @ [(''policy_decision'', product_record_to_dict policy),
          (''requested_human_decision'', PStr ''approve_or_reject_change''),
          (''execution_status'', PStr ''not_started'')])))"

definition request_approval ::
  "review_gate \<Rightarrow> string \<Rightarrow> remediation_case \<Rightarrow> gate_check list \<Rightarrow> gathered \<Rightarrow>
   ('x world, human_review_outcome) prog" where
  "request_approval g case_id c checks recs =
     bindM (clock_now (hg_env g)) (\<lambda>now.
     bindM (new_id (hg_env g) ''POL'') (\<lambda>policy_id.
     bindM (new_id (hg_env g) ''REVIEW'') (\<lambda>package_id.
     bindM (store_record (review_record policy_id case_id ''PolicyDecision.v1'' now
              (policy_body policy_id checks) (gate_evidence recs))) (\<lambda>policy.
     bindM (liftE (package_body package_id c recs policy)) (\<lambda>body.
     bindM (store_record (review_record package_id case_id ''HumanReviewPackage.v1'' now body
              (gate_evidence recs))) (\<lambda>package.
     bindM (new_id (hg_env g) ''EVT'') (\<lambda>event_id.
     bindM (advance case_id REQUEST_APPROVAL
              (basic_args event_id now ''approval-policy''
                 [(''policy_decision_id'', policy_id), (''human_review_package_id'', package_id)]
                 (gate_evidence recs))) (\<lambda>c'.
     ret \<lparr> hr_case = c', hr_policy = policy, hr_package = package \<rparr>))))))))"

definition prepare_human_review ::
  "review_gate \<Rightarrow> string \<Rightarrow> ('x world, human_review_outcome) prog" where
  "prepare_human_review g case_id =
     bindM (get_case case_id) (\<lambda>c.
     bindM (guardM (rc_state c = ROLLBACK_READY) PreApprovalError
              (''case '' @ case_id @ '' must be rollback_ready for human review'')) (\<lambda>_.
     bindM (gate_checks g case_id c) (\<lambda>(checks, recs).
     let failed = map gk_name (filter (\<lambda>k. \<not> gk_passed k) checks)
     in bindM (guardM (failed = []) PreApprovalError
                 (''human review policy failed: '' @ str_join '', '' failed)) (\<lambda>_.
        request_approval g case_id c checks recs))))"

end
