(* ===== verification/Agent_Runs.thy ===== *)
theory Agent_Runs
  imports Agent_Stage Action_Adapters Json_Parser
begin

text \<open>
  \<open>src/elcapitan/agent_runs.py\<close>: the runtime that stands between the services and an agent. It
  records every call before it is made and its outcome after, answers a task that was answered
  before from the record, and stops the case for a person when a budget is used up, a call was
  left unfinished or a failure repeats.
\<close>

section \<open>Budgets\<close>

record agent_run_policy =
  rp_max_model_calls :: int
  rp_max_attempts :: int
  rp_max_elapsed_seconds :: int
  rp_failure_threshold :: int
  rp_overrides :: "string list"

definition mk_agent_run_policy :: "agent_run_policy \<Rightarrow> agent_run_policy res" where
  "mk_agent_run_policy p =
     bindE (mapE (\<lambda>(name, value). guardE (0 < value) ValueError (name @ '' must be a positive integer''))
       [(''max_model_calls'', rp_max_model_calls p),
        (''max_attempts_per_role_package'', rp_max_attempts p),
        (''max_elapsed_seconds'', rp_max_elapsed_seconds p),
        (''equivalent_failure_threshold'', rp_failure_threshold p)]) (\<lambda>_.
     bindE (guardE (list_all (\<lambda>i. i \<noteq> []) (rp_overrides p)) ValueError
              ''terminal record overrides must be non-empty ids'') (\<lambda>_.
     Inr p))"

definition default_run_policy :: agent_run_policy where
  "default_run_policy = \<lparr> rp_max_model_calls = 42, rp_max_attempts = 3,
     rp_max_elapsed_seconds = 3600, rp_failure_threshold = 2, rp_overrides = [] \<rparr>"

definition run_policy_to_dict :: "agent_run_policy \<Rightarrow> pyval" where
  "run_policy_to_dict p = PDict
     [(''max_model_calls'', PInt (rp_max_model_calls p)),
      (''max_attempts_per_role_package'', PInt (rp_max_attempts p)),
      (''max_elapsed_seconds'', PInt (rp_max_elapsed_seconds p)),
      (''equivalent_failure_threshold'', PInt (rp_failure_threshold p)),
      (''override_terminal_record_ids'', str_list (rp_overrides p))]"

record 'x managed =
  mg_env :: env
  mg_artifact_root :: string
  mg_runtime :: "'x agent_runtime"
  mg_policy :: agent_run_policy

section \<open>What identifies a call\<close>

definition digest :: "env \<Rightarrow> pyval \<Rightarrow> string" where
  "digest env document = env_sha256 env (canonical_json document)"

definition hashed_id :: "env \<Rightarrow> string \<Rightarrow> string list \<Rightarrow> string" where
  "hashed_id env pre parts = pre @ ''-'' @ take 32 (env_sha256 env (str_join [CHR 0x00] parts))"

definition invocation_evidence_id :: "env \<Rightarrow> string \<Rightarrow> string" where
  "invocation_evidence_id env invocation_id = ''EVD-''
     @ (case number 16 hex_value (take 24 (env_sha256 env invocation_id)) of
          None \<Rightarrow> [] | Some i \<Rightarrow> show_int i)"

text \<open>The local time of \<open>datetime.fromisoformat\<close>, brought to UTC.\<close>

definition run_timestamp :: "string \<Rightarrow> int res" where
  "run_timestamp value =
     bindE (fromisoformat (replace_Z value)) (\<lambda>(t, offset).
     case offset of
       None \<Rightarrow> Inl (Raise ValueError ''agent-run timestamps must include a timezone'')
     | Some d \<Rightarrow> Inr (t - d))"

record run_binding =
  bd_package_hash :: string
  bd_contract_hash :: string
  bd_package_key :: string
  bd_replay_key :: string

definition binding :: "env \<Rightarrow> agent_task \<Rightarrow> run_binding" where
  "binding env t =
     (let package_hash = digest env (PDict
            [(''input_record_ids'', str_list (at_input_record_ids t)),
             (''evidence_ids'', str_list (at_evidence_ids t))]);
          contract_hash = digest env (PDict
            [(''objective'', PStr (at_objective t)), (''output_contract'', PStr (at_output_contract t)),
             (''constraints'', str_list (at_constraints t))]);
          package_key = digest env (PDict
            [(''case_id'', PStr (at_case_id t)), (''role'', PStr (agent_role_value (at_role t))),
             (''output_contract'', PStr (at_output_contract t)), (''package_hash'', PStr package_hash)]);
          replay_key = digest env (PDict
            [(''package_key'', PStr package_key), (''task_contract_hash'', PStr contract_hash)])
      in \<lparr> bd_package_hash = package_hash, bd_contract_hash = contract_hash,
           bd_package_key = package_key, bd_replay_key = replay_key \<rparr>)"

definition result_document :: "agent_result \<Rightarrow> pyval" where
  "result_document r = PDict
     [(''task_id'', PStr (ar_task_id r)), (''case_id'', PStr (ar_case_id r)),
      (''role'', PStr (agent_role_value (ar_role r))),
      (''status'', PStr (agent_status_value (ar_status r))), (''output'', PDict (ar_output r)),
      (''evidence_cited'', str_list (ar_evidence_cited r)),
      (''missing_evidence'', str_list (ar_missing_evidence r)), (''runtime'', PStr (ar_runtime r)),
      (''model'', PStr (ar_model r)), (''started_at'', PStr (ar_started_at r)),
      (''completed_at'', PStr (ar_completed_at r)), (''usage'', ar_usage r)]"

text \<open>The output that was recorded is an object, as that of every result.\<close>

definition restore_result :: "agent_task \<Rightarrow> pyval \<Rightarrow> agent_result res" where
  "restore_result t document =
     bindE (item document ''status'') (\<lambda>status_value.
     bindE (agent_status_of status_value) (\<lambda>status.
     bindE (item document ''output'') (\<lambda>out.
     bindE (bindE (item document ''evidence_cited'') text_items) (\<lambda>cited.
     bindE (bindE (item document ''missing_evidence'') text_items) (\<lambda>missing.
     bindE (item document ''runtime'') (\<lambda>runtime.
     bindE (item document ''started_at'') (\<lambda>started.
     bindE (item document ''completed_at'') (\<lambda>completed.
     mk_agent_result
       \<lparr> ar_task_id = at_task_id t, ar_case_id = at_case_id t, ar_role = at_role t,
         ar_status = status, ar_output = dict_items out, ar_evidence_cited = cited,
         ar_missing_evidence = missing, ar_runtime = py_str runtime,
         ar_model = py_str (get_or (dict_items document) ''model'' (PStr [])),
         ar_started_at = py_str started, ar_completed_at = py_str completed,
         ar_usage = get_or (dict_items document) ''usage'' (PDict []) \<rparr>))))))))"

section \<open>Records of calls\<close>

definition invocation_record :: string where "invocation_record = ''AgentInvocation.v1''"
definition outcome_record :: string where "outcome_record = ''AgentInvocationOutcome.v1''"
definition terminal_record :: string where "terminal_record = ''AgentRunTerminal.v1''"

definition record_attr :: "product_record \<Rightarrow> string \<Rightarrow> pyval" where
  "record_attr r k = pget (dict_items (pr_body r)) k"

definition outcomes_of :: "product_record list \<Rightarrow> (string, product_record) dict" where
  "outcomes_of rs = fold (\<lambda>r d. dict_set (py_str (record_attr r ''invocation_id'')) r d)
     (filter (\<lambda>r. pr_record_type r = outcome_record) rs) []"

definition invocations_of :: "product_record list \<Rightarrow> product_record list" where
  "invocations_of rs = filter (\<lambda>r. pr_record_type r = invocation_record) rs"

definition of_package :: "run_binding \<Rightarrow> product_record list \<Rightarrow> product_record list" where
  "of_package b rs = filter (\<lambda>r. record_attr r ''package_key'' = PStr (bd_package_key b)) rs"

definition run_record ::
  "string \<Rightarrow> string \<Rightarrow> string \<Rightarrow> string \<Rightarrow> (string, pyval) dict \<Rightarrow> string list \<Rightarrow> product_record" where
  "run_record record_id case_id kind now body evidence =
     \<lparr> pr_record_id = record_id, pr_case_id = case_id, pr_record_type = kind,
       pr_schema_version = 1, pr_created_at = now, pr_body = PDict body, pr_evidence_ids = evidence \<rparr>"

definition stop_message :: "product_record \<Rightarrow> string" where
  "stop_message r = ''agent run stopped: ''
     @ py_str (get_or (dict_items (pr_body r)) ''reason'' (PStr ''needs_human''))
     @ ''; terminal record '' @ pr_record_id r"

definition stop_run :: "product_record \<Rightarrow> ('x world, 'a) prog" where
  "stop_run r = raise AgentRunStopped (stop_message r)"

definition terminal ::
  "'x managed \<Rightarrow> agent_task \<Rightarrow> run_binding \<Rightarrow> string \<Rightarrow> string \<Rightarrow> (string, pyval) dict \<Rightarrow> string \<Rightarrow>
   ('x world, product_record) prog" where
  "terminal mg t b reason scope counts signature =
     (let terminal_id = hashed_id (mg_env mg) ''ARUN''
            [at_case_id t, scope, if scope = ''role_package'' then bd_package_key b else ''case'',
             reason, signature]
      in bindM (clock_now (mg_env mg)) (\<lambda>now.
         bindM (liftE (mk_product_record (run_record terminal_id (at_case_id t) terminal_record now
           [(''status'', PStr ''needs_human''), (''reason'', PStr reason), (''scope'', PStr scope),
            (''role'', PStr (agent_role_value (at_role t))),
            (''output_contract'', PStr (at_output_contract t)),
            (''package_hash'', PStr (bd_package_hash b)), (''package_key'', PStr (bd_package_key b)),
            (''failure_signature'', PStr signature), (''counts'', PDict counts),
            (''policy'', run_policy_to_dict (mg_policy mg)),
            (''operator_action'', PStr
              (''inspect invocation records and evidence, then resume only with an explicit ''
               @ ''terminal-record override or a changed evidence package''))] []))) (\<lambda>r.
         tryM (bindM (put_record r) (\<lambda>_. ret r)) [DuplicateProductRecord]
           (\<lambda>_. get_record terminal_id))))"

definition stop_terminal ::
  "'x managed \<Rightarrow> agent_task \<Rightarrow> run_binding \<Rightarrow> string \<Rightarrow> string \<Rightarrow> (string, pyval) dict \<Rightarrow> string \<Rightarrow>
   ('x world, 'a) prog" where
  "stop_terminal mg t b reason scope counts signature =
     bindM (terminal mg t b reason scope counts signature) stop_run"

definition active_terminal ::
  "agent_run_policy \<Rightarrow> product_record list \<Rightarrow> run_binding \<Rightarrow> product_record option" where
  "active_terminal p rs b =
     find (\<lambda>r. pr_record_type r = terminal_record \<and> pr_record_id r \<notin> set (rp_overrides p) \<and>
               (record_attr r ''scope'' = PStr ''case'' \<or>
                record_attr r ''scope'' = PStr ''role_package'' \<and>
                record_attr r ''package_key'' = PStr (bd_package_key b))) (rev rs)"

section \<open>Answering from the record\<close>

definition restore_outcome ::
  "'x managed \<Rightarrow> agent_task \<Rightarrow> product_record \<Rightarrow> ('x world, agent_result) prog" where
  "restore_outcome mg t outcome =
     bindM (liftE (item (pr_body outcome) ''artifact_namespace'')) (\<lambda>namespace.
     bindM (liftE (item (pr_body outcome) ''result_artifact_path'')) (\<lambda>relative.
     bindM (getsM wd_files) (\<lambda>files.
     bindM (liftE (safe_resolve files (mg_artifact_root mg @ ''/'' @ py_str namespace)
                     (py_str relative))) (\<lambda>path.
     bindM (if dict_has files path then
              bindM (sha256_file (mg_env mg) path) (\<lambda>found.
              bindM (liftE (item (pr_body outcome) ''result_sha256'')) (\<lambda>expected.
              ret (PStr found = expected)))
            else ret False) (\<lambda>same.
     bindM (guardM same OSError ''recorded agent result evidence is absent or has changed'') (\<lambda>_.
     bindM (file_text path) (\<lambda>content.
     case json_loads content of
       None \<Rightarrow> raise ValueError ''invalid JSON''
     | Some document \<Rightarrow>
         bindM (guardM (is_dict document) ValueError
                  ''recorded agent result evidence is not an object'') (\<lambda>_.
         liftE (restore_result t document)))))))))"

definition unreadable_artifact :: "exn_class list" where
  "unreadable_artifact = [KeyError, OSError, TypeError, ValueError, PathEscape]"

definition replayable :: "run_binding \<Rightarrow> product_record \<Rightarrow> bool" where
  "replayable b r = (pr_record_type r = outcome_record \<and>
     record_attr r ''replay_key'' = PStr (bd_replay_key b) \<and>
     record_attr r ''status'' = PStr ''succeeded'')"

definition replay ::
  "'x managed \<Rightarrow> agent_task \<Rightarrow> run_binding \<Rightarrow> product_record list \<Rightarrow> product_record \<Rightarrow>
   ('x world, agent_result) prog" where
  "replay mg t b rs outcome =
     tryM (restore_outcome mg t outcome) unreadable_artifact (\<lambda>_.
       stop_terminal mg t b ''replay_artifact_unavailable'' ''role_package''
         [(''model_calls'', PInt (int (length (invocations_of rs))))] [])"

section \<open>Whether a call may be made\<close>

definition elapsed_seconds :: "string \<Rightarrow> string \<Rightarrow> int res" where
  "elapsed_seconds now started =
     bindE (run_timestamp now) (\<lambda>t. bindE (run_timestamp started) (\<lambda>s.
     Inr (max 0 ((t - s) div 1000000))))"

definition pending_of :: "agent_run_policy \<Rightarrow> product_record list \<Rightarrow> product_record list" where
  "pending_of p rs =
     (if list_ex (\<lambda>r. pr_record_type r = terminal_record \<and> pr_record_id r \<in> set (rp_overrides p) \<and>
                      record_attr r ''reason'' = PStr ''incomplete_prior_invocation'') rs
      then [] else filter (\<lambda>r. \<not> dict_has (outcomes_of rs) (pr_record_id r)) (invocations_of rs))"

definition call_counts :: "run_binding \<Rightarrow> product_record list \<Rightarrow> (string, pyval) dict" where
  "call_counts b rs =
     [(''model_calls'', PInt (int (length (invocations_of rs)))),
      (''role_package_attempts'', PInt (int (length (of_package b (invocations_of rs)))))]"

definition time_left ::
  "'x managed \<Rightarrow> agent_task \<Rightarrow> run_binding \<Rightarrow> product_record list \<Rightarrow>
   ('x world, (string, pyval) dict) prog" where
  "time_left mg t b rs =
     (case invocations_of rs of
        [] \<Rightarrow> ret (call_counts b rs)
      | first # _ \<Rightarrow>
          bindM (clock_now (mg_env mg)) (\<lambda>now.
          bindM (liftE (elapsed_seconds now (pr_created_at first))) (\<lambda>elapsed.
          let counts = dict_set ''elapsed_seconds'' (PInt elapsed) (call_counts b rs)
          in if rp_max_elapsed_seconds (mg_policy mg) \<le> elapsed then
               stop_terminal mg t b ''elapsed_run_budget_exhausted'' ''case'' counts []
             else ret counts)))"

text \<open>Every reason to stop before a call, in the order of the code; otherwise the counts.\<close>

definition may_call ::
  "'x managed \<Rightarrow> agent_task \<Rightarrow> run_binding \<Rightarrow> product_record list \<Rightarrow>
   ('x world, (string, pyval) dict) prog" where
  "may_call mg t b rs =
     (case active_terminal (mg_policy mg) rs b of
        Some r \<Rightarrow> stop_run r
      | None \<Rightarrow>
          if pending_of (mg_policy mg) rs \<noteq> [] then
            stop_terminal mg t b ''incomplete_prior_invocation'' ''case'' (call_counts b rs) []
          else if rp_max_model_calls (mg_policy mg) \<le> int (length (invocations_of rs)) then
            stop_terminal mg t b ''model_call_budget_exhausted'' ''case'' (call_counts b rs) []
          else if rp_max_attempts (mg_policy mg) \<le> int (length (of_package b (invocations_of rs))) then
            stop_terminal mg t b ''role_package_attempt_budget_exhausted'' ''role_package''
              (call_counts b rs) []
          else time_left mg t b rs)"

section \<open>The call\<close>

fun exn_class_name :: "exn_class \<Rightarrow> string" where
  "exn_class_name Exception_class = ''Exception''"
| "exn_class_name ValueError = ''ValueError''"
| "exn_class_name TypeError = ''TypeError''"
| "exn_class_name KeyError = ''KeyError''"
| "exn_class_name IndexError = ''IndexError''"
| "exn_class_name AttributeError = ''AttributeError''"
| "exn_class_name RuntimeError = ''RuntimeError''"
| "exn_class_name OverflowError = ''OverflowError''"
| "exn_class_name OSError = ''OSError''"
| "exn_class_name FileExistsError = ''FileExistsError''"
| "exn_class_name FileNotFoundError = ''FileNotFoundError''"
| "exn_class_name CaseNotFound = ''CaseNotFound''"
| "exn_class_name ConcurrentCaseUpdate = ''ConcurrentCaseUpdate''"
| "exn_class_name ProductRecordNotFound = ''ProductRecordNotFound''"
| "exn_class_name DuplicateProductRecord = ''DuplicateProductRecord''"
| "exn_class_name FindingNotFound = ''FindingNotFound''"
| "exn_class_name DuplicateFinding = ''DuplicateFinding''"
| "exn_class_name UsageAnalysisError = ''UsageAnalysisError''"
| "exn_class_name ActionPlaneError = ''ActionPlaneError''"
| "exn_class_name PreApprovalError = ''PreApprovalError''"
| "exn_class_name PathEscape = ''PathEscape''"
| "exn_class_name AgentRunStopped = ''AgentRunStopped''"
| "exn_class_name IntegrityError = ''IntegrityError''"
| "exn_class_name UnicodeDecodeError = ''UnicodeDecodeError''"
| "exn_class_name RemediationPlanningError = ''RemediationPlanningError''"
| "exn_class_name TerraformChecksFailed = ''TerraformChecksFailed''"
| "exn_class_name TerraformLinkError = ''TerraformLinkError''"
| "exn_class_name TerraformLinkNotFound = ''TerraformLinkNotFound''"
| "exn_class_name AmbiguousTerraformLink = ''AmbiguousTerraformLink''"

record call_slot =
  sl_invocation_id :: string
  sl_attempt :: int
  sl_counts :: "(string, pyval) dict"

text \<open>The circuit: a failure that has occurred as often as the policy allows stops the case.\<close>

definition circuit ::
  "'x managed \<Rightarrow> agent_task \<Rightarrow> run_binding \<Rightarrow> call_slot \<Rightarrow> string \<Rightarrow> ('x world, unit) prog" where
  "circuit mg t b sl signature =
     bindM (list_records (at_case_id t) None) (\<lambda>rs.
     let same = filter (\<lambda>r. pr_record_type r = outcome_record \<and>
                  record_attr r ''package_key'' = PStr (bd_package_key b) \<and>
                  record_attr r ''failure_signature'' = PStr signature) rs
     in if rp_failure_threshold (mg_policy mg) \<le> int (length same) then
          stop_terminal mg t b ''equivalent_failure_circuit_open'' ''role_package''
            (dict_set ''role_package_attempts'' (PInt (sl_attempt sl)) (sl_counts sl)) signature
        else ret ())"

definition outcome_id :: "'x managed \<Rightarrow> call_slot \<Rightarrow> string" where
  "outcome_id mg sl = hashed_id (mg_env mg) ''AOUT'' [sl_invocation_id sl]"

definition call_failed ::
  "'x managed \<Rightarrow> agent_task \<Rightarrow> run_binding \<Rightarrow> call_slot \<Rightarrow> exn \<Rightarrow> ('x world, 'a) prog" where
  "call_failed mg t b sl e =
     (let code = exn_class_name (exn_cls e);
          signature = digest (mg_env mg) (PDict
            [(''failure_code'', PStr code),
             (''detail'', PStr (str_join '' '' (words_from [] (exn_str e))))])
      in bindM (clock_now (mg_env mg)) (\<lambda>now.
         bindM (store_record (run_record (outcome_id mg sl) (at_case_id t) outcome_record now
           [(''invocation_id'', PStr (sl_invocation_id sl)), (''replay_key'', PStr (bd_replay_key b)),
            (''package_key'', PStr (bd_package_key b)), (''status'', PStr ''failed''),
            (''failure_code'', PStr code), (''failure_signature'', PStr signature)] [])) (\<lambda>_.
         bindM (circuit mg t b sl signature) (\<lambda>_. liftE (Inl e)))))"

definition run_collector :: collector where
  "run_collector = \<lparr> co_tool = ''elcapitan-agent-run'', co_version = ''0.1.0'',
     co_identity = ''agent-run-control-plane'' \<rparr>"

definition run_namespace :: "agent_task \<Rightarrow> call_slot \<Rightarrow> string" where
  "run_namespace t sl = ''cases/'' @ at_case_id t @ ''/agent-runs/'' @ sl_invocation_id sl"

definition result_signature :: "'x managed \<Rightarrow> agent_task \<Rightarrow> agent_result \<Rightarrow> string" where
  "result_signature mg t r =
     (if ar_status r = SUCCEEDED \<and> validate_result t r = [] then []
      else digest (mg_env mg) (PDict
        [(''status'', PStr (agent_status_value (ar_status r))),
         (''missing_evidence'', str_list (ar_missing_evidence r)),
         (''contract_failures'', str_list (validate_result t r))]))"

definition keep_result ::
  "'x managed \<Rightarrow> agent_task \<Rightarrow> run_binding \<Rightarrow> call_slot \<Rightarrow> agent_result \<Rightarrow>
   ('x world, agent_result) prog" where
  "keep_result mg t b sl r =
     (let succeeded = (ar_status r = SUCCEEDED \<and> validate_result t r = []);
          signature = result_signature mg t r;
          namespace = run_namespace t sl
      in bindM (clock_now (mg_env mg)) (\<lambda>collected_at.
         bindM (write_evidence (mg_env mg) (mg_artifact_root mg @ ''/'' @ namespace)
                  (invocation_evidence_id (mg_env mg) (sl_invocation_id sl)) ''agent_invocation_result''
                  (canonical_json (result_document r)) run_collector ''internal'' [] collected_at) (\<lambda>ref.
         bindM (clock_now (mg_env mg)) (\<lambda>now.
         bindM (store_record (run_record (outcome_id mg sl) (at_case_id t) outcome_record now
           [(''invocation_id'', PStr (sl_invocation_id sl)), (''replay_key'', PStr (bd_replay_key b)),
            (''package_key'', PStr (bd_package_key b)),
            (''status'', PStr (if succeeded then ''succeeded'' else ''not_succeeded'')),
            (''failure_code'', PStr (if validate_result t r \<noteq> [] then ''invalid_result_contract''
               else if signature \<noteq> [] then agent_status_value (ar_status r) else [])),
            (''failure_signature'', PStr signature), (''artifact_namespace'', PStr namespace),
            (''result_artifact_path'', PStr (ef_artifact_path ref)),
            (''result_sha256'', PStr (ef_sha256 ref))] [ef_evidence_id ref])) (\<lambda>_.
         bindM (if signature = [] then ret () else circuit mg t b sl signature) (\<lambda>_. ret r))))))"

definition call_record ::
  "'x managed \<Rightarrow> agent_task \<Rightarrow> run_binding \<Rightarrow> call_slot \<Rightarrow> string \<Rightarrow> product_record" where
  "call_record mg t b sl now = run_record (sl_invocation_id sl) (at_case_id t) invocation_record now
     [(''invocation_id'', PStr (sl_invocation_id sl)), (''replay_key'', PStr (bd_replay_key b)),
      (''package_key'', PStr (bd_package_key b)), (''package_hash'', PStr (bd_package_hash b)),
      (''task_contract_hash'', PStr (bd_contract_hash b)),
      (''role'', PStr (agent_role_value (at_role t))),
      (''output_contract'', PStr (at_output_contract t)), (''attempt'', PInt (sl_attempt sl)),
      (''runtime'', PStr (rt_name (mg_runtime mg))), (''status'', PStr ''started''),
      (''policy'', run_policy_to_dict (mg_policy mg))] []"

text \<open>The call was recorded by another worker: its answer, if there is one, is the answer.\<close>

definition lost_race ::
  "'x managed \<Rightarrow> agent_task \<Rightarrow> run_binding \<Rightarrow> call_slot \<Rightarrow> ('x world, agent_result) prog" where
  "lost_race mg t b sl =
     bindM (list_records (at_case_id t) None) (\<lambda>rs.
     let give_up = stop_terminal mg t b ''incomplete_prior_invocation'' ''case'' (sl_counts sl) []
     in case dict_get (outcomes_of rs) (sl_invocation_id sl) of
          None \<Rightarrow> give_up
        | Some outcome \<Rightarrow>
            if record_attr outcome ''status'' = PStr ''succeeded'' then
              tryM (restore_outcome mg t outcome) unreadable_artifact (\<lambda>_. give_up)
            else give_up)"

definition make_call ::
  "'x managed \<Rightarrow> agent_task \<Rightarrow> run_binding \<Rightarrow> call_slot \<Rightarrow> ('x world, agent_result) prog" where
  "make_call mg t b sl =
     bindM (tryM (bindM (rt_run (mg_runtime mg) t) (\<lambda>r. ret r)) [Exception_class] (call_failed mg t b sl))
       (keep_result mg t b sl)"

definition run_slot :: "'x managed \<Rightarrow> run_binding \<Rightarrow> product_record list \<Rightarrow> (string, pyval) dict \<Rightarrow> call_slot" where
  "run_slot mg b rs counts =
     (let attempt = int (length (of_package b (invocations_of rs))) + 1
      in \<lparr> sl_invocation_id = hashed_id (mg_env mg) ''AINV''
             [bd_package_key b, bd_replay_key b, show_int attempt],
           sl_attempt = attempt, sl_counts = counts \<rparr>)"

definition record_call ::
  "'x managed \<Rightarrow> agent_task \<Rightarrow> run_binding \<Rightarrow> call_slot \<Rightarrow> ('x world, bool) prog" where
  "record_call mg t b sl =
     bindM (clock_now (mg_env mg)) (\<lambda>now.
     bindM (liftE (mk_product_record (call_record mg t b sl now))) (\<lambda>r.
     tryM (bindM (put_record r) (\<lambda>_. ret True)) [DuplicateProductRecord] (\<lambda>_. ret False)))"

definition managed_run :: "'x managed \<Rightarrow> agent_task \<Rightarrow> ('x world, agent_result) prog" where
  "managed_run mg t =
     (let b = binding (mg_env mg) t
      in bindM (list_records (at_case_id t) None) (\<lambda>rs.
         case find (replayable b) rs of
           Some outcome \<Rightarrow> replay mg t b rs outcome
         | None \<Rightarrow>
             bindM (may_call mg t b rs) (\<lambda>counts.
             let sl = run_slot mg b rs counts
             in bindM (record_call mg t b sl) (\<lambda>recorded.
                if recorded then make_call mg t b sl else lost_race mg t b sl))))"

definition managed_runtime :: "'x managed \<Rightarrow> 'x agent_runtime" where
  "managed_runtime mg = \<lparr> rt_name = ''agent-run:'' @ rt_name (mg_runtime mg), rt_run = managed_run mg \<rparr>"

end
