(* ===== verification/Orchestration.thy ===== *)
theory Orchestration
  imports Window_Selection Human_Gate Agent_Runs
begin

text \<open>
  \<open>src/elcapitan/orchestration.py\<close>: the one-way path of a validated case to a person's decision. It
  resumes a case at the stage it has reached and runs a bounded number of stages. The planning
  service is an argument: what the path relies on is only that it moves the case.
\<close>

section \<open>An agent run that was stopped\<close>

text \<open>
  The exception carries the terminal record; its message names the record and its reason, none of
  which contains a semicolon, and is read back here.
\<close>

definition stopped_reason :: "string \<Rightarrow> string" where
  "stopped_reason msg = takeWhile (\<lambda>c. c \<noteq> CHR '';'') (drop (length ''agent run stopped: '') msg)"

definition stopped_record_id :: "string \<Rightarrow> string" where
  "stopped_record_id msg =
     drop (length ''; terminal record '')
       (dropWhile (\<lambda>c. c \<noteq> CHR '';'') (drop (length ''agent run stopped: '') msg))"

lemma stop_message_read_back:
  assumes "CHR '';'' \<notin> set reason" "record_attr r ''reason'' = PStr reason"
  shows "stopped_reason (stop_message r) = reason"
    and "stopped_record_id (stop_message r) = pr_record_id r"
proof -
  have "get_or (dict_items (pr_body r)) ''reason'' (PStr ''needs_human'') = PStr reason"
    using assms(2) by (auto simp: record_attr_def pget_def get_or_def split: option.splits)
  then have msg: "drop (length ''agent run stopped: '') (stop_message r) =
      reason @ CHR '';'' # '' terminal record '' @ pr_record_id r"
    by (simp add: stop_message_def py_str_def)
  show "stopped_reason (stop_message r) = reason"
    unfolding stopped_reason_def msg using assms(1) by (subst takeWhile_append2) auto
  show "stopped_record_id (stop_message r) = pr_record_id r"
    unfolding stopped_record_id_def msg using assms(1) by (subst dropWhile_append2) auto
qed

definition block_agent_run :: "env \<Rightarrow> string \<Rightarrow> exn \<Rightarrow> ('x world, unit) prog" where
  "block_agent_run env case_id stopped =
     bindM (get_case case_id) (\<lambda>c.
     if rc_state c = BLOCKED then ret ()
     else bindM (new_id env ''EVT'') (\<lambda>event_id.
          bindM (clock_now env) (\<lambda>now.
          bindM (advance case_id BLOCK
            ((basic_args event_id now ''agent-run-policy''
                [(''agent_run_terminal_id'', stopped_record_id (exn_msg stopped))] [])
             \<lparr>ta_detail := ''agent run requires human review: '' @ stopped_reason (exn_msg stopped)\<rparr>)) (\<lambda>_.
          ret ()))))"

definition guard_agent_run :: "env \<Rightarrow> string \<Rightarrow> ('x world, 'a) prog \<Rightarrow> ('x world, 'a) prog" where
  "guard_agent_run env case_id m =
     tryM m [AgentRunStopped] (\<lambda>e.
       bindM (block_agent_run env case_id e) (\<lambda>_. raise PreApprovalError (exn_msg e)))"

section \<open>The orchestrator\<close>

record ('x, 'p) orchestrator =
  oc_stage :: "'x agent_stage"
  oc_gate :: review_gate
  oc_zones :: "string \<Rightarrow> time_zone option"
  oc_planner :: "string \<Rightarrow> ('x world, 'p) prog"

text \<open>A runtime that does not keep its own records is given the managed one.\<close>

definition orchestrator_runtime ::
  "env \<Rightarrow> string \<Rightarrow> 'x agent_runtime \<Rightarrow> bool \<Rightarrow> agent_run_policy option \<Rightarrow> 'x agent_runtime" where
  "orchestrator_runtime env root_dir rt is_managed policy =
     (if is_managed then rt
      else managed_runtime \<lparr> mg_env = env, mg_artifact_root = root_dir, mg_runtime = rt,
             mg_policy = (case policy of None \<Rightarrow> default_run_policy | Some p \<Rightarrow> p) \<rparr>)"

definition mk_orchestrator ::
  "'x agent_stage \<Rightarrow> bool \<Rightarrow> agent_run_policy option \<Rightarrow> int \<Rightarrow> bool \<Rightarrow> (string \<Rightarrow> time_zone option) \<Rightarrow>
   (string \<Rightarrow> ('x world, 'p) prog) \<Rightarrow> ('x, 'p) orchestrator res" where
  "mk_orchestrator sg is_managed policy models grounded zones planner =
     bindE (mk_review_gate \<lparr> hg_env = sg_env sg, hg_minimum_models = models,
                             hg_state_grounded = grounded \<rparr>) (\<lambda>gate.
     Inr \<lparr> oc_stage = sg\<lparr>sg_runtime := orchestrator_runtime (sg_env sg) (sg_artifact_root sg)
                                        (sg_runtime sg) is_managed policy\<rparr>,
           oc_gate = gate, oc_zones = zones, oc_planner = planner \<rparr>)"

definition stopped_in :: "exn_class \<Rightarrow> string \<Rightarrow> remediation_case \<Rightarrow> ('x world, 'a) prog" where
  "stopped_in cls what c =
     raise cls (what @ '' stopped workflow in '' @ case_state_value (rc_state c))"

section \<open>From the stage a case has reached\<close>

text \<open>One turn of the loop: the decision package, or nothing when the loop goes on.\<close>

definition sre_turn :: "('x, 'p) orchestrator \<Rightarrow> string \<Rightarrow> (string, pyval) dict \<Rightarrow>
    ('x world, human_review_outcome option) prog" where
  "sre_turn oc case_id sc =
     bindM (guard_agent_run (sg_env (oc_stage oc)) case_id (sre_review_case (oc_stage oc) case_id sc)) (\<lambda>out.
     if rc_state (ro_case out) \<noteq> SRE_APPROVED then stopped_in PreApprovalError ''SRE review'' (ro_case out)
     else ret None)"

definition window_turn :: "('x, 'p) orchestrator \<Rightarrow> string \<Rightarrow> usage_sample list \<Rightarrow> window_policy \<Rightarrow>
    ('x world, human_review_outcome option) prog" where
  "window_turn oc case_id samples policy =
     bindM (retry_invalid_approval (oc_stage oc) case_id) (\<lambda>again.
     if again then ret None
     else bindM (guard_agent_run (sg_env (oc_stage oc)) case_id
                   (select_window (oc_stage oc) (oc_zones oc) case_id samples policy)) (\<lambda>_. ret None))"

definition rollback_turn :: "('x, 'p) orchestrator \<Rightarrow> string \<Rightarrow>
    ('x world, human_review_outcome option) prog" where
  "rollback_turn oc case_id =
     bindM (retry_invalid_approval (oc_stage oc) case_id) (\<lambda>again.
     if again then ret None
     else bindM (guard_agent_run (sg_env (oc_stage oc)) case_id
                   (rollback_review_case (oc_stage oc) case_id)) (\<lambda>out.
       if rc_state (ro_case out) = VALIDATED then ret None
       else if rc_state (ro_case out) \<noteq> ROLLBACK_READY then
         stopped_in PreApprovalError ''rollback review'' (ro_case out)
       else ret None))"

definition gate_turn :: "('x, 'p) orchestrator \<Rightarrow> string \<Rightarrow>
    ('x world, human_review_outcome option) prog" where
  "gate_turn oc case_id =
     bindM (reselect_started (oc_stage oc) case_id) (\<lambda>again.
     if again then ret None
     else bindM (prepare_human_review (oc_gate oc) case_id) (\<lambda>out. ret (Some out)))"

definition preapproval_turn ::
  "('x, 'p) orchestrator \<Rightarrow> string \<Rightarrow> (string, pyval) dict \<Rightarrow> usage_sample list \<Rightarrow> window_policy \<Rightarrow>
   ('x world, human_review_outcome option) prog" where
  "preapproval_turn oc case_id sc samples policy =
     bindM (get_case case_id) (\<lambda>c.
     case rc_state c of
       VALIDATED \<Rightarrow>
         bindM (guard_agent_run (sg_env (oc_stage oc)) case_id (oc_planner oc case_id)) (\<lambda>_. ret None)
     | PLAN_READY \<Rightarrow> sre_turn oc case_id sc
     | SRE_APPROVED \<Rightarrow> window_turn oc case_id samples policy
     | WINDOW_SELECTED \<Rightarrow> rollback_turn oc case_id
     | ROLLBACK_READY \<Rightarrow> gate_turn oc case_id
     | state \<Rightarrow> raise PreApprovalError
         (''case '' @ case_id @ '' cannot enter preapproval from '' @ case_state_value state))"

text \<open>The loop, with the number of turns that are left.\<close>

fun preapproval_turns ::
  "nat \<Rightarrow> string \<Rightarrow> ('x world, human_review_outcome option) prog \<Rightarrow>
   ('x world, human_review_outcome) prog" where
  "preapproval_turns 0 case_id turn =
     raise PreApprovalError (''case '' @ case_id @ '' did not reach the human-review gate'')"
| "preapproval_turns (Suc n) case_id turn =
     bindM turn (\<lambda>out. case out of None \<Rightarrow> preapproval_turns n case_id turn | Some h \<Rightarrow> ret h)"

definition advance_to_human_review ::
  "('x, 'p) orchestrator \<Rightarrow> string \<Rightarrow> (string, pyval) dict \<Rightarrow> usage_sample list \<Rightarrow> window_policy \<Rightarrow>
   ('x world, human_review_outcome) prog" where
  "advance_to_human_review oc case_id sc samples policy =
     preapproval_turns 14 case_id (preapproval_turn oc case_id sc samples policy)"

section \<open>In one pass\<close>

record 'p preapproval_outcome =
  po_planning :: 'p
  po_sre :: review_outcome
  po_window :: window_outcome
  po_rollback :: review_outcome
  po_human :: human_review_outcome

definition prepare_preapproval ::
  "('x, 'p) orchestrator \<Rightarrow> string \<Rightarrow> (string, pyval) dict \<Rightarrow> usage_sample list \<Rightarrow> window_policy \<Rightarrow>
   ('x world, 'p preapproval_outcome) prog" where
  "prepare_preapproval oc case_id sc samples policy =
     bindM (guard_agent_run (sg_env (oc_stage oc)) case_id (oc_planner oc case_id)) (\<lambda>planning.
         bindM (guard_agent_run (sg_env (oc_stage oc)) case_id
                  (sre_review_case (oc_stage oc) case_id sc)) (\<lambda>sre.
         bindM (if rc_state (ro_case sre) \<noteq> SRE_APPROVED then
                  stopped_in RuntimeError ''SRE review'' (ro_case sre) else ret ()) (\<lambda>_.
         bindM (guard_agent_run (sg_env (oc_stage oc)) case_id
                  (select_window (oc_stage oc) (oc_zones oc) case_id samples policy)) (\<lambda>window.
         bindM (guard_agent_run (sg_env (oc_stage oc)) case_id
                  (rollback_review_case (oc_stage oc) case_id)) (\<lambda>rollback.
         bindM (if rc_state (ro_case rollback) \<noteq> ROLLBACK_READY then
                  stopped_in RuntimeError ''rollback review'' (ro_case rollback) else ret ()) (\<lambda>_.
         bindM (prepare_human_review (oc_gate oc) case_id) (\<lambda>human.
         ret \<lparr> po_planning = planning, po_sre = sre, po_window = window, po_rollback = rollback,
               po_human = human \<rparr>)))))))"

end
