(* ===== verification/Durability.thy ===== *)
theory Durability
  imports Orchestration Scheduling Approval_Properties Intake_Properties
begin

text \<open>
  What no operation of any service ever undoes: the stores stay in order, the log of a case only
  grows by recorded transitions, a product record stays as it is, and, intake aside, so do the
  findings. This is one reflexive and transitive relation, kept by each call of a store and
  therefore by every service that is made of such calls.
\<close>

section \<open>The relation\<close>

definition durable :: "'x world \<Rightarrow> 'x world \<Rightarrow> bool" where
  "durable w w' = (world_ok w \<longrightarrow>
     world_ok w' \<and> logs_extend (wd_cases w) (wd_cases w') \<and>
     sql_record_view (wd_records w) \<subseteq>\<^sub>m sql_record_view (wd_records w') \<and>
     wd_findings w' = wd_findings w)"

interpretation durable: frame durable
  by unfold_locales (auto simp: durable_def intro: logs_extend_trans map_le_trans)

named_theorems durable_intros \<open>computations that keep what is durable\<close>

lemmas durable_rules [durable_intros] = durable.bindM durable.tryM durable.mapM durable.pure stays_if
  stays_case_option stays_case_prod stays_let

lemma durable_same:
  "wd_cases w' = wd_cases w \<Longrightarrow> wd_records w' = wd_records w \<Longrightarrow> wd_findings w' = wd_findings w \<Longrightarrow>
   wd_jobs w' = wd_jobs w \<Longrightarrow> durable w w'"
  by (simp add: durable_def world_ok_def)

lemma durable_collects: "only_collects m \<Longrightarrow> stays durable m"
  by (rule staysI, rule durable_same) (simp_all add: only_collectsD)

lemma durable_local [durable_intros]:
  "stays durable (clock_now env)" "stays durable (new_id env p)" "stays durable (on_outside m)"
  "stays durable (write_evidence env d i k pl c sens cmd n)"
  by (rule durable_collects, rule collect_intros)+

lemma durable_files [durable_intros]: "stays durable (modifyM (\<lambda>w. w\<lparr>wd_files := f w\<rparr>))"
  by (rule staysI) (auto simp: run_simps intro: durable_same)

section \<open>Calls of the stores\<close>

lemma durable_cases:
  "(\<And>s. cases_ok s \<Longrightarrow> cases_ok (snd (m s)) \<and> logs_extend s (snd (m s))) \<Longrightarrow> stays durable (on_cases m)"
  by (simp add: stays_def on_cases_def durable_def world_ok_def case_prod_unfold)

lemma durable_records:
  "(\<And>s. sql_record_ok s \<Longrightarrow> sql_record_ok (snd (m s)) \<and> sql_record_view s \<subseteq>\<^sub>m sql_record_view (snd (m s))) \<Longrightarrow>
   stays durable (on_records m)"
  by (simp add: stays_def on_records_def durable_def world_ok_def case_prod_unfold)

lemma durable_findings:
  "(\<And>s. findings_ok s \<Longrightarrow> snd (m s) = s) \<Longrightarrow>
   stays durable (on_findings m)"
  by (simp add: stays_def on_findings_def durable_def world_ok_def case_prod_unfold)

lemma durable_jobs: "keeps jobs_ok m \<Longrightarrow> stays durable (on_jobs m)"
  by (simp add: stays_def on_jobs_def durable_def world_ok_def keeps_def case_prod_unfold)

lemma durable_get_case [durable_intros]: "stays durable (get_case i)"
  unfolding get_case_def by (rule durable_cases) (simp add: cases_ok_def sql.get_law)

lemma durable_advance [durable_intros]: "args_ok a \<Longrightarrow> stays durable (advance i t a)"
proof (rule staysI)
  fix w r w' assume a: "args_ok a" and run: "advance i t a w = (r, w')"
  show "durable w w'"
  proof (cases "world_ok w")
    case True
    then have c: "cases_ok (wd_cases w)" by (simp add: world_ok_def)
    note adv = advance_run [OF c a run]
    have eq: "w' = w\<lparr>wd_cases := wd_cases w'\<rparr>" using adv by blast
    have "wd_records w' = wd_records w" "wd_findings w' = wd_findings w" "wd_jobs w' = wd_jobs w"
      by (subst eq, simp)+
    with adv True show ?thesis by (simp add: durable_def world_ok_def)
  qed (simp add: durable_def)
qed

lemma durable_get_record [durable_intros]: "stays durable (get_record i)"
  unfolding get_record_def
  by (rule durable_records) (simp add: sql_record_ops_def sql_record_get_state)

lemma durable_list_records [durable_intros]: "stays durable (list_records i t)"
  unfolding list_records_def
  by (rule durable_records) (simp add: sql_record_ops_def sql_record_list_def run_defs)

lemma put_record_durable:
  assumes "is_ok (mk_product_record r)" shows "stays durable (put_record r)"
  unfolding put_record_def
proof (rule durable_records)
  fix s assume s: "sql_record_ok s"
  let ?s = "snd (rs_put sql_record_ops r s)"
  have "sql_record_ok ?s" using sql_record.put_keeps [OF s assms] by simp
  moreover have "sql_record_view s \<subseteq>\<^sub>m sql_record_view ?s"
  proof (cases "sql_record_view s (pr_record_id r)")
    case None
    from sql_record.put_view [OF s assms None] None show ?thesis by (auto simp: map_le_def)
  next
    case (Some x)
    then show ?thesis using sql_record.put_law [OF s assms] by (auto split: if_splits)
  qed
  ultimately show "sql_record_ok ?s \<and> sql_record_view s \<subseteq>\<^sub>m sql_record_view ?s" by simp
qed

lemma made_record: "mk_product_record x = Inr r \<Longrightarrow> is_ok (mk_product_record r)"
  by (auto simp: mk_product_record_def res_simps)

lemma durable_made [durable_intros]:
  assumes "\<And>r. is_ok (mk_product_record r) \<Longrightarrow> stays durable (f r)"
  shows "stays durable (bindM (liftE (mk_product_record x)) f)"
  using assms made_record [of x] durable.refl
  by (cases "mk_product_record x") (auto simp: stays_def bindM_def liftE_def)

lemma durable_store_record [durable_intros]: "stays durable (store_record r)"
  unfolding store_record_def
  by (rule durable_made) (intro durable_intros put_record_durable)

lemma durable_list_findings [durable_intros]: "stays durable (list_case_findings i)"
  unfolding list_case_findings_def
  by (rule durable_findings) (simp add: sql_finding_ops_def sql_finding_list_def run_defs)

section \<open>Agents\<close>

text \<open>The agents a service is given keep what is durable: they answer, and record only by the stores.\<close>

definition agent_durable :: "'x agent_runtime \<Rightarrow> bool" where
  "agent_durable rt = (\<forall>task. stays durable (rt_run rt task))"

lemma agent_durableD [durable_intros]: "agent_durable rt \<Longrightarrow> stays durable (rt_run rt task)"
  by (simp add: agent_durable_def)

lemma ask_durable [durable_intros]:
  "agent_durable (sg_runtime sg) \<Longrightarrow> stays durable (ask_agent sg check task)"
  unfolding ask_agent_def by (intro durable_intros)

lemma correct_durable [durable_intros]:
  "agent_durable (sg_runtime sg) \<Longrightarrow> stays durable (correct_answer sg check n task a)"
  by (induction n arbitrary: task a) (auto simp: Let_def intro!: durable_intros)

lemma run_agent_durable [durable_intros]:
  assumes "agent_durable (sg_runtime sg)"
  shows "stays durable (run_agent sg check required run_dir task)"
  using assms unfolding run_agent_def accepted_answer_def complete_citations_def Let_def
  by (intro durable_intros)

lemma stage_evidence_durable [durable_intros]: "stays durable (stage_evidence sg d k doc now)"
  unfolding stage_evidence_def by (intro durable_intros)

subsection \<open>The managed runtime\<close>

lemma terminal_durable [durable_intros]: "stays durable (terminal mg t b reason scope counts sig)"
  unfolding terminal_def Let_def by (intro durable_intros put_record_durable)

lemma stop_durable [durable_intros]:
  "stays durable (stop_run r)" "stays durable (stop_terminal mg t b reason scope counts sig)"
  unfolding stop_terminal_def stop_run_def by (intro durable_intros)+

lemma file_durable [durable_intros]: "stays durable (file_bytes p)" "stays durable (file_text p)" "stays durable (sha256_file env p)"
  unfolding sha256_file_def file_text_def file_bytes_def by (intro durable_intros)+

lemma restore_durable [durable_intros]: "stays durable (restore_outcome mg t r)"
  unfolding restore_outcome_def by (intro durable_intros)

lemma circuit_durable [durable_intros]: "stays durable (circuit mg t b sl sig)"
  unfolding circuit_def Let_def by (intro durable_intros)

lemma may_call_durable [durable_intros]: "stays durable (may_call mg t b rs)"
proof -
  have "stays durable (time_left mg t b rs)"
    unfolding time_left_def Let_def by (cases "invocations_of rs") (auto intro!: durable_intros)
  then show ?thesis unfolding may_call_def by (intro durable_intros)
qed

lemma make_call_durable [durable_intros]:
  "agent_durable (mg_runtime mg) \<Longrightarrow> stays durable (make_call mg t b sl)"
  unfolding make_call_def call_failed_def keep_result_def Let_def by (intro durable_intros)

lemma lost_race_durable [durable_intros]: "stays durable (lost_race mg t b sl)"
  unfolding lost_race_def Let_def by (intro durable_intros)

lemma record_call_durable [durable_intros]: "stays durable (record_call mg t b sl)"
  unfolding record_call_def by (intro durable_intros put_record_durable)

lemma managed_durable:
  "agent_durable (mg_runtime mg) \<Longrightarrow> agent_durable (managed_runtime mg)"
  unfolding agent_durable_def managed_runtime_def managed_run_def replay_def Let_def agent_runtime.simps
  by (intro allI durable_intros) (simp add: agent_durable_def)

section \<open>Pre-approval\<close>

lemma args_ok_detail [simp]: "args_ok (a\<lparr>ta_detail := d\<rparr>) = args_ok a"
  "args_ok (a\<lparr>ta_record_ids := rs\<rparr>) = args_ok a"
  by (simp_all add: args_ok_def)

lemma sre_durable [durable_intros]:
  "agent_durable (sg_runtime sg) \<Longrightarrow> stays durable (sre_review_case sg i sc)"
  unfolding sre_review_case_def sre_plan_def named_record_def sre_decide_def Let_def
  by (intro durable_intros) simp_all

lemma retry_durable [durable_intros]: "stays durable (retry_invalid_approval sg i)"
  unfolding retry_invalid_approval_def named_record_def Let_def by (intro durable_intros) simp_all

lemma reselect_durable [durable_intros]: "stays durable (reselect_started sg i)"
  unfolding reselect_started_def named_record_def dependent_record_def by (intro durable_intros) simp_all

lemma rollback_durable [durable_intros]:
  "agent_durable (sg_runtime sg) \<Longrightarrow> stays durable (rollback_review_case sg i)"
  unfolding rollback_review_case_def rollback_inputs_def named_record_def rollback_decide_def case_log_def
    Let_def
  by (intro durable_intros durable_cases) (simp_all add: cases_ok_def sql.events_law)

lemma chosen_window_ok: "chosen_window i ev ch = Inr x \<Longrightarrow> is_ok (mk_change_window x)"
  by (auto simp: chosen_window_def mk_change_window_def res_simps)

lemma durable_chosen [durable_intros]:
  assumes "\<And>x. is_ok (mk_change_window x) \<Longrightarrow> stays durable (f x)"
  shows "stays durable (bindM (liftE (chosen_window i ev ch)) f)"
  using assms chosen_window_ok [of i ev ch] durable.refl
  by (cases "chosen_window i ev ch") (auto simp: stays_def bindM_def liftE_def)

lemma select_durable [durable_intros]:
  "agent_durable (sg_runtime sg) \<Longrightarrow> stays durable (select_window sg zones i samples p)"
  unfolding select_window_def window_inputs_def named_record_def Let_def
  by (intro durable_chosen durable_intros) (simp_all add: args_ok_def basic_args_def)

lemma gate_durable [durable_intros]: "stays durable (prepare_human_review g i)"
  unfolding prepare_human_review_def gate_checks_def gather_def gather_one_def window_gate_def
    request_approval_def Let_def
  by (intro durable_intros) simp_all

lemma guard_durable [durable_intros]: "stays durable m \<Longrightarrow> stays durable (guard_agent_run env i m)"
  unfolding guard_agent_run_def block_agent_run_def by (intro durable_intros) simp_all

lemma turns_durable [durable_intros]: "stays durable turn \<Longrightarrow> stays durable (preapproval_turns n i turn)"
  by (induction n) (auto intro!: durable_intros)

lemma preapproval_turn_durable:
  assumes "agent_durable (sg_runtime (oc_stage oc))" "stays durable (oc_planner oc i)"
  shows "stays durable (preapproval_turn oc i sc samples p)"
proof -
  note agent = assms(1)
  have "stays durable (sre_turn oc i sc)"
    using agent unfolding sre_turn_def stopped_in_def by (intro durable_intros)
  moreover have "stays durable (window_turn oc i samples p)"
    using agent unfolding window_turn_def by (intro durable_intros)
  moreover have "stays durable (rollback_turn oc i)"
    using agent unfolding rollback_turn_def stopped_in_def by (intro durable_intros)
  moreover have "stays durable (gate_turn oc i)"
    unfolding gate_turn_def by (intro durable_intros)
  ultimately have "stays durable (case s of VALIDATED \<Rightarrow> bindM (guard_agent_run (sg_env (oc_stage oc)) i (oc_planner oc i)) (\<lambda>_. ret None)
     | PLAN_READY \<Rightarrow> sre_turn oc i sc | SRE_APPROVED \<Rightarrow> window_turn oc i samples p
     | WINDOW_SELECTED \<Rightarrow> rollback_turn oc i | ROLLBACK_READY \<Rightarrow> gate_turn oc i
     | state \<Rightarrow> raise PreApprovalError (''case '' @ i @ '' cannot enter preapproval from '' @ case_state_value state))" for s
    using assms(2) by (cases s) (auto intro!: durable_intros)
  then show ?thesis unfolding preapproval_turn_def by (intro durable_intros)
qed

lemma orchestrator_durable:
  assumes "agent_durable (sg_runtime (oc_stage oc))" "stays durable (oc_planner oc i)"
  shows "stays durable (advance_to_human_review oc i sc samples p)"
    and "stays durable (prepare_preapproval oc i sc samples p)"
proof -
  show "stays durable (advance_to_human_review oc i sc samples p)"
    unfolding advance_to_human_review_def by (intro turns_durable preapproval_turn_durable assms)
  show "stays durable (prepare_preapproval oc i sc samples p)"
    unfolding prepare_preapproval_def stopped_in_def using assms by (intro durable_intros)
qed

end
