(* ===== verification/Gate_Properties.thy ===== *)
theory Gate_Properties
  imports Durability
begin

text \<open>
  What the way to a person's decision guarantees: the answers of agents are checked before anything
  rests on them, and a case awaits a decision only when every mechanical check of the gate held.
\<close>

section \<open>Calls that returned\<close>

lemma advance_returned:
  assumes "cases_ok (wd_cases w)" "args_ok a" "advance i t a w = (Inr c', w')"
    and "sql_view (wd_cases w) i = Some (c, es)"
  obtains p' e e' where "transition_case c t a = Inr (c', e)" "same_case c' p'" "same_event e e'"
    "sql_view (wd_cases w') = (sql_view (wd_cases w))(i \<mapsto> (p', es @ [e']))"
    "wd_records w' = wd_records w" "wd_files w' = wd_files w"
proof -
  note adv = advance_run [OF assms(1-3)]
  have "w' = w\<lparr>wd_cases := wd_cases w'\<rparr>" using adv by blast
  then have "wd_records w' = wd_records w" "wd_files w' = wd_files w"
    by (metis world.select_convs(2) world.surjective world.update_convs(1), metis world.select_convs(5) world.surjective world.update_convs(1))
  moreover from adv assms(4) obtain p' e e' where "transition_case c t a = Inr (c', e)" "same_case c' p'"
    "same_event e e'" "sql_view (wd_cases w') = (sql_view (wd_cases w))(i \<mapsto> (p', es @ [e']))" by fastforce
  ultimately show thesis using that by blast
qed

section \<open>The checks\<close>

text \<open>What the gate demands of a case and the records it names, at the time the gate reads.\<close>

definition gate_holds ::
  "review_gate \<Rightarrow> string \<Rightarrow> remediation_case \<Rightarrow> gathered \<Rightarrow> string \<Rightarrow> bool" where
  "gate_holds g i c recs now =
     (list_all (\<lambda>(k, kind). \<exists>r. dict_get recs k = Some r \<and> pr_case_id r = i \<and> pr_record_type r = kind \<and>
                  pr_evidence_ids r \<noteq> []) gate_records \<and>
      plan_gate recs = Inr True \<and> (hg_state_grounded g \<longrightarrow> state_grounded recs = Inr True) \<and>
      approved_review recs ''sre_review_id'' sre_semantic_failures \<and>
      approved_review recs ''rollback_review_id'' rollback_semantic_failures \<and>
      (\<exists>ids. model_identities recs = Inr ids \<and> hg_minimum_models g \<le> int (length ids)) \<and>
      (\<exists>win starts current. rc_change_window c = Some win \<and> parse_timestamp (cw_starts_at win) = Inr starts \<and>
         parse_timestamp now = Inr current \<and> current < starts))"

text \<open>The records are those the case names.\<close>

definition names_records :: "'x world \<Rightarrow> remediation_case \<Rightarrow> gathered \<Rightarrow> bool" where
  "names_records w c recs = (\<forall>k r. dict_get recs k = Some r \<longrightarrow>
     sql_record_view (wd_records w) (case_record_id c k) = Some r)"

definition gathered_ok :: "'x world \<Rightarrow> string \<Rightarrow> remediation_case \<Rightarrow> string \<times> string \<Rightarrow> string \<times> product_record \<Rightarrow> bool" where
  "gathered_ok w i c e kr = (fst kr = fst e \<and> sql_record_view (wd_records w) (case_record_id c (fst e)) = Some (snd kr) \<and>
     pr_case_id (snd kr) = i \<and> pr_record_type (snd kr) = snd e)"

lemma gather_list:
  assumes "sql_record_ok (wd_records w)" "mapM (gather_one i c) es w = (Inr found, w')"
  shows "w' = w \<and> (list_all gk_passed (map fst found) \<longrightarrow>
     list_all2 (gathered_ok w i c) es (List.map_filter snd found))"
  using assms(2)
proof (induction es arbitrary: found)
  case (Cons e es)
  then obtain f w1 fs where f: "gather_one i c e w = (Inr f, w1)"
    and fs: "mapM (gather_one i c) es w1 = (Inr fs, w')" and found: "found = f # fs"
    by (auto simp: run_simps)
  have one: "w1 = w \<and> (gk_passed (fst f) \<longrightarrow> (\<exists>kr. snd f = Some kr \<and> gathered_ok w i c e kr))"
    using f get_record_run [OF assms(1), of "case_record_id c (fst e)"]
    by (auto simp: gather_one_def run_simps mk_gate_check_def gathered_ok_def bindM_def ret_def
        split: if_splits option.splits)
  with fs have "mapM (gather_one i c) es w = (Inr fs, w')" by simp
  note IH = Cons.IH [OF this]
  show ?case using one IH unfolding found by (auto simp: List.map_filter_simps)
qed (simp add: run_simps List.map_filter_simps)

lemma gathered_records:
  assumes "list_all2 (gathered_ok w i c) gate_records recs" "evidence_gate recs"
  shows "list_all (\<lambda>(k, kind). \<exists>r. dict_get recs k = Some r \<and> pr_case_id r = i \<and> pr_record_type r = kind \<and>
      pr_evidence_ids r \<noteq> []) gate_records \<and> names_records w c recs"
proof -
  from assms(1) obtain r1 r2 r3 r4 r5 r6 where recs: "recs =
    [(''validation_result_id'', r1), (''iac_link_id'', r2), (''change_plan_id'', r3), (''sre_review_id'', r4),
     (''change_window_id'', r5), (''rollback_review_id'', r6)]"
    and ok: "gathered_ok w i c (''validation_result_id'', ''ValidationResult.v1'') (''validation_result_id'', r1)"
      "gathered_ok w i c (''iac_link_id'', ''IaCLink.v1'') (''iac_link_id'', r2)"
      "gathered_ok w i c (''change_plan_id'', ''RemediationPlan.v1'') (''change_plan_id'', r3)"
      "gathered_ok w i c (''sre_review_id'', ''SREReview.v1'') (''sre_review_id'', r4)"
      "gathered_ok w i c (''change_window_id'', ''ChangeWindowRecommendation.v1'') (''change_window_id'', r5)"
      "gathered_ok w i c (''rollback_review_id'', ''RollbackReview.v1'') (''rollback_review_id'', r6)"
    unfolding gate_records_def
    by (auto simp: list_all2_Cons1 gathered_ok_def)
  have ev: "pr_evidence_ids r \<noteq> []" if "r \<in> {r1, r2, r3, r4, r5, r6}" for r
    using assms(2) that unfolding evidence_gate_def recs by auto
  have "names_records w c recs"
    using ok unfolding names_records_def recs gathered_ok_def by (auto simp: dict_get_def split: if_splits)
  moreover have "list_all (\<lambda>(k, kind). \<exists>r. dict_get recs k = Some r \<and> pr_case_id r = i \<and> pr_record_type r = kind \<and>
      pr_evidence_ids r \<noteq> []) gate_records"
    using ok ev unfolding recs gate_records_def gathered_ok_def by (simp add: dict_get_def)
  ultimately show ?thesis by simp
qed

lemma window_gate_run:
  assumes "window_gate env c w = (Inr b, w')"
  shows "wd_cases w' = wd_cases w \<and> wd_records w' = wd_records w \<and>
    (b \<longrightarrow> (\<exists>win starts current. rc_change_window c = Some win \<and> parse_timestamp (cw_starts_at win) = Inr starts \<and>
       parse_timestamp (env_now env (wd_tick w)) = Inr current \<and> current < starts))"
  using assms by (auto simp: window_gate_def run_simps split: option.splits)

lemma gate_checks_hold:
  assumes "sql_record_ok (wd_records w)" "gate_checks g i c w = (Inr (checks, recs), w')"
    and "list_all gk_passed checks"
  shows "wd_cases w' = wd_cases w \<and> wd_records w' = wd_records w \<and> names_records w c recs \<and>
    gate_holds g i c recs (env_now (hg_env g) (wd_tick w))"
proof -
  from assms(2) obtain owned w1 judged b w2 where
    gather: "gather i c w = (Inr (owned, recs), w1)" and judged: "record_checks g recs = Inr judged"
    and win: "window_gate (hg_env g) c w1 = (Inr b, w')"
    and checks: "checks = owned @ judged @ [mk_gate_check ''future_change_window'' b
         (case rc_change_window c of None \<Rightarrow> ''missing'' | Some w \<Rightarrow> cw_starts_at w),
       mk_gate_check ''evidence_chain'' (evidence_gate recs)
         (show_nat (length (gate_evidence recs)) @ '' immutable evidence references'')]"
    by (auto simp: gate_checks_def run_simps)
  from gather obtain found where found: "mapM (gather_one i c) gate_records w = (Inr found, w1)"
    "owned = map fst found" "recs = List.map_filter snd found"
    by (auto simp: gather_def run_simps)
  have passed: "list_all gk_passed (map fst found)" "list_all gk_passed judged" b "evidence_gate recs"
    using assms(3) unfolding checks found(2) by (simp_all add: mk_gate_check_def)
  from gather_list [OF assms(1) found(1)] passed(1) found(3)
  have w1: "w1 = w" and l: "list_all2 (gathered_ok w i c) gate_records recs" by auto
  note recs = gathered_records [OF l passed(4)]
  note window = window_gate_run [OF win]
  have "plan_gate recs = Inr True \<and> (hg_state_grounded g \<longrightarrow> state_grounded recs = Inr True) \<and>
      approved_review recs ''sre_review_id'' sre_semantic_failures \<and>
      approved_review recs ''rollback_review_id'' rollback_semantic_failures \<and>
      (\<exists>ids. model_identities recs = Inr ids \<and> hg_minimum_models g \<le> int (length ids))"
    using judged passed(2)
    by (auto simp: record_checks_def grounded_checks_def res_simps mk_gate_check_def split: if_splits)
  with recs window passed(3) show ?thesis unfolding gate_holds_def w1 by blast
qed

section \<open>The package\<close>

text \<open>What a person is shown: the case, the six records that were reviewed, each whole, and the policy
  decision.\<close>

definition package_shows ::
  "string \<Rightarrow> remediation_case \<Rightarrow> gathered \<Rightarrow> product_record \<Rightarrow> pyval \<Rightarrow> bool" where
  "package_shows package_id c recs policy body =
     (is_dict body \<and> dict_get (dict_items body) ''review_package_id'' = Some (PStr package_id) \<and>
      dict_get (dict_items body) ''case'' = Some (case_to_dict c) \<and>
      list_all (\<lambda>(name, key). \<exists>r. dict_get recs key = Some r \<and>
          dict_get (dict_items body) name = Some (product_record_to_dict r))
        [(''validation'', ''validation_result_id''), (''iac_link'', ''iac_link_id''),
         (''remediation_plan'', ''change_plan_id''), (''sre_review'', ''sre_review_id''),
         (''change_window'', ''change_window_id''), (''rollback_review'', ''rollback_review_id'')] \<and>
      dict_get (dict_items body) ''policy_decision'' = Some (product_record_to_dict policy))"

lemma package_body_shows:
  assumes "package_body package_id c recs policy = Inr body"
  shows "package_shows package_id c recs policy body"
  using assms
  by (auto simp: package_body_def package_shows_def package_entry_def res_simps dict_items_def dict_get_def
      split: option.splits)

section \<open>The gate\<close>

lemma request_run:
  assumes "request_approval g i c checks recs w = (Inr out, w')"
  shows "\<exists>now pid kid eid body w1 w2 w3. package_body kid c recs (hr_policy out) = Inr body \<and>
    store_record (review_record pid i ''PolicyDecision.v1'' now (policy_body pid checks) (gate_evidence recs)) w1 =
       (Inr (hr_policy out), w2) \<and>
    store_record (review_record kid i ''HumanReviewPackage.v1'' now body (gate_evidence recs)) w2 =
       (Inr (hr_package out), w3) \<and>
    advance i REQUEST_APPROVAL (basic_args eid now ''approval-policy''
        [(''policy_decision_id'', pid), (''human_review_package_id'', kid)] (gate_evidence recs))
        (w3\<lparr>wd_tick := wd_tick w3 + 1\<rparr>) = (Inr (hr_case out), w') \<and>
    wd_cases w1 = wd_cases w \<and> wd_records w1 = wd_records w"
proof -
  let ?n = "wd_tick w" and ?e = "hg_env g"
  let ?w1 = "w\<lparr>wd_tick := ?n + 1 + 1 + 1\<rparr>"
  let ?now = "env_now ?e ?n" and ?pid = "env_id ?e (?n + 1) ''POL''" and ?kid = "env_id ?e (?n + 1 + 1) ''REVIEW''"
  from assms obtain policy w2 body package w3 c' where
    1: "store_record (review_record ?pid i ''PolicyDecision.v1'' ?now (policy_body ?pid checks) (gate_evidence recs)) ?w1 =
       (Inr policy, w2)"
    and b: "package_body ?kid c recs policy = Inr body"
    and 2: "store_record (review_record ?kid i ''HumanReviewPackage.v1'' ?now body (gate_evidence recs)) w2 = (Inr package, w3)"
    and 3: "advance i REQUEST_APPROVAL (basic_args (env_id ?e (wd_tick w3) ''EVT'') ?now ''approval-policy''
        [(''policy_decision_id'', ?pid), (''human_review_package_id'', ?kid)] (gate_evidence recs))
        (w3\<lparr>wd_tick := wd_tick w3 + 1\<rparr>) = (Inr c', w')"
    and out: "out = \<lparr> hr_case = c', hr_policy = policy, hr_package = package \<rparr>"
    by (simp add: request_approval_def run_simps) blast
  have "wd_cases ?w1 = wd_cases w" "wd_records ?w1 = wd_records w" by simp_all
  with 1 2 3 b show ?thesis unfolding out human_review_outcome.simps by blast
qed

lemma gate_checks_same_cases: "stays same_cases (gate_checks g i c)"
proof -
  have "stays same_cases (get_record k)" for k
    by (rule staysI) (auto simp: same_cases_def get_record_def run_simps)
  moreover have "stays same_cases (clock_now env)" for env
    by (rule collected_same_cases) (rule collect_intros)
  ultimately show ?thesis
    unfolding gate_checks_def gather_def gather_one_def window_gate_def
    by (intro same_cases.bindM same_cases.pure same_cases.mapM stays_if stays_case_prod stays_case_option)
qed

lemma gate_moves_last: "moves_last (prepare_human_review g i)"
proof -
  have get: "stays same_cases (get_case i)"
    by (rule staysI) (auto simp: same_cases_def get_case_view)
  show ?thesis
    unfolding prepare_human_review_def request_approval_def Let_def
    by (intro moves_last_rules collect_intros moves_last_then [OF get] moves_last_then [OF same_cases.pure(3)]
        moves_last_then [OF same_cases.pure(4)] moves_last_then [OF gate_checks_same_cases]) simp
qed

lemma gate_returns:
  assumes "cases_ok (wd_cases w)" "sql_record_ok (wd_records w)"
    and run: "prepare_human_review g i w = (Inr out, w')"
  shows "\<exists>c es e c' recs.
       sql_view (wd_cases w) i = Some (c, es) \<and> rc_state c = ROLLBACK_READY \<and>
       names_records w c recs \<and> gate_holds g i c recs (env_now (hg_env g) (wd_tick w)) \<and>
       sql_view (wd_cases w') = (sql_view (wd_cases w))(i \<mapsto> (c', es @ [e])) \<and>
       sql_record_view (wd_records w) (pr_record_id (hr_package out)) = None \<and>
       awaited i (pr_record_id (hr_package out)) w' c' (es @ [e]) (json_record (hr_package out)) \<and>
       package_shows (pr_record_id (hr_package out)) c recs (hr_policy out) (pr_body (hr_package out)) \<and>
       pr_evidence_ids (hr_package out) = gate_evidence recs \<and>
       (\<exists>checks v. gate_checks g i c w = (Inr (checks, recs), v) \<and>
          pr_body (hr_policy out) = policy_body (pr_record_id (hr_policy out)) checks)"
proof -
  from run obtain c w0 checks recs w1 where
    get: "get_case i w = (Inr c, w0)" "rc_state c = ROLLBACK_READY"
    and checks: "gate_checks g i c w0 = (Inr (checks, recs), w1)"
    and none: "filter (\<lambda>k. \<not> gk_passed k) checks = []"
    and req: "request_approval g i c checks recs w1 = (Inr out, w')"
    by (auto simp: prepare_human_review_def run_simps Let_def)
  from get(1) get_case_view [OF assms(1), of i] obtain es where
    w0: "w0 = w" and c: "sql_view (wd_cases w) i = Some (c, es)" by (auto split: option.splits)
  have "list_all gk_passed checks" using none by (induction checks) (auto split: if_splits)
  note holds = gate_checks_hold [OF assms(2) checks [unfolded w0] this]
  have w1: "wd_cases w1 = wd_cases w" "wd_records w1 = wd_records w" using holds by simp_all
  from request_run [OF req, unfolded w1] obtain now pid kid eid body w2 w3 w4 where
    body: "package_body kid c recs (hr_policy out) = Inr body" and
    pol: "store_record (review_record pid i ''PolicyDecision.v1'' now (policy_body pid checks) (gate_evidence recs)) w2 =
       (Inr (hr_policy out), w3)"
    and pkg: "store_record (review_record kid i ''HumanReviewPackage.v1'' now body (gate_evidence recs)) w3 =
       (Inr (hr_package out), w4)"
    and adv: "advance i REQUEST_APPROVAL (basic_args eid now ''approval-policy''
        [(''policy_decision_id'', pid), (''human_review_package_id'', kid)] (gate_evidence recs))
        (w4\<lparr>wd_tick := wd_tick w4 + 1\<rparr>) = (Inr (hr_case out), w')"
    and w2: "wd_cases w2 = wd_cases w" "wd_records w2 = wd_records w"
    by blast
  note P = store_record_view [OF _ pol, unfolded w2(2), OF assms(2)]
  note K = store_record_view [OF _ pkg]
  have w4: "wd_cases w4 = wd_cases w"
    using store_record_frame [OF pol] store_record_frame [OF pkg] w2(1) by simp
  let ?w = "w4\<lparr>wd_tick := wd_tick w4 + 1\<rparr>"
  have W: "cases_ok (wd_cases ?w)" "sql_view (wd_cases ?w) i = Some (c, es)" using w4 assms(1) c by simp_all
  from advance_returned [OF W(1) args_ok_basic adv W(2)]
  obtain p' e e' where tr: "transition_case c REQUEST_APPROVAL (basic_args eid now ''approval-policy''
        [(''policy_decision_id'', pid), (''human_review_package_id'', kid)] (gate_evidence recs)) = Inr (hr_case out, e)"
    "same_case (hr_case out) p'" "sql_view (wd_cases w') = (sql_view (wd_cases ?w))(i \<mapsto> (p', es @ [e']))"
    "wd_records w' = wd_records ?w" by blast
  have "rc_state (hr_case out) = AWAITING_APPROVAL"
    using transition_caseD(4) [OF tr(1)] get(2)
    by (simp add: transition_target_linear linear_transition_def linear_transitions_def)
  moreover have "dict_get (rc_record_ids (hr_case out)) ''human_review_package_id'' = Some kid"
    using transition_caseD(17) [OF tr(1)] by (simp add: merged_records_def basic_args_def dict_update_def)
  ultimately have p': "rc_state p' = AWAITING_APPROVAL"
    "dict_get (rc_record_ids p') ''human_review_package_id'' = Some kid"
    using tr(2) same_case_fields(6) [OF tr(2)] unfolding same_case_def by metis+
  have pack: "hr_package out = review_record kid i ''HumanReviewPackage.v1'' now body (gate_evidence recs)"
    "sql_record_view (wd_records w3) kid = None"
    "sql_record_view (wd_records w4) kid = Some (json_record (hr_package out))"
    using K P by (simp_all add: review_record_def)
  have fresh: "sql_record_view (wd_records w) kid = None"
    using pack(2) P by (auto split: if_splits)
  have "awaited i kid w' p' (es @ [e']) (json_record (hr_package out))"
    unfolding awaited_def using p' tr(3,4) w4 pack by (simp add: json_record_def review_record_def)
  moreover have "pr_record_id (hr_package out) = kid" by (simp add: pack(1) review_record_def)
  moreover have "package_shows kid c recs (hr_policy out) (pr_body (hr_package out)) \<and>
      pr_evidence_ids (hr_package out) = gate_evidence recs"
    using package_body_shows [OF body] by (simp add: pack(1) review_record_def)
  moreover have "pr_body (hr_policy out) = policy_body (pr_record_id (hr_policy out)) checks"
    using P by (simp add: review_record_def)
  moreover have "sql_view (wd_cases w') = (sql_view (wd_cases w))(i \<mapsto> (p', es @ [e']))"
    using tr(3) w4 by simp
  ultimately show ?thesis using c get(2) holds fresh checks [unfolded w0] by blast
qed

text \<open>C29: A case comes to await a person's decision only when every mechanical check held: the six
  records it names are its own, of their types and with evidence, the plan and both reviews passed,
  enough models took part and the window is still ahead. The package to decide on shows the case as
  it was, each of these six records whole and the policy decision, which lists exactly the checks
  made; it carries their evidence, is stored under a fresh id, and the case is bound to it.
  Whenever the gate raises, no case has changed.\<close>

theorem human_review_gate:
  assumes "cases_ok (wd_cases w)" "sql_record_ok (wd_records w)"
    and "prepare_human_review g i w = (r, w')"
  shows "case r of
     Inl x \<Rightarrow> wd_cases w' = wd_cases w
   | Inr out \<Rightarrow> \<exists>c es e c' recs.
       sql_view (wd_cases w) i = Some (c, es) \<and> rc_state c = ROLLBACK_READY \<and>
       names_records w c recs \<and> gate_holds g i c recs (env_now (hg_env g) (wd_tick w)) \<and>
       sql_view (wd_cases w') = (sql_view (wd_cases w))(i \<mapsto> (c', es @ [e])) \<and>
       sql_record_view (wd_records w) (pr_record_id (hr_package out)) = None \<and>
       awaited i (pr_record_id (hr_package out)) w' c' (es @ [e]) (json_record (hr_package out)) \<and>
       package_shows (pr_record_id (hr_package out)) c recs (hr_policy out) (pr_body (hr_package out)) \<and>
       pr_evidence_ids (hr_package out) = gate_evidence recs \<and>
       (\<exists>checks v. gate_checks g i c w = (Inr (checks, recs), v) \<and>
          pr_body (hr_policy out) = policy_body (pr_record_id (hr_policy out)) checks)"
proof (cases r)
  case (Inl x)
  then show ?thesis using gate_moves_last [of g i] assms unfolding moves_last_def by auto
next
  case (Inr out)
  with gate_returns [OF assms(1,2)] assms(3) show ?thesis by simp
qed

end
