(* ===== verification/Review_Properties.thy ===== *)
theory Review_Properties
  imports Gate_Properties
begin

text \<open>
  Properties of the agents' part of the way to a decision: what an answer has to satisfy and how often
  an agent is asked, what a rollback review does to the case, and what the orchestrator returns.
\<close>

section \<open>Asking an agent\<close>

text \<open>C32: An agent's answer is accepted only when it answers the task that was dispatched, passes the
  output contract, says what its decision requires, cites every mandatory piece of evidence and
  reports success, however many corrections it took.\<close>

theorem accepted_answer_checked:
  assumes "accepted_answer sg check required task w = (Inr r, w')"
  shows "validate_result task r = [] \<and>
    validate_output (sg_schema sg) (at_output_contract task) (PDict (ar_output r)) = Inr [] \<and>
    semantic_failures check r = [] \<and> set required \<subseteq> set (ar_evidence_cited r) \<and>
    ar_status r = SUCCEEDED"
  using accepted_answer_acceptable [OF assms] unfolding acceptable_def by blast

text \<open>Any way to count that grows by at most one with each run of the agent.\<close>

definition counts_runs :: "'x agent_runtime \<Rightarrow> ('x world \<Rightarrow> nat) \<Rightarrow> bool" where
  "counts_runs rt count = (\<forall>task w. count (snd (rt_run rt task w)) \<le> count w + 1)"

definition runs_at_most :: "('x world \<Rightarrow> nat) \<Rightarrow> nat \<Rightarrow> ('x world, 'a) prog \<Rightarrow> bool" where
  "runs_at_most count n m = (\<forall>w. count (snd (m w)) \<le> count w + n)"

lemma runs_at_mostD: "runs_at_most count n m \<Longrightarrow> m w = (r, w') \<Longrightarrow> count w' \<le> count w + n"
  unfolding runs_at_most_def by (metis snd_conv)

lemma ask_once: "counts_runs (sg_runtime sg) count \<Longrightarrow> runs_at_most count 1 (ask_agent sg check task)"
proof -
  assume c: "counts_runs (sg_runtime sg) count"
  have "snd (ask_agent sg check task w) = snd (rt_run (sg_runtime sg) task w)" for w
    by (auto simp: ask_agent_def run_defs split: prod.splits sum.splits)
  with c show ?thesis unfolding counts_runs_def runs_at_most_def by metis
qed

lemma correct_answer_runs:
  assumes "counts_runs (sg_runtime sg) count" "correct_answer sg check n task a w = (r, w')"
  shows "case r of Inr (m, _) \<Rightarrow> m \<le> n \<and> count w' \<le> count w + (n - m) | Inl _ \<Rightarrow> count w' \<le> count w + n"
  using assms(2)
proof (induction n arbitrary: task a w)
  case (Suc n)
  show ?case
  proof (cases "ca_semantic a \<noteq> [] \<and> ca_failures a = []")
    case True
    let ?t = "demanding task (corrections (ca_semantic a))"
    obtain x v where x: "ask_agent sg check ?t w = (x, v)" by (cases "ask_agent sg check ?t w")
    have v: "count v \<le> count w + 1" using runs_at_mostD [OF ask_once [OF assms(1)] x] .
    show ?thesis
    proof (cases x)
      case (Inl e)
      with Suc.prems True x have "r = Inl e" "w' = v" by (auto simp: Let_def bindM_def)
      with v show ?thesis by simp
    next
      case (Inr b)
      with Suc.prems True x have "correct_answer sg check n ?t b v = (r, w')" by (auto simp: Let_def bindM_def)
      from Suc.IH [OF this] v show ?thesis by (auto split: sum.splits prod.splits)
    qed
  qed (use Suc.prems in \<open>auto simp: ret_def\<close>)
qed (auto simp: ret_def)

lemma complete_citations_runs:
  assumes "counts_runs (sg_runtime sg) count" "complete_citations sg check required left task a w = (r, w')"
  shows "count w' \<le> count w + (if left = 0 then 0 else 1)"
proof -
  obtain m :: "agent_task" where d: "complete_citations sg check required left task a w = (r, w') \<Longrightarrow>
      (w' = w \<or> left \<noteq> 0 \<and> w' = snd (ask_agent sg check m w))"
    by (rule that [of "demanding task
             [''The previous response omitted mandatory citations. Return a corrected response citing ''
              @ ''all of these evidence IDs: ''
              @ str_join '', '' (set_minus required (ar_evidence_cited (ca_result a)))]"])
      (auto simp: complete_citations_def Let_def run_defs split: if_splits prod.splits sum.splits)
  have "count (snd (ask_agent sg check m w)) \<le> count w + 1"
    using ask_once [OF assms(1)] unfolding runs_at_most_def by blast
  with d [OF assms(2)] show ?thesis by auto
qed

text \<open>C33: An agent is asked at most three times for one answer, corrections of content and of citations
  together, whether the answer is accepted, refused or the agent raises.\<close>

theorem agent_asked_at_most_three_times:
  assumes "\<And>t v. count (snd (rt_run (sg_runtime sg) t v)) \<le> count v + (1 :: nat)"
  shows "count (snd (accepted_answer sg check required task w)) \<le> count w + 3"
proof -
  have c: "counts_runs (sg_runtime sg) count" using assms by (simp add: counts_runs_def)
  define t where "t = (if required = [] then task
    else demanding task [''Cite every mandatory evidence ID exactly: '' @ str_join '', '' required])"
  have unfolded: "accepted_answer sg check required task =
    bindM (ask_agent sg check t) (\<lambda>a. bindM (correct_answer sg check 2 t a) (\<lambda>(left, task', a').
      bindM (complete_citations sg check required left task' a') (\<lambda>(r, failures).
      bindM (guardM (failures = []) PreApprovalError (str_join ''; '' failures)) (\<lambda>_.
      bindM (guardM (ar_status r = SUCCEEDED) PreApprovalError
         (agent_role_value (at_role task) @ '' did not succeed: ''
           @ (if ar_missing_evidence r = [] \<or> str_join '', '' (ar_missing_evidence r) = []
              then agent_status_value (ar_status r) else str_join '', '' (ar_missing_evidence r)))) (\<lambda>_. ret r)))))"
    by (simp add: accepted_answer_def t_def Let_def)
  obtain x w1 where x: "ask_agent sg check t w = (x, w1)" by (cases "ask_agent sg check t w")
  have w1: "count w1 \<le> count w + 1" using runs_at_mostD [OF ask_once [OF c] x] .
  show ?thesis
  proof (cases x)
    case (Inl e)
    then show ?thesis using x w1 unfolding unfolded by (simp add: bindM_def)
  next
    case (Inr a)
    obtain y w2 where y: "correct_answer sg check 2 t a w1 = (y, w2)" by (cases "correct_answer sg check 2 t a w1")
    note Y = correct_answer_runs [OF c y]
    show ?thesis
    proof (cases y)
      case (Inl e)
      then show ?thesis using x Inr y Y w1 unfolding unfolded by (simp add: bindM_def)
    next
      case inr: (Inr z)
      obtain left task' a' where z: "z = (left, task', a')" by (cases z)
      obtain u w3 where u: "complete_citations sg check required left task' a' w2 = (u, w3)"
        by (cases "complete_citations sg check required left task' a' w2")
      have "snd (accepted_answer sg check required task w) = w3"
        using x Inr y inr z u unfolding unfolded
        by (cases u) (auto simp: run_defs guardE_def split: sum.splits prod.splits)
      moreover have "count w3 \<le> count w2 + (if left = 0 then 0 else 1)"
        using complete_citations_runs [OF c u] .
      ultimately show ?thesis using Y w1 unfolding inr z by (auto split: if_splits)
    qed
  qed
qed

section \<open>Rollback review\<close>

lemma history_sequences: "history c es \<Longrightarrow> \<forall>e \<in> set es. ev_sequence e \<le> rc_version c"
proof (induction rule: history_induct)
  case (transition c es t a c' e)
  from recordedD(8,11) [OF transition(2)] transition(3) show ?case by fastforce
qed simp

lemma cycle_start_snoc:
  "ev_transition e \<noteq> ADD_FINDING \<Longrightarrow> cycle_start (es @ [e]) = cycle_start es"
  by (simp add: cycle_start_def)

lemma cycle_start_le: "\<forall>e \<in> set es. ev_sequence e \<le> n \<Longrightarrow> 0 \<le> n \<Longrightarrow> cycle_start es \<le> n"
  by (auto simp: cycle_start_def Let_def filter_empty_conv intro!: Max.boundedI)

text \<open>Agents that only answer leave the cases alone.\<close>

definition agent_same_cases :: "'x agent_runtime \<Rightarrow> bool" where
  "agent_same_cases rt = (\<forall>task. stays same_cases (rt_run rt task))"

named_theorems same_intros

lemmas same_rules [same_intros] = same_cases.bindM same_cases.tryM same_cases.mapM same_cases.pure stays_if
  stays_case_option stays_case_prod stays_let store_record_same_cases

lemma same_readings [same_intros]:
  "stays same_cases (clock_now env)" "stays same_cases (new_id env p)"
  "stays same_cases (write_evidence env d i k pl c sens cmd n)"
  by (rule collected_same_cases, rule collect_intros)+

lemma same_gets [same_intros]: "stays same_cases (get_case i)" "stays same_cases (get_record k)"
  by (rule staysI, auto simp: same_cases_def get_case_view get_record_def run_simps)+

lemma run_agent_same [same_intros]:
  assumes "agent_same_cases (sg_runtime sg)" shows "stays same_cases (run_agent sg check required d task)"
proof -
  have ask: "stays same_cases (ask_agent sg check t)" for t
    using assms unfolding ask_agent_def agent_same_cases_def by (intro same_intros) blast
  have "stays same_cases (correct_answer sg check n t a)" for n t a
    by (induction n arbitrary: t a) (auto simp: Let_def intro!: same_intros ask)
  with ask show ?thesis
    unfolding run_agent_def accepted_answer_def complete_citations_def Let_def by (intro same_intros)
qed

text \<open>The state a decision of the rollback reviewer leads to.\<close>

definition rollback_target :: "pyval \<Rightarrow> string list \<Rightarrow> case_event list \<Rightarrow> case_state" where
  "rollback_target decision changes es =
     (if decision = PStr ''approve'' then ROLLBACK_READY
      else if decision = PStr ''reject'' then
        (if changes \<noteq> [] \<and> \<not> already_reworked es then VALIDATED else REJECTED)
      else BLOCKED)"

lemma rollback_decide_run:
  assumes ok: "cases_ok (wd_cases w)" and view: "sql_view (wd_cases w) i = Some (c, es)"
    and state: "rc_state c = WINDOW_SELECTED"
    and args: "args_ok common"
    and run: "rollback_decide i k decision r common w = (Inr c', w')"
  shows "\<exists>p e changes. sql_view (wd_cases w') = (sql_view (wd_cases w))(i \<mapsto> (p, es @ [e])) \<and>
    same_case c' p \<and>
    (decision = PStr ''reject'' \<longrightarrow> strings_of (ar_output r) ''required_changes'' False = Inr changes) \<and>
    rc_state p = rollback_target decision changes es \<and>
    (rc_state p = VALIDATED \<longrightarrow> already_reworked (es @ [e]))"
proof -
  have log: "case_log i v = (Inr es, v)" if "wd_cases v = wd_cases w" for v
    using sql.events_law [of "wd_cases w" i] ok view that
    by (simp add: case_log_def on_cases_def cases_ok_def)
  have "\<exists>t a changes. advance i t a w = (Inr c', w') \<and> args_ok a \<and>
     t = (if decision = PStr ''approve'' then REVIEW_ROLLBACK
        else if decision = PStr ''reject'' then
          (if changes \<noteq> [] \<and> \<not> already_reworked es then REQUEST_REWORK else REJECT) else BLOCK) \<and>
     (decision = PStr ''reject'' \<longrightarrow> strings_of (ar_output r) ''required_changes'' False = Inr changes)"
  proof (cases "decision = PStr ''reject''")
    case True
    then obtain changes smry where ch: "strings_of (ar_output r) ''required_changes'' False = Inr changes"
      and go: "(if changes \<noteq> [] \<and> \<not> already_reworked es then
          advance i REQUEST_REWORK (common\<lparr>ta_record_ids := [(''review_feedback_id'', k)], ta_detail := smry\<rparr>)
        else advance i REJECT (common\<lparr>ta_detail := smry\<rparr>)) w = (Inr c', w')"
      using run by (auto simp: rollback_decide_def run_simps log)
    then show ?thesis using True args
      by (cases "changes \<noteq> [] \<and> \<not> already_reworked es") (auto intro!: exI)
  next
    case False
    then show ?thesis using run args
      by (cases "decision = PStr ''approve''")
        (auto simp: rollback_decide_def run_simps intro: exI [of _ common] exI [of _ "common\<lparr>ta_detail := _\<rparr>"])
  qed
  then obtain t a changes where adv: "advance i t a w = (Inr c', w')" "args_ok a"
    and t: "t = (if decision = PStr ''approve'' then REVIEW_ROLLBACK
        else if decision = PStr ''reject'' then
          (if changes \<noteq> [] \<and> \<not> already_reworked es then REQUEST_REWORK else REJECT) else BLOCK)"
    and ch: "decision = PStr ''reject'' \<longrightarrow> strings_of (ar_output r) ''required_changes'' False = Inr changes"
    by blast
  from advance_returned [OF ok adv(2,1) view] obtain p e e' where
    tr: "transition_case c t a = Inr (c', e)" "same_case c' p" "same_event e e'"
    "sql_view (wd_cases w') = (sql_view (wd_cases w))(i \<mapsto> (p, es @ [e']))" by blast
  have target: "rc_state c' = rollback_target decision changes es"
    using transition_caseD(4) [OF tr(1)] state unfolding t rollback_target_def
    by (auto simp: transition_target_linear linear_transition_def linear_transitions_def res_simps split: if_splits)
  moreover have "already_reworked (es @ [e'])" if "rc_state c' = VALIDATED"
  proof -
    from that target t have tt: "t = REQUEST_REWORK" by (auto simp: rollback_target_def split: if_splits)
    have e': "ev_transition e' = REQUEST_REWORK" "ev_sequence e' = rc_version c + 1"
      using same_event_fields [OF tr(3)] transition_caseD(19,20) [OF tr(1)] tt by simp_all
    have "history c es" using view_case_ok [OF ok view] by blast
    then have "cycle_start es \<le> rc_version c"
      using cycle_start_le [OF history_sequences] transition_caseD(12) [OF tr(1)] by blast
    then show ?thesis using e' by (simp add: already_reworked_def cycle_start_snoc)
  qed
  ultimately show ?thesis using tr(2,4) ch same_case_fields(6) [OF tr(2)] by metis
qed

lemma rollback_review_run:
  assumes "rollback_review_case sg i w = (Inr out, w')"
  shows "\<exists>plan sre window w1 v now k task req dir ev w2 body rec w3 x.
    rollback_inputs i w = (Inr (plan, sre, window), w1) \<and> wd_cases v = wd_cases w1 \<and>
    run_agent sg (Some rollback_semantic_failures) req dir task v = (Inr (ro_result out, ev), w2) \<and>
    item (PDict (ar_output (ro_result out))) ''decision'' = Inr x \<and>
    store_record (review_record k i ''RollbackReview.v1'' now body
       (dedup (dedup (pr_evidence_ids plan @ pr_evidence_ids sre @ pr_evidence_ids window) @ [ev]))) w2 = (Inr rec, w3) \<and>
    rollback_decide i k x (ro_result out)
      (basic_args (env_id (sg_env sg) (wd_tick w3) ''EVT'') now ''rollback-reviewer'' [(''rollback_review_id'', k)]
         (dedup (dedup (pr_evidence_ids plan @ pr_evidence_ids sre @ pr_evidence_ids window) @ [ev])))
      (w3\<lparr>wd_tick := wd_tick w3 + 1\<rparr>) = (Inr (ro_case out), w')"
proof -
  from assms obtain plan sre window w1 task p s win r ev w2 x body rec w3 c' where
    *: "rollback_inputs i w = (Inr (plan, sre, window), w1)"
    "run_agent sg (Some rollback_semantic_failures) [p, s, win]
       (sg_artifact_root sg @ ''/cases/'' @ i @ ''/rollback/'' @ env_id (sg_env sg) (wd_tick w1) ''RBK'') task
       (w1\<lparr>wd_tick := wd_tick w1 + 1 + 1 + 1\<rparr>) = (Inr (r, ev), w2)"
    "item (PDict (ar_output r)) ''decision'' = Inr x"
    "store_record (review_record (env_id (sg_env sg) (wd_tick w1) ''RBK'') i ''RollbackReview.v1''
       (env_now (sg_env sg) (wd_tick w1 + 1 + 1)) body
       (dedup (dedup (pr_evidence_ids plan @ pr_evidence_ids sre @ pr_evidence_ids window) @ [ev]))) w2 = (Inr rec, w3)"
    "rollback_decide i (env_id (sg_env sg) (wd_tick w1) ''RBK'') x r
      (basic_args (env_id (sg_env sg) (wd_tick w3) ''EVT'') (env_now (sg_env sg) (wd_tick w1 + 1 + 1)) ''rollback-reviewer''
        [(''rollback_review_id'', env_id (sg_env sg) (wd_tick w1) ''RBK'')]
         (dedup (dedup (pr_evidence_ids plan @ pr_evidence_ids sre @ pr_evidence_ids window) @ [ev])))
      (w3\<lparr>wd_tick := wd_tick w3 + 1\<rparr>) = (Inr c', w')"
    "out = \<lparr> ro_case = c', ro_record = rec, ro_result = r \<rparr>"
    unfolding rollback_review_case_def Let_def case_prod_unfold run_simps
    by (clarsimp simp: run_simps)
  have v: "wd_cases (w1\<lparr>wd_tick := wd_tick w1 + 1 + 1 + 1\<rparr>) = wd_cases w1" by simp
  show ?thesis using *(1-5) v unfolding *(6) review_outcome.simps by blast
qed

text \<open>C31: A rollback review moves a case whose window was selected exactly as its decision says: approval
  makes it ready for the gate, a rejection that names changes sends it back for a new plan unless
  that already happened since a finding last reopened the case, any other rejection ends it, and
  every other decision blocks it. After one rework the log shows it, so there is no second one.\<close>

theorem rollback_review_reworks_once:
  assumes "cases_ok (wd_cases w)" "agent_same_cases (sg_runtime sg)"
    and "rollback_review_case sg i w = (Inr out, w')"
  shows "\<exists>c es e c' decision changes.
    sql_view (wd_cases w) i = Some (c, es) \<and> rc_state c = WINDOW_SELECTED \<and>
    sql_view (wd_cases w') = (sql_view (wd_cases w))(i \<mapsto> (c', es @ [e])) \<and> same_case (ro_case out) c' \<and>
    item (PDict (ar_output (ro_result out))) ''decision'' = Inr decision \<and>
    (decision = PStr ''reject'' \<longrightarrow>
       strings_of (ar_output (ro_result out)) ''required_changes'' False = Inr changes) \<and>
    rc_state c' = rollback_target decision changes es \<and>
    (rc_state c' = VALIDATED \<longrightarrow> already_reworked (es @ [e]))"
proof -
  from rollback_review_run [OF assms(3)] obtain plan sre window w1 v now k task req dir ev w2 body rec w3 x where
    inp: "rollback_inputs i w = (Inr (plan, sre, window), w1)" and v: "wd_cases v = wd_cases w1"
    and agent: "run_agent sg (Some rollback_semantic_failures) req dir task v = (Inr (ro_result out, ev), w2)"
    and x: "item (PDict (ar_output (ro_result out))) ''decision'' = Inr x"
    and rec: "store_record (review_record k i ''RollbackReview.v1'' now body
       (dedup (dedup (pr_evidence_ids plan @ pr_evidence_ids sre @ pr_evidence_ids window) @ [ev]))) w2 = (Inr rec, w3)"
    and dec: "rollback_decide i k x (ro_result out)
      (basic_args (env_id (sg_env sg) (wd_tick w3) ''EVT'') now ''rollback-reviewer'' [(''rollback_review_id'', k)]
         (dedup (dedup (pr_evidence_ids plan @ pr_evidence_ids sre @ pr_evidence_ids window) @ [ev])))
      (w3\<lparr>wd_tick := wd_tick w3 + 1\<rparr>) = (Inr (ro_case out), w')" by blast
  have "stays same_cases (rollback_inputs i)"
    unfolding rollback_inputs_def named_record_def by (intro same_intros)
  from staysD [OF this inp] assms(1) have w1: "wd_cases w1 = wd_cases w" by (simp add: same_cases_def)
  from staysD [OF run_agent_same [OF assms(2)] agent] v w1 assms(1) have w2: "wd_cases w2 = wd_cases w"
    by (simp add: same_cases_def)
  have w3: "wd_cases (w3\<lparr>wd_tick := wd_tick w3 + 1\<rparr>) = wd_cases w" using store_record_frame [OF rec] w2 by simp
  from inp obtain c u where c: "get_case i w = (Inr c, u)" "rc_state c = WINDOW_SELECTED"
    by (auto simp: rollback_inputs_def run_simps)
  then obtain es where view: "sql_view (wd_cases w) i = Some (c, es)"
    using get_case_view [OF assms(1), of i] by (auto split: option.splits)
  from rollback_decide_run [of "w3\<lparr>wd_tick := wd_tick w3 + 1\<rparr>", unfolded w3, OF assms(1) view c(2) args_ok_basic dec]
  show ?thesis using view c(2) x by blast
qed

end
