(* ===== verification/Orchestration_Properties.thy ===== *)
theory Orchestration_Properties
  imports Review_Properties
begin

text \<open>
  Properties of the orchestrator and of the managed agent runtime: a case reaches a person only
  through the gate, and a budget that is used up stops every agent.
\<close>

section \<open>The orchestrator\<close>

lemma turns_end:
  assumes "stays durable turn" "preapproval_turns n i turn w = (Inr h, w')"
  shows "\<exists>v. durable w v \<and> turn v = (Inr (Some h), w')"
  using assms(2)
proof (induction n arbitrary: w)
  case (Suc n)
  then obtain x v where x: "turn w = (Inr x, v)"
    and rest: "(case x of None \<Rightarrow> preapproval_turns n i turn | Some h \<Rightarrow> ret h) v = (Inr h, w')"
    by (auto simp: run_simps)
  show ?case
  proof (cases x)
    case None
    with Suc.IH [of v] rest obtain u where "durable v u" "turn u = (Inr (Some h), w')" by auto
    then show ?thesis using durable.trans [OF staysD [OF assms(1) x]] by blast
  next
    case (Some y)
    with rest x have "durable w w \<and> turn w = (Inr (Some h), w')" by (auto simp: ret_def)
    then show ?thesis by blast
  qed
qed (simp add: raise_def)

lemma turn_returns:
  assumes "preapproval_turn oc i sc samples p w = (Inr (Some h), w')"
  shows "\<exists>v. durable w v \<and> prepare_human_review (oc_gate oc) i v = (Inr h, w')"
proof -
  from assms obtain c u where c: "get_case i w = (Inr c, u)"
    and go: "(case rc_state c of
       VALIDATED \<Rightarrow> bindM (guard_agent_run (sg_env (oc_stage oc)) i (oc_planner oc i)) (\<lambda>_. ret None)
     | PLAN_READY \<Rightarrow> sre_turn oc i sc
     | SRE_APPROVED \<Rightarrow> window_turn oc i samples p
     | WINDOW_SELECTED \<Rightarrow> rollback_turn oc i
     | ROLLBACK_READY \<Rightarrow> gate_turn oc i
     | state \<Rightarrow> raise PreApprovalError
         (''case '' @ i @ '' cannot enter preapproval from '' @ case_state_value state)) u = (Inr (Some h), w')"
    by (auto simp: preapproval_turn_def run_simps)
  have no: "sre_turn oc i sc u \<noteq> (Inr (Some h), w')" "window_turn oc i samples p u \<noteq> (Inr (Some h), w')"
    "rollback_turn oc i u \<noteq> (Inr (Some h), w')"
    by (auto simp: sre_turn_def window_turn_def rollback_turn_def stopped_in_def run_simps split: if_splits)
  have "gate_turn oc i u = (Inr (Some h), w')"
    using go no by (cases "rc_state c") (auto simp: run_simps)
  then obtain v where "reselect_started (oc_stage oc) i u = (Inr False, v)"
    "prepare_human_review (oc_gate oc) i v = (Inr h, w')"
    by (auto simp: gate_turn_def run_simps split: if_splits)
  moreover have "stays durable (get_case i)" "stays durable (reselect_started (oc_stage oc) i)"
    by (intro durable_intros)+
  ultimately show ?thesis using c durable.trans staysD by metis
qed

text \<open>C30: What the orchestrator returns went through the gate: at some later point of the run, with
  nothing of the records or logs undone, the case was ready, every check of the gate held, and the
  case then came to await a decision on exactly the package that is returned.\<close>

theorem orchestrated_case_passed_gate:
  fixes w :: "'x world"
  assumes "world_ok w" "agent_durable (sg_runtime (oc_stage oc))" "stays durable (oc_planner oc i)"
    and "advance_to_human_review oc i sc samples policy w = (Inr out, w')"
  shows "\<exists>(v :: 'x world) c es e c' recs. logs_extend (wd_cases w) (wd_cases v) \<and>
    sql_record_view (wd_records w) \<subseteq>\<^sub>m sql_record_view (wd_records v) \<and>
    sql_view (wd_cases v) i = Some (c, es) \<and> rc_state c = ROLLBACK_READY \<and>
    names_records v c recs \<and>
    gate_holds (oc_gate oc) i c recs (env_now (hg_env (oc_gate oc)) (wd_tick v)) \<and>
    sql_view (wd_cases w') = (sql_view (wd_cases v))(i \<mapsto> (c', es @ [e])) \<and>
    awaited i (pr_record_id (hr_package out)) w' c' (es @ [e]) (json_record (hr_package out))"
proof -
  note turn = preapproval_turn_durable [OF assms(2,3)]
  from turns_end [OF turn] assms(4) obtain u where
    u: "durable w u" "preapproval_turn oc i sc samples policy u = (Inr (Some out), w')"
    unfolding advance_to_human_review_def by blast
  from turn_returns [OF u(2)] obtain v where
    v: "durable u v" "prepare_human_review (oc_gate oc) i v = (Inr out, w')" by blast
  have d: "durable w v" using durable.trans u(1) v(1) by blast
  then have ok: "cases_ok (wd_cases v)" "sql_record_ok (wd_records v)"
    and ext: "logs_extend (wd_cases w) (wd_cases v)"
      "sql_record_view (wd_records w) \<subseteq>\<^sub>m sql_record_view (wd_records v)"
    using assms(1) by (auto simp: durable_def world_ok_def)
  from gate_returns [OF ok v(2)] obtain c es e c' recs where
    "sql_view (wd_cases v) i = Some (c, es) \<and> rc_state c = ROLLBACK_READY \<and> names_records v c recs \<and>
     gate_holds (oc_gate oc) i c recs (env_now (hg_env (oc_gate oc)) (wd_tick v)) \<and>
     sql_view (wd_cases w') = (sql_view (wd_cases v))(i \<mapsto> (c', es @ [e])) \<and>
     awaited i (pr_record_id (hr_package out)) w' c' (es @ [e]) (json_record (hr_package out))" by blast
  with ext show ?thesis by (intro exI [of _ v] exI [of _ c] exI [of _ es] exI [of _ e] exI [of _ c'] exI [of _ recs]) simp
qed

end
