(* ===== verification/Agent_Run_Properties.thy ===== *)
theory Agent_Run_Properties
  imports Durability
begin

text \<open>
  What the managed runtime guarantees: the number of recorded calls of a case stays within its budget,
  and once a reason to stop exists, no agent is consulted at all.
\<close>

section \<open>Counting recorded calls\<close>

definition recorded_calls :: "string \<Rightarrow> 'x world \<Rightarrow> nat" where
  "recorded_calls i w = length (filter (\<lambda>row. pw_case_id row = i \<and> pw_record_type row = invocation_record)
                                  (wd_records w))"

definition same_calls :: "string \<Rightarrow> 'x world \<Rightarrow> 'x world \<Rightarrow> bool" where
  "same_calls i w w' = (recorded_calls i w' = recorded_calls i w)"

interpretation same_calls: frame "same_calls i"
  by unfold_locales (simp_all add: same_calls_def)

named_theorems calls_intros

lemmas calls_rules [calls_intros] = same_calls.bindM same_calls.tryM same_calls.pure stays_if
  stays_case_option stays_let

lemma calls_records: "wd_records w' = wd_records w \<Longrightarrow> same_calls i w w'"
  by (simp add: same_calls_def recorded_calls_def)

lemma calls_local [calls_intros]:
  "stays (same_calls i) (clock_now env)" "stays (same_calls i) (write_evidence env d j k pl c sens cmd n)"
  by (rule staysI, rule calls_records, rule only_collectsD [THEN conjunct2, THEN conjunct2, THEN conjunct1],
      rule collect_intros, assumption)+

lemma calls_reads [calls_intros]:
  "stays (same_calls i) (get_record k)" "stays (same_calls i) (list_records j t)"
  "stays (same_calls i) (file_bytes p)" "stays (same_calls i) (file_text p)" "stays (same_calls i) (sha256_file env p)"
proof -
  show f: "stays (same_calls i) (file_bytes p)" for p unfolding file_bytes_def by (intro calls_intros)
  show "stays (same_calls i) (file_text p)" unfolding file_text_def by (intro calls_intros f)
  show "stays (same_calls i) (sha256_file env p)" unfolding sha256_file_def by (intro calls_intros f)
  show "stays (same_calls i) (get_record k)" unfolding get_record_def
    by (rule staysI, rule calls_records) (auto simp: on_records_def sql_record_ops_def dest: arg_cong [of _ _ snd]
        simp: sql_record_get_state split: prod.splits)
  show "stays (same_calls i) (list_records j t)" unfolding list_records_def
    by (rule staysI, rule calls_records)
      (auto simp: on_records_def sql_record_ops_def sql_record_list_def run_defs split: prod.splits)
qed

lemma put_record_rows:
  "wd_records (snd (put_record r w)) \<in> {wd_records w, wd_records w @ [record_row r]}"
  by (auto simp: put_record_def on_records_def sql_record_ops_def sql_record_put_def tryM_def transaction_def
      sql_insert_def run_defs guardE_def split: prod.splits sum.splits if_splits)

lemma put_record_calls:
  "recorded_calls i (snd (put_record r w)) \<le> recorded_calls i w + 1"
  using put_record_rows [of r w] by (auto simp: recorded_calls_def)

lemma put_other_calls:
  assumes "pr_record_type r \<noteq> invocation_record" shows "stays (same_calls i) (put_record r)"
  unfolding stays_def same_calls_def
proof
  fix w show "recorded_calls i (snd (put_record r w)) = recorded_calls i w"
    using put_record_rows [of r w] assms by (auto simp: recorded_calls_def record_row_def)
qed

lemma calls_made [calls_intros]:
  assumes "pr_record_type x \<noteq> invocation_record" "\<And>r. pr_record_type r \<noteq> invocation_record \<Longrightarrow> stays (same_calls i) (f r)"
  shows "stays (same_calls i) (bindM (liftE (mk_product_record x)) f)"
proof (cases "mk_product_record x")
  case (Inr r)
  then have "r = x" by (auto simp: mk_product_record_def res_simps)
  then have "stays (same_calls i) (f r)" using assms by blast
  then show ?thesis using Inr by (simp add: stays_def bindM_def liftE_def)
qed (simp add: stays_def bindM_def liftE_def)

lemma calls_store [calls_intros]: "pr_record_type r \<noteq> invocation_record \<Longrightarrow> stays (same_calls i) (store_record r)"
  unfolding store_record_def by (rule calls_made) (auto intro!: calls_intros put_other_calls)

lemma record_kinds [simp]: "outcome_record \<noteq> invocation_record" "terminal_record \<noteq> invocation_record"
  "pr_record_type (run_record k c kind now body ev) = kind"
  by (simp_all add: outcome_record_def invocation_record_def terminal_record_def run_record_def)

lemma calls_terminal [calls_intros]: "stays (same_calls i) (terminal mg t b reason scope counts sig)"
  unfolding terminal_def Let_def by (intro calls_intros put_other_calls) simp_all

lemma calls_stop [calls_intros]:
  "stays (same_calls i) (stop_run r)" "stays (same_calls i) (stop_terminal mg t b reason scope counts sig)"
  unfolding stop_terminal_def stop_run_def by (intro calls_intros)+

lemma calls_restore [calls_intros]: "stays (same_calls i) (restore_outcome mg t r)"
  unfolding restore_outcome_def by (intro calls_intros)

lemma calls_may [calls_intros]: "stays (same_calls i) (may_call mg t b rs)"
proof -
  have "stays (same_calls i) (time_left mg t b rs)"
    unfolding time_left_def Let_def by (cases "invocations_of rs") (auto intro!: calls_intros)
  then show ?thesis unfolding may_call_def by (intro calls_intros)
qed

lemma calls_circuit [calls_intros]: "stays (same_calls i) (circuit mg t b sl sig)"
  unfolding circuit_def Let_def by (intro calls_intros)

lemma calls_replay: "stays (same_calls i) (replay mg t b rs r)" "stays (same_calls i) (lost_race mg t b sl)"
  unfolding replay_def lost_race_def Let_def by (intro calls_intros)+

lemma calls_make:
  assumes "stays (same_calls i) (rt_run (mg_runtime mg) t)" shows "stays (same_calls i) (make_call mg t b sl)"
  using assms unfolding make_call_def call_failed_def keep_result_def Let_def
  by (intro calls_intros) simp_all

lemma record_call_calls: "recorded_calls i (snd (record_call mg t b sl w)) \<le> recorded_calls i w + 1"
proof -
  let ?w = "w\<lparr>wd_tick := wd_tick w + 1\<rparr>"
  let ?x = "call_record mg t b sl (env_now (mg_env mg) (wd_tick w))"
  have "record_call mg t b sl w =
      bindM (liftE (mk_product_record ?x)) (\<lambda>r. tryM (bindM (put_record r) (\<lambda>_. ret True)) [DuplicateProductRecord] (\<lambda>_. ret False)) ?w"
    by (simp add: record_call_def bindM_def clock_now_def)
  also have "recorded_calls i (snd \<dots>) \<le> recorded_calls i ?w + 1"
  proof (cases "mk_product_record ?x")
    case (Inr r)
    have "snd (tryM (bindM (put_record r) (\<lambda>_. ret True)) [DuplicateProductRecord] (\<lambda>_. ret False) ?w) = snd (put_record r ?w)"
      by (auto simp: run_defs split: prod.splits sum.splits)
    with Inr put_record_calls [of i r ?w] show ?thesis by (simp add: bindM_def liftE_def)
  qed (simp add: bindM_def liftE_def)
  finally show ?thesis by (simp add: recorded_calls_def)
qed

section \<open>What the list of records shows\<close>

lemma mapE_filter_length:
  "mapE f xs = Inr ys \<Longrightarrow> (\<And>x y. f x = Inr y \<Longrightarrow> P y = Q x) \<Longrightarrow> length (filter P ys) = length (filter Q xs)"
proof (induction xs arbitrary: ys)
  case (Cons x xs)
  then obtain y zs where "f x = Inr y" "mapE f xs = Inr zs" "ys = y # zs" by (auto simp: res_simps)
  with Cons show ?case by simp
qed simp

lemma listed_calls:
  assumes "list_records i None w = (Inr rs, w')"
  shows "w' = w" "length (invocations_of rs) = recorded_calls i w"
proof -
  let ?rows = "sort_key (\<lambda>w. (pw_created_at w, pw_record_id w)) (filter (\<lambda>w. pw_case_id w = i) (wd_records w))"
  have rs: "mapE record_from_row ?rows = Inr rs" and w: "w' = w"
    using assms by (auto simp: list_records_def on_records_def sql_record_ops_def sql_record_list_def run_defs
        split: prod.splits sum.splits)
  have "length (invocations_of rs) = length (filter (\<lambda>row. pw_record_type row = invocation_record) ?rows)"
    unfolding invocations_of_def
    by (rule mapE_filter_length [OF rs]) (simp add: record_from_row_fields)
  also have "\<dots> = recorded_calls i w"
    by (simp add: filter_sort recorded_calls_def conj_commute)
  finally show "length (invocations_of rs) = recorded_calls i w" .
  show "w' = w" by (rule w)
qed

lemma may_call_within:
  assumes "may_call mg t b rs w = (Inr counts, w')"
  shows "int (length (invocations_of rs)) < rp_max_model_calls (mg_policy mg)"
proof (rule ccontr)
  assume "\<not> ?thesis"
  moreover have "stop_run r w \<noteq> (Inr counts, w')" for r by (simp add: stop_run_def raise_def)
  moreover have "stop_terminal mg t b reason scope cs sig w \<noteq> (Inr counts, w')" for reason scope cs sig
    by (auto simp: stop_terminal_def stop_run_def run_simps)
  ultimately show False using assms by (auto simp: may_call_def split: option.splits if_splits)
qed

section \<open>Properties\<close>

text \<open>C34: The managed runtime never records more calls for a case than its budget of model calls, whatever
  the agent answers or raises, as long as the agent itself records none.\<close>

theorem agent_calls_within_budget:
  assumes "\<And>v. recorded_calls (at_case_id t) (snd (rt_run (mg_runtime mg) t v)) = recorded_calls (at_case_id t) v"
    and "int (recorded_calls (at_case_id t) w) \<le> rp_max_model_calls (mg_policy mg)"
    and "managed_run mg t w = (r, w')"
  shows "int (recorded_calls (at_case_id t) w') \<le> rp_max_model_calls (mg_policy mg)"
proof -
  let ?i = "at_case_id t" and ?b = "binding (mg_env mg) t"
  have agent: "stays (same_calls ?i) (rt_run (mg_runtime mg) t)"
    using assms(1) by (simp add: stays_def same_calls_def)
  have same: "recorded_calls ?i v' = recorded_calls ?i v" if "stays (same_calls ?i) m" "m v = (x, v')"
    for m :: "('x world, 'z) prog" and v v' x using staysD [OF that] by (simp add: same_calls_def)
  obtain x v where list: "list_records ?i None w = (x, v)" by (cases "list_records ?i None w")
  have v: "recorded_calls ?i v = recorded_calls ?i w" using same [OF calls_reads(2) list] .
  show ?thesis
  proof (cases x)
    case (Inl e)
    with list assms(2,3) v show ?thesis by (simp add: managed_run_def Let_def bindM_def)
  next
    case (Inr rs)
    note L = listed_calls [OF list [unfolded Inr]]
    show ?thesis
    proof (cases "find (replayable ?b) rs")
      case (Some out)
      then have "replay mg t ?b rs out v = (r, w')" using assms(3) list Inr by (simp add: managed_run_def Let_def bindM_def)
      from same [OF calls_replay(1) this] v assms(2) show ?thesis by simp
    next
      case None
      obtain y v1 where may: "may_call mg t ?b rs v = (y, v1)" by (cases "may_call mg t ?b rs v")
      have v1: "recorded_calls ?i v1 = recorded_calls ?i w" using same [OF calls_may may] v by simp
      show ?thesis
      proof (cases y)
        case (Inl e)
        with None list Inr may assms(3) have "w' = v1" by (simp add: managed_run_def Let_def bindM_def)
        with v1 assms(2) show ?thesis by simp
      next
        case inr: (Inr counts)
        let ?sl = "run_slot mg ?b rs counts"
        obtain z v2 where rec: "record_call mg t ?b ?sl v1 = (z, v2)" by (cases "record_call mg t ?b ?sl v1")
        have "recorded_calls ?i v2 \<le> recorded_calls ?i v1 + 1" using record_call_calls [of ?i mg t ?b ?sl v1] rec by simp
        moreover have "recorded_calls ?i w' = recorded_calls ?i v2"
        proof (cases z)
          case (Inl e)
          with None list Inr may inr rec assms(3) show ?thesis by (simp add: managed_run_def Let_def bindM_def)
        next
          case (Inr ok)
          with None list \<open>x = Inr rs\<close> may inr rec assms(3)
          have "(if ok then make_call mg t ?b ?sl else lost_race mg t ?b ?sl) v2 = (r, w')"
            by (simp add: managed_run_def Let_def bindM_def)
          then show ?thesis using same [OF calls_make [OF agent]] same [OF calls_replay(2)] by (cases ok) auto
        qed
        moreover have "int (recorded_calls ?i w) < rp_max_model_calls (mg_policy mg)"
          using may_call_within [OF may [unfolded inr]] L by simp
        ultimately show ?thesis using v1 by simp
      qed
    qed
  qed
qed

text \<open>A reason not to call, of those that do not depend on the clock.\<close>

definition must_stop :: "agent_run_policy \<Rightarrow> run_binding \<Rightarrow> product_record list \<Rightarrow> bool" where
  "must_stop p b rs =
     (active_terminal p rs b \<noteq> None \<or> pending_of p rs \<noteq> [] \<or>
      rp_max_model_calls p \<le> int (length (invocations_of rs)) \<or>
      rp_max_attempts p \<le> int (length (of_package b (invocations_of rs))))"

lemma put_or_get:
  assumes ok: "sql_record_ok (wd_records w)" and mk: "mk_product_record r = Inr r" and i: "pr_record_id r = i"
  shows "\<exists>x w'. bindM (liftE (mk_product_record r)) (\<lambda>r.
    tryM (bindM (put_record r) (\<lambda>_. ret r)) [DuplicateProductRecord] (\<lambda>_. get_record i)) w = (Inr x, w')"
proof (cases "sql_record_view (wd_records w) i")
  case None
  then have "\<exists>v. put_record r w = (Inr (), v)"
    using sql_record.put_law [OF ok, of r] mk i by (auto simp: put_record_def on_records_def split: prod.splits)
  with mk show ?thesis by (auto simp: run_defs)
next
  case (Some x)
  then have "put_record r w = (Inl (Raise DuplicateProductRecord i), w)"
    using sql_record.put_law [OF ok, of r] mk i by (auto simp: put_record_def on_records_def split: prod.splits)
  moreover have "get_record i w = (Inr x, w)"
    using sql_record.get_law [OF ok, of i] Some by (simp add: get_record_def on_records_def)
  ultimately show ?thesis using mk by (simp add: run_defs exn_isa_def)
qed

lemma terminal_returns:
  assumes "sql_record_ok (wd_records w)" "at_case_id t \<noteq> []"
  shows "\<exists>r w'. terminal mg t b reason scope counts sig w = (Inr r, w')"
proof -
  have clock: "bindM (clock_now e) f w = f (env_now e (wd_tick w)) (w\<lparr>wd_tick := wd_tick w + 1\<rparr>)"
    for e and f :: "string \<Rightarrow> ('a world, 'z) prog"
    by (simp add: bindM_def clock_now_def)
  show ?thesis
    unfolding terminal_def Let_def clock
    by (rule put_or_get)
      (use assms in \<open>simp_all add: mk_product_record_def run_record_def hashed_id_def terminal_record_def\<close>)
qed

lemma may_call_stops:
  assumes "sql_record_ok (wd_records w)" "at_case_id t \<noteq> []" "must_stop (mg_policy mg) b rs"
  shows "\<exists>msg w'. may_call mg t b rs w = (Inl (Raise AgentRunStopped msg), w')"
proof -
  have "\<exists>msg w'. stop_terminal mg t b reason scope counts sig w = (Inl (Raise AgentRunStopped msg), w')"
    for reason scope counts sig
    using terminal_returns [OF assms(1,2), of mg b reason scope counts sig]
    by (auto simp: stop_terminal_def bindM_def stop_run_def raise_def)
  moreover have "\<exists>msg w'. stop_run r w = (Inl (Raise AgentRunStopped msg), w')" for r
    by (simp add: stop_run_def raise_def)
  ultimately show ?thesis using assms(3) unfolding may_call_def must_stop_def by (auto split: option.splits)
qed

lemma may_call_same: "may_call (mg\<lparr>mg_runtime := rt\<rparr>) t b rs = may_call mg t b rs"
proof -
  have st: "stop_terminal (mg\<lparr>mg_runtime := rt\<rparr>) t b reason scope counts sig =
      stop_terminal mg t b reason scope counts sig" for reason scope counts sig
    by (simp add: stop_terminal_def terminal_def)
  have "time_left (mg\<lparr>mg_runtime := rt\<rparr>) t b rs = time_left mg t b rs"
    unfolding time_left_def by (cases "invocations_of rs") (simp_all add: st cong: if_cong)
  then show ?thesis by (simp add: may_call_def st split: option.split)
qed

text \<open>C35: Once a stop of the case or the package stands, an earlier call was left unfinished, or the calls
  of the case or the attempts on the package are used up, a task without a recorded answer stops
  with \<open>AgentRunStopped\<close>, in the same way for every agent: none is consulted.\<close>

theorem exhausted_budget_stops_every_agent:
  assumes "sql_record_ok (wd_records w)" "at_case_id t \<noteq> []"
    and "list_records (at_case_id t) None w = (Inr rs, w)"
    and "find (replayable (binding (mg_env mg) t)) rs = None"
    and "must_stop (mg_policy mg) (binding (mg_env mg) t) rs"
  shows "\<exists>msg w'. \<forall>rt. managed_run (mg\<lparr>mg_runtime := rt\<rparr>) t w = (Inl (Raise AgentRunStopped msg), w')"
proof -
  from may_call_stops [OF assms(1,2,5)] obtain msg w' where
    "may_call mg t (binding (mg_env mg) t) rs w = (Inl (Raise AgentRunStopped msg), w')" by blast
  then have "managed_run (mg\<lparr>mg_runtime := rt\<rparr>) t w = (Inl (Raise AgentRunStopped msg), w')" for rt
    using assms(3,4) by (simp add: managed_run_def Let_def bindM_def may_call_same)
  then show ?thesis by blast
qed

end
