(* ===== verification/System.thy ===== *)
theory System
  imports Durability
begin

text \<open>
  The services composed: any sequence of their operations, on one set of stores, keeps the stores in
  order and undoes nothing of what was recorded.
\<close>

section \<open>The other services\<close>

lemma stays_case_sum [durable_intros]:
  "(\<And>e. x = Inl e \<Longrightarrow> stays R (f e)) \<Longrightarrow> (\<And>y. x = Inr y \<Longrightarrow> stays R (g y)) \<Longrightarrow>
     stays R (case x of Inl e \<Rightarrow> f e | Inr y \<Rightarrow> g y)"
  by (cases x) auto

lemma stays_case_list [durable_intros]:
  "stays R m \<Longrightarrow> (\<And>y ys. stays R (f y ys)) \<Longrightarrow> stays R (case xs of [] \<Rightarrow> m | y # ys \<Rightarrow> f y ys)"
  by (cases xs) auto

lemma durable_job_store [durable_intros]:
  "stays durable (on_jobs (js_put sql_job_ops j))"
  "stays durable (on_jobs (js_claim_due sql_job_ops now worker secs))"
  "stays durable (on_jobs (js_complete sql_job_ops i worker st detail))"
proof -
  have claim: "keeps jobs_ok (sql_claim_due now worker secs)"
    by (auto simp: keeps_def sql_claim_due_def run_defs transaction_def jobs_ok_kept sql_job_get_def
        split: list.splits sum.splits option.splits)
  have "keeps jobs_ok (complete_job final i worker st detail)" for final
  proof -
    let ?f = "\<lambda>j. j\<lparr>ej_state := st, ej_detail := detail, ej_lease_owner := [], ej_lease_until := []\<rparr>"
    have "snd (complete_job final i worker st detail s) \<in> {s, sql_update (leased_by i worker) ?f s}" for s
      by (auto simp: complete_job_def run_defs guardE_def transaction_def release_lease_def sql_job_get_def
          split: option.splits)
    moreover have "jobs_ok (sql_update (leased_by i worker) ?f s) = jobs_ok s" for s
      by (simp add: jobs_ok_def sql_update_ids)
    ultimately show ?thesis unfolding keeps_def by (metis insertE singletonD)
  qed
  with claim show "stays durable (on_jobs (js_put sql_job_ops j))"
    "stays durable (on_jobs (js_claim_due sql_job_ops now worker secs))"
    "stays durable (on_jobs (js_complete sql_job_ops i worker st detail))"
    by (auto simp: sql_job_ops_def sql_complete_def intro!: durable_jobs put_keeps_jobs)
qed

lemma schedule_durable: "stays durable (schedule env sql_job_ops i)"
  unfolding schedule_def Let_def by (intro durable_intros) simp_all

lemma run_once_durable:
  "(\<And>j. stays durable (exec j)) \<Longrightarrow> stays durable (run_once sql_job_ops worker exec now)"
  unfolding run_once_def by (intro durable_intros)

lemma decisions_durable: "stays durable (approve env base a)" "stays durable (reject env base b)"
  unfolding approve_def reject_def decision_package_def Let_def by (intro durable_intros; simp)+

lemma validate_durable: "stays durable (validate env reader reg base i)"
  unfolding validate_def Let_def case_prod_unfold
  by (intro durable_intros durable_collects [OF only_collects_validate_each]) simp_all

text \<open>The adapters of an execution act outside: none of them undoes what is durable.\<close>

definition execution_durable :: "'x execution_service \<Rightarrow> bool" where
  "execution_durable xs =
     ((\<forall>ctx. stays durable (dv_preflight (xs_driver xs) ctx)) \<and>
      (\<forall>ctx. stays durable (dv_checkpoint (xs_driver xs) ctx)) \<and>
      (\<forall>ctx ck. stays durable (dv_deploy (xs_driver xs) ctx ck)) \<and>
      (\<forall>ctx ck. stays durable (dv_rollback (xs_driver xs) ctx ck)) \<and>
      (\<forall>phase ctx. stays durable (hm_observe (xs_monitor xs) phase ctx)) \<and>
      (\<forall>p \<in> set (xs_probes xs). \<forall>ctx. stays durable (vp_run p ctx)) \<and>
      agent_durable (xs_runtime xs))"

lemma keep_evidence_durable [durable_intros]: "stays durable (keep_evidence xs d k doc t)"
  unfolding keep_evidence_def by (intro durable_intros)

lemma policy_durable [durable_intros]: "stays durable (policy_advance xs i t actor ids ev detail)"
  unfolding policy_advance_def by (intro durable_intros) simp

lemma guarded_durable [durable_intros]: "stays durable m \<Longrightarrow> stays durable (guarded m fb)"
  unfolding guarded_def by (intro durable_intros)

lemma finish_durable [durable_intros]: "stays durable (finish_rollback xs i rec step health ev reason)"
  unfolding finish_rollback_def Let_def by (intro durable_intros)

lemma back_durable [durable_intros]:
  assumes "execution_durable xs" shows "stays durable (rollback xs i ctx ck d ev reason)"
proof -
  have "stays durable (dv_rollback (xs_driver xs) ctx ck)" "stays durable (hm_observe (xs_monitor xs) p ctx)" for p
    using assms by (simp_all add: execution_durable_def)
  then show ?thesis unfolding rollback_def Let_def by (intro durable_intros) simp_all
qed

lemma mapM_durable: "(\<And>p. p \<in> set ps \<Longrightarrow> stays durable (f p)) \<Longrightarrow> stays durable (mapM f ps)"
  by (induction ps) (auto intro!: durable_intros)

lemma probes_durable [durable_intros]:
  assumes "execution_durable xs" shows "stays durable (run_probes xs i ctx)"
  unfolding run_probes_def
proof (intro mapM_durable guarded_durable)
  fix p assume "p \<in> set (xs_probes xs)"
  with assms show "stays durable (vp_run p ctx)" by (simp add: execution_durable_def)
qed

lemma audit_durable [durable_intros]:
  assumes "execution_durable xs" shows "stays durable (audit_and_complete xs i o' ctx st c res probes ev)"
proof -
  have a: "agent_durable (xs_runtime xs)" using assms by (simp add: execution_durable_def)
  show ?thesis
    using assms a unfolding audit_and_complete_def complete_remediation_def Let_def by (intro durable_intros)
qed

lemma execute_durable:
  assumes "execution_durable xs" shows "stays durable (execute xs i originator job)"
proof -
  have ad: "stays durable (dv_preflight (xs_driver xs) ctx)" "stays durable (dv_checkpoint (xs_driver xs) ctx)"
    "stays durable (dv_deploy (xs_driver xs) ctx ck)" "stays durable (hm_observe (xs_monitor xs) p ctx)" for ctx ck p
    using assms by (simp_all add: execution_durable_def)
  have "stays durable (admit xs i originator job)"
    unfolding admit_def build_context_def context_record_def by (intro durable_intros)
  moreover have "stays durable (start_execution xs i now ctx)" for now ctx
    using ad unfolding start_execution_def Let_def by (intro durable_intros) simp_all
  moreover have "stays durable (verify_change xs i originator ctx st dep health ev)" for ctx st dep health ev
    using assms unfolding verify_change_def Let_def by (intro durable_intros)
  ultimately show ?thesis
    using assms ad unfolding execute_def deploy_and_verify_def Let_def by (intro durable_intros)
qed

section \<open>Intake\<close>

text \<open>What intake does not touch: the records and the jobs.\<close>

definition rest_kept :: "'x world \<Rightarrow> 'x world \<Rightarrow> bool" where
  "rest_kept w w' = ((sql_record_ok (wd_records w) \<longrightarrow> sql_record_ok (wd_records w') \<and>
       sql_record_view (wd_records w) \<subseteq>\<^sub>m sql_record_view (wd_records w')) \<and>
     (jobs_ok (wd_jobs w) \<longrightarrow> jobs_ok (wd_jobs w')))"

interpretation rest: frame rest_kept
  by unfold_locales (auto simp: rest_kept_def intro: map_le_trans)

named_theorems rest_intros

lemmas rest_rules [rest_intros] = rest.bindM rest.tryM rest.pure stays_if stays_case_option
  stays_case_prod stays_case_list stays_let

lemma rest_same: "wd_records w' = wd_records w \<Longrightarrow> wd_jobs w' = wd_jobs w \<Longrightarrow> rest_kept w w'"
  by (simp add: rest_kept_def)

lemma rest_local [rest_intros]:
  "stays rest_kept (clock_now env)" "stays rest_kept (new_id env p)" "stays rest_kept (make_dir d)"
  "stays rest_kept (remove_tree d)" "stays rest_kept (write_evidence env d i k pl c sens cmd n)"
  by (auto simp: stays_def clock_now_def new_id_def make_dir_def remove_tree_def write_evidence_def
      Let_def run_defs guardE_def intro!: rest_same)

definition others_keep :: "'x intake \<Rightarrow> bool" where
  "others_keep ie = (others_behave ie \<and> (\<forall>n w. rest_kept w (ie_others ie n w)))"

lemma rest_shared:
  assumes "others_keep ie"
  shows "stays rest_kept (shared ie (on_cases m))" "stays rest_kept (shared ie (on_findings f))"
  using assms
  by (auto simp: stays_def shared_def on_cases_def on_findings_def others_keep_def rest_kept_def case_prod_unfold)

lemma rest_ops [rest_intros]:
  assumes "others_keep ie"
  shows "stays rest_kept (cs_get (shared_cases ie) i)" "stays rest_kept (cs_create (shared_cases ie) c)"
    "stays rest_kept (cs_append (shared_cases ie) c e v)" "stays rest_kept (cs_find_active (shared_cases ie) t a)"
    "stays rest_kept (shared_by_source ie t p acc u)"
  using assms by (simp_all add: shared_cases_def shared_by_source_def rest_shared)

lemma rest_workflow [rest_intros]:
  assumes "others_keep ie"
  shows "stays rest_kept (workflow_advance (shared_cases ie) i t a)" "stays rest_kept (workflow_open (shared_cases ie) b)"
  using assms unfolding workflow_advance_def workflow_open_def by (intro rest_intros; simp)+

lemma rest_store [rest_intros]:
  assumes "others_keep ie" shows "stays rest_kept (store_finding ie raw t p acc u ctx ac)"
proof -
  have "stays rest_kept (normalise_ocsf env raw d i c n)" for env d i c n
    unfolding normalise_ocsf_def Let_def by (intro rest_intros)
  then show ?thesis using assms unfolding store_finding_def Let_def
    by (intro rest_intros rest_shared)
qed

lemma rest_attach [rest_intros]:
  assumes "others_keep ie"
  shows "stays rest_kept (attach_if_missing ie now f c)" "stays rest_kept (prioritise ie now r c)"
  using assms unfolding attach_if_missing_def attach_finding_def prioritise_def by (intro rest_intros; simp)+

lemma rest_attempts [rest_intros]:
  assumes "others_keep ie" shows "stays rest_kept (intake_attempts ie now f r left c att)"
proof (induction left arbitrary: c att)
  case 0
  show ?case using assms unfolding intake_attempts.simps [of _ _ _ _ 0] attempt_once_def Let_def
    by (intro rest_intros; simp)+
next
  case (Suc n)
  show ?case using assms Suc unfolding intake_attempts.simps [of _ _ _ _ "Suc n"] attempt_once_def Let_def
    by (auto intro!: rest_intros)
qed

lemma ingest_rest:
  assumes "others_keep ie" shows "stays rest_kept (ingest ie raw t ctx ac)"
proof -
  have join: "stays rest_kept (open_or_join ie t now ctx f a)" for t now ctx f a
    using assms unfolding open_or_join_def by (intro rest_intros)
  have att: "stays rest_kept (attach_and_prioritise ie t ctx f b)" for t ctx f b
    using assms join unfolding attach_and_prioritise_def by (intro rest_intros rest_shared)
  have "stays rest_kept (case sf_case_id f of Some (c # cs) \<Rightarrow>
         bindM (cs_get (shared_cases ie) (c # cs)) (\<lambda>current.
              ret \<lparr> io_finding = f, io_case = current, io_duplicate = True,
                    io_case_created = False, io_finding_attached = False,
                    io_priority_changed = False \<rparr>)
       | _ \<Rightarrow> attach_and_prioritise ie t ctx f False)" for f
    using att assms by (auto split: option.splits list.splits intro!: rest_intros)
  moreover have "stays rest_kept (find_existing ie raw t p acc u)" for p acc u
    using assms unfolding find_existing_def by (intro rest_intros)
  ultimately show ?thesis using assms att unfolding ingest_def by (intro rest_intros)
qed

section \<open>The system\<close>

definition system_inv :: "'x world \<Rightarrow> bool" where
  "system_inv w = (world_ok w \<and> linked w)"

definition evolves :: "'x world \<Rightarrow> 'x world \<Rightarrow> bool" where
  "evolves w w' = (system_inv w \<longrightarrow>
     system_inv w' \<and> logs_extend (wd_cases w) (wd_cases w') \<and>
     sql_record_view (wd_records w) \<subseteq>\<^sub>m sql_record_view (wd_records w') \<and>
     rows_extend (wd_findings w) (wd_findings w'))"

interpretation evolves: frame evolves
  by unfold_locales (auto simp: evolves_def intro: logs_extend_trans rows_extend_trans map_le_trans)

lemma durable_evolves: "durable w w' \<Longrightarrow> evolves w w'"
proof -
  assume d: "durable w w'"
  have "intake_step w w'" if "world_ok w"
    using d that by (intro step_cases) (auto simp: durable_def world_ok_def)
  then have "world_ok w \<Longrightarrow> linked w \<Longrightarrow> linked w'"
    unfolding intake_step_def intake_inv_def world_ok_def by blast
  with d show ?thesis unfolding evolves_def system_inv_def durable_def by (metis rows_extend_refl)
qed

lemma stays_durable_evolves: "stays durable m \<Longrightarrow> stays evolves m"
  by (simp add: stays_def durable_evolves)

lemma ingest_evolves: "others_keep ie \<Longrightarrow> stays evolves (ingest ie raw t ctx ac)"
proof (rule staysI)
  fix w r w' assume o': "others_keep ie" and run: "ingest ie raw t ctx ac w = (r, w')"
  show "evolves w w'"
  proof (cases "system_inv w")
    case True
    then have inv: "intake_inv w" "sql_record_ok (wd_records w)" "jobs_ok (wd_jobs w)"
      by (simp_all add: system_inv_def world_ok_def intake_inv_def)
    from o' have b: "others_behave ie" by (simp add: others_keep_def)
    from runsD [OF ingest_runs [OF b] inv(1) run] have "intake_step w w'" by blast
    moreover have "rest_kept w w'" using ingest_rest [OF o'] run by (rule staysD)
    ultimately show ?thesis
      using inv by (auto simp: evolves_def system_inv_def world_ok_def intake_step_def intake_inv_def rest_kept_def)
  qed (simp add: evolves_def)
qed

text \<open>The operations of the services, with the arguments a caller chooses.\<close>

record ('x, 'p) deployment =
  dp_env :: env
  dp_root :: string
  dp_intake :: "'x intake"
  dp_reader :: "stored_finding \<Rightarrow> ('x, cloud_state) prog"
  dp_registry :: registry
  dp_orchestrator :: "('x, 'p) orchestrator"
  dp_execution :: "'x execution_service"

datatype operation =
    Ingest raw_finding string intake_context "(string, pyval) dict option"
  | Validate string
  | Review string "(string, pyval) dict" "usage_sample list" window_policy
  | Approve verified_approval
  | Reject verified_rejection
  | Schedule string
  | Dispatch string string string

definition dispatched :: "execution_outcome \<Rightarrow> dispatch_result" where
  "dispatched o' = \<lparr> dr_rolled_back = xo_rolled_back o', dr_contained = xo_contained o',
     dr_case_state = Some (case_state_value (rc_state (xo_case o'))) \<rparr>"

fun serve :: "('x, 'p) deployment \<Rightarrow> operation \<Rightarrow> ('x world, unit) prog" where
  "serve dp (Ingest raw tenant ctx assets) = bindM (ingest (dp_intake dp) raw tenant ctx assets) (\<lambda>_. ret ())"
| "serve dp (Validate i) =
     bindM (validate (dp_env dp) (dp_reader dp) (dp_registry dp) (dp_root dp) i) (\<lambda>_. ret ())"
| "serve dp (Review i sc samples policy) =
     bindM (advance_to_human_review (dp_orchestrator dp) i sc samples policy) (\<lambda>_. ret ())"
| "serve dp (Approve a) = bindM (approve (dp_env dp) (dp_root dp) a) (\<lambda>_. ret ())"
| "serve dp (Reject a) = bindM (reject (dp_env dp) (dp_root dp) a) (\<lambda>_. ret ())"
| "serve dp (Schedule i) = bindM (schedule (dp_env dp) sql_job_ops i) (\<lambda>_. ret ())"
| "serve dp (Dispatch worker originator now) =
     bindM (run_once sql_job_ops worker (\<lambda>job.
       bindM (execute (dp_execution dp) (ej_case_id job) originator (ej_job_id job)) (\<lambda>out.
       ret (dispatched out))) now) (\<lambda>_. ret ())"

text \<open>One operation after the other, whether or not one raises.\<close>

inductive operates :: "('x, 'p) deployment \<Rightarrow> 'x world \<Rightarrow> operation list \<Rightarrow> 'x world \<Rightarrow> bool" for dp where
  idle: "operates dp w [] w"
| op: "operates dp w ops v \<Longrightarrow> serve dp p v = (r, v') \<Longrightarrow> operates dp w (ops @ [p]) v'"

text \<open>The adapters of a deployment act outside of the stores or by their operations.\<close>

definition deployment_durable :: "('x, 'p) deployment \<Rightarrow> bool" where
  "deployment_durable dp =
     (others_keep (dp_intake dp) \<and> agent_durable (sg_runtime (oc_stage (dp_orchestrator dp))) \<and>
      (\<forall>i. stays durable (oc_planner (dp_orchestrator dp) i)) \<and> execution_durable (dp_execution dp))"

lemma serve_evolves:
  assumes "deployment_durable dp" shows "stays evolves (serve dp p)"
proof -
  have d: "others_keep (dp_intake dp)" "agent_durable (sg_runtime (oc_stage (dp_orchestrator dp)))"
    "stays durable (oc_planner (dp_orchestrator dp) i)" "execution_durable (dp_execution dp)" for i
    using assms by (simp_all add: deployment_durable_def)
  show ?thesis
  proof (cases p)
    case (Dispatch worker originator now)
    have "stays durable (run_once sql_job_ops worker (\<lambda>job.
       bindM (execute (dp_execution dp) (ej_case_id job) originator (ej_job_id job)) (\<lambda>out.
       ret (dispatched out))) now)"
      by (intro run_once_durable durable_intros execute_durable d)
    then show ?thesis unfolding Dispatch serve.simps
      by (intro evolves.bindM evolves.pure stays_durable_evolves)
  qed (simp_all only: serve.simps, (intro evolves.bindM evolves.pure,
      (rule ingest_evolves stays_durable_evolves [OF validate_durable]
        stays_durable_evolves [OF orchestrator_durable(1)] stays_durable_evolves [OF decisions_durable(1)]
        stays_durable_evolves [OF decisions_durable(2)] stays_durable_evolves [OF schedule_durable];
       (rule d)?)+)+)
qed

text \<open>C28: Whatever the services of a deployment are asked to do, in any order and whether or not an
  operation raises, the stores stay well formed (every case explained by its log, one active case
  for each asset, every assigned finding in its case, distinct jobs), no event of a log is changed or
  lost, no product record is rewritten, and no finding leaves its case.\<close>

theorem services_preserve_stores:
  assumes "operates dp w ops w'" "deployment_durable dp" "system_inv w"
  shows "system_inv w' \<and> logs_extend (wd_cases w) (wd_cases w') \<and>
    sql_record_view (wd_records w) \<subseteq>\<^sub>m sql_record_view (wd_records w') \<and>
    rows_extend (wd_findings w) (wd_findings w')"
proof -
  have "evolves w w'"
    using assms(1)
  proof (induction rule: operates.induct)
    case (op w ops v p r v')
    from staysD [OF serve_evolves [OF assms(2)] op(2)] op(3) show ?case by (rule evolves.trans [rotated])
  qed simp
  with assms(3) show ?thesis by (simp add: evolves_def)
qed

end
