(* ===== verification/Review_Witnesses.thy ===== *)
theory Review_Witnesses
  imports Sample_Worlds Orchestration_Properties Agent_Run_Properties System
begin

text \<open>
  A case with short ids on the last stages before a person's decision, and agents that answer as told:
  the properties of the reviews, the gate, the orchestrator and the managed runtime at work.
\<close>

section \<open>A case with its records\<close>

definition late_window :: change_window where
  "late_window = sample_window\<lparr>cw_starts_at := ''2026-01-02T00:00:00Z'', cw_ends_at := ''2026-01-02T02:00:00Z''\<rparr>"

definition stage_args :: "string \<Rightarrow> (string, string) dict \<Rightarrow> transition_args" where
  "stage_args e ids = basic_args e ''2026-01-01T00:00:00Z'' ''m'' ids []"

definition selected_stages :: "(case_transition \<times> transition_args) list" where
  "selected_stages =
     [(PRIORITIZE, (brief_args ''a'' ''risk_assessment_id'')\<lparr>ta_priority := Some sample_risk\<rparr>),
      (VALIDATE, stage_args ''b'' [(''validation_result_id'', ''v'')]),
      (PREPARE_PLAN, (stage_args ''d'' [(''change_plan_id'', ''p''), (''iac_link_id'', ''k'')])
         \<lparr>ta_change_plan := Some sample_plan\<rparr>),
      (APPROVE_SRE, stage_args ''e'' [(''sre_review_id'', ''s'')]),
      (SELECT_WINDOW, (stage_args ''f'' [(''change_window_id'', ''w'')])\<lparr>ta_change_window := Some late_window\<rparr>)]"

definition kept :: "string \<Rightarrow> string \<Rightarrow> (string, pyval) dict \<Rightarrow> product_record" where
  "kept i kind body = \<lparr> pr_record_id = i, pr_case_id = ''c'', pr_record_type = kind,
     pr_schema_version = 1, pr_created_at = ''n'', pr_body = PDict body, pr_evidence_ids = [''e''] \<rparr>"

definition kept_records :: "product_record list" where
  "kept_records =
     [kept ''v'' ''ValidationResult.v1'' [], kept ''k'' ''IaCLink.v1'' [],
      kept ''p'' ''RemediationPlan.v1''
        [(''status'', PStr ''verified''), (''checks'', PList [PDict [(''passed'', PBool True)]]),
         (''task'', PDict [(''runtime'', PStr ''r''), (''model'', PStr ''m'')])],
      kept ''s'' ''SREReview.v1''
        [(''decision'', PStr ''approve''), (''failure_modes'', PList [PStr ''a'']),
         (''required_controls'', PList [PStr ''a'']), (''verification_requirements'', PList [PStr ''a''])],
      kept ''w'' ''ChangeWindowRecommendation.v1'' [],
      kept ''r'' ''RollbackReview.v1''
        [(''decision'', PStr ''approve''), (''verified_steps'', PList [PStr ''a'']),
         (''trigger_coverage'', PList [PStr ''a''])]]"

definition selected_setup :: "(unit world, unit) prog" where
  "selected_setup = bindM open_sample (\<lambda>_. bindM (mapM store_record kept_records) (\<lambda>_.
     advances ''c'' selected_stages))"

definition selected_world :: "unit world" where
  "selected_world = snd (selected_setup empty_world)"

definition ready_world :: "unit world" where
  "ready_world = snd (advances ''c''
     [(REVIEW_ROLLBACK, stage_args ''g'' [(''rollback_review_id'', ''r'')])] selected_world)"

lemma late_window_ok: "is_ok (mk_change_window late_window)"
  by code_simp

lemma selected_stages_ok: "list_all (args_ok \<circ> snd) selected_stages"
  by (simp add: selected_stages_def stage_args_def brief_args_def args_ok_def basic_args_def sample_parts_ok late_window_ok)

lemma selected_world_ok: "world_ok selected_world"
proof -
  have "keeps world_ok selected_setup"
    unfolding selected_setup_def open_sample_def
    by (intro keeps_intros keeps_advances selected_stages_ok)
  then show ?thesis using empty_world_ok unfolding selected_world_def keeps_def by blast
qed

lemma ready_world_ok: "world_ok ready_world"
proof -
  have "keeps world_ok (advances ''c'' [(REVIEW_ROLLBACK, stage_args ''g'' [(''rollback_review_id'', ''r'')])] :: (unit world, unit) prog)"
    by (intro keeps_advances) (simp add: stage_args_def args_ok_def basic_args_def)
  then show ?thesis using selected_world_ok unfolding ready_world_def keeps_def by blast
qed

section \<open>The gate and the orchestrator\<close>

definition sample_gate :: review_gate where
  "sample_gate = \<lparr> hg_env = steady_env, hg_minimum_models = 1, hg_state_grounded = False \<rparr>"

lemma gate_passed: "is_ok (fst (prepare_human_review sample_gate ''c'' ready_world))"
  by code_simp

theorem human_review_gate_witness:
  "\<exists>out w' c recs. prepare_human_review sample_gate ''c'' ready_world = (Inr out, w') \<and>
     gate_holds sample_gate ''c'' c recs ''2026-01-01T01:00:00Z''"
proof -
  obtain r w' where run: "prepare_human_review sample_gate ''c'' ready_world = (r, w')" by (metis surj_pair)
  then obtain out where out: "r = Inr out" using gate_passed by (auto simp: is_ok_iff)
  have "cases_ok (wd_cases ready_world)" "sql_record_ok (wd_records ready_world)"
    using ready_world_ok by (simp_all add: world_ok_def)
  from human_review_gate [OF this run] out run show ?thesis
    by (auto simp: sample_gate_def steady_env_def)
qed

text \<open>An agent that gives one answer to every task and cites all it was given.\<close>

definition answering :: "(string, pyval) dict \<Rightarrow> unit agent_runtime" where
  "answering out = \<lparr> rt_name = ''a'', rt_run = (\<lambda>t. ret
     \<lparr> ar_task_id = at_task_id t, ar_case_id = at_case_id t, ar_role = at_role t, ar_status = SUCCEEDED,
       ar_output = out, ar_evidence_cited = at_evidence_ids t, ar_missing_evidence = [],
       ar_runtime = ''a'', ar_model = ''m'', ar_started_at = [], ar_completed_at = [], ar_usage = PDict [] \<rparr>) \<rparr>"

lemma answering_pure:
  "snd (rt_run (answering out) t w) = w" "stays durable (rt_run (answering out) t)"
  "agent_durable (answering out)" "agent_same_cases (answering out)"
  by (simp_all add: answering_def ret_def stays_def agent_durable_def agent_same_cases_def)

definition sample_stage :: "(string, pyval) dict \<Rightarrow> unit agent_stage" where
  "sample_stage out = \<lparr> sg_env = steady_env, sg_artifact_root = ''x'', sg_runtime = answering out,
     sg_schema = (\<lambda>_ _. []) \<rparr>"

definition sample_orchestrator :: "(unit, unit) orchestrator" where
  "sample_orchestrator = \<lparr> oc_stage = sample_stage [], oc_gate = sample_gate, oc_zones = (\<lambda>_. None),
     oc_planner = (\<lambda>_. ret ()) \<rparr>"

definition sample_policy :: window_policy where
  "sample_policy = \<lparr> wp_timezone = ''UTC'', wp_duration_minutes = 60, wp_notice_hours = 1,
     wp_allowed_weekdays = [], wp_allowed_start_hours = [], wp_candidate_count = 1,
     wp_minimum_profile_samples = 1, wp_fixed_start_delay_minutes = None \<rparr>"

lemma orchestrated:
  "is_ok (fst (advance_to_human_review sample_orchestrator ''c'' [] [] sample_policy ready_world))"
  by code_simp

theorem orchestrated_case_passed_gate_witness:
  "\<exists>out w' c es. advance_to_human_review sample_orchestrator ''c'' [] [] sample_policy ready_world = (Inr out, w') \<and>
     awaited ''c'' (pr_record_id (hr_package out)) w' c es (json_record (hr_package out))"
proof -
  obtain r w' where run: "advance_to_human_review sample_orchestrator ''c'' [] [] sample_policy ready_world = (r, w')"
    by (metis surj_pair)
  then obtain out where out: "r = Inr out" using orchestrated by (auto simp: is_ok_iff)
  have agent: "agent_durable (sg_runtime (oc_stage sample_orchestrator))" "stays durable (oc_planner sample_orchestrator ''c'')"
    by (simp_all add: sample_orchestrator_def sample_stage_def answering_pure durable.pure)
  from orchestrated_case_passed_gate [OF ready_world_ok agent run [unfolded out]] run out show ?thesis by blast
qed

section \<open>Reviews\<close>

text \<open>A rejection that says what to change.\<close>

definition rejection :: "(string, pyval) dict" where
  "rejection = [(''decision'', PStr ''reject''), (''summary'', PStr ''n''),
     (''verified_steps'', PList []), (''trigger_coverage'', PList []), (''failure_modes'', PList []),
     (''required_changes'', PList [PStr ''x''])]"

lemma sent_back:
  "case fst (rollback_review_case (sample_stage rejection) ''c'' selected_world) of
     Inr out \<Rightarrow> rc_state (ro_case out) = VALIDATED | Inl e \<Rightarrow> False"
  by code_simp

theorem rollback_review_reworks_once_witness:
  "\<exists>out w' c es e. rollback_review_case (sample_stage rejection) ''c'' selected_world = (Inr out, w') \<and>
     sql_view (wd_cases w') ''c'' = Some (c, es @ [e]) \<and> rc_state c = VALIDATED \<and> already_reworked (es @ [e])"
proof -
  obtain r w' where run: "rollback_review_case (sample_stage rejection) ''c'' selected_world = (r, w')"
    by (metis surj_pair)
  then obtain out where out: "r = Inr out" "rc_state (ro_case out) = VALIDATED"
    using sent_back by (cases r) auto
  have ok: "cases_ok (wd_cases selected_world)" using selected_world_ok by (simp add: world_ok_def)
  have agent: "agent_same_cases (sg_runtime (sample_stage rejection))"
    by (simp add: sample_stage_def answering_pure)
  from rollback_review_reworks_once [OF ok agent run [unfolded out]] obtain es e c' where
    "sql_view (wd_cases w') = (sql_view (wd_cases selected_world))(''c'' \<mapsto> (c', es @ [e]))" "same_case (ro_case out) c'"
    "rc_state c' = VALIDATED \<longrightarrow> already_reworked (es @ [e])" by blast
  moreover then have "rc_state c' = VALIDATED" using out(2) same_case_fields(6) by metis
  ultimately show ?thesis using run out(1) by auto
qed

section \<open>Answers\<close>

definition sample_task :: agent_task where
  "sample_task = \<lparr> at_task_id = ''t'', at_case_id = ''c'', at_role = ROLLBACK_VERIFIER, at_objective = ''o'',
     at_output_contract = ''RollbackReview.v1'', at_input_record_ids = [], at_evidence_ids = [''e''],
     at_constraints = [], at_metadata = [] \<rparr>"

lemma answered:
  "is_ok (fst (accepted_answer (sample_stage rejection) (Some rollback_semantic_failures) [''e''] sample_task empty_world))"
  by code_simp

theorem accepted_answer_checked_witness:
  "\<exists>r w'. accepted_answer (sample_stage rejection) (Some rollback_semantic_failures) [''e''] sample_task empty_world = (Inr r, w') \<and>
     ''e'' \<in> set (ar_evidence_cited r)"
proof -
  let ?run = "accepted_answer (sample_stage rejection) (Some rollback_semantic_failures) [''e''] sample_task empty_world"
  obtain x w' where run: "?run = (x, w')" by (metis surj_pair)
  then obtain r where "x = Inr r" using answered by (auto simp: is_ok_iff)
  with run have "?run = (Inr r, w')" by simp
  with accepted_answer_checked [OF this] show ?thesis by auto
qed

text \<open>An agent that counts how often it is asked and never answers well: it is asked three times.\<close>

definition counting :: "nat agent_runtime" where
  "counting = \<lparr> rt_name = ''a'', rt_run = (\<lambda>t. bindM (on_outside (modifyM Suc)) (\<lambda>_. ret
     \<lparr> ar_task_id = at_task_id t, ar_case_id = at_case_id t, ar_role = at_role t, ar_status = SUCCEEDED,
       ar_output = [(''decision'', PStr ''reject'')], ar_evidence_cited = [], ar_missing_evidence = [],
       ar_runtime = ''a'', ar_model = ''m'', ar_started_at = [], ar_completed_at = [], ar_usage = PDict [] \<rparr>)) \<rparr>"

definition counting_stage :: "nat agent_stage" where
  "counting_stage = \<lparr> sg_env = steady_env, sg_artifact_root = ''x'', sg_runtime = counting,
     sg_schema = (\<lambda>_ _. []) \<rparr>"

definition counting_world :: "nat world" where
  "counting_world = \<lparr> wd_cases = sql_empty, wd_records = [], wd_findings = [], wd_jobs = [], wd_files = [],
     wd_tick = 0, wd_outside = 0 \<rparr>"

theorem agent_asked_at_most_three_times_witness:
  "wd_outside (snd (accepted_answer counting_stage (Some rollback_semantic_failures) [] sample_task counting_world)) \<le> 3"
proof -
  have "wd_outside (snd (rt_run (sg_runtime counting_stage) t v)) \<le> wd_outside v + 1" for t and v :: "nat world"
    by (simp add: counting_stage_def counting_def run_defs on_outside_def)
  from agent_asked_at_most_three_times [of wd_outside counting_stage, OF this,
      of "Some rollback_semantic_failures" "[]" sample_task counting_world]
  show ?thesis by (simp add: counting_world_def)
qed

section \<open>The managed runtime\<close>

definition sample_managed :: "int \<Rightarrow> unit managed" where
  "sample_managed calls = \<lparr> mg_env = steady_env, mg_artifact_root = ''x'', mg_runtime = answering rejection,
     mg_policy = default_run_policy\<lparr>rp_max_model_calls := calls\<rparr> \<rparr>"

theorem agent_calls_within_budget_witness:
  "\<exists>r w'. managed_run (sample_managed 1) sample_task empty_world = (r, w') \<and> recorded_calls ''c'' w' \<le> 1"
proof -
  obtain r w' where run: "managed_run (sample_managed 1) sample_task empty_world = (r, w')" by (metis surj_pair)
  have "recorded_calls (at_case_id sample_task) (snd (rt_run (mg_runtime (sample_managed 1)) sample_task v)) =
      recorded_calls (at_case_id sample_task) v" for v
    by (simp add: sample_managed_def answering_pure)
  moreover have "int (recorded_calls (at_case_id sample_task) empty_world) \<le> rp_max_model_calls (mg_policy (sample_managed 1))"
    by (simp add: recorded_calls_def empty_world_def sample_managed_def)
  ultimately have "int (recorded_calls ''c'' w') \<le> 1"
    using agent_calls_within_budget [OF _ _ run] by (simp add: sample_task_def sample_managed_def)
  with run show ?thesis by auto
qed

theorem exhausted_budget_stops_every_agent_witness:
  "\<exists>msg w'. managed_run (sample_managed 0) sample_task empty_world = (Inl (Raise AgentRunStopped msg), w')"
proof -
  have ok: "sql_record_ok (wd_records empty_world)" using empty_world_ok by (simp add: world_ok_def)
  have rs: "list_records (at_case_id sample_task) None empty_world = (Inr [], empty_world)"
    by (simp add: list_records_def on_records_def sql_record_ops_def sql_record_list_def run_defs empty_world_def)
  have "must_stop (mg_policy (sample_managed 0)) (binding (mg_env (sample_managed 0)) sample_task) []"
    by (simp add: must_stop_def sample_managed_def invocations_of_def)
  from exhausted_budget_stops_every_agent [OF ok _ rs _ this] obtain msg w' where
    "\<forall>rt. managed_run ((sample_managed 0)\<lparr>mg_runtime := rt\<rparr>) sample_task empty_world = (Inl (Raise AgentRunStopped msg), w')"
    by (auto simp: sample_task_def)
  then have "managed_run ((sample_managed 0)\<lparr>mg_runtime := mg_runtime (sample_managed 0)\<rparr>) sample_task empty_world =
      (Inl (Raise AgentRunStopped msg), w')" by blast
  then show ?thesis by simp
qed

section \<open>The services together\<close>

definition idle_service :: "unit execution_service" where
  "idle_service = \<lparr> xs_env = steady_env, xs_artifact_root = ''x'',
     xs_driver = \<lparr> dv_name = ''d'', dv_preflight = (\<lambda>_. raise OSError ''d''), dv_checkpoint = (\<lambda>_. raise OSError ''d''),
       dv_deploy = (\<lambda>_ _. raise OSError ''d''), dv_rollback = (\<lambda>_ _. raise OSError ''d'') \<rparr>,
     xs_monitor = \<lparr> hm_name = ''h'', hm_observe = (\<lambda>_ _. raise OSError ''h'') \<rparr>,
     xs_probes = [], xs_runtime = answering rejection, xs_schema = (\<lambda>_ _. []) \<rparr>"

definition sample_deployment :: "(unit, unit) deployment" where
  "sample_deployment = \<lparr> dp_env = steady_env, dp_root = ''x'', dp_intake = worker ''a'' alone,
     dp_reader = (\<lambda>_. raise OSError ''r''), dp_registry = sample_registry,
     dp_orchestrator = sample_orchestrator, dp_execution = idle_service \<rparr>"

lemma sample_deployment_durable: "deployment_durable sample_deployment"
proof -
  have "others_keep (worker ''a'' alone)"
    using alone_behaves [of "''a''"] unfolding others_keep_def by (simp add: worker_def alone_def)
  then show ?thesis
    by (simp add: deployment_durable_def sample_deployment_def sample_orchestrator_def sample_stage_def
        execution_durable_def idle_service_def answering_pure durable.pure)
qed

text \<open>An intake, the review of a case that does not exist, and another intake.\<close>

theorem services_preserve_stores_witness:
  "\<exists>w'. operates sample_deployment empty_world
     [Ingest (raw_sample ''A'' ''low'') ''t'' default_intake_context None, Review ''c'' [] [] sample_policy,
      Ingest (raw_sample ''B'' ''high'') ''t'' default_intake_context None] w' \<and> system_inv w'"
proof -
  let ?a = "Ingest (raw_sample ''A'' ''low'') ''t'' default_intake_context None"
  let ?b = "Review ''c'' [] [] sample_policy"
  let ?c = "Ingest (raw_sample ''B'' ''high'') ''t'' default_intake_context None"
  have next_op: "\<exists>v'. operates sample_deployment w (ops @ [p]) v'" if "operates sample_deployment w ops v" for w ops v p
    using operates.op [OF that surjective_pairing] by blast
  obtain w' where w': "operates sample_deployment empty_world [?a, ?b, ?c] w'"
    using next_op [OF operates.idle, of empty_world ?a] next_op [of empty_world "[?a]" _ ?b]
      next_op [of empty_world "[?a, ?b]" _ ?c] by auto
  have "system_inv empty_world"
    using empty_world_ok empty_inv by (simp add: system_inv_def intake_inv_def)
  from services_preserve_stores [OF w' sample_deployment_durable this] w' show ?thesis by blast
qed

end
