(* ===== verification/Portfolio.thy ===== *)
theory Portfolio
  imports World
begin

text \<open>
  \<open>src/elcapitan/portfolio.py\<close>: the queue of a tenant's changes, ordered by what is urgent, and the
  collisions of their windows.
\<close>

section \<open>Priorities\<close>

definition queued_states :: "case_state list" where
  "queued_states = [VALIDATED, PLAN_READY, SRE_APPROVED, WINDOW_SELECTED, ROLLBACK_READY,
     AWAITING_APPROVAL, APPROVED]"

record portfolio_policy =
  pp_maximum_parallel_changes :: int
  pp_critical_service_penalty :: rat
  pp_internet_exposure_bonus :: rat

definition default_portfolio_policy :: portfolio_policy where
  "default_portfolio_policy = \<lparr> pp_maximum_parallel_changes = 1, pp_critical_service_penalty = 10,
     pp_internet_exposure_bonus = 10 \<rparr>"

definition mk_portfolio_policy :: "portfolio_policy \<Rightarrow> portfolio_policy res" where
  "mk_portfolio_policy p =
     bindE (guardE (\<not> pp_maximum_parallel_changes p < 1) ValueError
              ''maximum_parallel_changes must be positive'') (\<lambda>_. Inr p)"

record portfolio_item =
  pi_rank :: int
  pi_case_id :: string
  pi_state :: string
  pi_base_risk_score :: rat
  pi_effective_priority :: rat
  pi_service_ids :: "string list"
  pi_window_start :: string
  pi_window_end :: string
  pi_scheduling_status :: string
  pi_reasons :: "string list"

definition portfolio_item_to_dict :: "portfolio_item \<Rightarrow> pyval" where
  "portfolio_item_to_dict i = PDict
     [(''rank'', PInt (pi_rank i)), (''case_id'', PStr (pi_case_id i)), (''state'', PStr (pi_state i)),
      (''base_risk_score'', PFloat (pi_base_risk_score i)),
      (''effective_priority'', PFloat (pi_effective_priority i)),
      (''service_ids'', str_list (pi_service_ids i)), (''window_start'', PStr (pi_window_start i)),
      (''window_end'', PStr (pi_window_end i)),
      (''scheduling_status'', PStr (pi_scheduling_status i)), (''reasons'', str_list (pi_reasons i))]"

text \<open>A case that is queued, with its assessment and its priority in the fleet.\<close>

record scored_case =
  sk_effective :: rat
  sk_risk :: risk_assessment
  sk_case :: remediation_case

definition service_weight :: "(string, rat) dict \<Rightarrow> string list \<Rightarrow> rat" where
  "service_weight criticality services =
     (case map (\<lambda>s. case dict_get criticality s of None \<Rightarrow> 0 | Some x \<Rightarrow> x) services of
        [] \<Rightarrow> 0 | x # xs \<Rightarrow> fold max xs x)"

definition exposed_to_internet :: "risk_assessment \<Rightarrow> bool" where
  "exposed_to_internet r = list_ex (\<lambda>f. sublist ''internet'' (str_lower f)) (ra_factors r)"

definition score_case ::
  "portfolio_policy \<Rightarrow> (string, rat) dict \<Rightarrow> remediation_case \<Rightarrow> scored_case option" where
  "score_case p criticality c =
     (case rc_priority c of
        None \<Rightarrow> None
      | Some r \<Rightarrow>
          if rc_state c \<in> set queued_states then
            Some \<lparr> sk_effective = ra_score r
                     + (if exposed_to_internet r then pp_internet_exposure_bonus p else 0)
                     - pp_critical_service_penalty p * service_weight criticality (rc_service_ids c),
                   sk_risk = r, sk_case = c \<rparr>
          else None)"

definition queue_key :: "scored_case \<Rightarrow> (rat \<times> rat \<times> int \<times> string) res" where
  "queue_key s =
     bindE (parse_timestamp (rc_created_at (sk_case s))) (\<lambda>created.
     Inr (- sk_effective s, - ra_score (sk_risk s), created, rc_case_id (sk_case s)))"

definition rank_cases :: "scored_case list \<Rightarrow> scored_case list res" where
  "rank_cases scored =
     bindE (mapE queue_key scored) (\<lambda>keys. Inr (map snd (sort_key fst (zip keys scored))))"

section \<open>Collisions\<close>

definition windows_overlap :: "remediation_case \<Rightarrow> remediation_case \<Rightarrow> bool res" where
  "windows_overlap left right =
     (case (rc_change_window left, rc_change_window right) of
        (Some l, Some r) \<Rightarrow>
          bindE (parse_timestamp (cw_starts_at l)) (\<lambda>starts.
          bindE (parse_timestamp (cw_ends_at r)) (\<lambda>ends.
          if \<not> starts < ends then Inr False
          else bindE (parse_timestamp (cw_starts_at r)) (\<lambda>starts'.
               bindE (parse_timestamp (cw_ends_at l)) (\<lambda>ends'. Inr (starts' < ends')))))
      | _ \<Rightarrow> Inr False)"

definition share_service :: "remediation_case \<Rightarrow> remediation_case \<Rightarrow> bool" where
  "share_service c d = list_ex (\<lambda>s. s \<in> set (rc_service_ids d)) (rc_service_ids c)"

fun conflicts_of ::
  "portfolio_policy \<Rightarrow> remediation_case \<Rightarrow> remediation_case list \<Rightarrow> string list res" where
  "conflicts_of p c [] = Inr []"
| "conflicts_of p c (higher # hs) =
     bindE (windows_overlap c higher) (\<lambda>overlap.
     bindE (conflicts_of p c hs) (\<lambda>ids.
     Inr (if overlap \<and> (share_service c higher \<or> pp_maximum_parallel_changes p = 1)
          then rc_case_id higher # ids else ids)))"

definition scheduling_status :: "remediation_case \<Rightarrow> string list \<Rightarrow> string \<times> string" where
  "scheduling_status c conflicts =
     (if conflicts \<noteq> [] \<and> rc_state c = APPROVED then
        (''window_conflict'', ''conflicts with higher-priority case(s): '' @ str_join '', '' conflicts)
      else if conflicts \<noteq> [] \<and> rc_change_window c \<noteq> None then
        (''candidate_window_conflict'',
         ''candidate conflicts with higher-priority case(s): '' @ str_join '', '' conflicts)
      else if rc_state c = APPROVED \<and> rc_change_window c \<noteq> None then
        (''scheduled'', ''approved window has no fleet collision'')
      else if rc_state c = VALIDATED then
        (''awaiting_plan'', ''validated case must complete operational planning'')
      else if rc_state c = PLAN_READY then
        (''awaiting_sre_review'', ''verified plan is awaiting independent SRE review'')
      else if rc_state c = SRE_APPROVED then
        (''awaiting_window'', ''SRE-approved plan is awaiting window selection'')
      else if rc_state c = WINDOW_SELECTED then
        (''awaiting_rollback_review'', ''candidate window is not approved or scheduled'')
      else if rc_state c = ROLLBACK_READY then
        (''assembling_human_review'', ''rollback-ready package is entering the policy gate'')
      else (''awaiting_human_approval'', ''candidate window remains unapproved and unscheduled''))"

definition queue_item ::
  "portfolio_policy \<Rightarrow> scored_case list \<Rightarrow> nat \<Rightarrow> portfolio_item res" where
  "queue_item p scored index =
     (let s = scored ! index; c = sk_case s in
      bindE (conflicts_of p c (map sk_case (take index scored))) (\<lambda>conflicts.
      let (status, reason) = scheduling_status c conflicts
      in Inr \<lparr> pi_rank = int index + 1, pi_case_id = rc_case_id c,
               pi_state = case_state_value (rc_state c), pi_base_risk_score = ra_score (sk_risk s),
               pi_effective_priority = py_round 3 (sk_effective s), pi_service_ids = rc_service_ids c,
               pi_window_start = (case rc_change_window c of None \<Rightarrow> [] | Some w \<Rightarrow> cw_starts_at w),
               pi_window_end = (case rc_change_window c of None \<Rightarrow> [] | Some w \<Rightarrow> cw_ends_at w),
               pi_scheduling_status = status,
               pi_reasons = [''risk score '' @ fmt_fixed 1 (ra_score (sk_risk s)), reason] \<rparr>))"

definition portfolio_of ::
  "portfolio_policy \<Rightarrow> (string, rat) dict \<Rightarrow> remediation_case list \<Rightarrow> portfolio_item list res" where
  "portfolio_of p criticality cases =
     bindE (rank_cases (List.map_filter (score_case p criticality) cases)) (\<lambda>scored.
     mapE (queue_item p scored) [0 ..< length scored])"

definition portfolio_queue ::
  "portfolio_policy \<Rightarrow> string \<Rightarrow> (string, rat) dict \<Rightarrow> ('x world, portfolio_item list) prog" where
  "portfolio_queue p tenant criticality =
     bindM (on_cases (cs_list sql_ops (Some tenant))) (\<lambda>cases.
     liftE (portfolio_of p criticality cases))"

end
