(* ===== verification/Portfolio_Properties.thy ===== *)
theory Portfolio_Properties
  imports Portfolio Sample_Worlds "HOL-Library.Multiset"
begin

text \<open>
  What the queue promises: the order, and that no two changes it calls scheduled collide.
\<close>

section \<open>The order\<close>

lemma rank_cases_sorted:
  assumes "rank_cases scored = Inr xs"
  shows "mset xs = mset scored" and "sorted (map (\<lambda>s. - sk_effective s) xs)"
proof -
  from assms obtain keys where k: "mapE queue_key scored = Inr keys"
    and xs: "xs = map snd (sort_key fst (zip keys scored))"
    by (auto simp: rank_cases_def res_simps)
  have len: "length keys = length scored" and key: "\<And>i. i < length scored \<Longrightarrow> queue_key (scored ! i) = Inr (keys ! i)"
    using mapE_nth [OF k] by auto
  have "mset xs = image_mset snd (mset (zip keys scored))" by (simp add: xs)
  also have "\<dots> = mset (map snd (zip keys scored))" by simp
  also have "\<dots> = mset scored" using len by simp
  finally show "mset xs = mset scored" .
  have pair: "fst (fst q) = - sk_effective (snd q)" if "q \<in> set (zip keys scored)" for q
  proof -
    from that len obtain n where "q = (keys ! n, scored ! n)" "n < length scored"
      by (auto simp: set_zip)
    with key [of n] show ?thesis by (cases "keys ! n") (auto simp: queue_key_def res_simps)
  qed
  have "sorted (map fst (sort_key fst (zip keys scored)))" by simp
  then have "sorted (map (\<lambda>q. fst (fst q)) (sort_key fst (zip keys scored)))"
    unfolding sorted_map by (rule sorted_wrt_mono_rel [rotated]) (auto simp: less_eq_prod_def)
  then have "sorted (map (\<lambda>q. - sk_effective (snd q)) (sort_key fst (zip keys scored)))"
    by (rule back_subst [of sorted]) (auto intro!: pair)
  then show "sorted (map (\<lambda>s. - sk_effective s) xs)" by (simp add: xs comp_def)
qed

lemma portfolio_of_items:
  assumes "portfolio_of p criticality cases = Inr items"
  obtains scored where "rank_cases (List.map_filter (score_case p criticality) cases) = Inr scored"
    "length items = length scored" "\<forall>i < length scored. queue_item p scored i = Inr (items ! i)"
proof -
  from assms obtain scored where r: "rank_cases (List.map_filter (score_case p criticality) cases) = Inr scored"
    and m: "mapE (queue_item p scored) [0 ..< length scored] = Inr items"
    by (auto simp: portfolio_of_def res_simps)
  with mapE_nth [OF m] show thesis by (intro that [OF r]) auto
qed

lemma queue_item_Inr:
  assumes "queue_item p scored i = Inr it"
  shows "pi_case_id it = rc_case_id (sk_case (scored ! i))" "pi_rank it = int i + 1"
    "pi_effective_priority it = py_round 3 (sk_effective (scored ! i))"
    "pi_service_ids it = rc_service_ids (sk_case (scored ! i))"
    "pi_window_start it = (case rc_change_window (sk_case (scored ! i)) of None \<Rightarrow> [] | Some w \<Rightarrow> cw_starts_at w)"
    "pi_window_end it = (case rc_change_window (sk_case (scored ! i)) of None \<Rightarrow> [] | Some w \<Rightarrow> cw_ends_at w)"
    "\<exists>ids. conflicts_of p (sk_case (scored ! i)) (map sk_case (take i scored)) = Inr ids \<and>
       pi_scheduling_status it = fst (scheduling_status (sk_case (scored ! i)) ids)"
  using assms by (auto simp: queue_item_def Let_def res_simps case_prod_beta)

section \<open>Collisions\<close>

lemma conflicts_of_Nil:
  "conflicts_of p c hs = Inr [] \<Longrightarrow> h \<in> set hs \<Longrightarrow>
     share_service c h \<or> pp_maximum_parallel_changes p = 1 \<Longrightarrow> windows_overlap c h = Inr False"
  by (induction p c hs rule: conflicts_of.induct) (auto simp: res_simps split: if_splits)

lemma status_scheduled:
  "fst (scheduling_status c ids) = ''scheduled'' \<longleftrightarrow> ids = [] \<and> rc_state c = APPROVED \<and> rc_change_window c \<noteq> None"
  by (auto simp: scheduling_status_def)

lemma no_overlap_parts:
  assumes "windows_overlap c d = Inr False" "rc_change_window c = Some l" "rc_change_window d = Some r"
  shows "(\<exists>s e. parse_timestamp (cw_starts_at l) = Inr s \<and> parse_timestamp (cw_ends_at r) = Inr e \<and> e \<le> s) \<or>
    (\<exists>s e. parse_timestamp (cw_starts_at r) = Inr s \<and> parse_timestamp (cw_ends_at l) = Inr e \<and> e \<le> s)"
  using assms by (auto simp: windows_overlap_def res_simps not_less split: if_splits)

text \<open>The queue holds the eligible cases, numbered from 1, with the most urgent first.\<close>

theorem queue_by_priority:
  assumes "portfolio_of p criticality cases = Inr items"
  shows "image_mset pi_case_id (mset items) =
      image_mset (\<lambda>s. rc_case_id (sk_case s)) (mset (List.map_filter (score_case p criticality) cases)) \<and>
    map pi_rank items = map int [1 ..< Suc (length items)] \<and>
    sorted_wrt (\<lambda>a b. pi_effective_priority b \<le> pi_effective_priority a) items"
proof -
  from assms obtain scored where rank: "rank_cases (List.map_filter (score_case p criticality) cases) = Inr scored"
    and len: "length items = length scored"
    and it: "\<forall>k < length scored. queue_item p scored k = Inr (items ! k)"
    by (rule portfolio_of_items)
  note Q = queue_item_Inr [OF it [rule_format]] and R = rank_cases_sorted [OF rank]
  have "map pi_case_id items = map (\<lambda>s. rc_case_id (sk_case s)) scored"
    using len Q(1) by (intro nth_equalityI) simp_all
  then have "image_mset pi_case_id (mset items) = image_mset (\<lambda>s. rc_case_id (sk_case s)) (mset scored)"
    by (metis mset_map)
  moreover have "map pi_rank items = map int [1 ..< Suc (length items)]"
    using len Q(2) by (intro nth_equalityI) (simp_all del: upt_Suc)
  moreover have "pi_effective_priority (items ! b) \<le> pi_effective_priority (items ! a)"
    if "a < b" "b < length items" for a b
  proof -
    have "sk_effective (scored ! b) \<le> sk_effective (scored ! a)"
      using R(2) that len by (simp add: sorted_iff_nth_mono_less)
    then show ?thesis using Q(3) that len by (simp add: py_round_mono)
  qed
  ultimately show ?thesis using R(1) by (simp add: sorted_wrt_iff_nth_less)
qed

text \<open>C38: The changes the queue calls scheduled do not collide. Of two of them that share a service, and
  of any two where one change is allowed at a time, one window ends before the other starts.\<close>

theorem scheduled_changes_do_not_collide:
  assumes "portfolio_queue p tenant criticality w = (Inr items, w')"
    and "i < j" "j < length items"
    and "pi_scheduling_status (items ! i) = ''scheduled''" "pi_scheduling_status (items ! j) = ''scheduled''"
    and "pp_maximum_parallel_changes p = 1 \<or>
         set (pi_service_ids (items ! i)) \<inter> set (pi_service_ids (items ! j)) \<noteq> {}"
  shows "(\<exists>s e. parse_timestamp (pi_window_start (items ! j)) = Inr s \<and>
            parse_timestamp (pi_window_end (items ! i)) = Inr e \<and> e \<le> s) \<or>
         (\<exists>s e. parse_timestamp (pi_window_start (items ! i)) = Inr s \<and>
            parse_timestamp (pi_window_end (items ! j)) = Inr e \<and> e \<le> s)"
proof -
  from assms(1) obtain cases where "portfolio_of p criticality cases = Inr items"
    by (auto simp: portfolio_queue_def run_simps)
  then obtain scored where "rank_cases (List.map_filter (score_case p criticality) cases) = Inr scored"
    and len: "length items = length scored"
    and it: "\<forall>k < length scored. queue_item p scored k = Inr (items ! k)"
    by (rule portfolio_of_items)
  let ?c = "\<lambda>k. sk_case (scored ! k)"
  have k: "i < length scored" "j < length scored" using assms(2,3) len by auto
  note I = queue_item_Inr [OF it [rule_format, OF k(1)]] and J = queue_item_Inr [OF it [rule_format, OF k(2)]]
  obtain l r where win: "rc_change_window (?c j) = Some l" "rc_change_window (?c i) = Some r"
    and none: "conflicts_of p (?c j) (map sk_case (take j scored)) = Inr []"
    using I(7) J(7) unfolding assms(4,5) by (metis option.exhaust status_scheduled)
  have "?c i \<in> set (map sk_case (take j scored))"
    using assms(2) k by (force simp: in_set_conv_nth)
  moreover have "share_service (?c j) (?c i) \<or> pp_maximum_parallel_changes p = 1"
    using assms(6) I(4) J(4) by (auto simp: share_service_def list_ex_iff)
  ultimately have "windows_overlap (?c j) (?c i) = Inr False" by (rule conflicts_of_Nil [OF none])
  from no_overlap_parts [OF this win] show ?thesis using I(5,6) J(5,6) win by simp
qed

section \<open>Queues of approved changes\<close>

definition busy_case :: "string \<Rightarrow> string \<Rightarrow> change_window \<Rightarrow> remediation_case" where
  "busy_case i service window = sample_case\<lparr>rc_case_id := i, rc_asset_ids := [i], rc_service_ids := [service],
     rc_state := APPROVED, rc_priority := Some sample_risk, rc_change_window := Some window\<rparr>"

definition later_window :: change_window where
  "later_window = sample_window\<lparr>cw_starts_at := ''2027-01-01T00:00:00Z'', cw_ends_at := ''2027-01-01T01:00:00Z''\<rparr>"

definition busy_world :: "unit world" where
  "busy_world = empty_world\<lparr>wd_cases := snd (sql_create (busy_case ''b'' ''x'' later_window)
     (snd (sql_create (busy_case ''a'' ''x'' sample_window) (wd_cases empty_world))))\<rparr>"

lemma busy_queue:
  "case fst (portfolio_queue default_portfolio_policy ''t'' [] busy_world) of
      Inl e \<Rightarrow> False | Inr items \<Rightarrow> map pi_scheduling_status items = [''scheduled'', ''scheduled'']"
  by code_simp

theorem scheduled_changes_do_not_collide_witness:
  "\<exists>items. fst (portfolio_queue default_portfolio_policy ''t'' [] busy_world) = Inr items \<and>
     ((\<exists>s e. parse_timestamp (pi_window_start (items ! 1)) = Inr s \<and>
         parse_timestamp (pi_window_end (items ! 0)) = Inr e \<and> e \<le> s) \<or>
      (\<exists>s e. parse_timestamp (pi_window_start (items ! 0)) = Inr s \<and>
         parse_timestamp (pi_window_end (items ! 1)) = Inr e \<and> e \<le> s))"
proof -
  obtain r w' where run: "portfolio_queue default_portfolio_policy ''t'' [] busy_world = (r, w')"
    by (cases "portfolio_queue default_portfolio_policy ''t'' [] busy_world")
  with busy_queue obtain items where items: "r = Inr items"
    and st: "map pi_scheduling_status items = [''scheduled'', ''scheduled'']" by (cases r) auto
  from arg_cong [OF st, of length] have two: "length items = 2" by simp
  from arg_cong [OF st, of "\<lambda>xs. xs ! 0"] arg_cong [OF st, of "\<lambda>xs. xs ! 1"] two
  have sched: "pi_scheduling_status (items ! 0) = ''scheduled''" "pi_scheduling_status (items ! 1) = ''scheduled''"
    by simp_all
  have "pp_maximum_parallel_changes default_portfolio_policy = 1" by (simp add: default_portfolio_policy_def)
  then show ?thesis
    using scheduled_changes_do_not_collide [OF run [unfolded items], of 0 1] two sched run items by simp
qed

section \<open>The limit on parallel changes\<close>







end
