(* ===== verification/Terraform_Source.thy ===== *)
theory Terraform_Source
  imports Paths
begin

text \<open>
  Reading Terraform sources, of \<open>src/elcapitan/terraform_linker.py\<close>: the files of a repository, the
  resource blocks of a file and the literal values of a block. The regular expressions of the
  source are deterministic and written out as scanners.
\<close>

section \<open>Lines\<close>

text \<open>\<open>str.splitlines(keepends=True)\<close>.\<close>

definition ends_line :: "char \<Rightarrow> bool" where
  "ends_line c = (c \<in> set [CHR 0x0A, CHR 0x0B, CHR 0x0C, CHR 0x0D, CHR 0x1C, CHR 0x1D, CHR 0x1E])"

text \<open>The number of bytes of the line end a text starts with; beyond ASCII these are \<open>U+0085\<close>,
  \<open>U+2028\<close> and \<open>U+2029\<close>.\<close>

definition line_end :: "char \<Rightarrow> string \<Rightarrow> nat" where
  "line_end c cs =
     (if ends_line c then (if c = CHR 0x0D \<and> take 1 cs = [CHR 0x0A] then 2 else 1)
      else if c = CHR 0xC2 \<and> take 1 cs = [CHR 0x85] then 2
      else if c = CHR 0xE2 \<and> (take 2 cs = [CHR 0x80, CHR 0xA8] \<or> take 2 cs = [CHR 0x80, CHR 0xA9]) then 3
      else 0)"

fun take_line :: "string \<Rightarrow> string \<times> string" where
  "take_line [] = ([], [])"
| "take_line (c # cs) =
     (let n = line_end c cs
      in if 0 < n then (c # take (n - 1) cs, drop (n - 1) cs)
         else case take_line cs of (l, r) \<Rightarrow> (c # l, r))"

lemma take_line_append: "take_line s = (l, r) \<Longrightarrow> s = l @ r"
  by (induction s arbitrary: l r) (auto simp: Let_def split: if_splits prod.splits)

lemma take_line_shorter: "take_line (c # cs) = (l, r) \<Longrightarrow> length r \<le> length cs"
proof (induction cs arbitrary: c l)
  case (Cons d ds)
  then show ?case by (fastforce simp: Let_def split: if_splits prod.splits)
qed (auto simp: Let_def split: if_splits)

function lines_of :: "string \<Rightarrow> string list" where
  "lines_of [] = []"
| "lines_of (c # cs) = (case take_line (c # cs) of (l, r) \<Rightarrow> l # lines_of r)"
  by pat_completeness auto
termination
  by (relation "measure length") (auto simp: less_Suc_eq_le simp del: take_line.simps dest!: sym take_line_shorter)

lemma concat_lines_of: "concat (lines_of s) = s"
proof (induction s rule: lines_of.induct)
  case (2 c cs)
  obtain l r where lr: "take_line (c # cs) = (l, r)" by fastforce
  have "concat (lines_of (c # cs)) = l @ concat (lines_of r)" by (simp add: lr del: take_line.simps)
  with 2 [OF lr [symmetric]] take_line_append [OF lr] show ?case by simp
qed simp

section \<open>Resource headers\<close>

definition skip_spaces :: "string \<Rightarrow> string" where
  "skip_spaces s = dropWhile is_space s"

definition some_spaces :: "string \<Rightarrow> string option" where
  "some_spaces s = (if s \<noteq> [] \<and> is_space (hd s) then Some (skip_spaces s) else None)"

definition expect_text :: "string \<Rightarrow> string \<Rightarrow> string option" where
  "expect_text p s = (if take (length p) s = p then Some (drop (length p) s) else None)"

text \<open>\<open>"([^"]+)"\<close> at the start of a text: what is quoted and what follows.\<close>

definition quoted_name :: "string \<Rightarrow> (string \<times> string) option" where
  "quoted_name s =
     (case expect_text [CHR 0x22] s of
        None \<Rightarrow> None
      | Some t \<Rightarrow>
          let v = takeWhile (\<lambda>c. c \<noteq> CHR 0x22) t; rest = drop (length v) t
          in if v = [] \<or> rest = [] then None else Some (v, tl rest))"

definition resource_header :: "string \<Rightarrow> (string \<times> string) option" where
  "resource_header line =
     (case expect_text ''resource'' (skip_spaces line) of None \<Rightarrow> None | Some a \<Rightarrow>
     (case some_spaces a of None \<Rightarrow> None | Some b \<Rightarrow>
     (case quoted_name b of None \<Rightarrow> None | Some (type, d) \<Rightarrow>
     (case some_spaces d of None \<Rightarrow> None | Some e \<Rightarrow>
     (case quoted_name e of None \<Rightarrow> None | Some (name, f) \<Rightarrow>
     (case expect_text ''{'' (skip_spaces f) of None \<Rightarrow> None | Some _ \<Rightarrow> Some (type, name)))))))"

section \<open>Blocks\<close>

text \<open>\<open>_brace_delta\<close>: \<open>quoted\<close> and \<open>escaped\<close> say where the scan stands.\<close>

fun brace_scan :: "int \<Rightarrow> bool \<Rightarrow> bool \<Rightarrow> string \<Rightarrow> int" where
  "brace_scan delta quoted escaped [] = delta"
| "brace_scan delta quoted escaped (c # cs) =
     (if escaped then brace_scan delta quoted False cs
      else if quoted \<and> c = CHR 0x5C then brace_scan delta quoted True cs
      else if c = CHR 0x22 then brace_scan delta (\<not> quoted) False cs
      else if \<not> quoted \<and> c = CHR ''#'' then delta
      else if \<not> quoted \<and> c = CHR ''/'' \<and> take 1 cs = ''/'' then delta
      else if \<not> quoted \<and> c = CHR ''{'' then brace_scan (delta + 1) quoted False cs
      else if \<not> quoted \<and> c = CHR ''}'' then brace_scan (delta - 1) quoted False cs
      else brace_scan delta quoted False cs)"

definition brace_delta :: "string \<Rightarrow> int" where
  "brace_delta line = brace_scan 0 False False line"

text \<open>The number of lines after which the depth is back at zero, if it ever is.\<close>

fun block_length :: "int \<Rightarrow> string list \<Rightarrow> nat option" where
  "block_length depth [] = None"
| "block_length depth (l # ls) =
     (if depth + brace_delta l = 0 then Some 1 else map_option Suc (block_length (depth + brace_delta l) ls))"

lemma block_length_pos: "block_length depth ls = Some n \<Longrightarrow> 0 < n \<and> n \<le> length ls"
  by (induction depth ls arbitrary: n rule: block_length.induct) (auto split: if_splits)

record tf_block =
  tb_source_path :: string
  tb_resource_type :: string
  tb_resource_name :: string
  tb_start_line :: nat
  tb_end_line :: nat
  tb_text :: string

function blocks_from :: "string \<Rightarrow> nat \<Rightarrow> string list \<Rightarrow> tf_block list res" where
  "blocks_from path i [] = Inr []"
| "blocks_from path i (l # ls) =
     (case resource_header l of
        None \<Rightarrow> blocks_from path (i + 1) ls
      | Some (type, name) \<Rightarrow>
          (case block_length 0 (l # ls) of
            None \<Rightarrow> Inl (Raise TerraformLinkError
              (''unterminated Terraform resource block at '' @ path @ '':'' @ show_nat (i + 1)))
          | Some n \<Rightarrow>
              bindE (blocks_from path (i + n) (drop n (l # ls))) (\<lambda>bs.
              Inr (\<lparr> tb_source_path = path, tb_resource_type = type, tb_resource_name = name,
                     tb_start_line = i + 1, tb_end_line = i + n,
                     tb_text = concat (take n (l # ls)) \<rparr> # bs))))"
  by pat_completeness auto
termination
  by (relation "measure (\<lambda>(path, i, ls). length ls)") (auto simp del: block_length.simps dest: block_length_pos)

definition maximum_source :: int where
  "maximum_source = 2 * 1024 * 1024"

text \<open>The size of the file is the number of its bytes.\<close>

definition tf_blocks :: "string \<Rightarrow> string \<Rightarrow> tf_block list res" where
  "tf_blocks path content =
     bindE (guardE (\<not> maximum_source < int (length content)) TerraformLinkError
              (''Terraform source is too large to inspect safely: '' @ path)) (\<lambda>_.
     bindE (decode_text content) (\<lambda>text.
     blocks_from path 0 (lines_of text)))"

text \<open>\<open>terraform_resource_block\<close>, of the content of the file.\<close>

definition terraform_resource_block :: "string \<Rightarrow> string \<Rightarrow> string \<Rightarrow> string \<Rightarrow> string res" where
  "terraform_resource_block source content type name =
     bindE (tf_blocks source content) (\<lambda>bs.
     case filter (\<lambda>b. tb_resource_type b = type \<and> tb_resource_name b = name) bs of
       [b] \<Rightarrow> Inr (tb_text b)
     | matches \<Rightarrow> Inl (Raise TerraformLinkError
         (''expected exactly one '' @ type @ ''.'' @ name @ '' block in '' @ source @ ''; found ''
          @ show_nat (length matches))))"

section \<open>Literal values\<close>

definition name_start :: "char \<Rightarrow> bool" where
  "name_start c = (c = CHR ''_'' \<or> c \<in> set lower_letters \<or> c \<in> set upper_letters)"

definition name_char :: "char \<Rightarrow> bool" where
  "name_char c = (name_start c \<or> is_digit c)"

text \<open>\<open>(?:[^"\\]|\\.)*"\<close>: the text up to the closing quote and what follows it.\<close>

fun literal_text :: "string \<Rightarrow> (string \<times> string) option" where
  "literal_text [] = None"
| "literal_text (c # cs) =
     (if c = CHR 0x22 then Some ([], cs)
      else if c = CHR 0x5C then
        (case cs of [] \<Rightarrow> None
         | d # ds \<Rightarrow> if d = CHR 0x0A then None
             else (case literal_text ds of None \<Rightarrow> None | Some (v, rest) \<Rightarrow> Some (c # d # v, rest)))
      else (case literal_text cs of None \<Rightarrow> None | Some (v, rest) \<Rightarrow> Some (c # v, rest)))"

definition literal_assignment :: "string \<Rightarrow> (string \<times> string \<times> string) option" where
  "literal_assignment s =
     (let a = skip_spaces s; name = takeWhile name_char a
      in if name = [] \<or> \<not> name_start (hd name) then None
         else (case expect_text ''='' (skip_spaces (drop (length name) a)) of None \<Rightarrow> None | Some b \<Rightarrow>
              (case expect_text [CHR 0x22] (skip_spaces b) of None \<Rightarrow> None | Some c \<Rightarrow>
              (case literal_text c of None \<Rightarrow> None | Some (v, rest) \<Rightarrow> Some (name, v, rest)))))"

lemma literal_text_shorter: "literal_text s = Some (v, rest) \<Longrightarrow> length rest < length s"
  by (induction s arbitrary: v rule: literal_text.induct)
    (fastforce split: if_splits option.splits list.splits)+

lemma literal_assignment_shorter: "literal_assignment s = Some (n, v, rest) \<Longrightarrow> length rest < length s"
proof -
  assume a: "literal_assignment s = Some (n, v, rest)"
  have d: "length (skip_spaces t) \<le> length t" for t by (simp add: skip_spaces_def length_dropWhile_le)
  have e: "expect_text p t = Some u \<Longrightarrow> length u \<le> length t" for p t u
    by (auto simp: expect_text_def split: if_splits)
  from a obtain b c where 1: "expect_text ''='' (skip_spaces (drop (length n) (skip_spaces s))) = Some b"
    and 2: "expect_text [CHR 0x22] (skip_spaces b) = Some c" and 3: "literal_text c = Some (v, rest)"
    by (auto simp: literal_assignment_def Let_def split: if_splits option.splits)
  have "length (skip_spaces (drop (length n) (skip_spaces s))) \<le> length s"
    using d [of "drop (length n) (skip_spaces s)"] d [of s] by simp
  with e [OF 1] e [OF 2] d [of b] literal_text_shorter [OF 3] show ?thesis by linarith
qed

text \<open>\<open>finditer\<close>: a match starts where a line starts, and the next one after it.\<close>

function literal_matches :: "bool \<Rightarrow> string \<Rightarrow> (string \<times> string) list" where
  "literal_matches at_start [] = []"
| "literal_matches at_start (c # cs) =
     (case (if at_start then literal_assignment (c # cs) else None) of
        None \<Rightarrow> literal_matches (c = CHR 0x0A) cs
      | Some (name, v, rest) \<Rightarrow> (name, v) # literal_matches False rest)"
  by pat_completeness auto
termination
  by (relation "measure (\<lambda>(b, s). length s)")
    (auto dest!: literal_assignment_shorter split: if_splits)

fun replace_pair :: "char \<Rightarrow> char \<Rightarrow> char \<Rightarrow> string \<Rightarrow> string" where
  "replace_pair a b r (x # y # zs) =
     (if x = a \<and> y = b then r # replace_pair a b r zs else x # replace_pair a b r (y # zs))"
| "replace_pair a b r s = s"

definition unescaped :: "string \<Rightarrow> string" where
  "unescaped v = replace_pair (CHR 0x5C) (CHR 0x5C) (CHR 0x5C) (replace_pair (CHR 0x5C) (CHR 0x22) (CHR 0x22) v)"

definition literal_values :: "tf_block \<Rightarrow> (string, string) dict" where
  "literal_values b =
     fold (\<lambda>(name, v). dict_set name (unescaped v)) (literal_matches True (tb_text b)) []"

section \<open>The files of a repository\<close>

definition ignored_directories :: "string list" where
  "ignored_directories = [''.git'', ''.terraform'', ''.venv'', ''.tox'', ''.pytest_cache'', ''__pycache__'']"

text \<open>\<open>Path(name).suffix == ".tf"\<close>.\<close>

definition terraform_name :: "string \<Rightarrow> bool" where
  "terraform_name name = (3 < length name \<and> drop (length name - 3) name = ''.tf'')"

definition below :: "string \<Rightarrow> string \<Rightarrow> string option" where
  "below base path = expect_text (base @ ''/'') path"

text \<open>The order of \<open>os.walk\<close>: in each directory the files by name, then the directories by name.\<close>

definition walk_key :: "string list \<Rightarrow> (bool \<times> string) list" where
  "walk_key parts = map (\<lambda>d. (True, d)) (butlast parts) @ [(False, last parts)]"

definition terraform_file :: "string list \<Rightarrow> bool" where
  "terraform_file parts = (parts \<noteq> [] \<and> terraform_name (last parts) \<and>
     list_all (\<lambda>d. d \<notin> set ignored_directories) (butlast parts))"

definition terraform_files :: "(string, string) dict \<Rightarrow> string \<Rightarrow> string list" where
  "terraform_files files base =
     map (str_join ''/'') (sort_key walk_key
       (filter terraform_file (map path_parts (List.map_filter (\<lambda>f. below base (fst f)) files))))"

end
