(* ===== verification/Terraform_Link.thy ===== *)
theory Terraform_Link
  imports Terraform_Source Json
begin

text \<open>
  \<open>src/elcapitan/terraform_linker.py\<close>: the one resource block of a repository that owns a cloud
  resource. A repository is a directory of the map of files, named without links and without
  \<open>..\<close>; a Terraform state is a JSON document.
\<close>

section \<open>What a cloud resource is called\<close>

record cloud_identity =
  id_terraform_type :: "string option"
  id_name :: string
  id_resource_group :: string

definition azure_types :: "((string \<times> string) \<times> string) list" where
  "azure_types =
     [((''microsoft.storage'', ''storageaccounts''), ''azurerm_storage_account''),
      ((''microsoft.web'', ''sites''), ''azurerm_linux_web_app''),
      ((''microsoft.app'', ''containerapps''), ''azurerm_container_app''),
      ((''microsoft.keyvault'', ''vaults''), ''azurerm_key_vault'')]"

definition no_identity :: cloud_identity where
  "no_identity = \<lparr> id_terraform_type = None, id_name = [], id_resource_group = [] \<rparr>"

text \<open>
  The search for \<open>/resourceGroups/<group>/providers/<namespace>/<type>/<name>\<close> in any letter case,
  on the parts between slashes after the first one.
\<close>

fun arm_parts :: "string list \<Rightarrow> (string \<times> string \<times> string \<times> string) option" where
  "arm_parts (r # g # p # n # t # m # rest) =
     (if str_lower r = ''resourcegroups'' \<and> g \<noteq> [] \<and> str_lower p = ''providers'' \<and>
         n \<noteq> [] \<and> t \<noteq> [] \<and> m \<noteq> [] then Some (g, n, t, m)
      else arm_parts (g # p # n # t # m # rest))"
| "arm_parts parts = None"

definition s3_bucket :: "string \<Rightarrow> string option" where
  "s3_bucket uid =
     (let name_of = (\<lambda>p. case expect_text p uid of None \<Rightarrow> None
            | Some n \<Rightarrow> if n \<noteq> [] \<and> CHR ''/'' \<notin> set n then Some n else None)
      in case name_of ''arn:aws:s3:::'' of Some n \<Rightarrow> Some n | None \<Rightarrow>
         (case name_of ''arn:aws-us-gov:s3:::'' of Some n \<Rightarrow> Some n | None \<Rightarrow> name_of ''arn:aws-cn:s3:::''))"

definition identity_of :: "string \<Rightarrow> string \<Rightarrow> cloud_identity" where
  "identity_of provider uid =
     (if str_lower provider = ''azure'' then
        case arm_parts (tl (path_parts uid)) of
          None \<Rightarrow> no_identity
        | Some (grp, ns, type, name) \<Rightarrow>
            \<lparr> id_terraform_type = map_of azure_types (str_lower ns, str_lower type),
              id_name = name, id_resource_group = grp \<rparr>
      else if str_lower provider = ''aws'' then
        case s3_bucket uid of
          None \<Rightarrow> no_identity
        | Some name \<Rightarrow> \<lparr> id_terraform_type = Some ''aws_s3_bucket'', id_name = name, id_resource_group = [] \<rparr>
      else no_identity)"

section \<open>Resources of a state\<close>

record state_resource =
  sr_address :: string
  sr_type :: string
  sr_name :: string
  sr_values :: pyval

definition text_or_empty :: "pyval \<Rightarrow> string" where
  "text_or_empty v = (if truthy v then py_str v else [])"

definition shown_resource :: "pyval \<Rightarrow> state_resource res" where
  "shown_resource r =
     bindE (dict_get_attr r ''values'' PNone) (\<lambda>values.
     Inr \<lparr> sr_address = text_or_empty (pget (dict_items r) ''address''),
           sr_type = text_or_empty (pget (dict_items r) ''type''),
           sr_name = text_or_empty (pget (dict_items r) ''name''), sr_values = or_dict values \<rparr>)"

lemma mapE_cong [fundef_cong]:
  "xs = ys \<Longrightarrow> (\<And>x. x \<in> set ys \<Longrightarrow> f x = g x) \<Longrightarrow> mapE f xs = mapE g ys"
  by (induction xs arbitrary: ys) auto

lemma size_pget: "dict_get d k = Some v \<Longrightarrow> size v < size (PDict d)"
proof -
  assume "dict_get d k = Some v"
  then have "(k, v) \<in> set d" by (auto simp: dict_get_def dest: map_of_SomeD)
  then have "size_prod (\<lambda>_. 0) size (k, v) \<le> size_list (size_prod (\<lambda>_. 0) size) d"
    by (rule size_list_estimation') simp
  then show ?thesis by simp
qed

lemma size_child:
  assumes "dict_get_attr m k (PList []) = Inr v" "iterate_value v = Inr xs" "x \<in> set xs" "is_dict x"
  shows "size x < size m"
proof -
  obtain d where m: "m = PDict d" using assms(1) by (cases m) (auto simp: dict_get_attr_def res_simps)
  obtain ys where v: "v = PList ys" "x \<in> set ys" using assms(2-4) by (cases v) auto
  then have "dict_get d k = Some v"
    using assms(1) by (auto simp: m dict_get_attr_def dict_items_def get_or_def res_simps split: option.splits)
  from size_pget [OF this] have "size v < size m" by (simp add: m)
  moreover have "size x < size v"
    using v size_list_estimation' [of x ys "size x" size] by simp
  ultimately show ?thesis by linarith
qed

function visit_module :: "pyval \<Rightarrow> state_resource list res" where
  "visit_module m =
     bindE (dict_get_attr m ''resources'' (PList [])) (\<lambda>rs.
     bindE (iterate_value rs) (\<lambda>resources.
     bindE (mapE shown_resource resources) (\<lambda>own.
     bindE (dict_get_attr m ''child_modules'' (PList [])) (\<lambda>cs.
     bindE (iterate_value cs) (\<lambda>children.
     bindE (mapE (\<lambda>c. if is_dict c then visit_module c
              else Inl (Raise AttributeError (''object has no attribute '' @ repr_str ''get''))) children) (\<lambda>found.
     Inr (own @ concat found)))))))"
  by pat_completeness auto
termination
  by (relation "measure size") (auto intro: size_child)

declare visit_module.simps [simp del]

text \<open>\<open>json.dumps\<close> of a text.\<close>

definition dumps_char :: "char \<Rightarrow> string" where
  "dumps_char c =
     (if CHR 0x7E < c
      then (let n = of_char c :: nat in
        [CHR 0x5C, CHR ''u'', CHR ''0'', CHR ''0'', hex_digit (n div 16), hex_digit n])
      else json_char c)"

definition dumps_text :: "string \<Rightarrow> string" where
  "dumps_text s = CHR 0x22 # concat (map dumps_char s) @ [CHR 0x22]"

definition index_suffix :: "pyval \<Rightarrow> string" where
  "index_suffix v = ''['' @ (if is_str v then dumps_text (as_str v) else py_str v) @ '']''"

definition raw_instance :: "pyval \<Rightarrow> nat \<Rightarrow> nat \<times> pyval \<Rightarrow> state_resource res" where
  "raw_instance resource count indexed =
     (let d = dict_items resource; (index, inst) = indexed in
      bindE (dict_get_attr inst ''attributes'' PNone) (\<lambda>attributes.
      let prefix = (if truthy (pget d ''module'') then py_str (pget d ''module'') @ ''.'' else []);
          base = prefix @ py_str (get_or d ''type'' (PStr [])) @ ''.'' @ py_str (get_or d ''name'' (PStr []));
          key = get_or (dict_items inst) ''index_key'' (PInt (int index))
      in Inr \<lparr> sr_address = (if dict_has (dict_items inst) ''index_key'' \<or> 1 < count
                             then base @ index_suffix key else base),
               sr_type = text_or_empty (pget d ''type''), sr_name = text_or_empty (pget d ''name''),
               sr_values = or_dict attributes \<rparr>))"

definition raw_resource :: "pyval \<Rightarrow> state_resource list res" where
  "raw_resource resource =
     bindE (dict_get_attr resource ''mode'' (PStr ''managed'')) (\<lambda>mode.
     if mode \<noteq> PStr ''managed'' then Inr []
     else bindE (iterate_value (get_or (dict_items resource) ''instances'' (PList []))) (\<lambda>instances.
       mapE (raw_instance resource (length instances)) (enumerate 0 instances)))"

definition state_resources :: "(string, pyval) dict \<Rightarrow> state_resource list res" where
  "state_resources document =
     (let values = pget document ''values''; root_module = pget (dict_items values) ''root_module'' in
      bindE (if is_dict values \<and> is_dict root_module then visit_module root_module else Inr []) (\<lambda>shown.
      bindE (iterate_value (get_or document ''resources'' (PList []))) (\<lambda>resources.
      bindE (mapE raw_resource resources) (\<lambda>raw.
      Inr (shown @ concat raw)))))"

section \<open>The owner of a resource in a state\<close>

definition state_identity_matches :: "string \<Rightarrow> string \<Rightarrow> state_resource \<Rightarrow> bool res" where
  "state_identity_matches provider uid r =
     bindE (dict_get_attr (sr_values r) ''id'' PNone) (\<lambda>candidate.
     let identity = identity_of provider uid
     in if is_str candidate \<and> str_lower (as_str candidate) = str_lower uid then Inr True
        else if str_lower provider = ''aws'' \<and>
                sr_type r \<in> {''aws_s3_bucket'', ''aws_s3_bucket_versioning''} \<and> id_name identity \<noteq> [] then
          Inr (list_ex (\<lambda>v. is_str v \<and>
                 str_lower (takeWhile (\<lambda>c. c \<noteq> CHR '','') (as_str v)) = str_lower (id_name identity))
               [pget (dict_items (sr_values r)) ''bucket'', candidate])
        else Inr False)"

definition owned :: "string \<Rightarrow> string \<Rightarrow> string list \<Rightarrow> state_resource \<Rightarrow> bool res" where
  "owned provider uid types r =
     (if types \<noteq> [] \<and> sr_type r \<notin> set types then Inr False else state_identity_matches provider uid r)"

fun owners :: "string \<Rightarrow> string \<Rightarrow> string list \<Rightarrow> state_resource list \<Rightarrow> state_resource list res" where
  "owners provider uid types [] = Inr []"
| "owners provider uid types (r # rs) =
     bindE (owned provider uid types r) (\<lambda>ok.
     bindE (owners provider uid types rs) (\<lambda>found. Inr (if ok then r # found else found)))"

definition state_owner ::
  "(string, pyval) dict \<Rightarrow> string \<Rightarrow> string \<Rightarrow> string list \<Rightarrow> state_resource option res" where
  "state_owner document provider uid types =
     bindE (state_resources document) (\<lambda>rs.
     bindE (owners provider uid types rs) (\<lambda>matches.
     case matches of
       [] \<Rightarrow> Inr None
     | [r] \<Rightarrow> Inr (Some r)
     | _ \<Rightarrow> Inl (Raise AmbiguousTerraformLink
         (''multiple Terraform state resources have id '' @ uid @ '': ''
          @ str_join '', '' (sort (map sr_address matches))))))"

section \<open>Blocks that may own it\<close>

record tf_link =
  tl_resource_uid :: string
  tl_source_path :: string
  tl_module_path :: string
  tl_resource_type :: string
  tl_resource_name :: string
  tl_start_line :: nat
  tl_end_line :: nat
  tl_match_strategy :: string
  tl_confidence :: rat
  tl_source_sha256 :: string
  tl_resource_address :: string
  tl_state_sha256 :: string

definition tf_link_to_dict :: "tf_link \<Rightarrow> pyval" where
  "tf_link_to_dict l = PDict
     [(''resource_uid'', PStr (tl_resource_uid l)), (''source_path'', PStr (tl_source_path l)),
      (''module_path'', PStr (tl_module_path l)), (''resource_type'', PStr (tl_resource_type l)),
      (''resource_name'', PStr (tl_resource_name l)), (''start_line'', PInt (int (tl_start_line l))),
      (''end_line'', PInt (int (tl_end_line l))), (''match_strategy'', PStr (tl_match_strategy l)),
      (''confidence'', PFloat (tl_confidence l)), (''source_sha256'', PStr (tl_source_sha256 l)),
      (''resource_address'', PStr (tl_resource_address l)), (''state_sha256'', PStr (tl_state_sha256 l))]"

definition type_of_identity :: "cloud_identity \<Rightarrow> string list" where
  "type_of_identity i = (case id_terraform_type i of None \<Rightarrow> [] | Some t \<Rightarrow> [t])"

definition block_match ::
  "string \<Rightarrow> string \<Rightarrow> cloud_identity \<Rightarrow> string list \<Rightarrow> tf_block \<Rightarrow> (string \<times> rat) option" where
  "block_match provider uid identity types b =
     (let values = literal_values b;
          eligible = (if types \<noteq> [] then types else type_of_identity identity);
          named = (\<lambda>k. case dict_get values k of None \<Rightarrow> [] | Some v \<Rightarrow> v)
      in if types \<noteq> [] \<and> tb_resource_type b \<notin> set types then None
         else if list_ex (\<lambda>kv. str_lower (snd kv) = str_lower uid) values then Some (''exact_resource_uid'', 1)
         else if tb_resource_type b \<notin> set eligible then None
         else if str_lower (named (if str_lower provider = ''aws'' then ''bucket'' else ''name''))
                 \<noteq> str_lower (id_name identity) then None
         else if str_lower provider = ''azure'' \<and> named ''resource_group_name'' \<noteq> [] then
           (if str_lower (named ''resource_group_name'') \<noteq> str_lower (id_resource_group identity) then None
            else Some (''provider_type_name_and_resource_group'', 98 / 100))
         else Some (''provider_type_and_literal_name'', 9 / 10))"

record link_candidate =
  lc_path :: string
  lc_block :: tf_block
  lc_strategy :: string
  lc_confidence :: rat

definition candidate_of ::
  "string \<Rightarrow> string \<Rightarrow> string list \<Rightarrow> state_resource option \<Rightarrow> string \<Rightarrow> tf_block \<Rightarrow> link_candidate option" where
  "candidate_of provider uid types owner path b =
     (let found = (case owner of
            Some r \<Rightarrow> if tb_resource_type b = sr_type r \<and> tb_resource_name b = sr_name r
                      then Some (''terraform_state_resource_id'', 1)
                      else block_match provider uid (identity_of provider uid) types b
          | None \<Rightarrow> block_match provider uid (identity_of provider uid) types b)
      in map_option (\<lambda>(strategy, confidence).
           \<lparr> lc_path = path, lc_block = b, lc_strategy = strategy, lc_confidence = confidence \<rparr>) found)"

definition file_content :: "(string, string) dict \<Rightarrow> string \<Rightarrow> string" where
  "file_content files path = (case dict_get files path of None \<Rightarrow> [] | Some c \<Rightarrow> c)"

definition file_candidates ::
  "(string, string) dict \<Rightarrow> string \<Rightarrow> string \<Rightarrow> string \<Rightarrow> string list \<Rightarrow> state_resource option \<Rightarrow> string \<Rightarrow>
   link_candidate list res" where
  "file_candidates files base provider uid types owner path =
     bindE (tf_blocks (base @ ''/'' @ path) (file_content files (base @ ''/'' @ path))) (\<lambda>bs.
     Inr (List.map_filter (candidate_of provider uid types owner path) bs))"

definition link_candidates ::
  "(string, string) dict \<Rightarrow> string \<Rightarrow> string \<Rightarrow> string \<Rightarrow> string list \<Rightarrow> state_resource option \<Rightarrow>
   link_candidate list res" where
  "link_candidates files base provider uid types owner =
     bindE (mapE (file_candidates files base provider uid types owner) (terraform_files files base)) (\<lambda>css.
     Inr (concat css))"

section \<open>The link\<close>

definition check_link_arguments ::
  "(string, string) dict \<Rightarrow> string \<Rightarrow> string \<Rightarrow> string \<Rightarrow> pyval option \<Rightarrow> string list \<Rightarrow> unit res" where
  "check_link_arguments files base provider uid state types =
     bindE (guardE (dir_present files base \<or> dict_has files base) FileNotFoundError base) (\<lambda>_.
     bindE (guardE (dir_present files base) TerraformLinkError
              (''repository is not a directory: '' @ base)) (\<lambda>_.
     bindE (guardE (provider \<noteq> [] \<and> uid \<noteq> []) TerraformLinkError
              ''provider and resource_uid are required'') (\<lambda>_.
     bindE (guardE (case state of None \<Rightarrow> True | Some v \<Rightarrow> is_dict v) TerraformLinkError
              ''Terraform state document must be an object'') (\<lambda>_.
     guardE ([] \<notin> set types \<and> distinct types) TerraformLinkError
       ''resource_types must be a tuple of unique non-empty strings''))))"

definition owner_in :: "pyval option \<Rightarrow> string \<Rightarrow> string \<Rightarrow> string list \<Rightarrow> state_resource option res" where
  "owner_in state provider uid types =
     (case state of None \<Rightarrow> Inr None
      | Some v \<Rightarrow> state_owner (dict_items v) provider uid
          (if types \<noteq> [] then types else type_of_identity (identity_of provider uid)))"

definition expected_owner :: "string \<Rightarrow> string \<Rightarrow> string list \<Rightarrow> string" where
  "expected_owner provider uid types =
     (if types \<noteq> [] then str_join '', '' types
      else case id_terraform_type (identity_of provider uid) of
             None \<Rightarrow> ''a literal resource UID'' | Some t \<Rightarrow> t)"

definition best_candidates :: "link_candidate list \<Rightarrow> link_candidate list" where
  "best_candidates cs = filter (\<lambda>c. list_all (\<lambda>d. lc_confidence d \<le> lc_confidence c) cs) cs"

definition module_of :: "string \<Rightarrow> string" where
  "module_of path = (if butlast (path_parts path) = [] then ''.'' else str_join ''/'' (butlast (path_parts path)))"

definition link_to ::
  "env \<Rightarrow> (string, string) dict \<Rightarrow> string \<Rightarrow> string \<Rightarrow> pyval option \<Rightarrow> state_resource option \<Rightarrow>
   link_candidate \<Rightarrow> tf_link" where
  "link_to env files base uid state owner c =
     \<lparr> tl_resource_uid = uid, tl_source_path = lc_path c, tl_module_path = module_of (lc_path c),
       tl_resource_type = tb_resource_type (lc_block c), tl_resource_name = tb_resource_name (lc_block c),
       tl_start_line = tb_start_line (lc_block c), tl_end_line = tb_end_line (lc_block c),
       tl_match_strategy = lc_strategy c, tl_confidence = lc_confidence c,
       tl_source_sha256 = env_sha256 env (file_content files (base @ ''/'' @ lc_path c)),
       tl_resource_address = (case owner of None \<Rightarrow> [] | Some r \<Rightarrow> sr_address r),
       tl_state_sha256 = (case state of None \<Rightarrow> [] | Some v \<Rightarrow> env_sha256 env (canonical_json v)) \<rparr>"

definition link_terraform_resource ::
  "env \<Rightarrow> (string, string) dict \<Rightarrow> string \<Rightarrow> string \<Rightarrow> string \<Rightarrow> pyval option \<Rightarrow> string list \<Rightarrow> tf_link res" where
  "link_terraform_resource env files base provider uid state types =
     bindE (check_link_arguments files base provider uid state types) (\<lambda>_.
     bindE (owner_in state provider uid types) (\<lambda>owner.
     bindE (link_candidates files base provider uid types owner) (\<lambda>cs.
     bindE (guardE (cs \<noteq> []) TerraformLinkNotFound
              (''no Terraform block links '' @ provider @ '':'' @ uid @ ''; expected ''
               @ expected_owner provider uid types)) (\<lambda>_.
     case best_candidates cs of
       [c] \<Rightarrow> Inr (link_to env files base uid state owner c)
     | winners \<Rightarrow> Inl (Raise AmbiguousTerraformLink
         (''multiple Terraform blocks match '' @ uid @ '': ''
          @ str_join '', '' (map (\<lambda>c. lc_path c @ '':'' @ show_nat (tb_start_line (lc_block c))) winners)))))))"

end
