(* ===== verification/Terraform_Checks.thy ===== *)
theory Terraform_Checks
  imports Terraform_Link Json_Parser Observability
begin

text \<open>
  \<open>SubprocessTerraformRunner\<close> of \<open>src/elcapitan/remediation_planning.py\<close>: Terraform run on a copy of
  the repository with one planning identity, and the inspection of its plan. Starting a process,
  the name of the temporary directory, the redaction of secrets in its output (two regular
  expressions) and the address of the identity proxy are parameters.
\<close>

section \<open>Checks\<close>

record tf_check =
  tc_name :: string
  tc_argv :: "string list"
  tc_exit_code :: int
  tc_stdout :: string
  tc_stderr :: string
  tc_details :: pyval

definition tf_passed :: "tf_check \<Rightarrow> bool" where
  "tf_passed c = (tc_exit_code c = 0)"

definition tf_check_to_dict :: "tf_check \<Rightarrow> pyval" where
  "tf_check_to_dict c = PDict
     [(''name'', PStr (tc_name c)), (''argv'', str_list (tc_argv c)), (''exit_code'', PInt (tc_exit_code c)),
      (''stdout'', PStr (tc_stdout c)), (''stderr'', PStr (tc_stderr c)), (''passed'', PBool (tf_passed c)),
      (''details'', or_dict (tc_details c))]"

definition mk_check :: "string \<Rightarrow> string list \<Rightarrow> int \<Rightarrow> string \<Rightarrow> string \<Rightarrow> tf_check" where
  "mk_check name argv code out err =
     \<lparr> tc_name = name, tc_argv = argv, tc_exit_code = code, tc_stdout = out, tc_stderr = err,
       tc_details = PNone \<rparr>"

text \<open>How a process ended: with a code and its output, at its time limit, or not started.\<close>

datatype process_end = Completed int string string | TimedOut string string | NotStarted string

record 'x terraform_runner =
  tr_executable :: string
  tr_timeout_seconds :: pyval
  tr_host_env :: "(string, string) dict"
  tr_directory :: string
  tr_process :: "string list \<Rightarrow> string \<Rightarrow> (string, string) dict \<Rightarrow> ('x world, process_end) prog"
  tr_redact :: "string \<Rightarrow> string"
  tr_split_url :: "string \<Rightarrow> string \<times> string option"
  tr_proxy_url :: string

definition mk_terraform_runner :: "'x terraform_runner \<Rightarrow> 'x terraform_runner res" where
  "mk_terraform_runner tr =
     bindE (guardE (\<not> num_of (tr_timeout_seconds tr) \<le> 0) ValueError ''Terraform timeout must be positive'')
       (\<lambda>_. Inr tr)"

definition output_limit :: int where
  "output_limit = 1000000"

definition bounded_output :: "string \<Rightarrow> string" where
  "bounded_output s =
     (if int (length s) \<le> output_limit then s
      else take (nat output_limit) s @ [CHR 0x0A] @ ''[output truncated by El Capitan]'')"

definition check_of_process :: "'x terraform_runner \<Rightarrow> string \<Rightarrow> string list \<Rightarrow> process_end \<Rightarrow> tf_check" where
  "check_of_process tr name argv p =
     (case p of
        Completed code out err \<Rightarrow> mk_check name argv code (bounded_output out) (bounded_output err)
      | TimedOut out err \<Rightarrow> mk_check name argv 124 (bounded_output out)
          (str_strip (bounded_output err @ [CHR 0x0A] @ ''Terraform command timed out after ''
             @ py_str (tr_timeout_seconds tr) @ ''s''))
      | NotStarted reason \<Rightarrow> mk_check name argv 127 [] reason)"

definition run_process ::
  "'x terraform_runner \<Rightarrow> string \<Rightarrow> string list \<Rightarrow> string \<Rightarrow> (string, string) dict \<Rightarrow>
   ('x world, tf_check) prog" where
  "run_process tr name argv cwd environment =
     bindM (tr_process tr argv cwd environment) (\<lambda>p. ret (check_of_process tr name argv p))"

definition raw_state :: "pyval option \<Rightarrow> bool" where
  "raw_state state =
     (case state of None \<Rightarrow> False
      | Some v \<Rightarrow> is_dict v \<and> (is_whole (pget (dict_items v) ''version'') \<or> is_bool (pget (dict_items v) ''version''))
          \<and> is_list (pget (dict_items v) ''resources''))"

section \<open>What a plan changes\<close>

text \<open>Equality of values that are not both objects or both arrays; truth values are numbers.\<close>

fun number_of :: "pyval \<Rightarrow> rat option" where
  "number_of (PBool b) = Some (if b then 1 else 0)"
| "number_of (PInt i) = Some (of_int i)"
| "number_of (PFloat r) = Some r"
| "number_of v = None"

definition scalar_same :: "pyval \<Rightarrow> pyval \<Rightarrow> bool" where
  "scalar_same v w =
     (case (number_of v, number_of w) of
        (Some x, Some y) \<Rightarrow> x = y
      | (None, None) \<Rightarrow> v = w \<and> \<not> is_dict v \<and> \<not> is_list v
      | _ \<Rightarrow> False)"

definition all_keys :: "pyval \<Rightarrow> pyval \<Rightarrow> string list" where
  "all_keys before after = sort (dedup (map fst (dict_items before) @ map fst (dict_items after)))"

lemma size_item:
  assumes "dict_get (dict_items v) k = Some x" "is_dict v" shows "size x < size v"
proof -
  obtain d where "v = PDict d" using assms(2) by (cases v) auto
  with assms(1) size_pget [of d k x] show ?thesis by (simp add: dict_items_def)
qed

lemma size_element:
  assumes "x \<in> set (list_items v)" shows "size x < size v"
proof -
  obtain xs where "v = PList xs" "x \<in> set xs" using assms by (cases v) (auto simp: list_items_def)
  with size_list_estimation' [of x xs "size x" size] show ?thesis by simp
qed

lemma size_enumerated: "(i, x, y) \<in> set (enumerate n (zip (list_items v) ws)) \<Longrightarrow> size x < size v"
  by (auto simp: in_set_enumerate_eq dest!: nth_mem intro!: size_element dest: in_set_zipE)

function changed_paths :: "string \<Rightarrow> pyval \<Rightarrow> pyval \<Rightarrow> string list" where
  "changed_paths path before after =
     (if is_dict before \<and> is_dict after then
        concat (map (\<lambda>k. let child = (if path = [] then k else path @ ''.'' @ k) in
            case dict_get (dict_items before) k of
              None \<Rightarrow> [child]
            | Some x \<Rightarrow> (case dict_get (dict_items after) k of
                None \<Rightarrow> [child] | Some y \<Rightarrow> changed_paths child x y))
          (all_keys before after))
      else if is_list before \<and> is_list after then
        if length (list_items before) \<noteq> length (list_items after) then [path]
        else concat (map (\<lambda>(i, x, y). changed_paths (path @ ''['' @ show_nat i @ '']'') x y)
               (enumerate 0 (zip (list_items before) (list_items after))))
      else if scalar_same before after then [] else [path])"
  by pat_completeness auto
termination
  by (relation "measure (\<lambda>(p, b, a). size b)")
    (auto intro: size_item size_enumerated)

declare changed_paths.simps [simp del]

definition storage_flag :: string where
  "storage_flag = ''public_network_access_enabled''"

definition versioning_status_path :: string where
  "versioning_status_path = ''versioning_configuration[0].status''"

text \<open>The one object in a list.\<close>

definition only_object :: "pyval \<Rightarrow> (string, pyval) dict option" where
  "only_object v =
     (case list_items v of [x] \<Rightarrow> if is_dict x then Some (dict_items x) else None | _ \<Rightarrow> None)"

definition type_of_address :: "string \<Rightarrow> string" where
  "type_of_address target = takeWhile (\<lambda>c. c \<noteq> CHR ''.'') target"

definition allowed_target_change :: "string \<Rightarrow> (string, pyval) dict \<Rightarrow> string list \<Rightarrow> bool res" where
  "allowed_target_change target change paths =
     (let before = pget change ''before''; after = pget change ''after''; type = type_of_address target;
          old = pget (dict_items before) ''versioning_configuration'';
          new = pget (dict_items after) ''versioning_configuration''
      in if \<not> is_dict before \<or> \<not> is_dict after then Inr False
         else if type = ''azurerm_storage_account'' then
           Inr (paths = [storage_flag] \<and> pget (dict_items before) storage_flag = PBool True \<and>
                pget (dict_items after) storage_flag = PBool False)
         else if type = ''aws_s3_bucket_versioning'' then
           if paths \<noteq> [versioning_status_path] then Inr False
           else (case only_object old of None \<Rightarrow> Inr False
             | Some c \<Rightarrow>
                 bindE (in_str_set (pget c ''status'') [''Disabled'', ''Suspended'']) (\<lambda>ok.
                 Inr (ok \<and> (case only_object new of None \<Rightarrow> False
                            | Some d \<Rightarrow> pget d ''status'' = PStr ''Enabled''))))
         else Inr False)"

definition scope_requirement :: "string \<Rightarrow> string" where
  "scope_requirement target =
     (if type_of_address target = ''aws_s3_bucket_versioning'' then
        ''plan must contain exactly one in-place S3 bucket-versioning status update from ''
        @ ''Disabled or Suspended to Enabled''
      else ''plan must contain exactly the allowed public-network-access update to the linked ''
        @ ''storage account'')"

section \<open>The scope of a plan\<close>

record plan_change =
  pc_address :: pyval
  pc_actions :: "pyval list"
  pc_paths :: "string list"
  pc_change :: "(string, pyval) dict"

text \<open>One entry of \<open>resource_changes\<close>: nothing for what is no object or changes nothing.\<close>

definition plan_entry :: "pyval \<Rightarrow> plan_change option res" where
  "plan_entry v =
     (if \<not> is_dict v then Inr None
      else let change = or_dict (pget (dict_items v) ''change'') in
        bindE (dict_get_attr change ''actions'' PNone) (\<lambda>a.
        bindE (if truthy a then iterate_value a else Inr []) (\<lambda>actions.
        if actions = [PStr ''no-op''] then Inr None
        else Inr (Some \<lparr> pc_address = get_or (dict_items v) ''address'' (PStr []), pc_actions = actions,
               pc_paths = changed_paths [] (pget (dict_items change) ''before'') (pget (dict_items change) ''after''),
               pc_change = dict_items change \<rparr>))))"

definition plan_changes :: "pyval \<Rightarrow> plan_change list res" where
  "plan_changes document =
     bindE (dict_get_attr document ''resource_changes'' (PList [])) (\<lambda>v.
     bindE (iterate_value v) (\<lambda>entries.
     bindE (mapE plan_entry entries) (\<lambda>found. Inr (List.map_filter (\<lambda>x. x) found))))"

definition change_summary :: "plan_change \<Rightarrow> pyval" where
  "change_summary c = PDict
     [(''address'', PStr (py_str (pc_address c))), (''actions'', PList (pc_actions c)),
      (''changed_attribute_paths'', str_list (pc_paths c))]"

definition count_action :: "string \<Rightarrow> plan_change list \<Rightarrow> pyval" where
  "count_action action cs = PInt (int (length (filter (\<lambda>c. PStr action \<in> set (pc_actions c)) cs)))"

text \<open>\<open>json.dumps\<close> with sorted keys and compact separators.\<close>

fun dumps_sorted :: "pyval \<Rightarrow> string" where
  "dumps_sorted (PStr s) = dumps_text s"
| "dumps_sorted (PList xs) = ''['' @ str_join '','' (map dumps_sorted xs) @ '']''"
| "dumps_sorted (PDict d) =
     ''{'' @ str_join '','' (map (\<lambda>(k, t). dumps_text k @ '':'' @ t)
               (sort_key fst (map (\<lambda>kv. (fst kv, dumps_sorted (snd kv))) d))) @ ''}''"
| "dumps_sorted v = canonical_json v"

definition structural_scope :: "string \<Rightarrow> plan_change list \<Rightarrow> bool" where
  "structural_scope target cs =
     (case cs of [c] \<Rightarrow> py_str (pc_address c) = target \<and> pc_actions c = [PStr ''update''] | _ \<Rightarrow> False)"

definition attribute_scope :: "string \<Rightarrow> plan_change list \<Rightarrow> bool res" where
  "attribute_scope target cs =
     (if \<not> structural_scope target cs then Inr False
      else case filter (\<lambda>c. pc_address c = PStr target) cs of
             [] \<Rightarrow> Inr False
           | c # _ \<Rightarrow> allowed_target_change target (pc_change c) (pc_paths c))"

definition scope_summary :: "string \<Rightarrow> plan_change list \<Rightarrow> bool \<Rightarrow> bool \<Rightarrow> pyval" where
  "scope_summary target cs attributes passed = PDict
     [(''required_target'', PStr target), (''observed_changes'', PList (map change_summary cs)),
      (''creates'', count_action ''create'' cs), (''updates'', count_action ''update'' cs),
      (''deletes'', count_action ''delete'' cs), (''attribute_scope_passed'', PBool attributes),
      (''passed'', PBool passed)]"

definition inspect_plan :: "'x terraform_runner \<Rightarrow> string \<Rightarrow> string \<Rightarrow> tf_check res" where
  "inspect_plan tr target text =
     (let argv = [tr_executable tr, ''show'', ''-json'', ''[EPHEMERAL_PLAN]''] in
      case json_loads text of
        None \<Rightarrow> Inr (mk_check ''plan_scope'' argv 1 [] ''Terraform plan JSON was invalid: invalid JSON'')
      | Some document \<Rightarrow>
          bindE (plan_changes document) (\<lambda>cs.
          bindE (attribute_scope target cs) (\<lambda>attributes.
          let passed = (structural_scope target cs \<and> attributes)
          in Inr (mk_check ''plan_scope'' argv (if passed then 0 else 1)
                    (dumps_sorted (scope_summary target cs attributes passed))
                    (if passed then [] else scope_requirement target)))))"

definition plan_scope ::
  "'x terraform_runner \<Rightarrow> string \<Rightarrow> string \<Rightarrow> string \<Rightarrow> (string, string) dict \<Rightarrow>
   ('x world, tf_check) prog" where
  "plan_scope tr plan_path target cwd environment =
     (let argv = [tr_executable tr, ''show'', ''-json'', ''[EPHEMERAL_PLAN]''] in
      bindM (tr_process tr [tr_executable tr, ''show'', ''-json'', plan_path] cwd environment) (\<lambda>p.
      case p of
        TimedOut out err \<Rightarrow> ret (mk_check ''plan_scope'' argv 124 [] ''Terraform plan inspection timed out'')
      | NotStarted reason \<Rightarrow> ret (mk_check ''plan_scope'' argv 127 [] reason)
      | Completed code out err \<Rightarrow>
          if code \<noteq> 0 then ret (mk_check ''plan_scope'' argv code [] (tr_redact tr (bounded_output err)))
          else liftE (inspect_plan tr target out)))"

section \<open>The run\<close>

text \<open>\<open>_container_apps_identity_proxy\<close>: its guards; the server it starts is at \<open>tr_proxy_url\<close>.\<close>

definition identity_proxy :: "'x terraform_runner \<Rightarrow> string \<Rightarrow> string \<Rightarrow> string \<Rightarrow> string res" where
  "identity_proxy tr endpoint header client_id =
     (if endpoint = [] \<or> header = [] then Inr []
      else let (scheme, host) = tr_split_url tr endpoint in
        bindE (guardE (scheme \<in> {''http'', ''https''} \<and>
                       host \<in> Some ` {''localhost'', ''127.0.0.1'', ''::1''}) RemediationPlanningError
                 ''Container Apps managed-identity endpoint must be loopback-only'') (\<lambda>_.
        bindE (guardE (client_id \<noteq> []) RemediationPlanningError
                 ''Container Apps managed-identity proxy requires the planner client ID'') (\<lambda>_.
        Inr (tr_proxy_url tr))))"

definition host_value :: "'x terraform_runner \<Rightarrow> string \<Rightarrow> string" where
  "host_value tr k = (case dict_get (tr_host_env tr) k of None \<Rightarrow> [] | Some v \<Rightarrow> v)"

definition planner_client :: "'x terraform_runner \<Rightarrow> string" where
  "planner_client tr = host_value tr ''ELCAP_PLANNER_AZURE_MANAGED_IDENTITY_CLIENT_ID''"

definition base_environment :: "'x terraform_runner \<Rightarrow> (string, string) dict" where
  "base_environment tr =
     [(''PATH'', host_value tr ''PATH''), (''HOME'', tr_directory tr @ ''/home''),
      (''AZURE_CONFIG_DIR'', tr_directory tr @ ''/azure''), (''AWS_CONFIG_FILE'', tr_directory tr @ ''/aws-config''),
      (''AWS_SHARED_CREDENTIALS_FILE'', tr_directory tr @ ''/aws-credentials''),
      (''TF_DATA_DIR'', tr_directory tr @ ''/terraform-data''), (''TF_IN_AUTOMATION'', ''1''),
      (''CHECKPOINT_DISABLE'', ''1''), (''TF_INPUT'', ''0'')]"

definition aws_planner :: "(string, string) dict" where
  "aws_planner =
     [(''AWS_ACCESS_KEY_ID'', ''ELCAP_PLANNER_AWS_ACCESS_KEY_ID''),
      (''AWS_SECRET_ACCESS_KEY'', ''ELCAP_PLANNER_AWS_SECRET_ACCESS_KEY''),
      (''AWS_SESSION_TOKEN'', ''ELCAP_PLANNER_AWS_SESSION_TOKEN'')]"

definition azure_planner :: "(string, string) dict" where
  "azure_planner =
     [(''ARM_CLIENT_ID'', ''ELCAP_PLANNER_AZURE_CLIENT_ID''),
      (''ARM_CLIENT_SECRET'', ''ELCAP_PLANNER_AZURE_CLIENT_SECRET''),
      (''ARM_SUBSCRIPTION_ID'', ''ELCAP_PLANNER_AZURE_SUBSCRIPTION_ID''),
      (''ARM_TENANT_ID'', ''ELCAP_PLANNER_AZURE_TENANT_ID'')]"

definition unset_sources :: "'x terraform_runner \<Rightarrow> (string, string) dict \<Rightarrow> string list" where
  "unset_sources tr mapping = sort (filter (\<lambda>s. host_value tr s = []) (map snd mapping))"

definition taken_from :: "'x terraform_runner \<Rightarrow> (string, string) dict \<Rightarrow> (string, string) dict" where
  "taken_from tr mapping = map (\<lambda>(k, s). (k, host_value tr s)) mapping"

definition managed_identity :: "'x terraform_runner \<Rightarrow> string \<Rightarrow> (string, string) dict" where
  "managed_identity tr proxy =
     (let given = (\<lambda>k. host_value tr k); endpoint = given ''IDENTITY_ENDPOINT'' in
      [(''ARM_USE_MSI'', given ''ELCAP_PLANNER_AZURE_USE_MSI''), (''ARM_CLIENT_ID'', planner_client tr),
       (''ARM_SUBSCRIPTION_ID'', given ''ELCAP_PLANNER_AZURE_SUBSCRIPTION_ID''),
       (''ARM_TENANT_ID'', given ''ELCAP_PLANNER_AZURE_TENANT_ID''),
       (''ARM_MSI_ENDPOINT'', let e = given ''ELCAP_PLANNER_AZURE_MSI_ENDPOINT'' in if e \<noteq> [] then e else proxy),
       (''ARM_MSI_API_VERSION'', let v = given ''ELCAP_PLANNER_AZURE_MSI_API_VERSION'' in
          if v \<noteq> [] then v else if endpoint \<noteq> [] then ''2019-08-01'' else []),
       (''IDENTITY_ENDPOINT'', endpoint), (''IDENTITY_HEADER'', given ''IDENTITY_HEADER'')])"

text \<open>The identity a plan may use, or why there is none.\<close>

definition planning_identity ::
  "'x terraform_runner \<Rightarrow> string \<Rightarrow> string \<Rightarrow> string + (string, string) dict" where
  "planning_identity tr type proxy =
     (if take 4 type = ''aws_'' then
        if unset_sources tr aws_planner \<noteq> [] then
          Inl (''AWS planning credentials are not set: '' @ str_join '', '' (unset_sources tr aws_planner))
        else Inr (taken_from tr aws_planner)
      else if \<not> list_ex (\<lambda>p. host_value tr (snd p) \<noteq> []) azure_planner then
        Inr (managed_identity tr proxy)
      else if unset_sources tr azure_planner \<noteq> [] then
        Inl (''Azure planning credentials are incomplete: '' @ str_join '', '' (unset_sources tr azure_planner))
      else if planner_client tr \<noteq> [] \<or> host_value tr ''ELCAP_PLANNER_AZURE_USE_MSI'' \<noteq> [] then
        Inl (''Azure planning must use exactly one identity mode: service principal or managed ''
             @ ''identity'')
      else Inr (taken_from tr azure_planner
        @ [(''ARM_USE_CLI'', ''false''),
           (''TF_VAR_subscription_id'', host_value tr ''ELCAP_PLANNER_AZURE_SUBSCRIPTION_ID'')]))"

definition planning_environment ::
  "'x terraform_runner \<Rightarrow> (string, string) dict \<Rightarrow> (string, string) dict" where
  "planning_environment tr identity =
     dict_update (base_environment tr) (filter (\<lambda>p. snd p \<noteq> []) identity)"

definition plan_path :: "'x terraform_runner \<Rightarrow> string" where
  "plan_path tr = tr_directory tr @ ''/target.tfplan''"

definition state_path :: "'x terraform_runner \<Rightarrow> string" where
  "state_path tr = tr_directory tr @ ''/input.tfstate''"

definition plan_arguments :: "'x terraform_runner \<Rightarrow> bool \<Rightarrow> string \<Rightarrow> string list" where
  "plan_arguments tr raw address =
     [tr_executable tr, ''plan'', ''-input=false'', ''-lock=false'', ''-refresh=false'', ''-no-color'']
     @ (if raw then [''-state='' @ state_path tr, ''-target='' @ address] else [])
     @ [''-out='' @ plan_path tr]"

definition terraform_commands ::
  "'x terraform_runner \<Rightarrow> string \<Rightarrow> bool \<Rightarrow> string \<Rightarrow> (string \<times> string list) list" where
  "terraform_commands tr source raw address =
     [(''fmt'', [tr_executable tr, ''fmt'', ''-check'', ''-diff'', source]),
      (''init'', [tr_executable tr, ''init'', ''-backend=false'', ''-input=false'', ''-lockfile=readonly'', ''-no-color'']),
      (''validate'', [tr_executable tr, ''validate'', ''-no-color'']),
      (''plan'', plan_arguments tr raw address)]"

definition normal_argument :: "string \<Rightarrow> string" where
  "normal_argument a =
     (if take 7 a = ''-state='' then ''-state=[EPHEMERAL_STATE]''
      else if take 5 a = ''-out='' then ''-out=[EPHEMERAL_PLAN]'' else a)"

definition reported_plan :: "'x terraform_runner \<Rightarrow> bool \<Rightarrow> string list \<Rightarrow> tf_check \<Rightarrow> tf_check" where
  "reported_plan tr written argv r =
     (let normal = map normal_argument argv;
          said = ''Terraform created an ephemeral plan for policy inspection.''
      in if \<not> tf_passed r then
           mk_check ''plan'' normal (tc_exit_code r) (tr_redact tr (tc_stdout r)) (tr_redact tr (tc_stderr r))
         else if \<not> written then
           mk_check ''plan'' normal 1 said ''Terraform exited successfully without a plan artifact''
         else mk_check ''plan'' normal (tc_exit_code r) said (tr_redact tr (tc_stderr r)))"

definition run_command ::
  "'x terraform_runner \<Rightarrow> string \<Rightarrow> (string, string) dict \<Rightarrow> string \<times> string list \<Rightarrow> ('x world, tf_check) prog" where
  "run_command tr cwd environment command =
     bindM (run_process tr (fst command) (snd command) cwd environment) (\<lambda>r.
     if fst command \<noteq> ''plan'' then ret r
     else bindM (getsM wd_files) (\<lambda>files.
          ret (reported_plan tr (dict_has files (plan_path tr)) (snd command) r)))"

fun run_commands ::
  "'x terraform_runner \<Rightarrow> string \<Rightarrow> (string, string) dict \<Rightarrow> (string \<times> string list) list \<Rightarrow>
   ('x world, tf_check list) prog" where
  "run_commands tr cwd environment [] = ret []"
| "run_commands tr cwd environment (c # cs) =
     bindM (run_command tr cwd environment c) (\<lambda>r.
     if tf_passed r then bindM (run_commands tr cwd environment cs) (\<lambda>rs. ret (r # rs)) else ret [r])"

definition planned :: "tf_check list \<Rightarrow> bool" where
  "planned cs = (cs \<noteq> [] \<and> tc_name (last cs) = ''plan'' \<and> tf_passed (last cs))"

definition check_with ::
  "'x terraform_runner \<Rightarrow> string \<Rightarrow> string \<Rightarrow> tf_link \<Rightarrow> pyval option \<Rightarrow> (string, string) dict \<Rightarrow>
   ('x world, tf_check list) prog" where
  "check_with tr modul source l state environment =
     (let raw = raw_state state; address = tl_resource_address l in
      if raw \<and> address = [] then
        ret [mk_check ''plan'' [tr_executable tr, ''plan''] 1 []
               ''state-grounded planning requires an exact resource address'']
      else
        bindM (if raw then modifyM (\<lambda>w. w\<lparr>wd_files := dict_set (state_path tr)
                 (canonical_json (case state of None \<Rightarrow> PNone | Some v \<Rightarrow> v)) (wd_files w)\<rparr>) else ret ()) (\<lambda>_.
        bindM (run_commands tr modul environment (terraform_commands tr source raw address)) (\<lambda>results.
        if planned results \<and> raw then
          bindM (plan_scope tr (plan_path tr) address modul environment) (\<lambda>scope. ret (results @ [scope]))
        else ret results)))"

text \<open>The temporary directory is gone afterwards, whether or not the run raised.\<close>

definition in_directory :: "string \<Rightarrow> ('x world, 'a) prog \<Rightarrow> ('x world, 'a) prog" where
  "in_directory dir m w =
     (case m w of (r, w') \<Rightarrow> (r, w'\<lparr>wd_files := filter (\<lambda>f. below dir (fst f) = None) (wd_files w')\<rparr>))"

definition terraform_check ::
  "'x terraform_runner \<Rightarrow> string \<Rightarrow> tf_link \<Rightarrow> pyval option \<Rightarrow> ('x world, tf_check list) prog" where
  "terraform_check tr workspace l state =
     bindM (getsM wd_files) (\<lambda>files.
     bindM (liftE (safe_resolve files workspace (tl_module_path l))) (\<lambda>modul.
     bindM (liftE (safe_resolve files workspace (tl_source_path l))) (\<lambda>source.
     case below modul source of
       None \<Rightarrow> raise ValueError (repr_str source @ '' is not in the subpath of '' @ repr_str modul)
     | Some relative \<Rightarrow> in_directory (tr_directory tr)
         (bindM (liftE (identity_proxy tr (host_value tr ''IDENTITY_ENDPOINT'')
                   (host_value tr ''IDENTITY_HEADER'') (planner_client tr))) (\<lambda>proxy.
          case planning_identity tr (tl_resource_type l) proxy of
            Inl why \<Rightarrow> ret [mk_check ''plan'' [tr_executable tr, ''plan''] 1 [] why]
          | Inr identity \<Rightarrow>
              check_with tr modul relative l state (planning_environment tr identity))))))"

end
