(* ===== verification/Control_Patch.thy ===== *)
theory Control_Patch
  imports Terraform_Link
begin

text \<open>
  \<open>_materialize_control_patch\<close> of \<open>src/elcapitan/remediation_planning.py\<close>: for two controls the
  edit is made by the program, which changes one literal of the linked source, and not taken from
  the text an agent proposes. The patterns of the source, \<open>^\s*key\s*=\s*value\s*(?:#.*)?$\<close> over
  several lines, are scanned from each start of a line on.
\<close>

section \<open>Assignments\<close>

record assignment =
  an_before :: string
  an_value :: string
  an_after :: string
  an_rest :: string

text \<open>\<open>\s*(?:#.*)?$\<close>: white space, which may span lines, and a comment, up to the end of a line.\<close>

definition line_tail :: "string \<Rightarrow> (string \<times> string) option" where
  "line_tail s =
     (let ws = takeWhile is_space s; t = drop (length ws) s;
          back = takeWhile (\<lambda>c. c \<noteq> CHR 0x0A) (rev ws)
      in if take 1 t = ''#'' then
           let comment = takeWhile (\<lambda>c. c \<noteq> CHR 0x0A) t in Some (ws @ comment, drop (length comment) t)
         else if t = [] then Some (ws, [])
         else if length back = length ws then None
         else let kept = take (length ws - Suc (length back)) ws in Some (kept, drop (length kept) s))"

definition value_at :: "string list \<Rightarrow> string \<Rightarrow> string option" where
  "value_at values s = find (\<lambda>v. expect_text v s \<noteq> None) values"

definition assignment_at :: "string \<Rightarrow> string list \<Rightarrow> string \<Rightarrow> assignment option" where
  "assignment_at key values s =
     (case expect_text key (skip_spaces s) of None \<Rightarrow> None | Some a \<Rightarrow>
     (case expect_text ''='' (skip_spaces a) of None \<Rightarrow> None | Some b \<Rightarrow>
      let c = skip_spaces b in
      (case value_at values c of None \<Rightarrow> None | Some v \<Rightarrow>
      (case line_tail (drop (length v) c) of None \<Rightarrow> None | Some (tail, rest) \<Rightarrow>
        Some \<lparr> an_before = take (length s - length c) s, an_value = v, an_after = tail, an_rest = rest \<rparr>))))"

lemma skip_spaces_suffix: "\<exists>p. s = p @ skip_spaces s"
  unfolding skip_spaces_def by (metis takeWhile_dropWhile_id)

lemma expect_text_Some: "expect_text p s = Some t \<longleftrightarrow> s = p @ t"
  by (auto simp: expect_text_def) (metis append_take_drop_id)

lemma line_tail_append: "line_tail s = Some (a, b) \<Longrightarrow> s = a @ b"
proof -
  assume l: "line_tail s = Some (a, b)"
  define ws where "ws = takeWhile is_space s"
  define t where "t = drop (length ws) s"
  have s: "s = ws @ t" unfolding t_def ws_def by (metis append_take_drop_id takeWhile_eq_take)
  have kept: "drop (length (take n ws)) s = drop (length (take n ws)) ws @ t" for n by (simp add: s)
  have rejoin: "take n ws @ drop (length (take n ws)) s = s" for n
    by (metis append_take_drop_id drop_append kept length_take s take_all_iff append_assoc min_def nat_le_linear)
  from l show ?thesis
    unfolding line_tail_def Let_def ws_def [symmetric] t_def [symmetric]
    using rejoin [of "length ws - Suc (length (takeWhile (\<lambda>c. c \<noteq> CHR 0x0A) (rev ws)))"]
    by (auto simp: s split: if_splits simp flip: takeWhile_eq_take dropWhile_eq_drop)
qed

lemma assignment_at_append:
  assumes "assignment_at key values s = Some a"
  shows "s = an_before a @ an_value a @ an_after a @ an_rest a" "an_value a \<in> set values" "an_before a \<noteq> []"
proof -
  from assms obtain x b where x: "skip_spaces s = key @ x" and b: "skip_spaces x = ''='' @ b"
    and v: "value_at values (skip_spaces b) = Some (an_value a)"
    and t: "line_tail (drop (length (an_value a)) (skip_spaces b)) = Some (an_after a, an_rest a)"
    and before: "an_before a = take (length s - length (skip_spaces b)) s"
    by (auto simp: assignment_at_def Let_def expect_text_Some split: option.splits prod.splits)
  obtain p q r where p: "s = p @ skip_spaces s" and q: "x = q @ skip_spaces x" and r: "b = r @ skip_spaces b"
    using skip_spaces_suffix by metis
  have s: "s = (p @ key @ q @ ''='' @ r) @ skip_spaces b"
    by (subst p, subst x, subst q, subst b, subst r) simp
  have bef: "an_before a = p @ key @ q @ ''='' @ r"
    unfolding before by (subst (2) s, subst s) simp
  from v have "expect_text (an_value a) (skip_spaces b) \<noteq> None" "an_value a \<in> set values"
    by (auto simp: value_at_def find_Some_iff)
  then obtain u where u: "skip_spaces b = an_value a @ u" by (auto simp: expect_text_Some)
  with t line_tail_append have "u = an_after a @ an_rest a" by simp
  with u s bef show "s = an_before a @ an_value a @ an_after a @ an_rest a" by simp
  show "an_value a \<in> set values" by fact
  show "an_before a \<noteq> []" by (simp add: bef)
qed

lemma assignment_rest_shorter:
  assumes "assignment_at key values s = Some a" shows "length (an_rest a) < length s"
proof -
  have "length s = length (an_before a) + length (an_value a) + length (an_after a) + length (an_rest a)"
    by (subst assignment_at_append(1) [OF assms]) simp
  with assignment_at_append(3) [OF assms] show ?thesis by (cases "an_before a") auto
qed

section \<open>Replacing them\<close>

text \<open>\<open>re.subn\<close>: the text with the value of every match replaced, and the number of matches.\<close>

function replace_values :: "string \<Rightarrow> string list \<Rightarrow> string \<Rightarrow> bool \<Rightarrow> string \<Rightarrow> string \<times> nat" where
  "replace_values key values new at_start s =
     (case (if at_start then assignment_at key values s else None) of
        Some a \<Rightarrow>
          (case replace_values key values new
                  (last (an_before a @ an_value a @ an_after a) = CHR 0x0A) (an_rest a) of
             (t, n) \<Rightarrow> (an_before a @ new @ an_after a @ t, Suc n))
      | None \<Rightarrow>
          (case s of [] \<Rightarrow> ([], 0)
           | c # cs \<Rightarrow> (case replace_values key values new (c = CHR 0x0A) cs of (t, n) \<Rightarrow> (c # t, n))))"
  by pat_completeness auto
termination
  by (relation "measure (\<lambda>(k, vs, n, b, s). length s)")
    (auto dest: assignment_rest_shorter split: if_splits)

declare replace_values.simps [simp del]

definition has_assignment :: "string \<Rightarrow> string list \<Rightarrow> string \<Rightarrow> bool" where
  "has_assignment key values s = (0 < snd (replace_values key values [] True s))"

section \<open>The patch\<close>

definition storage_patch :: "string \<Rightarrow> string \<Rightarrow> string res" where
  "storage_patch original proposed =
     bindE (guardE (has_assignment ''public_network_access_enabled'' [''false''] proposed) RemediationPlanningError
              ''agent proposal did not request public_network_access_enabled = false'') (\<lambda>_.
     case replace_values ''public_network_access_enabled'' [''true''] ''false'' True original of
       (replacement, count) \<Rightarrow>
         bindE (guardE (count = 1) RemediationPlanningError
                  (''linked source must contain exactly one literal public_network_access_enabled = ''
                   @ ''true assignment'')) (\<lambda>_. Inr replacement))"

definition enabled_text :: string where "enabled_text = [CHR 0x22] @ ''Enabled'' @ [CHR 0x22]"

definition unversioned_texts :: "string list" where
  "unversioned_texts = [[CHR 0x22] @ ''Disabled'' @ [CHR 0x22], [CHR 0x22] @ ''Suspended'' @ [CHR 0x22]]"

definition versioning_patch :: "tf_link \<Rightarrow> string \<Rightarrow> string \<Rightarrow> string res" where
  "versioning_patch l original proposed =
     bindE (guardE (has_assignment ''status'' [enabled_text] proposed) RemediationPlanningError
              (''agent proposal did not request versioning status = '' @ enabled_text)) (\<lambda>_.
     let lines = lines_of original; start = tl_start_line l - 1; stop = tl_end_line l in
     case replace_values ''status'' unversioned_texts enabled_text True (concat (take (stop - start) (drop start lines))) of
       (block, count) \<Rightarrow>
         bindE (guardE (count = 1) RemediationPlanningError
                  (''linked S3 versioning resource must contain exactly one literal status = ''
                   @ hd unversioned_texts @ '' or status = '' @ last unversioned_texts @ '' assignment'')) (\<lambda>_.
         Inr (concat (take start lines) @ block @ concat (drop stop lines))))"

definition materialize_control_patch ::
  "string \<Rightarrow> string \<Rightarrow> tf_link \<Rightarrow> string list \<Rightarrow> (string \<times> string) res" where
  "materialize_control_patch original proposed l rule_ids =
     (if tl_resource_type l = ''azurerm_storage_account'' \<and>
         set rule_ids = {''storage_account_public_network_access_disabled''} then
        bindE (storage_patch original proposed) (\<lambda>t. Inr (t, ''deterministic_control_patch''))
      else if tl_resource_type l = ''aws_s3_bucket_versioning'' \<and>
         set rule_ids = {''s3_bucket_object_versioning''} then
        bindE (versioning_patch l original proposed) (\<lambda>t. Inr (t, ''deterministic_control_patch''))
      else Inr (proposed, ''agent_source_replacement''))"

end
