(* ===== verification/Remediation_Planning.thy ===== *)
theory Remediation_Planning
  imports Terraform_Checks Control_Patch Intake Reviews Validation Action_Adapters
begin

text \<open>
  \<open>RemediationPlanningService\<close> of \<open>src/elcapitan/remediation_planning.py\<close>: for a validated case it
  finds the Terraform source that owns the resource, has an agent propose a replacement of that one
  file, edits a copy of the repository, has Terraform check the copy, and moves the case to
  \<open>plan_ready\<close> only when every check passed. Linker, agent and checker are those the service is
  given; the link is a \<open>TerraformLink\<close>, so the branches for CDK are not modelled.
\<close>

section \<open>The service\<close>

record 'x planner =
  pl_env :: env
  pl_artifact_root :: string
  pl_runtime :: "'x agent_runtime"
  pl_schema :: schema_errors
  pl_check :: "string \<Rightarrow> tf_link \<Rightarrow> pyval option \<Rightarrow> ('x world, tf_check list) prog"
  pl_link :: "string \<Rightarrow> string \<Rightarrow> string \<Rightarrow> pyval option \<Rightarrow> string list \<Rightarrow> ('x world, tf_link) prog"

definition planner_collector :: collector where
  "planner_collector = \<lparr> co_tool = ''elcapitan-remediation-planner'', co_version = ''0.1.0'',
     co_identity = ''planning-control-plane'' \<rparr>"

text \<open>The linker and the checker a service has unless it is given others.\<close>

definition source_linker ::
  "env \<Rightarrow> string \<Rightarrow> string \<Rightarrow> string \<Rightarrow> pyval option \<Rightarrow> string list \<Rightarrow> ('x world, tf_link) prog" where
  "source_linker env base provider uid state types =
     bindM (getsM wd_files) (\<lambda>files.
     liftE (link_terraform_resource env files base provider uid state types))"

definition control_resource_types :: "((string \<times> string) \<times> string list) list" where
  "control_resource_types = [((''aws'', ''s3_bucket_object_versioning''), [''aws_s3_bucket_versioning''])]"

definition planning_resource_types :: "string \<Rightarrow> string list \<Rightarrow> string list" where
  "planning_resource_types provider rule_ids =
     sort (dedup (concat (map (\<lambda>r. case dict_get control_resource_types (provider, r) of
                                     None \<Rightarrow> [] | Some ts \<Rightarrow> ts) rule_ids)))"

section \<open>A recorded answer\<close>

definition recorded_name :: "(string, pyval) dict \<Rightarrow> string" where
  "recorded_name document =
     (let v = pget document ''runtime'' in if truthy v then py_str v else ''recorded-agent-result'')"

definition recorded_answer ::
  "env \<Rightarrow> (string, pyval) dict \<Rightarrow> agent_task \<Rightarrow> ('x world, agent_result) prog" where
  "recorded_answer env document task =
     (let output = get_or document ''output'' (PDict document);
          text_or = (\<lambda>k d. if truthy (pget document k) then py_str (pget document k) else d)
      in bindM (guardM (is_dict output) RemediationPlanningError
                  ''recorded agent output must be an object'') (\<lambda>_.
         bindM (liftE (agent_status_of (get_or document ''status'' (PStr ''succeeded'')))) (\<lambda>status.
         bindM (clock_now env) (\<lambda>now.
         bindM (liftE (text_items (get_or document ''evidence_cited'' (str_list (at_evidence_ids task)))))
           (\<lambda>cited.
         bindM (liftE (text_items (get_or document ''missing_evidence'' (PList [])))) (\<lambda>missing.
         liftE (mk_agent_result
           \<lparr> ar_task_id = at_task_id task, ar_case_id = at_case_id task, ar_role = at_role task,
             ar_status = status, ar_output = dict_items output, ar_evidence_cited = cited,
             ar_missing_evidence = missing, ar_runtime = recorded_name document,
             ar_model = text_or ''model'' ''unspecified'',
             ar_started_at = text_or ''started_at'' now,
             ar_completed_at = text_or ''completed_at'' now,
             ar_usage = get_or document ''usage'' (PDict []) \<rparr>)))))))"

definition recorded_agent :: "env \<Rightarrow> (string, pyval) dict \<Rightarrow> 'x agent_runtime" where
  "recorded_agent env document =
     \<lparr> rt_name = recorded_name document, rt_run = recorded_answer env document \<rparr>"

section \<open>What is planned for\<close>

record planning_scope =
  pg_case :: remediation_case
  pg_findings :: "stored_finding list"
  pg_provider :: string
  pg_resource_uid :: string
  pg_validation_id :: string
  pg_validation :: product_record
  pg_results :: "(string, (string, pyval) dict) dict"

definition chosen_findings :: "stored_finding list \<Rightarrow> string list option \<Rightarrow> stored_finding list res" where
  "chosen_findings all_findings finding_ids =
     (case finding_ids of
        None \<Rightarrow> Inr all_findings
      | Some ids \<Rightarrow>
          let by_id = dict_update [] (map (\<lambda>f. (sf_finding_id f, f)) all_findings);
              requested = dedup ids; missing = set_minus requested (map fst by_id)
          in bindE (guardE (requested \<noteq> []) RemediationPlanningError
                      ''planning scope must contain at least one finding'') (\<lambda>_.
             bindE (guardE (missing = []) RemediationPlanningError
                      (''planning scope contains finding(s) outside the case: '' @ str_join '', '' missing)) (\<lambda>_.
             Inr (List.map_filter (dict_get by_id) requested))))"

definition one_target :: "stored_finding list \<Rightarrow> (string \<times> string) res" where
  "one_target fs =
     (case dedup (map (\<lambda>f. (sf_provider f, sf_resource_uid f)) fs) of
        [t] \<Rightarrow> Inr t
      | _ \<Rightarrow> Inl (Raise RemediationPlanningError
          ''the first planning slice requires all case findings to target one resource''))"

definition validation_results :: "product_record \<Rightarrow> (string, (string, pyval) dict) dict res" where
  "validation_results r =
     bindE (iterate_value (get_or (body_of r) ''findings'' (PList []))) (\<lambda>xs.
     Inr (dict_update []
       (map (\<lambda>x. (py_str (get_or (dict_items x) ''finding_id'' (PStr [])), dict_items x)) (filter is_dict xs))))"

definition confirmed_in :: "(string, (string, pyval) dict) dict \<Rightarrow> string \<Rightarrow> bool" where
  "confirmed_in results i =
     (case dict_get results i of None \<Rightarrow> False
      | Some d \<Rightarrow> py_str (get_or d ''status'' (PStr [])) = ''confirmed'')"

definition rule_of :: "stored_finding \<Rightarrow> string res" where
  "rule_of f =
     bindE (item (sf_record f) ''ocsf'') (\<lambda>ocsf.
     bindE (dict_get_attr ocsf ''rule_id'' (PStr [])) (\<lambda>r. Inr (py_str r)))"

definition case_validation :: "remediation_case \<Rightarrow> string \<Rightarrow> ('x world, product_record) prog" where
  "case_validation c case_id =
     bindM (guardM (case_record_id c ''validation_result_id'' \<noteq> []) RemediationPlanningError
              ''validated case has no validation result record'') (\<lambda>_.
     bindM (named_record c ''validation_result_id'') (\<lambda>v.
     bindM (guardM (pr_case_id v = case_id \<and> pr_record_type v = ''ValidationResult.v1'')
              RemediationPlanningError ''case validation record has the wrong owner or type'') (\<lambda>_.
     ret v)))"

definition scope_to_plan ::
  "string \<Rightarrow> string list option \<Rightarrow> ('x world, planning_scope) prog" where
  "scope_to_plan case_id finding_ids =
     bindM (get_case case_id) (\<lambda>c.
     bindM (guardM (rc_state c = VALIDATED) RemediationPlanningError
              (''case '' @ case_id @ '' must be validated before planning; current state is ''
               @ case_state_value (rc_state c))) (\<lambda>_.
     bindM (list_case_findings case_id) (\<lambda>all_findings.
     bindM (guardM (all_findings \<noteq> []) RemediationPlanningError
              (''case '' @ case_id @ '' has no persisted findings'')) (\<lambda>_.
     bindM (liftE (chosen_findings all_findings finding_ids)) (\<lambda>findings.
     bindM (liftE (one_target findings)) (\<lambda>(provider, uid).
     bindM (case_validation c case_id) (\<lambda>validation.
     bindM (liftE (validation_results validation)) (\<lambda>results.
     let not_confirmed = sort (filter (\<lambda>i. \<not> confirmed_in results i) (map sf_finding_id findings)) in
     bindM (guardM (not_confirmed = []) RemediationPlanningError
              (''planning scope contains finding(s) not confirmed by live validation: ''
               @ str_join '', '' not_confirmed)) (\<lambda>_.
     ret \<lparr> pg_case = c, pg_findings = findings, pg_provider = provider, pg_resource_uid = uid,
           pg_validation_id = case_record_id c ''validation_result_id'',
           pg_validation = validation, pg_results = results \<rparr>)))))))))"

section \<open>The link\<close>

definition inside :: "string \<Rightarrow> string \<Rightarrow> bool" where
  "inside base path = (path = base \<or> below base path \<noteq> None)"

definition link_source ::
  "'x planner \<Rightarrow> string \<Rightarrow> pyval option \<Rightarrow> planning_scope \<Rightarrow> ('x world, string list \<times> tf_link) prog" where
  "link_source pl repository state sc =
     bindM (getsM wd_files) (\<lambda>files.
     bindM (guardM (dir_present files repository \<or> dict_has files repository) FileNotFoundError repository) (\<lambda>_.
     bindM (guardM (\<not> inside repository (pl_artifact_root pl)) RemediationPlanningError
              ''artifact_root cannot be inside the source repository'') (\<lambda>_.
     bindM (liftE (mapE rule_of (pg_findings sc))) (\<lambda>rules.
     bindM (pl_link pl repository (pg_provider sc) (pg_resource_uid sc) state
              (planning_resource_types (pg_provider sc) (dedup rules))) (\<lambda>l.
     ret (dedup rules, l))))))"

definition review_feedback :: "remediation_case \<Rightarrow> string \<Rightarrow> ('x world, product_record option) prog" where
  "review_feedback c case_id =
     (if case_record_id c ''review_feedback_id'' = [] then ret None
      else bindM (named_record c ''review_feedback_id'') (\<lambda>f.
        bindM (guardM (pr_case_id f = case_id \<and> pr_record_type f = ''RollbackReview.v1'')
                 RemediationPlanningError ''review feedback record has the wrong owner or type'') (\<lambda>_.
        let changes = pget (body_of f) ''required_changes'' in
        bindM (guardM (is_list changes \<and> list_items changes \<noteq> [] \<and> \<not> list_ex blank_item (list_items changes))
                 RemediationPlanningError ''review feedback has no concrete required changes'') (\<lambda>_.
        ret (Some f)))))"

section \<open>Before the agent\<close>

definition planning_evidence :: "'x planner \<Rightarrow> string \<Rightarrow> string \<Rightarrow> string \<Rightarrow> string \<Rightarrow> ('x world, string) prog" where
  "planning_evidence pl run_dir kind payload now =
     bindM (new_id (pl_env pl) ''EVD'') (\<lambda>i.
     bindM (write_evidence (pl_env pl) run_dir i kind payload planner_collector ''internal'' [] now) (\<lambda>ref.
     ret (ef_evidence_id ref)))"

definition planning_namespace :: "string \<Rightarrow> string \<Rightarrow> string" where
  "planning_namespace case_id plan_id = ''cases/'' @ case_id @ ''/planning/'' @ plan_id"

record linked_source =
  ls_text :: string
  ls_source_evidence :: string
  ls_link_evidence :: string
  ls_record :: product_record

definition link_record ::
  "string \<Rightarrow> string \<Rightarrow> string \<Rightarrow> string \<Rightarrow> tf_link \<Rightarrow> string \<Rightarrow> string list \<Rightarrow> product_record" where
  "link_record link_id case_id now repository l namespace evidence =
     \<lparr> pr_record_id = link_id, pr_case_id = case_id, pr_record_type = ''IaCLink.v1'',
       pr_schema_version = 1, pr_created_at = now,
       pr_body = PDict [(''link_id'', PStr link_id), (''repository'', PStr (last (path_parts repository))),
                        (''link'', tf_link_to_dict l), (''artifact_namespace'', PStr namespace)],
       pr_evidence_ids = evidence \<rparr>"

definition keep_link ::
  "'x planner \<Rightarrow> string \<Rightarrow> string \<Rightarrow> string \<Rightarrow> string \<Rightarrow> string \<Rightarrow> tf_link \<Rightarrow> ('x world, linked_source) prog" where
  "keep_link pl repository case_id link_id namespace now l =
     (let run_dir = pl_artifact_root pl @ ''/'' @ namespace in
      bindM (getsM wd_files) (\<lambda>files.
      bindM (liftE (safe_resolve files repository (tl_source_path l))) (\<lambda>source.
      bindM (file_text source) (\<lambda>original.
      bindM (file_bytes source) (\<lambda>content.
      bindM (planning_evidence pl run_dir ''iac_source_before'' content now) (\<lambda>source_id.
      bindM (planning_evidence pl run_dir ''iac_resource_link'' (canonical_json (tf_link_to_dict l)) now) (\<lambda>link_evidence.
      bindM (store_record (link_record link_id case_id now repository l namespace [source_id, link_evidence])) (\<lambda>rec.
      ret \<lparr> ls_text = original, ls_source_evidence = source_id,
            ls_link_evidence = link_evidence, ls_record = rec \<rparr>))))))))"

definition result_evidence :: "planning_scope \<Rightarrow> stored_finding \<Rightarrow> string list res" where
  "result_evidence sc f =
     bindE (iterate_value (get_or (case dict_get (pg_results sc) (sf_finding_id f) of None \<Rightarrow> [] | Some d \<Rightarrow> d)
              ''evidence_ids'' (PList []))) (\<lambda>xs.
     Inr (map as_str (filter (\<lambda>x. is_str x \<and> as_str x \<noteq> []) xs)))"

definition scoped_evidence :: "planning_scope \<Rightarrow> string list option \<Rightarrow> string list res" where
  "scoped_evidence sc finding_ids =
     (case finding_ids of
        None \<Rightarrow> Inr (pr_evidence_ids (pg_validation sc))
      | Some _ \<Rightarrow> bindE (mapE (result_evidence sc) (pg_findings sc)) (\<lambda>xss. Inr (dedup (concat xss))))"

definition input_evidence ::
  "planning_scope \<Rightarrow> string list option \<Rightarrow> linked_source \<Rightarrow> product_record option \<Rightarrow> string list res" where
  "input_evidence sc finding_ids ls feedback =
     bindE (scoped_evidence sc finding_ids) (\<lambda>scoped.
     Inr (dedup (scoped @ [ls_source_evidence ls, ls_link_evidence ls]
       @ (case feedback of None \<Rightarrow> [] | Some f \<Rightarrow> pr_evidence_ids f))))"

section \<open>The agent's task and answer\<close>

definition feedback_constraints :: "product_record option \<Rightarrow> string list" where
  "feedback_constraints feedback =
     (if feedback = None then [] else
        [''This is a bounded checker rework. Address every item in review_feedback.required_changes ''
           @ ''explicitly in prerequisites, rollout, verification, rollback steps, or rollback triggers ''
           @ ''as appropriate.'',
         ''Classify pre-mutation guard failures as abort-without-change. Map only operational harm ''
           @ ''caused by the applied change to executable rollback. Map failed apply, failed security ''
           @ ''validation, recurrence of the original finding, policy drift, and rollback failure to ''
           @ ''retry, containment, or owned escalation without restoring the vulnerable pre-change state.''])"

definition scoped_validation :: "planning_scope \<Rightarrow> pyval" where
  "scoped_validation sc = PDict (dict_set ''findings''
     (PList (map (\<lambda>f. PDict (case dict_get (pg_results sc) (sf_finding_id f) of None \<Rightarrow> [] | Some d \<Rightarrow> d))
               (pg_findings sc))) (body_of (pg_validation sc)))"

definition planning_task ::
  "string \<Rightarrow> string \<Rightarrow> planning_scope \<Rightarrow> tf_link \<Rightarrow> linked_source \<Rightarrow> product_record option \<Rightarrow> string list \<Rightarrow>
   agent_task res" where
  "planning_task task_id case_id sc l ls feedback evidence =
     mk_agent_task
       \<lparr> at_task_id = task_id, at_case_id = case_id, at_role = REMEDIATION_ENGINEER,
         at_objective = ''Prepare a minimal Terraform remediation and reversible rollout plan'',
         at_output_contract = ''TerraformRemediationProposal.v1'',
         at_input_record_ids = filter (\<lambda>i. i \<noteq> [])
           ([pg_validation_id sc, pr_record_id (ls_record ls)]
            @ (case feedback of None \<Rightarrow> [] | Some f \<Rightarrow> [pr_record_id f])),
         at_evidence_ids = evidence,
         at_constraints =
           [''modify only the linked infrastructure source file'', ''do not apply infrastructure changes'',
            ''include verification, rollback steps, and rollback triggers'',
            ''return the complete linked file and preserve all unrelated content'',
            ''do not request post-change state as planning input; express it as a verification step'']
           @ feedback_constraints feedback,
         at_metadata =
           [(''provider'', PStr (pg_provider sc)), (''iac_engine'', PStr ''terraform''),
            (''resource_uid'', PStr (pg_resource_uid sc)), (''link'', tf_link_to_dict l),
            (''source'', PStr (ls_text ls)), (''source_evidence_id'', PStr (ls_source_evidence ls)),
            (''link_evidence_id'', PStr (ls_link_evidence ls)),
            (''findings'', PList (map sf_record (pg_findings sc))), (''validation'', scoped_validation sc),
            (''review_feedback'', case feedback of None \<Rightarrow> PNone | Some f \<Rightarrow> pr_body f)] \<rparr>"

text \<open>Files given as an object are checked against the contract as the array it asks for.\<close>

definition contract_output :: "(string, pyval) dict \<Rightarrow> pyval" where
  "contract_output out = PDict (case pget out ''files'' of
     PDict fs \<Rightarrow> dict_set ''files'' (PList (map (\<lambda>(path, content).
                    PDict [(''path'', PStr path), (''content'', content)]) fs)) out
   | _ \<Rightarrow> out)"

definition ask_planner :: "'x planner \<Rightarrow> agent_task \<Rightarrow> string \<Rightarrow> ('x world, agent_result) prog" where
  "ask_planner pl task source_id =
     bindM (rt_run (pl_runtime pl) task) (\<lambda>r.
     bindM (liftE (validate_output (pl_schema pl) (at_output_contract task) (contract_output (ar_output r)))) (\<lambda>errors.
     bindM (guardM (validate_result task r @ errors = []) RemediationPlanningError
              (str_join ''; '' (validate_result task r @ errors))) (\<lambda>_.
     bindM (guardM (ar_status r = SUCCEEDED) RemediationPlanningError
              (''remediation agent did not succeed: ''
               @ (if str_join '', '' (ar_missing_evidence r) = [] then agent_status_value (ar_status r)
                  else str_join '', '' (ar_missing_evidence r)))) (\<lambda>_.
     bindM (guardM (source_id \<in> set (ar_evidence_cited r)) RemediationPlanningError
              ''successful remediation agent did not cite the linked infrastructure source'') (\<lambda>_.
     ret r)))))"

definition proposed_file :: "pyval \<Rightarrow> (string, pyval) dict \<Rightarrow> (string, pyval) dict res" where
  "proposed_file x files =
     bindE (guardE (is_dict x) RemediationPlanningError
              ''agent output files must contain path/content objects'') (\<lambda>_.
     let path = pget (dict_items x) ''path'' in
     bindE (guardE (is_str path \<and> \<not> dict_has files (as_str path)) RemediationPlanningError
              ''agent output files contain an invalid or duplicate path'') (\<lambda>_.
     Inr (dict_set (as_str path) (pget (dict_items x) ''content'') files)))"

definition proposed_files :: "(string, pyval) dict \<Rightarrow> (string, pyval) dict res" where
  "proposed_files out = (case pget out ''files'' of
     PDict fs \<Rightarrow> Inr fs
   | PList xs \<Rightarrow> foldE proposed_file xs []
   | _ \<Rightarrow> Inr [])"

definition proposed_source :: "tf_link \<Rightarrow> (string, pyval) dict \<Rightarrow> string res" where
  "proposed_source l out =
     bindE (proposed_files out) (\<lambda>files.
     bindE (guardE (set (map fst files) = {tl_source_path l}) RemediationPlanningError
              (''agent must replace exactly the linked file '' @ repr_str (tl_source_path l))) (\<lambda>_.
     let v = pget files (tl_source_path l) in
     bindE (guardE (is_str v \<and> as_str v \<noteq> []) RemediationPlanningError
              ''replacement infrastructure source must be non-empty text'') (\<lambda>_.
     bindE (guardE (\<not> maximum_source < int (length (as_str v))) RemediationPlanningError
              ''replacement infrastructure source exceeds 2 MiB'') (\<lambda>_.
     Inr (as_str v)))))"

section \<open>The edited copy\<close>

text \<open>What \<open>shutil.ignore_patterns\<close> leaves out of the copy.\<close>

definition ignored_copy :: "string \<Rightarrow> bool" where
  "ignored_copy n =
     (n \<in> set [''.git'', ''.terraform'', ''.tox'', ''.pytest_cache'', ''__pycache__'', ''node_modules'',
               ''cdk.out'', ''output'', ''.env''] \<or>
      list_ex (\<lambda>p. take (length p) n = p) [''.venv'', ''venv'', ''.env.'', ''.elcapitan''] \<or>
      list_ex (\<lambda>e. drop (length n - length e) n = e) [''.tfstate'', ''.pem'', ''.key''] \<or>
      sublist ''.tfstate.'' n)"

definition copied_files :: "(string, string) dict \<Rightarrow> string \<Rightarrow> string \<Rightarrow> (string, string) dict" where
  "copied_files files source dest =
     List.map_filter (\<lambda>(path, content). case below source path of
         None \<Rightarrow> None
       | Some relative \<Rightarrow> if list_ex ignored_copy (path_parts relative) then None
                          else Some (dest @ ''/'' @ relative, content)) files"

definition copy_repository :: "string \<Rightarrow> string \<Rightarrow> ('x world, unit) prog" where
  "copy_repository source dest =
     bindM (make_dir dest) (\<lambda>_.
     modifyM (\<lambda>w. w\<lparr>wd_files := dict_update (wd_files w) (copied_files (wd_files w) source dest)\<rparr>))"

record source_edit =
  se_before_sha256 :: string
  se_after_sha256 :: string
  se_materialization :: string

definition workspace_source :: "string \<Rightarrow> tf_link \<Rightarrow> ('x world, string) prog" where
  "workspace_source workspace l =
     bindM (getsM wd_files) (\<lambda>files.
     tryM (liftE (safe_resolve files workspace (tl_source_path l))) [PathEscape]
       (\<lambda>e. raise RemediationPlanningError (exn_str e)))"

definition edit_copy ::
  "'x planner \<Rightarrow> string \<Rightarrow> string \<Rightarrow> tf_link \<Rightarrow> string list \<Rightarrow> string \<Rightarrow> string \<Rightarrow> ('x world, source_edit) prog" where
  "edit_copy pl repository workspace l rule_ids original proposed =
     bindM (liftE (materialize_control_patch original proposed l rule_ids)) (\<lambda>(replacement, how).
     bindM (copy_repository repository workspace) (\<lambda>_.
     bindM (workspace_source workspace l) (\<lambda>source.
     bindM (sha256_file (pl_env pl) source) (\<lambda>before.
     bindM (guardM (before = tl_source_sha256 l) RemediationPlanningError
              ''linked source changed while the plan was prepared'') (\<lambda>_.
     bindM (modifyM (\<lambda>w. w\<lparr>wd_files := dict_set source replacement (wd_files w)\<rparr>)) (\<lambda>_.
     bindM (sha256_file (pl_env pl) source) (\<lambda>after.
     bindM (guardM (after \<noteq> before) RemediationPlanningError
              ''agent replacement does not change the linked source'') (\<lambda>_.
     ret \<lparr> se_before_sha256 = before, se_after_sha256 = after, se_materialization = how \<rparr>))))))))"

section \<open>The plan\<close>

definition plan_strings :: "(string, pyval) dict \<Rightarrow> string \<Rightarrow> bool \<Rightarrow> string list res" where
  "plan_strings output name required =
     (let v = pget output name in
      if v = PNone \<and> \<not> required then Inr []
      else bindE (guardE (is_list v \<and> \<not> list_ex blank_item (list_items v)) RemediationPlanningError
                    (''agent output '' @ repr_str name @ '' must be a list of non-empty strings'')) (\<lambda>_.
           bindE (guardE (\<not> (required \<and> list_items v = [])) RemediationPlanningError
                    (''agent output '' @ repr_str name @ '' cannot be empty'')) (\<lambda>_.
           Inr (map as_str (list_items v)))))"

definition agent_plan :: "(string, pyval) dict \<Rightarrow> string \<Rightarrow> string \<Rightarrow> string list \<Rightarrow> change_plan res" where
  "agent_plan output plan_id change_ref evidence =
     bindE (guardE (\<not> blank_item (pget output ''objective'')) RemediationPlanningError
              (''agent output '' @ repr_str ''objective'' @ '' must be a non-empty string'')) (\<lambda>_.
     bindE (plan_strings output ''prerequisites'' False) (\<lambda>prerequisites.
     bindE (plan_strings output ''steps'' True) (\<lambda>steps.
     bindE (plan_strings output ''rollout_steps'' True) (\<lambda>rollout.
     bindE (plan_strings output ''verification_steps'' True) (\<lambda>verification.
     bindE (plan_strings output ''rollback_steps'' True) (\<lambda>rollback.
     bindE (plan_strings output ''rollback_triggers'' True) (\<lambda>triggers.
     bindE (plan_strings output ''blast_radius'' False) (\<lambda>radius.
     mk_change_plan
       \<lparr> cp_plan_id = plan_id, cp_objective = as_str (pget output ''objective''), cp_change_ref = change_ref,
         cp_prerequisites = prerequisites, cp_steps = steps, cp_rollout_steps = rollout,
         cp_verification_steps = verification, cp_rollback_steps = rollback,
         cp_rollback_triggers = triggers, cp_blast_radius = radius, cp_evidence_ids = evidence \<rparr>))))))))"

definition planned_dict :: "change_plan \<Rightarrow> pyval" where
  "planned_dict p = PDict
     [(''plan_id'', PStr (cp_plan_id p)), (''objective'', PStr (cp_objective p)),
      (''change_ref'', PStr (cp_change_ref p)), (''prerequisites'', str_list (cp_prerequisites p)),
      (''steps'', str_list (cp_steps p)), (''rollout_steps'', str_list (cp_rollout_steps p)),
      (''verification_steps'', str_list (cp_verification_steps p)),
      (''rollback_steps'', str_list (cp_rollback_steps p)),
      (''rollback_triggers'', str_list (cp_rollback_triggers p)),
      (''blast_radius'', str_list (cp_blast_radius p)), (''evidence_ids'', str_list (cp_evidence_ids p))]"

definition plan_body ::
  "string \<Rightarrow> string \<Rightarrow> planning_scope \<Rightarrow> string list \<Rightarrow> tf_link \<Rightarrow> linked_source \<Rightarrow> product_record option \<Rightarrow>
   pyval option \<Rightarrow> agent_result \<Rightarrow> source_edit \<Rightarrow> tf_check list \<Rightarrow> change_plan \<Rightarrow> pyval" where
  "plan_body task_id namespace sc rule_ids l ls feedback state r e checks plan = PDict
     [(''status'', PStr (if list_all tf_passed checks then ''verified'' else ''rejected'')),
      (''verification'', PDict
        [(''mode'', PStr (if raw_state state then ''targeted_state_plan'' else ''offline_plan_without_state'')),
         (''resource_address'', PStr (tl_resource_address l)), (''state_sha256'', PStr (tl_state_sha256 l)),
         (''plan_artifact_persisted'', PBool False), (''iac_engine'', PStr ''terraform'')]),
      (''plan'', planned_dict plan), (''link_record_id'', PStr (pr_record_id (ls_record ls))),
      (''task'', PDict
        [(''task_id'', PStr task_id), (''runtime'', PStr (ar_runtime r)), (''model'', PStr (ar_model r)),
         (''evidence_cited'', str_list (ar_evidence_cited r)), (''usage'', ar_usage r)]),
      (''change'', PDict
        [(''source_path'', PStr (tl_source_path l)), (''before_sha256'', PStr (se_before_sha256 e)),
         (''after_sha256'', PStr (se_after_sha256 e)), (''materialization'', PStr (se_materialization e))]),
      (''scope'', PDict
        [(''finding_ids'', str_list (map sf_finding_id (pg_findings sc))), (''rule_ids'', str_list (sort rule_ids)),
         (''resource_uid'', PStr (pg_resource_uid sc)), (''validation_record_id'', PStr (pg_validation_id sc))]),
      (''checks'', PList (map tf_check_to_dict checks)),
      (''deployment'', case find (\<lambda>c. tc_name c = ''cloudformation_scope'' \<and> tf_passed c) checks of
                         None \<Rightarrow> PDict [] | Some c \<Rightarrow> or_dict (tc_details c)),
      (''artifact_namespace'', PStr namespace),
      (''review_feedback_record_id'', case feedback of None \<Rightarrow> PNone | Some f \<Rightarrow> PStr (pr_record_id f))]"

definition plan_record ::
  "string \<Rightarrow> string \<Rightarrow> string \<Rightarrow> tf_check list \<Rightarrow> pyval \<Rightarrow> string list \<Rightarrow> product_record" where
  "plan_record plan_id case_id now checks body evidence =
     \<lparr> pr_record_id = plan_id, pr_case_id = case_id,
       pr_record_type = (if list_all tf_passed checks then ''RemediationPlan.v1'' else ''RemediationPlanAttempt.v1''),
       pr_schema_version = 1, pr_created_at = now, pr_body = body, pr_evidence_ids = evidence \<rparr>"

text \<open>The checks of the copy, each kept as evidence.\<close>

definition run_checks ::
  "'x planner \<Rightarrow> string \<Rightarrow> tf_link \<Rightarrow> pyval option \<Rightarrow> string \<Rightarrow> ('x world, tf_check list \<times> string list) prog" where
  "run_checks pl run_dir l state now =
     bindM (pl_check pl (run_dir @ ''/workspace'') l state) (\<lambda>checks.
     bindM (guardM (checks \<noteq> []) RemediationPlanningError ''infrastructure runner returned no checks'') (\<lambda>_.
     bindM (mapM (\<lambda>c. planning_evidence pl run_dir (''iac_'' @ tc_name c)
                        (canonical_json (tf_check_to_dict c)) now) checks) (\<lambda>ids.
     ret (checks, ids))))"

record plan_outcome =
  pn_case :: remediation_case
  pn_link :: tf_link
  pn_link_record :: product_record
  pn_plan_record :: product_record
  pn_checks :: "tf_check list"

definition conclude_plan ::
  "'x planner \<Rightarrow> string \<Rightarrow> string \<Rightarrow> string \<Rightarrow> tf_link \<Rightarrow> linked_source \<Rightarrow> tf_check list \<Rightarrow> change_plan \<Rightarrow> pyval \<Rightarrow>
   ('x world, plan_outcome) prog" where
  "conclude_plan pl case_id plan_id now l ls checks plan body =
     bindM (store_record (plan_record plan_id case_id now checks body (cp_evidence_ids plan))) (\<lambda>rec.
     bindM (guardM (list_all tf_passed checks) TerraformChecksFailed
              (''Terraform verification failed: ''
               @ str_join '', '' (map tc_name (filter (\<lambda>c. \<not> tf_passed c) checks)))) (\<lambda>_.
     bindM (new_id (pl_env pl) ''EVT'') (\<lambda>event_id.
     bindM (advance case_id PREPARE_PLAN
              ((basic_args event_id now ''remediation-planner''
                  [(''change_plan_id'', plan_id), (''iac_link_id'', pr_record_id (ls_record ls))]
                  (cp_evidence_ids plan))\<lparr>ta_change_plan := Some plan\<rparr>)) (\<lambda>c'.
     ret \<lparr> pn_case = c', pn_link = l, pn_link_record = ls_record ls, pn_plan_record = rec,
           pn_checks = checks \<rparr>))))"

text \<open>From the accepted answer to the outcome.\<close>

definition verify_plan ::
  "'x planner \<Rightarrow> string \<Rightarrow> string \<Rightarrow> string \<Rightarrow> string \<Rightarrow> string \<Rightarrow> pyval option \<Rightarrow> planning_scope \<Rightarrow> string list \<Rightarrow>
   tf_link \<Rightarrow> linked_source \<Rightarrow> product_record option \<Rightarrow> string list \<Rightarrow> agent_result \<Rightarrow> ('x world, plan_outcome) prog" where
  "verify_plan pl repository case_id plan_id task_id now state sc rule_ids l ls feedback evidence r =
     (let namespace = planning_namespace case_id plan_id; run_dir = pl_artifact_root pl @ ''/'' @ namespace in
      bindM (liftE (proposed_source l (ar_output r))) (\<lambda>proposed.
      bindM (edit_copy pl repository (run_dir @ ''/workspace'') l rule_ids (ls_text ls) proposed) (\<lambda>e.
      bindM (planning_evidence pl run_dir ''remediation_agent_result'' (canonical_json (answer_document r)) now) (\<lambda>answer_id.
      bindM (run_checks pl run_dir l state now) (\<lambda>(checks, check_ids).
      bindM (liftE (agent_plan (ar_output r) plan_id
               (namespace @ ''/workspace/'' @ tl_source_path l @ ''#sha256:'' @ se_after_sha256 e)
               (dedup (evidence @ [answer_id] @ check_ids)))) (\<lambda>plan.
      bindM (guardM (is_dict (ar_usage r)) TypeError ''object is not a mapping'') (\<lambda>_.
      conclude_plan pl case_id plan_id now l ls checks plan
        (plan_body task_id namespace sc rule_ids l ls feedback state r e checks plan))))))))"

definition prepare_plan ::
  "'x planner \<Rightarrow> string \<Rightarrow> string \<Rightarrow> pyval option \<Rightarrow> string list option \<Rightarrow> ('x world, plan_outcome) prog" where
  "prepare_plan pl case_id repository state finding_ids =
     bindM (scope_to_plan case_id finding_ids) (\<lambda>sc.
     bindM (link_source pl repository state sc) (\<lambda>(rule_ids, l).
     bindM (review_feedback (pg_case sc) case_id) (\<lambda>feedback.
     bindM (new_id (pl_env pl) ''PLAN'') (\<lambda>plan_id.
     bindM (new_id (pl_env pl) ''LINK'') (\<lambda>link_id.
     bindM (new_id (pl_env pl) ''TASK'') (\<lambda>task_id.
     bindM (clock_now (pl_env pl)) (\<lambda>now.
     bindM (make_dir (pl_artifact_root pl @ ''/'' @ planning_namespace case_id plan_id)) (\<lambda>_.
     bindM (keep_link pl repository case_id link_id (planning_namespace case_id plan_id) now l) (\<lambda>ls.
     bindM (liftE (input_evidence sc finding_ids ls feedback)) (\<lambda>evidence.
     bindM (liftE (planning_task task_id case_id sc l ls feedback evidence)) (\<lambda>task.
     bindM (ask_planner pl task (ls_source_evidence ls)) (\<lambda>r.
     verify_plan pl repository case_id plan_id task_id now state sc rule_ids l ls feedback evidence r))))))))))))"

end
