(* ===== verification/Planning_Properties.thy ===== *)
theory Planning_Properties
  imports Gate_Properties Remediation_Planning
begin

text \<open>
  What the planning service guarantees: it touches the cases only in its last step, and that step
  is taken for confirmed findings of one resource and a change that passed every check.
\<close>

section \<open>Everything before the last step\<close>

definition unmoved :: "'x world \<Rightarrow> 'x world \<Rightarrow> bool" where
  "unmoved w w' = (durable w w' \<and> same_cases w w')"

interpretation unmoved: frame unmoved
  by unfold_locales (auto simp: unmoved_def intro: durable.trans same_cases.trans)

named_theorems unmoved_intros \<open>computations that keep what is durable and touch no case\<close>

lemmas unmoved_rules [unmoved_intros] = unmoved.bindM unmoved.tryM unmoved.mapM unmoved.pure stays_if
  stays_case_option stays_case_prod stays_let

lemma unmovedI: "stays durable m \<Longrightarrow> stays same_cases m \<Longrightarrow> stays unmoved m"
  by (simp add: stays_def unmoved_def)

lemma unmoved_collects: "only_collects m \<Longrightarrow> stays unmoved m"
  by (rule unmovedI, erule durable_collects) (rule staysI, simp add: same_cases_def only_collectsD)

lemma unmoved_local [unmoved_intros]:
  "stays unmoved (clock_now env)" "stays unmoved (new_id env p)"
  "stays unmoved (write_evidence env d i k pl c sens cmd n)"
  by (rule unmoved_collects, rule collect_intros)+

lemma unmoved_stores [unmoved_intros]:
  "stays unmoved (get_case i)" "stays unmoved (get_record k)" "stays unmoved (list_case_findings i)"
  "stays unmoved (modifyM (\<lambda>w. w\<lparr>wd_files := f w\<rparr>))"
  by (rule unmovedI, rule durable_intros,
      rule staysI, (auto simp: same_cases_def get_case_view get_record_def list_case_findings_def run_simps)[1])+

lemma unmoved_store_record [unmoved_intros]: "stays unmoved (store_record r)"
  by (rule unmovedI, rule durable_intros, rule store_record_same_cases)

lemma unmoved_files [unmoved_intros]:
  "stays unmoved (file_bytes p)" "stays unmoved (file_text p)" "stays unmoved (sha256_file env p)" "stays unmoved (make_dir d)"
  unfolding sha256_file_def file_text_def file_bytes_def make_dir_def by (intro unmoved_intros)+

text \<open>What a planner is given answers and keeps records, and moves no case.\<close>

definition planner_aside :: "'x planner \<Rightarrow> bool" where
  "planner_aside pl =
     ((\<forall>task. stays unmoved (rt_run (pl_runtime pl) task)) \<and> (\<forall>d l s. stays unmoved (pl_check pl d l s)) \<and>
      (\<forall>base p u s ts. stays unmoved (pl_link pl base p u s ts)))"

lemma planner_asideD [unmoved_intros]:
  "planner_aside pl \<Longrightarrow> stays unmoved (rt_run (pl_runtime pl) task)"
  "planner_aside pl \<Longrightarrow> stays unmoved (pl_check pl d l s)"
  "planner_aside pl \<Longrightarrow> stays unmoved (pl_link pl base p u s ts)"
  by (simp_all add: planner_aside_def)

lemma scope_unmoved [unmoved_intros]: "stays unmoved (scope_to_plan i ids)"
  unfolding scope_to_plan_def case_validation_def named_record_def Let_def by (intro unmoved_intros)

lemma link_unmoved [unmoved_intros]: "planner_aside pl \<Longrightarrow> stays unmoved (link_source pl base state sc)"
  unfolding link_source_def by (intro unmoved_intros)

lemma feedback_unmoved [unmoved_intros]: "stays unmoved (review_feedback c i)"
  unfolding review_feedback_def named_record_def Let_def by (intro unmoved_intros)

lemma evidence_unmoved [unmoved_intros]: "stays unmoved (planning_evidence pl d k p n)"
  unfolding planning_evidence_def by (intro unmoved_intros)

lemma keep_link_unmoved [unmoved_intros]: "stays unmoved (keep_link pl base i k ns n l)"
  unfolding keep_link_def Let_def by (intro unmoved_intros)

lemma ask_planner_unmoved [unmoved_intros]: "planner_aside pl \<Longrightarrow> stays unmoved (ask_planner pl t s)"
  unfolding ask_planner_def by (intro unmoved_intros)

lemma edit_unmoved [unmoved_intros]: "stays unmoved (edit_copy pl base d l rs orig prop)"
  unfolding edit_copy_def copy_repository_def workspace_source_def Let_def by (intro unmoved_intros)

lemma checks_unmoved [unmoved_intros]: "planner_aside pl \<Longrightarrow> stays unmoved (run_checks pl d l s n)"
  unfolding run_checks_def by (intro unmoved_intros)

section \<open>The last step\<close>

text \<open>A computation that returns did something unmoved first, and ended with a step as \<open>P\<close> describes.\<close>

definition ends_with :: "('a \<Rightarrow> 'x world \<Rightarrow> 'x world \<Rightarrow> bool) \<Rightarrow> ('x world, 'a) prog \<Rightarrow> bool" where
  "ends_with P m = (\<forall>w x w'. m w = (Inr x, w') \<longrightarrow> (\<exists>v. unmoved w v \<and> P x v w'))"

lemma ends_with_bind:
  assumes "stays unmoved m" "\<And>w y v. m w = (Inr y, v) \<Longrightarrow> Q y" "\<And>y. Q y \<Longrightarrow> ends_with P (f y)"
  shows "ends_with P (bindM m f)"
  unfolding ends_with_def
proof (intro allI impI)
  fix w x w' assume "bindM m f w = (Inr x, w')"
  then obtain y v where y: "m w = (Inr y, v)" "f y v = (Inr x, w')" by (auto simp: run_simps)
  from assms(3) [OF assms(2) [OF y(1)]] y(2) obtain u where "unmoved v u" "P x u w'"
    unfolding ends_with_def by blast
  then show "\<exists>v. unmoved w v \<and> P x v w'" using unmoved.trans staysD [OF assms(1) y(1)] by blast
qed

lemmas ends_with_then = ends_with_bind [where Q = "\<lambda>_. True", OF _ TrueI]

lemma ends_with_prod: "(\<And>a b. p = (a, b) \<Longrightarrow> ends_with P (f a b)) \<Longrightarrow> ends_with P (case p of (a, b) \<Rightarrow> f a b)"
  by (cases p) simp

lemma agent_plan_made: "agent_plan out i r ev = Inr p \<Longrightarrow> is_ok (mk_change_plan p) \<and> cp_plan_id p = i \<and> cp_evidence_ids p = ev"
proof -
  assume "agent_plan out i r ev = Inr p"
  then obtain q where q: "mk_change_plan q = Inr p" "cp_plan_id q = i" "cp_evidence_ids q = ev"
    by (auto simp: agent_plan_def res_simps)
  then have "q = p" by (auto simp: mk_change_plan_def res_simps Let_def)
  with q show ?thesis by simp
qed

text \<open>What the last step concludes from: checks, a plan, and the body of its record.\<close>

definition scope_ids :: "pyval \<Rightarrow> pyval" where
  "scope_ids body = pget (dict_items (pget (dict_items body) ''scope'')) ''finding_ids''"

definition body_status :: "pyval \<Rightarrow> pyval" where
  "body_status body = pget (dict_items body) ''status''"

definition concluded ::
  "'x planner \<Rightarrow> string \<Rightarrow> planning_scope \<Rightarrow> plan_outcome \<Rightarrow> 'x world \<Rightarrow> 'x world \<Rightarrow> bool" where
  "concluded pl i sc out v w' =
     (\<exists>plan_id now l ls checks plan body. conclude_plan pl i plan_id now l ls checks plan body v = (Inr out, w') \<and>
        checks \<noteq> [] \<and> is_ok (mk_change_plan plan) \<and> scope_ids body = str_list (map sf_finding_id (pg_findings sc)) \<and>
        body_status body = PStr (if list_all tf_passed checks then ''verified'' else ''rejected''))"

lemma verify_plan_ends:
  assumes "planner_aside pl"
  shows "ends_with (concluded pl i sc) (verify_plan pl base i pid tid now state sc rs l ls feedback ev r)"
proof -
  have body: "body_status (plan_body t ns sc rs l ls f s r e checks p) =
      PStr (if list_all tf_passed checks then ''verified'' else ''rejected'')"
    "scope_ids (plan_body t ns sc rs l ls f s r e checks p) = str_list (map sf_finding_id (pg_findings sc))" for t ns f s e checks p
    by (simp_all add: body_status_def scope_ids_def plan_body_def dict_items_def pget_def dict_get_def)
  have last: "ends_with (concluded pl i sc) (conclude_plan pl i pid now l ls checks p (plan_body t ns sc rs l ls f s r e checks p))"
    if "checks \<noteq> []" "is_ok (mk_change_plan p)" for checks p t ns f s e
    unfolding ends_with_def concluded_def
    using that body [of t ns f s e checks p] unmoved.refl by blast
  show ?thesis
    unfolding verify_plan_def Let_def
  proof (rule ends_with_then, (intro unmoved_intros)[1], rule ends_with_then, (intro unmoved_intros)[1],
      rule ends_with_then, (intro unmoved_intros)[1], goal_cases)
    case (1 proposed e answer)
    show ?case
    proof (rule ends_with_bind [where Q = "\<lambda>(checks, _). checks \<noteq> []"])
      show "stays unmoved (run_checks pl (pl_artifact_root pl @ ''/'' @ planning_namespace i pid) l state now)"
        by (intro unmoved_intros assms)
    next
      fix w y v assume "run_checks pl (pl_artifact_root pl @ ''/'' @ planning_namespace i pid) l state now w = (Inr y, v)"
      then show "case y of (checks, _) \<Rightarrow> checks \<noteq> []" by (auto simp: run_checks_def run_simps)
    next
      fix y :: "tf_check list \<times> string list" assume "case y of (checks, _) \<Rightarrow> checks \<noteq> []"
      then obtain checks ids where y: "y = (checks, ids)" "checks \<noteq> []" by (cases y) auto
      show "ends_with (concluded pl i sc) (case y of (checks, check_ids) \<Rightarrow>
          bindM (liftE (agent_plan (ar_output r) pid
               (planning_namespace i pid @ ''/workspace/'' @ tl_source_path l @ ''#sha256:'' @ se_after_sha256 e)
               (dedup (ev @ [answer] @ check_ids)))) (\<lambda>plan.
          bindM (guardM (is_dict (ar_usage r)) TypeError ''object is not a mapping'') (\<lambda>_.
          conclude_plan pl i pid now l ls checks plan
            (plan_body tid (planning_namespace i pid) sc rs l ls feedback state r e checks plan))))"
        unfolding y prod.case
      proof (rule ends_with_bind [where Q = "\<lambda>p. is_ok (mk_change_plan p)"])
        fix p assume p: "is_ok (mk_change_plan p)"
        show "ends_with (concluded pl i sc) (bindM (guardM (is_dict (ar_usage r)) TypeError ''object is not a mapping'') (\<lambda>_.
          conclude_plan pl i pid now l ls checks p
            (plan_body tid (planning_namespace i pid) sc rs l ls feedback state r e checks p)))"
          by (rule ends_with_then, intro unmoved_intros) (rule last [OF y(2) p])
      qed (auto intro!: unmoved_intros simp: run_simps dest: agent_plan_made)
    qed
  qed
qed

lemma prepare_ends:
  assumes "planner_aside pl" "prepare_plan pl i base state ids w = (Inr out, w')"
  shows "\<exists>sc u v. scope_to_plan i ids w = (Inr sc, u) \<and> unmoved w v \<and> concluded pl i sc out v w'"
proof -
  from assms(2) obtain sc u where sc: "scope_to_plan i ids w = (Inr sc, u)"
    and rest: "bindM (link_source pl base state sc) (\<lambda>(rule_ids, l).
     bindM (review_feedback (pg_case sc) i) (\<lambda>feedback.
     bindM (new_id (pl_env pl) ''PLAN'') (\<lambda>plan_id.
     bindM (new_id (pl_env pl) ''LINK'') (\<lambda>link_id.
     bindM (new_id (pl_env pl) ''TASK'') (\<lambda>task_id.
     bindM (clock_now (pl_env pl)) (\<lambda>now.
     bindM (make_dir (pl_artifact_root pl @ ''/'' @ planning_namespace i plan_id)) (\<lambda>_.
     bindM (keep_link pl base i link_id (planning_namespace i plan_id) now l) (\<lambda>ls.
     bindM (liftE (input_evidence sc ids ls feedback)) (\<lambda>evidence.
     bindM (liftE (planning_task task_id i sc l ls feedback evidence)) (\<lambda>task.
     bindM (ask_planner pl task (ls_source_evidence ls)) (\<lambda>r.
     verify_plan pl base i plan_id task_id now state sc rule_ids l ls feedback evidence r))))))))))) u
       = (Inr out, w')" (is "?rest u = _")
    by (auto simp: prepare_plan_def bindM_def split: prod.splits sum.splits)
  have "ends_with (concluded pl i sc) ?rest"
    by (intro ends_with_then ends_with_prod verify_plan_ends assms(1) unmoved_intros)
  with rest obtain v where "unmoved u v" "concluded pl i sc out v w'" unfolding ends_with_def by blast
  moreover have "unmoved w u" using staysD [OF scope_unmoved sc] .
  ultimately show ?thesis using sc unmoved.trans by blast
qed

section \<open>What is planned for\<close>

text \<open>The findings of a plan: of the case, of one resource, each confirmed by the case's own validation.\<close>

definition plannable ::
  "'x world \<Rightarrow> string \<Rightarrow> string list option \<Rightarrow> remediation_case \<Rightarrow> stored_finding list \<Rightarrow> bool" where
  "plannable w i ids c fs =
     (\<exists>all_findings val results p u. fst (list_case_findings i w) = Inr all_findings \<and>
        chosen_findings all_findings ids = Inr fs \<and> fs \<noteq> [] \<and>
        (\<forall>f \<in> set fs. sf_provider f = p \<and> sf_resource_uid f = u) \<and>
        sql_record_view (wd_records w) (case_record_id c ''validation_result_id'') = Some val \<and>
        pr_case_id val = i \<and> pr_record_type val = ''ValidationResult.v1'' \<and>
        validation_results val = Inr results \<and> (\<forall>f \<in> set fs. confirmed_in results (sf_finding_id f)))"

lemma one_target_all:
  assumes "one_target fs = Inr (p, u)"
  shows "fs \<noteq> [] \<and> (\<forall>f \<in> set fs. sf_provider f = p \<and> sf_resource_uid f = u)"
proof -
  let ?ts = "map (\<lambda>f. (sf_provider f, sf_resource_uid f)) fs"
  from assms have "dedup ?ts = [(p, u)]" unfolding one_target_def by (auto split: list.splits)
  then have "set ?ts = {(p, u)}" by (metis set_dedup list.set)
  then show ?thesis by (auto simp: image_def set_eq_iff)
qed

lemma scope_run:
  assumes "world_ok w" "scope_to_plan i ids w = (Inr sc, u)"
  shows "u = w \<and> (\<exists>es. sql_view (wd_cases w) i = Some (pg_case sc, es)) \<and> rc_state (pg_case sc) = VALIDATED \<and>
    plannable w i ids (pg_case sc) (pg_findings sc)"
proof -
  have ok: "cases_ok (wd_cases w)" "sql_record_ok (wd_records w)" using assms(1) by (simp_all add: world_ok_def)
  from assms(2) obtain c w1 fs w2 p t val w3 results where
    c: "get_case i w = (Inr c, w1)" "rc_state c = VALIDATED" and
    fs: "list_case_findings i w1 = (Inr fs, w2)" "chosen_findings fs ids = Inr (pg_findings sc)" and
    target: "one_target (pg_findings sc) = Inr (p, t)" and
    val: "case_validation c i w2 = (Inr val, w3)" "validation_results val = Inr results" and
    conf: "sort (filter (\<lambda>i. \<not> confirmed_in results i) (map sf_finding_id (pg_findings sc))) = []" and
    u: "u = w3" and sc: "pg_case sc = c"
    by (auto simp: scope_to_plan_def run_simps Let_def)
  from c(1) get_case_view [OF ok(1), of i] obtain es where
    w1: "w1 = w" and view: "sql_view (wd_cases w) i = Some (c, es)" by (auto split: option.splits)
  have w2: "w2 = w" using fs(1) w1 by (auto simp: list_case_findings_def run_simps sql_finding_ops_def sql_finding_list_def)
  have v: "w3 = w \<and> sql_record_view (wd_records w) (case_record_id c ''validation_result_id'') = Some val \<and>
      pr_case_id val = i \<and> pr_record_type val = ''ValidationResult.v1''"
  proof -
    have "get_record (case_record_id c ''validation_result_id'') w = (Inr val, w3)" "pr_case_id val = i"
      "pr_record_type val = ''ValidationResult.v1''"
      using val(1) unfolding w2 by (auto simp: case_validation_def named_record_def run_simps)
    then show ?thesis using get_record_run [OF ok(2), of "case_record_id c ''validation_result_id''"]
      by (auto split: option.splits)
  qed
  have "set (sort (filter (\<lambda>i. \<not> confirmed_in results i) (map sf_finding_id (pg_findings sc)))) = {}"
    unfolding conf by simp
  then have all: "\<forall>f \<in> set (pg_findings sc). confirmed_in results (sf_finding_id f)" by auto
  have "fst (list_case_findings i w) = Inr fs" using fs(1) w1 by simp
  with fs(2) v val(2) one_target_all [OF target] all have "plannable w i ids c (pg_findings sc)"
    unfolding plannable_def by blast
  with w1 view c(2) u v sc show ?thesis by simp
qed

section \<open>The move\<close>

text \<open>The case as the last step leaves it: ready, bound to the plan and its record.\<close>

definition plan_ready :: "remediation_case \<Rightarrow> plan_outcome \<Rightarrow> 'x world \<Rightarrow> bool" where
  "plan_ready c out w =
     (rc_state c = PLAN_READY \<and> rc_change_plan c \<noteq> None \<and>
      dict_get (rc_record_ids c) ''change_plan_id'' = Some (pr_record_id (pn_plan_record out)) \<and>
      pr_record_type (pn_plan_record out) = ''RemediationPlan.v1'' \<and>
      body_status (pr_body (pn_plan_record out)) = PStr ''verified'' \<and>
      sql_record_view (wd_records w) (pr_record_id (pn_plan_record out)) = Some (json_record (pn_plan_record out)))"

lemma concluded_run:
  assumes "world_ok v" "sql_view (wd_cases v) i = Some (c, es)" "rc_state c = VALIDATED" "concluded pl i sc out v w'"
  shows "pn_checks out \<noteq> [] \<and> list_all tf_passed (pn_checks out) \<and>
    scope_ids (pr_body (pn_plan_record out)) = str_list (map sf_finding_id (pg_findings sc)) \<and>
    (\<exists>c' e. sql_view (wd_cases w') = (sql_view (wd_cases v))(i \<mapsto> (c', es @ [e])) \<and> plan_ready c' out w')"
proof -
  have ok: "cases_ok (wd_cases v)" "sql_record_ok (wd_records v)" using assms(1) by (simp_all add: world_ok_def)
  from assms(4) obtain pid now l ls checks plan body where
    run: "conclude_plan pl i pid now l ls checks plan body v = (Inr out, w')" and checks: "checks \<noteq> []"
    and plan: "is_ok (mk_change_plan plan)" and ids: "scope_ids body = str_list (map sf_finding_id (pg_findings sc))"
    and status: "body_status body = PStr (if list_all tf_passed checks then ''verified'' else ''rejected'')"
    unfolding concluded_def by blast
  let ?a = "\<lambda>eid. (basic_args eid now ''remediation-planner''
      [(''change_plan_id'', pid), (''iac_link_id'', pr_record_id (ls_record ls))] (cp_evidence_ids plan))\<lparr>ta_change_plan := Some plan\<rparr>"
  from run obtain rec v1 c1 where
    rec: "store_record (plan_record pid i now checks body (cp_evidence_ids plan)) v = (Inr rec, v1)"
    and passed: "list_all tf_passed checks"
    and adv: "advance i PREPARE_PLAN (?a (env_id (pl_env pl) (wd_tick v1) ''EVT'')) (v1\<lparr>wd_tick := wd_tick v1 + 1\<rparr>) = (Inr c1, w')"
    and out: "pn_plan_record out = rec" "pn_checks out = checks"
    by (auto simp: conclude_plan_def run_simps)
  note R = store_record_view [OF ok(2) rec]
  let ?v = "v1\<lparr>wd_tick := wd_tick v1 + 1\<rparr>" and ?eid = "env_id (pl_env pl) (wd_tick v1) ''EVT''"
  have v1: "wd_cases v1 = wd_cases v" using store_record_frame [OF rec] by simp
  have V: "cases_ok (wd_cases ?v)" "sql_view (wd_cases ?v) i = Some (c, es)" using v1 ok assms(2) by simp_all
  have args: "args_ok (?a ?eid)" using plan by (simp add: args_ok_def basic_args_def)
  from advance_returned [OF V(1) args adv V(2)] obtain p' e e' where
    tr: "transition_case c PREPARE_PLAN (?a ?eid) = Inr (c1, e)" "same_case c1 p'"
      "sql_view (wd_cases w') = (sql_view (wd_cases ?v))(i \<mapsto> (p', es @ [e']))" "wd_records w' = wd_records ?v" by blast
  have c1: "rc_state c1 = PLAN_READY" "rc_change_plan c1 = Some plan"
    "dict_get (rc_record_ids c1) ''change_plan_id'' = Some pid"
    using transition_caseD(4,15,17) [OF tr(1)] assms(3)
    by (simp_all add: transition_target_linear linear_transition_def linear_transitions_def reopened_def
        merged_records_def basic_args_def dict_update_def or_else_def)
  have p': "rc_state p' = PLAN_READY" "rc_change_plan p' = Some plan"
    "dict_get (rc_record_ids p') ''change_plan_id'' = Some pid"
    using tr(2) same_case_fields(6,11) [OF tr(2)] c1 unfolding same_case_def by metis+
  have r: "rec = plan_record pid i now checks body (cp_evidence_ids plan)" using R by simp
  have "plan_ready p' out w'"
    unfolding plan_ready_def using p' R tr(4) status passed by (simp add: out r plan_record_def)
  with tr(3) v1 checks passed ids show ?thesis by (auto simp: out r plan_record_def)
qed

text \<open>A run that raises leaves the cases as they were.\<close>

lemma moves_last_unmoved: "stays unmoved m \<Longrightarrow> (\<And>x. moves_last (f x)) \<Longrightarrow> moves_last (bindM m f)"
  by (rule moves_last_then) (simp_all add: stays_def unmoved_def)

lemma moves_last_made:
  "(\<And>p. is_ok (mk_change_plan p) \<Longrightarrow> moves_last (f p)) \<Longrightarrow> moves_last (bindM (liftE (agent_plan out i r ev)) f)"
  using agent_plan_made [of out i r ev]
  by (cases "agent_plan out i r ev") (auto simp: moves_last_def bindM_def liftE_def)

lemma conclude_moves_last:
  assumes "is_ok (mk_change_plan plan)" shows "moves_last (conclude_plan pl i pid now l ls checks plan body)"
  unfolding conclude_plan_def using assms
  by (intro moves_last_unmoved moves_last_advance unmoved_intros) (simp add: args_ok_def basic_args_def)

lemma prepare_moves_last:
  assumes "planner_aside pl" shows "moves_last (prepare_plan pl i base state ids)"
  unfolding prepare_plan_def verify_plan_def Let_def
  by (intro moves_last_made moves_last_unmoved moves_last_case_prod conclude_moves_last unmoved_intros assms)

text \<open>C9: A case gets a plan only for confirmed findings and a change that passed. When planning returns, the
  case was validated; the planned findings are of the case and of one resource and each was confirmed
  by the case's own validation; there were checks and all passed; one event made the case ready, bound to
  the plan and to its verified record, whose scope is exactly these findings. When it raises, wherever
  it does, no case has changed.\<close>

theorem plan_only_of_confirmed_and_checked:
  assumes "world_ok w" "planner_aside pl" "prepare_plan pl i base state ids w = (r, w')"
  shows "case r of
     Inl x \<Rightarrow> wd_cases w' = wd_cases w
   | Inr out \<Rightarrow> \<exists>c es c' e fs. sql_view (wd_cases w) i = Some (c, es) \<and> rc_state c = VALIDATED \<and>
       plannable w i ids c fs \<and> pn_checks out \<noteq> [] \<and> list_all tf_passed (pn_checks out) \<and>
       scope_ids (pr_body (pn_plan_record out)) = str_list (map sf_finding_id fs) \<and>
       sql_view (wd_cases w') = (sql_view (wd_cases w))(i \<mapsto> (c', es @ [e])) \<and> plan_ready c' out w'"
proof (cases r)
  case (Inr out)
  from prepare_ends [OF assms(2) assms(3) [unfolded Inr]] obtain sc u v where
    sc: "scope_to_plan i ids w = (Inr sc, u)" and v: "unmoved w v" and last: "concluded pl i sc out v w'" by blast
  from scope_run [OF assms(1) sc] obtain es where
    S: "sql_view (wd_cases w) i = Some (pg_case sc, es)" "rc_state (pg_case sc) = VALIDATED"
      "plannable w i ids (pg_case sc) (pg_findings sc)" by blast
  have V: "world_ok v" "wd_cases v = wd_cases w"
    using v assms(1) unfolding unmoved_def durable_def same_cases_def world_ok_def by blast+
  from concluded_run [OF V(1) S(1)[folded V(2)] S(2) last] S show ?thesis
    unfolding Inr V(2) sum.case by blast
next
  case (Inl x)
  then show ?thesis using prepare_moves_last [OF assms(2)] assms(1,3) unfolding moves_last_def world_ok_def by auto
qed

section \<open>For the orchestrator\<close>

text \<open>The planning service keeps what is durable: it is a planner the orchestrator may be given.\<close>

lemma unmoved_durable: "stays unmoved m \<Longrightarrow> stays durable m"
  by (simp add: stays_def unmoved_def)

lemma durable_agent_plan:
  "(\<And>p. is_ok (mk_change_plan p) \<Longrightarrow> stays durable (f p)) \<Longrightarrow>
     stays durable (bindM (liftE (agent_plan out i r ev)) f)"
  using agent_plan_made [of out i r ev] durable.refl
  by (cases "agent_plan out i r ev") (auto simp: stays_def bindM_def liftE_def)

lemma conclude_durable:
  "is_ok (mk_change_plan plan) \<Longrightarrow> stays durable (conclude_plan pl i pid now l ls checks plan body)"
  unfolding conclude_plan_def by (intro durable_intros) (simp add: args_ok_def basic_args_def)

lemma prepare_plan_durable:
  assumes "planner_aside pl" shows "stays durable (prepare_plan pl i base state ids)"
  unfolding prepare_plan_def verify_plan_def Let_def
  by (intro durable_agent_plan durable.bindM stays_case_prod conclude_durable unmoved_durable unmoved_intros assms)

lemma orchestrator_with_planning_durable:
  assumes "agent_durable (sg_runtime (oc_stage oc))" "planner_aside pl"
    and "oc_planner oc = (\<lambda>i. prepare_plan pl i base state None)"
  shows "stays durable (advance_to_human_review oc i sc samples p)"
  using orchestrator_durable(1) [OF assms(1)] prepare_plan_durable [OF assms(2)] by (simp add: assms(3))

end
