(* ===== verification/Terraform_Properties.thy ===== *)
theory Terraform_Properties
  imports Terraform_Checks Control_Patch
begin

text \<open>
  What the inspection of a plan, the deterministic edits and the linker guarantee.
\<close>

section \<open>Changed paths are the differences\<close>

text \<open>Python's \<open>==\<close> on parsed JSON: objects by key, arrays by index, numbers by value.\<close>

inductive same_value :: "pyval \<Rightarrow> pyval \<Rightarrow> bool" where
  object: "(\<And>k. dict_get a k = None \<longleftrightarrow> dict_get b k = None) \<Longrightarrow>
    (\<And>k x y. dict_get a k = Some x \<Longrightarrow> dict_get b k = Some y \<Longrightarrow> same_value x y) \<Longrightarrow> same_value (PDict a) (PDict b)"
| array: "length xs = length ys \<Longrightarrow> (\<And>n. n < length xs \<Longrightarrow> same_value (xs ! n) (ys ! n)) \<Longrightarrow>
    same_value (PList xs) (PList ys)"
| scalar: "scalar_same v w \<Longrightarrow> same_value v w"

inductive_cases same_objectE: "same_value (PDict a) (PDict b)"
inductive_cases same_arrayE: "same_value (PList xs) (PList ys)"

lemma dict_get_None_keys: "dict_get d k = None \<longleftrightarrow> k \<notin> fst ` set d"
  by (simp add: dict_get_def map_of_eq_None_iff)

lemma all_keys_set: "k \<in> set (all_keys a b) \<longleftrightarrow> dict_get (dict_items a) k \<noteq> None \<or> dict_get (dict_items b) k \<noteq> None"
  by (auto simp: all_keys_def dict_get_None_keys)

text \<open>What one key of two objects contributes.\<close>

definition child_path :: "string \<Rightarrow> string \<Rightarrow> string" where
  "child_path path k = (if path = [] then k else path @ ''.'' @ k)"

definition key_paths :: "string \<Rightarrow> pyval \<Rightarrow> pyval \<Rightarrow> string \<Rightarrow> string list" where
  "key_paths path a b k = (case dict_get (dict_items a) k of
       None \<Rightarrow> [child_path path k]
     | Some x \<Rightarrow> (case dict_get (dict_items b) k of
         None \<Rightarrow> [child_path path k] | Some y \<Rightarrow> changed_paths (child_path path k) x y))"

lemma changed_object:
  "is_dict a \<Longrightarrow> is_dict b \<Longrightarrow> changed_paths path a b = concat (map (key_paths path a b) (all_keys a b))"
  unfolding key_paths_def [abs_def] child_path_def by (subst changed_paths.simps) (simp add: Let_def)

lemma key_paths_none:
  "key_paths path a b k = [] \<longleftrightarrow>
     (\<exists>x y. dict_get (dict_items a) k = Some x \<and> dict_get (dict_items b) k = Some y \<and>
        changed_paths (child_path path k) x y = [])"
  by (auto simp: key_paths_def split: option.splits)

lemma set_enumerate_zip:
  "length xs = length ys \<Longrightarrow> set (enumerate 0 (zip xs ys)) = (\<lambda>n. (n, xs ! n, ys ! n)) ` {..<length xs}"
  by (auto simp: in_set_enumerate_eq image_iff)

lemma changed_none:
  "changed_paths path a b = [] \<longleftrightarrow> same_value a b"
proof (induction path a b rule: changed_paths.induct)
  case (1 path a b)
  show ?case
  proof (cases "is_dict a \<and> is_dict b")
    case True
    then obtain d e where ab: "a = PDict d" "b = PDict e" by (cases a; cases b) auto
    have d: "dict_items a = d" "dict_items b = e" by (simp_all add: ab dict_items_def)
    have IH: "changed_paths (child_path path k) x y = [] \<longleftrightarrow> same_value x y"
      if "k \<in> set (all_keys a b)" "dict_get d k = Some x" "dict_get e k = Some y" for k x y
      using 1(1) [OF True that(1) child_path_def] that d by simp
    have "changed_paths path a b = [] \<longleftrightarrow> (\<forall>k \<in> set (all_keys a b). key_paths path a b k = [])"
      using True by (simp add: changed_object)
    also have "\<dots> \<longleftrightarrow> (\<forall>k \<in> set (all_keys a b). \<exists>x y. dict_get d k = Some x \<and> dict_get e k = Some y \<and> same_value x y)"
      by (simp add: key_paths_none d) (use IH in blast)
    also have "\<dots> \<longleftrightarrow> same_value a b"
    proof
      assume all: "\<forall>k \<in> set (all_keys a b). \<exists>x y. dict_get d k = Some x \<and> dict_get e k = Some y \<and> same_value x y"
      show "same_value a b" unfolding ab
      proof (rule same_value.object)
        show "dict_get d k = None \<longleftrightarrow> dict_get e k = None" for k
          using all all_keys_set [of k a b] d by (cases "k \<in> set (all_keys a b)") fastforce+
        show "same_value x y" if "dict_get d k = Some x" "dict_get e k = Some y" for k x y
          using all all_keys_set [of k a b] d that by fastforce
      qed
    next
      assume "same_value a b"
      then have s: "(dict_get d k = None \<longleftrightarrow> dict_get e k = None) \<and>
        (\<forall>x y. dict_get d k = Some x \<longrightarrow> dict_get e k = Some y \<longrightarrow> same_value x y)" for k
        unfolding ab by (rule same_objectE) (auto simp: scalar_same_def)
      show "\<forall>k \<in> set (all_keys a b). \<exists>x y. dict_get d k = Some x \<and> dict_get e k = Some y \<and> same_value x y"
        using s by (fastforce simp: all_keys_set d)
    qed
    finally show ?thesis .
  next
    case nodict: False
    show ?thesis
    proof (cases "is_list a \<and> is_list b")
      case True
      then obtain xs ys where ab: "a = PList xs" "b = PList ys" by (cases a; cases b) auto
      have items: "list_items a = xs" "list_items b = ys" by (simp_all add: ab list_items_def)
      show ?thesis
      proof (cases "length xs = length ys")
        case False
        then show ?thesis unfolding ab
          by (subst changed_paths.simps) (auto simp: list_items_def scalar_same_def elim: same_arrayE)
      next
        case len: True
        have IH: "changed_paths (path @ ''['' @ show_nat n @ '']'') (xs ! n) (ys ! n) = [] \<longleftrightarrow> same_value (xs ! n) (ys ! n)"
          if "n < length xs" for n
        proof -
          have "(n, xs ! n, ys ! n) \<in> set (enumerate 0 (zip (list_items a) (list_items b)))"
            using that len by (simp add: in_set_enumerate_eq items)
          from 1(2) [OF nodict True _ this HOL.refl HOL.refl] len items show ?thesis by simp
        qed
        have "changed_paths path a b = concat (map (\<lambda>(i, x, y). changed_paths (path @ ''['' @ show_nat i @ '']'') x y)
            (enumerate 0 (zip xs ys)))"
          using nodict True len by (subst changed_paths.simps) (auto simp: items)
        then have "changed_paths path a b = [] \<longleftrightarrow> (\<forall>n < length xs. same_value (xs ! n) (ys ! n))"
          using IH len by (auto simp: set_enumerate_zip)
        also have "\<dots> \<longleftrightarrow> same_value a b"
          unfolding ab using len by (auto intro: same_value.array elim!: same_arrayE simp: scalar_same_def)
        finally show ?thesis .
      qed
    next
      case False
      have "same_value a b \<longleftrightarrow> scalar_same a b"
        using nodict False by (auto elim: same_value.cases intro: same_value.scalar)
      then show ?thesis using nodict False by (subst changed_paths.simps) auto
    qed
  qed
qed

section \<open>A plan in scope\<close>

text \<open>Two objects that agree on every key but one.\<close>

definition only_differs :: "string \<Rightarrow> pyval \<Rightarrow> pyval \<Rightarrow> bool" where
  "only_differs k a b = (\<forall>j. j \<noteq> k \<longrightarrow>
     (dict_get (dict_items a) j = None \<longleftrightarrow> dict_get (dict_items b) j = None) \<and>
     (\<forall>x y. dict_get (dict_items a) j = Some x \<longrightarrow> dict_get (dict_items b) j = Some y \<longrightarrow> same_value x y))"

lemma concat_map_single:
  assumes "concat (map f ks) = [p]" "k \<in> set ks" "f k \<noteq> []" "distinct ks"
  shows "f k = [p] \<and> (\<forall>j \<in> set ks. j \<noteq> k \<longrightarrow> f j = [])"
proof -
  from assms(2) obtain xs ys where ks: "ks = xs @ k # ys" by (meson split_list)
  with assms(1) have eq: "concat (map f xs) @ f k @ concat (map f ys) = [p]" by simp
  with assms(3) have "concat (map f xs) = []" "concat (map f ys) = []" "f k = [p]"
    by (auto simp: append_eq_Cons_conv)
  then show ?thesis by (auto simp: ks)
qed

lemma distinct_all_keys: "distinct (all_keys a b)"
  by (simp add: all_keys_def)

lemma one_path_one_key:
  assumes "is_dict a" "is_dict b" "changed_paths path a b = [p]"
    and "dict_get (dict_items a) k = Some x" "dict_get (dict_items b) k = Some y" "\<not> same_value x y"
  shows "changed_paths (child_path path k) x y = [p] \<and> only_differs k a b"
proof -
  have k: "k \<in> set (all_keys a b)" "key_paths path a b k = changed_paths (child_path path k) x y"
    using assms(4,5) by (simp_all add: all_keys_set key_paths_def)
  then have "key_paths path a b k \<noteq> []" using assms(6) by (simp add: changed_none)
  from concat_map_single [OF assms(3) [unfolded changed_object [OF assms(1,2)]] k(1) this distinct_all_keys]
  have p: "key_paths path a b k = [p]" and rest: "\<forall>j \<in> set (all_keys a b). j \<noteq> k \<longrightarrow> key_paths path a b j = []" by blast+
  have "(dict_get (dict_items a) j = None \<longleftrightarrow> dict_get (dict_items b) j = None) \<and>
     (\<forall>x y. dict_get (dict_items a) j = Some x \<longrightarrow> dict_get (dict_items b) j = Some y \<longrightarrow> same_value x y)"
    if "j \<noteq> k" for j
    using rest that by (cases "j \<in> set (all_keys a b)") (auto simp: key_paths_none changed_none all_keys_set)
  then show ?thesis using p k(2) unfolding only_differs_def by simp
qed

lemma same_scalars: "same_value (PBool x) (PBool y) \<longleftrightarrow> x = y" "same_value (PStr s) (PStr t) \<longleftrightarrow> s = t"
  by (cases x; cases y; auto elim!: same_value.cases intro: same_value.scalar simp: scalar_same_def)
    (auto elim!: same_value.cases intro: same_value.scalar simp: scalar_same_def)

lemma pget_set: "v \<noteq> PNone \<Longrightarrow> pget d k = v \<longleftrightarrow> dict_get d k = Some v"
  by (auto simp: pget_def get_or_def split: option.splits)

lemma only_objectD: "only_object v = Some d \<Longrightarrow> v = PList [PDict d]"
proof -
  assume "only_object v = Some d"
  then obtain x where x: "list_items v = [x]" "is_dict x" "d = dict_items x"
    by (auto simp: only_object_def split: list.splits if_splits)
  then show ?thesis by (cases v; cases x) (auto simp: list_items_def dict_items_def)
qed

lemma changed_one_element:
  "changed_paths path (PList [x]) (PList [y]) = changed_paths (path @ ''[0]'') x y"
proof -
  have "show_nat 0 = ''0''" by code_simp
  then show ?thesis by (subst changed_paths.simps) (simp add: list_items_def)
qed

text \<open>What the two admitted controls may change of a resource.\<close>

definition only_public_access :: "pyval \<Rightarrow> pyval \<Rightarrow> bool" where
  "only_public_access before after =
     (pget (dict_items before) storage_flag = PBool True \<and> pget (dict_items after) storage_flag = PBool False \<and>
      only_differs storage_flag before after)"

definition only_versioning :: "pyval \<Rightarrow> pyval \<Rightarrow> bool" where
  "only_versioning before after =
     (\<exists>c d. pget (dict_items before) ''versioning_configuration'' = PList [PDict c] \<and>
        pget (dict_items after) ''versioning_configuration'' = PList [PDict d] \<and>
        pget c ''status'' \<in> {PStr ''Disabled'', PStr ''Suspended''} \<and> pget d ''status'' = PStr ''Enabled'' \<and>
        only_differs ''status'' (PDict c) (PDict d) \<and> only_differs ''versioning_configuration'' before after)"

lemma allowed_changes:
  assumes "allowed_target_change target change paths = Inr True"
    and "paths = changed_paths [] (pget change ''before'') (pget change ''after'')"
  shows "is_dict (pget change ''before'') \<and> is_dict (pget change ''after'') \<and>
    (type_of_address target = ''azurerm_storage_account'' \<and> only_public_access (pget change ''before'') (pget change ''after'') \<or>
     type_of_address target = ''aws_s3_bucket_versioning'' \<and> only_versioning (pget change ''before'') (pget change ''after''))"
proof -
  let ?b = "pget change ''before''" and ?a = "pget change ''after''"
  from assms(1) have dicts: "is_dict ?b" "is_dict ?a"
    by (auto simp: allowed_target_change_def Let_def split: if_splits)
  show ?thesis
  proof (cases "type_of_address target = ''azurerm_storage_account''")
    case True
    with assms(1) dicts have s: "paths = [storage_flag]" "pget (dict_items ?b) storage_flag = PBool True"
      "pget (dict_items ?a) storage_flag = PBool False"
      by (simp_all add: allowed_target_change_def Let_def)
    then have "dict_get (dict_items ?b) storage_flag = Some (PBool True)"
      "dict_get (dict_items ?a) storage_flag = Some (PBool False)" by (simp_all add: pget_set)
    from one_path_one_key [OF dicts _ this] s assms(2) True dicts show ?thesis
      by (simp add: only_public_access_def same_scalars)
  next
    case False
    let ?k = "''versioning_configuration''"
    from assms(1) dicts False obtain c d where v: "type_of_address target = ''aws_s3_bucket_versioning''"
      "paths = [versioning_status_path]" "only_object (pget (dict_items ?b) ?k) = Some c"
      "only_object (pget (dict_items ?a) ?k) = Some d" "pget d ''status'' = PStr ''Enabled''"
      "in_str_set (pget c ''status'') [''Disabled'', ''Suspended''] = Inr True"
      by (auto simp: allowed_target_change_def Let_def res_simps split: if_splits option.splits)
    note cd = only_objectD [OF v(3)] only_objectD [OF v(4)]
    have st: "pget c ''status'' \<in> {PStr ''Disabled'', PStr ''Suspended''}"
      using v(6) by (auto simp: in_str_set_def res_simps)
    then obtain s where s: "dict_get c ''status'' = Some (PStr s)" "s \<noteq> ''Enabled''" by (auto simp: pget_set)
    have t: "dict_get d ''status'' = Some (PStr ''Enabled'')" using v(5) by (simp add: pget_set)
    have differ: "\<not> same_value (PDict c) (PDict d)"
    proof
      assume "same_value (PDict c) (PDict d)"
      then have "same_value (PStr s) (PStr ''Enabled'')"
        using s t by (auto elim!: same_objectE simp: scalar_same_def)
      with s(2) show False by (simp add: same_scalars)
    qed
    then have lists: "\<not> same_value (PList [PDict c]) (PList [PDict d])"
      by (auto elim!: same_arrayE simp: scalar_same_def)
    from cd have keys: "dict_get (dict_items ?b) ?k = Some (PList [PDict c])" "dict_get (dict_items ?a) ?k = Some (PList [PDict d])"
      by (simp_all add: pget_set)
    from one_path_one_key [OF dicts assms(2) [symmetric, unfolded v(2)] keys lists]
    have outer: "changed_paths (?k @ ''[0]'') (PDict c) (PDict d) = [versioning_status_path]" "only_differs ?k ?b ?a"
      by (simp_all add: child_path_def changed_one_element)
    have "only_differs ''status'' (PDict c) (PDict d)"
      using one_path_one_key [OF _ _ outer(1), of "''status''" "PStr s" "PStr ''Enabled''"] s t
      by (simp add: dict_items_def same_scalars)
    with cd st v(1,5) outer(2) dicts show ?thesis unfolding only_versioning_def by blast
  qed
qed

lemma plan_entry_paths:
  "plan_entry v = Inr (Some c) \<Longrightarrow>
     pc_paths c = changed_paths [] (pget (pc_change c) ''before'') (pget (pc_change c) ''after'')"
  by (auto simp: plan_entry_def Let_def res_simps split: if_splits)

lemma plan_changes_paths:
  assumes "plan_changes document = Inr cs" "c \<in> set cs"
  shows "pc_paths c = changed_paths [] (pget (pc_change c) ''before'') (pget (pc_change c) ''after'')"
proof -
  from assms obtain es found where e: "mapE plan_entry es = Inr found" "cs = List.map_filter (\<lambda>x. x) found"
    by (auto simp: plan_changes_def res_simps)
  with assms(2) have "Some c \<in> set found" by (auto simp: List.map_filter_def)
  then obtain n where "n < length found" "found ! n = Some c" by (auto simp: in_set_conv_nth)
  with mapE_nth [OF e(1)] have "plan_entry (es ! n) = Inr (Some c)" by simp
  then show ?thesis by (rule plan_entry_paths)
qed

text \<open>C10: A plan that passes the inspection does one thing. Its only entry that is not a no-op updates the
  linked resource in place, and between what is before and what is after it exactly one attribute
  differs: public network access of a storage account goes from on to off, or the versioning status of
  a bucket from disabled or suspended to enabled; every other attribute has the same value.\<close>

theorem plan_in_scope_changes_one_attribute:
  assumes "inspect_plan tr target text = Inr chk" "tf_passed chk"
  shows "\<exists>document c. json_loads text = Some document \<and> plan_changes document = Inr [c] \<and>
    py_str (pc_address c) = target \<and> pc_actions c = [PStr ''update''] \<and>
    (let before = pget (pc_change c) ''before''; after = pget (pc_change c) ''after'' in
       is_dict before \<and> is_dict after \<and>
       (type_of_address target = ''azurerm_storage_account'' \<and> only_public_access before after \<or>
        type_of_address target = ''aws_s3_bucket_versioning'' \<and> only_versioning before after))"
proof -
  from assms obtain document cs where d: "json_loads text = Some document" "plan_changes document = Inr cs"
    "structural_scope target cs" "attribute_scope target cs = Inr True"
    by (auto simp: inspect_plan_def Let_def res_simps tf_passed_def mk_check_def split: option.splits if_splits)
  from d(3) obtain c where cs: "cs = [c]" "py_str (pc_address c) = target" "pc_actions c = [PStr ''update'']"
    by (auto simp: structural_scope_def split: list.splits)
  have allowed: "allowed_target_change target (pc_change c) (pc_paths c) = Inr True"
    using d(3,4) unfolding attribute_scope_def cs(1) by (auto split: if_splits)
  have "pc_paths c = changed_paths [] (pget (pc_change c) ''before'') (pget (pc_change c) ''after'')"
    using plan_changes_paths [OF d(2), of c] by (simp add: cs(1))
  from allowed_changes [OF allowed this] d(1,2) cs show ?thesis unfolding Let_def by blast
qed

definition sample_runner :: "unit terraform_runner" where
  "sample_runner = \<lparr> tr_executable = ''terraform'', tr_timeout_seconds = PInt 300, tr_host_env = [],
     tr_directory = ''/tmp/t'', tr_process = (\<lambda>argv cwd environment. ret (Completed 0 [] [])), tr_redact = (\<lambda>s. s),
     tr_split_url = (\<lambda>u. (''http'', Some ''localhost'')), tr_proxy_url = [] \<rparr>"

definition plan_text :: string where
  "plan_text = ''{\"resource_changes\":[{\"address\":\"aws_s3_bucket_versioning.logs\",\"change\":''
     @ ''{\"actions\":[\"update\"],\"before\":{\"bucket\":\"logs\",\"versioning_configuration\":''
     @ ''[{\"status\":\"Suspended\"}]},\"after\":{\"bucket\":\"logs\",\"versioning_configuration\":''
     @ ''[{\"status\":\"Enabled\"}]}}}]}''"

lemma plan_text_passes:
  "case inspect_plan sample_runner ''aws_s3_bucket_versioning.logs'' plan_text of Inl e \<Rightarrow> False | Inr chk \<Rightarrow> tf_passed chk"
  by code_simp

theorem plan_in_scope_changes_one_attribute_witness:
  "\<exists>chk (c :: plan_change). inspect_plan sample_runner ''aws_s3_bucket_versioning.logs'' plan_text = Inr chk \<and> tf_passed chk \<and>
     pc_actions c = [PStr ''update''] \<and> only_versioning (pget (pc_change c) ''before'') (pget (pc_change c) ''after'')"
proof -
  from plan_text_passes obtain chk where
    chk: "inspect_plan sample_runner ''aws_s3_bucket_versioning.logs'' plan_text = Inr chk" "tf_passed chk"
    by (auto split: sum.splits)
  have "type_of_address ''aws_s3_bucket_versioning.logs'' \<noteq> ''azurerm_storage_account''" by code_simp
  with plan_in_scope_changes_one_attribute [OF chk] obtain c :: plan_change where "pc_actions c = [PStr ''update'']"
    "only_versioning (pget (pc_change c) ''before'') (pget (pc_change c) ''after'')"
    unfolding Let_def by blast
  with chk show ?thesis by blast
qed

section \<open>A deterministic edit\<close>

definition blanks :: "string \<Rightarrow> bool" where
  "blanks s = list_all is_space s"

lemma skip_spaces_blanks: "\<exists>p. s = p @ skip_spaces s \<and> blanks p"
proof -
  have "blanks (takeWhile is_space s)" unfolding blanks_def list_all_iff by (auto dest: set_takeWhileD)
  moreover have "s = takeWhile is_space s @ skip_spaces s" by (simp add: skip_spaces_def)
  ultimately show ?thesis by blast
qed

text \<open>The value of an assignment of the key: nothing but space around the key and the equals sign.\<close>

definition assigns :: "string \<Rightarrow> string \<Rightarrow> bool" where
  "assigns key t = (\<exists>u p q r. t = u @ p @ key @ q @ ''='' @ r \<and> blanks p \<and> blanks q \<and> blanks r)"

lemma assignment_assigns:
  assumes "assignment_at key vs s = Some a" shows "assigns key (an_before a)"
proof -
  from assms obtain x b where x: "skip_spaces s = key @ x" and b: "skip_spaces x = ''='' @ b"
    and before: "an_before a = take (length s - length (skip_spaces b)) s"
    by (auto simp: assignment_at_def Let_def expect_text_Some split: option.splits prod.splits)
  obtain p q r where p: "s = p @ skip_spaces s" "blanks p" and q: "x = q @ skip_spaces x" "blanks q"
    and r: "b = r @ skip_spaces b" "blanks r"
    using skip_spaces_blanks by metis
  have s: "s = (p @ key @ q @ ''='' @ r) @ skip_spaces b"
    by (subst p(1), subst x, subst q(1), subst b, subst r(1)) simp
  have "an_before a = [] @ p @ key @ q @ ''='' @ r"
    unfolding before by (subst (2) s, subst s) simp
  with p q r show ?thesis unfolding assigns_def by blast
qed

lemma assigns_append: "assigns key t \<Longrightarrow> assigns key (u @ t)"
  unfolding assigns_def by (metis append.assoc)

text \<open>One replacement changes one value of an assignment and nothing else.\<close>

definition replaced_once :: "string \<Rightarrow> string list \<Rightarrow> string \<Rightarrow> string \<Rightarrow> string \<Rightarrow> bool" where
  "replaced_once key vs new s t =
     (\<exists>pre v post. s = pre @ v @ post \<and> t = pre @ new @ post \<and> v \<in> set vs \<and> assigns key pre)"

lemma replaced_once_append: "replaced_once key vs new s t \<Longrightarrow> replaced_once key vs new (u @ s) (u @ t)"
  unfolding replaced_once_def using assigns_append by (metis append.assoc)

lemma replace_values_count:
  "replace_values key vs new b s = (t, n) \<Longrightarrow>
     (n = 0 \<longrightarrow> t = s) \<and> (n = 1 \<longrightarrow> replaced_once key vs new s t)"
proof (induction key vs new b s arbitrary: t n rule: replace_values.induct)
  case (1 key vs new b s)
  show ?case
  proof (cases "if b then assignment_at key vs s else None")
    case (Some a)
    then have a: "assignment_at key vs s = Some a" by (auto split: if_splits)
    let ?b = "last (an_before a @ an_value a @ an_after a) = CHR 0x0A"
    obtain u m where rest: "replace_values key vs new ?b (an_rest a) = (u, m)" by fastforce
    have t: "t = an_before a @ new @ an_after a @ u" "n = Suc m"
      using 1(3) Some rest by (subst (asm) replace_values.simps, simp)+
    have "n = 1 \<Longrightarrow> u = an_rest a" using 1(2) [OF Some rest] t(2) by simp
    then have "n = 1 \<Longrightarrow> replaced_once key vs new s t"
      unfolding replaced_once_def t(1)
      using assignment_at_append(1,2) [OF a] assignment_assigns [OF a] by blast
    then show ?thesis using t(2) by simp
  next
    case None
    show ?thesis
    proof (cases s)
      case Nil
      then have "t = [] \<and> n = 0" using 1(3) None by (subst (asm) replace_values.simps) simp
      then show ?thesis by (simp add: Nil)
    next
      case (Cons c cs)
      obtain u m where rest: "replace_values key vs new (c = CHR 0x0A) cs = (u, m)" by fastforce
      have t: "t = c # u" "n = m"
        using 1(3) None Cons rest by (subst (asm) replace_values.simps, simp)+
      from 1(1) [OF None Cons rest] t show ?thesis
        using replaced_once_append [of key vs new cs u "[c]"] by (auto simp: Cons)
    qed
  qed
qed

text \<open>The lines of the linked block, with what is before and after them.\<close>

definition block_of :: "tf_link \<Rightarrow> string \<Rightarrow> string \<times> string \<times> string" where
  "block_of l source =
     (let lines = lines_of source; start = tl_start_line l - 1 in
      (concat (take start lines), concat (take (tl_end_line l - start) (drop start lines)),
       concat (drop (tl_end_line l) lines)))"

lemma lines_rejoined:
  assumes "start < stop"
  shows "concat (take start ls) @ concat (take (stop - start) (drop start ls)) @ concat (drop stop ls) = concat ls"
proof -
  have "drop start ls = take (stop - start) (drop start ls) @ drop stop ls"
    using assms by (metis append_take_drop_id drop_drop le_add_diff_inverse2 less_imp_le_nat)
  then show ?thesis by (metis append_take_drop_id concat_append)
qed

lemma storage_patch_once:
  "storage_patch original proposed = Inr t \<Longrightarrow> replaced_once storage_flag [''true''] ''false'' original t"
  by (auto simp: storage_patch_def storage_flag_def res_simps split: prod.splits dest: replace_values_count)

lemma versioning_patch_once:
  assumes "versioning_patch l original proposed = Inr t" "block_of l original = (before, block, after)"
  shows "original = before @ block @ after \<and>
    (\<exists>block'. t = before @ block' @ after \<and> replaced_once ''status'' unversioned_texts enabled_text block block')"
proof -
  obtain block' n where r: "replace_values ''status'' unversioned_texts enabled_text True block = (block', n)" by fastforce
  have b: "before = concat (take (tl_start_line l - 1) (lines_of original))"
    "block = concat (take (tl_end_line l - (tl_start_line l - 1)) (drop (tl_start_line l - 1) (lines_of original)))"
    "after = concat (drop (tl_end_line l) (lines_of original))"
    using assms(2) by (simp_all add: block_of_def Let_def)
  have t: "n = 1" "t = before @ block' @ after"
    using assms(1) unfolding versioning_patch_def Let_def b [symmetric] r by (auto simp: res_simps)
  with replace_values_count [OF r] have once: "replaced_once ''status'' unversioned_texts enabled_text block block'" by simp
  then have "block \<noteq> []" by (auto simp: replaced_once_def assigns_def)
  then have "tl_start_line l - 1 < tl_end_line l" unfolding b(2) by (cases "tl_start_line l - 1 < tl_end_line l") auto
  from lines_rejoined [OF this, of "lines_of original"] have "original = before @ block @ after"
    by (simp add: b concat_lines_of)
  with t(2) once show ?thesis by blast
qed

text \<open>C11: An edit the program makes changes one literal and nothing else. Of a storage account it turns the
  one assignment of public network access from true to false; of a versioning resource it turns the one
  status in the lines of the linked block to enabled, and every character before, between and after is
  the original one, whatever text the agent proposed.\<close>

theorem patch_changes_one_literal:
  assumes "materialize_control_patch original proposed l rule_ids = Inr (t, ''deterministic_control_patch'')"
    and "block_of l original = (before, block, after)"
  shows "tl_resource_type l = ''azurerm_storage_account'' \<and> replaced_once storage_flag [''true''] ''false'' original t \<or>
    tl_resource_type l = ''aws_s3_bucket_versioning'' \<and> original = before @ block @ after \<and>
    (\<exists>block'. t = before @ block' @ after \<and> replaced_once ''status'' unversioned_texts enabled_text block block')"
  using assms storage_patch_once versioning_patch_once [OF _ assms(2)]
  by (auto simp: materialize_control_patch_def res_simps split: if_splits)

definition sample_source :: string where
  "sample_source = ''# audit'' @ [CHR 0x0A] @ ''resource \"aws_s3_bucket_versioning\" \"logs\" {'' @ [CHR 0x0A]
     @ ''  versioning_configuration {'' @ [CHR 0x0A] @ ''    status = \"Suspended\" # keep'' @ [CHR 0x0A] @ ''  }''
     @ [CHR 0x0A] @ ''}'' @ [CHR 0x0A]"

definition sample_link :: tf_link where
  "sample_link = \<lparr> tl_resource_uid = ''arn:aws:s3:::logs'', tl_source_path = ''main.tf'', tl_module_path = ''.'',
     tl_resource_type = ''aws_s3_bucket_versioning'', tl_resource_name = ''logs'', tl_start_line = 2,
     tl_end_line = 6, tl_match_strategy = ''provider_type_and_literal_name'', tl_confidence = 9 / 10,
     tl_source_sha256 = ''hash'', tl_resource_address = ''aws_s3_bucket_versioning.logs'', tl_state_sha256 = [] \<rparr>"

definition sample_proposal :: string where
  "sample_proposal = ''  status = \"Enabled\"''"

lemma sample_patch:
  "case materialize_control_patch sample_source sample_proposal sample_link [''s3_bucket_object_versioning''] of
     Inl e \<Rightarrow> False | Inr (t, how) \<Rightarrow> how = ''deterministic_control_patch''"
  by code_simp

theorem patch_changes_one_literal_witness:
  "\<exists>t before block after block'. materialize_control_patch sample_source sample_proposal sample_link
       [''s3_bucket_object_versioning''] = Inr (t, ''deterministic_control_patch'') \<and>
     sample_source = before @ block @ after \<and> t = before @ block' @ after \<and>
     replaced_once ''status'' unversioned_texts enabled_text block block'"
proof -
  from sample_patch obtain t where t: "materialize_control_patch sample_source sample_proposal sample_link
       [''s3_bucket_object_versioning''] = Inr (t, ''deterministic_control_patch'')"
    by (auto split: sum.splits prod.splits)
  obtain before block after where b: "block_of sample_link sample_source = (before, block, after)"
    by (metis prod_cases3)
  have "tl_resource_type sample_link \<noteq> ''azurerm_storage_account''" by (simp add: sample_link_def)
  with patch_changes_one_literal [OF t b] t show ?thesis by blast
qed

section \<open>A link without evidence\<close>












end
