(* ===== verification/Planning_Witnesses.thy ===== *)
theory Planning_Witnesses
  imports Sample_Worlds Planning_Properties Terraform_Properties
begin

text \<open>
  The planning service at work: a validated case with a confirmed finding, a repository with the
  Terraform source of its bucket, an agent that proposes the edit, and checks that pass.
\<close>

section \<open>A validated case\<close>

definition bucket_source :: string where
  "bucket_source = ''resource \"aws_s3_bucket_versioning\" \"logs\" {'' @ [CHR 0x0A]
     @ ''  bucket = \"logs\"'' @ [CHR 0x0A] @ ''  status = \"Suspended\"'' @ [CHR 0x0A] @ ''}'' @ [CHR 0x0A]"

definition bucket_finding :: stored_finding where
  "bucket_finding = \<lparr> sf_tenant_id = ''t'', sf_finding_id = ''f1'', sf_provider = ''aws'', sf_account = ''a'',
     sf_original_uid = ''o'', sf_resource_uid = ''arn:aws:s3:::logs'',
     sf_record = PDict [(''ocsf'', PDict [(''rule_id'', PStr ''s3_bucket_object_versioning'')])],
     sf_priority_signals = sample_signals False, sf_artifact_namespace = ''n'', sf_case_id = Some ''c'' \<rparr>"

definition validation_kept :: product_record where
  "validation_kept = \<lparr> pr_record_id = ''v'', pr_case_id = ''c'', pr_record_type = ''ValidationResult.v1'',
     pr_schema_version = 1, pr_created_at = ''n'',
     pr_body = PDict [(''findings'', PList [PDict [(''finding_id'', PStr ''f1''), (''status'', PStr ''confirmed'')]])],
     pr_evidence_ids = [''e''] \<rparr>"

definition validated_stages :: "(case_transition \<times> transition_args) list" where
  "validated_stages =
     [(PRIORITIZE, (brief_args ''a'' ''risk_assessment_id'')\<lparr>ta_priority := Some sample_risk\<rparr>),
      (VALIDATE, brief_args ''b'' ''validation_result_id'')]"

definition validated_setup :: "(unit world, unit) prog" where
  "validated_setup = bindM open_sample (\<lambda>_. bindM (store_record validation_kept) (\<lambda>_.
     bindM (on_findings (sql_finding_put bucket_finding)) (\<lambda>_. advances ''c'' validated_stages)))"

definition validated_world :: "unit world" where
  "validated_world = snd (validated_setup (empty_world\<lparr>wd_files := [(''/r/main.tf'', bucket_source)]\<rparr>))"

lemma bucket_signals_ok: "is_ok (mk_priority_signals (sf_priority_signals bucket_finding))"
  by code_simp

lemma validated_world_ok: "world_ok validated_world"
proof -
  have "keeps findings_ok (sql_finding_put bucket_finding)"
    using put_keeps_findings [OF _ bucket_signals_ok surjective_pairing] by (simp add: keeps_def)
  then have "keeps world_ok (on_findings (sql_finding_put bucket_finding) :: (unit world, unit) prog)"
    by (rule keeps_on)
  moreover have "list_all (args_ok \<circ> snd) validated_stages"
    by (simp add: validated_stages_def brief_args_def args_ok_def basic_args_def sample_parts_ok)
  ultimately have "keeps world_ok validated_setup"
    unfolding validated_setup_def open_sample_def by (intro keeps_intros keeps_advances)
  moreover have "world_ok (empty_world\<lparr>wd_files := [(''/r/main.tf'', bucket_source)]\<rparr>)"
    using empty_world_ok by (simp add: world_ok_def)
  ultimately show ?thesis unfolding validated_world_def keeps_def by blast
qed

section \<open>Its plan\<close>

definition one_step :: pyval where
  "one_step = PList [PStr ''s'']"

definition proposal :: "(string, pyval) dict" where
  "proposal =
     [(''objective'', PStr ''o''),
      (''files'', PList [PDict [(''path'', PStr ''main.tf''), (''content'', PStr sample_proposal)]]),
      (''steps'', one_step), (''rollout_steps'', one_step), (''verification_steps'', one_step),
      (''rollback_steps'', one_step), (''rollback_triggers'', one_step)]"

definition planning_env :: env where
  "planning_env = steady_env\<lparr>env_sha256 := (\<lambda>s. ''h'' @ show_nat (length s))\<rparr>"

definition proposing :: "unit agent_runtime" where
  "proposing = \<lparr> rt_name = ''a'', rt_run = (\<lambda>t. ret
     \<lparr> ar_task_id = at_task_id t, ar_case_id = at_case_id t, ar_role = at_role t, ar_status = SUCCEEDED,
       ar_output = proposal, ar_evidence_cited = at_evidence_ids t, ar_missing_evidence = [],
       ar_runtime = ''a'', ar_model = ''m'', ar_started_at = [], ar_completed_at = [], ar_usage = PDict [] \<rparr>) \<rparr>"

definition sample_planner :: "unit planner" where
  "sample_planner = \<lparr> pl_env = planning_env, pl_artifact_root = ''/x'', pl_runtime = proposing,
     pl_schema = (\<lambda>_ _. []), pl_check = (\<lambda>d l s. ret [mk_check ''plan'' [''t''] 0 [] []]),
     pl_link = source_linker planning_env \<rparr>"

lemma sample_planner_aside: "planner_aside sample_planner"
  unfolding planner_aside_def sample_planner_def proposing_def source_linker_def planner.simps agent_runtime.simps
  by (intro conjI allI unmoved_intros)

lemma bucket_planned:
  "is_ok (fst (prepare_plan sample_planner ''c'' ''/r'' None None validated_world))"
  by code_simp

theorem plan_only_of_confirmed_and_checked_witness:
  "\<exists>out w' c es c' e. prepare_plan sample_planner ''c'' ''/r'' None None validated_world = (Inr out, w') \<and>
     sql_view (wd_cases validated_world) ''c'' = Some (c, es) \<and>
     sql_view (wd_cases w') ''c'' = Some (c', es @ [e]) \<and> plan_ready c' out w'"
proof -
  obtain r w' where run: "prepare_plan sample_planner ''c'' ''/r'' None None validated_world = (r, w')"
    by (metis surj_pair)
  then obtain out where out: "r = Inr out" using bucket_planned by (auto simp: is_ok_iff)
  from plan_only_of_confirmed_and_checked [OF validated_world_ok sample_planner_aside run] out
  obtain c es c' e where "sql_view (wd_cases validated_world) ''c'' = Some (c, es)"
    "sql_view (wd_cases w') = (sql_view (wd_cases validated_world))(''c'' \<mapsto> (c', es @ [e]))" "plan_ready c' out w'"
    by auto
  then show ?thesis using run out by auto
qed

end
