(* ===== verification/Spec2Isabelle.thy ===== *)
theory Spec2Isabelle
  imports Store_Properties Scheduling Validation_Properties Json_Roundtrip Intake_Races Intake_Bounds
    Approval_Witnesses Execution_Witnesses Window_Properties Review_Witnesses Portfolio_Properties
    Planning_Witnesses
begin

text \<open>
  El Capitan takes the findings of cloud scanners to a verified remediation: a finding is taken in
  and joined to a case, the case is prioritised and validated against the live resource, a change is
  planned in the Terraform source that owns the resource, agents review it, a person approves it,
  a scheduled job executes it, and probes decide whether it stays. Every step is an event of the
  case and leaves records and evidence. This library models the Python of \<open>src/src/elcapitan\<close> (file
  names below are relative to it) and proves what the steps promise.

  \<^bold>\<open>How code is modelled.\<close> \<open>Prelude\<close> and \<open>Pyvalue\<close>: an exception is a value of \<open>exn\<close> with its class and
  message, and an \<open>except\<close> clause catches subclasses; a function that may raise returns \<open>'a res\<close>; code
  with effects is a \<open>prog\<close>, from a state to a result and the state, so that the effects before an
  exception stay. Dictionaries are association lists in insertion order, JSON values are \<open>pyval\<close>,
  a string is the list of the bytes of its UTF-8 encoding, of which case mapping, white space and
  character classes know the ASCII part, and reading a file in text mode decodes it as the code does
  (\<open>Paths.decode_text\<close>: other bytes than UTF-8 raise, every line end becomes a line feed). Integers are
  unbounded as in Python, and \<open>float\<close> is the rationals. \<open>World\<close> holds what the services share: the tables of the four stores, the files, a
  count of the readings of clock and id factory, and an outside for adapters.

  \<^bold>\<open>The case.\<close> \<open>Cases\<close>, \<open>Case_Transitions\<close> and \<open>Case_Documents\<close> are \<open>cases.py\<close>; \<open>Case_Lifecycle\<close> and
  \<open>Case_Properties\<close> show that the events explain the case, that no stage is skipped, and what the
  records of a stage are. \<open>Workflow\<close> (\<open>workflow.py\<close>) states the contract of a case store as a locale;
  the in-memory store and the SQLite tables of \<open>Case_Store\<close> (\<open>case_store.py\<close>, \<open>Sql\<close>) interpret it, and
  \<open>Case_Logs\<close> and \<open>Store_Properties\<close> carry the invariants over interleaved coordinators. \<open>Records\<close>
  (\<open>product_records.py\<close>), \<open>Findings\<close> (\<open>finding_store.py\<close>) and \<open>Jobs\<close> (\<open>scheduler.py\<close>,
  \<open>postgres_store.py\<close>, with the collation of the database and the rows that other transactions hold as
  parameters) are the other stores; \<open>Json\<close>, \<open>Json_Parser\<close> and \<open>Json_Roundtrip\<close> the canonical
  text (\<open>hashing.py\<close>) and its reader; \<open>Timestamps\<close> and \<open>Ipaddress\<close> what is used of the library.

  \<^bold>\<open>From finding to validated case.\<close> \<open>Normalise\<close> (\<open>finding.py\<close>), \<open>Priority\<close>, \<open>Intake\<close> (\<open>intake.py\<close>):
  intake runs beside other workers, whose steps happen between its store calls; \<open>Intake_Properties\<close>
  is a rely-guarantee proof over them, \<open>Intake_Bounds\<close> counts the calls and \<open>Intake_Races\<close> shows what
  a race may lose. \<open>Control_Models\<close>, the \<open>Pack\<close> theories and \<open>Control_Registry\<close> (\<open>control_packs\<close>) are
  the evaluators; \<open>Validation\<close> and \<open>Validation_Properties\<close> (\<open>case_validation.py\<close>) decide the case by
  them.

  \<^bold>\<open>Planning.\<close> \<open>Terraform_Source\<close> and \<open>Terraform_Link\<close> (\<open>terraform_linker.py\<close>) find the one block that owns
  a resource; \<open>Control_Patch\<close>, \<open>Terraform_Checks\<close> and \<open>Remediation_Planning\<close>
  (\<open>remediation_planning.py\<close>) edit a copy of the repository, have Terraform check it, inspect its plan
  and move the case to \<open>plan_ready\<close>. \<open>Terraform_Properties\<close> shows that the changed paths of a plan are its
  differences and that a plan in scope has one, \<open>Planning_Properties\<close> when a case gets a plan, and that
  planning is a planner the orchestrator may be given.

  \<^bold>\<open>Review.\<close> \<open>Agents\<close> and \<open>Agent_Contracts\<close> are what an agent is asked and may answer; \<open>Agent_Stage\<close>,
  \<open>Reviews\<close>, \<open>Window_Selection\<close>, \<open>Rollback_Review\<close> and \<open>Human_Gate\<close> are \<open>preapproval.py\<close>; \<open>Observability\<close>
  computes the change windows, \<open>Agent_Runs\<close> bounds and records the calls of agents, \<open>Orchestration\<close>
  goes from stage to stage. Their properties are in \<open>Review_Properties\<close>, \<open>Gate_Properties\<close>,
  \<open>Agent_Run_Properties\<close>, \<open>Window_Properties\<close> and \<open>Orchestration_Properties\<close>. \<open>Portfolio\<close>
  (\<open>portfolio.py\<close>) orders the cases of a tenant.

  \<^bold>\<open>Approval and execution.\<close> \<open>Action_Records\<close>, \<open>Approvals\<close>, \<open>Action_Adapters\<close>, \<open>Service_Logic\<close> and
  \<open>Execution\<close> are \<open>action_plane.py\<close>, \<open>Paths\<close> and the evidence of \<open>World\<close> are \<open>paths.py\<close> and
  \<open>evidence.py\<close>, \<open>Scheduling\<close> is the worker of \<open>scheduler.py\<close>. \<open>Frames\<close> has the logic of what a
  computation leaves alone, \<open>Endings\<close> follows an execution to its end. \<open>Execution_Properties\<close> shows what
  had been admitted when an execution changes a case, that none ends half done, and the run, step by
  step, through which alone a case becomes remediated; \<open>Adapter_Properties\<close> what the live probe read in
  that run and what the filesystem driver restores, \<open>Approval_Properties\<close> what an approval binds, and
  \<open>Scheduling\<close> and \<open>Jobs\<close> hold their own.

  \<^bold>\<open>All together.\<close> \<open>Durability\<close> states one relation, kept by every call of a store and therefore by every
  service: stores stay in order, logs grow by transitions, records never change. \<open>System\<close> closes it
  under any sequence of operations. \<open>Sample_Worlds\<close> and the \<open>Witnesses\<close> theories run the services on
  concrete worlds, which shows that the hypotheses of the properties can hold.

  \<^bold>\<open>Gaps.\<close> Some theorems state where the code does not do what it means to, in general and with a
  concrete case as witness: a finding added while a case is blocked (\<open>Case_Properties\<close>), the contained
  rollback on PostgreSQL (\<open>Scheduling\<close>), the lost priority (\<open>Intake_Races\<close>), a window in a clock change
  (\<open>Window_Properties\<close>), the limit of parallel changes (\<open>Portfolio_Properties\<close>), a block that does not
  name its resource (\<open>Terraform_Properties\<close>), and a file with carriage returns (\<open>Adapter_Properties\<close>).

  \<^bold>\<open>Bounds.\<close> Loops of the code with a fixed limit keep it: three attempts of intake, two corrections and
  one further question of an agent, fourteen turns of the orchestrator. The JSON parser takes as fuel
  the length of its text, which every recursive call shortens. Other recursion terminates on its
  arguments.

  \<^bold>\<open>Parameters.\<close> Clock, fresh ids and SHA-256 are the record \<open>env\<close>; the JSON-schema library, the time-zone
  database, the URL parser, cloud readers, change drivers, monitors, HTTP clients, agents and the
  start of a process are arguments. Theorems assume of them what they state: that an agent or driver
  does not undo what is durable, or that ids are fresh.

  \<^bold>\<open>Not modelled.\<close> The command line (\<open>cli.py\<close>) and the web applications (\<open>demo\<close>, \<open>review\<close>, \<open>shadow\<close>)
  construct the services and render their results; \<open>cloud.py\<close>, \<open>aws_action.py\<close>, \<open>azure_action.py\<close> and
  \<open>aws_cdk.py\<close> run the command lines of the providers and are behind the parameters; the model
  providers are HTTP clients and \<open>model_egress.py\<close> redacts by regular expressions; the PostgreSQL case,
  record and finding stores repeat the SQLite ones; \<open>fleet.py\<close>, \<open>promotion.py\<close>, \<open>asff.py\<close>,
  \<open>asset_context.py\<close> and \<open>offline_report.py\<close> import and report. Links to CDK stacks, symbolic links,
  case and white space of characters beyond ASCII, rounding of floats and the handler of the identity proxy are left out
  where the modelled files have them.
\<close>

end
